(* ===== verification/Wasmcat_Prelude.thy ===== *)
theory Wasmcat_Prelude
  imports
    Complex_Main
    "HOL-Library.Multiset"
    "HOL-Library.AList"
    "HOL-Library.Word"
begin

text \<open>
  The vocabulary every component of the development shares: what the Go language and its
  standard library give the sources, and the lemmas about it.

  \<^item> Results: a Go function returning \<open>(T, error)\<close> is a value of \<open>string + 'a\<close>, \<open>Inl\<close> the
    error text; one returning \<open>error\<close> is a \<open>string option\<close>, \<open>None\<close> for \<open>nil\<close>.
  \<^item> Strings are byte sequences, as in Go, so \<open>length\<close> counts bytes.
  \<^item> \<open>float64\<close> keeps the values the comparisons of the code treat apart: a finite number, the
    infinities and NaN. Rounding of finite numbers is idealised to the reals.
  \<^item> \<open>time.Time\<close> is the number of nanoseconds since the zero time of Go (year 1), so the zero
    value is \<open>0\<close>; a \<open>time.Duration\<close> is a number of nanoseconds, and \<open>Sub\<close> saturates at the
    bounds of int64 as \<open>time.Time.Sub\<close> does.
  \<^item> A Go map is an association list with distinct keys. The order in which \<open>range\<close> visits a
    map is unspecified in Go, so every loop over a map takes that order as an argument, a
    function that permutes the entries.
\<close>

named_theorems go_simps \<open>equations of the Go standard library model\<close>
named_theorems wf_intros \<open>well-formedness of maps and stores, kept by every operation\<close>

section \<open>Results\<close>

type_synonym 'a go_result = "string + 'a"
type_synonym go_error = "string option"

fun is_ok :: "'a go_result \<Rightarrow> bool" where
  "is_ok (Inr _) = True"
| "is_ok (Inl _) = False"

lemma is_ok_iff: "is_ok r \<longleftrightarrow> (\<exists>v. r = Inr v)"
  by (cases r) auto

section \<open>Strings\<close>

subsection \<open>White space\<close>

text \<open>
  \<open>strings.TrimSpace\<close> removes leading and trailing runes with the Unicode property
  White_Space. Below are their UTF-8 encodings.
\<close>

definition space_runes :: "string list" where
  "space_runes =
    [[CHR 0x09], [CHR 0x0A], [CHR 0x0B], [CHR 0x0C], [CHR 0x0D], [CHR 0x20],
     [CHR 0xC2, CHR 0x85], [CHR 0xC2, CHR 0xA0], [CHR 0xE1, CHR 0x9A, CHR 0x80],
     [CHR 0xE2, CHR 0x80, CHR 0x80], [CHR 0xE2, CHR 0x80, CHR 0x81],
     [CHR 0xE2, CHR 0x80, CHR 0x82], [CHR 0xE2, CHR 0x80, CHR 0x83],
     [CHR 0xE2, CHR 0x80, CHR 0x84], [CHR 0xE2, CHR 0x80, CHR 0x85],
     [CHR 0xE2, CHR 0x80, CHR 0x86], [CHR 0xE2, CHR 0x80, CHR 0x87],
     [CHR 0xE2, CHR 0x80, CHR 0x88], [CHR 0xE2, CHR 0x80, CHR 0x89],
     [CHR 0xE2, CHR 0x80, CHR 0x8A], [CHR 0xE2, CHR 0x80, CHR 0xA8],
     [CHR 0xE2, CHR 0x80, CHR 0xA9], [CHR 0xE2, CHR 0x80, CHR 0xAF],
     [CHR 0xE2, CHR 0x81, CHR 0x9F], [CHR 0xE3, CHR 0x80, CHR 0x80]]"

definition HasPrefix :: "string \<Rightarrow> string \<Rightarrow> bool" where
  "HasPrefix s p \<longleftrightarrow> take (length p) s = p"

definition HasSuffix :: "string \<Rightarrow> string \<Rightarrow> bool" where
  "HasSuffix s p \<longleftrightarrow> HasPrefix (rev s) (rev p)"

function trim_runes :: "string list \<Rightarrow> string \<Rightarrow> string" where
  "trim_runes encs s =
     (case find (\<lambda>e. e \<noteq> [] \<and> HasPrefix s e) encs of
        None \<Rightarrow> s
      | Some e \<Rightarrow> trim_runes encs (drop (length e) s))"
  by pat_completeness auto
termination
proof (relation "measure (\<lambda>(encs, s). length s)", goal_cases)
  case 1
  show ?case by simp
next
  case (2 encs s e)
  then have "e \<noteq> []" and "take (length e) s = e"
    by (auto simp: find_Some_iff HasPrefix_def)
  then have "s \<noteq> []" and "0 < length e" by auto
  then show ?case by (cases s) auto
qed

declare trim_runes.simps [simp del]

definition TrimSpace :: "string \<Rightarrow> string" where
  "TrimSpace s = rev (trim_runes (map rev space_runes) (rev (trim_runes space_runes s)))"

text \<open>A string is trimmed when no space rune starts or ends it.\<close>

definition unspaced :: "string list \<Rightarrow> string \<Rightarrow> bool" where
  "unspaced encs s \<longleftrightarrow> (\<forall>e \<in> set encs. e \<noteq> [] \<longrightarrow> \<not> HasPrefix s e)"

lemma trim_runes_id: "unspaced encs s \<Longrightarrow> trim_runes encs s = s"
  by (subst trim_runes.simps) (auto simp: unspaced_def find_Some_iff split: option.splits)

lemma trim_runes_unspaced: "unspaced encs (trim_runes encs s)"
proof (induction encs s rule: trim_runes.induct)
  case (1 encs s)
  show ?case
  proof (cases "find (\<lambda>e. e \<noteq> [] \<and> HasPrefix s e) encs")
    case None
    then have "unspaced encs s" by (auto simp: unspaced_def find_None_iff)
    then show ?thesis by (simp add: trim_runes_id)
  next
    case (Some e)
    with "1.IH" show ?thesis by (subst trim_runes.simps) simp
  qed
qed

lemma trim_runes_suffix: "\<exists>p. s = p @ trim_runes encs s"
proof (induction encs s rule: trim_runes.induct)
  case (1 encs s)
  show ?case
  proof (cases "find (\<lambda>e. e \<noteq> [] \<and> HasPrefix s e) encs")
    case None
    then show ?thesis by (subst trim_runes.simps) simp
  next
    case (Some e)
    with "1.IH" obtain p where "drop (length e) s = p @ trim_runes encs (drop (length e) s)"
      by blast
    then have "s = (take (length e) s @ p) @ trim_runes encs (drop (length e) s)"
      by (metis append.assoc append_take_drop_id)
    then have "\<exists>q. s = q @ trim_runes encs (drop (length e) s)" by blast
    with Some show ?thesis by (simp add: trim_runes.simps [of encs s])
  qed
qed

lemma HasPrefix_append: "HasPrefix s p \<Longrightarrow> HasPrefix (s @ t) p"
  unfolding HasPrefix_def by (metis append_Nil2 append_eq_conv_conj append_take_drop_id append_assoc)

lemma unspaced_take: "unspaced encs (s @ t) \<Longrightarrow> unspaced encs s"
  by (auto simp: unspaced_def dest: HasPrefix_append)

lemma unspaced_rev_trim:
  assumes "unspaced encs s"
  shows "unspaced encs (rev (trim_runes encs' (rev s)))"
proof -
  obtain p where "rev s = p @ trim_runes encs' (rev s)"
    using trim_runes_suffix by blast
  then have "s = rev (trim_runes encs' (rev s)) @ rev p"
    by (metis rev_append rev_rev_ident)
  with assms show ?thesis using unspaced_take by metis
qed

lemma TrimSpace_trimmed:
  "unspaced space_runes (TrimSpace s)" "unspaced (map rev space_runes) (rev (TrimSpace s))"
  unfolding TrimSpace_def
  by (auto intro: unspaced_rev_trim trim_runes_unspaced)

lemma TrimSpace_id:
  assumes "unspaced space_runes s" "unspaced (map rev space_runes) (rev s)"
  shows "TrimSpace s = s"
  using assms by (simp add: TrimSpace_def trim_runes_id)

lemma TrimSpace_idem [simp]: "TrimSpace (TrimSpace s) = TrimSpace s"
  by (rule TrimSpace_id [OF TrimSpace_trimmed])

lemma HasPrefix_simps [simp, go_simps]:
  "HasPrefix s []"
  "HasPrefix [] (c # p) = False"
  "HasPrefix (d # s) (c # p) = (d = c \<and> HasPrefix s p)"
  by (auto simp: HasPrefix_def)

lemma HasPrefix_iff: "HasPrefix s p \<longleftrightarrow> (\<exists>t. s = p @ t)"
  unfolding HasPrefix_def by (metis append_eq_conv_conj append_take_drop_id)

lemma TrimSpace_Nil [simp, go_simps]: "TrimSpace [] = []"
  by (rule TrimSpace_id) (auto simp: unspaced_def neq_Nil_conv)

text \<open>A non-empty string of printable ASCII bytes is its own trimming.\<close>

definition ascii_visible :: "char \<Rightarrow> bool" where
  "ascii_visible c \<longleftrightarrow> 32 < (of_char c :: nat) \<and> (of_char c :: nat) < 128"

lemma space_runes_ends:
  "list_all (\<lambda>e. e \<noteq> [] \<and> \<not> ascii_visible (hd e) \<and> \<not> ascii_visible (last e)) space_runes"
  by code_simp

lemma unspaced_visible:
  assumes "list_all (\<lambda>e. e \<noteq> [] \<and> \<not> ascii_visible (hd e)) encs" "list_all ascii_visible s"
  shows "unspaced encs s"
  unfolding unspaced_def
proof (intro ballI impI notI)
  fix e assume "e \<in> set encs" "e \<noteq> []" "HasPrefix s e"
  then obtain c t u where "e = c # t" "s = (c # t) @ u"
    by (auto simp: HasPrefix_iff neq_Nil_conv)
  with assms \<open>e \<in> set encs\<close> show False by (auto simp: list_all_iff)
qed

lemma TrimSpace_visible:
  assumes "list_all ascii_visible s"
  shows "TrimSpace s = s"
proof (rule TrimSpace_id)
  show "unspaced space_runes s"
    using space_runes_ends assms by (auto intro!: unspaced_visible simp: list_all_iff)
  show "unspaced (map rev space_runes) (rev s)"
    using space_runes_ends assms
    by (auto intro!: unspaced_visible simp: list_all_iff hd_rev)
qed

subsection \<open>Cutting, splitting and joining\<close>

text \<open>The separators and cut sets of the sources are single ASCII bytes.\<close>

definition TrimLeft :: "char \<Rightarrow> string \<Rightarrow> string" where
  "TrimLeft c s = dropWhile (\<lambda>d. d = c) s"

definition TrimRight :: "char \<Rightarrow> string \<Rightarrow> string" where
  "TrimRight c s = rev (dropWhile (\<lambda>d. d = c) (rev s))"

definition Trim :: "char \<Rightarrow> string \<Rightarrow> string" where
  "Trim c s = TrimRight c (TrimLeft c s)"

definition TrimPrefix :: "string \<Rightarrow> string \<Rightarrow> string" where
  "TrimPrefix s p = (if HasPrefix s p then drop (length p) s else s)"

definition TrimSuffix :: "string \<Rightarrow> string \<Rightarrow> string" where
  "TrimSuffix s p = (if HasSuffix s p then take (length s - length p) s else s)"

fun Split :: "char \<Rightarrow> string \<Rightarrow> string list" where
  "Split c [] = [[]]"
| "Split c (d # s) =
     (if d = c then [] # Split c s
      else (case Split c s of [] \<Rightarrow> [[d]] | w # ws \<Rightarrow> (d # w) # ws))"

fun Join :: "string list \<Rightarrow> string \<Rightarrow> string" where
  "Join [] sep = []"
| "Join [w] sep = w"
| "Join (w # v # ws) sep = w @ sep @ Join (v # ws) sep"

fun Cut :: "char \<Rightarrow> string \<Rightarrow> string \<times> string \<times> bool" where
  "Cut c [] = ([], [], False)"
| "Cut c (d # s) =
     (if d = c then ([], s, True)
      else (case Cut c s of (a, b, ok) \<Rightarrow> (d # a, b, ok)))"

lemma Split_not_Nil [simp]: "Split c s \<noteq> []"
  by (induction s) (auto split: list.splits)

lemma Join_Split: "Join (Split c s) [c] = s"
proof (induction s)
  case Nil
  show ?case by simp
next
  case (Cons d s)
  obtain w ws where "Split c s = w # ws" by (cases "Split c s") auto
  with Cons show ?case by (cases ws) auto
qed

lemma Split_no_sep: "w \<in> set (Split c s) \<Longrightarrow> c \<notin> set w"
  by (induction s arbitrary: w) (auto split: list.splits if_splits)

lemma Split_append_sep: "c \<notin> set w \<Longrightarrow> Split c (w @ c # s) = w # Split c s"
  by (induction w) auto

lemma Split_word: "c \<notin> set w \<Longrightarrow> Split c w = [w]"
  by (induction w) auto

lemma Split_Join: "ws \<noteq> [] \<Longrightarrow> \<forall>w \<in> set ws. c \<notin> set w \<Longrightarrow> Split c (Join ws [c]) = ws"
proof (induction ws)
  case (Cons w ws)
  then show ?case by (cases ws) (simp_all add: Split_append_sep Split_word)
qed simp

lemma Cut_no_sep: "c \<notin> set s \<Longrightarrow> Cut c s = (s, [], False)"
  by (induction s) auto

lemma Cut_append: "c \<notin> set a \<Longrightarrow> Cut c (a @ c # b) = (a, b, True)"
  by (induction a) auto

lemma Cut_found: "Cut c s = (a, b, True) \<longleftrightarrow> c \<notin> set a \<and> s = a @ c # b"
proof
  show "Cut c s = (a, b, True) \<Longrightarrow> c \<notin> set a \<and> s = a @ c # b"
    by (induction s arbitrary: a) (auto split: if_splits prod.splits)
qed (auto simp: Cut_append)

lemma dropWhile_hd: "dropWhile P s \<noteq> [] \<Longrightarrow> \<not> P (hd (dropWhile P s))"
  by (induction s) auto

lemma TrimRight_idem [simp]: "TrimRight c (TrimRight c s) = TrimRight c s"
  by (simp add: TrimRight_def dropWhile_idem)

lemma TrimRight_last: "TrimRight c s \<noteq> [] \<Longrightarrow> last (TrimRight c s) \<noteq> c"
  unfolding TrimRight_def using dropWhile_hd [of "\<lambda>d. d = c" "rev s"] by (simp add: last_rev)

subsection \<open>Lower case\<close>

text \<open>
  \<open>strings.ToLower\<close> maps ASCII-only strings byte by byte and any other string with the
  Unicode tables. The tables are an argument.
\<close>

definition lower_byte :: "char \<Rightarrow> char" where
  "lower_byte c = (if 65 \<le> (of_char c :: nat) \<and> (of_char c :: nat) \<le> 90
     then char_of ((of_char c :: nat) + 32) else c)"

definition is_ascii :: "string \<Rightarrow> bool" where
  "is_ascii s \<longleftrightarrow> list_all (\<lambda>c. (of_char c :: nat) < 128) s"

definition ToLower :: "(string \<Rightarrow> string) \<Rightarrow> string \<Rightarrow> string" where
  "ToLower unicode s = (if is_ascii s then map lower_byte s else unicode s)"

lemma lower_byte_idem [simp]: "lower_byte (lower_byte c) = lower_byte c"
  by (simp add: lower_byte_def of_char_of)

lemma lower_byte_ascii: "(of_char c :: nat) < 128 \<Longrightarrow> (of_char (lower_byte c) :: nat) < 128"
  by (simp add: lower_byte_def of_char_of)

lemma ToLower_ascii_idem: "is_ascii s \<Longrightarrow> ToLower u (ToLower u s) = ToLower u s"
  by (auto simp: ToLower_def is_ascii_def list_all_iff lower_byte_ascii)

subsection \<open>Hexadecimal text\<close>

definition hex_digit :: "nat \<Rightarrow> char" where
  "hex_digit n = ''0123456789abcdef'' ! (n mod 16)"

definition hex_encode :: "string \<Rightarrow> string" where
  "hex_encode bs = concat (map (\<lambda>b. [hex_digit (of_char b div 16), hex_digit (of_char b)]) bs)"

definition is_hex :: "char \<Rightarrow> bool" where
  "is_hex c \<longleftrightarrow> c \<in> set ''0123456789abcdefABCDEF''"

definition hex_valid :: "string \<Rightarrow> bool" where
  "hex_valid s \<longleftrightarrow> even (length s) \<and> list_all is_hex s"

lemma hex_digit_set: "hex_digit n \<in> set ''0123456789abcdef''"
  unfolding hex_digit_def by (rule nth_mem) simp

lemma hex_encode_all:
  assumes "list_all P ''0123456789abcdef''"
  shows "list_all P (hex_encode bs)"
proof -
  have "P (hex_digit n)" for n
    using hex_digit_set [of n] assms unfolding list_all_iff by blast
  then show ?thesis by (induction bs) (simp_all add: hex_encode_def)
qed

lemma length_hex_encode [simp]: "length (hex_encode bs) = 2 * length bs"
  unfolding hex_encode_def by (induction bs) auto

lemma hex_valid_encode: "hex_valid (hex_encode bs)"
proof -
  have "list_all is_hex ''0123456789abcdef''" by code_simp
  then show ?thesis by (simp add: hex_valid_def hex_encode_all)
qed

lemma lower_hex_encode: "map lower_byte (hex_encode bs) = hex_encode bs"
proof -
  have "list_all (\<lambda>c. lower_byte c = c) ''0123456789abcdef''" by code_simp
  then have "list_all (\<lambda>c. lower_byte c = c) (hex_encode bs)" by (rule hex_encode_all)
  then show ?thesis by (intro map_idI) (simp add: list_all_iff)
qed

section \<open>Numbers\<close>

datatype float64 = Fin real | PosInf | NegInf | NaN

fun flt_less :: "float64 \<Rightarrow> float64 \<Rightarrow> bool" where
  "flt_less (Fin a) (Fin b) = (a < b)"
| "flt_less (Fin _) PosInf = True"
| "flt_less NegInf (Fin _) = True"
| "flt_less NegInf PosInf = True"
| "flt_less _ _ = False"

fun flt_eq :: "float64 \<Rightarrow> float64 \<Rightarrow> bool" where
  "flt_eq NaN _ = False"
| "flt_eq _ NaN = False"
| "flt_eq a b = (a = b)"

definition MaxFloat64 :: float64 where
  "MaxFloat64 = Fin ((2 ^ 53 - 1) * 2 ^ 971)"

lemma flt_less_trans: "flt_less a b \<Longrightarrow> flt_less b c \<Longrightarrow> flt_less a c"
  by (cases a; cases b; cases c) auto

lemma flt_less_irrefl [simp]: "\<not> flt_less a a"
  by (cases a) auto

lemma flt_less_NaN [simp]: "\<not> flt_less NaN a" "\<not> flt_less a NaN"
  by (cases a; simp)+

lemma flt_not_less_trans:
  "\<not> flt_less b a \<Longrightarrow> flt_less c b \<Longrightarrow> \<not> flt_less c a \<Longrightarrow> a \<noteq> NaN \<Longrightarrow> flt_less a b \<or> a = c \<or> flt_less a c"
  by (cases a; cases b; cases c) auto

text \<open>Decimal text, \<open>strconv.Itoa\<close>.\<close>

fun nat_itoa :: "nat \<Rightarrow> string" where
  "nat_itoa n = (if n < 10 then [char_of (48 + n)] else nat_itoa (n div 10) @ [char_of (48 + n mod 10)])"

declare nat_itoa.simps [simp del]

definition itoa :: "int \<Rightarrow> string" where
  "itoa i = (if i < 0 then CHR ''-'' # nat_itoa (nat (- i)) else nat_itoa (nat i))"

text \<open>Conversion of a float64 number of seconds to int64 drops the fraction, towards zero.\<close>

definition trunc_div :: "int \<Rightarrow> int \<Rightarrow> int" where
  "trunc_div a b = (if 0 \<le> a then a div b else - ((- a) div b))"

lemma trunc_div_nonneg: "0 \<le> a \<Longrightarrow> 0 < b \<Longrightarrow> 0 \<le> trunc_div a b"
  by (simp add: trunc_div_def pos_imp_zdiv_nonneg_iff)

lemma trunc_div_neg: "a \<le> 0 \<Longrightarrow> 0 < b \<Longrightarrow> trunc_div a b \<le> 0"
  by (auto simp: trunc_div_def pos_imp_zdiv_nonneg_iff)

lemma trunc_div_mono: "a \<le> a' \<Longrightarrow> 0 < b \<Longrightarrow> trunc_div a b \<le> trunc_div a' b"
proof (cases "0 \<le> a")
  case True
  then show "a \<le> a' \<Longrightarrow> 0 < b \<Longrightarrow> ?thesis" by (simp add: trunc_div_def zdiv_mono1)
next
  case False
  assume *: "a \<le> a'" "0 < b"
  show ?thesis
  proof (cases "0 \<le> a'")
    case True
    then show ?thesis
      using False * trunc_div_neg [of a b] trunc_div_nonneg [of a' b] by linarith
  next
    case f: False
    then show ?thesis using False * by (simp add: trunc_div_def zdiv_mono1)
  qed
qed

section \<open>Time\<close>

type_synonym time = int
type_synonym duration = int

abbreviation (input) Second :: duration where "Second \<equiv> 1000000000"

definition min_duration :: duration where "min_duration = - (2 ^ 63)"
definition max_duration :: duration where "max_duration = 2 ^ 63 - 1"

text \<open>Addition of \<open>int64\<close> values wraps around.\<close>

definition add64 :: "int \<Rightarrow> int \<Rightarrow> int" where
  "add64 a b = (a + b + 2 ^ 63) mod 2 ^ 64 - 2 ^ 63"

lemma add64_exact: "min_duration \<le> a + b \<Longrightarrow> a + b \<le> max_duration \<Longrightarrow> add64 a b = a + b"
  by (simp add: add64_def min_duration_def max_duration_def)

lemma add64_range: "min_duration \<le> add64 a b" "add64 a b \<le> max_duration"
proof -
  have "0 \<le> (a + b + 2 ^ 63) mod 2 ^ 64" "(a + b + 2 ^ 63) mod 2 ^ 64 < (2::int) ^ 64" by (rule pos_mod_sign pos_mod_bound; simp)+
  then show "min_duration \<le> add64 a b" "add64 a b \<le> max_duration"
    by (simp_all add: add64_def min_duration_def max_duration_def)
qed

text \<open>So does multiplication.\<close>

definition mul64 :: "int \<Rightarrow> int \<Rightarrow> int" where
  "mul64 a b = (a * b + 2 ^ 63) mod 2 ^ 64 - 2 ^ 63"

definition Sub :: "time \<Rightarrow> time \<Rightarrow> duration" where
  "Sub t u = max min_duration (min max_duration (t - u))"

abbreviation IsZero :: "time \<Rightarrow> bool" where "IsZero t \<equiv> t = 0"

lemma Sub_gt_iff:
  assumes "min_duration \<le> d" "d < max_duration"
  shows "Sub t u > d \<longleftrightarrow> t - u > d"
  using assms by (auto simp: Sub_def)

lemma Sub_bounds: "min_duration \<le> Sub t u" "Sub t u \<le> max_duration"
  by (auto simp: Sub_def min_duration_def max_duration_def)

end
