(* ===== verification/Go_Maps.thy ===== *)
theory Go_Maps
  imports Wasmcat_Prelude
begin

text \<open>
  Go maps and the loops the sources run over them: deleting every entry that meets a
  condition, looking for the least entry, and evicting entries until a bound holds. Each loop
  is written once here with its specification; the components instantiate it.
\<close>

type_synonym ('k, 'v) gomap = "('k \<times> 'v) list"
type_synonym ('k, 'v) visit = "('k, 'v) gomap \<Rightarrow> ('k, 'v) gomap"

abbreviation wf_map :: "('k, 'v) gomap \<Rightarrow> bool" where
  "wf_map m \<equiv> distinct (map fst m)"

abbreviation go_put :: "'k \<Rightarrow> 'v \<Rightarrow> ('k, 'v) gomap \<Rightarrow> ('k, 'v) gomap" where
  "go_put \<equiv> AList.update"

abbreviation go_delete :: "'k \<Rightarrow> ('k, 'v) gomap \<Rightarrow> ('k, 'v) gomap" where
  "go_delete \<equiv> AList.delete"

text \<open>
  \<open>range_of it m\<close> is the sequence of entries a \<open>range\<close> loop visits: \<open>it\<close> picks the order. A
  function that does not permute the entries of \<open>m\<close> is no iteration order, and stands for
  the order of the list itself.
\<close>

definition range_of :: "('k, 'v) visit \<Rightarrow> ('k, 'v) gomap \<Rightarrow> ('k, 'v) gomap" where
  "range_of it m = (if mset (it m) = mset m then it m else m)"

lemma mset_range_of [simp]: "mset (range_of it m) = mset m"
  by (simp add: range_of_def)

lemma set_range_of [simp]: "set (range_of it m) = set m"
  by (metis mset_range_of set_mset_mset)

lemma length_range_of [simp]: "length (range_of it m) = length m"
  by (metis mset_range_of size_mset)

lemma wf_range_of [simp]: "wf_map (range_of it m) = wf_map m"
  by (metis mset_map mset_range_of mset_eq_imp_distinct_iff)

lemma range_of_id [simp]: "range_of (\<lambda>m. m) m = m" "range_of id m = m"
  by (simp_all add: range_of_def)

lemma map_of_range_of: "wf_map m \<Longrightarrow> map_of (range_of it m) = map_of m"
  by (metis map_of_inject_set set_range_of wf_range_of)

section \<open>Lookup after update\<close>

lemma wf_put [wf_intros, simp]: "wf_map m \<Longrightarrow> wf_map (go_put k v m)"
  by (rule distinct_update)

lemma wf_delete [wf_intros, simp]: "wf_map m \<Longrightarrow> wf_map (go_delete k m)"
  by (rule distinct_delete)

lemma map_of_put [simp]: "map_of (go_put k v m) = (map_of m)(k \<mapsto> v)"
  by (rule update_conv')

lemma map_of_del [simp]: "map_of (go_delete k m) = (map_of m)(k := None)"
  by (rule delete_conv')

lemma length_put: "length (go_put k v m) = (if map_of m k = None then Suc (length m) else length m)"
  by (induction m) auto

lemma length_delete_less: "map_of m k \<noteq> None \<Longrightarrow> length (go_delete k m) < length m"
proof (induction m)
  case (Cons p m)
  show ?case
  proof (cases "fst p = k")
    case True
    then have "go_delete k (p # m) = go_delete k m" by (cases p) simp
    then show ?thesis using length_delete_le [of k m] by simp
  next
    case False
    with Cons show ?thesis by (cases p) (auto split: if_splits)
  qed
qed simp

lemma length_delete_wf:
  "wf_map m \<Longrightarrow> map_of m k \<noteq> None \<Longrightarrow> Suc (length (go_delete k m)) = length m"
proof (induction m)
  case (Cons p m)
  then show ?case
    by (cases p) (force simp: map_of_eq_None_iff delete_id split: if_splits)
qed simp

lemma set_put: "set (go_put k v m) \<subseteq> insert (k, v) (set m)"
  by (induction m) auto

lemma set_delete: "set (go_delete k m) = {(j, v). (j, v) \<in> set m \<and> j \<noteq> k}"
  by (auto simp: AList.delete_eq)

lemma set_put_wf: "wf_map m \<Longrightarrow> set (go_put k v m) = insert (k, v) {(j, w). (j, w) \<in> set m \<and> j \<noteq> k}"
  by (induction m) force+

section \<open>Deleting what meets a condition\<close>

text \<open>\<open>for k, v := range m { if P(k, v) { delete(m, k) } }\<close>\<close>

definition delete_where :: "('k, 'v) visit \<Rightarrow> ('k \<Rightarrow> 'v \<Rightarrow> bool) \<Rightarrow> ('k, 'v) gomap \<Rightarrow> ('k, 'v) gomap" where
  "delete_where it P m =
     fold (\<lambda>(k, v) acc. if P k v then go_delete k acc else acc) (range_of it m) m"

lemma fold_delete_eq:
  "fold (\<lambda>(k, v) acc. if P k v then go_delete k acc else acc) xs m =
   filter (\<lambda>(k, _). \<nexists>w. (k, w) \<in> set xs \<and> P k w) m"
proof (induction xs arbitrary: m)
  case Nil
  have "filter (\<lambda>(k, _). True) m = m" by (induction m) auto
  then show ?case by simp
next
  case (Cons x xs)
  obtain j w where x: "x = (j, w)" by force
  show ?case
    unfolding x using Cons.IH
    by (auto simp: AList.delete_eq intro!: filter_cong)
qed

text \<open>
  On a map, the loop keeps exactly the entries that do not meet the condition, whatever the
  order of iteration.
\<close>

lemma delete_where_eq:
  assumes "wf_map m"
  shows "delete_where it P m = filter (\<lambda>(k, v). \<not> P k v) m"
  unfolding delete_where_def fold_delete_eq set_range_of
  using assms by (intro filter_cong) (auto dest: eq_key_imp_eq_value)

lemma wf_filter [wf_intros, simp]: "wf_map m \<Longrightarrow> wf_map (filter P m)"
  by (induction m) auto

lemma map_of_filter_wf:
  "wf_map m \<Longrightarrow> map_of (filter (\<lambda>(k, v). Q k v) m) k =
     (case map_of m k of None \<Rightarrow> None | Some v \<Rightarrow> if Q k v then Some v else None)"
proof (induction m)
  case (Cons p m)
  obtain j w where p: "p = (j, w)" by force
  show ?case
  proof (cases "j = k")
    case True
    have "map_of (filter (\<lambda>(k, v). Q k v) m) k = None"
      using Cons.prems True p by (auto simp: map_of_eq_None_iff)
    then show ?thesis using True p by auto
  next
    case False
    then show ?thesis using Cons p by auto
  qed
qed simp

section \<open>Looking for the least entry\<close>

text \<open>
  The scan \<open>if !found || key(x) < key(best) { best = x; found = true }\<close> over the entries that
  qualify, the pair of \<open>found\<close> and \<open>best\<close> as an option.
\<close>

fun scan_min :: "('a \<Rightarrow> bool) \<Rightarrow> ('a \<Rightarrow> 'b::linorder) \<Rightarrow> 'a list \<Rightarrow> 'a option \<Rightarrow> 'a option" where
  "scan_min q key [] best = best"
| "scan_min q key (x # xs) best =
     scan_min q key xs
       (if q x \<and> (case best of None \<Rightarrow> True | Some y \<Rightarrow> key x < key y) then Some x else best)"

lemma scan_min_Some_start:
  "\<exists>z. scan_min q key xs (Some y) = Some z \<and> (z = y \<or> z \<in> set xs \<and> q z) \<and> key z \<le> key y \<and>
     (\<forall>x \<in> set xs. q x \<longrightarrow> key z \<le> key x)"
proof (induction xs arbitrary: y)
  case Nil
  show ?case by simp
next
  case (Cons a xs)
  show ?case
  proof (cases "q a \<and> key a < key y")
    case True
    with Cons [of a] show ?thesis by (auto 0 4)
  next
    case False
    with Cons [of y] show ?thesis by (auto 0 4)
  qed
qed

lemma scan_min_None: "scan_min q key xs None = None \<longleftrightarrow> (\<forall>x \<in> set xs. \<not> q x)"
proof (induction xs)
  case (Cons a xs)
  show ?case
    using Cons scan_min_Some_start [of q key xs a] by auto
qed simp

lemma scan_min_Some:
  "scan_min q key xs None = Some z \<Longrightarrow> z \<in> set xs \<and> q z \<and> (\<forall>x \<in> set xs. q x \<longrightarrow> key z \<le> key x)"
proof (induction xs)
  case (Cons a xs)
  then show ?case
    using scan_min_Some_start [of q key xs a] by (cases "q a") auto
qed simp

text \<open>Where the keys of the qualifying entries differ, the order of the scan does not matter.\<close>

lemma scan_min_order:
  assumes "set xs = set ys" "inj_on key {x \<in> set xs. q x}"
  shows "scan_min q key xs None = scan_min q key ys None"
proof (cases "scan_min q key xs None")
  case None
  with assms(1) have "scan_min q key ys None = None" by (simp add: scan_min_None)
  with None show ?thesis by simp
next
  case (Some z)
  from scan_min_Some [OF Some] assms(1) have "scan_min q key ys None \<noteq> None"
    by (auto simp: scan_min_None)
  then obtain z' where z': "scan_min q key ys None = Some z'" by blast
  have "key z = key z'"
    using scan_min_Some [OF Some] scan_min_Some [OF z'] assms(1) by (simp add: order_antisym)
  then have "z = z'"
    using scan_min_Some [OF Some] scan_min_Some [OF z'] assms by (auto dest: inj_onD)
  with Some z' show ?thesis by simp
qed

section \<open>Evicting until a bound holds\<close>

text \<open>
  The contract between a store that evicts and whoever relies on its bound: \<open>loop\<close> removes
  the victim while the store is over its bound, and every removal makes the store smaller.
\<close>

locale eviction_loop =
  fixes over :: "'s \<Rightarrow> bool"
    and victim :: "'s \<Rightarrow> 'v option"
    and remove :: "'s \<Rightarrow> 'v \<Rightarrow> 's"
    and sz :: "'s \<Rightarrow> nat"
    and loop :: "'s \<Rightarrow> 's"
  assumes unfold_loop:
    "loop s = (if over s then (case victim s of None \<Rightarrow> s | Some v \<Rightarrow> loop (remove s v)) else s)"
    and remove_smaller: "victim s = Some v \<Longrightarrow> sz (remove s v) < sz s"
begin

lemma loop_induct [case_names step]:
  assumes "\<And>s. (\<And>v. over s \<Longrightarrow> victim s = Some v \<Longrightarrow> P (remove s v)) \<Longrightarrow> P s"
  shows "P s"
proof (induction "sz s" arbitrary: s rule: less_induct)
  case less
  show ?case
    by (rule assms) (use less remove_smaller in blast)
qed

lemma loop_done: "over (loop s) \<Longrightarrow> victim (loop s) = None"
proof (induction s rule: loop_induct)
  case (step s)
  show ?case
    using step by (cases "over s"; cases "victim s") (auto simp: unfold_loop [of s])
qed

lemma loop_keeps:
  assumes "\<And>s v. I s \<Longrightarrow> over s \<Longrightarrow> victim s = Some v \<Longrightarrow> I (remove s v)" "I s"
  shows "I (loop s)"
  using assms(2)
proof (induction s rule: loop_induct)
  case (step s)
  show ?case
    using step assms(1) by (cases "over s"; cases "victim s") (auto simp: unfold_loop [of s])
qed

lemma loop_idle: "\<not> over s \<Longrightarrow> loop s = s"
  by (subst unfold_loop) simp

end

end
