(* ===== verification/Shared_Models.thy ===== *)
theory Shared_Models
  imports Go_Maps
begin

text \<open>
  \<open>src/internal/shared/models.go\<close> and \<open>address.go\<close>: the records that master, worker and clients
  exchange, and the checks a request passes before anything is done with it.
  Interpolated values of error texts (the \<open>%q\<close> and \<open>%d\<close> arguments) are left out of the texts;
  no code reads them back.
\<close>

section \<open>Records\<close>

definition WorkerStateReady :: string where "WorkerStateReady = ''ready''"
definition WorkerStateDraining :: string where "WorkerStateDraining = ''draining''"
definition RequestIDMaxLength :: nat where "RequestIDMaxLength = 128"

definition ModuleABIAuto :: string where "ModuleABIAuto = ''''"
definition ModuleABIWasmcat :: string where "ModuleABIWasmcat = ''wasmcat''"
definition ModuleABIWASI :: string where "ModuleABIWASI = ''wasi''"

record WorkerNode =
  wn_ID :: string
  wn_IPAddress :: string
  wn_Latitude :: float64
  wn_Longitude :: float64
  wn_CPUFree :: float64
  wn_RAMFreeMB :: float64
  wn_LastSeen :: time
  wn_State :: string

definition zero_WorkerNode :: WorkerNode where
  "zero_WorkerNode = \<lparr>wn_ID = '''', wn_IPAddress = '''', wn_Latitude = Fin 0, wn_Longitude = Fin 0,
     wn_CPUFree = Fin 0, wn_RAMFreeMB = Fin 0, wn_LastSeen = 0, wn_State = ''''\<rparr>"

record Heartbeat =
  hb_NodeID :: string
  hb_CPUFree :: float64
  hb_RAMFreeMB :: float64

record DrainRequest =
  dr_NodeID :: string

record ExecutionRequest =
  req_RequestID :: string
  req_ModuleName :: string
  req_Payload :: string
  req_ModuleURL :: string
  req_ModuleRegistryURL :: string
  req_ModuleDigest :: string
  req_JITBearerToken :: string
  req_ModuleABI :: string
  req_UserLat :: float64
  req_UserLon :: float64

record ExecutionResponse =
  resp_RequestID :: string
  resp_Result :: string
  resp_ExecutionTimeMs :: float64
  resp_ExecutedOnNodeID :: string
  resp_Error :: string

record JobCompletionRequest =
  jc_RequestID :: string
  jc_WorkerID :: string
  jc_Status :: string
  jc_Response :: "ExecutionResponse option"
  jc_Error :: string

definition JobCompletionSucceeded :: string where "JobCompletionSucceeded = ''succeeded''"
definition JobCompletionFailed :: string where "JobCompletionFailed = ''failed''"

record JobResponse =
  jr_RequestID :: string
  jr_Status :: string
  jr_WorkerID :: string
  jr_Attempt :: int
  jr_MaxAttempts :: int
  jr_LeaseUntil :: string
  jr_LastError :: string
  jr_Response :: "ExecutionResponse option"
  jr_CreatedAt :: string
  jr_UpdatedAt :: string

record APIResponse =
  api_Status :: string
  api_Message :: string

record ErrorResponse =
  er_Error :: string
  er_Code :: string
  er_Details :: string

record HealthResponse =
  hr_Status :: string
  hr_NodeID :: string
  hr_Role :: string

section \<open>Request identifiers\<close>

definition request_id_char :: "char \<Rightarrow> bool" where
  "request_id_char c \<longleftrightarrow>
     (let n = (of_char c :: nat) in
        (97 \<le> n \<and> n \<le> 122) \<or> (65 \<le> n \<and> n \<le> 90) \<or> (48 \<le> n \<and> n \<le> 57) \<or>
        c = CHR ''_'' \<or> c = CHR ''-'' \<or> c = CHR ''.'' \<or> c = CHR '':'')"

definition ValidateRequestID :: "string \<Rightarrow> go_error" where
  "ValidateRequestID requestID =
     (if requestID = '''' then None
      else if length requestID > RequestIDMaxLength then Some ''request_id must be at most 128 characters''
      else if list_all request_id_char requestID then None
      else Some ''request_id contains unsupported character'')"

text \<open>\<open>rnd\<close> is what \<open>rand.Read\<close> puts into the 16-byte buffer, or its error.\<close>

definition NewRequestID :: "string go_result \<Rightarrow> string go_result" where
  "NewRequestID rnd =
     (case rnd of
        Inl err \<Rightarrow> Inl (''generate request id: '' @ err)
      | Inr bytes \<Rightarrow> Inr (''req_'' @ hex_encode bytes))"

definition EnsureRequestID :: "string go_result \<Rightarrow> string \<Rightarrow> string go_result" where
  "EnsureRequestID rnd requestID0 =
     (let requestID = TrimSpace requestID0 in
      if requestID = '''' then NewRequestID rnd
      else case ValidateRequestID requestID of
             Some err \<Rightarrow> Inl err
           | None \<Rightarrow> Inr requestID)"

section \<open>Request checks\<close>

definition ExecutionRequest_Validate :: "ExecutionRequest \<Rightarrow> go_error" where
  "ExecutionRequest_Validate r =
     (case ValidateRequestID (req_RequestID r) of
        Some err \<Rightarrow> Some err
      | None \<Rightarrow>
          if req_ModuleName r = '''' then Some ''module_name is required''
          else if req_ModuleURL r = '''' \<and> req_ModuleRegistryURL r = ''''
          then Some ''module_url or module_registry_url is required''
          else if req_ModuleABI r = ModuleABIAuto \<or> req_ModuleABI r = ModuleABIWasmcat \<or>
                  req_ModuleABI r = ModuleABIWASI
          then None
          else Some ''abi must be one of wasmcat, wasi, or empty'')"

definition JobCompletionRequest_Validate :: "JobCompletionRequest \<Rightarrow> go_error" where
  "JobCompletionRequest_Validate r =
     (if TrimSpace (jc_RequestID r) = '''' then Some ''request_id is required''
      else case ValidateRequestID (jc_RequestID r) of
        Some err \<Rightarrow> Some err
      | None \<Rightarrow>
          if TrimSpace (jc_WorkerID r) = '''' then Some ''worker_id is required''
          else if jc_Status r = JobCompletionSucceeded then
            (if jc_Response r = None then Some ''response is required for succeeded completion'' else None)
          else if jc_Status r = JobCompletionFailed then
            (if TrimSpace (jc_Error r) = '''' then Some ''error is required for failed completion'' else None)
          else Some ''unsupported completion status'')"

text \<open>\<open>hostname\<close> is the outcome of \<open>os.Hostname\<close>.\<close>

definition DefaultWorkerAdvertiseAddress :: "string go_result \<Rightarrow> string \<Rightarrow> string" where
  "DefaultWorkerAdvertiseAddress hostname port =
     (case hostname of
        Inr h \<Rightarrow> (if TrimSpace h \<noteq> '''' then TrimSpace h @ '':'' @ port else ''localhost:'' @ port)
      | Inl _ \<Rightarrow> ''localhost:'' @ port)"

section \<open>Lemmas\<close>

lemma request_id_char_visible: "request_id_char c \<Longrightarrow> ascii_visible c"
  by (auto simp: request_id_char_def ascii_visible_def Let_def)

lemma ValidateRequestID_None:
  "ValidateRequestID s = None \<longleftrightarrow> s = '''' \<or> length s \<le> 128 \<and> list_all request_id_char s"
  by (auto simp: ValidateRequestID_def RequestIDMaxLength_def)

lemma TrimSpace_request_id: "ValidateRequestID s = None \<Longrightarrow> TrimSpace s = s"
  by (auto simp: ValidateRequestID_None list_all_iff
      intro!: TrimSpace_visible request_id_char_visible)

lemma NewRequestID_valid:
  assumes "NewRequestID (Inr bytes) = Inr r" "length bytes = 16"
  shows "r \<noteq> ''''" "ValidateRequestID r = None"
proof -
  have r: "r = ''req_'' @ hex_encode bytes" using assms(1) by (simp add: NewRequestID_def)
  then show "r \<noteq> ''''" by simp
  have "list_all request_id_char ''0123456789abcdef''" by code_simp
  then have "list_all request_id_char (hex_encode bytes)" by (rule hex_encode_all)
  then show "ValidateRequestID r = None"
    using r assms(2) by (simp add: ValidateRequestID_None request_id_char_def)
qed

text \<open>
  (C40) Whatever a client sends as request identifier, an identifier the master accepts is
  non-empty, passes the identifier check and is its own trimming; a client's own identifier is
  kept. The random source fills 16 bytes, as \<open>rand.Read\<close> does when it returns no error.
\<close>

theorem ensure_request_id_valid:
  assumes "EnsureRequestID rnd s = Inr r" "\<forall>bs. rnd = Inr bs \<longrightarrow> length bs = 16"
  shows "r \<noteq> '''' \<and> ValidateRequestID r = None \<and> TrimSpace r = r \<and>
         (TrimSpace s \<noteq> '''' \<longrightarrow> r = TrimSpace s)"
proof (cases "TrimSpace s = ''''")
  case True
  with assms obtain bs where "NewRequestID (Inr bs) = Inr r" "length bs = 16"
    by (cases rnd) (auto simp: EnsureRequestID_def NewRequestID_def)
  from NewRequestID_valid [OF this] True show ?thesis
    by (simp add: TrimSpace_request_id)
next
  case False
  with assms(1) show ?thesis
    by (auto simp: EnsureRequestID_def Let_def split: option.splits)
qed

theorem ensure_request_id_valid_witness:
  "EnsureRequestID (Inr (replicate 16 CHR ''x'')) '' job-7 '' = Inr ''job-7'' \<and>
   ValidateRequestID ''job-7'' = None"
proof -
  have e: "EnsureRequestID (Inr (replicate 16 CHR ''x'')) '' job-7 '' = Inr ''job-7''"
    by code_simp
  have h: "\<forall>bs. (Inr (replicate 16 CHR ''x'') :: string go_result) = Inr bs \<longrightarrow> length bs = 16"
    by auto
  show ?thesis using ensure_request_id_valid [OF e h] e by blast
qed

text \<open>What a request that passes the check looks like.\<close>

lemma ExecutionRequest_Validate_None:
  "ExecutionRequest_Validate r = None \<longleftrightarrow>
     ValidateRequestID (req_RequestID r) = None \<and> req_ModuleName r \<noteq> '''' \<and>
     (req_ModuleURL r \<noteq> '''' \<or> req_ModuleRegistryURL r \<noteq> '''') \<and>
     req_ModuleABI r \<in> {ModuleABIAuto, ModuleABIWasmcat, ModuleABIWASI}"
  by (auto simp: ExecutionRequest_Validate_def split: option.splits if_splits)

lemma JobCompletionRequest_Validate_None:
  "JobCompletionRequest_Validate r = None \<longleftrightarrow>
     jc_RequestID r \<noteq> '''' \<and> ValidateRequestID (jc_RequestID r) = None \<and>
     TrimSpace (jc_WorkerID r) \<noteq> '''' \<and>
     (jc_Status r = JobCompletionSucceeded \<and> jc_Response r \<noteq> None \<or>
      jc_Status r = JobCompletionFailed \<and> TrimSpace (jc_Error r) \<noteq> '''')"
  using TrimSpace_request_id [of "jc_RequestID r"]
  by (auto simp: JobCompletionRequest_Validate_def JobCompletionSucceeded_def JobCompletionFailed_def
      split: option.splits if_splits)

end
