(* ===== verification/Shared_Metrics.thy ===== *)
theory Shared_Metrics
  imports Shared_Models
begin

text \<open>
  \<open>src/internal/shared/metrics.go\<close>: the counters of a process. The counters are uint64, so
  they wrap. Every method starts with \<open>if m == nil { return }\<close>: a \<open>*Metrics\<close> is an option, and
  a method on \<open>nil\<close> changes nothing.
\<close>

type_synonym counter = "64 word"

record Metrics =
  startedAt :: time
  requestsTotal :: counter
  requestsByStatus :: "(string, counter) gomap"
  requestsByPath :: "(string, counter) gomap"
  dispatchSuccess :: counter
  dispatchFailure :: counter
  dispatchReschedules :: counter
  dispatchRescheduleExhausted :: counter
  requestCacheHits :: counter
  requestInProgressConflicts :: counter
  requestIDConflicts :: counter
  workerExecutionSuccess :: counter
  workerExecutionFailure :: counter
  workerModuleDigestInvalid :: counter
  workerModuleDigestMismatch :: counter

record RequestTrackerStats =
  ts_Entries :: int
  ts_InFlight :: int
  ts_Completed :: int
  ts_MaxEntries :: int
  ts_TTLSeconds :: int
  ts_Evictions :: counter
  ts_Expired :: counter

record ModuleCacheStats =
  cs_Entries :: int
  cs_Bytes :: int
  cs_MaxEntries :: int
  cs_MaxBytes :: int

record MasterMetrics =
  mm_ActiveWorkers :: int
  mm_WorkersByState :: "(string, int) gomap"
  mm_OldestHeartbeatS :: "int option"
  mm_DispatchSuccess :: counter
  mm_DispatchFailure :: counter
  mm_DispatchReschedules :: counter
  mm_DispatchRescheduleExhausted :: counter
  mm_RequestCacheHits :: counter
  mm_RequestInProgressConflicts :: counter
  mm_RequestIDConflicts :: counter
  mm_RequestTracker :: "RequestTrackerStats option"

record WorkerMetrics =
  wm_ExecutionSuccess :: counter
  wm_ExecutionFailure :: counter
  wm_ModuleDigestInvalid :: counter
  wm_ModuleDigestMismatch :: counter
  wm_Cache :: ModuleCacheStats

record MetricsResponse =
  mr_Role :: string
  mr_NodeID :: string
  mr_UptimeSeconds :: int
  mr_RequestsTotal :: counter
  mr_RequestsByStatus :: "(string, counter) gomap"
  mr_RequestsByPath :: "(string, counter) gomap"
  mr_Master :: "MasterMetrics option"
  mr_Worker :: "WorkerMetrics option"

section \<open>Operations\<close>

definition NewMetrics :: "time \<Rightarrow> Metrics" where
  "NewMetrics now = \<lparr>startedAt = now, requestsTotal = 0, requestsByStatus = [], requestsByPath = [],
     dispatchSuccess = 0, dispatchFailure = 0, dispatchReschedules = 0,
     dispatchRescheduleExhausted = 0, requestCacheHits = 0, requestInProgressConflicts = 0,
     requestIDConflicts = 0, workerExecutionSuccess = 0, workerExecutionFailure = 0,
     workerModuleDigestInvalid = 0, workerModuleDigestMismatch = 0\<rparr>"

text \<open>\<open>m[k]++\<close> on a map of counters.\<close>

definition bump :: "string \<Rightarrow> (string, counter) gomap \<Rightarrow> (string, counter) gomap" where
  "bump k m = go_put k ((case map_of m k of None \<Rightarrow> 0 | Some v \<Rightarrow> v) + 1) m"

definition ObserveRequest :: "string \<Rightarrow> int \<Rightarrow> Metrics option \<Rightarrow> Metrics option" where
  "ObserveRequest path status = map_option (\<lambda>m. m\<lparr>
     requestsTotal := requestsTotal m + 1,
     requestsByStatus := bump (itoa status) (requestsByStatus m),
     requestsByPath := bump path (requestsByPath m)\<rparr>)"

definition IncDispatchSuccess :: "Metrics option \<Rightarrow> Metrics option" where
  "IncDispatchSuccess = map_option (\<lambda>m. m\<lparr>dispatchSuccess := dispatchSuccess m + 1\<rparr>)"

definition IncDispatchFailure :: "Metrics option \<Rightarrow> Metrics option" where
  "IncDispatchFailure = map_option (\<lambda>m. m\<lparr>dispatchFailure := dispatchFailure m + 1\<rparr>)"

definition IncDispatchReschedule :: "Metrics option \<Rightarrow> Metrics option" where
  "IncDispatchReschedule = map_option (\<lambda>m. m\<lparr>dispatchReschedules := dispatchReschedules m + 1\<rparr>)"

definition IncDispatchRescheduleExhausted :: "Metrics option \<Rightarrow> Metrics option" where
  "IncDispatchRescheduleExhausted =
     map_option (\<lambda>m. m\<lparr>dispatchRescheduleExhausted := dispatchRescheduleExhausted m + 1\<rparr>)"

definition IncRequestCacheHit :: "Metrics option \<Rightarrow> Metrics option" where
  "IncRequestCacheHit = map_option (\<lambda>m. m\<lparr>requestCacheHits := requestCacheHits m + 1\<rparr>)"

definition IncRequestInProgressConflict :: "Metrics option \<Rightarrow> Metrics option" where
  "IncRequestInProgressConflict =
     map_option (\<lambda>m. m\<lparr>requestInProgressConflicts := requestInProgressConflicts m + 1\<rparr>)"

definition IncRequestIDConflict :: "Metrics option \<Rightarrow> Metrics option" where
  "IncRequestIDConflict = map_option (\<lambda>m. m\<lparr>requestIDConflicts := requestIDConflicts m + 1\<rparr>)"

definition IncWorkerExecutionSuccess :: "Metrics option \<Rightarrow> Metrics option" where
  "IncWorkerExecutionSuccess =
     map_option (\<lambda>m. m\<lparr>workerExecutionSuccess := workerExecutionSuccess m + 1\<rparr>)"

definition IncWorkerExecutionFailure :: "Metrics option \<Rightarrow> Metrics option" where
  "IncWorkerExecutionFailure =
     map_option (\<lambda>m. m\<lparr>workerExecutionFailure := workerExecutionFailure m + 1\<rparr>)"

definition IncWorkerModuleDigestInvalid :: "Metrics option \<Rightarrow> Metrics option" where
  "IncWorkerModuleDigestInvalid =
     map_option (\<lambda>m. m\<lparr>workerModuleDigestInvalid := workerModuleDigestInvalid m + 1\<rparr>)"

definition IncWorkerModuleDigestMismatch :: "Metrics option \<Rightarrow> Metrics option" where
  "IncWorkerModuleDigestMismatch =
     map_option (\<lambda>m. m\<lparr>workerModuleDigestMismatch := workerModuleDigestMismatch m + 1\<rparr>)"

text \<open>\<open>for key, value := range source { copied[key] = value }\<close>\<close>

definition copyUint64Map :: "(string, counter) visit \<Rightarrow> (string, counter) gomap \<Rightarrow> (string, counter) gomap" where
  "copyUint64Map it source = fold (\<lambda>(k, v) copied. go_put k v copied) (range_of it source) []"

definition SnapshotBase :: "(string, counter) visit \<Rightarrow> time \<Rightarrow> string \<Rightarrow> string \<Rightarrow> Metrics option \<Rightarrow> MetricsResponse" where
  "SnapshotBase it now role nodeID m0 =
     (let m = (case m0 of None \<Rightarrow> NewMetrics now | Some m \<Rightarrow> m) in
      \<lparr>mr_Role = role, mr_NodeID = nodeID,
       mr_UptimeSeconds = trunc_div (Sub now (startedAt m)) Second,
       mr_RequestsTotal = requestsTotal m,
       mr_RequestsByStatus = copyUint64Map it (requestsByStatus m),
       mr_RequestsByPath = copyUint64Map it (requestsByPath m),
       mr_Master = None, mr_Worker = None\<rparr>)"

text \<open>
  The snapshots lock \<open>m.mu\<close> after \<open>SnapshotBase\<close>; on a \<open>nil\<close> receiver that dereference panics,
  which is the result \<open>None\<close>.
\<close>

definition MasterSnapshotWithRequestTracker ::
  "(string, counter) visit \<Rightarrow> time \<Rightarrow> int \<Rightarrow> (string, int) gomap \<Rightarrow> int option \<Rightarrow>
   RequestTrackerStats option \<Rightarrow> Metrics option \<Rightarrow> MetricsResponse option" where
  "MasterSnapshotWithRequestTracker it now activeWorkers workersByState oldestHeartbeatSeconds requestTracker m0 =
     (let response = SnapshotBase it now ''master'' '''' m0 in
      case m0 of
        None \<Rightarrow> None
      | Some m \<Rightarrow> Some (response\<lparr>mr_Master := Some
          \<lparr>mm_ActiveWorkers = activeWorkers, mm_WorkersByState = workersByState,
           mm_OldestHeartbeatS = oldestHeartbeatSeconds,
           mm_DispatchSuccess = dispatchSuccess m, mm_DispatchFailure = dispatchFailure m,
           mm_DispatchReschedules = dispatchReschedules m,
           mm_DispatchRescheduleExhausted = dispatchRescheduleExhausted m,
           mm_RequestCacheHits = requestCacheHits m,
           mm_RequestInProgressConflicts = requestInProgressConflicts m,
           mm_RequestIDConflicts = requestIDConflicts m,
           mm_RequestTracker = requestTracker\<rparr>\<rparr>))"

definition MasterSnapshot ::
  "(string, counter) visit \<Rightarrow> time \<Rightarrow> int \<Rightarrow> (string, int) gomap \<Rightarrow> int option \<Rightarrow> Metrics option \<Rightarrow>
   MetricsResponse option" where
  "MasterSnapshot it now activeWorkers workersByState oldestHeartbeatSeconds m0 =
     MasterSnapshotWithRequestTracker it now activeWorkers workersByState oldestHeartbeatSeconds None m0"

definition WorkerSnapshot ::
  "(string, counter) visit \<Rightarrow> time \<Rightarrow> string \<Rightarrow> ModuleCacheStats \<Rightarrow> Metrics option \<Rightarrow> MetricsResponse option" where
  "WorkerSnapshot it now nodeID cache m0 =
     (let response = SnapshotBase it now ''worker'' nodeID m0 in
      case m0 of
        None \<Rightarrow> None
      | Some m \<Rightarrow> Some (response\<lparr>mr_Worker := Some
          \<lparr>wm_ExecutionSuccess = workerExecutionSuccess m,
           wm_ExecutionFailure = workerExecutionFailure m,
           wm_ModuleDigestInvalid = workerModuleDigestInvalid m,
           wm_ModuleDigestMismatch = workerModuleDigestMismatch m,
           wm_Cache = cache\<rparr>\<rparr>))"

lemmas metrics_inc_defs =
  IncDispatchSuccess_def IncDispatchFailure_def IncDispatchReschedule_def
  IncDispatchRescheduleExhausted_def IncRequestCacheHit_def IncRequestInProgressConflict_def
  IncRequestIDConflict_def IncWorkerExecutionSuccess_def IncWorkerExecutionFailure_def
  IncWorkerModuleDigestInvalid_def IncWorkerModuleDigestMismatch_def

section \<open>The counters agree\<close>

definition sum_counts :: "(string, counter) gomap \<Rightarrow> counter" where
  "sum_counts m = sum_list (map snd m)"

definition metrics_wf :: "Metrics \<Rightarrow> bool" where
  "metrics_wf m \<longleftrightarrow> wf_map (requestsByStatus m) \<and> wf_map (requestsByPath m) \<and>
     sum_counts (requestsByStatus m) = requestsTotal m \<and> sum_counts (requestsByPath m) = requestsTotal m"

lemma sum_counts_bump: "wf_map m \<Longrightarrow> sum_counts (bump k m) = sum_counts m + 1"
proof -
  have "wf_map m \<Longrightarrow> sum_counts (go_put k v m) + (case map_of m k of None \<Rightarrow> 0 | Some w \<Rightarrow> w) = sum_counts m + v" for v
  proof (induction m)
    case (Cons p m)
    then show ?case
      by (cases p) (auto simp: sum_counts_def map_of_eq_None_iff algebra_simps split: option.splits)
  qed (simp add: sum_counts_def)
  from this [of "(case map_of m k of None \<Rightarrow> 0 | Some v \<Rightarrow> v) + 1"]
  show "wf_map m \<Longrightarrow> ?thesis" unfolding bump_def by (auto simp: algebra_simps split: option.splits)
qed

lemma wf_bump [wf_intros, simp]: "wf_map m \<Longrightarrow> wf_map (bump k m)"
  by (simp add: bump_def)

lemma NewMetrics_wf [wf_intros, simp]: "metrics_wf (NewMetrics now)"
  by (simp add: metrics_wf_def NewMetrics_def sum_counts_def)

datatype metrics_op =
    MObserve string int | MDispatchSuccess | MDispatchFailure | MDispatchReschedule
  | MDispatchRescheduleExhausted | MRequestCacheHit | MRequestInProgressConflict
  | MRequestIDConflict | MWorkerExecutionSuccess | MWorkerExecutionFailure
  | MWorkerModuleDigestInvalid | MWorkerModuleDigestMismatch

fun metrics_step :: "metrics_op \<Rightarrow> Metrics option \<Rightarrow> Metrics option" where
  "metrics_step (MObserve path status) = ObserveRequest path status"
| "metrics_step MDispatchSuccess = IncDispatchSuccess"
| "metrics_step MDispatchFailure = IncDispatchFailure"
| "metrics_step MDispatchReschedule = IncDispatchReschedule"
| "metrics_step MDispatchRescheduleExhausted = IncDispatchRescheduleExhausted"
| "metrics_step MRequestCacheHit = IncRequestCacheHit"
| "metrics_step MRequestInProgressConflict = IncRequestInProgressConflict"
| "metrics_step MRequestIDConflict = IncRequestIDConflict"
| "metrics_step MWorkerExecutionSuccess = IncWorkerExecutionSuccess"
| "metrics_step MWorkerExecutionFailure = IncWorkerExecutionFailure"
| "metrics_step MWorkerModuleDigestInvalid = IncWorkerModuleDigestInvalid"
| "metrics_step MWorkerModuleDigestMismatch = IncWorkerModuleDigestMismatch"

lemma metrics_step_wf: "metrics_wf m \<Longrightarrow> metrics_step op (Some m) = Some m' \<Longrightarrow> metrics_wf m'"
  by (cases op) (auto simp: metrics_inc_defs metrics_wf_def ObserveRequest_def sum_counts_bump)

lemma metrics_step_Some: "\<exists>m'. metrics_step op (Some m) = Some m'"
  by (cases op) (simp_all add: metrics_inc_defs ObserveRequest_def)

lemma metrics_steps_wf:
  "metrics_wf m \<Longrightarrow> \<exists>m'. fold metrics_step ops (Some m) = Some m' \<and> metrics_wf m'"
proof (induction ops arbitrary: m)
  case (Cons op ops)
  then show ?case using metrics_step_Some [of op m] metrics_step_wf [of m op] by force
qed simp

lemma fold_put_copy:
  "wf_map (acc @ xs) \<Longrightarrow> fold (\<lambda>(k, v) copied. go_put k v copied) xs acc = acc @ xs"
proof (induction xs arbitrary: acc)
  case (Cons p xs)
  obtain k v where p: "p = (k, v)" by force
  have "go_put k v acc = acc @ [(k, v)]"
    using Cons.prems p by (induction acc) auto
  then show ?case using Cons.IH [of "acc @ [(k, v)]"] Cons.prems p by simp
qed simp

lemma copyUint64Map_eq: "wf_map m \<Longrightarrow> copyUint64Map it m = range_of it m"
  unfolding copyUint64Map_def using fold_put_copy [of "[]" "range_of it m"] by simp

lemma sum_counts_range_of: "sum_counts (range_of it m) = sum_counts m"
  unfolding sum_counts_def by (metis mset_map mset_range_of sum_mset_sum_list)

text \<open>
  Start from fresh metrics and apply any sequence of the operations. In the snapshot the
  master serves, the requests counted by status and the requests counted by path both add up
  to the total number of requests (in uint64 arithmetic), in every order in which the maps are
  copied.
\<close>

theorem metrics_snapshot_consistent:
  "\<exists>m r. fold metrics_step ops (Some (NewMetrics t)) = Some m \<and>
     MasterSnapshotWithRequestTracker it now n ws oldest tr (Some m) = Some r \<and>
     sum_counts (mr_RequestsByStatus r) = mr_RequestsTotal r \<and>
     sum_counts (mr_RequestsByPath r) = mr_RequestsTotal r"
proof -
  obtain m where m: "fold metrics_step ops (Some (NewMetrics t)) = Some m" "metrics_wf m"
    using metrics_steps_wf [OF NewMetrics_wf] by blast
  then show ?thesis
    by (auto simp: MasterSnapshotWithRequestTracker_def SnapshotBase_def Let_def
        copyUint64Map_eq sum_counts_range_of metrics_wf_def)
qed

end
