(* ===== verification/Shared_Http.thy ===== *)
theory Shared_Http
  imports Shared_Metrics
begin

text \<open>
  \<open>src/internal/shared/http.go\<close> and \<open>src/internal/logging/logging.go\<close>: requests, replies, the
  public error texts and the middleware that counts every request.

  A reply keeps what the handlers decide: the status, the \<open>Allow\<close> header and the JSON value
  that is encoded. A handler either replies or panics (a nil dereference), and the
  JSON codec of \<open>encoding/json\<close> is an argument of the handlers that decode a body.
\<close>

record cert =
  CommonName :: string
  DNSNames :: "string list"

record http_request =
  rq_Method :: string
  rq_Path :: string
  rq_TLS :: "cert list option"
  rq_Body :: string

datatype json_value =
    JError ErrorResponse
  | JHealth HealthResponse
  | JApi APIResponse
  | JExec ExecutionResponse
  | JJob JobResponse
  | JWorkers "WorkerNode list"
  | JMetrics MetricsResponse
  | JEmpty

record http_response =
  rs_Status :: int
  rs_Allow :: "string option"
  rs_Value :: json_value

datatype reply = Panicked | Replied http_response

text \<open>
  What reading a body through \<open>http.MaxBytesReader\<close> and \<open>json.Decoder.Decode\<close> gives: a value, a
  body over the limit, or text that is not the JSON of the type.
\<close>

datatype 'a decoded = Decoded 'a | BodyTooLarge | BadJSON

definition MethodGet :: string where "MethodGet = ''GET''"
definition MethodPost :: string where "MethodPost = ''POST''"

section \<open>http.go\<close>

definition public_messages :: "(string \<times> string) list" where
  "public_messages =
    [(''method_not_allowed'', ''HTTP method is not allowed for this endpoint.''),
     (''execute_client_unauthorized'', ''Execution client is not authorized.''),
     (''request_body_too_large'', ''Request body is too large.''),
     (''invalid_worker_data'', ''Invalid worker registration request.''),
     (''invalid_heartbeat'', ''Invalid worker heartbeat request.''),
     (''invalid_drain_request'', ''Invalid worker drain request.''),
     (''invalid_job_completion'', ''Invalid job completion request.''),
     (''worker_identity_mismatch'', ''Worker certificate identity does not match the requested worker ID.''),
     (''worker_not_found'', ''Worker is not registered.''),
     (''invalid_execution_request'', ''Invalid execution request.''),
     (''request_in_progress'', ''Execution request is already in progress.''),
     (''request_id_conflict'', ''Request ID was already used for different request content.''),
     (''job_not_found'', ''Job was not found.''),
     (''module_policy_violation'', ''Module source policy rejected the request.''),
     (''module_digest_invalid'', ''Module digest is invalid.''),
     (''module_digest_mismatch'', ''Module digest does not match downloaded content.''),
     (''dispatch_failed'', ''Execution could not be dispatched.''),
     (''execution_failed'', ''WASM execution failed.''),
     (''not_ready'', ''Service is not ready.''),
     (''worker_failed'', ''Worker request failed.'')]"

definition PublicErrorMessage :: "string \<Rightarrow> string" where
  "PublicErrorMessage code =
     (case map_of public_messages code of Some text \<Rightarrow> text | None \<Rightarrow> ''Request failed.'')"

definition WriteJSON :: "int \<Rightarrow> json_value \<Rightarrow> http_response" where
  "WriteJSON status value = \<lparr>rs_Status = status, rs_Allow = None, rs_Value = value\<rparr>"

text \<open>\<open>err\<close> is only logged; the reply carries the code and its public text.\<close>

definition WriteError :: "int \<Rightarrow> string \<Rightarrow> go_error \<Rightarrow> http_response" where
  "WriteError status code err =
     WriteJSON status (JError \<lparr>er_Error = PublicErrorMessage code, er_Code = code, er_Details = ''''\<rparr>)"

text \<open>\<open>RequireMethod\<close> returns \<open>true\<close>, or has written the 405 reply: \<open>None\<close> is \<open>true\<close> here.\<close>

definition RequireMethod :: "http_request \<Rightarrow> string \<Rightarrow> http_response option" where
  "RequireMethod r method =
     (if rq_Method r = method then None
      else Some ((WriteError 405 ''method_not_allowed'' None)\<lparr>rs_Allow := Some method\<rparr>))"

section \<open>logging.go\<close>

text \<open>
  \<open>MiddlewareWithMetrics\<close> runs the handler and counts the request under its path and status. A
  panic unwinds past the count.
\<close>

definition MiddlewareWithMetrics :: "http_request \<Rightarrow> reply \<Rightarrow> Metrics option \<Rightarrow> Metrics option" where
  "MiddlewareWithMetrics r rep m =
     (case rep of
        Panicked \<Rightarrow> m
      | Replied rec \<Rightarrow> ObserveRequest (rq_Path r) (rs_Status rec) m)"

definition Middleware :: "http_request \<Rightarrow> reply \<Rightarrow> Metrics option" where
  "Middleware r rep = MiddlewareWithMetrics r rep None"

section \<open>Lemmas\<close>

lemma WriteError_simps [simp]:
  "rs_Status (WriteError st c e) = st"
  "rs_Value (WriteError st c e) = JError \<lparr>er_Error = PublicErrorMessage c, er_Code = c, er_Details = ''''\<rparr>"
  by (simp_all add: WriteError_def WriteJSON_def)

lemma WriteJSON_simps [simp]:
  "rs_Status (WriteJSON st v) = st" "rs_Value (WriteJSON st v) = v"
  by (simp_all add: WriteJSON_def)

lemma RequireMethod_None [simp]: "RequireMethod r m = None \<longleftrightarrow> rq_Method r = m"
  by (simp add: RequireMethod_def)

text \<open>An error reply never depends on the internal error text: nothing of it reaches a client.\<close>

lemma WriteError_hides: "WriteError st c e = WriteError st c e'"
  by (simp add: WriteError_def)

end
