(* ===== verification/Shared_Client.thy ===== *)
theory Shared_Client
  imports Wasmcat_Prelude
begin

text \<open>
  \<open>src/internal/shared/client.go\<close>: outgoing HTTP calls and their retries.

  The network is a state \<open>'n\<close> and the operations of \<open>network\<close> on it: one exchange through
  \<open>http.Client.Do\<close>, whether the context of the call is done, a sleep that the context may cut
  short, and the clock. The transport settings of \<open>NewHTTPTransport\<close> belong to that network.
\<close>

datatype call_body = NoBody | Replayable string | ReplayFails string string | OneShot string

record http_call =
  hc_Method :: string
  hc_URL :: string
  hc_Headers :: "(string \<times> string) list"
  hc_Body :: call_body

record http_reply =
  hp_StatusCode :: int
  hp_Status :: string
  hp_Body :: string

record 'n network =
  net_do :: "http_call \<Rightarrow> 'n \<Rightarrow> http_reply go_result \<times> 'n"
  net_done :: "'n \<Rightarrow> bool"
  net_sleep :: "duration \<Rightarrow> 'n \<Rightarrow> go_error \<times> 'n"
  net_now :: "'n \<Rightarrow> time"

record RetryPolicy =
  Attempts :: int
  Backoff :: duration

definition DefaultHTTPRetryAttempts :: int where "DefaultHTTPRetryAttempts = 3"
definition DefaultHTTPRetryBackoff :: duration where "DefaultHTTPRetryBackoff = 100000000"

definition DefaultHTTPRetryPolicy :: RetryPolicy where
  "DefaultHTTPRetryPolicy = \<lparr>Attempts = DefaultHTTPRetryAttempts, Backoff = DefaultHTTPRetryBackoff\<rparr>"

definition requestForRetryAttempt :: "http_call option \<Rightarrow> nat \<Rightarrow> http_call go_result" where
  "requestForRetryAttempt req0 attempt =
     (case req0 of
        None \<Rightarrow> Inl ''request is nil''
      | Some req \<Rightarrow>
          if attempt = 0 then Inr req
          else (case hc_Body req of
            NoBody \<Rightarrow> Inr req
          | OneShot _ \<Rightarrow> Inl ''request body cannot be replayed''
          | ReplayFails _ err \<Rightarrow> Inl (''recreate request body: '' @ err)
          | Replayable _ \<Rightarrow> Inr req))"

definition retryableStatus :: "int \<Rightarrow> bool" where
  "retryableStatus statusCode \<longleftrightarrow> statusCode = 408 \<or> statusCode = 429 \<or> statusCode = 500 \<or>
     statusCode = 502 \<or> statusCode = 503 \<or> statusCode = 504"

definition sleepBeforeRetry :: "'n network \<Rightarrow> duration \<Rightarrow> nat \<Rightarrow> 'n \<Rightarrow> go_error \<times> 'n" where
  "sleepBeforeRetry net backoff attempt n =
     (if backoff \<le> 0 then (None, n) else net_sleep net (mul64 backoff (int (attempt + 1))) n)"

definition retryableRequestError :: "'n network \<Rightarrow> 'n \<Rightarrow> go_error \<Rightarrow> bool" where
  [simp]: "retryableRequestError net n err = (case err of None \<Rightarrow> False | Some _ \<Rightarrow> \<not> net_done net n)"

text \<open>\<open>remaining\<close> counts the attempts left, this one included; it is 1 at the last one.\<close>

fun retry_loop ::
  "'n network \<Rightarrow> http_call \<Rightarrow> duration \<Rightarrow> nat \<Rightarrow> nat \<Rightarrow> go_error \<Rightarrow> 'n \<Rightarrow> http_reply go_result \<times> 'n" where
  "retry_loop net req backoff attempt 0 lastErr n =
     (case lastErr of Some e \<Rightarrow> (Inl e, n) | None \<Rightarrow> (Inl ''http retry attempts exhausted'', n))"
| "retry_loop net req backoff attempt (Suc remaining) lastErr n =
     (case requestForRetryAttempt (Some req) attempt of
        Inl e \<Rightarrow> (Inl e, n)
      | Inr attemptReq \<Rightarrow>
          (case net_do net attemptReq n of
             (Inr resp, n) \<Rightarrow>
               if \<not> retryableStatus (hp_StatusCode resp) then (Inr resp, n)
               else if remaining = 0 then (Inr resp, n)
               else (case sleepBeforeRetry net backoff attempt n of
                       (Some e, n) \<Rightarrow> (Inl e, n)
                     | (None, n) \<Rightarrow> retry_loop net req backoff (Suc attempt) remaining None n)
           | (Inl err, n) \<Rightarrow>
               if \<not> retryableRequestError net n (Some err) then (Inl err, n)
               else (case sleepBeforeRetry net backoff attempt n of
                       (Some e, n) \<Rightarrow> (Inl err, n)
                     | (None, n) \<Rightarrow> retry_loop net req backoff (Suc attempt) remaining (Some err) n)))"

definition DoWithRetryPolicy :: "'n network \<Rightarrow> http_call \<Rightarrow> RetryPolicy \<Rightarrow> 'n \<Rightarrow> http_reply go_result \<times> 'n" where
  "DoWithRetryPolicy net req policy n =
     (let attempts = (if Attempts policy \<le> 0 then 1 else Attempts policy) in
      retry_loop net req (Backoff policy) 0 (nat attempts) None n)"

definition DoWithRetry :: "'n network \<Rightarrow> http_call \<Rightarrow> 'n \<Rightarrow> http_reply go_result \<times> 'n" where
  "DoWithRetry net req n = DoWithRetryPolicy net req DefaultHTTPRetryPolicy n"

section \<open>What goes over the network\<close>

text \<open>
  \<open>records net h\<close>: \<open>h\<close> is the history of the exchanges on the network, newest first.
  \<open>quiet net h\<close>: sleeping adds nothing to it.
\<close>

definition records :: "'n network \<Rightarrow> ('n \<Rightarrow> (http_call \<times> http_reply go_result) list) \<Rightarrow> bool" where
  "records net h \<longleftrightarrow> (\<forall>call n. h (snd (net_do net call n)) = (call, fst (net_do net call n)) # h n)"

definition quiet :: "'n network \<Rightarrow> ('n \<Rightarrow> (http_call \<times> http_reply go_result) list) \<Rightarrow> bool" where
  "quiet net h \<longleftrightarrow> (\<forall>d n. h (snd (net_sleep net d n)) = h n)"

text \<open>A call whose body can be replayed is the only thing that its retries send, at least once.\<close>

lemma retry_loop_history:
  assumes "records net h" "quiet net h" "hc_Body req = NoBody \<or> (\<exists>b. hc_Body req = Replayable b)"
  shows "\<exists>pre. h (snd (retry_loop net req b a k lastErr n)) = pre @ h n \<and> (\<forall>x \<in> set pre. fst x = req) \<and> (0 < k \<longrightarrow> pre \<noteq> [])"
proof (induction k arbitrary: a lastErr n)
  case 0
  show ?case by (simp split: option.splits)
next
  case (Suc k)
  have req: "requestForRetryAttempt (Some req) a = Inr req" using assms(3) by (auto simp: requestForRetryAttempt_def)
  obtain r n1 where d: "net_do net req n = (r, n1)" by force
  obtain w n2 where w: "sleepBeforeRetry net b a n1 = (w, n2)" by force
  have h1: "h n1 = (req, r) # h n" using assms(1) d unfolding records_def by (metis fst_conv snd_conv)
  have h2: "h n2 = h n1" using assms(2) w unfolding quiet_def sleepBeforeRetry_def by (metis snd_conv)
  define res where "res = snd (retry_loop net req b a (Suc k) lastErr n)"
  have cases: "res = n1 \<or> res = n2 \<or> (\<exists>l. res = snd (retry_loop net req b (Suc a) k l n2))"
    unfolding res_def using req d w by (auto split: sum.splits option.splits)
  obtain pre where "h res = pre @ (req, r) # h n" "\<forall>x \<in> set pre. fst x = req"
    using cases h1 h2 Suc.IH [of "Suc a" _ n2] by (metis append_Nil empty_iff empty_set)
  then show ?case by (intro exI [of _ "pre @ [(req, r)]"]) (auto simp: res_def)
qed

lemma DoWithRetry_history:
  assumes "records net h" "quiet net h" "hc_Body req = NoBody \<or> (\<exists>b. hc_Body req = Replayable b)"
  shows "\<exists>pre. h (snd (DoWithRetry net req n)) = pre @ h n \<and> pre \<noteq> [] \<and> (\<forall>x \<in> set pre. fst x = req)"
  using retry_loop_history [OF assms, of DefaultHTTPRetryBackoff 0 3 None n]
  by (auto simp: DoWithRetry_def DoWithRetryPolicy_def DefaultHTTPRetryPolicy_def DefaultHTTPRetryAttempts_def)

section \<open>How often a call is sent\<close>

text \<open>
  \<open>sends net c\<close>: \<open>c\<close> counts the exchanges on the network. Reading the clock and
  sleeping exchange nothing.
\<close>

definition sends :: "'n network \<Rightarrow> ('n \<Rightarrow> nat) \<Rightarrow> bool" where
  "sends net c \<longleftrightarrow> (\<forall>call n. c (snd (net_do net call n)) = Suc (c n)) \<and> (\<forall>d n. c (snd (net_sleep net d n)) = c n)"

lemma sends_do: "sends net c \<Longrightarrow> net_do net call n = (r, n') \<Longrightarrow> c n' = Suc (c n)"
  unfolding sends_def by (metis snd_conv)

lemma sends_sleep: "sends net c \<Longrightarrow> sleepBeforeRetry net b a n = (r, n') \<Longrightarrow> c n' = c n"
  unfolding sends_def sleepBeforeRetry_def by (metis snd_conv)

lemma retry_loop_sends:
  assumes "sends net c" "retry_loop net req b a k lastErr n = (r, n')"
  shows "c n' \<le> c n + k \<and>
    (\<forall>resp. r = Inr resp \<longrightarrow> c n' > c n \<and> (retryableStatus (hp_StatusCode resp) \<longrightarrow> c n' = c n + k))"
  using assms(2)
proof (induction k arbitrary: a lastErr n)
  case 0
  then show ?case by (auto split: option.splits)
next
  case (Suc k)
  show ?case
  proof (cases "requestForRetryAttempt (Some req) a")
    case (Inl e)
    then show ?thesis using Suc.prems by auto
  next
    case (Inr call)
    obtain s n1 where d: "net_do net call n = (s, n1)" by force
    obtain w n2 where w: "sleepBeforeRetry net b a n1 = (w, n2)" by force
    have c: "c n1 = Suc (c n)" "c n2 = c n1" using sends_do [OF assms(1) d] sends_sleep [OF assms(1) w] by auto
    show ?thesis
      using Suc.prems Inr d w c Suc.IH [of "Suc a" _ n2]
      by (auto split: sum.splits if_splits option.splits) (use Suc_lessD in blast)+
  qed
qed

lemma retry_loop_error:
  assumes "retry_loop net req b a k lastErr n = (Inl e, n')" "0 < k \<or> lastErr \<noteq> None"
  shows "(\<exists>call m. fst (net_do net call m) = Inl e) \<or> (\<exists>d m. fst (net_sleep net d m) = Some e) \<or>
    (\<exists>i. requestForRetryAttempt (Some req) i = Inl e) \<or> lastErr = Some e"
  using assms
proof (induction k arbitrary: a lastErr n)
  case 0
  then show ?case by (auto split: option.splits)
next
  case (Suc k)
  show ?case
  proof (cases "requestForRetryAttempt (Some req) a")
    case (Inl e')
    then show ?thesis using Suc.prems by auto
  next
    case (Inr call)
    obtain s n1 where d: "net_do net call n = (s, n1)" by force
    obtain w n2 where w: "sleepBeforeRetry net b a n1 = (w, n2)" by force
    have wait: "\<exists>d m. fst (net_sleep net d m) = w" if "w \<noteq> None"
      using w that by (auto simp: sleepBeforeRetry_def split: if_splits) (metis fst_conv)
    show ?thesis
    proof (cases s)
      case (Inl err)
      then have "\<exists>call m. fst (net_do net call m) = Inl err" using d by (metis fst_conv)
      then show ?thesis
        using Suc.prems Inr d w Inl Suc.IH [of "Suc a" "Some err" n2]
        by (auto split: if_splits option.splits)
    next
      case (Inr resp)
      then show ?thesis
        using Suc.prems \<open>requestForRetryAttempt (Some req) a = Inr call\<close> d w wait Suc.IH [of "Suc a" None n2]
        by (auto split: if_splits option.splits)
    qed
  qed
qed

text \<open>
  A call with retries is sent at most as many times as the policy allows, and at least
  once when it returns a reply. A reply whose status asks for a retry is returned only
  after every attempt has been used, and an error is one that the exchange, the wait or the
  replay of the body reported: the loop never runs out of attempts without a result.
\<close>

theorem retry_bounded:
  assumes "sends net c" "DoWithRetryPolicy net req policy n = (r, n')"
  shows "c n' \<le> c n + nat (max 1 (Attempts policy)) \<and>
    (\<forall>resp. r = Inr resp \<longrightarrow> c n < c n' \<and>
       (retryableStatus (hp_StatusCode resp) \<longrightarrow> c n' = c n + nat (max 1 (Attempts policy)))) \<and>
    (\<forall>e. r = Inl e \<longrightarrow> (\<exists>call m. fst (net_do net call m) = Inl e) \<or>
       (\<exists>d m. fst (net_sleep net d m) = Some e) \<or> (\<exists>i. requestForRetryAttempt (Some req) i = Inl e))"
proof -
  have loop: "retry_loop net req (Backoff policy) 0 (nat (max 1 (Attempts policy))) None n = (r, n')"
    using assms(2) by (simp add: DoWithRetryPolicy_def Let_def max_def split: if_splits)
  have "(\<exists>call m. fst (net_do net call m) = Inl e) \<or> (\<exists>d m. fst (net_sleep net d m) = Some e) \<or>
      (\<exists>i. requestForRetryAttempt (Some req) i = Inl e)" if "r = Inl e" for e
    using retry_loop_error [OF loop [unfolded that]] by simp
  then show ?thesis using retry_loop_sends [OF assms(1) loop] by blast
qed

definition busy_network :: "nat network" where
  "busy_network = \<lparr>net_do = (\<lambda>_ n. (Inr \<lparr>hp_StatusCode = 503, hp_Status = '''', hp_Body = ''''\<rparr>, Suc n)),
     net_done = (\<lambda>_. False), net_sleep = (\<lambda>_ n. (None, n)), net_now = int\<rparr>"

definition plain_call :: http_call where
  "plain_call = \<lparr>hc_Method = ''GET'', hc_URL = ''u'', hc_Headers = [], hc_Body = NoBody\<rparr>"

theorem retry_bounded_witness:
  "DoWithRetryPolicy busy_network plain_call DefaultHTTPRetryPolicy 0 =
     (Inr \<lparr>hp_StatusCode = 503, hp_Status = '''', hp_Body = ''''\<rparr>, 3) \<and> (3::nat) \<le> 0 + nat (max 1 3)"
proof -
  have "sends busy_network id" by (simp add: sends_def busy_network_def)
  moreover have "DoWithRetryPolicy busy_network plain_call DefaultHTTPRetryPolicy 0 =
      (Inr \<lparr>hp_StatusCode = 503, hp_Status = '''', hp_Body = ''''\<rparr>, 3)"
    by (simp add: DoWithRetryPolicy_def DefaultHTTPRetryPolicy_def DefaultHTTPRetryAttempts_def DefaultHTTPRetryBackoff_def
        busy_network_def plain_call_def numeral_3_eq_3 requestForRetryAttempt_def retryableStatus_def sleepBeforeRetry_def)
  ultimately show ?thesis
    using retry_bounded [of busy_network id plain_call DefaultHTTPRetryPolicy 0] by (simp add: DefaultHTTPRetryPolicy_def DefaultHTTPRetryAttempts_def)
qed

end
