(* ===== verification/Master_Registry.thy ===== *)
theory Master_Registry
  imports Shared_Models
begin

text \<open>
  \<open>src/internal/master/registry.go\<close>: the workers the master knows. The registry is a map from
  worker identifiers to nodes with the stale timeout; every method runs under its mutex, so a
  method is one step of the model. The clock of the method (\<open>time.Now\<close>) is an argument.
\<close>

definition DefaultWorkerStaleTimeout :: duration where
  "DefaultWorkerStaleTimeout = 30 * Second"

record Registry =
  workers :: "(string, WorkerNode) gomap"
  workerStaleTimeout :: duration

definition NewRegistryWithStaleTimeout :: "duration \<Rightarrow> Registry" where
  "NewRegistryWithStaleTimeout d =
     \<lparr>workers = [], workerStaleTimeout = (if d \<le> 0 then DefaultWorkerStaleTimeout else d)\<rparr>"

definition NewRegistry :: Registry where
  "NewRegistry = NewRegistryWithStaleTimeout DefaultWorkerStaleTimeout"

definition RegisterWorker :: "time \<Rightarrow> WorkerNode \<Rightarrow> Registry \<Rightarrow> Registry" where
  "RegisterWorker now worker r =
     (let w1 = (if IsZero (wn_LastSeen worker) then worker\<lparr>wn_LastSeen := now\<rparr> else worker);
          w2 = (if wn_State w1 = '''' then w1\<lparr>wn_State := WorkerStateReady\<rparr> else w1)
      in r\<lparr>workers := go_put (wn_ID w2) w2 (workers r)\<rparr>)"

definition RegisterNode :: "time \<Rightarrow> Registry \<Rightarrow> WorkerNode \<Rightarrow> Registry" where
  "RegisterNode now registry worker = RegisterWorker now worker registry"

definition WorkerStaleTimeout :: "Registry \<Rightarrow> duration" where
  "WorkerStaleTimeout r = workerStaleTimeout r"

definition UpdateWorkerStatus :: "time \<Rightarrow> Heartbeat \<Rightarrow> Registry \<Rightarrow> go_error \<times> Registry" where
  "UpdateWorkerStatus now heartbeat r =
     (case map_of (workers r) (hb_NodeID heartbeat) of
        None \<Rightarrow> (Some (''worker with ID '' @ hb_NodeID heartbeat @ '' not found in registry''), r)
      | Some worker \<Rightarrow>
          let w1 = worker\<lparr>wn_CPUFree := hb_CPUFree heartbeat, wn_RAMFreeMB := hb_RAMFreeMB heartbeat,
                          wn_LastSeen := now\<rparr>;
              w2 = (if wn_State w1 = '''' then w1\<lparr>wn_State := WorkerStateReady\<rparr> else w1)
          in (None, r\<lparr>workers := go_put (hb_NodeID heartbeat) w2 (workers r)\<rparr>))"

definition GetActiveWorkers :: "(string, WorkerNode) visit \<Rightarrow> Registry \<Rightarrow> WorkerNode list" where
  "GetActiveWorkers it r = map snd (range_of it (workers r))"

definition GetSchedulableWorkers :: "(string, WorkerNode) visit \<Rightarrow> Registry \<Rightarrow> WorkerNode list" where
  "GetSchedulableWorkers it r =
     filter (\<lambda>worker. wn_State worker = '''' \<or> wn_State worker = WorkerStateReady)
       (map snd (range_of it (workers r)))"

definition DrainWorker :: "time \<Rightarrow> string \<Rightarrow> Registry \<Rightarrow> go_error \<times> Registry" where
  "DrainWorker now nodeID r =
     (case map_of (workers r) nodeID of
        None \<Rightarrow> (Some (''worker with ID '' @ nodeID @ '' not found in registry''), r)
      | Some worker \<Rightarrow>
          (None, r\<lparr>workers := go_put nodeID
             (worker\<lparr>wn_State := WorkerStateDraining, wn_LastSeen := now\<rparr>) (workers r)\<rparr>))"

definition ActiveWorkerCount :: "Registry \<Rightarrow> int" where
  "ActiveWorkerCount r = int (length (workers r))"

definition WorkerStateCounts :: "(string, WorkerNode) visit \<Rightarrow> Registry \<Rightarrow> (string, int) gomap" where
  "WorkerStateCounts it r =
     fold (\<lambda>(_, worker) counts.
         let state = (if wn_State worker = '''' then WorkerStateReady else wn_State worker)
         in go_put state ((case map_of counts state of None \<Rightarrow> 0 | Some n \<Rightarrow> n) + 1) counts)
       (range_of it (workers r)) []"

text \<open>The oldest non-zero \<open>LastSeen\<close>, then its age in whole seconds, at least 0.\<close>

definition OldestHeartbeatAge :: "(string, WorkerNode) visit \<Rightarrow> time \<Rightarrow> Registry \<Rightarrow> int option" where
  "OldestHeartbeatAge it now r =
     (case scan_min (\<lambda>t. \<not> IsZero t) (\<lambda>t. t)
             (map (\<lambda>(_, worker). wn_LastSeen worker) (range_of it (workers r))) None of
        None \<Rightarrow> None
      | Some oldest \<Rightarrow>
          let age = trunc_div (Sub now oldest) Second in Some (if age < 0 then 0 else age))"

definition CleanupAt :: "(string, WorkerNode) visit \<Rightarrow> time \<Rightarrow> Registry \<Rightarrow> Registry" where
  "CleanupAt it now r =
     r\<lparr>workers := delete_where it
         (\<lambda>_ node. Sub now (wn_LastSeen node) > workerStaleTimeout r) (workers r)\<rparr>"

section \<open>Invariant\<close>

text \<open>
  Every node is stored under its own identifier, with a non-zero last-seen time and a
  non-empty state; the timeout is positive.
\<close>

definition registry_wf :: "Registry \<Rightarrow> bool" where
  "registry_wf r \<longleftrightarrow> wf_map (workers r) \<and> 0 < workerStaleTimeout r \<and>
     (\<forall>(k, w) \<in> set (workers r). wn_ID w = k \<and> wn_LastSeen w \<noteq> 0 \<and> wn_State w \<noteq> '''')"

lemma registry_wf_lookup:
  "registry_wf r \<Longrightarrow> map_of (workers r) k = Some w \<Longrightarrow> wn_ID w = k \<and> wn_LastSeen w \<noteq> 0 \<and> wn_State w \<noteq> ''''"
  by (auto simp: registry_wf_def dest!: map_of_SomeD)

lemma NewRegistry_wf [wf_intros]: "registry_wf (NewRegistryWithStaleTimeout d)"
  by (simp add: registry_wf_def NewRegistryWithStaleTimeout_def DefaultWorkerStaleTimeout_def)

lemma registry_wf_put:
  assumes "registry_wf r" "wn_ID w = k" "wn_LastSeen w \<noteq> 0" "wn_State w \<noteq> ''''"
  shows "registry_wf (r\<lparr>workers := go_put k w (workers r)\<rparr>)"
  using assms by (auto simp: registry_wf_def set_put_wf)

lemma RegisterWorker_wf [wf_intros]:
  "registry_wf r \<Longrightarrow> now \<noteq> 0 \<Longrightarrow> registry_wf (RegisterWorker now w r)"
  unfolding RegisterWorker_def Let_def
  by (rule registry_wf_put) (auto simp: WorkerStateReady_def)

lemma UpdateWorkerStatus_wf [wf_intros]:
  "registry_wf r \<Longrightarrow> now \<noteq> 0 \<Longrightarrow> registry_wf (snd (UpdateWorkerStatus now b r))"
  by (auto simp: UpdateWorkerStatus_def Let_def WorkerStateReady_def
      dest: registry_wf_lookup intro!: registry_wf_put split: option.splits)

lemma DrainWorker_wf [wf_intros]:
  "registry_wf r \<Longrightarrow> now \<noteq> 0 \<Longrightarrow> registry_wf (snd (DrainWorker now k r))"
  by (auto simp: DrainWorker_def WorkerStateDraining_def
      dest: registry_wf_lookup intro!: registry_wf_put split: option.splits)

lemma CleanupAt_wf [wf_intros]: "registry_wf r \<Longrightarrow> registry_wf (CleanupAt it now r)"
  by (auto simp: registry_wf_def CleanupAt_def delete_where_eq)

section \<open>Runs of the registry\<close>

text \<open>
  The gateway handlers and the reaper call the methods in any order; a run is any sequence of
  method calls, each with its own clock reading (never the zero time).
\<close>

datatype registry_op =
    OpRegister time WorkerNode
  | OpHeartbeat time Heartbeat
  | OpDrain time string
  | OpCleanup "(string, WorkerNode) visit" time

fun registry_apply :: "registry_op \<Rightarrow> Registry \<Rightarrow> Registry" where
  "registry_apply (OpRegister now w) r = RegisterWorker now w r"
| "registry_apply (OpHeartbeat now b) r = snd (UpdateWorkerStatus now b r)"
| "registry_apply (OpDrain now k) r = snd (DrainWorker now k r)"
| "registry_apply (OpCleanup it now) r = CleanupAt it now r"

fun op_clock :: "registry_op \<Rightarrow> time" where
  "op_clock (OpRegister now _) = now"
| "op_clock (OpHeartbeat now _) = now"
| "op_clock (OpDrain now _) = now"
| "op_clock (OpCleanup _ now) = now"

inductive registry_reach :: "Registry \<Rightarrow> bool" where
  reach_new: "registry_reach (NewRegistryWithStaleTimeout d)"
| reach_op: "registry_reach r \<Longrightarrow> op_clock op \<noteq> 0 \<Longrightarrow> registry_reach (registry_apply op r)"

lemma registry_apply_wf [wf_intros]:
  "registry_wf r \<Longrightarrow> op_clock op \<noteq> 0 \<Longrightarrow> registry_wf (registry_apply op r)"
  by (cases op) (simp_all add: wf_intros)

lemma registry_reach_wf: "registry_reach r \<Longrightarrow> registry_wf r"
  by (induction rule: registry_reach.induct) (simp_all add: wf_intros)

text \<open>
  In every registry a run of registrations, heartbeats, drains and cleanups can reach,
  each node is stored once, under its own identifier, with a last-seen time and with a
  state; so the schedulable workers are the registered ones whose state is ready, in whatever
  order the map is visited.
\<close>

theorem registry_invariant:
  assumes "registry_reach r"
  shows "registry_wf r \<and>
    mset (GetSchedulableWorkers it r) =
      {# w \<in># mset (GetActiveWorkers it' r). wn_State w = WorkerStateReady #}"
proof -
  have wf: "registry_wf r" using assms by (rule registry_reach_wf)
  have "filter (\<lambda>w. wn_State w = '''' \<or> wn_State w = WorkerStateReady) (map snd (range_of it (workers r)))
      = filter (\<lambda>w. wn_State w = WorkerStateReady) (map snd (range_of it (workers r)))"
    using wf by (intro filter_cong) (auto simp: registry_wf_def)
  then have "mset (GetSchedulableWorkers it r) =
      {# w \<in># image_mset snd (mset (workers r)). wn_State w = WorkerStateReady #}"
    by (simp add: GetSchedulableWorkers_def)
  with wf show ?thesis by (simp add: GetActiveWorkers_def)
qed

definition node_a :: WorkerNode where
  "node_a = zero_WorkerNode\<lparr>wn_ID := ''a'', wn_IPAddress := ''h:1''\<rparr>"

definition registry_a :: Registry where
  "registry_a = RegisterWorker 5 node_a NewRegistry"

lemma registry_a_reach: "registry_reach registry_a"
  using reach_op [OF reach_new [of DefaultWorkerStaleTimeout], of "OpRegister 5 node_a"]
  by (simp add: registry_a_def NewRegistry_def)

theorem registry_invariant_witness:
  "registry_wf registry_a \<and> length (GetSchedulableWorkers id registry_a) = 1"
proof -
  have "registry_wf registry_a"
    using registry_invariant [OF registry_a_reach, of id id] by blast
  moreover have "length (GetSchedulableWorkers id registry_a) = 1"
    by (simp add: registry_a_def GetSchedulableWorkers_def RegisterWorker_def NewRegistry_def
        NewRegistryWithStaleTimeout_def node_a_def zero_WorkerNode_def)
  ultimately show ?thesis by blast
qed

section \<open>Draining\<close>

fun registers :: "string \<Rightarrow> registry_op \<Rightarrow> bool" where
  "registers k (OpRegister _ w) = (wn_ID w = k)"
| "registers k _ = False"

definition not_ready :: "string \<Rightarrow> Registry \<Rightarrow> bool" where
  "not_ready k r \<longleftrightarrow>
     (\<forall>w. map_of (workers r) k = Some w \<longrightarrow> wn_State w = WorkerStateDraining)"

lemma RegisterWorker_other: "wn_ID w \<noteq> k \<Longrightarrow> map_of (workers (RegisterWorker now w r)) k = map_of (workers r) k"
  by (simp add: RegisterWorker_def Let_def)

lemma UpdateWorkerStatus_other: "hb_NodeID b \<noteq> k \<Longrightarrow> map_of (workers (snd (UpdateWorkerStatus now b r))) k = map_of (workers r) k"
  by (simp add: UpdateWorkerStatus_def Let_def split: option.split)

lemma DrainWorker_other: "j \<noteq> k \<Longrightarrow> map_of (workers (snd (DrainWorker now j r))) k = map_of (workers r) k"
  by (simp add: DrainWorker_def split: option.split)

lemma UpdateWorkerStatus_state:
  "map_of (workers (snd (UpdateWorkerStatus now b r))) k = Some w \<Longrightarrow>
   \<exists>w0. map_of (workers r) k = Some w0 \<and> (wn_State w0 \<noteq> '''' \<longrightarrow> wn_State w = wn_State w0)"
  by (cases "k = hb_NodeID b")
    (auto simp: UpdateWorkerStatus_def Let_def split: option.splits if_splits)

lemma DrainWorker_state:
  "map_of (workers (snd (DrainWorker now j r))) k = Some w \<Longrightarrow>
   wn_State w = WorkerStateDraining \<or> map_of (workers r) k = Some w"
  by (cases "k = j") (auto simp: DrainWorker_def split: option.splits)

lemma CleanupAt_lookup:
  "registry_wf r \<Longrightarrow> map_of (workers (CleanupAt it now r)) k =
     (case map_of (workers r) k of
        None \<Rightarrow> None
      | Some w \<Rightarrow> if Sub now (wn_LastSeen w) > workerStaleTimeout r then None else Some w)"
  by (simp add: CleanupAt_def registry_wf_def delete_where_eq map_of_filter_wf split: option.splits)

lemma registry_apply_not_ready:
  assumes "registry_wf r" "not_ready k r" "\<not> registers k op"
  shows "not_ready k (registry_apply op r)"
proof (cases op)
  case (OpRegister now w)
  with assms show ?thesis by (simp add: not_ready_def RegisterWorker_other)
next
  case (OpHeartbeat now b)
  have "WorkerStateDraining \<noteq> ''''" by (simp add: WorkerStateDraining_def)
  with OpHeartbeat assms(2) show ?thesis
    by (auto simp: not_ready_def dest!: UpdateWorkerStatus_state)
next
  case (OpDrain now j)
  with assms(2) show ?thesis by (auto simp: not_ready_def dest: DrainWorker_state)
next
  case (OpCleanup it now)
  with assms show ?thesis
    by (auto simp: not_ready_def CleanupAt_lookup split: option.splits if_splits)
qed

lemma registry_run_not_ready:
  "registry_wf r \<Longrightarrow> not_ready k r \<Longrightarrow> \<forall>op \<in> set ops. \<not> registers k op \<and> op_clock op \<noteq> 0 \<Longrightarrow>
   registry_wf (fold registry_apply ops r) \<and> not_ready k (fold registry_apply ops r)"
  by (induction ops arbitrary: r) (auto simp: registry_apply_not_ready wf_intros)

lemma not_ready_unschedulable:
  assumes "registry_wf r" "not_ready k r" "w \<in> set (GetSchedulableWorkers it r)"
  shows "wn_ID w \<noteq> k"
proof
  assume "wn_ID w = k"
  from assms(3) obtain j where j: "(j, w) \<in> set (workers r)"
    and st: "wn_State w = '''' \<or> wn_State w = WorkerStateReady"
    by (auto simp: GetSchedulableWorkers_def)
  have "map_of (workers r) j = Some w" "j = k"
    using assms(1) j \<open>wn_ID w = k\<close> by (auto simp: registry_wf_def)
  with assms(2) st show False
    by (simp add: not_ready_def WorkerStateDraining_def WorkerStateReady_def)
qed

text \<open>
  (C35) Once a worker is marked draining, no sequence of heartbeats, drains, cleanups and
  registrations of other workers makes it schedulable again.
\<close>

theorem drained_stays_unschedulable:
  assumes "registry_wf r" "t \<noteq> 0" "DrainWorker t k r = (None, r')"
    and "\<forall>op \<in> set ops. \<not> registers k op \<and> op_clock op \<noteq> 0"
    and "w \<in> set (GetSchedulableWorkers it (fold registry_apply ops r'))"
  shows "wn_ID w \<noteq> k"
proof -
  have "registry_wf r'" using DrainWorker_wf [OF assms(1,2), of k] assms(3) by simp
  moreover have "not_ready k r'"
    using assms(3) by (auto simp: DrainWorker_def not_ready_def split: option.splits)
  ultimately show ?thesis
    using registry_run_not_ready [OF _ _ assms(4)] not_ready_unschedulable assms(5) by blast
qed

definition node_b :: WorkerNode where
  "node_b = zero_WorkerNode\<lparr>wn_ID := ''b'', wn_IPAddress := ''h:2''\<rparr>"

definition registry_ab :: Registry where
  "registry_ab = RegisterWorker 6 node_b registry_a"

lemmas registry_example_defs = registry_ab_def registry_a_def node_a_def node_b_def
  zero_WorkerNode_def NewRegistry_def NewRegistryWithStaleTimeout_def RegisterWorker_def

lemma registry_ab_wf: "registry_wf registry_ab"
  unfolding registry_ab_def using registry_reach_wf [OF registry_a_reach] by (simp add: wf_intros)

theorem drained_stays_unschedulable_witness:
  "\<exists>r' w. DrainWorker 7 ''a'' registry_ab = (None, r') \<and>
     w \<in> set (GetSchedulableWorkers id (fold registry_apply
       [OpHeartbeat 8 \<lparr>hb_NodeID = ''a'', hb_CPUFree = Fin 50, hb_RAMFreeMB = Fin 100\<rparr>] r')) \<and>
     wn_ID w \<noteq> ''a''"
proof -
  define r' where "r' = snd (DrainWorker 7 ''a'' registry_ab)"
  define ops where "ops = [OpHeartbeat 8 \<lparr>hb_NodeID = ''a'', hb_CPUFree = Fin 50, hb_RAMFreeMB = Fin 100\<rparr>]"
  define w where "w = node_b\<lparr>wn_LastSeen := 6, wn_State := WorkerStateReady\<rparr>"
  have d: "DrainWorker 7 ''a'' registry_ab = (None, r')"
    by (simp add: r'_def DrainWorker_def registry_example_defs)
  have h: "\<forall>op \<in> set ops. \<not> registers ''a'' op \<and> op_clock op \<noteq> 0" by (simp add: ops_def)
  have m: "w \<in> set (GetSchedulableWorkers id (fold registry_apply ops r'))"
    by (simp add: w_def ops_def r'_def DrainWorker_def UpdateWorkerStatus_def GetSchedulableWorkers_def
        registry_example_defs WorkerStateReady_def WorkerStateDraining_def)
  have "wn_ID w \<noteq> ''a''"
    using drained_stays_unschedulable [OF registry_ab_wf _ d h m] by simp
  with d m show ?thesis unfolding ops_def by blast
qed

text \<open>
  A registration puts the worker back into the schedulable set, also when the worker was
  marked draining before. Workers register again on every telemetry tick, without a state, so
  a drain ordered by an operator lasts until the next tick of a live worker.
\<close>

theorem registration_undoes_drain:
  assumes "DrainWorker t k r = (None, r')" "wn_ID w = k" "wn_State w = ''''"
  shows "\<exists>w' \<in> set (GetSchedulableWorkers it (RegisterWorker t' w r')). wn_ID w' = k"
proof -
  define w' where "w' = (if IsZero (wn_LastSeen w) then w\<lparr>wn_LastSeen := t'\<rparr> else w)\<lparr>wn_State := WorkerStateReady\<rparr>"
  have "map_of (workers (RegisterWorker t' w r')) k = Some w'"
    using assms(2,3) by (cases "wn_LastSeen w = 0") (simp_all add: RegisterWorker_def w'_def)
  then have "(k, w') \<in> set (workers (RegisterWorker t' w r'))" by (rule map_of_SomeD)
  then have "w' \<in> set (GetSchedulableWorkers it (RegisterWorker t' w r'))"
    by (force simp: GetSchedulableWorkers_def w'_def)
  moreover have "wn_ID w' = k" using assms(2) by (simp add: w'_def)
  ultimately show ?thesis by blast
qed

theorem registration_undoes_drain_witness:
  "\<exists>r'. DrainWorker 7 ''a'' registry_ab = (None, r') \<and>
     (\<exists>w' \<in> set (GetSchedulableWorkers id (RegisterWorker 9 node_a r')). wn_ID w' = ''a'')"
proof -
  have "fst (DrainWorker 7 ''a'' registry_ab) = None"
    by (simp add: DrainWorker_def registry_example_defs)
  then have d: "DrainWorker 7 ''a'' registry_ab = (None, snd (DrainWorker 7 ''a'' registry_ab))"
    by (metis prod.collapse)
  have n: "wn_ID node_a = ''a''" "wn_State node_a = ''''"
    by (simp_all add: node_a_def zero_WorkerNode_def)
  show ?thesis using registration_undoes_drain [OF d n, of id 9] d by blast
qed

section \<open>Heartbeats and the reaper\<close>

text \<open>
  After an accepted heartbeat at time \<open>t\<close>, a cleanup at time \<open>now\<close> keeps the worker
  exactly when no more than the stale timeout has passed since \<open>t\<close>, for every order in which
  the reaper visits the map.
\<close>

theorem heartbeat_keeps_worker:
  assumes "registry_wf r" "workerStaleTimeout r < max_duration" "t \<noteq> 0"
    and "UpdateWorkerStatus t b r = (None, r')"
  shows "map_of (workers (CleanupAt it now r')) (hb_NodeID b) \<noteq> None \<longleftrightarrow>
         now - t \<le> workerStaleTimeout r"
proof -
  have wf': "registry_wf r'" using UpdateWorkerStatus_wf [OF assms(1,3), of b] assms(4) by simp
  have to: "workerStaleTimeout r' = workerStaleTimeout r"
    using assms(4) by (auto simp: UpdateWorkerStatus_def Let_def split: option.splits)
  obtain w where w: "map_of (workers r') (hb_NodeID b) = Some w" "wn_LastSeen w = t"
    using assms(4) by (auto simp: UpdateWorkerStatus_def Let_def split: option.splits)
  have "min_duration \<le> workerStaleTimeout r"
    using assms(1) by (simp add: registry_wf_def min_duration_def)
  then show ?thesis
    using w assms(2) by (simp add: CleanupAt_lookup [OF wf'] to Sub_gt_iff not_less)
qed

theorem heartbeat_keeps_worker_witness:
  "\<exists>r'. UpdateWorkerStatus 100 \<lparr>hb_NodeID = ''a'', hb_CPUFree = Fin 1, hb_RAMFreeMB = Fin 1\<rparr> registry_a = (None, r') \<and>
     map_of (workers (CleanupAt id (100 + 30 * Second) r')) ''a'' \<noteq> None"
proof -
  let ?b = "\<lparr>hb_NodeID = ''a'', hb_CPUFree = Fin 1, hb_RAMFreeMB = Fin 1\<rparr>"
  have "fst (UpdateWorkerStatus 100 ?b registry_a) = None"
    by (simp add: UpdateWorkerStatus_def registry_example_defs Let_def)
  then have u: "UpdateWorkerStatus 100 ?b registry_a = (None, snd (UpdateWorkerStatus 100 ?b registry_a))"
    by (metis prod.collapse)
  have t: "workerStaleTimeout registry_a < max_duration"
    by (simp add: registry_example_defs DefaultWorkerStaleTimeout_def max_duration_def)
  have "map_of (workers (CleanupAt id (100 + 30 * Second) (snd (UpdateWorkerStatus 100 ?b registry_a)))) ''a'' \<noteq> None"
    using heartbeat_keeps_worker [OF registry_reach_wf [OF registry_a_reach] t _ u, of id "100 + 30 * Second"]
    by (simp add: registry_example_defs DefaultWorkerStaleTimeout_def)
  with u show ?thesis by blast
qed

section \<open>What the metrics endpoint reads\<close>

definition shown_state :: "WorkerNode \<Rightarrow> string" where
  "shown_state w = (if wn_State w = '''' then WorkerStateReady else wn_State w)"

definition count_step :: "WorkerNode \<Rightarrow> (string, int) gomap \<Rightarrow> (string, int) gomap" where
  "count_step w counts =
     go_put (shown_state w) ((case map_of counts (shown_state w) of None \<Rightarrow> 0 | Some n \<Rightarrow> n) + 1) counts"

lemma WorkerStateCounts_fold:
  "WorkerStateCounts it r = fold count_step (map snd (range_of it (workers r))) []"
  unfolding WorkerStateCounts_def fold_map
  by (intro fold_cong) (auto simp: count_step_def shown_state_def Let_def fun_eq_iff)

lemma fold_count_step:
  "(case map_of (fold count_step ws counts) s of None \<Rightarrow> 0 | Some n \<Rightarrow> n) =
   (case map_of counts s of None \<Rightarrow> 0 | Some n \<Rightarrow> n) + int (length (filter (\<lambda>w. shown_state w = s) ws))"
proof (induction ws arbitrary: counts)
  case (Cons w ws)
  show ?case
    using Cons [of "count_step w counts"]
    by (cases "shown_state w = s") (simp_all add: count_step_def)
qed simp

text \<open>
  The worker counts by state in the metrics are right in every order of iteration: the
  count of a state is the number of registered workers that show it.
\<close>

theorem worker_state_counts_exact:
  "(case map_of (WorkerStateCounts it r) s of None \<Rightarrow> 0 | Some n \<Rightarrow> n) =
     int (card {i. i < length (workers r) \<and> shown_state (snd (workers r ! i)) = s})"
proof -
  have "mset (filter (\<lambda>w. shown_state w = s) (map snd (range_of it (workers r)))) =
        mset (filter (\<lambda>w. shown_state w = s) (map snd (workers r)))"
    by simp
  then have "length (filter (\<lambda>w. shown_state w = s) (map snd (range_of it (workers r)))) =
        length (filter (\<lambda>w. shown_state w = s) (map snd (workers r)))"
    by (metis size_mset)
  also have "\<dots> = card {i. i < length (workers r) \<and> shown_state (snd (workers r ! i)) = s}"
    by (simp add: length_filter_conv_card cong: conj_cong)
  finally show ?thesis by (simp add: WorkerStateCounts_fold fold_count_step)
qed

text \<open>The oldest heartbeat age is the greatest age of a registered worker, and never negative.\<close>

lemma OldestHeartbeatAge_max:
  assumes "registry_wf r" "OldestHeartbeatAge it now r = Some age"
    and "(k, w) \<in> set (workers r)"
  shows "0 \<le> age \<and> trunc_div (Sub now (wn_LastSeen w)) Second \<le> age"
proof -
  obtain oldest where o: "scan_min (\<lambda>t. \<not> IsZero t) (\<lambda>t. t)
      (map (\<lambda>(_, worker). wn_LastSeen worker) (range_of it (workers r))) None = Some oldest"
    and age: "age = (let a = trunc_div (Sub now oldest) Second in if a < 0 then 0 else a)"
    using assms(2) by (auto simp: OldestHeartbeatAge_def Let_def split: option.splits)
  have "wn_LastSeen w \<noteq> 0" using assms(1,3) by (auto simp: registry_wf_def)
  then have "oldest \<le> wn_LastSeen w" using scan_min_Some [OF o] assms(3) by force
  then have "Sub now (wn_LastSeen w) \<le> Sub now oldest" by (auto simp: Sub_def)
  then have "trunc_div (Sub now (wn_LastSeen w)) Second \<le> trunc_div (Sub now oldest) Second"
    by (rule trunc_div_mono) simp
  then show ?thesis by (simp add: age Let_def)
qed

end
