(* ===== verification/Master_Scheduler.thy ===== *)
theory Master_Scheduler
  imports Master_Registry
begin

text \<open>
  \<open>src/internal/master/scheduler.go\<close>: capacity filter and nearest-worker selection.

  \<open>calculateHaversine\<close> is the formula of the source over the reals. The scheduler compares the
  float64 values the formula evaluates to; that evaluation, \<open>hav\<close>, is an argument of
  \<open>FindClosestWorker\<close>, and \<open>exact_haversine\<close> is the instance without rounding.
\<close>

section \<open>The distance formula\<close>

definition EarthRadius :: real where "EarthRadius = 6371"

definition degreesToRadians :: "real \<Rightarrow> real" where
  "degreesToRadians degrees = degrees * (pi / 180)"

text \<open>\<open>math.Atan2\<close> on the reals.\<close>

definition Atan2 :: "real \<Rightarrow> real \<Rightarrow> real" where
  "Atan2 y x =
     (if x > 0 then arctan (y / x)
      else if x < 0 then (if y \<ge> 0 then arctan (y / x) + pi else arctan (y / x) - pi)
      else if y > 0 then pi / 2 else if y < 0 then - (pi / 2) else 0)"

definition haversine_a :: "real \<Rightarrow> real \<Rightarrow> real \<Rightarrow> real \<Rightarrow> real" where
  "haversine_a lat1Rad lon1Rad lat2Rad lon2Rad =
     (let deltaLat = lat2Rad - lat1Rad; deltaLon = lon2Rad - lon1Rad in
      sin (deltaLat / 2) * sin (deltaLat / 2) +
      cos lat1Rad * cos lat2Rad * sin (deltaLon / 2) * sin (deltaLon / 2))"

definition calculateHaversine :: "real \<Rightarrow> real \<Rightarrow> real \<Rightarrow> real \<Rightarrow> real" where
  "calculateHaversine lat1 lon1 lat2 lon2 =
     (let a = haversine_a (degreesToRadians lat1) (degreesToRadians lon1)
                          (degreesToRadians lat2) (degreesToRadians lon2);
          c = 2 * Atan2 (sqrt a) (sqrt (1 - a))
      in EarthRadius * c)"

fun exact_haversine :: "float64 \<Rightarrow> float64 \<Rightarrow> float64 \<Rightarrow> float64 \<Rightarrow> float64" where
  "exact_haversine (Fin a) (Fin b) (Fin c) (Fin d) = Fin (calculateHaversine a b c d)"
| "exact_haversine _ _ _ _ = NaN"

section \<open>Selection\<close>

record Scheduler =
  MinCPUFree :: float64
  MinRAMFreeMB :: float64

type_synonym distance = "float64 \<Rightarrow> float64 \<Rightarrow> float64 \<Rightarrow> float64 \<Rightarrow> float64"

text \<open>Each \<open>continue\<close> of the source drops the worker.\<close>

definition FilterWorkersByCapacity :: "WorkerNode list \<Rightarrow> float64 \<Rightarrow> float64 \<Rightarrow> WorkerNode list" where
  "FilterWorkersByCapacity ws minCPUFree minRAMFreeMB =
     filter (\<lambda>worker.
         if wn_State worker = WorkerStateDraining then False
         else if flt_less (wn_CPUFree worker) minCPUFree then False
         else if flt_less (wn_RAMFreeMB worker) minRAMFreeMB then False
         else True) ws"

fun closest_loop :: "(WorkerNode \<Rightarrow> float64) \<Rightarrow> WorkerNode list \<Rightarrow> WorkerNode \<Rightarrow> float64 \<Rightarrow> WorkerNode" where
  "closest_loop dst [] closestWorker shortestDistance = closestWorker"
| "closest_loop dst (worker # ws) closestWorker shortestDistance =
     (if flt_less (dst worker) shortestDistance
      then closest_loop dst ws worker (dst worker)
      else closest_loop dst ws closestWorker shortestDistance)"

definition FindClosestWorker :: "distance \<Rightarrow> float64 \<Rightarrow> float64 \<Rightarrow> WorkerNode list \<Rightarrow> WorkerNode go_result" where
  "FindClosestWorker hav userLat userLon ws =
     (if ws = [] then Inl ''no active workers available in the cluster''
      else Inr (closest_loop (\<lambda>worker. hav userLat userLon (wn_Latitude worker) (wn_Longitude worker))
                  ws zero_WorkerNode MaxFloat64))"

definition SelectWorker :: "distance \<Rightarrow> Scheduler \<Rightarrow> float64 \<Rightarrow> float64 \<Rightarrow> WorkerNode list \<Rightarrow> WorkerNode go_result" where
  "SelectWorker hav s userLat userLon ws =
     (let eligible = FilterWorkersByCapacity ws (MinCPUFree s) (MinRAMFreeMB s) in
      if eligible = [] then Inl ''no active workers meet capacity requirements''
      else FindClosestWorker hav userLat userLon eligible)"

section \<open>The formula is the great-circle distance\<close>

lemma half_angle: "2 * (sin (x / 2) * sin (x / 2)) = 1 - cos (x::real)"
  using cos_double_sin [of "x / 2"] by (simp add: power2_eq_square)

lemma haversine_a_cos:
  "1 - 2 * haversine_a p l q m = sin p * sin q + cos p * cos q * cos (m - l)"
proof -
  have "2 * haversine_a p l q m = (1 - cos (q - p)) + cos p * cos q * (1 - cos (m - l))"
    unfolding haversine_a_def Let_def distrib_left half_angle [of "q - p"] half_angle [of "m - l", symmetric]
    by (simp add: mult.assoc mult.left_commute)
  then show ?thesis by (simp add: cos_diff algebra_simps)
qed

lemma sin_half_le: "sin (x / 2) * sin (x / 2) \<le> (1::real)"
  by (metis abs_sin_le_one abs_square_le_1 power2_eq_square)

lemma haversine_a_bounds:
  assumes "0 \<le> cos p" "0 \<le> cos q"
  shows "0 \<le> haversine_a p l q m" "haversine_a p l q m \<le> 1"
proof -
  let ?k = "cos p * cos q"
  have k: "0 \<le> ?k" using assms by simp
  have s: "0 \<le> sin ((m - l) / 2) * sin ((m - l) / 2)" "sin ((m - l) / 2) * sin ((m - l) / 2) \<le> 1"
    using sin_half_le by auto
  show "0 \<le> haversine_a p l q m"
    using mult_nonneg_nonneg [OF k s(1)] by (simp add: haversine_a_def Let_def mult.assoc)
  have "?k * (sin ((m - l) / 2) * sin ((m - l) / 2)) \<le> ?k"
    using k s(2) by (metis mult.right_neutral mult_left_mono)
  then have "haversine_a p l q m \<le> sin ((q - p) / 2) * sin ((q - p) / 2) + ?k"
    by (simp add: haversine_a_def Let_def mult.assoc)
  also have "\<dots> = (1 + cos (p + q)) / 2"
  proof -
    have "2 * (sin ((q - p) / 2) * sin ((q - p) / 2)) = 1 - cos (q - p)"
      by (rule half_angle)
    then show ?thesis by (simp add: cos_add cos_diff mult.commute)
  qed
  also have "\<dots> \<le> 1" using cos_le_one [of "p + q"] by simp
  finally show "haversine_a p l q m \<le> 1" .
qed

lemma Atan2_double_cos:
  assumes "0 \<le> a" "a \<le> 1"
  shows "2 * Atan2 (sqrt a) (sqrt (1 - a)) = arccos (1 - 2 * a)"
proof (cases "a = 1")
  case True
  then show ?thesis by (simp add: Atan2_def)
next
  case False
  define t where "t = arctan (sqrt a / sqrt (1 - a))"
  have pos: "0 < 1 - a" using False assms by simp
  have t: "Atan2 (sqrt a) (sqrt (1 - a)) = t" using pos by (simp add: Atan2_def t_def)
  have "0 \<le> t" using assms pos by (simp add: t_def)
  have "t < pi / 2" unfolding t_def by (rule arctan_ubound)
  have "1 + (tan t)\<^sup>2 = 1 / (1 - a)"
    using assms pos by (simp add: t_def tan_arctan power_divide field_simps)
  moreover have "(cos t)\<^sup>2 * (1 + (tan t)\<^sup>2) = 1"
  proof -
    have "cos t \<noteq> 0" unfolding t_def by (rule cos_arctan_not_zero)
    then show ?thesis using tan_sec [of t] by (simp add: power_inverse)
  qed
  ultimately have "(cos t)\<^sup>2 * (1 / (1 - a)) = 1" by (simp only:)
  then have "(cos t)\<^sup>2 = 1 - a" using pos by simp
  then have "cos (2 * t) = 1 - 2 * a" by (simp add: cos_double_cos)
  then have "arccos (1 - 2 * a) = 2 * t"
    using arccos_cos [of "2 * t"] \<open>0 \<le> t\<close> \<open>t < pi / 2\<close> by simp
  then show ?thesis by (simp add: t)
qed

lemma cos_latitude: "-90 \<le> lat \<Longrightarrow> lat \<le> 90 \<Longrightarrow> 0 \<le> cos (degreesToRadians lat)"
proof -
  assume "-90 \<le> lat" "lat \<le> 90"
  then have "-90 * (pi / 180) \<le> lat * (pi / 180)" "lat * (pi / 180) \<le> 90 * (pi / 180)"
    by (intro mult_right_mono; simp)+
  then show ?thesis unfolding degreesToRadians_def by (intro cos_ge_zero) simp_all
qed

text \<open>
  (C39) For latitudes in range, the source's formula computes the great-circle distance: the
  Earth radius times the central angle given by the spherical law of cosines. In particular it
  lies between 0 and half the circumference.
\<close>

theorem haversine_great_circle:
  assumes "-90 \<le> lat1" "lat1 \<le> 90" "-90 \<le> lat2" "lat2 \<le> 90"
  shows "calculateHaversine lat1 lon1 lat2 lon2 =
      EarthRadius * arccos (sin (degreesToRadians lat1) * sin (degreesToRadians lat2) +
        cos (degreesToRadians lat1) * cos (degreesToRadians lat2) *
        cos (degreesToRadians lon2 - degreesToRadians lon1)) \<and>
    0 \<le> calculateHaversine lat1 lon1 lat2 lon2 \<and>
    calculateHaversine lat1 lon1 lat2 lon2 \<le> EarthRadius * pi"
proof -
  let ?a = "haversine_a (degreesToRadians lat1) (degreesToRadians lon1) (degreesToRadians lat2) (degreesToRadians lon2)"
  have a: "0 \<le> ?a" "?a \<le> 1" using haversine_a_bounds cos_latitude assms by simp_all
  then have eq: "calculateHaversine lat1 lon1 lat2 lon2 = EarthRadius * arccos (1 - 2 * ?a)"
    unfolding calculateHaversine_def Let_def by (simp add: Atan2_double_cos)
  have "0 \<le> arccos (1 - 2 * ?a)" "arccos (1 - 2 * ?a) \<le> pi"
    using a by (simp_all add: arccos_lbound arccos_ubound)
  then show ?thesis using eq by (simp add: EarthRadius_def haversine_a_cos)
qed

theorem haversine_great_circle_witness:
  "calculateHaversine 0 0 0 90 = EarthRadius * arccos (cos (degreesToRadians 90 - degreesToRadians 0))"
  using haversine_great_circle [of 0 0 0 90] by (simp add: degreesToRadians_def)

section \<open>What is selected\<close>

lemma closest_loop_min:
  assumes "w = closest_loop dst ws best short" "short \<noteq> NaN"
  shows "(w \<in> set ws \<and> flt_less (dst w) short \<or> w = best \<and> (\<forall>x \<in> set ws. \<not> flt_less (dst x) short)) \<and>
    (\<forall>x \<in> set ws. flt_less (dst w) short \<longrightarrow> w \<in> set ws \<longrightarrow> \<not> flt_less (dst x) (dst w))"
  using assms
proof (induction ws arbitrary: best short)
  case Nil
  then show ?case by simp
next
  case (Cons a ws)
  show ?case
  proof (cases "flt_less (dst a) short")
    case True
    then have n: "dst a \<noteq> NaN" and w: "w = closest_loop dst ws a (dst a)" using Cons.prems by auto
    show ?thesis using Cons.IH [OF w n] True flt_less_trans by auto
  next
    case False
    then have w: "w = closest_loop dst ws best short" using Cons.prems by simp
    show ?thesis
      using Cons.IH [OF w Cons.prems(2)] False flt_less_trans by auto
  qed
qed

lemma closest_loop_blind:
  "\<forall>x \<in> set ws. \<not> flt_less (dst x) short \<Longrightarrow> closest_loop dst ws best short = best"
  by (induction ws) auto

lemma MaxFloat64_not_NaN [simp]: "MaxFloat64 \<noteq> NaN"
  by (simp add: MaxFloat64_def)

abbreviation distance_to :: "distance \<Rightarrow> float64 \<Rightarrow> float64 \<Rightarrow> WorkerNode \<Rightarrow> float64" where
  "distance_to hav lat lon w \<equiv> hav lat lon (wn_Latitude w) (wn_Longitude w)"

lemma FindClosestWorker_min:
  assumes "FindClosestWorker hav lat lon ws = Inr w" "\<exists>x \<in> set ws. flt_less (distance_to hav lat lon x) MaxFloat64"
  shows "w \<in> set ws \<and> (\<forall>x \<in> set ws. \<not> flt_less (distance_to hav lat lon x) (distance_to hav lat lon w))"
proof -
  have w: "w = closest_loop (distance_to hav lat lon) ws zero_WorkerNode MaxFloat64"
    using assms(1) by (simp add: FindClosestWorker_def split: if_splits)
  show ?thesis using closest_loop_min [OF w MaxFloat64_not_NaN] assms(2) by blast
qed

text \<open>What makes a worker eligible.\<close>

definition eligible_worker :: "Scheduler \<Rightarrow> WorkerNode \<Rightarrow> bool" where
  "eligible_worker s w \<longleftrightarrow> wn_State w \<noteq> WorkerStateDraining \<and>
     \<not> flt_less (wn_CPUFree w) (MinCPUFree s) \<and> \<not> flt_less (wn_RAMFreeMB w) (MinRAMFreeMB s)"

lemma FilterWorkersByCapacity_eligible:
  "FilterWorkersByCapacity ws (MinCPUFree s) (MinRAMFreeMB s) = filter (eligible_worker s) ws"
  unfolding FilterWorkersByCapacity_def eligible_worker_def by (rule filter_cong) auto

lemma SelectWorker_alt:
  "SelectWorker hav s lat lon ws =
     (if filter (eligible_worker s) ws = [] then Inl ''no active workers meet capacity requirements''
      else FindClosestWorker hav lat lon (filter (eligible_worker s) ws))"
  by (simp add: SelectWorker_def FilterWorkersByCapacity_eligible Let_def)

lemma SelectWorker_ok_iff: "is_ok (SelectWorker hav s lat lon ws) \<longleftrightarrow> (\<exists>w \<in> set ws. eligible_worker s w)"
  by (auto simp: SelectWorker_alt FindClosestWorker_def filter_empty_conv)

lemma SelectWorker_member:
  assumes "SelectWorker hav s lat lon ws = Inr w" "\<forall>x \<in> set ws. flt_less (distance_to hav lat lon x) MaxFloat64"
  shows "w \<in> set ws" "eligible_worker s w"
    "\<forall>x \<in> set ws. eligible_worker s x \<longrightarrow> \<not> flt_less (distance_to hav lat lon x) (distance_to hav lat lon w)"
proof -
  let ?e = "filter (eligible_worker s) ws"
  have ne: "?e \<noteq> []" and f: "FindClosestWorker hav lat lon ?e = Inr w"
    using assms(1) by (simp_all add: SelectWorker_alt split: if_splits)
  obtain x where "x \<in> set ?e" using ne by (metis list.set_intros(1) neq_Nil_conv)
  then have "\<exists>x \<in> set ?e. flt_less (distance_to hav lat lon x) MaxFloat64" using assms(2) by auto
  from FindClosestWorker_min [OF f this] show "w \<in> set ws" "eligible_worker s w"
    "\<forall>x \<in> set ws. eligible_worker s x \<longrightarrow> \<not> flt_less (distance_to hav lat lon x) (distance_to hav lat lon w)"
    by auto
qed

text \<open>
  (C32) A selection is an error exactly when no worker is eligible. When the distances to all
  workers are ordinary numbers, a selected worker is one of the candidates, is eligible (not
  draining and with the free CPU and memory the scheduler asks for) and no eligible candidate
  is nearer.
\<close>

theorem select_worker_nearest_eligible:
  "(is_ok (SelectWorker hav s lat lon ws) \<longleftrightarrow> (\<exists>w \<in> set ws. eligible_worker s w)) \<and>
   (\<forall>w. (\<forall>x \<in> set ws. flt_less (distance_to hav lat lon x) MaxFloat64) \<longrightarrow>
      SelectWorker hav s lat lon ws = Inr w \<longrightarrow>
      w \<in> set ws \<and> eligible_worker s w \<and>
      (\<forall>x \<in> set ws. eligible_worker s x \<longrightarrow>
         \<not> flt_less (distance_to hav lat lon x) (distance_to hav lat lon w)))"
  by (intro conjI allI impI SelectWorker_ok_iff SelectWorker_member(1,2))
    (assumption | rule SelectWorker_member(3))+

theorem select_worker_nearest_eligible_witness:
  "SelectWorker (\<lambda>a b c d. c) \<lparr>MinCPUFree = Fin 0, MinRAMFreeMB = Fin 0\<rparr> (Fin 0) (Fin 0)
     [zero_WorkerNode\<lparr>wn_Latitude := Fin 2\<rparr>, zero_WorkerNode\<lparr>wn_Latitude := Fin 1\<rparr>] =
     Inr (zero_WorkerNode\<lparr>wn_Latitude := Fin 1\<rparr>) \<and>
   eligible_worker \<lparr>MinCPUFree = Fin 0, MinRAMFreeMB = Fin 0\<rparr> (zero_WorkerNode\<lparr>wn_Latitude := Fin 1\<rparr>)"
proof -
  let ?s = "\<lparr>MinCPUFree = Fin 0, MinRAMFreeMB = Fin 0\<rparr>"
  let ?ws = "[zero_WorkerNode\<lparr>wn_Latitude := Fin 2\<rparr>, zero_WorkerNode\<lparr>wn_Latitude := Fin 1\<rparr>]"
  have "SelectWorker (\<lambda>a b c d. c) ?s (Fin 0) (Fin 0) ?ws = Inr (zero_WorkerNode\<lparr>wn_Latitude := Fin 1\<rparr>)"
    by (simp add: SelectWorker_alt FindClosestWorker_def eligible_worker_def MaxFloat64_def zero_WorkerNode_def
        WorkerStateDraining_def)
  moreover have "\<forall>x \<in> set ?ws. flt_less (distance_to (\<lambda>a b c d. c) (Fin 0) (Fin 0) x) MaxFloat64"
    by (simp add: MaxFloat64_def)
  ultimately show ?thesis
    using select_worker_nearest_eligible [of "\<lambda>a b c d. c" ?s "Fin 0" "Fin 0" ?ws] by blast
qed

text \<open>
  A distance that does not compare below the largest number (NaN, from coordinates that
  are NaN or infinite) is never recorded: when every candidate is at such a distance and one is
  eligible, selection succeeds and returns the zero node, which has no address.
\<close>

theorem select_worker_blind:
  assumes "\<forall>x \<in> set ws. \<not> flt_less (distance_to hav lat lon x) MaxFloat64" "\<exists>w \<in> set ws. eligible_worker s w"
  shows "SelectWorker hav s lat lon ws = Inr zero_WorkerNode"
  using assms by (simp add: SelectWorker_alt FindClosestWorker_def closest_loop_blind filter_empty_conv)

theorem select_worker_blind_witness:
  "SelectWorker exact_haversine \<lparr>MinCPUFree = Fin 0, MinRAMFreeMB = Fin 0\<rparr> NaN (Fin 0) [node_a] =
     Inr zero_WorkerNode"
  by (rule select_worker_blind) (simp_all add: eligible_worker_def node_a_def zero_WorkerNode_def WorkerStateDraining_def)

section \<open>The interface the dispatcher uses\<close>

text \<open>
  The dispatcher asks for a worker among candidates and drops those that failed. It relies on
  one law: a selection among candidates it may trust (\<open>good\<close>) is one of them. Trust is a
  condition on each candidate, so it survives dropping some.
\<close>

locale worker_selection =
  fixes select :: "'w list \<Rightarrow> 'e + 'w"
    and good :: "'w \<Rightarrow> bool"
  assumes select_member: "(\<forall>x \<in> set ws. good x) \<Longrightarrow> select ws = Inr w \<Longrightarrow> w \<in> set ws"
begin

lemma select_Nil: "\<exists>e. select [] = Inl e"
  using select_member [of "[]"] by (cases "select []") auto

lemma select_shrinks:
  assumes "\<forall>x \<in> set ws. good x" "select ws = Inr w" "\<not> keep w"
  shows "length (filter keep ws) < length ws" "\<forall>x \<in> set (filter keep ws). good x"
  using select_member [OF assms(1,2)] assms(1,3) by (auto intro: length_filter_less)

end

interpretation nearest: worker_selection "SelectWorker hav s lat lon"
  "\<lambda>x. flt_less (distance_to hav lat lon x) MaxFloat64" for hav s lat lon
  by unfold_locales (rule SelectWorker_member(1))

end
