(* ===== verification/Single_Flight.thy ===== *)
theory Single_Flight
  imports Wasmcat_Prelude
begin

text \<open>
  The contract of a table that lets one caller at a time work on a key: the master's request
  tracker and the worker's compile table both provide it.
\<close>

locale single_flight =
  fixes inv :: "'s \<Rightarrow> bool"
    and running :: "'k \<Rightarrow> 's \<Rightarrow> bool"
    and starts :: "'k \<Rightarrow> 's \<Rightarrow> bool"
    and step :: "'o \<Rightarrow> 's \<Rightarrow> 's"
    and ends :: "'k \<Rightarrow> 'o \<Rightarrow> bool"
  assumes step_inv: "inv s \<Longrightarrow> inv (step op s)"
    and step_running: "inv s \<Longrightarrow> running k s \<Longrightarrow> \<not> ends k op \<Longrightarrow> running k (step op s)"
    and running_refuses: "inv s \<Longrightarrow> running k s \<Longrightarrow> \<not> starts k s"
begin

lemma run_inv: "inv s \<Longrightarrow> inv (fold step ops s)"
  by (induction ops arbitrary: s) (simp_all add: step_inv)

lemma run_running:
  "inv s \<Longrightarrow> running k s \<Longrightarrow> \<forall>op \<in> set ops. \<not> ends k op \<Longrightarrow> running k (fold step ops s)"
  by (induction ops arbitrary: s) (simp_all add: step_inv step_running)

lemma no_second_start:
  assumes "inv s" "running k s" "\<forall>op \<in> set ops. \<not> ends k op"
  shows "\<not> starts k (fold step ops s)"
  using running_refuses [OF run_inv [OF assms(1)] run_running [OF assms]] .

end

end
