(* ===== verification/Master_Tracker.thy ===== *)
theory Master_Tracker
  imports Go_Maps Single_Flight Shared_Metrics
begin

text \<open>
  \<open>src/internal/master/request_tracker.go\<close>: the in-memory table that makes synchronous
  executions idempotent. A request id is in flight between the \<open>Begin\<close> that started it and its
  \<open>Complete\<close> or \<open>Forget\<close>; a completed id replays its response until it expires or is evicted.

  Every exported method holds the mutex for its whole body, so the methods are the atomic
  steps. The clock reading of a method is its argument \<open>now\<close>; \<open>it\<close> picks the iteration order of
  the \<open>range\<close> loops. A nil tracker is \<open>None\<close>.
\<close>

section \<open>State\<close>

definition DefaultExecutionRequestCacheTTL :: duration where
  "DefaultExecutionRequestCacheTTL = 5 * 60 * Second"
definition DefaultExecutionRequestCacheMaxEntries :: int where
  "DefaultExecutionRequestCacheMaxEntries = 4096"

datatype ExecutionRequestDecision =
    ExecutionRequestStarted
  | ExecutionRequestInFlight
  | ExecutionRequestCompleted
  | ExecutionRequestConflict

record trackedExecutionRequest =
  te_fingerprint :: string
  te_state :: ExecutionRequestDecision
  te_response :: ExecutionResponse
  te_completedAt :: time
  te_lastSeen :: "64 word"

type_synonym tracked = "(string, trackedExecutionRequest) gomap"
type_synonym tracked_visit = "(string, trackedExecutionRequest) visit"

record ExecutionRequestTracker =
  tr_entries :: tracked
  tr_ttl :: duration
  tr_maxEntries :: int
  tr_evictions :: "64 word"
  tr_expired :: "64 word"
  tr_sequence :: "64 word"

record ExecutionRequestStatus =
  st_Decision :: ExecutionRequestDecision
  st_Response :: ExecutionResponse

definition zero_ExecutionResponse :: ExecutionResponse where
  "zero_ExecutionResponse = \<lparr>resp_RequestID = '''', resp_Result = '''', resp_ExecutionTimeMs = Fin 0,
     resp_ExecutedOnNodeID = '''', resp_Error = ''''\<rparr>"

definition NewExecutionRequestTrackerWithLimit :: "duration \<Rightarrow> int \<Rightarrow> ExecutionRequestTracker" where
  "NewExecutionRequestTrackerWithLimit ttl maxEntries =
     \<lparr>tr_entries = [],
      tr_ttl = (if ttl \<le> 0 then DefaultExecutionRequestCacheTTL else ttl),
      tr_maxEntries = (if maxEntries \<le> 0 then DefaultExecutionRequestCacheMaxEntries else maxEntries),
      tr_evictions = 0, tr_expired = 0, tr_sequence = 0\<rparr>"

definition NewExecutionRequestTracker :: "duration \<Rightarrow> ExecutionRequestTracker" where
  "NewExecutionRequestTracker ttl =
     NewExecutionRequestTrackerWithLimit ttl DefaultExecutionRequestCacheMaxEntries"

section \<open>The fingerprint of a request\<close>

text \<open>
  The anonymous struct of \<open>executionRequestFingerprint\<close>. \<open>marshal\<close> is \<open>json.Marshal\<close> on it, which
  fails on a float that is not finite; \<open>sha256\<close> is \<open>sha256.Sum256\<close>.
\<close>

record request_identity =
  ri_ModuleName :: string
  ri_Payload :: string
  ri_ModuleURL :: string
  ri_ModuleRegistryURL :: string
  ri_ModuleDigest :: string
  ri_ModuleABI :: string
  ri_UserLat :: float64
  ri_UserLon :: float64

definition identity_of :: "ExecutionRequest \<Rightarrow> request_identity" where
  "identity_of req =
     \<lparr>ri_ModuleName = req_ModuleName req, ri_Payload = req_Payload req, ri_ModuleURL = req_ModuleURL req,
      ri_ModuleRegistryURL = req_ModuleRegistryURL req, ri_ModuleDigest = req_ModuleDigest req,
      ri_ModuleABI = req_ModuleABI req, ri_UserLat = req_UserLat req, ri_UserLon = req_UserLon req\<rparr>"

definition executionRequestFingerprint ::
  "(request_identity \<Rightarrow> string go_result) \<Rightarrow> (string \<Rightarrow> string) \<Rightarrow> ExecutionRequest \<Rightarrow> string go_result" where
  "executionRequestFingerprint marshal sha256 req =
     (case marshal (identity_of req) of
        Inl err \<Rightarrow> Inl (''fingerprint execution request: '' @ err)
      | Inr data \<Rightarrow> Inr (hex_encode (sha256 data)))"

section \<open>Operations\<close>

definition nextSequenceLocked :: "ExecutionRequestTracker \<Rightarrow> ExecutionRequestTracker" where
  "nextSequenceLocked t = t\<lparr>tr_sequence := tr_sequence t + 1\<rparr>"

definition entry_expired :: "time \<Rightarrow> duration \<Rightarrow> trackedExecutionRequest \<Rightarrow> bool" where
  "entry_expired now ttl e \<longleftrightarrow> te_state e = ExecutionRequestCompleted \<and> Sub now (te_completedAt e) > ttl"

definition removeExpiredCompletedLocked ::
  "tracked_visit \<Rightarrow> time \<Rightarrow> ExecutionRequestTracker \<Rightarrow> ExecutionRequestTracker" where
  "removeExpiredCompletedLocked it now t =
     t\<lparr>tr_entries := delete_where it (\<lambda>_ e. entry_expired now (tr_ttl t) e) (tr_entries t),
       tr_expired := tr_expired t +
         of_nat (length (filter (\<lambda>(_, e). entry_expired now (tr_ttl t) e) (tr_entries t)))\<rparr>"

text \<open>The inner loop of the eviction: the completed entry seen longest ago.\<close>

definition oldest_completed :: "tracked_visit \<Rightarrow> ExecutionRequestTracker \<Rightarrow> string option" where
  "oldest_completed it t =
     map_option fst (scan_min (\<lambda>(_, e). te_state e = ExecutionRequestCompleted) (\<lambda>(_, e). te_lastSeen e)
       (range_of it (tr_entries t)) None)"

definition evict_entry :: "ExecutionRequestTracker \<Rightarrow> string \<Rightarrow> ExecutionRequestTracker" where
  "evict_entry t requestID =
     t\<lparr>tr_entries := go_delete requestID (tr_entries t), tr_evictions := tr_evictions t + 1\<rparr>"

lemma oldest_completed_Some:
  assumes "oldest_completed it t = Some k"
  obtains e where "(k, e) \<in> set (tr_entries t)" "te_state e = ExecutionRequestCompleted"
    "\<And>j f. (j, f) \<in> set (tr_entries t) \<Longrightarrow> te_state f = ExecutionRequestCompleted \<Longrightarrow> te_lastSeen e \<le> te_lastSeen f"
proof -
  obtain e where e: "scan_min (\<lambda>(_, e). te_state e = ExecutionRequestCompleted) (\<lambda>(_, e). te_lastSeen e)
      (range_of it (tr_entries t)) None = Some (k, e)"
    using assms by (auto simp: oldest_completed_def)
  note m = scan_min_Some [OF e]
  have "te_lastSeen e \<le> te_lastSeen f"
    if "(j, f) \<in> set (tr_entries t)" "te_state f = ExecutionRequestCompleted" for j f
    using m that by fastforce
  moreover have "(k, e) \<in> set (tr_entries t)" "te_state e = ExecutionRequestCompleted" using m by simp_all
  ultimately show ?thesis using that by blast
qed

lemma oldest_completed_None:
  "oldest_completed it t = None \<longleftrightarrow> (\<forall>(k, e) \<in> set (tr_entries t). te_state e \<noteq> ExecutionRequestCompleted)"
  by (auto simp: oldest_completed_def scan_min_None)

lemma evict_entry_smaller:
  assumes "oldest_completed it t = Some k"
  shows "length (tr_entries (evict_entry t k)) < length (tr_entries t)"
proof -
  from assms obtain e where "(k, e) \<in> set (tr_entries t)" by (rule oldest_completed_Some)
  then have "map_of (tr_entries t) k \<noteq> None" unfolding map_of_eq_None_iff by force
  then show ?thesis by (simp add: evict_entry_def length_delete_less)
qed

function evictCompletedOverLimitLocked :: "tracked_visit \<Rightarrow> ExecutionRequestTracker \<Rightarrow> ExecutionRequestTracker" where
  "evictCompletedOverLimitLocked it t =
     (if int (length (tr_entries t)) > tr_maxEntries t
      then (case oldest_completed it t of
              None \<Rightarrow> t
            | Some oldestRequestID \<Rightarrow> evictCompletedOverLimitLocked it (evict_entry t oldestRequestID))
      else t)"
  by auto

termination
  by (relation "measure (\<lambda>(_, t). length (tr_entries t))") (simp_all add: evict_entry_smaller)

declare evictCompletedOverLimitLocked.simps [simp del]

definition status_of :: "ExecutionRequestDecision \<Rightarrow> ExecutionRequestStatus" where
  "status_of d = \<lparr>st_Decision = d, st_Response = zero_ExecutionResponse\<rparr>"

text \<open>\<open>fingerprint\<close> is the result of \<open>executionRequestFingerprint\<close> on the request.\<close>

definition Begin_locked ::
  "tracked_visit \<Rightarrow> time \<Rightarrow> string \<Rightarrow> string \<Rightarrow> ExecutionRequestTracker \<Rightarrow> ExecutionRequestStatus \<times> ExecutionRequestTracker" where
  "Begin_locked it now requestID fingerprint t =
     (let t = removeExpiredCompletedLocked it now t in
      case map_of (tr_entries t) requestID of
        None \<Rightarrow>
          (let t = nextSequenceLocked t;
               e = \<lparr>te_fingerprint = fingerprint, te_state = ExecutionRequestStarted,
                    te_response = zero_ExecutionResponse, te_completedAt = 0, te_lastSeen = tr_sequence t\<rparr>;
               t = t\<lparr>tr_entries := go_put requestID e (tr_entries t)\<rparr>
           in (status_of ExecutionRequestStarted, evictCompletedOverLimitLocked it t))
      | Some entry \<Rightarrow>
          if te_fingerprint entry \<noteq> fingerprint then (status_of ExecutionRequestConflict, t)
          else if te_state entry = ExecutionRequestStarted then (status_of ExecutionRequestInFlight, t)
          else if te_state entry = ExecutionRequestCompleted then
            (let t = nextSequenceLocked t;
                 entry = entry\<lparr>te_lastSeen := tr_sequence t\<rparr>;
                 t = t\<lparr>tr_entries := go_put requestID entry (tr_entries t)\<rparr>
             in (\<lparr>st_Decision = ExecutionRequestCompleted, st_Response = te_response entry\<rparr>, t))
          else (status_of ExecutionRequestInFlight, t))"

definition Begin ::
  "(ExecutionRequest \<Rightarrow> string go_result) \<Rightarrow> tracked_visit \<Rightarrow> time \<Rightarrow> ExecutionRequest \<Rightarrow>
   ExecutionRequestTracker option \<Rightarrow> ExecutionRequestStatus go_result \<times> ExecutionRequestTracker option" where
  "Begin fp it now req t =
     (case t of
        None \<Rightarrow> (Inr (status_of ExecutionRequestStarted), t)
      | Some tr \<Rightarrow>
          if req_RequestID req = '''' then (Inr (status_of ExecutionRequestStarted), t)
          else (case fp req of
                  Inl err \<Rightarrow> (Inl err, t)
                | Inr fingerprint \<Rightarrow>
                    (case Begin_locked it now (req_RequestID req) fingerprint tr of
                       (status, tr') \<Rightarrow> (Inr status, Some tr'))))"

definition Complete_locked ::
  "tracked_visit \<Rightarrow> time \<Rightarrow> string \<Rightarrow> ExecutionResponse \<Rightarrow> ExecutionRequestTracker \<Rightarrow> ExecutionRequestTracker" where
  "Complete_locked it now requestID response t =
     (case map_of (tr_entries t) requestID of
        None \<Rightarrow> t
      | Some entry \<Rightarrow>
          (let t = nextSequenceLocked t;
               entry = entry\<lparr>te_state := ExecutionRequestCompleted, te_response := response,
                             te_completedAt := now, te_lastSeen := tr_sequence t\<rparr>;
               t = t\<lparr>tr_entries := go_put requestID entry (tr_entries t)\<rparr>
           in evictCompletedOverLimitLocked it t))"

definition Complete ::
  "tracked_visit \<Rightarrow> time \<Rightarrow> string \<Rightarrow> ExecutionResponse \<Rightarrow> ExecutionRequestTracker option \<Rightarrow> ExecutionRequestTracker option" where
  "Complete it now requestID response t =
     (case t of None \<Rightarrow> None
      | Some tr \<Rightarrow> if requestID = '''' then t else Some (Complete_locked it now requestID response tr))"

definition Forget :: "string \<Rightarrow> ExecutionRequestTracker option \<Rightarrow> ExecutionRequestTracker option" where
  "Forget requestID t =
     (case t of None \<Rightarrow> None
      | Some tr \<Rightarrow> if requestID = '''' then t
          else Some (tr\<lparr>tr_entries := go_delete requestID (tr_entries tr)\<rparr>))"

definition zero_RequestTrackerStats :: RequestTrackerStats where
  "zero_RequestTrackerStats = \<lparr>ts_Entries = 0, ts_InFlight = 0, ts_Completed = 0, ts_MaxEntries = 0,
     ts_TTLSeconds = 0, ts_Evictions = 0, ts_Expired = 0\<rparr>"

definition Stats ::
  "tracked_visit \<Rightarrow> time \<Rightarrow> ExecutionRequestTracker option \<Rightarrow> RequestTrackerStats \<times> ExecutionRequestTracker option" where
  "Stats it now t =
     (case t of
        None \<Rightarrow> (zero_RequestTrackerStats, None)
      | Some tr \<Rightarrow>
          (let tr = removeExpiredCompletedLocked it now tr;
               completed = length (filter (\<lambda>(_, e). te_state e = ExecutionRequestCompleted) (tr_entries tr));
               inflight = length (filter (\<lambda>(_, e). te_state e \<noteq> ExecutionRequestCompleted) (tr_entries tr))
           in (\<lparr>ts_Entries = int (length (tr_entries tr)), ts_InFlight = int inflight, ts_Completed = int completed,
                ts_MaxEntries = tr_maxEntries tr,
                ts_TTLSeconds = trunc_div (tr_ttl tr) Second,
                ts_Evictions = tr_evictions tr, ts_Expired = tr_expired tr\<rparr>, Some tr)))"

section \<open>Eviction\<close>

abbreviation over_limit :: "ExecutionRequestTracker \<Rightarrow> bool" where
  "over_limit t \<equiv> int (length (tr_entries t)) > tr_maxEntries t"

interpretation tracker_evict: eviction_loop over_limit "oldest_completed it" evict_entry
  "\<lambda>t. length (tr_entries t)" "evictCompletedOverLimitLocked it" for it
proof
  show "evictCompletedOverLimitLocked it t =
     (if over_limit t then (case oldest_completed it t of None \<Rightarrow> t
        | Some v \<Rightarrow> evictCompletedOverLimitLocked it (evict_entry t v)) else t)" for t
    by (subst evictCompletedOverLimitLocked.simps) simp
qed (rule evict_entry_smaller)

abbreviation in_flight :: "string \<Rightarrow> ExecutionRequestTracker \<Rightarrow> bool" where
  "in_flight k t \<equiv> (\<exists>e. map_of (tr_entries t) k = Some e \<and> te_state e = ExecutionRequestStarted)"

text \<open>
  What eviction leaves: entries of the table before, every entry that was not completed, and no
  completed entry that was seen before one that was dropped.
\<close>

definition evicted_from :: "tracked \<Rightarrow> ExecutionRequestTracker \<Rightarrow> bool" where
  "evicted_from m t \<longleftrightarrow> wf_map (tr_entries t) \<and> set (tr_entries t) \<subseteq> set m \<and>
     (\<forall>(k, e) \<in> set m - set (tr_entries t).
        te_state e = ExecutionRequestCompleted \<and>
        (\<forall>(j, f) \<in> set (tr_entries t). te_state f = ExecutionRequestCompleted \<longrightarrow> te_lastSeen e \<le> te_lastSeen f))"

lemma evicted_from_step:
  assumes "evicted_from m t" "oldest_completed it t = Some k"
  shows "evicted_from m (evict_entry t k)"
proof -
  from assms(2) obtain e where e: "(k, e) \<in> set (tr_entries t)" "te_state e = ExecutionRequestCompleted"
    "\<And>j f. (j, f) \<in> set (tr_entries t) \<Longrightarrow> te_state f = ExecutionRequestCompleted \<Longrightarrow> te_lastSeen e \<le> te_lastSeen f"
    by (rule oldest_completed_Some) blast
  have wf: "wf_map (tr_entries t)" using assms(1) by (simp add: evicted_from_def)
  have gone: "set (tr_entries (evict_entry t k)) = set (tr_entries t) - {(k, e)}"
    using wf e(1) by (auto simp: evict_entry_def set_delete dest: eq_key_imp_eq_value)
  show ?thesis
    unfolding evicted_from_def gone
  proof (intro conjI)
    show "wf_map (tr_entries (evict_entry t k))" using wf by (simp add: evict_entry_def)
    show "set (tr_entries t) - {(k, e)} \<subseteq> set m" using assms(1) by (auto simp: evicted_from_def)
    show "\<forall>(j, f) \<in> set m - (set (tr_entries t) - {(k, e)}). te_state f = ExecutionRequestCompleted \<and>
        (\<forall>(i, g) \<in> set (tr_entries t) - {(k, e)}. te_state g = ExecutionRequestCompleted \<longrightarrow> te_lastSeen f \<le> te_lastSeen g)"
      using assms(1) e(2,3) unfolding evicted_from_def by blast
  qed
qed

lemma evict_evicted_from:
  "wf_map (tr_entries t) \<Longrightarrow> evicted_from (tr_entries t) (evictCompletedOverLimitLocked it t)"
  by (rule tracker_evict.loop_keeps [where I = "evicted_from (tr_entries t)"])
    (simp_all add: evicted_from_step, simp add: evicted_from_def)

lemma evict_config [simp]:
  "tr_ttl (evictCompletedOverLimitLocked it t) = tr_ttl t"
  "tr_maxEntries (evictCompletedOverLimitLocked it t) = tr_maxEntries t"
  "tr_sequence (evictCompletedOverLimitLocked it t) = tr_sequence t"
  by (induction it t rule: evictCompletedOverLimitLocked.induct;
      subst evictCompletedOverLimitLocked.simps; simp add: evict_entry_def split: option.split)+

lemma evict_over:
  "over_limit (evictCompletedOverLimitLocked it t) \<Longrightarrow>
   \<forall>(k, e) \<in> set (tr_entries (evictCompletedOverLimitLocked it t)). te_state e \<noteq> ExecutionRequestCompleted"
  using tracker_evict.loop_done oldest_completed_None by blast

text \<open>
  Eviction under the entry limit: it drops completed entries only, least recently seen
  first, keeps every request in flight, and stops above the limit only when nothing completed
  is left to drop.
\<close>

theorem tracker_eviction:
  assumes "wf_map (tr_entries t)" "t' = evictCompletedOverLimitLocked it t"
  shows "set (tr_entries t') \<subseteq> set (tr_entries t) \<and>
    (\<forall>(k, e) \<in> set (tr_entries t) - set (tr_entries t').
       te_state e = ExecutionRequestCompleted \<and>
       (\<forall>(j, f) \<in> set (tr_entries t'). te_state f = ExecutionRequestCompleted \<longrightarrow> te_lastSeen e \<le> te_lastSeen f)) \<and>
    (over_limit t' \<longrightarrow> (\<forall>(k, e) \<in> set (tr_entries t'). te_state e \<noteq> ExecutionRequestCompleted))"
  using evict_evicted_from [OF assms(1), of it] evict_over [of it t] assms(2) unfolding evicted_from_def by blast

definition tracked_at :: "ExecutionRequestDecision \<Rightarrow> 64 word \<Rightarrow> trackedExecutionRequest" where
  "tracked_at s n = \<lparr>te_fingerprint = '''', te_state = s, te_response = zero_ExecutionResponse,
     te_completedAt = 0, te_lastSeen = n\<rparr>"

theorem tracker_eviction_witness:
  "tr_entries (evictCompletedOverLimitLocked id
      ((NewExecutionRequestTrackerWithLimit 1 2)\<lparr>tr_entries :=
         [(''a'', tracked_at ExecutionRequestCompleted 7), (''b'', tracked_at ExecutionRequestStarted 1),
          (''c'', tracked_at ExecutionRequestCompleted 3)]\<rparr>)) =
     [(''a'', tracked_at ExecutionRequestCompleted 7), (''b'', tracked_at ExecutionRequestStarted 1)] \<and>
   te_lastSeen (tracked_at ExecutionRequestCompleted 3) \<le> te_lastSeen (tracked_at ExecutionRequestCompleted 7)"
proof -
  let ?a = "(''a'', tracked_at ExecutionRequestCompleted 7)" and ?b = "(''b'', tracked_at ExecutionRequestStarted 1)"
    and ?c = "(''c'', tracked_at ExecutionRequestCompleted 3)"
  let ?t = "(NewExecutionRequestTrackerWithLimit 1 2)\<lparr>tr_entries := [?a, ?b, ?c]\<rparr>"
  have run: "tr_entries (evictCompletedOverLimitLocked id ?t) = [?a, ?b]"
    by (simp add: evictCompletedOverLimitLocked.simps NewExecutionRequestTrackerWithLimit_def oldest_completed_def
        evict_entry_def tracked_at_def)
  have "wf_map (tr_entries ?t)" by simp
  from tracker_eviction [OF this refl, of id]
  have "\<forall>(k, e) \<in> set [?a, ?b, ?c] - set [?a, ?b].
       (\<forall>(j, f) \<in> set [?a, ?b]. te_state f = ExecutionRequestCompleted \<longrightarrow> te_lastSeen e \<le> te_lastSeen f)"
    unfolding run by auto
  then show ?thesis using run by (simp add: tracked_at_def)
qed

section \<open>Invariant and lookups of every step\<close>

definition tracker_wf :: "ExecutionRequestTracker \<Rightarrow> bool" where
  "tracker_wf t \<longleftrightarrow> wf_map (tr_entries t) \<and> 0 < tr_maxEntries t \<and> 0 < tr_ttl t \<and>
     (\<forall>(k, e) \<in> set (tr_entries t). k \<noteq> '''' \<and>
        (te_state e = ExecutionRequestStarted \<or> te_state e = ExecutionRequestCompleted)) \<and>
     (over_limit t \<longrightarrow> (\<forall>(k, e) \<in> set (tr_entries t). te_state e \<noteq> ExecutionRequestCompleted))"

lemma tracker_wf_map: "tracker_wf t \<Longrightarrow> wf_map (tr_entries t)"
  by (simp add: tracker_wf_def)

lemma evict_lookup:
  assumes "wf_map (tr_entries t)"
  shows "map_of (tr_entries (evictCompletedOverLimitLocked it t)) k = Some e \<Longrightarrow> map_of (tr_entries t) k = Some e"
    "map_of (tr_entries t) k = Some e \<Longrightarrow> te_state e \<noteq> ExecutionRequestCompleted \<Longrightarrow>
     map_of (tr_entries (evictCompletedOverLimitLocked it t)) k = Some e"
proof -
  let ?u = "evictCompletedOverLimitLocked it t"
  have ev: "evicted_from (tr_entries t) ?u" by (rule evict_evicted_from [OF assms])
  then have wf: "wf_map (tr_entries ?u)" by (simp add: evicted_from_def)
  show "map_of (tr_entries t) k = Some e" if "map_of (tr_entries ?u) k = Some e"
    using ev that assms wf by (auto simp: evicted_from_def)
  show "map_of (tr_entries ?u) k = Some e"
    if "map_of (tr_entries t) k = Some e" "te_state e \<noteq> ExecutionRequestCompleted"
    using ev that assms wf by (fastforce simp: evicted_from_def)
qed

lemma removeExpired_entries:
  "wf_map (tr_entries t) \<Longrightarrow> tr_entries (removeExpiredCompletedLocked it now t) =
     filter (\<lambda>(_, e). \<not> entry_expired now (tr_ttl t) e) (tr_entries t)"
  by (simp add: removeExpiredCompletedLocked_def delete_where_eq)

lemma removeExpired_config [simp]:
  "tr_ttl (removeExpiredCompletedLocked it now t) = tr_ttl t"
  "tr_maxEntries (removeExpiredCompletedLocked it now t) = tr_maxEntries t"
  "tr_sequence (removeExpiredCompletedLocked it now t) = tr_sequence t"
  by (simp_all add: removeExpiredCompletedLocked_def)

lemma removeExpired_lookup:
  "wf_map (tr_entries t) \<Longrightarrow> map_of (tr_entries (removeExpiredCompletedLocked it now t)) k =
     (case map_of (tr_entries t) k of None \<Rightarrow> None
      | Some e \<Rightarrow> if entry_expired now (tr_ttl t) e then None else Some e)"
  using map_of_filter_wf [of "tr_entries t" "\<lambda>_ e. \<not> entry_expired now (tr_ttl t) e" k]
  by (simp add: removeExpired_entries split: option.split)

lemma removeExpired_wf: "tracker_wf t \<Longrightarrow> tracker_wf (removeExpiredCompletedLocked it now t)"
  using length_filter_le [of "\<lambda>(_, e). \<not> entry_expired now (tr_ttl t) e" "tr_entries t"]
  by (auto simp: tracker_wf_def removeExpired_entries simp del: length_filter_le)

text \<open>Whatever replaces one entry, evicting afterwards restores the invariant.\<close>

lemma put_evict_wf:
  assumes "tracker_wf t" "k \<noteq> ''''" "te_state e = ExecutionRequestStarted \<or> te_state e = ExecutionRequestCompleted"
    and "tr_entries u = go_put k e (tr_entries t)" "tr_ttl u = tr_ttl t" "tr_maxEntries u = tr_maxEntries t"
  shows "tracker_wf (evictCompletedOverLimitLocked it u)"
proof -
  have wfu: "wf_map (tr_entries u)" using assms by (simp add: tracker_wf_map)
  have ev: "evicted_from (tr_entries u) (evictCompletedOverLimitLocked it u)" by (rule evict_evicted_from [OF wfu])
  have "set (tr_entries u) \<subseteq> insert (k, e) (set (tr_entries t))" using assms(4) set_put [of k e] by simp
  with ev have sub: "set (tr_entries (evictCompletedOverLimitLocked it u)) \<subseteq> insert (k, e) (set (tr_entries t))"
    by (auto simp: evicted_from_def)
  show ?thesis
    unfolding tracker_wf_def
  proof (intro conjI impI)
    show "wf_map (tr_entries (evictCompletedOverLimitLocked it u))" using ev by (simp add: evicted_from_def)
    show "0 < tr_maxEntries (evictCompletedOverLimitLocked it u)" "0 < tr_ttl (evictCompletedOverLimitLocked it u)"
      using assms by (simp_all add: tracker_wf_def)
    show "\<forall>(k, e) \<in> set (tr_entries (evictCompletedOverLimitLocked it u)). k \<noteq> '''' \<and>
        (te_state e = ExecutionRequestStarted \<or> te_state e = ExecutionRequestCompleted)"
      using sub assms(1-3) unfolding tracker_wf_def by blast
  qed (rule evict_over)
qed

lemma put_same_wf:
  assumes "tracker_wf t" "map_of (tr_entries t) k = Some e" "te_state f = te_state e"
  shows "tracker_wf (t\<lparr>tr_sequence := n, tr_entries := go_put k f (tr_entries t)\<rparr>)"
proof -
  have "set (go_put k f (tr_entries t)) \<subseteq> insert (k, f) (set (tr_entries t))" by (rule set_put)
  moreover have "length (go_put k f (tr_entries t)) = length (tr_entries t)"
    using assms(2) by (simp add: length_put)
  moreover have "(k, e) \<in> set (tr_entries t)" using assms(2) by (rule map_of_SomeD)
  ultimately show ?thesis using assms(1,3) unfolding tracker_wf_def by fastforce
qed

lemma Begin_locked_wf:
  assumes "tracker_wf t" "k \<noteq> ''''"
  shows "tracker_wf (snd (Begin_locked it now k fp t))"
proof -
  let ?t = "removeExpiredCompletedLocked it now t"
  have wf: "tracker_wf ?t" by (rule removeExpired_wf [OF assms(1)])
  show ?thesis
  proof (cases "map_of (tr_entries ?t) k")
    case None
    show ?thesis
      unfolding Begin_locked_def Let_def None option.case snd_conv
      by (rule put_evict_wf [OF wf assms(2)]) (auto simp: nextSequenceLocked_def)
  next
    case (Some e)
    have "tracker_wf (?t\<lparr>tr_sequence := n, tr_entries := go_put k (e\<lparr>te_lastSeen := m\<rparr>) (tr_entries ?t)\<rparr>)" for n m
      by (rule put_same_wf [OF wf Some]) simp
    then show ?thesis using wf by (simp add: Begin_locked_def Let_def Some nextSequenceLocked_def)
  qed
qed

lemma Complete_locked_wf:
  assumes "tracker_wf t" "k \<noteq> ''''"
  shows "tracker_wf (Complete_locked it now k r t)"
proof (cases "map_of (tr_entries t) k")
  case None
  then show ?thesis using assms(1) by (simp add: Complete_locked_def)
next
  case (Some e)
  show ?thesis
    unfolding Complete_locked_def Let_def Some option.case
    by (rule put_evict_wf [OF assms]) (auto simp: nextSequenceLocked_def)
qed

lemma Forget_wf:
  assumes "tracker_wf t"
  shows "tracker_wf (t\<lparr>tr_entries := go_delete k (tr_entries t)\<rparr>)"
  using assms length_delete_le [of k "tr_entries t"]
  by (auto simp: tracker_wf_def set_delete simp del: length_delete_le)

section \<open>Runs\<close>

datatype tracker_op =
    OpBegin time ExecutionRequest
  | OpComplete time string ExecutionResponse
  | OpForget string
  | OpStats time

fun tracker_apply ::
  "(ExecutionRequest \<Rightarrow> string go_result) \<Rightarrow> tracked_visit \<Rightarrow> tracker_op \<Rightarrow>
   ExecutionRequestTracker option \<Rightarrow> ExecutionRequestTracker option" where
  "tracker_apply fp it (OpBegin now req) t = snd (Begin fp it now req t)"
| "tracker_apply fp it (OpComplete now k r) t = Complete it now k r t"
| "tracker_apply fp it (OpForget k) t = Forget k t"
| "tracker_apply fp it (OpStats now) t = snd (Stats it now t)"

text \<open>\<open>tracker_run fp t hist\<close>: a fresh tracker reaches \<open>t\<close> by the operations of \<open>hist\<close>, newest first.\<close>

inductive tracker_run ::
  "(ExecutionRequest \<Rightarrow> string go_result) \<Rightarrow> ExecutionRequestTracker \<Rightarrow> tracker_op list \<Rightarrow> bool"
  for fp where
  run_new: "tracker_run fp (NewExecutionRequestTrackerWithLimit ttl n) []"
| run_op: "tracker_run fp t hist \<Longrightarrow> tracker_apply fp it op (Some t) = Some t' \<Longrightarrow> tracker_run fp t' (op # hist)"

inductive_cases tracker_run_ConsE: "tracker_run fp t (op # hist)"

fun tracker_exec ::
  "(ExecutionRequest \<Rightarrow> string go_result) \<Rightarrow> (tracked_visit \<times> tracker_op) list \<Rightarrow>
   ExecutionRequestTracker option \<Rightarrow> ExecutionRequestTracker option" where
  "tracker_exec fp [] t = t"
| "tracker_exec fp ((it, op) # ops) t = tracker_exec fp ops (tracker_apply fp it op t)"

text \<open>One case per operation that reaches the table; every other call leaves the tracker as it is.\<close>

lemma tracker_apply_cases:
  assumes "tracker_apply fp it op (Some t) = Some t'"
  obtains (same) "t' = t"
  | (begins) now req f where "op = OpBegin now req" "req_RequestID req \<noteq> ''''" "fp req = Inr f"
      "t' = snd (Begin_locked it now (req_RequestID req) f t)"
  | (completes) now k r where "op = OpComplete now k r" "k \<noteq> ''''" "t' = Complete_locked it now k r t"
  | (forgets) k where "op = OpForget k" "k \<noteq> ''''" "t' = t\<lparr>tr_entries := go_delete k (tr_entries t)\<rparr>"
  | (expires) now where "t' = removeExpiredCompletedLocked it now t"
proof (cases op)
  case (OpBegin now req)
  then show ?thesis
    using assms same begins
    by (cases "fp req") (auto simp: Begin_def split: if_splits prod.splits)
next
  case (OpComplete now k r)
  then show ?thesis using assms same completes by (auto simp: Complete_def split: if_splits)
next
  case (OpForget k)
  then show ?thesis using assms same forgets by (auto simp: Forget_def split: if_splits)
next
  case (OpStats now)
  then show ?thesis using assms expires by (auto simp: Stats_def Let_def)
qed

lemma tracker_apply_Some: "\<exists>t'. tracker_apply fp it op (Some t) = Some t'"
  by (cases op) (auto simp: Begin_def Complete_def Forget_def Stats_def Let_def split: sum.split prod.split)

lemma tracker_apply_wf:
  assumes "tracker_apply fp it op (Some t) = Some t'" "tracker_wf t"
  shows "tracker_wf t'"
  using assms(1)
  by (cases rule: tracker_apply_cases)
    (simp_all add: assms(2) Begin_locked_wf Complete_locked_wf Forget_wf removeExpired_wf)

lemma new_tracker_wf: "tracker_wf (NewExecutionRequestTrackerWithLimit ttl n)"
  by (simp add: tracker_wf_def NewExecutionRequestTrackerWithLimit_def DefaultExecutionRequestCacheTTL_def
      DefaultExecutionRequestCacheMaxEntries_def)

text \<open>
  In every reachable tracker each id has one entry, which is either in flight or completed,
  and the table holds more entries than its limit only while every one of them is in flight.
\<close>

theorem tracker_invariant:
  assumes "tracker_run fp t hist"
  shows "tracker_wf t"
  using assms
proof induction
  case (run_new ttl n)
  show ?case by (rule new_tracker_wf)
next
  case (run_op t hist it op t')
  then show ?case using tracker_apply_wf by blast
qed

definition request_a :: ExecutionRequest where
  "request_a = \<lparr>req_RequestID = ''a'', req_ModuleName = ''m'', req_Payload = '''', req_ModuleURL = '''',
     req_ModuleRegistryURL = '''', req_ModuleDigest = '''', req_JITBearerToken = '''', req_ModuleABI = '''',
     req_UserLat = Fin 0, req_UserLon = Fin 0\<rparr>"

definition tracker_a :: ExecutionRequestTracker where
  "tracker_a = snd (Begin_locked id 1 ''a'' ''m'' (NewExecutionRequestTracker 10))"

lemma tracker_a_eq:
  "tracker_a = \<lparr>tr_entries = [(''a'', (tracked_at ExecutionRequestStarted 1)\<lparr>te_fingerprint := ''m''\<rparr>)], tr_ttl = 10,
     tr_maxEntries = 4096, tr_evictions = 0, tr_expired = 0, tr_sequence = 1\<rparr>"
  by (simp add: tracker_a_def Begin_locked_def Let_def NewExecutionRequestTracker_def tracked_at_def
      NewExecutionRequestTrackerWithLimit_def DefaultExecutionRequestCacheMaxEntries_def
      removeExpiredCompletedLocked_def delete_where_def nextSequenceLocked_def evictCompletedOverLimitLocked.simps)

lemma tracker_a_run: "tracker_run (\<lambda>r. Inr (req_ModuleName r)) tracker_a [OpBegin 1 request_a]"
  by (rule run_op [OF run_new [of _ 10 DefaultExecutionRequestCacheMaxEntries], where it = id])
    (simp add: Begin_def request_a_def tracker_a_def NewExecutionRequestTracker_def split: prod.split)

theorem tracker_invariant_witness: "tracker_wf tracker_a \<and> length (tr_entries tracker_a) = 1"
  using tracker_invariant [OF tracker_a_run] by (simp add: tracker_a_eq)

section \<open>Single flight\<close>

lemma Begin_locked_keeps_started:
  assumes "tracker_wf t" "map_of (tr_entries t) k = Some e" "te_state e = ExecutionRequestStarted"
  shows "map_of (tr_entries (snd (Begin_locked it now j f t))) k = Some e"
proof -
  let ?t = "removeExpiredCompletedLocked it now t"
  have wf: "tracker_wf ?t" by (rule removeExpired_wf [OF assms(1)])
  have k: "map_of (tr_entries ?t) k = Some e"
    using assms by (simp add: removeExpired_lookup tracker_wf_map entry_expired_def)
  show ?thesis
  proof (cases "map_of (tr_entries ?t) j")
    case None
    with k have "j \<noteq> k" by auto
    then show ?thesis
      unfolding Begin_locked_def Let_def None option.case snd_conv
      by (intro evict_lookup(2)) (use k wf assms(3) in \<open>simp_all add: nextSequenceLocked_def tracker_wf_map\<close>)
  next
    case (Some e')
    with k assms(3) show ?thesis by (auto simp: Begin_locked_def Let_def nextSequenceLocked_def)
  qed
qed

lemma Complete_locked_keeps_started:
  assumes "tracker_wf t" "map_of (tr_entries t) k = Some e" "te_state e = ExecutionRequestStarted" "j \<noteq> k"
  shows "map_of (tr_entries (Complete_locked it now j r t)) k = Some e"
proof (cases "map_of (tr_entries t) j")
  case None
  then show ?thesis using assms(2) by (simp add: Complete_locked_def)
next
  case (Some e')
  show ?thesis
    unfolding Complete_locked_def Let_def Some option.case
    by (intro evict_lookup(2)) (use assms in \<open>simp_all add: nextSequenceLocked_def tracker_wf_map\<close>)
qed

text \<open>The operations that end the flight of an id.\<close>

fun ends_flight :: "string \<Rightarrow> tracker_op \<Rightarrow> bool" where
  "ends_flight k (OpComplete _ j _) = (j = k)"
| "ends_flight k (OpForget j) = (j = k)"
| "ends_flight k _ = False"

lemma apply_keeps_started:
  assumes "tracker_apply fp it op (Some t) = Some t'" "tracker_wf t" "\<not> ends_flight k op"
    and "map_of (tr_entries t) k = Some e" "te_state e = ExecutionRequestStarted"
  shows "map_of (tr_entries t') k = Some e"
  using assms(1)
proof (cases rule: tracker_apply_cases)
  case (completes now j r)
  then show ?thesis using assms(2-) by (simp add: Complete_locked_keeps_started)
next
  case (forgets j)
  then show ?thesis using assms(2-) by simp
next
  case (expires now)
  then show ?thesis using assms(2-) by (simp add: removeExpired_lookup tracker_wf_map entry_expired_def)
qed (use assms(2-) in \<open>simp_all add: Begin_locked_keeps_started\<close>)

lemma Begin_fst:
  "req_RequestID req \<noteq> '''' \<Longrightarrow> fp req = Inr f \<Longrightarrow>
   fst (Begin fp it now req (Some t)) = Inr (fst (Begin_locked it now (req_RequestID req) f t))"
  by (simp add: Begin_def split: prod.split)

lemma Begin_in_flight:
  assumes "tracker_wf t" "map_of (tr_entries t) (req_RequestID req) = Some e" "te_state e = ExecutionRequestStarted"
    and "req_RequestID req \<noteq> ''''" "fp req = Inr f"
  shows "fst (Begin fp it now req (Some t)) =
    Inr (status_of (if f = te_fingerprint e then ExecutionRequestInFlight else ExecutionRequestConflict))"
  using assms
  by (auto simp: Begin_def Begin_locked_def Let_def removeExpired_lookup tracker_wf_map entry_expired_def)

definition tracker_step ::
  "(ExecutionRequest \<Rightarrow> string go_result) \<Rightarrow> tracked_visit \<times> tracker_op \<Rightarrow> ExecutionRequestTracker \<Rightarrow> ExecutionRequestTracker" where
  "tracker_step fp = (\<lambda>(it, op) t. the (tracker_apply fp it op (Some t)))"

lemma tracker_step_apply: "tracker_apply fp it op (Some t) = Some (tracker_step fp (it, op) t)"
  using tracker_apply_Some [of fp it op t] by (auto simp: tracker_step_def)

lemma tracker_exec_fold: "tracker_exec fp ops (Some t) = Some (fold (tracker_step fp) ops t)"
  by (induction ops arbitrary: t) (auto simp: tracker_step_apply)

definition starts_request :: "(ExecutionRequest \<Rightarrow> string go_result) \<Rightarrow> string \<Rightarrow> ExecutionRequestTracker \<Rightarrow> bool" where
  "starts_request fp k t \<longleftrightarrow> (\<exists>it now req st. req_RequestID req = k \<and> fst (Begin fp it now req (Some t)) = Inr st \<and>
     st_Decision st = ExecutionRequestStarted)"

text \<open>
  The tracker is a single-flight table. What runs is an id together with the entry that its
  \<open>Begin\<close> made, so that the entry is known to stay the same.
\<close>

interpretation request_flight: single_flight tracker_wf
  "\<lambda>(k, e) t. map_of (tr_entries t) k = Some e \<and> te_state e = ExecutionRequestStarted"
  "\<lambda>(k, e). starts_request fp k" "tracker_step fp" "\<lambda>(k, e) (it, op). ends_flight k op" for fp
proof (unfold_locales, goal_cases)
  case (1 t o1)
  then show ?case using tracker_apply_wf [OF tracker_step_apply] by (cases o1) blast
next
  case (2 t ke o1)
  then show ?case using apply_keeps_started [OF tracker_step_apply] by (cases ke; cases o1) auto
next
  case (3 t ke)
  obtain k e where ke: "ke = (k, e)" by force
  have e: "map_of (tr_entries t) k = Some e" "te_state e = ExecutionRequestStarted" using 3 ke by auto
  have "k \<noteq> []" using 3(1) map_of_SomeD [OF e(1)] by (auto simp: tracker_wf_def)
  then have "st_Decision st \<noteq> ExecutionRequestStarted"
    if "req_RequestID req = k" "fst (Begin fp it now req (Some t)) = Inr st" for req it now st
    using that Begin_in_flight [OF 3(1), of req e fp] e by (cases "fp req") (auto simp: Begin_def status_of_def split: if_splits)
  then show ?case by (auto simp: ke starts_request_def)
qed

lemma exec_keeps_started:
  assumes "tracker_wf t" "map_of (tr_entries t) k = Some e" "te_state e = ExecutionRequestStarted"
    "\<forall>(it, op) \<in> set ops. \<not> ends_flight k op"
  shows "\<exists>t'. tracker_exec fp ops (Some t) = Some t' \<and> tracker_wf t' \<and> map_of (tr_entries t') k = Some e"
  using request_flight.run_inv [OF assms(1), of fp ops] request_flight.run_running [OF assms(1), of "(k, e)" ops fp] assms(2-)
  unfolding tracker_exec_fold by auto

lemma Begin_started_entry:
  assumes "Begin fp it now req (Some t) = (Inr st, Some t1)" "st_Decision st = ExecutionRequestStarted"
    and "req_RequestID req \<noteq> ''''" "tracker_wf t"
  obtains e f where "fp req = Inr f" "tracker_wf t1" "map_of (tr_entries t1) (req_RequestID req) = Some e"
    "te_state e = ExecutionRequestStarted" "te_fingerprint e = f"
proof -
  let ?t = "removeExpiredCompletedLocked it now t"
  obtain f where f: "fp req = Inr f" and b: "Begin_locked it now (req_RequestID req) f t = (st, t1)"
    using assms(1,3) by (cases "fp req") (auto simp: Begin_def split: prod.splits)
  have wf: "tracker_wf ?t" by (rule removeExpired_wf [OF assms(4)])
  have None: "map_of (tr_entries ?t) (req_RequestID req) = None"
    using b assms(2) by (auto simp: Begin_locked_def Let_def status_of_def split: option.splits if_splits)
  define e where "e = \<lparr>te_fingerprint = f, te_state = ExecutionRequestStarted,
       te_response = zero_ExecutionResponse, te_completedAt = 0, te_lastSeen = tr_sequence ?t + 1\<rparr>"
  have t1: "t1 = evictCompletedOverLimitLocked it
      (?t\<lparr>tr_sequence := tr_sequence ?t + 1, tr_entries := go_put (req_RequestID req) e (tr_entries ?t)\<rparr>)"
    using b None by (simp add: Begin_locked_def Let_def nextSequenceLocked_def e_def)
  have "map_of (tr_entries t1) (req_RequestID req) = Some e"
    unfolding t1 by (rule evict_lookup(2)) (use wf in \<open>simp_all add: tracker_wf_map e_def\<close>)
  moreover have "tracker_wf t1" using Begin_locked_wf [OF assms(4,3), of it now f] b by simp
  ultimately show ?thesis using that f by (simp add: e_def)
qed

text \<open>
  (C25) Single flight. Once a \<open>Begin\<close> has started a request id, then through any further
  operations (other requests, expiry, eviction, statistics) and until that id is completed or
  forgotten, every \<open>Begin\<close> with the same id is refused: as in flight when the content is the
  same, as a conflict when it differs. No second execution is started.
\<close>

theorem tracker_single_flight:
  assumes "tracker_wf t" "req_RequestID req \<noteq> ''''"
    and "Begin fp it now req (Some t) = (Inr st, Some t1)" "st_Decision st = ExecutionRequestStarted"
    and "\<forall>(i, op) \<in> set ops. \<not> ends_flight (req_RequestID req) op"
    and "req_RequestID req' = req_RequestID req" "fp req' = Inr f'"
  shows "fst (Begin fp it' now' req' (tracker_exec fp ops (Some t1))) =
    Inr (status_of (if Inr f' = fp req then ExecutionRequestInFlight else ExecutionRequestConflict))"
proof -
  obtain e f where e: "fp req = Inr f" "tracker_wf t1" "map_of (tr_entries t1) (req_RequestID req) = Some e"
    "te_state e = ExecutionRequestStarted" "te_fingerprint e = f"
    using Begin_started_entry [OF assms(3,4,2,1)] by blast
  obtain t2 where "tracker_exec fp ops (Some t1) = Some t2" "tracker_wf t2"
      "map_of (tr_entries t2) (req_RequestID req) = Some e"
    using exec_keeps_started [OF e(2,3,4) assms(5)] by blast
  then show ?thesis
    using Begin_in_flight [of t2 req' e fp f' it' now'] e assms(2,6,7) by simp
qed

theorem tracker_single_flight_witness:
  "fst (Begin (\<lambda>r. Inr (req_ModuleName r)) id 99 request_a
     (tracker_exec (\<lambda>r. Inr (req_ModuleName r)) [(id, OpStats 50), (id, OpForget ''b'')] (Some tracker_a))) =
   Inr (status_of ExecutionRequestInFlight)"
proof -
  let ?fp = "\<lambda>r. Inr (req_ModuleName r)" and ?t = "NewExecutionRequestTracker 10"
  have "tracker_wf ?t" unfolding NewExecutionRequestTracker_def by (rule new_tracker_wf)
  moreover have "Begin ?fp id 1 request_a (Some ?t) = (Inr (status_of ExecutionRequestStarted), Some tracker_a)"
    by (simp add: Begin_def request_a_def tracker_a_def Begin_locked_def Let_def NewExecutionRequestTracker_def
        NewExecutionRequestTrackerWithLimit_def removeExpiredCompletedLocked_def delete_where_def)
  ultimately show ?thesis
    using tracker_single_flight [of ?t request_a ?fp id 1 "status_of ExecutionRequestStarted" tracker_a
        "[(id, OpStats 50), (id, OpForget ''b'')]" request_a "''m''" id 99]
    by (simp add: request_a_def status_of_def)
qed

section \<open>Replay\<close>

definition justified ::
  "(ExecutionRequest \<Rightarrow> string go_result) \<Rightarrow> tracker_op list \<Rightarrow> string \<Rightarrow> trackedExecutionRequest \<Rightarrow> bool" where
  "justified fp hist k e \<longleftrightarrow>
     (\<exists>now req. OpBegin now req \<in> set hist \<and> req_RequestID req = k \<and> fp req = Inr (te_fingerprint e)) \<and>
     (te_state e = ExecutionRequestCompleted \<longrightarrow> OpComplete (te_completedAt e) k (te_response e) \<in> set hist)"

lemma justified_mono: "justified fp hist k e \<Longrightarrow> justified fp (op # hist) k e"
  unfolding justified_def by auto

lemma justified_put:
  assumes "\<And>k e. map_of m k = Some e \<Longrightarrow> justified fp hist k e" "justified fp (op # hist) j f"
    and "map_of (go_put j f m) k = Some e"
  shows "justified fp (op # hist) k e"
  using assms justified_mono by (auto split: if_splits)

lemma apply_justified:
  assumes "tracker_apply fp it op (Some t) = Some t'" "tracker_wf t"
    and j: "\<And>k e. map_of (tr_entries t) k = Some e \<Longrightarrow> justified fp hist k e"
    and "map_of (tr_entries t') k = Some e"
  shows "justified fp (op # hist) k e"
  using assms(1)
proof (cases rule: tracker_apply_cases)
  case same
  then show ?thesis using assms(4) j justified_mono by blast
next
  case (begins now req f)
  let ?t = "removeExpiredCompletedLocked it now t" and ?k = "req_RequestID req"
  have wf: "tracker_wf ?t" by (rule removeExpired_wf [OF assms(2)])
  have jt: "justified fp hist k e" if "map_of (tr_entries ?t) k = Some e" for k e
    using that assms(2) j by (auto simp: removeExpired_lookup tracker_wf_map split: option.splits if_splits)
  show ?thesis
  proof (cases "map_of (tr_entries ?t) ?k")
    case None
    define e0 where "e0 = \<lparr>te_fingerprint = f, te_state = ExecutionRequestStarted,
       te_response = zero_ExecutionResponse, te_completedAt = 0, te_lastSeen = tr_sequence ?t + 1\<rparr>"
    have t': "t' = evictCompletedOverLimitLocked it
        (?t\<lparr>tr_sequence := tr_sequence ?t + 1, tr_entries := go_put ?k e0 (tr_entries ?t)\<rparr>)"
      using begins None by (simp add: Begin_locked_def Let_def nextSequenceLocked_def e0_def)
    have "map_of (go_put ?k e0 (tr_entries ?t)) k = Some e"
      using evict_lookup(1) [OF _ assms(4) [unfolded t']] wf by (simp add: tracker_wf_map)
    moreover have "justified fp (op # hist) ?k e0" using begins by (auto simp: justified_def e0_def)
    ultimately show ?thesis using justified_put [OF jt] by blast
  next
    case (Some e0)
    have "justified fp (op # hist) ?k (e0\<lparr>te_lastSeen := n\<rparr>)" for n
      using justified_mono [OF jt [OF Some]] by (simp add: justified_def)
    moreover have "map_of (tr_entries ?t) k = Some e \<or>
        (\<exists>n. map_of (go_put ?k (e0\<lparr>te_lastSeen := n\<rparr>) (tr_entries ?t)) k = Some e)"
      using assms(4) begins Some
      by (auto simp: Begin_locked_def Let_def nextSequenceLocked_def split: if_splits)
    ultimately show ?thesis using justified_put [OF jt] justified_mono [OF jt] by blast
  qed
next
  case (completes now c r)
  show ?thesis
  proof (cases "map_of (tr_entries t) c")
    case None
    then show ?thesis using completes assms(4) j justified_mono by (simp add: Complete_locked_def)
  next
    case (Some e0)
    define e1 where "e1 = e0\<lparr>te_state := ExecutionRequestCompleted, te_response := r, te_completedAt := now,
        te_lastSeen := tr_sequence t + 1\<rparr>"
    have t': "t' = evictCompletedOverLimitLocked it
        (t\<lparr>tr_sequence := tr_sequence t + 1, tr_entries := go_put c e1 (tr_entries t)\<rparr>)"
      using completes Some by (simp add: Complete_locked_def Let_def nextSequenceLocked_def e1_def)
    have "map_of (go_put c e1 (tr_entries t)) k = Some e"
      using evict_lookup(1) [OF _ assms(4) [unfolded t']] assms(2) by (simp add: tracker_wf_map)
    moreover have "justified fp (op # hist) c e1"
      using j [OF Some] completes by (auto simp: justified_def e1_def)
    ultimately show ?thesis using justified_put [OF j] by blast
  qed
next
  case (forgets c)
  then show ?thesis using assms(4) j justified_mono by (auto split: if_splits)
next
  case (expires now)
  then show ?thesis
    using assms(2,4) j justified_mono by (auto simp: removeExpired_lookup tracker_wf_map split: option.splits if_splits)
qed

lemma run_justified:
  assumes "tracker_run fp t hist"
  shows "tracker_wf t \<and> (\<forall>k e. map_of (tr_entries t) k = Some e \<longrightarrow> justified fp hist k e)"
  using assms
proof induction
  case (run_new ttl n)
  then show ?case by (simp add: new_tracker_wf) (simp add: NewExecutionRequestTrackerWithLimit_def)
next
  case (run_op t hist it op t')
  then show ?case using apply_justified tracker_apply_wf by blast
qed

lemma Begin_completed:
  assumes "Begin fp it now req (Some t) = (Inr st, t')" "st_Decision st = ExecutionRequestCompleted" "tracker_wf t"
  obtains e where "map_of (tr_entries t) (req_RequestID req) = Some e" "te_state e = ExecutionRequestCompleted"
    "fp req = Inr (te_fingerprint e)" "st_Response st = te_response e" "\<not> entry_expired now (tr_ttl t) e"
proof -
  have ne: "req_RequestID req \<noteq> ''''" using assms(1,2) by (auto simp: Begin_def status_of_def)
  obtain f where f: "fp req = Inr f" and b: "fst (Begin_locked it now (req_RequestID req) f t) = st"
    using assms(1) ne by (cases "fp req") (auto simp: Begin_def split: prod.splits)
  show ?thesis
    using b assms(2,3) f that
    by (auto simp: Begin_locked_def Let_def status_of_def removeExpired_lookup tracker_wf_map
        split: option.splits if_splits)
qed

text \<open>
  (C26) A replayed response is genuine: whenever \<open>Begin\<close> answers that a request is completed, the
  response it hands out was recorded by a \<open>Complete\<close> of the same id no longer ago than the TTL,
  and the id was begun before by a request of the same content.
\<close>

theorem tracker_replay_sound:
  assumes "tracker_run fp t hist" "Begin fp it now req (Some t) = (Inr st, t')"
    and "st_Decision st = ExecutionRequestCompleted"
  shows "\<exists>c. OpComplete c (req_RequestID req) (st_Response st) \<in> set hist \<and> Sub now c \<le> tr_ttl t \<and>
    (\<exists>b req'. OpBegin b req' \<in> set hist \<and> req_RequestID req' = req_RequestID req \<and> fp req' = fp req)"
proof -
  have wf: "tracker_wf t" using run_justified [OF assms(1)] by blast
  obtain e where e: "map_of (tr_entries t) (req_RequestID req) = Some e" "te_state e = ExecutionRequestCompleted"
    "fp req = Inr (te_fingerprint e)" "st_Response st = te_response e" "\<not> entry_expired now (tr_ttl t) e"
    using Begin_completed [OF assms(2,3) wf] by blast
  from e(1) run_justified [OF assms(1)] have "justified fp hist (req_RequestID req) e" by blast
  then show ?thesis
    using e by (auto simp: justified_def entry_expired_def intro!: exI [of _ "te_completedAt e"])
qed

definition response_a :: ExecutionResponse where
  "response_a = zero_ExecutionResponse\<lparr>resp_Result := ''42''\<rparr>"

definition tracker_done :: ExecutionRequestTracker where
  "tracker_done = Complete_locked id 2 ''a'' response_a tracker_a"

lemma tracker_done_eq:
  "tracker_done = \<lparr>tr_entries = [(''a'', \<lparr>te_fingerprint = ''m'', te_state = ExecutionRequestCompleted,
       te_response = response_a, te_completedAt = 2, te_lastSeen = 2\<rparr>)],
     tr_ttl = 10, tr_maxEntries = 4096, tr_evictions = 0, tr_expired = 0, tr_sequence = 2\<rparr>"
  by (simp add: tracker_done_def tracker_a_eq Complete_locked_def nextSequenceLocked_def tracked_at_def
      evictCompletedOverLimitLocked.simps)

theorem tracker_replay_sound_witness:
  "\<exists>st t' c. Begin (\<lambda>r. Inr (req_ModuleName r)) id 9 request_a (Some tracker_done) = (Inr st, t') \<and>
     st_Response st = response_a \<and>
     OpComplete c ''a'' (st_Response st) \<in> set [OpComplete 2 ''a'' response_a, OpBegin 1 request_a]"
proof -
  let ?fp = "\<lambda>r. Inr (req_ModuleName r)" and ?st = "\<lparr>st_Decision = ExecutionRequestCompleted, st_Response = response_a\<rparr>"
  have run: "tracker_run ?fp tracker_done [OpComplete 2 ''a'' response_a, OpBegin 1 request_a]"
    by (rule run_op [OF tracker_a_run, where it = id]) (simp add: Complete_def tracker_done_def)
  obtain t' where b: "Begin ?fp id 9 request_a (Some tracker_done) = (Inr ?st, t')"
    by (simp add: Begin_def request_a_def tracker_done_eq Begin_locked_def Let_def removeExpiredCompletedLocked_def
        delete_where_def entry_expired_def Sub_def min_duration_def max_duration_def)
  show ?thesis using tracker_replay_sound [OF run b] b by (auto simp: request_a_def)
qed

text \<open>
  Completing and asking again: while the table is within its limit, a completed request
  replays exactly its response to the same request for as long as the TTL lasts; after that the
  same request starts a new execution.
\<close>

theorem tracker_complete_then_begin:
  assumes "tracker_wf t" "\<not> over_limit t" "in_flight (req_RequestID req) t" "req_RequestID req \<noteq> ''''"
    and "fp req = Inr (te_fingerprint (the (map_of (tr_entries t) (req_RequestID req))))"
  shows "fst (Begin fp it' now' req (Complete it now (req_RequestID req) r (Some t))) =
    Inr (if Sub now' now \<le> tr_ttl t then \<lparr>st_Decision = ExecutionRequestCompleted, st_Response = r\<rparr>
         else status_of ExecutionRequestStarted)"
proof -
  let ?k = "req_RequestID req"
  obtain e where e: "map_of (tr_entries t) ?k = Some e" using assms(3) by blast
  define e1 where "e1 = e\<lparr>te_state := ExecutionRequestCompleted, te_response := r, te_completedAt := now,
        te_lastSeen := tr_sequence t + 1\<rparr>"
  define t1 where "t1 = t\<lparr>tr_sequence := tr_sequence t + 1, tr_entries := go_put ?k e1 (tr_entries t)\<rparr>"
  have "\<not> over_limit t1" using assms(2) e by (simp add: t1_def length_put)
  then have "Complete it now ?k r (Some t) = Some t1"
    using e assms(4) tracker_evict.loop_idle [of t1 it]
    by (simp add: Complete_def Complete_locked_def Let_def nextSequenceLocked_def t1_def e1_def)
  moreover have "wf_map (tr_entries t1)" using assms(1) by (simp add: t1_def tracker_wf_map)
  moreover have "map_of (tr_entries t1) ?k = Some e1" "tr_ttl t1 = tr_ttl t" by (simp_all add: t1_def)
  moreover have "entry_expired now' (tr_ttl t) e1 \<longleftrightarrow> \<not> Sub now' now \<le> tr_ttl t"
    by (auto simp: entry_expired_def e1_def)
  ultimately show ?thesis
    using assms(4,5) e
    by (simp add: Begin_fst Begin_locked_def Let_def removeExpired_lookup) (simp add: e1_def)
qed

theorem tracker_complete_then_begin_witness:
  "fst (Begin (\<lambda>r. Inr (req_ModuleName r)) id 12 request_a (Complete id 2 ''a'' response_a (Some tracker_a))) =
     Inr \<lparr>st_Decision = ExecutionRequestCompleted, st_Response = response_a\<rparr>"
proof -
  have "tracker_wf tracker_a"
    using run_justified [OF tracker_a_run] by blast
  then show ?thesis
    using tracker_complete_then_begin [of tracker_a request_a "\<lambda>r. Inr (req_ModuleName r)" id 12 id 2 response_a]
    by (simp add: tracker_a_eq request_a_def tracked_at_def Sub_def min_duration_def max_duration_def)
qed

section \<open>What the fingerprint covers\<close>

text \<open>
  Two requests have the same fingerprint when they agree on everything but the id and the
  bearer token. The converse needs that the encoder is injective and that the two encodings
  do not collide.
\<close>

lemma fingerprint_ignores_token:
  "executionRequestFingerprint marshal sha (req\<lparr>req_RequestID := i, req_JITBearerToken := tok\<rparr>) =
   executionRequestFingerprint marshal sha req"
  by (simp add: executionRequestFingerprint_def identity_of_def)

end
