(* ===== verification/Master_Policy.thy ===== *)
theory Master_Policy
  imports Shared_Models
begin

text \<open>
  \<open>src/internal/master/module_policy.go\<close>: which module sources the master lets through.

  \<open>parse\<close> is \<open>url.Parse\<close> and \<open>lower\<close> is \<open>strings.ToLower\<close>; nothing below depends on how they treat a
  particular text, so the theorems hold for every such function. Of a parsed URL the sources
  read the scheme, the host with its port, the path, and \<open>Hostname()\<close>, and they reset the query
  and the fragment; \<open>u_Rest\<close> stands for what no code here looks at (user info and the raw forms).
\<close>

record URL =
  u_Scheme :: string
  u_Host :: string
  u_Path :: string
  u_RawQuery :: string
  u_Fragment :: string
  u_Rest :: string

text \<open>\<open>(*URL).Hostname\<close>: the host without its port, and without the brackets of an IPv6 literal.\<close>

definition Hostname :: "URL \<Rightarrow> string" where
  "Hostname u =
     (case Cut CHR '':'' (u_Host u) of
        (host, _, False) \<Rightarrow> u_Host u
      | (host, _, True) \<Rightarrow>
          (case Cut CHR '']'' (u_Host u) of
             (bracketed, _, True) \<Rightarrow> TrimPrefix bracketed ''[''
           | _ \<Rightarrow> host))"

record ModulePolicy =
  AllowedHosts :: "string list"
  RequireDigest :: bool

definition hostAllowed :: "(string \<Rightarrow> string) \<Rightarrow> URL \<Rightarrow> string list \<Rightarrow> bool" where
  "hostAllowed lower parsedURL allowedHosts =
     (let requestHost = lower (Hostname parsedURL); requestHostPort = lower (u_Host parsedURL) in
      list_ex (\<lambda>allowedHost.
          let allowedHost = lower (TrimSpace allowedHost) in
          allowedHost \<noteq> '''' \<and> (allowedHost = requestHost \<or> allowedHost = requestHostPort))
        allowedHosts)"

text \<open>The loop over the path segments: the first \<open>blobs\<close> or \<open>manifests\<close> with a successor decides.\<close>

fun pinned_segments :: "string list \<Rightarrow> bool" where
  "pinned_segments (segment # nxt # rest) =
     (if segment = ''blobs'' \<or> segment = ''manifests'' then HasPrefix nxt ''sha256:''
      else pinned_segments (nxt # rest))"
| "pinned_segments _ = False"

definition requestHasDigest :: "ExecutionRequest \<Rightarrow> URL \<Rightarrow> bool" where
  "requestHasDigest req parsedURL =
     (if TrimSpace (req_ModuleDigest req) \<noteq> '''' then True
      else pinned_segments (Split CHR ''/'' (Trim CHR ''/'' (u_Path parsedURL))))"

definition policy_url :: "ExecutionRequest \<Rightarrow> string" where
  "policy_url req =
     (let moduleURL = TrimSpace (req_ModuleURL req) in
      if moduleURL = '''' then TrimSpace (req_ModuleRegistryURL req) else moduleURL)"

definition ModulePolicy_Validate ::
  "(string \<Rightarrow> URL go_result) \<Rightarrow> (string \<Rightarrow> string) \<Rightarrow> ModulePolicy \<Rightarrow> ExecutionRequest \<Rightarrow> go_error" where
  "ModulePolicy_Validate parse lower p req =
     (if policy_url req = '''' then Some ''module_url or module_registry_url is required''
      else case parse (policy_url req) of
        Inl err \<Rightarrow> Some (''parse module url: '' @ err)
      | Inr parsedURL \<Rightarrow>
          if u_Scheme parsedURL \<noteq> ''http'' \<and> u_Scheme parsedURL \<noteq> ''https''
          then Some ''module url scheme is not allowed''
          else if u_Host parsedURL = '''' then Some ''module url host is required''
          else if AllowedHosts p \<noteq> [] \<and> \<not> hostAllowed lower parsedURL (AllowedHosts p)
          then Some ''module host is not allowed''
          else if RequireDigest p \<and> \<not> requestHasDigest req parsedURL
          then Some ''module digest is required by policy''
          else None)"

section \<open>What passes\<close>

lemma pinned_segments_iff:
  "pinned_segments ws \<longleftrightarrow> (\<exists>pre seg nxt post. ws = pre @ seg # nxt # post \<and>
     (seg = ''blobs'' \<or> seg = ''manifests'') \<and> HasPrefix nxt ''sha256:'' \<and>
     (\<forall>x \<in> set pre. x \<noteq> ''blobs'' \<and> x \<noteq> ''manifests''))"
proof (induction ws rule: pinned_segments.induct)
  case (1 seg nxt rest)
  show ?case
  proof (cases "seg = ''blobs'' \<or> seg = ''manifests''")
    case True
    show ?thesis
    proof
      assume "pinned_segments (seg # nxt # rest)"
      then show "\<exists>pre sg nx post. seg # nxt # rest = pre @ sg # nx # post \<and>
          (sg = ''blobs'' \<or> sg = ''manifests'') \<and> HasPrefix nx ''sha256:'' \<and>
          (\<forall>x \<in> set pre. x \<noteq> ''blobs'' \<and> x \<noteq> ''manifests'')"
        using True by (intro exI [of _ "[]"] exI [of _ seg] exI [of _ nxt] exI [of _ rest]) auto
    next
      assume "\<exists>pre sg nx post. seg # nxt # rest = pre @ sg # nx # post \<and>
          (sg = ''blobs'' \<or> sg = ''manifests'') \<and> HasPrefix nx ''sha256:'' \<and>
          (\<forall>x \<in> set pre. x \<noteq> ''blobs'' \<and> x \<noteq> ''manifests'')"
      then obtain pre sg nx post where eq: "seg # nxt # rest = pre @ sg # nx # post"
        "HasPrefix nx ''sha256:''" "\<forall>x \<in> set pre. x \<noteq> ''blobs'' \<and> x \<noteq> ''manifests''" by blast
      then show "pinned_segments (seg # nxt # rest)" using True by (cases pre) auto
    qed
  next
    case False
    then have "pinned_segments (seg # nxt # rest) = pinned_segments (nxt # rest)" by simp
    also have "\<dots> \<longleftrightarrow> (\<exists>pre sg nx post. seg # nxt # rest = pre @ sg # nx # post \<and>
          (sg = ''blobs'' \<or> sg = ''manifests'') \<and> HasPrefix nx ''sha256:'' \<and>
          (\<forall>x \<in> set pre. x \<noteq> ''blobs'' \<and> x \<noteq> ''manifests''))"
      unfolding 1 [OF False]
    proof (intro iffI; elim exE conjE)
      fix pre sg nx post
      assume "nxt # rest = pre @ sg # nx # post" "sg = ''blobs'' \<or> sg = ''manifests''" "HasPrefix nx ''sha256:''"
        "\<forall>x \<in> set pre. x \<noteq> ''blobs'' \<and> x \<noteq> ''manifests''"
      then show "\<exists>pre sg nx post. seg # nxt # rest = pre @ sg # nx # post \<and>
          (sg = ''blobs'' \<or> sg = ''manifests'') \<and> HasPrefix nx ''sha256:'' \<and>
          (\<forall>x \<in> set pre. x \<noteq> ''blobs'' \<and> x \<noteq> ''manifests'')"
        using False by (intro exI [of _ "seg # pre"] exI [of _ sg] exI [of _ nx] exI [of _ post]) simp
    next
      fix pre sg nx post
      assume a: "seg # nxt # rest = pre @ sg # nx # post" "sg = ''blobs'' \<or> sg = ''manifests''" "HasPrefix nx ''sha256:''"
        "\<forall>x \<in> set pre. x \<noteq> ''blobs'' \<and> x \<noteq> ''manifests''"
      with False obtain pre' where "pre = seg # pre'" by (cases pre) auto
      with a show "\<exists>pre sg nx post. nxt # rest = pre @ sg # nx # post \<and>
          (sg = ''blobs'' \<or> sg = ''manifests'') \<and> HasPrefix nx ''sha256:'' \<and>
          (\<forall>x \<in> set pre. x \<noteq> ''blobs'' \<and> x \<noteq> ''manifests'')"
        by (intro exI [of _ pre'] exI [of _ sg] exI [of _ nx] exI [of _ post]) simp
    qed
    finally show ?thesis .
  qed
qed auto

text \<open>
  What the module policy lets through: the module URL is http or https with a host; with a
  host allow-list, the lower-cased host (with or without its port) is one of the non-blank
  entries; and where a digest is required, the request carries one or the path pins one right
  after its first \<open>blobs\<close> or \<open>manifests\<close> segment that has a successor.
\<close>

theorem module_policy_sound:
  assumes "ModulePolicy_Validate parse lower p req = None"
  shows "\<exists>u. parse (policy_url req) = Inr u \<and> u_Scheme u \<in> {''http'', ''https''} \<and> u_Host u \<noteq> '''' \<and>
    (AllowedHosts p = [] \<or> (\<exists>h \<in> set (AllowedHosts p). lower (TrimSpace h) \<noteq> '''' \<and>
       lower (TrimSpace h) \<in> {lower (Hostname u), lower (u_Host u)})) \<and>
    (RequireDigest p \<longrightarrow> TrimSpace (req_ModuleDigest req) \<noteq> '''' \<or>
       (\<exists>pre seg nxt post. Split CHR ''/'' (Trim CHR ''/'' (u_Path u)) = pre @ seg # nxt # post \<and>
          (seg = ''blobs'' \<or> seg = ''manifests'') \<and> HasPrefix nxt ''sha256:'' \<and>
          (\<forall>x \<in> set pre. x \<noteq> ''blobs'' \<and> x \<noteq> ''manifests'')))"
proof -
  obtain u where u: "parse (policy_url req) = Inr u" "u_Scheme u = ''http'' \<or> u_Scheme u = ''https''" "u_Host u \<noteq> ''''"
    "AllowedHosts p \<noteq> [] \<Longrightarrow> hostAllowed lower u (AllowedHosts p)" "RequireDigest p \<Longrightarrow> requestHasDigest req u"
    using assms by (auto simp: ModulePolicy_Validate_def split: if_splits sum.splits)
  show ?thesis
    using u by (auto simp: hostAllowed_def Let_def list_ex_iff requestHasDigest_def pinned_segments_iff split: if_splits)
qed

definition parse_ghcr :: "string \<Rightarrow> URL go_result" where
  "parse_ghcr s = Inr \<lparr>u_Scheme = ''https'', u_Host = ''ghcr.io:443'', u_Path = ''/v2/m/blobs/sha256:ab'',
     u_RawQuery = '''', u_Fragment = '''', u_Rest = ''''\<rparr>"

theorem module_policy_sound_witness:
  "ModulePolicy_Validate parse_ghcr id \<lparr>AllowedHosts = ['' '', ''ghcr.io''], RequireDigest = True\<rparr>
     \<lparr>req_RequestID = '''', req_ModuleName = '''', req_Payload = '''', req_ModuleURL = ''u'',
      req_ModuleRegistryURL = '''', req_ModuleDigest = '''', req_JITBearerToken = '''', req_ModuleABI = '''',
      req_UserLat = Fin 0, req_UserLon = Fin 0\<rparr> = None \<and>
   (\<exists>h \<in> set ['' '', ''ghcr.io'']. TrimSpace h \<noteq> '''' \<and> TrimSpace h \<in> {''ghcr.io'', ''ghcr.io:443''})"
proof -
  let ?r = "\<lparr>req_RequestID = '''', req_ModuleName = '''', req_Payload = '''', req_ModuleURL = ''u'',
      req_ModuleRegistryURL = '''', req_ModuleDigest = '''', req_JITBearerToken = '''', req_ModuleABI = '''',
      req_UserLat = Fin 0, req_UserLon = Fin 0\<rparr>"
  let ?p = "\<lparr>AllowedHosts = ['' '', ''ghcr.io''], RequireDigest = True\<rparr>"
  have h: "Hostname \<lparr>u_Scheme = ''https'', u_Host = ''ghcr.io:443'', u_Path = ''/v2/m/blobs/sha256:ab'',
     u_RawQuery = '''', u_Fragment = '''', u_Rest = ''''\<rparr> = ''ghcr.io''"
    by code_simp
  have ok: "ModulePolicy_Validate parse_ghcr id ?p ?r = None" by code_simp
  from module_policy_sound [OF ok] h show ?thesis using ok by (simp add: parse_ghcr_def)
qed

end
