(* ===== verification/Master_Jobs.thy ===== *)
theory Master_Jobs
  imports Master_Tracker
begin

text \<open>
  \<open>src/internal/master/job.go\<close>, \<open>job_store.go\<close> and \<open>sqlite_job_store.go\<close>: durable jobs.

  The \<open>jobs\<close> table is a list of rows with distinct \<open>request_id\<close>. Each SQL statement is one
  step that takes the next outcome from \<open>db_faults\<close>: it runs, it fails (the table is as
  before), or it runs and reading the number of affected rows fails. No outcome left means
  that the statement runs. \<open>encoding/json\<close> and the text of the uniqueness error of
  the SQLite driver are the arguments gathered in \<open>store_env\<close>; a clock reading is the argument
  \<open>now\<close>.
\<close>

section \<open>job.go, job_store.go\<close>

definition JobQueued :: string where "JobQueued = ''queued''"
definition JobDispatching :: string where "JobDispatching = ''dispatching''"
definition JobRunning :: string where "JobRunning = ''running''"
definition JobSucceeded :: string where "JobSucceeded = ''succeeded''"
definition JobFailed :: string where "JobFailed = ''failed''"
definition JobAmbiguous :: string where "JobAmbiguous = ''ambiguous''"

lemmas job_statuses =
  JobQueued_def JobDispatching_def JobRunning_def JobSucceeded_def JobFailed_def JobAmbiguous_def

lemma job_status_neq [simp]:
  "JobQueued \<noteq> JobDispatching" "JobQueued \<noteq> JobRunning" "JobQueued \<noteq> JobSucceeded" "JobQueued \<noteq> JobFailed" "JobQueued \<noteq> JobAmbiguous"
  "JobDispatching \<noteq> JobQueued" "JobDispatching \<noteq> JobRunning" "JobDispatching \<noteq> JobSucceeded" "JobDispatching \<noteq> JobFailed" "JobDispatching \<noteq> JobAmbiguous"
  "JobRunning \<noteq> JobQueued" "JobRunning \<noteq> JobDispatching" "JobRunning \<noteq> JobSucceeded" "JobRunning \<noteq> JobFailed" "JobRunning \<noteq> JobAmbiguous"
  "JobSucceeded \<noteq> JobQueued" "JobSucceeded \<noteq> JobDispatching" "JobSucceeded \<noteq> JobRunning" "JobSucceeded \<noteq> JobFailed" "JobSucceeded \<noteq> JobAmbiguous"
  "JobFailed \<noteq> JobQueued" "JobFailed \<noteq> JobDispatching" "JobFailed \<noteq> JobRunning" "JobFailed \<noteq> JobSucceeded" "JobFailed \<noteq> JobAmbiguous"
  "JobAmbiguous \<noteq> JobQueued" "JobAmbiguous \<noteq> JobDispatching" "JobAmbiguous \<noteq> JobRunning" "JobAmbiguous \<noteq> JobSucceeded" "JobAmbiguous \<noteq> JobFailed"
  by (simp_all add: job_statuses)

definition DefaultJobMaxAttempts :: int where "DefaultJobMaxAttempts = 3"
definition DefaultJobLeaseTTL :: duration where "DefaultJobLeaseTTL = 30 * Second"

record JobRecord =
  job_RequestID :: string
  job_Fingerprint :: string
  job_Request :: ExecutionRequest
  job_Status :: string
  job_WorkerID :: string
  job_Attempt :: int
  job_MaxAttempts :: int
  job_LeaseUntil :: time
  job_LastError :: string
  job_Response :: "ExecutionResponse option"
  job_CreatedAt :: time
  job_UpdatedAt :: time

definition NewJobRecord :: "ExecutionRequest \<Rightarrow> string \<Rightarrow> int \<Rightarrow> time \<Rightarrow> JobRecord" where
  "NewJobRecord req fingerprint maxAttempts now =
     \<lparr>job_RequestID = req_RequestID req, job_Fingerprint = fingerprint, job_Request = req,
      job_Status = JobQueued, job_WorkerID = '''', job_Attempt = 0,
      job_MaxAttempts = (if maxAttempts \<le> 0 then DefaultJobMaxAttempts else maxAttempts),
      job_LeaseUntil = 0, job_LastError = '''', job_Response = None, job_CreatedAt = now, job_UpdatedAt = now\<rparr>"

datatype job_error = ErrJobNotFound | ErrJobExists | JobErr string

fun job_error_text :: "job_error \<Rightarrow> string" where
  "job_error_text ErrJobNotFound = ''job not found''"
| "job_error_text ErrJobExists = ''job already exists''"
| "job_error_text (JobErr e) = e"

section \<open>Time in the table\<close>

text \<open>Milliseconds since 1970, 0 for the zero time. A time counts nanoseconds from year 1.\<close>

definition unix_epoch :: time where "unix_epoch = 62135596800 * Second"

definition unixMilli :: "time \<Rightarrow> int" where
  "unixMilli t = (if IsZero t then 0 else (t - unix_epoch) div 1000000)"

definition timeFromUnixMilli :: "int \<Rightarrow> time" where
  "timeFromUnixMilli value = (if value = 0 then 0 else unix_epoch + value * 1000000)"

section \<open>The table\<close>

record job_row =
  jb_request_id :: string
  jb_fingerprint :: string
  jb_request_json :: string
  jb_status :: string
  jb_worker_id :: string
  jb_attempt :: int
  jb_max_attempts :: int
  jb_lease_until :: int
  jb_last_error :: string
  jb_response_json :: string
  jb_created_at :: int
  jb_updated_at :: int

datatype sql_outcome = Runs | Fails string | RowsAffectedFails string

record job_db =
  db_rows :: "job_row list"
  db_faults :: "sql_outcome list"

definition next_outcome :: "job_db \<Rightarrow> sql_outcome \<times> job_db" where
  "next_outcome db = (case db_faults db of [] \<Rightarrow> (Runs, db) | f # fs \<Rightarrow> (f, db\<lparr>db_faults := fs\<rparr>))"

record store_env =
  marshal_request :: "ExecutionRequest \<Rightarrow> string go_result"
  unmarshal_request :: "string \<Rightarrow> ExecutionRequest go_result"
  marshal_response :: "ExecutionResponse \<Rightarrow> string go_result"
  unmarshal_response :: "string \<Rightarrow> ExecutionResponse go_result"
  unique_error :: string
  order_rows :: "job_row list \<Rightarrow> job_row list"
  lower_text :: "string \<Rightarrow> string"

definition find_row :: "job_db \<Rightarrow> string \<Rightarrow> job_row option" where
  "find_row db requestID = find (\<lambda>r. jb_request_id r = requestID) (db_rows db)"

text \<open>
  \<open>ORDER BY updated_at\<close>: rows with the same time may come in any order, which \<open>order_rows\<close>
  picks; a function that does not sort stands for the stable sort.
\<close>

definition order_by_updated :: "(job_row list \<Rightarrow> job_row list) \<Rightarrow> job_row list \<Rightarrow> job_row list" where
  "order_by_updated ord rows =
     (if mset (ord rows) = mset rows \<and> sorted (map jb_updated_at (ord rows)) then ord rows
      else sort_key jb_updated_at rows)"

fun Contains :: "string \<Rightarrow> string \<Rightarrow> bool" where
  "Contains s p = list_ex (\<lambda>i. HasPrefix (drop i s) p) [0..<Suc (length s)]"

section \<open>sqlite\_job\_store.go\<close>

definition isSQLiteConstraintError :: "store_env \<Rightarrow> string \<Rightarrow> bool" where
  "isSQLiteConstraintError env err = Contains (lower_text env err) ''constraint''"

definition create_defaults :: "time \<Rightarrow> JobRecord \<Rightarrow> JobRecord" where
  "create_defaults now job =
     (let created = (if IsZero (job_CreatedAt job) then now else job_CreatedAt job) in
      job\<lparr>job_CreatedAt := created,
          job_UpdatedAt := (if IsZero (job_UpdatedAt job) then created else job_UpdatedAt job),
          job_Status := (if job_Status job = [] then JobQueued else job_Status job),
          job_MaxAttempts := (if job_MaxAttempts job \<le> 0 then DefaultJobMaxAttempts else job_MaxAttempts job)\<rparr>)"

definition insert_row :: "JobRecord \<Rightarrow> string \<Rightarrow> job_row" where
  "insert_row job requestJSON =
     \<lparr>jb_request_id = job_RequestID job, jb_fingerprint = job_Fingerprint job,
      jb_request_json = requestJSON, jb_status = job_Status job, jb_worker_id = job_WorkerID job,
      jb_attempt = job_Attempt job, jb_max_attempts = job_MaxAttempts job,
      jb_lease_until = unixMilli (job_LeaseUntil job), jb_last_error = job_LastError job,
      jb_response_json = [], jb_created_at = unixMilli (job_CreatedAt job),
      jb_updated_at = unixMilli (job_UpdatedAt job)\<rparr>"

text \<open>\<open>INSERT INTO jobs\<close>: the primary key refuses a second row with the same id.\<close>

definition insert_job :: "store_env \<Rightarrow> job_row \<Rightarrow> job_db \<Rightarrow> string option \<times> job_db" where
  "insert_job env row db0 =
     (case next_outcome db0 of
        (Fails e, db) \<Rightarrow> (Some e, db)
      | (_, db) \<Rightarrow>
          if find_row db (jb_request_id row) = None then (None, db\<lparr>db_rows := db_rows db @ [row]\<rparr>)
          else (Some (unique_error env), db))"

definition Create :: "store_env \<Rightarrow> time \<Rightarrow> JobRecord \<Rightarrow> job_db \<Rightarrow> job_error option \<times> job_db" where
  "Create env now job0 db =
     (let job = create_defaults now job0 in
      case marshal_request env (job_Request job) of
        Inl err \<Rightarrow> (Some (JobErr (''marshal job request: '' @ err)), db)
      | Inr requestJSON \<Rightarrow>
          (case insert_job env (insert_row job requestJSON) db of
             (None, db) \<Rightarrow> (None, db)
           | (Some e, db) \<Rightarrow>
               if isSQLiteConstraintError env e then (Some ErrJobExists, db)
               else (Some (JobErr (''create job: '' @ e)), db)))"

definition scanJob :: "store_env \<Rightarrow> job_row \<Rightarrow> job_error + JobRecord" where
  "scanJob env row =
     (case unmarshal_request env (jb_request_json row) of
        Inl err \<Rightarrow> Inl (JobErr (''unmarshal job request: '' @ err))
      | Inr req \<Rightarrow>
          (case (if jb_response_json row = '''' then Inr None
                 else map_sum id Some (unmarshal_response env (jb_response_json row))) of
             Inl err \<Rightarrow> Inl (JobErr (''unmarshal job response: '' @ err))
           | Inr resp \<Rightarrow>
               Inr \<lparr>job_RequestID = jb_request_id row, job_Fingerprint = jb_fingerprint row, job_Request = req,
                    job_Status = jb_status row, job_WorkerID = jb_worker_id row, job_Attempt = jb_attempt row,
                    job_MaxAttempts = jb_max_attempts row, job_LeaseUntil = timeFromUnixMilli (jb_lease_until row),
                    job_LastError = jb_last_error row, job_Response = resp,
                    job_CreatedAt = timeFromUnixMilli (jb_created_at row),
                    job_UpdatedAt = timeFromUnixMilli (jb_updated_at row)\<rparr>))"

definition Get :: "store_env \<Rightarrow> string \<Rightarrow> job_db \<Rightarrow> (job_error + JobRecord) \<times> job_db" where
  "Get env requestID db =
     (let (out, db) = next_outcome db in
      case out of
        Fails e \<Rightarrow> (Inl (JobErr e), db)
      | _ \<Rightarrow> (case find_row db requestID of
                None \<Rightarrow> (Inl ErrJobNotFound, db)
              | Some row \<Rightarrow> (scanJob env row, db)))"

text \<open>
  \<open>UPDATE jobs SET ... WHERE request_id = ?\<close> gives the outcome of the statement and the number
  of rows it changed; \<open>requireUpdated\<close> turns it into the error of the operation.
\<close>

definition update_jobs :: "string \<Rightarrow> (job_row \<Rightarrow> job_row) \<Rightarrow> job_db \<Rightarrow> (string + string + nat) \<times> job_db" where
  "update_jobs requestID change db =
     (let (out, db) = next_outcome db;
          n = length (filter (\<lambda>r. jb_request_id r = requestID) (db_rows db));
          db' = db\<lparr>db_rows := map (\<lambda>r. if jb_request_id r = requestID then change r else r) (db_rows db)\<rparr>
      in case out of
           Fails e \<Rightarrow> (Inl e, db)
         | RowsAffectedFails e \<Rightarrow> (Inr (Inl e), db')
         | Runs \<Rightarrow> (Inr (Inr n), db'))"

definition requireUpdated :: "string + string + nat \<Rightarrow> string \<Rightarrow> job_error option" where
  "requireUpdated result operation =
     (case result of
        Inl err \<Rightarrow> Some (JobErr (operation @ '': '' @ err))
      | Inr (Inl err) \<Rightarrow> Some (JobErr (operation @ '' rows affected: '' @ err))
      | Inr (Inr rows) \<Rightarrow> if rows = 0 then Some ErrJobNotFound else None)"

definition update_job :: "string \<Rightarrow> (job_row \<Rightarrow> job_row) \<Rightarrow> string \<Rightarrow> job_db \<Rightarrow> job_error option \<times> job_db" where
  "update_job requestID change operation db =
     (case update_jobs requestID change db of (result, db) \<Rightarrow> (requireUpdated result operation, db))"

definition set_queued :: "time \<Rightarrow> string \<Rightarrow> job_row \<Rightarrow> job_row" where
  "set_queued now reason r = r\<lparr>jb_status := JobQueued, jb_worker_id := '''', jb_lease_until := 0,
     jb_last_error := reason, jb_updated_at := unixMilli now\<rparr>"

definition MarkQueued :: "time \<Rightarrow> string \<Rightarrow> string \<Rightarrow> job_db \<Rightarrow> job_error option \<times> job_db" where
  "MarkQueued now requestID reason = update_job requestID (set_queued now reason) ''mark job queued''"

definition set_dispatching :: "time \<Rightarrow> string \<Rightarrow> time \<Rightarrow> job_row \<Rightarrow> job_row" where
  "set_dispatching now workerID leaseUntil r = r\<lparr>jb_status := JobDispatching, jb_worker_id := workerID,
     jb_attempt := jb_attempt r + 1, jb_lease_until := unixMilli leaseUntil, jb_last_error := '''',
     jb_updated_at := unixMilli now\<rparr>"

definition MarkDispatching :: "time \<Rightarrow> string \<Rightarrow> string \<Rightarrow> time \<Rightarrow> job_db \<Rightarrow> job_error option \<times> job_db" where
  "MarkDispatching now requestID workerID leaseUntil =
     update_job requestID (set_dispatching now workerID leaseUntil) ''mark job dispatching''"

definition set_succeeded :: "time \<Rightarrow> string \<Rightarrow> job_row \<Rightarrow> job_row" where
  "set_succeeded now responseJSON r = r\<lparr>jb_status := JobSucceeded, jb_lease_until := 0, jb_last_error := '''',
     jb_response_json := responseJSON, jb_updated_at := unixMilli now\<rparr>"

definition MarkSucceeded :: "store_env \<Rightarrow> time \<Rightarrow> string \<Rightarrow> ExecutionResponse \<Rightarrow> job_db \<Rightarrow> job_error option \<times> job_db" where
  "MarkSucceeded env now requestID response db =
     (case marshal_response env response of
        Inl err \<Rightarrow> (Some (JobErr (''marshal job response: '' @ err)), db)
      | Inr responseJSON \<Rightarrow> update_job requestID (set_succeeded now responseJSON) ''mark job succeeded'' db)"

definition set_failed :: "time \<Rightarrow> string \<Rightarrow> job_row \<Rightarrow> job_row" where
  "set_failed now reason r = r\<lparr>jb_status := JobFailed, jb_lease_until := 0, jb_last_error := reason,
     jb_updated_at := unixMilli now\<rparr>"

definition MarkFailed :: "time \<Rightarrow> string \<Rightarrow> string \<Rightarrow> job_db \<Rightarrow> job_error option \<times> job_db" where
  "MarkFailed now requestID reason = update_job requestID (set_failed now reason) ''mark job failed''"

definition set_ambiguous :: "time \<Rightarrow> string \<Rightarrow> job_row \<Rightarrow> job_row" where
  "set_ambiguous now reason r = r\<lparr>jb_status := JobAmbiguous, jb_lease_until := 0, jb_last_error := reason,
     jb_updated_at := unixMilli now\<rparr>"

definition MarkAmbiguous :: "time \<Rightarrow> string \<Rightarrow> string \<Rightarrow> job_db \<Rightarrow> job_error option \<times> job_db" where
  "MarkAmbiguous now requestID reason = update_job requestID (set_ambiguous now reason) ''mark job ambiguous''"

definition recoverable_row :: "time \<Rightarrow> job_row \<Rightarrow> bool" where
  "recoverable_row now r \<longleftrightarrow> jb_status r = JobQueued \<or>
     ((jb_status r = JobDispatching \<or> jb_status r = JobRunning) \<and> jb_lease_until r > 0 \<and> jb_lease_until r \<le> unixMilli now)"

fun scan_all :: "store_env \<Rightarrow> job_row list \<Rightarrow> job_error + JobRecord list" where
  "scan_all env [] = Inr []"
| "scan_all env (r # rs) =
     (case scanJob env r of
        Inl e \<Rightarrow> Inl e
      | Inr job \<Rightarrow> map_sum id (\<lambda>jobs. job # jobs) (scan_all env rs))"

definition ListRecoverable :: "store_env \<Rightarrow> time \<Rightarrow> int \<Rightarrow> job_db \<Rightarrow> (job_error + JobRecord list) \<times> job_db" where
  "ListRecoverable env now limit0 db =
     (let limit = (if limit0 \<le> 0 then 32 else limit0); (out, db) = next_outcome db;
          rows = take (nat limit) (order_by_updated (order_rows env) (filter (recoverable_row now) (db_rows db)))
      in case out of
           Fails e \<Rightarrow> (Inl (JobErr (''list recoverable jobs: '' @ e)), db)
         | RowsAffectedFails e \<Rightarrow>
             (case scan_all env rows of
                Inl err \<Rightarrow> (Inl err, db)
              | Inr _ \<Rightarrow> (Inl (JobErr (''iterate recoverable jobs: '' @ e)), db))
         | Runs \<Rightarrow> (scan_all env rows, db))"

section \<open>Time survives the table to the millisecond\<close>

lemma unixMilli_floor:
  assumes "t \<noteq> 0" "unixMilli t \<noteq> 0"
  shows "timeFromUnixMilli (unixMilli t) \<le> t" "t < timeFromUnixMilli (unixMilli t) + 1000000"
proof -
  let ?d = "(t - unix_epoch) div 1000000"
  have m: "unixMilli t = ?d" using assms(1) by (simp add: unixMilli_def)
  have "(t - unix_epoch) = ?d * 1000000 + (t - unix_epoch) mod 1000000" by simp
  moreover have "0 \<le> (t - unix_epoch) mod 1000000" "(t - unix_epoch) mod 1000000 < 1000000" by simp_all
  ultimately show "timeFromUnixMilli (unixMilli t) \<le> t" "t < timeFromUnixMilli (unixMilli t) + 1000000"
    using assms(2) m unfolding timeFromUnixMilli_def by simp_all
qed

lemma unixMilli_mono: "0 < s \<Longrightarrow> s \<le> t \<Longrightarrow> unixMilli s \<le> unixMilli t"
  by (simp add: unixMilli_def zdiv_mono1)

text \<open>A lease the query finds expired has expired for the clock the query was given.\<close>

lemma lease_expired:
  assumes "0 < l" "l \<le> unixMilli now"
  shows "timeFromUnixMilli l \<le> now"
proof -
  have n0: "now \<noteq> 0" using assms by (auto simp: unixMilli_def)
  have "timeFromUnixMilli l \<le> timeFromUnixMilli (unixMilli now)"
    using assms by (simp add: timeFromUnixMilli_def)
  also have "\<dots> \<le> now" using unixMilli_floor(1) n0 assms by simp
  finally show ?thesis .
qed

section \<open>The contract of the updates\<close>

text \<open>
  Every \<open>Mark\<close> operation changes one job, in a way of its own. What a client may rely on is the
  same for all: success means that the job existed and has been changed; an error
  means that nothing changed, or that the change was made and only its report was lost.
\<close>

locale row_update =
  fixes wf :: "'s \<Rightarrow> bool"
    and look :: "'s \<Rightarrow> 'k \<Rightarrow> 'j option"
    and op :: "'s \<Rightarrow> 'e option \<times> 's"
    and key :: 'k
    and change :: "'j \<Rightarrow> 'j"
  assumes op_wf: "wf s \<Longrightarrow> wf (snd (op s))"
    and op_ok: "wf s \<Longrightarrow> fst (op s) = None \<Longrightarrow> \<exists>j. look s key = Some j \<and> look (snd (op s)) = (look s)(key \<mapsto> change j)"
    and op_any: "wf s \<Longrightarrow> look (snd (op s)) = look s \<or>
      (\<exists>j. look s key = Some j \<and> look (snd (op s)) = (look s)(key \<mapsto> change j))"
begin

lemma frame: "wf s \<Longrightarrow> k \<noteq> key \<Longrightarrow> look (snd (op s)) k = look s k"
  using op_any [of s] by auto

lemma same_jobs: "wf s \<Longrightarrow> look (snd (op s)) k = None \<longleftrightarrow> look s k = None"
  using op_any [of s] by (auto split: if_splits)

lemma keeps:
  assumes "wf s" "\<And>j. look s k = Some j \<Longrightarrow> P j" "\<And>j. P j \<Longrightarrow> P (change j)"
  shows "look (snd (op s)) k = Some j \<Longrightarrow> P j"
  using op_any [OF assms(1)] assms(2,3) by (auto split: if_splits)

lemma changed: "wf s \<Longrightarrow> fst (op s) = None \<Longrightarrow> look s key = Some j \<Longrightarrow> look (snd (op s)) key = Some (change j)"
  using op_ok [of s] by auto

end

abbreviation db_wf :: "job_db \<Rightarrow> bool" where
  "db_wf db \<equiv> distinct (map jb_request_id (db_rows db))"

lemma find_row_map_of: "find_row db = map_of (map (\<lambda>r. (jb_request_id r, r)) (db_rows db))"
proof
  fix k
  have "find (\<lambda>r. jb_request_id r = k) rs = map_of (map (\<lambda>r. (jb_request_id r, r)) rs) k" for rs
    by (induction rs) auto
  then show "find_row db k = map_of (map (\<lambda>r. (jb_request_id r, r)) (db_rows db)) k" by (simp add: find_row_def)
qed

lemma find_row_Some:
  assumes "db_wf db"
  shows "find_row db k = Some r \<longleftrightarrow> r \<in> set (db_rows db) \<and> jb_request_id r = k"
proof -
  have "distinct (map fst (map (\<lambda>r. (jb_request_id r, r)) (db_rows db)))" using assms by (simp add: comp_def)
  from map_of_eq_Some_iff [OF this, of k r] show ?thesis by (auto simp: find_row_map_of)
qed

lemma find_row_None: "find_row db k = None \<longleftrightarrow> k \<notin> jb_request_id ` set (db_rows db)"
  by (simp add: find_row_map_of map_of_eq_None_iff image_image)

lemma next_outcome_rows [simp]: "next_outcome db = (out, db') \<Longrightarrow> db_rows db' = db_rows db"
  by (auto simp: next_outcome_def split: list.splits)

lemma find_row_rows: "db_rows db' = db_rows db \<Longrightarrow> find_row db' = find_row db"
  by (simp add: find_row_def fun_eq_iff)

lemma find_row_update:
  assumes "\<And>r. jb_request_id (change r) = jb_request_id r"
  shows "find (\<lambda>r. jb_request_id r = k) (map (\<lambda>r. if jb_request_id r = key then change r else r) rs) =
    (if k = key then map_option change (find (\<lambda>r. jb_request_id r = k) rs) else find (\<lambda>r. jb_request_id r = k) rs)"
  using assms by (induction rs) auto

lemma update_job_eq:
  assumes "next_outcome db = (out, db1)"
  shows "update_job key change what db =
     (let rows = map (\<lambda>r. if jb_request_id r = key then change r else r) (db_rows db) in
      case out of Fails e \<Rightarrow> (Some (JobErr (what @ '': '' @ e)), db1)
      | RowsAffectedFails e \<Rightarrow> (Some (JobErr (what @ '' rows affected: '' @ e)), db1\<lparr>db_rows := rows\<rparr>)
      | Runs \<Rightarrow> (if find_row db key = None then Some ErrJobNotFound else None, db1\<lparr>db_rows := rows\<rparr>))"
proof -
  have "db_rows db1 = db_rows db" using assms by simp
  moreover have "filter (\<lambda>r. jb_request_id r = key) (db_rows db) = [] \<longleftrightarrow> find_row db key = None"
    by (auto simp: filter_empty_conv find_row_None)
  ultimately show ?thesis
    using assms by (simp add: update_job_def update_jobs_def requireUpdated_def Let_def split: sql_outcome.split)
qed

lemma update_job_law:
  assumes "\<And>r. jb_request_id (change r) = jb_request_id r"
  shows "row_update db_wf find_row (update_job key change what) key change"
proof
  fix db :: job_db
  assume wf: "db_wf db"
  obtain out db1 where o: "next_outcome db = (out, db1)" by force
  then have rows: "db_rows db1 = db_rows db" by simp
  let ?rows = "map (\<lambda>r. if jb_request_id r = key then change r else r) (db_rows db)"
  have ids: "map jb_request_id ?rows = map jb_request_id (db_rows db)" using assms by simp
  note up = update_job_eq [OF o, of key change what, unfolded Let_def]
  show "db_wf (snd (update_job key change what db))"
    unfolding up using wf ids rows by (simp del: map_map split: sql_outcome.split)
  have new: "find_row (db1\<lparr>db_rows := ?rows\<rparr>) = (case find_row db key of None \<Rightarrow> find_row db
      | Some j \<Rightarrow> (find_row db)(key \<mapsto> change j))"
    using find_row_update [of change _ key "db_rows db"] assms
    by (auto simp: find_row_def fun_eq_iff split: option.split)
  have old: "find_row db1 = find_row db" using rows by (rule find_row_rows)
  show "find_row (snd (update_job key change what db)) = find_row db \<or>
      (\<exists>j. find_row db key = Some j \<and> find_row (snd (update_job key change what db)) = (find_row db)(key \<mapsto> change j))"
    unfolding up using new old by (simp split: sql_outcome.split option.splits)
  assume "fst (update_job key change what db) = None"
  then have runs: "out = Runs" "find_row db key \<noteq> None" unfolding up by (simp_all split: sql_outcome.splits if_splits)
  then show "\<exists>j. find_row db key = Some j \<and> find_row (snd (update_job key change what db)) = (find_row db)(key \<mapsto> change j)"
    unfolding up using new runs by (auto split: option.splits)
qed

text \<open>An update changes no row but its own, whether or not the ids in the table are distinct.\<close>

lemma update_job_other:
  assumes "\<And>r. jb_request_id (change r) = jb_request_id r" "k \<noteq> key"
  shows "find_row (snd (update_job key change what db)) k = find_row db k"
proof -
  obtain out db1 where o: "next_outcome db = (out, db1)" by force
  then have "find_row db1 = find_row db" by (intro find_row_rows) simp
  moreover have "find_row (db1\<lparr>db_rows := map (\<lambda>r. if jb_request_id r = key then change r else r) (db_rows db)\<rparr>) k = find_row db k"
    using find_row_update [of change k key "db_rows db"] assms by (simp add: find_row_def)
  ultimately show ?thesis unfolding update_job_eq [OF o] by (simp add: Let_def split: sql_outcome.split)
qed

text \<open>When statements run, an update of an existing job succeeds and the job still exists.\<close>

lemma update_job_runs:
  assumes "db_faults db = []" "find_row db key \<noteq> None" "\<And>r. jb_request_id (change r) = jb_request_id r"
  shows "\<exists>db'. update_job key change what db = (None, db') \<and> db_faults db' = [] \<and> find_row db' key \<noteq> None"
proof -
  have nx: "next_outcome db = (Runs, db)" using assms(1) by (simp add: next_outcome_def)
  have "find_row (db\<lparr>db_rows := map (\<lambda>r. if jb_request_id r = key then change r else r) (db_rows db)\<rparr>) key \<noteq> None"
    using find_row_update [of change key key "db_rows db"] assms(2,3) by (auto simp: find_row_def)
  then show ?thesis using assms(1,2) update_job_eq [OF nx] by (simp add: Let_def)
qed

lemma set_ids [simp]:
  "jb_request_id (set_queued now reason r) = jb_request_id r"
  "jb_request_id (set_dispatching now w l r) = jb_request_id r"
  "jb_request_id (set_succeeded now j r) = jb_request_id r"
  "jb_request_id (set_failed now reason r) = jb_request_id r"
  "jb_request_id (set_ambiguous now reason r) = jb_request_id r"
  by (simp_all add: set_queued_def set_dispatching_def set_succeeded_def set_failed_def set_ambiguous_def)

interpretation queued: row_update db_wf find_row "MarkQueued now key reason" key "set_queued now reason" for now key reason
  unfolding MarkQueued_def by (rule update_job_law) simp

interpretation dispatching: row_update db_wf find_row "MarkDispatching now key w l" key "set_dispatching now w l" for now key w l
  unfolding MarkDispatching_def by (rule update_job_law) simp

interpretation failed: row_update db_wf find_row "MarkFailed now key reason" key "set_failed now reason" for now key reason
  unfolding MarkFailed_def by (rule update_job_law) simp

interpretation ambiguous: row_update db_wf find_row "MarkAmbiguous now key reason" key "set_ambiguous now reason" for now key reason
  unfolding MarkAmbiguous_def by (rule update_job_law) simp

definition response_text :: "store_env \<Rightarrow> ExecutionResponse \<Rightarrow> string" where
  "response_text env resp = (case marshal_response env resp of Inr json \<Rightarrow> json | Inl _ \<Rightarrow> '''')"

interpretation succeeded: row_update db_wf find_row "MarkSucceeded env now key resp" key
  "set_succeeded now (response_text env resp)" for env now key resp
proof (cases "marshal_response env resp")
  case (Inl e)
  then have "MarkSucceeded env now key resp = (\<lambda>db. (Some (JobErr (''marshal job response: '' @ e)), db))"
    by (auto simp: MarkSucceeded_def)
  then show "row_update db_wf find_row (MarkSucceeded env now key resp) key (set_succeeded now (response_text env resp))"
    by unfold_locales auto
next
  case (Inr json)
  then have "MarkSucceeded env now key resp = update_job key (set_succeeded now json) ''mark job succeeded''"
    by (auto simp: MarkSucceeded_def)
  then show "row_update db_wf find_row (MarkSucceeded env now key resp) key (set_succeeded now (response_text env resp))"
    using update_job_law [of "set_succeeded now json"] Inr by (simp add: response_text_def)
qed

section \<open>The store keeps well-formed jobs\<close>

definition row_ok :: "job_row \<Rightarrow> bool" where
  "row_ok r \<longleftrightarrow> 0 \<le> jb_attempt r \<and> 0 < jb_max_attempts r \<and>
     jb_status r \<in> {JobQueued, JobDispatching, JobRunning, JobSucceeded, JobFailed, JobAmbiguous} \<and>
     (jb_status r = JobSucceeded \<longrightarrow> jb_response_json r \<noteq> '''') \<and>
     (jb_status r \<noteq> JobDispatching \<and> jb_status r \<noteq> JobRunning \<longrightarrow> jb_lease_until r = 0)"

definition store_wf :: "job_db \<Rightarrow> bool" where
  "store_wf db \<longleftrightarrow> db_wf db \<and> (\<forall>r \<in> set (db_rows db). row_ok r)"

lemma store_wf_find: "store_wf db \<longleftrightarrow> db_wf db \<and> (\<forall>k r. find_row db k = Some r \<longrightarrow> row_ok r)"
  unfolding store_wf_def by (auto simp: find_row_Some)

lemma row_ok_set:
  "row_ok r \<Longrightarrow> row_ok (set_queued now reason r)"
  "row_ok r \<Longrightarrow> row_ok (set_dispatching now w l r)"
  "row_ok r \<Longrightarrow> json \<noteq> '''' \<Longrightarrow> row_ok (set_succeeded now json r)"
  "row_ok r \<Longrightarrow> row_ok (set_failed now reason r)"
  "row_ok r \<Longrightarrow> row_ok (set_ambiguous now reason r)"
  by (simp_all add: row_ok_def job_statuses set_queued_def set_dispatching_def set_succeeded_def
      set_failed_def set_ambiguous_def)

lemma row_update_store_wf:
  assumes "row_update db_wf find_row op key change" "store_wf db" "\<And>r. row_ok r \<Longrightarrow> row_ok (change r)"
  shows "store_wf (snd (op db))"
proof -
  have wf: "db_wf db" "\<And>k r. find_row db k = Some r \<Longrightarrow> row_ok r" using assms(2) by (auto simp: store_wf_find)
  show ?thesis
    using row_update.op_wf [OF assms(1) wf(1)] row_update.keeps [OF assms(1) wf(1), of _ row_ok] wf(2) assms(3)
    unfolding store_wf_find by blast
qed

text \<open>A JSON encoder never returns an empty text for a struct.\<close>

definition json_nonempty :: "store_env \<Rightarrow> bool" where
  "json_nonempty env \<longleftrightarrow> (\<forall>resp. marshal_response env resp \<noteq> Inr '''')"

lemma store_wf_outcome: "next_outcome db = (out, db') \<Longrightarrow> store_wf db' = store_wf db"
  by (simp add: store_wf_def)

definition job_ok :: "JobRecord \<Rightarrow> bool" where
  "job_ok job \<longleftrightarrow> 0 \<le> job_Attempt job \<and> job_LeaseUntil job = 0 \<and>
     job_Status job \<in> {'''', JobQueued, JobDispatching, JobRunning, JobFailed, JobAmbiguous}"

lemma insert_job_wf:
  assumes "store_wf db" "row_ok row"
  shows "store_wf (snd (insert_job env row db))"
proof -
  obtain out db1 where o: "next_outcome db = (out, db1)" by force
  have wf1: "store_wf db1" using o assms(1) by (simp add: store_wf_outcome)
  have "store_wf (db1\<lparr>db_rows := db_rows db1 @ [row]\<rparr>)" if "find_row db1 (jb_request_id row) = None"
    using wf1 that assms(2) by (auto simp: store_wf_def find_row_None)
  then show ?thesis using wf1 o by (simp add: insert_job_def split: sql_outcome.split)
qed

lemma create_defaults_simps [simp]:
  "job_Request (create_defaults now job) = job_Request job"
  "job_RequestID (create_defaults now job) = job_RequestID job"
  by (simp_all add: create_defaults_def Let_def)

lemma insert_row_id: "jb_request_id (insert_row job json) = job_RequestID job"
  by (simp add: insert_row_def)

lemma insert_row_ok: "job_ok job \<Longrightarrow> row_ok (insert_row (create_defaults now job) json)"
  by (auto simp: job_ok_def row_ok_def insert_row_def create_defaults_def Let_def job_statuses
      DefaultJobMaxAttempts_def unixMilli_def)

lemma Create_store_wf:
  assumes "store_wf db" "job_ok job"
  shows "store_wf (snd (Create env now job db))"
  using assms insert_job_wf [OF assms(1) insert_row_ok [OF assms(2)], of env now]
  by (auto simp: Create_def Let_def split: sum.split prod.split option.split) (metis snd_conv)+

lemmas Mark_store_wf =
  row_update_store_wf [OF queued.row_update_axioms _ row_ok_set(1)]
  row_update_store_wf [OF dispatching.row_update_axioms _ row_ok_set(2)]
  row_update_store_wf [OF failed.row_update_axioms _ row_ok_set(4)]
  row_update_store_wf [OF ambiguous.row_update_axioms _ row_ok_set(5)]

lemma MarkSucceeded_store_wf:
  assumes "store_wf db" "json_nonempty env"
  shows "store_wf (snd (MarkSucceeded env now key resp db))"
proof (cases "marshal_response env resp")
  case (Inl e)
  then show ?thesis using assms(1) by (simp add: MarkSucceeded_def)
next
  case (Inr json)
  then have "response_text env resp \<noteq> ''''" using assms(2) by (auto simp: response_text_def json_nonempty_def)
  then show ?thesis by (intro row_update_store_wf [OF succeeded.row_update_axioms assms(1)] row_ok_set(3))
qed

lemma Get_store_wf: "store_wf db \<Longrightarrow> store_wf (snd (Get env k db))"
  by (auto simp: Get_def store_wf_outcome split: sql_outcome.split option.split prod.split)

lemma ListRecoverable_store_wf: "store_wf db \<Longrightarrow> store_wf (snd (ListRecoverable env now n db))"
  by (auto simp: ListRecoverable_def Let_def store_wf_outcome split: sql_outcome.split sum.split prod.split)

datatype store_op =
    StCreate time JobRecord
  | StGet string
  | StQueued time string string
  | StDispatching time string string time
  | StSucceeded time string ExecutionResponse
  | StFailed time string string
  | StAmbiguous time string string
  | StList time int

fun store_apply :: "store_env \<Rightarrow> store_op \<Rightarrow> job_db \<Rightarrow> job_db" where
  "store_apply env (StCreate now job) db = snd (Create env now job db)"
| "store_apply env (StGet k) db = snd (Get env k db)"
| "store_apply env (StQueued now k reason) db = snd (MarkQueued now k reason db)"
| "store_apply env (StDispatching now k w l) db = snd (MarkDispatching now k w l db)"
| "store_apply env (StSucceeded now k resp) db = snd (MarkSucceeded env now k resp db)"
| "store_apply env (StFailed now k reason) db = snd (MarkFailed now k reason db)"
| "store_apply env (StAmbiguous now k reason) db = snd (MarkAmbiguous now k reason db)"
| "store_apply env (StList now n) db = snd (ListRecoverable env now n db)"

fun creates_ok :: "store_op \<Rightarrow> bool" where
  "creates_ok (StCreate now job) = job_ok job"
| "creates_ok _ = True"

lemma store_apply_wf:
  "store_wf db \<Longrightarrow> json_nonempty env \<Longrightarrow> creates_ok op \<Longrightarrow> store_wf (store_apply env op db)"
  by (cases op) (simp_all add: Create_store_wf Mark_store_wf MarkSucceeded_store_wf Get_store_wf ListRecoverable_store_wf)

text \<open>
  Through any operations of the store, and whatever statements fail on the way, job ids stay
  unique, every job has a known status, a non-negative attempt count and a positive
  limit, only jobs being dispatched or running hold a lease, and every succeeded job has a
  stored response.
\<close>

theorem job_store_invariant:
  assumes "store_wf db" "json_nonempty env" "\<forall>op \<in> set ops. creates_ok op"
  shows "store_wf (fold (store_apply env) ops db)"
  using assms(1,3)
proof (induction ops arbitrary: db)
  case (Cons op ops)
  then show ?case using store_apply_wf assms(2) by simp
qed simp

definition plain_env :: store_env where
  "plain_env = \<lparr>marshal_request = (\<lambda>r. Inr (req_RequestID r)), unmarshal_request = (\<lambda>s. Inr request_a),
     marshal_response = (\<lambda>r. Inr (CHR ''r'' # resp_Result r)), unmarshal_response = (\<lambda>s. Inr response_a),
     unique_error = ''constraint failed'', order_rows = (\<lambda>rs. rs), lower_text = (\<lambda>s. s)\<rparr>"

definition empty_db :: job_db where "empty_db = \<lparr>db_rows = [], db_faults = []\<rparr>"

definition db_a :: job_db where
  "db_a = snd (Create plain_env 1 (NewJobRecord request_a ''m'' 0 (unix_epoch + 5000000)) empty_db)"

lemma db_a_eq: "db_a = \<lparr>db_rows = [\<lparr>jb_request_id = ''a'', jb_fingerprint = ''m'', jb_request_json = ''a'',
     jb_status = JobQueued, jb_worker_id = '''', jb_attempt = 0, jb_max_attempts = 3, jb_lease_until = 0,
     jb_last_error = '''', jb_response_json = '''', jb_created_at = 5, jb_updated_at = 5\<rparr>], db_faults = []\<rparr>"
  by (simp add: db_a_def Create_def insert_job_def create_defaults_def insert_row_def NewJobRecord_def request_a_def plain_env_def empty_db_def next_outcome_def
      find_row_def unixMilli_def unix_epoch_def DefaultJobMaxAttempts_def job_statuses Let_def)

theorem job_store_invariant_witness:
  "store_wf (fold (store_apply plain_env)
     [StCreate 1 (NewJobRecord request_a ''m'' 0 9), StDispatching 10 ''a'' ''w'' 20, StSucceeded 15 ''a'' response_a] empty_db)"
  by (rule job_store_invariant)
    (auto simp: store_wf_def empty_db_def json_nonempty_def plain_env_def job_ok_def NewJobRecord_def)

section \<open>Creating and reading back\<close>

text \<open>
  A job that was created is read back as it was: same request, fingerprint, status and
  attempts, with its times cut to the millisecond. Creating the same id again is reported as
  a duplicate and changes nothing. The hypotheses say that these two statements run, that the
  JSON of this request decodes to it, and that the driver's uniqueness error names a constraint.
\<close>

theorem job_create_get:
  assumes "db_faults db = []" "find_row db (job_RequestID job) = None"
    and "marshal_request env (job_Request job) = Inr json" "unmarshal_request env json = Inr (job_Request job)"
    and "isSQLiteConstraintError env (unique_error env)"
    and "job_Status job \<noteq> ''''" "0 < job_MaxAttempts job" "job_CreatedAt job \<noteq> 0" "job_UpdatedAt job \<noteq> 0"
    and "Create env now job db = (err, db')"
  shows "err = None \<and>
    fst (Get env (job_RequestID job) db') = Inr (job\<lparr>job_Response := None,
      job_LeaseUntil := timeFromUnixMilli (unixMilli (job_LeaseUntil job)),
      job_CreatedAt := timeFromUnixMilli (unixMilli (job_CreatedAt job)),
      job_UpdatedAt := timeFromUnixMilli (unixMilli (job_UpdatedAt job))\<rparr>) \<and>
    (\<forall>job2. job_RequestID job2 = job_RequestID job \<longrightarrow> is_ok (marshal_request env (job_Request job2)) \<longrightarrow>
       Create env now job2 db' = (Some ErrJobExists, db'))"
proof -
  define row where "row = insert_row job json"
  have nx: "next_outcome d = (Runs, d)" if "db_faults d = []" for d using that by (simp add: next_outcome_def)
  have keep: "create_defaults now job = job" using assms(6-9) by (simp add: create_defaults_def Let_def)
  have made: "err = None" "db' = db\<lparr>db_rows := db_rows db @ [row]\<rparr>"
    using assms(1-3,6-10) by (auto simp: Create_def Let_def nx row_def insert_job_def keep insert_row_id)
  have found: "find_row db' (job_RequestID job) = Some row"
    using assms(2) made(2) unfolding find_row_map_of by (simp add: map_add_def row_def insert_row_id)
  have nx': "next_outcome db' = (Runs, db')" using made(2) assms(1) nx by simp
  have "fst (Get env (job_RequestID job) db') = scanJob env row" by (simp add: Get_def nx' found)
  moreover have "Create env now job2 db' = (Some ErrJobExists, db')"
    if "job_RequestID job2 = job_RequestID job" "is_ok (marshal_request env (job_Request job2))" for job2
    using that assms(5) found by (auto simp: Create_def Let_def nx' is_ok_iff insert_job_def insert_row_id)
  ultimately show ?thesis using made(1) assms(4) by (simp add: scanJob_def row_def insert_row_def)
qed

theorem job_create_get_witness:
  "fst (Get plain_env ''a'' db_a) = Inr (NewJobRecord request_a ''m'' 0 (unix_epoch + 5000000)) \<and>
   fst (Create plain_env 7 (NewJobRecord request_a ''z'' 0 9) db_a) = Some ErrJobExists"
proof -
  let ?job = "NewJobRecord request_a ''m'' 0 (unix_epoch + 5000000)"
  have c: "isSQLiteConstraintError plain_env (unique_error plain_env)" by code_simp
  have "Create plain_env 7 ?job empty_db = (None, db_a)"
    unfolding db_a_eq
    by (simp add: Create_def insert_job_def create_defaults_def insert_row_def NewJobRecord_def request_a_def plain_env_def empty_db_def next_outcome_def
      find_row_def unixMilli_def unix_epoch_def DefaultJobMaxAttempts_def job_statuses Let_def)
  from job_create_get [OF _ _ _ _ c _ _ _ _ this, of "''a''"] show ?thesis
    by (simp add: empty_db_def find_row_def plain_env_def NewJobRecord_def request_a_def job_statuses
        DefaultJobMaxAttempts_def unix_epoch_def unixMilli_def timeFromUnixMilli_def)
qed

section \<open>What recovery is given\<close>

lemma order_by_updated_mset [simp]: "mset (order_by_updated ord rs) = mset rs"
  by (simp add: order_by_updated_def)

lemma order_by_updated_set [simp]: "set (order_by_updated ord rs) = set rs"
  by (metis order_by_updated_mset set_mset_mset)

lemma order_by_updated_length [simp]: "length (order_by_updated ord rs) = length rs"
  by (metis order_by_updated_mset size_mset)

lemma order_by_updated_sorted: "sorted (map jb_updated_at (order_by_updated ord rs))"
  by (simp add: order_by_updated_def)

lemma scan_all_Inr: "scan_all env rs = Inr jobs \<longleftrightarrow> list_all2 (\<lambda>r j. scanJob env r = Inr j) rs jobs"
proof (induction rs arbitrary: jobs)
  case (Cons r rs)
  show ?case
  proof (cases "scanJob env r")
    case (Inr j)
    have "scan_all env (r # rs) = Inr jobs \<longleftrightarrow> (\<exists>js. scan_all env rs = Inr js \<and> jobs = j # js)"
      using Inr by (cases "scan_all env rs") auto
    also have "\<dots> \<longleftrightarrow> list_all2 (\<lambda>r j. scanJob env r = Inr j) (r # rs) jobs"
      unfolding Cons.IH list_all2_Cons1 using Inr by auto
    finally show ?thesis .
  qed (auto simp: list_all2_Cons1)
qed auto

lemma list_all2_member2: "list_all2 P xs ys \<Longrightarrow> y \<in> set ys \<Longrightarrow> \<exists>x \<in> set xs. P x y"
  by (induction rule: list_all2_induct) auto

lemma scanJob_fields:
  assumes "scanJob env r = Inr j"
  shows "job_RequestID j = jb_request_id r" "job_Status j = jb_status r" "job_Attempt j = jb_attempt r"
    "job_MaxAttempts j = jb_max_attempts r" "job_LeaseUntil j = timeFromUnixMilli (jb_lease_until r)"
    "unmarshal_request env (jb_request_json r) = Inr (job_Request j)" "job_Fingerprint j = jb_fingerprint r"
  using assms by (auto simp: scanJob_def split: sum.splits if_splits)

lemma ListRecoverable_rows:
  assumes "ListRecoverable env now n db = (Inr jobs, db')"
  shows "list_all2 (\<lambda>r j. scanJob env r = Inr j)
    (take (nat (if n \<le> 0 then 32 else n)) (order_by_updated (order_rows env) (filter (recoverable_row now) (db_rows db)))) jobs"
    "db_rows db' = db_rows db"
proof -
  obtain out db1 where o: "next_outcome db = (out, db1)" by force
  then have rows: "db_rows db1 = db_rows db" by simp
  show "list_all2 (\<lambda>r j. scanJob env r = Inr j)
    (take (nat (if n \<le> 0 then 32 else n)) (order_by_updated (order_rows env) (filter (recoverable_row now) (db_rows db)))) jobs"
    "db_rows db' = db_rows db"
    using assms o rows unfolding scan_all_Inr [symmetric]
    by (auto simp: ListRecoverable_def Let_def split: sql_outcome.splits sum.splits)
qed

lemma ListRecoverable_member:
  assumes "ListRecoverable env now n db = (Inr jobs, db')" "j \<in> set jobs"
  obtains r where "r \<in> set (db_rows db)" "recoverable_row now r" "scanJob env r = Inr j"
proof -
  let ?rs = "take (nat (if n \<le> 0 then 32 else n)) (order_by_updated (order_rows env) (filter (recoverable_row now) (db_rows db)))"
  obtain r where "r \<in> set ?rs" "scanJob env r = Inr j"
    using list_all2_member2 [OF ListRecoverable_rows(1) [OF assms(1)] assms(2)] by blast
  then show ?thesis using that set_take_subset [of _ "order_by_updated (order_rows env) (filter (recoverable_row now) (db_rows db))"]
    by fastforce
qed

text \<open>
  The jobs handed to recovery are queued, or dispatched or running under a lease that
  has expired at the given time; a succeeded, failed or ambiguous job is never among them.
  There are at most as many as the batch limit (32 when none is given), and when the
  recoverable jobs fit the limit each of them is there, oldest update first.
\<close>

theorem list_recoverable_exact:
  assumes "ListRecoverable env now n db = (Inr jobs, db')"
  shows "(\<forall>j \<in> set jobs. job_Status j = JobQueued \<or>
      (job_Status j = JobDispatching \<or> job_Status j = JobRunning) \<and> job_LeaseUntil j \<noteq> 0 \<and> job_LeaseUntil j \<le> now) \<and>
    int (length jobs) \<le> (if n \<le> 0 then 32 else n) \<and>
    (int (length (filter (recoverable_row now) (db_rows db))) \<le> (if n \<le> 0 then 32 else n) \<longrightarrow>
       mset (map job_RequestID jobs) = mset (map jb_request_id (filter (recoverable_row now) (db_rows db)))) \<and>
    db_rows db' = db_rows db"
proof (intro conjI ballI impI)
  let ?m = "nat (if n \<le> 0 then 32 else n)"
  let ?all = "order_by_updated (order_rows env) (filter (recoverable_row now) (db_rows db))"
  note rows = ListRecoverable_rows(1) [OF assms]
  fix j assume "j \<in> set jobs"
  then obtain r where r: "recoverable_row now r" "scanJob env r = Inr j"
    using ListRecoverable_member [OF assms] by blast
  show "job_Status j = JobQueued \<or>
      (job_Status j = JobDispatching \<or> job_Status j = JobRunning) \<and> job_LeaseUntil j \<noteq> 0 \<and> job_LeaseUntil j \<le> now"
    using r(1) lease_expired [of "jb_lease_until r" now]
    unfolding scanJob_fields [OF r(2)] recoverable_row_def
    by (auto simp: timeFromUnixMilli_def unix_epoch_def)
next
  let ?m = "nat (if n \<le> 0 then 32 else n)"
  let ?all = "order_by_updated (order_rows env) (filter (recoverable_row now) (db_rows db))"
  note rows = ListRecoverable_rows(1) [OF assms]
  have "length jobs = min (length ?all) ?m" using list_all2_lengthD [OF rows] by simp
  then show "int (length jobs) \<le> (if n \<le> 0 then 32 else n)" by auto
  assume "int (length (filter (recoverable_row now) (db_rows db))) \<le> (if n \<le> 0 then 32 else n)"
  then have "length ?all \<le> ?m" by (auto split: if_splits)
  then have "take ?m ?all = ?all" by simp
  then have "list_all2 (\<lambda>r j. scanJob env r = Inr j) ?all jobs" using rows by argo
  then have "map job_RequestID jobs = map jb_request_id ?all"
    by (induction rule: list_all2_induct) (auto dest: scanJob_fields(1))
  then show "mset (map job_RequestID jobs) = mset (map jb_request_id (filter (recoverable_row now) (db_rows db)))"
    by (simp flip: image_mset_filter_mset_swap)
qed (rule ListRecoverable_rows(2) [OF assms])

theorem list_recoverable_exact_witness:
  "map job_RequestID (case fst (ListRecoverable plain_env 99 0 db_a) of Inr jobs \<Rightarrow> jobs | Inl _ \<Rightarrow> []) = [''a'']"
proof -
  obtain jobs where l: "ListRecoverable plain_env 99 0 db_a = (Inr jobs, db_a)"
    by (simp add: ListRecoverable_def db_a_eq next_outcome_def order_by_updated_def recoverable_row_def plain_env_def
        scanJob_def Let_def)
  from list_recoverable_exact [OF l]
  have "mset (map job_RequestID jobs) = mset (map jb_request_id (filter (recoverable_row 99) (db_rows db_a)))"
    by (simp add: db_a_eq)
  then have "mset (map job_RequestID jobs) = {#''a''#}" by (simp add: db_a_eq recoverable_row_def)
  then have "map job_RequestID jobs = [''a'']" by (metis mset_single_iff_right)
  then show ?thesis using l by simp
qed

end
