(* ===== verification/Simulation.thy ===== *)
theory Simulation
  imports Wasmcat_Prelude
begin

text \<open>
  What it takes for a component to implement a specification: a relation between the states such
  that every operation of the component, with the reply it gives, is a step of the specification.
  Then every sequence of operations is a run of the specification with the same replies.
\<close>

locale implements =
  fixes exec :: "'op \<Rightarrow> 's \<Rightarrow> 'r \<times> 's"
    and spec :: "'a \<Rightarrow> 'op \<Rightarrow> 'r \<Rightarrow> 'a \<Rightarrow> bool"
    and rel :: "'s \<Rightarrow> 'a \<Rightarrow> bool"
    and allowed :: "'op \<Rightarrow> bool"
  assumes simulates: "rel s a \<Longrightarrow> allowed op \<Longrightarrow> exec op s = (r, s') \<Longrightarrow> \<exists>a'. spec a op r a' \<and> rel s' a'"

text \<open>A component runs through a list of operations; the replies are kept.\<close>

fun run_ops :: "('op \<Rightarrow> 's \<Rightarrow> 'r \<times> 's) \<Rightarrow> 'op list \<Rightarrow> 's \<Rightarrow> ('op \<times> 'r) list \<times> 's" where
  "run_ops exec [] s = ([], s)"
| "run_ops exec (op # ops) s =
     (case exec op s of (r, s1) \<Rightarrow> (case run_ops exec ops s1 of (trace, s2) \<Rightarrow> ((op, r) # trace, s2)))"

inductive spec_run :: "('a \<Rightarrow> 'op \<Rightarrow> 'r \<Rightarrow> 'a \<Rightarrow> bool) \<Rightarrow> 'a \<Rightarrow> ('op \<times> 'r) list \<Rightarrow> 'a \<Rightarrow> bool"
  for spec :: "'a \<Rightarrow> 'op \<Rightarrow> 'r \<Rightarrow> 'a \<Rightarrow> bool" where
  run_Nil: "spec_run spec a [] a"
| run_Cons: "spec a op r a1 \<Longrightarrow> spec_run spec a1 trace a2 \<Longrightarrow> spec_run spec a ((op, r) # trace) a2"

inductive_simps spec_run_simps [simp]: "spec_run spec a [] b" "spec_run spec a ((op, r) # trace) b"

context implements
begin

lemma simulates_run:
  assumes "rel s a" "list_all allowed ops" "run_ops exec ops s = (trace, s')"
  shows "\<exists>a'. spec_run spec a trace a' \<and> rel s' a' \<and> map fst trace = ops"
  using assms
proof (induction ops arbitrary: s a trace)
  case (Cons op ops)
  obtain r s1 where e: "exec op s = (r, s1)" by force
  obtain rest where rest: "run_ops exec ops s1 = (rest, s')" "trace = (op, r) # rest"
    using Cons.prems(3) e by (auto split: prod.splits)
  obtain a1 where a1: "spec a op r a1" "rel s1 a1" using simulates [OF Cons.prems(1) _ e] Cons.prems(2) by auto
  obtain a' where "spec_run spec a1 rest a'" "rel s' a'" "map fst rest = ops"
    using Cons.IH [OF a1(2) _ rest(1)] Cons.prems(2) by auto
  then show ?case using a1(1) rest(2) by auto
qed simp

end

end
