(* ===== verification/Master_Job_Spec.thy ===== *)
theory Master_Job_Spec
  imports Master_Jobs Simulation
begin

text \<open>
  What the durable job store promises, without SQL: a map from request ids to jobs. The table of
  \<open>Master_Jobs\<close> implements it.

  An operation of the specification may always be answered with an error of the database; a
  change that is answered so may have happened or not. Otherwise the answer and the new
  map are determined, except for the order of jobs that were updated in the same millisecond.
\<close>

section \<open>The specification\<close>

type_synonym job_map = "string \<rightharpoonup> JobRecord"

datatype store_reply =
    Changed "job_error option"
  | Job "job_error + JobRecord"
  | Jobs "job_error + JobRecord list"

definition to_ms :: "time \<Rightarrow> time" where "to_ms t = timeFromUnixMilli (unixMilli t)"

definition stored_job :: "JobRecord \<Rightarrow> JobRecord" where
  "stored_job job = job\<lparr>job_Response := None, job_LeaseUntil := to_ms (job_LeaseUntil job),
     job_CreatedAt := to_ms (job_CreatedAt job), job_UpdatedAt := to_ms (job_UpdatedAt job)\<rparr>"

text \<open>The job an operation changes, and how.\<close>

fun job_change :: "store_op \<Rightarrow> (string \<times> (JobRecord \<Rightarrow> JobRecord)) option" where
  "job_change (StQueued now k reason) = Some (k, \<lambda>j. j\<lparr>job_Status := JobQueued, job_WorkerID := '''', job_LeaseUntil := 0,
     job_LastError := reason, job_UpdatedAt := to_ms now\<rparr>)"
| "job_change (StDispatching now k w l) = Some (k, \<lambda>j. j\<lparr>job_Status := JobDispatching, job_WorkerID := w,
     job_Attempt := job_Attempt j + 1, job_LeaseUntil := to_ms l, job_LastError := '''', job_UpdatedAt := to_ms now\<rparr>)"
| "job_change (StSucceeded now k resp) = Some (k, \<lambda>j. j\<lparr>job_Status := JobSucceeded, job_LeaseUntil := 0, job_LastError := '''',
     job_Response := Some resp, job_UpdatedAt := to_ms now\<rparr>)"
| "job_change (StFailed now k reason) = Some (k, \<lambda>j. j\<lparr>job_Status := JobFailed, job_LeaseUntil := 0, job_LastError := reason,
     job_UpdatedAt := to_ms now\<rparr>)"
| "job_change (StAmbiguous now k reason) = Some (k, \<lambda>j. j\<lparr>job_Status := JobAmbiguous, job_LeaseUntil := 0, job_LastError := reason,
     job_UpdatedAt := to_ms now\<rparr>)"
| "job_change _ = None"

definition needs_recovery :: "time \<Rightarrow> JobRecord \<Rightarrow> bool" where
  "needs_recovery now j \<longleftrightarrow> job_Status j = JobQueued \<or>
     (job_Status j = JobDispatching \<or> job_Status j = JobRunning) \<and> job_LeaseUntil j \<noteq> 0 \<and> job_LeaseUntil j \<le> now"

definition recovery_batch :: "job_map \<Rightarrow> time \<Rightarrow> int \<Rightarrow> JobRecord list \<Rightarrow> bool" where
  "recovery_batch m now limit jobs \<longleftrightarrow>
     int (length jobs) \<le> limit \<and> distinct (map job_RequestID jobs) \<and> sorted (map job_UpdatedAt jobs) \<and>
     (\<forall>j \<in> set jobs. m (job_RequestID j) = Some j \<and> needs_recovery now j) \<and>
     (\<forall>k j. m k = Some j \<longrightarrow> needs_recovery now j \<longrightarrow> j \<notin> set jobs \<longrightarrow>
        int (length jobs) = limit \<and> (\<forall>i \<in> set jobs. job_UpdatedAt i \<le> job_UpdatedAt j))"

inductive job_step :: "job_map \<Rightarrow> store_op \<Rightarrow> store_reply \<Rightarrow> job_map \<Rightarrow> bool" where
  created: "m (job_RequestID job) = None \<Longrightarrow>
    job_step m (StCreate now job) (Changed None) (m(job_RequestID job \<mapsto> stored_job (create_defaults now job)))"
| exists: "m (job_RequestID job) \<noteq> None \<Longrightarrow> job_step m (StCreate now job) (Changed (Some ErrJobExists)) m"
| create_error: "job_step m (StCreate now job) (Changed (Some (JobErr e))) m"
| found: "m k = Some j \<Longrightarrow> job_step m (StGet k) (Job (Inr j)) m"
| unknown: "m k = None \<Longrightarrow> job_step m (StGet k) (Job (Inl ErrJobNotFound)) m"
| get_error: "job_step m (StGet k) (Job (Inl (JobErr e))) m"
| changed: "job_change op = Some (k, f) \<Longrightarrow> m k = Some j \<Longrightarrow> job_step m op (Changed None) (m(k \<mapsto> f j))"
| missing: "job_change op = Some (k, f) \<Longrightarrow> m k = None \<Longrightarrow> job_step m op (Changed (Some ErrJobNotFound)) m"
| not_changed: "job_change op = Some (k, f) \<Longrightarrow> job_step m op (Changed (Some (JobErr e))) m"
| maybe_changed: "job_change op = Some (k, f) \<Longrightarrow> m k = Some j \<Longrightarrow> job_step m op (Changed (Some (JobErr e))) (m(k \<mapsto> f j))"
| listed: "recovery_batch m now (if n \<le> 0 then 32 else n) jobs \<Longrightarrow> job_step m (StList now n) (Jobs (Inr jobs)) m"
| list_error: "job_step m (StList now n) (Jobs (Inl (JobErr e))) m"

section \<open>The table as an implementation\<close>

fun store_exec :: "store_env \<Rightarrow> store_op \<Rightarrow> job_db \<Rightarrow> store_reply \<times> job_db" where
  "store_exec env (StCreate now job) db = map_prod Changed id (Create env now job db)"
| "store_exec env (StGet k) db = map_prod Job id (Get env k db)"
| "store_exec env (StQueued now k reason) db = map_prod Changed id (MarkQueued now k reason db)"
| "store_exec env (StDispatching now k w l) db = map_prod Changed id (MarkDispatching now k w l db)"
| "store_exec env (StSucceeded now k resp) db = map_prod Changed id (MarkSucceeded env now k resp db)"
| "store_exec env (StFailed now k reason) db = map_prod Changed id (MarkFailed now k reason db)"
| "store_exec env (StAmbiguous now k reason) db = map_prod Changed id (MarkAmbiguous now k reason db)"
| "store_exec env (StList now n) db = map_prod Jobs id (ListRecoverable env now n db)"

lemma store_exec_apply: "snd (store_exec env op db) = store_apply env op db"
  by (cases op) simp_all

text \<open>The jobs of a table: what its rows decode to.\<close>

definition jobs_of :: "store_env \<Rightarrow> job_db \<Rightarrow> job_map" where
  "jobs_of env db k = (case find_row db k of None \<Rightarrow> None
     | Some r \<Rightarrow> (case scanJob env r of Inr j \<Rightarrow> Some j | Inl _ \<Rightarrow> None))"

text \<open>
  The table is readable: ids are unique, every row decodes, times are not before 1970, and the
  statements that are going to fail do not report a constraint violation.
\<close>

definition readable :: "store_env \<Rightarrow> job_db \<Rightarrow> bool" where
  "readable env db \<longleftrightarrow> db_wf db \<and> (\<forall>r \<in> set (db_rows db). \<not> isl (scanJob env r) \<and> 0 \<le> jb_updated_at r \<and> 0 \<le> jb_lease_until r) \<and>
     (\<forall>e. Fails e \<in> set (db_faults db) \<longrightarrow> \<not> isSQLiteConstraintError env e)"

definition sane_time :: "time \<Rightarrow> bool" where "sane_time t \<longleftrightarrow> t = 0 \<or> unix_epoch \<le> t"

text \<open>
  The operations the store is used with: clocks after 1970, and values that survive JSON.
\<close>

fun usable :: "store_env \<Rightarrow> store_op \<Rightarrow> bool" where
  "usable env (StCreate now job) \<longleftrightarrow> unix_epoch \<le> now \<and> sane_time (job_CreatedAt job) \<and> sane_time (job_UpdatedAt job) \<and>
     sane_time (job_LeaseUntil job) \<and>
     (case marshal_request env (job_Request job) of Inl e \<Rightarrow> True | Inr json \<Rightarrow> unmarshal_request env json = Inr (job_Request job))"
| "usable env (StGet k) \<longleftrightarrow> True"
| "usable env (StQueued now k reason) \<longleftrightarrow> unix_epoch \<le> now"
| "usable env (StDispatching now k w l) \<longleftrightarrow> unix_epoch \<le> now \<and> sane_time l"
| "usable env (StSucceeded now k resp) \<longleftrightarrow> unix_epoch \<le> now \<and>
     (case marshal_response env resp of Inl e \<Rightarrow> True | Inr json \<Rightarrow> json \<noteq> '''' \<and> unmarshal_response env json = Inr resp)"
| "usable env (StFailed now k reason) \<longleftrightarrow> unix_epoch \<le> now"
| "usable env (StAmbiguous now k reason) \<longleftrightarrow> unix_epoch \<le> now"
| "usable env (StList now n) \<longleftrightarrow> unix_epoch \<le> now"


section \<open>The table implements the map\<close>

lemma readable_find:
  "readable env db \<longleftrightarrow> db_wf db \<and>
     (\<forall>k r. find_row db k = Some r \<longrightarrow> \<not> isl (scanJob env r) \<and> 0 \<le> jb_updated_at r \<and> 0 \<le> jb_lease_until r) \<and>
     (\<forall>e. Fails e \<in> set (db_faults db) \<longrightarrow> \<not> isSQLiteConstraintError env e)"
  unfolding readable_def by (auto simp: find_row_Some)

lemma jobs_of_Some:
  assumes "readable env db"
  shows "jobs_of env db k = Some j \<longleftrightarrow> (\<exists>r. find_row db k = Some r \<and> scanJob env r = Inr j)"
  by (auto simp: jobs_of_def split: option.split sum.split)

lemma jobs_of_None:
  assumes "readable env db"
  shows "jobs_of env db k = None \<longleftrightarrow> find_row db k = None"
  using assms unfolding readable_find jobs_of_def
  by (cases "find_row db k"; cases "scanJob env (the (find_row db k))") fastforce+

lemma jobs_of_rows: "find_row db' = find_row db \<Longrightarrow> jobs_of env db' = jobs_of env db"
  by (simp add: jobs_of_def fun_eq_iff)

lemma jobs_of_update:
  assumes "find_row db' = (find_row db)(k \<mapsto> r)" "scanJob env r = Inr j"
  shows "jobs_of env db' = (jobs_of env db)(k \<mapsto> j)"
  using assms by (auto simp: jobs_of_def fun_eq_iff)

lemma next_outcome_faults: "next_outcome db = (out, db') \<Longrightarrow> set (db_faults db') \<subseteq> set (db_faults db)"
  by (cases "db_faults db") (auto simp: next_outcome_def simp del: next_outcome_rows)

lemma next_outcome_fails: "next_outcome db = (Fails e, db') \<Longrightarrow> Fails e \<in> set (db_faults db)"
  by (cases "db_faults db") (auto simp: next_outcome_def simp del: next_outcome_rows)

lemma readable_less:
  "readable env db \<Longrightarrow> db_rows db' = db_rows db \<Longrightarrow> set (db_faults db') \<subseteq> set (db_faults db) \<Longrightarrow> readable env db'"
  by (simp add: readable_def subset_iff del: next_outcome_rows)

lemma readable_outcome: "readable env db \<Longrightarrow> next_outcome db = (out, db') \<Longrightarrow> readable env db'"
  by (rule readable_less [OF _ next_outcome_rows next_outcome_faults])

subsection \<open>The updates\<close>

lemma sane_unixMilli: "sane_time t \<Longrightarrow> 0 \<le> unixMilli t"
  by (auto simp: sane_time_def unixMilli_def pos_imp_zdiv_nonneg_iff)

lemma sane_after_1970: "unix_epoch \<le> t \<Longrightarrow> sane_time t"
  by (simp add: sane_time_def)

lemma scan_fields:
  assumes "scanJob env r = Inr j" "jb_request_json r' = jb_request_json r" "jb_response_json r' = jb_response_json r"
  shows "scanJob env r' = Inr (j\<lparr>job_RequestID := jb_request_id r', job_Fingerprint := jb_fingerprint r',
     job_Status := jb_status r', job_WorkerID := jb_worker_id r', job_Attempt := jb_attempt r',
     job_MaxAttempts := jb_max_attempts r', job_LeaseUntil := timeFromUnixMilli (jb_lease_until r'),
     job_LastError := jb_last_error r', job_CreatedAt := timeFromUnixMilli (jb_created_at r'),
     job_UpdatedAt := timeFromUnixMilli (jb_updated_at r')\<rparr>)"
  using assms
  by (cases "unmarshal_request env (jb_request_json r)"; cases "unmarshal_response env (jb_response_json r)")
    (auto simp: scanJob_def split: if_splits)

text \<open>An update implements its change of the map: the new row decodes to the changed job.\<close>

definition row_change :: "store_env \<Rightarrow> (job_row \<Rightarrow> job_row) \<Rightarrow> (JobRecord \<Rightarrow> JobRecord) \<Rightarrow> bool" where
  "row_change env change f \<longleftrightarrow> (\<forall>r j. scanJob env r = Inr j \<longrightarrow> 0 \<le> jb_updated_at r \<longrightarrow> 0 \<le> jb_lease_until r \<longrightarrow>
     scanJob env (change r) = Inr (f j) \<and> 0 \<le> jb_updated_at (change r) \<and> 0 \<le> jb_lease_until (change r) \<and>
     jb_request_id (change r) = jb_request_id r)"

lemma update_job_errors:
  assumes "update_job k change what db = (Some err, db')"
  shows "err = ErrJobNotFound \<and> find_row db k = None \<and> find_row db' = find_row db \<or> (\<exists>e. err = JobErr e)"
proof -
  obtain out db1 where o: "next_outcome db = (out, db1)" by force
  have "find_row (db1\<lparr>db_rows := map (\<lambda>r. if jb_request_id r = k then change r else r) (db_rows db)\<rparr>) = find_row db"
    if "find_row db k = None"
  proof -
    have "map (\<lambda>r. if jb_request_id r = k then change r else r) (db_rows db) = db_rows db"
      using that by (intro map_idI) (auto simp: find_row_None)
    then show ?thesis by (intro find_row_rows) (simp del: next_outcome_rows)
  qed
  then show ?thesis using assms unfolding update_job_eq [OF o] Let_def
    by (auto split: sql_outcome.splits if_splits simp del: next_outcome_rows)
qed

lemma update_job_faults:
  assumes "update_job k change what db = (res, db')"
  shows "set (db_faults db') \<subseteq> set (db_faults db)"
proof -
  obtain out db1 where o: "next_outcome db = (out, db1)" by force
  have "db_faults db' = db_faults db1"
    using assms unfolding update_job_eq [OF o] Let_def by (auto split: sql_outcome.splits simp del: next_outcome_rows)
  then show ?thesis using next_outcome_faults [OF o] by simp
qed

lemma changed_row:
  assumes "readable env db" "row_change env change f" "db_wf db'" "set (db_faults db') \<subseteq> set (db_faults db)"
    and "find_row db k = Some r" "find_row db' = (find_row db)(k \<mapsto> change r)"
  shows "\<exists>j. jobs_of env db k = Some j \<and> jobs_of env db' = (jobs_of env db)(k \<mapsto> f j)" "readable env db'"
proof -
  have r: "\<not> isl (scanJob env r)" "0 \<le> jb_updated_at r" "0 \<le> jb_lease_until r"
    using assms(1,5) unfolding readable_find by blast+
  then obtain j where j: "scanJob env r = Inr j" by (cases "scanJob env r") auto
  then have new: "scanJob env (change r) = Inr (f j)" "0 \<le> jb_updated_at (change r)" "0 \<le> jb_lease_until (change r)"
    using assms(2) r(2,3) unfolding row_change_def by blast+
  show "\<exists>j. jobs_of env db k = Some j \<and> jobs_of env db' = (jobs_of env db)(k \<mapsto> f j)"
    using j jobs_of_update [OF assms(6) new(1)] assms(5) by (auto simp: jobs_of_def)
  show "readable env db'"
    using assms(1,3,4) new unfolding readable_find assms(6) by auto
qed

lemma update_implements:
  assumes rd: "readable env db" and ch: "row_change env change f"
    and ids: "\<And>r. jb_request_id (change r) = jb_request_id r"
    and op: "job_change op = Some (k, f)" and up: "update_job k change what db = (res, db')"
  shows "job_step (jobs_of env db) op (Changed res) (jobs_of env db') \<and> readable env db'"
proof -
  have law: "row_update db_wf find_row (update_job k change what) k change" by (rule update_job_law) (rule ids)
  have wf: "db_wf db" "db_wf db'" using rd row_update.op_wf [OF law, of db] up by (simp_all add: readable_def)
  note faults = update_job_faults [OF up]
  have same: "readable env db'" if "find_row db' = find_row db"
    using rd faults wf(2) unfolding readable_find that by blast
  show ?thesis
  proof (cases res)
    case None
    then obtain r where r: "find_row db k = Some r" "find_row db' = (find_row db)(k \<mapsto> change r)"
      using row_update.op_ok [OF law wf(1)] up by auto
    show ?thesis using changed_row [OF rd ch wf(2) faults r] op None by (auto intro: job_step.changed)
  next
    case (Some err)
    consider "err = ErrJobNotFound" "find_row db k = None" "find_row db' = find_row db" | e where "err = JobErr e"
      using update_job_errors [of k change what db err db'] up Some by auto
    then show ?thesis
    proof cases
      case 1
      then have "jobs_of env db k = None" using rd by (simp add: jobs_of_None)
      then show ?thesis using same [OF 1(3)] Some 1(1) op by (auto simp: jobs_of_rows [OF 1(3)] intro: job_step.missing)
    next
      case (2 e)
      consider "find_row db' = find_row db" | r where "find_row db k = Some r" "find_row db' = (find_row db)(k \<mapsto> change r)"
        using row_update.op_any [OF law wf(1)] up by auto
      then show ?thesis
      proof cases
        case 1
        then show ?thesis using same Some 2 op by (auto simp: jobs_of_rows [OF 1] intro: job_step.not_changed)
      next
        case (2 r)
        then show ?thesis using changed_row [OF rd ch wf(2) faults 2] Some \<open>err = JobErr e\<close> op
          by (auto intro: job_step.maybe_changed)
      qed
    qed
  qed
qed


lemma row_changes:
  "unix_epoch \<le> now \<Longrightarrow> row_change env (set_queued now reason) (\<lambda>j. j\<lparr>job_Status := JobQueued, job_WorkerID := '''',
     job_LeaseUntil := 0, job_LastError := reason, job_UpdatedAt := to_ms now\<rparr>)"
  "unix_epoch \<le> now \<Longrightarrow> sane_time l \<Longrightarrow> row_change env (set_dispatching now w l) (\<lambda>j. j\<lparr>job_Status := JobDispatching,
     job_WorkerID := w, job_Attempt := job_Attempt j + 1, job_LeaseUntil := to_ms l, job_LastError := '''', job_UpdatedAt := to_ms now\<rparr>)"
  "unix_epoch \<le> now \<Longrightarrow> row_change env (set_failed now reason) (\<lambda>j. j\<lparr>job_Status := JobFailed, job_LeaseUntil := 0,
     job_LastError := reason, job_UpdatedAt := to_ms now\<rparr>)"
  "unix_epoch \<le> now \<Longrightarrow> row_change env (set_ambiguous now reason) (\<lambda>j. j\<lparr>job_Status := JobAmbiguous, job_LeaseUntil := 0,
     job_LastError := reason, job_UpdatedAt := to_ms now\<rparr>)"
  unfolding row_change_def
  by (auto dest!: sane_after_1970 sane_unixMilli simp: set_queued_def set_dispatching_def set_failed_def set_ambiguous_def to_ms_def
      scanJob_def timeFromUnixMilli_def split: sum.splits)

lemma row_change_succeeded:
  assumes "unix_epoch \<le> now" "json \<noteq> ''''" "unmarshal_response env json = Inr resp"
  shows "row_change env (set_succeeded now json) (\<lambda>j. j\<lparr>job_Status := JobSucceeded, job_LeaseUntil := 0, job_LastError := '''',
     job_Response := Some resp, job_UpdatedAt := to_ms now\<rparr>)"
  using assms sane_unixMilli [OF sane_after_1970 [OF assms(1)]] unfolding row_change_def
  by (auto simp: set_succeeded_def to_ms_def scanJob_def timeFromUnixMilli_def split: sum.splits)

lemma Mark_implements:
  assumes "readable env db" "usable env op" "job_change op = Some (k, f)" "store_exec env op db = (r, db')"
  shows "job_step (jobs_of env db) op r (jobs_of env db') \<and> readable env db'"
proof (cases op)
  case (StQueued now id reason)
  then have "row_change env (set_queued now reason) f" using assms(2,3) row_changes(1) by auto
  from update_implements [OF assms(1) this set_ids(1) assms(3)] show ?thesis
    using assms(3,4) StQueued by (auto simp: MarkQueued_def map_prod_def split: prod.splits)
next
  case (StDispatching now id w l)
  then have "row_change env (set_dispatching now w l) f" using assms(2,3) row_changes(2) by auto
  from update_implements [OF assms(1) this set_ids(2) assms(3)] show ?thesis
    using assms(3,4) StDispatching by (auto simp: MarkDispatching_def map_prod_def split: prod.splits)
next
  case (StFailed now id reason)
  then have "row_change env (set_failed now reason) f" using assms(2,3) row_changes(3) by auto
  from update_implements [OF assms(1) this set_ids(4) assms(3)] show ?thesis
    using assms(3,4) StFailed by (auto simp: MarkFailed_def map_prod_def split: prod.splits)
next
  case (StAmbiguous now id reason)
  then have "row_change env (set_ambiguous now reason) f" using assms(2,3) row_changes(4) by auto
  from update_implements [OF assms(1) this set_ids(5) assms(3)] show ?thesis
    using assms(3,4) StAmbiguous by (auto simp: MarkAmbiguous_def map_prod_def split: prod.splits)
next
  case (StSucceeded now id resp)
  show ?thesis
  proof (cases "marshal_response env resp")
    case (Inl e)
    then show ?thesis using assms StSucceeded by (auto simp: MarkSucceeded_def intro: job_step.not_changed)
  next
    case (Inr json)
    then have "row_change env (set_succeeded now json) f"
      using assms(2,3) StSucceeded row_change_succeeded [of now json env resp] by auto
    from update_implements [OF assms(1) this set_ids(3) assms(3)] show ?thesis
      using assms(3,4) StSucceeded Inr by (auto simp: MarkSucceeded_def map_prod_def split: prod.splits)
  qed
qed (use assms in auto)


subsection \<open>Creating and reading\<close>

lemma find_row_snoc:
  "db_rows db' = db_rows db @ [r] \<Longrightarrow> find_row db (jb_request_id r) = None \<Longrightarrow> find_row db' = (find_row db)(jb_request_id r \<mapsto> r)"
  unfolding find_row_map_of by (simp add: fun_eq_iff map_add_def split: option.split del: next_outcome_rows)

lemma scan_inserted:
  assumes "unmarshal_request env json = Inr (job_Request job)"
  shows "scanJob env (insert_row job json) = Inr (stored_job job)"
  using assms by (simp add: scanJob_def insert_row_def stored_job_def to_ms_def)

lemma insert_readable:
  assumes rd: "readable env db" and "find_row db (job_RequestID job) = None"
    and "unmarshal_request env json = Inr (job_Request job)" "sane_time (job_UpdatedAt job)" "sane_time (job_LeaseUntil job)"
    and db': "db_rows db' = db_rows db @ [insert_row job json]" and faults: "set (db_faults db') \<subseteq> set (db_faults db)"
  shows "jobs_of env db' = (jobs_of env db)(job_RequestID job \<mapsto> stored_job job)" "readable env db'"
proof -
  have new: "find_row db' = (find_row db)(job_RequestID job \<mapsto> insert_row job json)"
    using find_row_snoc [OF db'] assms(2) by (simp add: insert_row_id)
  show "jobs_of env db' = (jobs_of env db)(job_RequestID job \<mapsto> stored_job job)"
    by (rule jobs_of_update [OF new scan_inserted [OF assms(3)]])
  have "\<not> isl (scanJob env (insert_row job json))" by (simp add: scan_inserted [OF assms(3)])
  moreover have "0 \<le> jb_updated_at (insert_row job json)" "0 \<le> jb_lease_until (insert_row job json)"
    using assms(4,5) by (simp_all add: insert_row_def sane_unixMilli)
  moreover have "db_wf db'" using rd assms(2) by (simp add: db' readable_def find_row_None insert_row_id del: next_outcome_rows)
  ultimately show "readable env db'" using rd faults unfolding readable_find new by auto
qed

lemma create_defaults_sane:
  assumes "unix_epoch \<le> now" "sane_time (job_CreatedAt job)" "sane_time (job_UpdatedAt job)"
  shows "sane_time (job_UpdatedAt (create_defaults now job))"
  using assms by (auto simp: create_defaults_def Let_def sane_time_def)

lemma create_defaults_lease [simp]: "job_LeaseUntil (create_defaults now job) = job_LeaseUntil job"
  by (simp add: create_defaults_def Let_def)

lemma Create_implements:
  assumes rd: "readable env db" and "usable env (StCreate now job)" and c: "Create env now job db = (res, db')"
    and uniq: "isSQLiteConstraintError env (unique_error env)"
  shows "job_step (jobs_of env db) (StCreate now job) (Changed res) (jobs_of env db') \<and> readable env db'"
proof (cases "marshal_request env (job_Request job)")
  case (Inl e)
  then show ?thesis using c rd by (auto simp: Create_def Let_def intro: job_step.create_error)
next
  case (Inr json)
  let ?job = "create_defaults now job"
  obtain out db1 where o: "next_outcome db = (out, db1)" by force
  have rd1: "readable env db1" and rows: "find_row db1 = find_row db" "db_rows db1 = db_rows db"
    using readable_outcome [OF rd o] next_outcome_rows [OF o] find_row_rows by blast+
  have same: "jobs_of env db1 = jobs_of env db" by (rule jobs_of_rows [OF rows(1)])
  have res: "(res, db') = (case out of Fails e \<Rightarrow> (Some (JobErr (''create job: '' @ e)), db1)
      | _ \<Rightarrow> if find_row db (job_RequestID job) = None then (None, db1\<lparr>db_rows := db_rows db @ [insert_row ?job json]\<rparr>)
             else (Some ErrJobExists, db1))"
    using c Inr uniq rd next_outcome_fails [of db _ db1] o rows
    by (auto simp: Create_def Let_def insert_job_def insert_row_id readable_def simp del: next_outcome_rows split: sql_outcome.splits if_splits)
  have stored: "jobs_of env db2 = (jobs_of env db)(job_RequestID job \<mapsto> stored_job ?job) \<and> readable env db2"
    if "find_row db (job_RequestID job) = None" "db2 = db1\<lparr>db_rows := db_rows db @ [insert_row ?job json]\<rparr>" for db2
    using insert_readable [OF rd1, of ?job json db2] that Inr assms(2) rows create_defaults_sane [of now job] same
    by (simp del: next_outcome_rows)
  show ?thesis
  proof (cases "find_row db (job_RequestID job)")
    case None
    then show ?thesis using res stored rd1 same jobs_of_None [OF rd, of "job_RequestID job"]
      by (cases out) (auto simp del: next_outcome_rows intro: job_step.created job_step.create_error)
  next
    case (Some r)
    then have "jobs_of env db (job_RequestID job) \<noteq> None" using jobs_of_None [OF rd] by simp
    then show ?thesis using res rd1 same Some
      by (cases out) (auto simp del: next_outcome_rows intro: job_step.exists job_step.create_error)
  qed
qed

lemma scanJob_error: "scanJob env r = Inl err \<Longrightarrow> \<exists>e. err = JobErr e"
  by (auto simp: scanJob_def split: sum.splits)

lemma Get_implements:
  assumes rd: "readable env db" and g: "Get env k db = (res, db')"
  shows "job_step (jobs_of env db) (StGet k) (Job res) (jobs_of env db') \<and> readable env db'"
proof -
  obtain out db1 where o: "next_outcome db = (out, db1)" by force
  have rd1: "readable env db1" and rows: "find_row db1 = find_row db"
    using readable_outcome [OF rd o] next_outcome_rows [OF o] find_row_rows by blast+
  have same: "jobs_of env db1 = jobs_of env db" by (rule jobs_of_rows [OF rows])
  have "db' = db1" "res = (case out of Fails e \<Rightarrow> Inl (JobErr e)
      | _ \<Rightarrow> (case find_row db k of None \<Rightarrow> Inl ErrJobNotFound | Some row \<Rightarrow> scanJob env row))"
    using g o rows by (auto simp: Get_def simp del: next_outcome_rows split: sql_outcome.splits option.splits)
  moreover have "job_step (jobs_of env db) (StGet k) (Job (case find_row db k of None \<Rightarrow> Inl ErrJobNotFound | Some row \<Rightarrow> scanJob env row)) (jobs_of env db)"
  proof (cases "find_row db k")
    case None
    then show ?thesis using jobs_of_None [OF rd] by (auto intro: job_step.unknown)
  next
    case (Some r)
    then show ?thesis using jobs_of_Some [OF rd, of k] scanJob_error [of env r]
      by (cases "scanJob env r") (auto intro: job_step.found job_step.get_error)
  qed
  ultimately show ?thesis using rd1 same by (cases out) (auto intro: job_step.get_error)
qed


subsection \<open>Listing what to recover\<close>

lemma timeFromUnixMilli_mono: "0 \<le> a \<Longrightarrow> a \<le> b \<Longrightarrow> timeFromUnixMilli a \<le> timeFromUnixMilli b"
  by (simp add: timeFromUnixMilli_def unix_epoch_def)

lemma needs_recovery_row:
  assumes "scanJob env r = Inr j" "0 \<le> jb_lease_until r" "unix_epoch \<le> now"
  shows "needs_recovery now j \<longleftrightarrow> recoverable_row now r"
proof -
  have "timeFromUnixMilli (jb_lease_until r) \<noteq> 0 \<and> timeFromUnixMilli (jb_lease_until r) \<le> now \<longleftrightarrow>
    jb_lease_until r > 0 \<and> jb_lease_until r \<le> unixMilli now"
  proof (cases "jb_lease_until r = 0")
    case False
    then have "0 < jb_lease_until r" using assms(2) by simp
    moreover have "e + l * 1000000 \<le> now \<longleftrightarrow> l \<le> (now - e) div 1000000" for e l :: int
      by linarith
    ultimately show ?thesis using assms(3) by (simp add: timeFromUnixMilli_def unixMilli_def unix_epoch_def)
  qed (simp add: timeFromUnixMilli_def)
  then show ?thesis unfolding needs_recovery_def recoverable_row_def scanJob_fields [OF assms(1)] by simp
qed

lemma sorted_take_drop:
  assumes "sorted (map f xs)" "x \<in> set (take n xs)" "y \<in> set (drop n xs)"
  shows "f x \<le> f y"
proof -
  have "sorted (map f (take n xs) @ map f (drop n xs))" using assms(1) by (simp flip: map_append)
  then show ?thesis using assms(2,3) unfolding sorted_append by simp
qed

lemma scan_all_readable:
  assumes "readable env db" "set rs \<subseteq> set (db_rows db)"
  shows "\<exists>jobs. scan_all env rs = Inr jobs"
  using assms(2)
proof (induction rs)
  case (Cons r rs)
  then obtain jobs where "scan_all env rs = Inr jobs" by auto
  moreover have "\<not> isl (scanJob env r)" using assms(1) Cons.prems by (auto simp: readable_def)
  ultimately show ?case by (cases "scanJob env r") auto
qed simp

lemma list_all2_map_eq: "list_all2 P xs ys \<Longrightarrow> (\<And>x y. P x y \<Longrightarrow> g y = f x) \<Longrightarrow> map g ys = map f xs"
  by (induction rule: list_all2_induct) auto

lemma recovery_batch_rows:
  fixes lim :: int
  defines "all \<equiv> \<lambda>env now db. order_by_updated (order_rows env) (filter (recoverable_row now) (db_rows db))"
  assumes rd: "readable env db" and now: "unix_epoch \<le> now" and lim: "0 \<le> lim"
    and sc: "list_all2 (\<lambda>r j. scanJob env r = Inr j) (take (nat lim) (all env now db)) jobs"
  shows "recovery_batch (jobs_of env db) now lim jobs"
proof -
  let ?all = "all env now db"
  let ?rs = "take (nat lim) ?all"
  have len: "length jobs = length ?rs" using list_all2_lengthD [OF sc] by simp
  have set_all: "set ?all = {r \<in> set (db_rows db). recoverable_row now r}" by (auto simp: all_def)
  have srt: "sorted (map jb_updated_at ?all)" by (simp add: all_def order_by_updated_sorted)
  have row: "db_wf db" "\<And>r. r \<in> set (db_rows db) \<Longrightarrow> 0 \<le> jb_updated_at r \<and> 0 \<le> jb_lease_until r"
    using rd by (auto simp: readable_def)
  have sub: "r \<in> set (db_rows db) \<and> recoverable_row now r" if "r \<in> set ?rs" for r
    using that set_all by (metis (no_types, lifting) in_set_takeD mem_Collect_eq)
  have job: "\<exists>r \<in> set ?rs. scanJob env r = Inr j" if "j \<in> set jobs" for j using list_all2_member2 [OF sc that] .
  have ids: "map job_RequestID jobs = map jb_request_id ?rs" by (rule list_all2_map_eq [OF sc]) (rule scanJob_fields)
  have times: "map job_UpdatedAt jobs = map (timeFromUnixMilli \<circ> jb_updated_at) ?rs"
    by (rule list_all2_map_eq [OF sc]) (auto simp: scanJob_def split: sum.splits)
  have "mset (map jb_request_id ?all) = mset (map jb_request_id (filter (recoverable_row now) (db_rows db)))"
    by (simp add: all_def)
  moreover have "distinct (map jb_request_id (filter (recoverable_row now) (db_rows db)))" using row(1) by (simp add: distinct_map_filter)
  ultimately have "distinct (map jb_request_id ?all)" by (metis mset_eq_imp_distinct_iff)
  then have "distinct (map job_RequestID jobs)" unfolding ids take_map [symmetric] by simp
  moreover have "sorted (map job_UpdatedAt jobs)"
  proof -
    have "sorted_wrt (\<lambda>a b. timeFromUnixMilli (jb_updated_at a) \<le> timeFromUnixMilli (jb_updated_at b)) ?rs"
      using sorted_wrt_take [OF srt [unfolded sorted_map], of "nat lim"] sub row(2)
      by (auto intro: sorted_wrt_mono_rel [rotated] timeFromUnixMilli_mono)
    then show ?thesis unfolding times by (simp add: sorted_map comp_def)
  qed
  moreover have "jobs_of env db (job_RequestID j) = Some j \<and> needs_recovery now j" if "j \<in> set jobs" for j
  proof -
    obtain r where r: "r \<in> set ?rs" "scanJob env r = Inr j" using job [OF \<open>j \<in> set jobs\<close>] by blast
    then have "find_row db (job_RequestID j) = Some r" using sub [OF r(1)] row(1) by (simp add: find_row_Some scanJob_fields(1))
    then show ?thesis using r sub [OF r(1)] row(2) needs_recovery_row [OF r(2) _ now] by (simp add: jobs_of_def)
  qed
  moreover have "int (length jobs) = lim \<and> (\<forall>i \<in> set jobs. job_UpdatedAt i \<le> job_UpdatedAt j)"
    if j: "jobs_of env db k = Some j" "needs_recovery now j" "j \<notin> set jobs" for k j
  proof -
    obtain r where r: "r \<in> set (db_rows db)" "scanJob env r = Inr j"
      using j(1) row(1) by (auto simp: jobs_of_Some [OF rd] find_row_Some)
    then have "r \<in> set ?all" using needs_recovery_row [OF r(2) _ now] row(2) j(2) set_all by auto
    moreover have "r \<notin> set ?rs"
    proof
      assume "r \<in> set ?rs"
      then obtain i where "i < length ?rs" "?rs ! i = r" by (auto simp: in_set_conv_nth)
      then have "scanJob env r = Inr (jobs ! i)" "i < length jobs" using sc len by (auto simp: list_all2_conv_all_nth)
      then show False using r(2) j(3) by auto
    qed
    ultimately have late: "r \<in> set (drop (nat lim) ?all)" by (metis Un_iff append_take_drop_id set_append)
    then have "nat lim < length ?all" by (metis drop_eq_Nil empty_iff list.set(1) not_le)
    moreover have "job_UpdatedAt i \<le> job_UpdatedAt j" if "i \<in> set jobs" for i
    proof -
      obtain q where q: "q \<in> set ?rs" "scanJob env q = Inr i" using job [OF \<open>i \<in> set jobs\<close>] by blast
      then have "jb_updated_at q \<le> jb_updated_at r" "0 \<le> jb_updated_at q"
        using sorted_take_drop [OF srt _ late] sub row(2) by auto
      then show ?thesis using timeFromUnixMilli_mono q(2) r(2) by (auto simp: scanJob_def split: sum.splits)
    qed
    ultimately show ?thesis using len lim by auto
  qed
  ultimately show ?thesis using len lim unfolding recovery_batch_def by auto
qed


lemma ListRecoverable_implements:
  assumes rd: "readable env db" and now: "unix_epoch \<le> now" and l: "ListRecoverable env now n db = (res, db')"
  shows "job_step (jobs_of env db) (StList now n) (Jobs res) (jobs_of env db') \<and> readable env db'"
proof -
  obtain out db1 where o: "next_outcome db = (out, db1)" by force
  have rd1: "readable env db1" and rows: "find_row db1 = find_row db" "db_rows db1 = db_rows db"
    using readable_outcome [OF rd o] next_outcome_rows [OF o] find_row_rows by blast+
  have same: "jobs_of env db1 = jobs_of env db" by (rule jobs_of_rows [OF rows(1)])
  let ?lim = "if n \<le> 0 then 32 else n"
  let ?rs = "take (nat ?lim) (order_by_updated (order_rows env) (filter (recoverable_row now) (db_rows db)))"
  have "set ?rs \<subseteq> set (db_rows db)" using set_take_subset by fastforce
  then obtain jobs where jobs: "scan_all env ?rs = Inr jobs" using scan_all_readable [OF rd] by blast
  then have "recovery_batch (jobs_of env db) now ?lim jobs"
    using recovery_batch_rows [OF rd now, of ?lim jobs] by (auto simp: scan_all_Inr)
  moreover have "db' = db1" "res = (case out of Fails e \<Rightarrow> Inl (JobErr (''list recoverable jobs: '' @ e))
      | RowsAffectedFails e \<Rightarrow> Inl (JobErr (''iterate recoverable jobs: '' @ e)) | Runs \<Rightarrow> Inr jobs)"
    using l o jobs rows(2) by (simp_all add: ListRecoverable_def Let_def del: next_outcome_rows split: sql_outcome.splits)
  ultimately show ?thesis using rd1 same by (cases out) (auto intro: job_step.listed job_step.list_error)
qed

definition represents :: "store_env \<Rightarrow> job_db \<Rightarrow> job_map \<Rightarrow> bool" where
  "represents env db m \<longleftrightarrow> readable env db \<and> isSQLiteConstraintError env (unique_error env) \<and> m = jobs_of env db"

interpretation job_table: implements "store_exec env" job_step "represents env" "usable env" for env
proof
  fix db m op r db'
  assume rep: "represents env db m" and ok: "usable env op" and ex: "store_exec env op db = (r, db')"
  have "job_step (jobs_of env db) op r (jobs_of env db') \<and> readable env db'"
  proof (cases "job_change op")
    case None
    note rd = rep [unfolded represents_def]
    show ?thesis
    proof (cases op)
      case (StCreate now job)
      then obtain res where "Create env now job db = (res, db')" "r = Changed res"
        using ex by (cases "Create env now job db") auto
      then show ?thesis using Create_implements [of env db now job res db'] rd ok StCreate by simp
    next
      case (StGet k)
      then obtain res where "Get env k db = (res, db')" "r = Job res" using ex by (cases "Get env k db") auto
      then show ?thesis using Get_implements [of env db k res db'] rd StGet by simp
    next
      case (StList now n)
      then obtain res where "ListRecoverable env now n db = (res, db')" "r = Jobs res"
        using ex by (cases "ListRecoverable env now n db") auto
      then show ?thesis using ListRecoverable_implements [of env db now n res db'] rd ok StList by simp
    qed (use None in auto)
  next
    case (Some kf)
    then show ?thesis using Mark_implements [of env db op _ _ r db'] rep ok ex unfolding represents_def by (cases kf) auto
  qed
  then show "\<exists>m'. job_step m op r m' \<and> represents env db' m'" using rep unfolding represents_def by blast
qed

text \<open>
  (C6) The job store implements a map from request ids to jobs: whatever operations it is given and
  whatever statements fail, the replies and the jobs that are left are a run of the
  specification. The hypotheses say that the table is readable at the start, that the
  driver's uniqueness error is told apart from other failures, that clocks are after
  1970, and that the requests and responses which are stored survive JSON.
\<close>

theorem job_store_refines_map:
  assumes "readable env db" "isSQLiteConstraintError env (unique_error env)" "list_all (usable env) ops"
    and "run_ops (store_exec env) ops db = (trace, db')"
  shows "spec_run job_step (jobs_of env db) trace (jobs_of env db') \<and> readable env db' \<and> map fst trace = ops"
  using job_table.simulates_run [of env db "jobs_of env db" ops trace db'] assms unfolding represents_def by blast



text \<open>A job is created, dispatched while the database loses the report, and listed after its lease.\<close>

theorem job_store_refines_map_witness:
  "\<exists>m jobs. spec_run job_step (jobs_of plain_env empty_db)
     [(StCreate (unix_epoch + 7000000) (NewJobRecord request_a ''m'' 0 (unix_epoch + 5000000)), Changed None),
      (StDispatching (unix_epoch + 8000000) ''a'' ''w'' (unix_epoch + 9000000),
         Changed (Some (JobErr ''mark job dispatching rows affected: x''))),
      (StList (unix_epoch + 9000000) 0, Jobs (Inr jobs))] m \<and>
   map job_RequestID jobs = [''a''] \<and> map job_Attempt jobs = [1]"
proof -
  let ?db = "empty_db\<lparr>db_faults := [Runs, RowsAffectedFails ''x'']\<rparr>"
  let ?ops = "[StCreate (unix_epoch + 7000000) (NewJobRecord request_a ''m'' 0 (unix_epoch + 5000000)),
      StDispatching (unix_epoch + 8000000) ''a'' ''w'' (unix_epoch + 9000000), StList (unix_epoch + 9000000) 0]"
  have 1: "readable plain_env ?db" by (simp add: readable_def empty_db_def plain_env_def isSQLiteConstraintError_def del: next_outcome_rows)
  have 2: "isSQLiteConstraintError plain_env (unique_error plain_env)" by code_simp
  have 3: "list_all (usable plain_env) ?ops"
    by (simp add: sane_time_def NewJobRecord_def plain_env_def request_a_def unix_epoch_def)
  obtain jobs db' where r: "run_ops (store_exec plain_env) ?ops ?db =
     (zip ?ops [Changed None, Changed (Some (JobErr ''mark job dispatching rows affected: x'')), Jobs (Inr jobs)], db')"
    "map job_RequestID jobs = [''a'']" "map job_Attempt jobs = [1]"
  proof -
    have "case run_ops (store_exec plain_env) ?ops ?db of (trace, db') \<Rightarrow>
      (case map snd trace of [a, b, Jobs (Inr jobs)] \<Rightarrow> a = Changed None \<and> b = Changed (Some (JobErr ''mark job dispatching rows affected: x'')) \<and>
         map job_RequestID jobs = [''a''] \<and> map job_Attempt jobs = [1] | _ \<Rightarrow> False) \<and> map fst trace = ?ops"
      by code_simp
    then obtain trace db' jobs where t: "run_ops (store_exec plain_env) ?ops ?db = (trace, db')" "map fst trace = ?ops"
      "map snd trace = [Changed None, Changed (Some (JobErr ''mark job dispatching rows affected: x'')), Jobs (Inr jobs)]"
      "map job_RequestID jobs = [''a'']" "map job_Attempt jobs = [1]"
      by (auto split: prod.splits list.splits store_reply.splits sum.splits simp del: run_ops.simps)
    have "trace = zip ?ops (map snd trace)" by (metis t(2) zip_map_fst_snd)
    then show ?thesis using that t by simp
  qed
  have j: "jobs_of plain_env empty_db = jobs_of plain_env ?db" by (simp add: jobs_of_def find_row_def fun_eq_iff del: next_outcome_rows)
  show ?thesis
    by (rule exI [of _ "jobs_of plain_env db'"], rule exI [of _ jobs])
      (use job_store_refines_map [OF 1 2 3 r(1)] r(2,3) in \<open>simp add: j del: spec_run_simps\<close>)
qed

end
