(* ===== verification/Master_Acr.thy ===== *)
theory Master_Acr
  imports Master_Policy Shared_Client Go_Maps
begin

text \<open>
  \<open>src/internal/master/acr_manifest.go\<close> and \<open>acr_token.go\<close>: references into an Azure container
  registry, the layer a manifest is resolved to, and the cache of pull tokens.

  \<open>acr_env\<close> gathers what lies outside: the URL parser and printer, the JSON and form codecs,
  base64, \<open>http.NewRequest\<close>, and the Azure credential. The clock is the network's.
\<close>

record acrReference =
  RegistryName :: string
  RepositoryName :: string
  Reference :: string
  Kind :: string

record ociLayer =
  la_MediaType :: string
  la_Digest :: string
  la_Size :: int

record ociManifest =
  ma_MediaType :: string
  ma_Layers :: "ociLayer list"

definition acrReferenceKindRepository :: string where "acrReferenceKindRepository = ''repository''"
definition acrReferenceKindManifest :: string where "acrReferenceKindManifest = ''manifest''"
definition acrReferenceKindBlob :: string where "acrReferenceKindBlob = ''blob''"

record 'n acr_env =
  ae_parse :: "string \<Rightarrow> URL go_result"
  ae_url_string :: "URL \<Rightarrow> string"
  ae_new_request :: "string \<Rightarrow> go_error"
  ae_decode_manifest :: "string \<Rightarrow> ociManifest go_result"
  ae_decode_exchange :: "string \<Rightarrow> string go_result"
  ae_decode_access :: "string \<Rightarrow> (string \<times> int) go_result"
  ae_form_encode :: "(string \<times> string) list \<Rightarrow> string"
  ae_base64 :: "string \<Rightarrow> string go_result"
  ae_decode_claims :: "string \<Rightarrow> string go_result"
  ae_new_credential :: "'n \<Rightarrow> go_error \<times> 'n"
  ae_get_token :: "string \<Rightarrow> 'n \<Rightarrow> string go_result \<times> 'n"

section \<open>References\<close>

definition isACRURL :: "(string \<Rightarrow> URL go_result) \<Rightarrow> string \<Rightarrow> bool" where
  "isACRURL parse moduleURL =
     (case parse moduleURL of Inl _ \<Rightarrow> False | Inr u \<Rightarrow> HasSuffix (Hostname u) ''.azurecr.io'')"

text \<open>The kind a path segment announces, if it is one of the keywords of the registry API.\<close>

definition acr_keyword :: "string \<Rightarrow> string option" where
  "acr_keyword segment =
     (if segment = ''manifests'' then Some acrReferenceKindManifest
      else if segment = ''blobs'' then Some acrReferenceKindBlob
      else if segment = ''tags'' \<or> segment = ''referrers'' then Some segment
      else None)"

text \<open>The loop: the index and the kind of the first keyword, or the length and \<open>repository\<close>.\<close>

fun acr_scan :: "nat \<Rightarrow> string list \<Rightarrow> nat \<times> string" where
  "acr_scan i [] = (i, acrReferenceKindRepository)"
| "acr_scan i (segment # rest) =
     (case acr_keyword segment of Some kind \<Rightarrow> (i, kind) | None \<Rightarrow> acr_scan (Suc i) rest)"

definition acr_segments :: "string \<Rightarrow> string list" where
  "acr_segments path =
     (let segments = Split CHR ''/'' path in if hd segments = ''v2'' then tl segments else segments)"

definition parseACRModuleReference :: "(string \<Rightarrow> URL go_result) \<Rightarrow> string \<Rightarrow> acrReference go_result" where
  "parseACRModuleReference parse moduleRegistryURL =
     (case parse moduleRegistryURL of
        Inl err \<Rightarrow> Inl (''parse module registry url: '' @ err)
      | Inr parsedURL \<Rightarrow>
          (let hostname = Hostname parsedURL;
               path = Trim CHR ''/'' (u_Path parsedURL);
               segments = acr_segments path;
               (repositoryEnd, kind) = acr_scan 0 segments;
               repositoryName = Join (take repositoryEnd segments) ''/''
           in if \<not> HasSuffix hostname ''.azurecr.io''
              then Inl ''module registry url is not an azure container registry''
              else if path = '''' then Inl ''missing repository path in module registry url''
              else if segments = [] then Inl ''missing repository path in module registry url''
              else if repositoryName = '''' then Inl ''missing repository name in module registry url''
              else if kind \<noteq> acrReferenceKindRepository \<and> repositoryEnd + 1 \<ge> length segments
              then Inl ''missing reference in module registry url''
              else Inr \<lparr>RegistryName = TrimSuffix hostname ''.azurecr.io'', RepositoryName = repositoryName,
                        Reference = (if kind \<noteq> acrReferenceKindRepository
                                     then Join (drop (repositoryEnd + 1) segments) ''/'' else ''''),
                        Kind = kind\<rparr>))"

definition isWASMLayerMediaType :: "string \<Rightarrow> bool" where
  "isWASMLayerMediaType mediaType \<longleftrightarrow>
     mediaType = ''application/wasm'' \<or>
     mediaType = ''application/vnd.module.wasm.content.layer.v1+wasm'' \<or>
     mediaType = ''application/vnd.wasm.content.layer.v1+wasm''"

definition selectWASMLayer :: "ociManifest \<Rightarrow> ociLayer go_result" where
  "selectWASMLayer manifest =
     (case ma_Layers manifest of
        [] \<Rightarrow> Inl ''acr manifest has no layers''
      | [layer] \<Rightarrow> Inr layer
      | layers \<Rightarrow>
          (case find (\<lambda>layer. isWASMLayerMediaType (la_MediaType layer)) layers of
             Some layer \<Rightarrow> Inr layer
           | None \<Rightarrow> Inl ''acr manifest has multiple layers and no known wasm layer media type''))"

definition buildACRBlobURL :: "'n acr_env \<Rightarrow> string \<Rightarrow> string \<Rightarrow> string \<Rightarrow> string go_result" where
  "buildACRBlobURL env originalURL repositoryName digest =
     (if repositoryName = '''' then Inl ''repository name is required''
      else if \<not> HasPrefix digest ''sha256:'' then Inl ''unsupported layer digest''
      else case ae_parse env originalURL of
        Inl err \<Rightarrow> Inl (''parse acr blob base url: '' @ err)
      | Inr parsedURL \<Rightarrow>
          if \<not> HasSuffix (Hostname parsedURL) ''.azurecr.io''
          then Inl ''module registry url is not an azure container registry''
          else Inr (ae_url_string env (parsedURL\<lparr>u_Path := ''/v2/'' @ repositoryName @ ''/blobs/'' @ digest,
                      u_RawQuery := '''', u_Fragment := ''''\<rparr>)))"

definition manifest_call :: "string \<Rightarrow> string \<Rightarrow> http_call" where
  "manifest_call manifestURL token =
     \<lparr>hc_Method = ''GET'', hc_URL = manifestURL,
      hc_Headers = [(''Authorization'', ''Bearer '' @ token),
        (''Accept'', Join [''application/vnd.oci.image.manifest.v1+json'',
           ''application/vnd.docker.distribution.manifest.v2+json'',
           ''application/vnd.docker.distribution.manifest.list.v2+json''] '', '')],
      hc_Body = NoBody\<rparr>"

definition fetchACRManifest ::
  "'n acr_env \<Rightarrow> 'n network \<Rightarrow> string \<Rightarrow> string \<Rightarrow> 'n \<Rightarrow> ociManifest go_result \<times> 'n" where
  "fetchACRManifest env net manifestURL token n =
     (case ae_new_request env manifestURL of
        Some err \<Rightarrow> (Inl (''create acr manifest request: '' @ err), n)
      | None \<Rightarrow>
          (case DoWithRetry net (manifest_call manifestURL token) n of
             (Inl err, n) \<Rightarrow> (Inl (''fetch acr manifest: '' @ err), n)
           | (Inr resp, n) \<Rightarrow>
               if hp_StatusCode resp \<noteq> 200
               then (Inl (''fetch acr manifest: unexpected status '' @ hp_Status resp), n)
               else (case ae_decode_manifest env (hp_Body resp) of
                       Inl err \<Rightarrow> (Inl (''decode acr manifest: '' @ err), n)
                     | Inr manifest \<Rightarrow>
                         if ma_Layers manifest = [] then (Inl ''acr manifest has no layers'', n)
                         else (Inr manifest, n))))"

text \<open>The exported names, and the pair that older callers ask for.\<close>

definition ParseACRModuleReference :: "(string \<Rightarrow> URL go_result) \<Rightarrow> string \<Rightarrow> acrReference go_result" where
  "ParseACRModuleReference parse moduleRegistryURL = parseACRModuleReference parse moduleRegistryURL"

definition parseACRReference :: "(string \<Rightarrow> URL go_result) \<Rightarrow> string \<Rightarrow> (string \<times> string) go_result" where
  "parseACRReference parse moduleRegistryURL =
     (case parseACRModuleReference parse moduleRegistryURL of
        Inl err \<Rightarrow> Inl err
      | Inr ref \<Rightarrow> Inr (RegistryName ref, RepositoryName ref))"

definition FetchACRManifest ::
  "'n acr_env \<Rightarrow> 'n network \<Rightarrow> string \<Rightarrow> string \<Rightarrow> 'n \<Rightarrow> ociManifest go_result \<times> 'n" where
  "FetchACRManifest env net manifestURL token n = fetchACRManifest env net manifestURL token n"

definition SelectWASMLayer :: "ociManifest \<Rightarrow> ociLayer go_result" where
  "SelectWASMLayer manifest = selectWASMLayer manifest"

definition BuildACRBlobURL :: "'n acr_env \<Rightarrow> string \<Rightarrow> string \<Rightarrow> string \<Rightarrow> string go_result" where
  "BuildACRBlobURL env originalURL repositoryName digest = buildACRBlobURL env originalURL repositoryName digest"

definition resolveACRModuleURL ::
  "'n acr_env \<Rightarrow> 'n network \<Rightarrow> string \<Rightarrow> string \<Rightarrow> acrReference \<Rightarrow> 'n \<Rightarrow> (string \<times> string) go_result \<times> 'n" where
  "resolveACRModuleURL env net moduleRegistryURL token ref n =
     (if Kind ref \<noteq> acrReferenceKindManifest then (Inr (moduleRegistryURL, Reference ref), n)
      else case fetchACRManifest env net moduleRegistryURL token n of
        (Inl err, n) \<Rightarrow> (Inl err, n)
      | (Inr manifest, n) \<Rightarrow>
          (case selectWASMLayer manifest of
             Inl err \<Rightarrow> (Inl err, n)
           | Inr layer \<Rightarrow>
               (case buildACRBlobURL env moduleRegistryURL (RepositoryName ref) (la_Digest layer) of
                  Inl err \<Rightarrow> (Inl err, n)
                | Inr blobURL \<Rightarrow> (Inr (blobURL, la_Digest layer), n))))"

section \<open>Tokens\<close>

definition defaultACRTokenTTL :: duration where "defaultACRTokenTTL = 5 * 60 * Second"
definition defaultACRRefreshSkew :: duration where "defaultACRRefreshSkew = 30 * Second"

record acrCachedToken =
  ct_token :: string
  ct_expiresAt :: time

type_synonym ACRTokenProvider = "(string, acrCachedToken) gomap"
type_synonym 'n mint = "string \<Rightarrow> string \<Rightarrow> 'n \<Rightarrow> (string \<times> duration) go_result \<times> 'n"

definition acrTokenCacheKey :: "string \<Rightarrow> string \<Rightarrow> string" where
  "acrTokenCacheKey registryName repositoryName = registryName @ ''/'' @ repositoryName"

definition cachedTokenUsable :: "time \<Rightarrow> acrCachedToken \<Rightarrow> bool" where
  "cachedTokenUsable now cached =
     (if \<not> ct_expiresAt cached - defaultACRRefreshSkew > now then False else ct_token cached \<noteq> '''')"

text \<open>The part of \<open>Token\<close> after a miss: mint, check, and store under the key.\<close>

definition mint_token ::
  "'n mint \<Rightarrow> 'n network \<Rightarrow> string \<Rightarrow> string \<Rightarrow> ACRTokenProvider \<Rightarrow> 'n \<Rightarrow> string go_result \<times> ACRTokenProvider \<times> 'n" where
  "mint_token mint net registryName repositoryName tokens n0 =
     (case mint registryName repositoryName n0 of
        (Inl err, n) \<Rightarrow> (Inl err, tokens, n)
      | (Inr (token, ttl), n) \<Rightarrow>
          if token = [] then (Inl ''acr token mint returned empty token'', tokens, n)
          else (Inr token,
                go_put (acrTokenCacheKey registryName repositoryName) \<lparr>ct_token = token,
                  ct_expiresAt = net_now net n + (if ttl \<le> 0 then defaultACRTokenTTL else ttl)\<rparr> tokens, n))"

definition Token ::
  "'n mint \<Rightarrow> 'n network \<Rightarrow> string \<Rightarrow> string \<Rightarrow> ACRTokenProvider \<times> 'n \<Rightarrow> string go_result \<times> ACRTokenProvider \<times> 'n" where
  "Token mint net registryName repositoryName s =
     (case s of (tokens, n) \<Rightarrow>
      if registryName = [] then (Inl ''registryName is required'', tokens, n)
      else if repositoryName = [] then (Inl ''repositoryName is required'', tokens, n)
      else case map_of tokens (acrTokenCacheKey registryName repositoryName) of
             Some cached \<Rightarrow>
               if cachedTokenUsable (net_now net n) cached then (Inr (ct_token cached), tokens, n)
               else mint_token mint net registryName repositoryName tokens n
           | None \<Rightarrow> mint_token mint net registryName repositoryName tokens n)"

definition extractTenantID :: "'n acr_env \<Rightarrow> string \<Rightarrow> string go_result" where
  "extractTenantID env jwtToken =
     (case Split CHR ''.'' jwtToken of
        [h, p, sig] \<Rightarrow>
          (case ae_base64 env p of
             Inl err \<Rightarrow> Inl (''decode jwt payload: '' @ err)
           | Inr payload \<Rightarrow>
               (case ae_decode_claims env payload of
                  Inl err \<Rightarrow> Inl (''unmarshal jwt payload: '' @ err)
                | Inr tenantID \<Rightarrow> if tenantID = '''' then Inl ''tenant id not present in jwt claims'' else Inr tenantID))
      | _ \<Rightarrow> Inl ''invalid jwt format'')"

definition form_call :: "'n acr_env \<Rightarrow> string \<Rightarrow> (string \<times> string) list \<Rightarrow> http_call" where
  "form_call env endpoint form =
     \<lparr>hc_Method = ''POST'', hc_URL = endpoint,
      hc_Headers = [(''Content-Type'', ''application/x-www-form-urlencoded'')],
      hc_Body = Replayable (ae_form_encode env form)\<rparr>"

definition exchangeAADTokenForRefreshToken ::
  "'n acr_env \<Rightarrow> 'n network \<Rightarrow> string \<Rightarrow> string \<Rightarrow> string \<Rightarrow> 'n \<Rightarrow> string go_result \<times> 'n" where
  "exchangeAADTokenForRefreshToken env net service tenantID aadToken n =
     (let endpoint = ''https://'' @ service @ ''/oauth2/exchange'';
          form = [(''grant_type'', ''access_token''), (''service'', service), (''tenant'', tenantID),
                  (''access_token'', aadToken)]
      in case ae_new_request env endpoint of
           Some err \<Rightarrow> (Inl (''create acr exchange request: '' @ err), n)
         | None \<Rightarrow>
             (case DoWithRetry net (form_call env endpoint form) n of
                (Inl err, n) \<Rightarrow> (Inl (''exchange aad token for refresh token: '' @ err), n)
              | (Inr resp, n) \<Rightarrow>
                  if hp_StatusCode resp \<noteq> 200
                  then (Inl (''acr exchange failed: '' @ hp_Status resp @ '': '' @ TrimSpace (hp_Body resp)), n)
                  else (case ae_decode_exchange env (hp_Body resp) of
                          Inl err \<Rightarrow> (Inl (''decode acr exchange response: '' @ err), n)
                        | Inr token \<Rightarrow>
                            if token = '''' then (Inl ''acr exchange response missing refresh_token'', n)
                            else (Inr token, n))))"

definition exchangeRefreshTokenForAccessToken ::
  "'n acr_env \<Rightarrow> 'n network \<Rightarrow> string \<Rightarrow> string \<Rightarrow> string \<Rightarrow> 'n \<Rightarrow> (string \<times> duration) go_result \<times> 'n" where
  "exchangeRefreshTokenForAccessToken env net service repositoryName refreshToken n =
     (let endpoint = ''https://'' @ service @ ''/oauth2/token'';
          form = [(''grant_type'', ''refresh_token''), (''service'', service),
                  (''scope'', ''repository:'' @ repositoryName @ '':pull''), (''refresh_token'', refreshToken)]
      in case ae_new_request env endpoint of
           Some err \<Rightarrow> (Inl (''create acr token request: '' @ err), n)
         | None \<Rightarrow>
             (case DoWithRetry net (form_call env endpoint form) n of
                (Inl err, n) \<Rightarrow> (Inl (''exchange refresh token for access token: '' @ err), n)
              | (Inr resp, n) \<Rightarrow>
                  if hp_StatusCode resp \<noteq> 200
                  then (Inl (''acr token exchange failed: '' @ hp_Status resp @ '': '' @ TrimSpace (hp_Body resp)), n)
                  else (case ae_decode_access env (hp_Body resp) of
                          Inl err \<Rightarrow> (Inl (''decode acr token response: '' @ err), n)
                        | Inr (token, expiresIn) \<Rightarrow>
                            if token = '''' then (Inl ''acr token response missing access_token'', n)
                            else (Inr (token, if expiresIn > 0 then mul64 expiresIn Second else defaultACRTokenTTL), n))))"

definition generateACRTokenUncached :: "'n acr_env \<Rightarrow> 'n network \<Rightarrow> 'n mint" where
  "generateACRTokenUncached env net registryName repositoryName n =
     (case ae_new_credential env n of
        (Some err, n) \<Rightarrow> (Inl (''create default azure credential: '' @ err), n)
      | (None, n) \<Rightarrow>
          (case ae_get_token env ''https://management.core.windows.net/.default'' n of
             (Inl err, n) \<Rightarrow> (Inl (''acquire aad token: '' @ err), n)
           | (Inr aadToken, n) \<Rightarrow>
               (case extractTenantID env aadToken of
                  Inl err \<Rightarrow> (Inl (''extract tenant id from aad token: '' @ err), n)
                | Inr tenantID \<Rightarrow>
                    (let service = registryName @ ''.azurecr.io'' in
                     case exchangeAADTokenForRefreshToken env net service tenantID aadToken n of
                       (Inl err, n) \<Rightarrow> (Inl err, n)
                     | (Inr refreshToken, n) \<Rightarrow>
                         exchangeRefreshTokenForAccessToken env net service repositoryName refreshToken n))))"

definition GenerateACRToken ::
  "'n acr_env \<Rightarrow> 'n network \<Rightarrow> string \<Rightarrow> string \<Rightarrow> ACRTokenProvider \<times> 'n \<Rightarrow> string go_result \<times> ACRTokenProvider \<times> 'n" where
  "GenerateACRToken env net = Token (generateACRTokenUncached env net) net"

section \<open>A cached token belongs to its repository\<close>

definition minted :: "'n mint \<Rightarrow> string \<Rightarrow> string \<Rightarrow> string \<Rightarrow> bool" where
  "minted mint reg repo token \<longleftrightarrow> (\<exists>n ttl. fst (mint reg repo n) = Inr (token, ttl))"

definition cache_scoped :: "'n mint \<Rightarrow> ACRTokenProvider \<Rightarrow> bool" where
  "cache_scoped mint tokens \<longleftrightarrow>
     (\<forall>k c. map_of tokens k = Some c \<longrightarrow>
        (\<exists>reg repo. CHR ''/'' \<notin> set reg \<and> k = acrTokenCacheKey reg repo \<and> minted mint reg repo (ct_token c)))"

lemma acrTokenCacheKey_inj:
  assumes "CHR ''/'' \<notin> set reg" "CHR ''/'' \<notin> set reg'" "acrTokenCacheKey reg repo = acrTokenCacheKey reg' repo'"
  shows "reg = reg' \<and> repo = repo'"
proof -
  have "Cut CHR ''/'' (acrTokenCacheKey reg repo) = (reg, repo, True)"
    "Cut CHR ''/'' (acrTokenCacheKey reg' repo') = (reg', repo', True)"
    unfolding acrTokenCacheKey_def append_Cons append_Nil by (rule Cut_append [OF assms(1)] Cut_append [OF assms(2)])+
  then show ?thesis unfolding assms(3) by (metis prod.inject)
qed

lemma Token_cases:
  assumes "Token mint net reg repo (tokens, n) = (r, tokens', n')"
  obtains (refused) e where "r = Inl e" "tokens' = tokens"
  | (cached) c where "map_of tokens (acrTokenCacheKey reg repo) = Some c" "r = Inr (ct_token c)" "tokens' = tokens"
      "n' = n" "ct_token c \<noteq> ''''" "net_now net n + defaultACRRefreshSkew < ct_expiresAt c"
  | (fresh) token ttl where "mint reg repo n = (Inr (token, ttl), n')" "r = Inr token" "token \<noteq> ''''"
      "tokens' = go_put (acrTokenCacheKey reg repo) \<lparr>ct_token = token,
         ct_expiresAt = net_now net n' + (if ttl \<le> 0 then defaultACRTokenTTL else ttl)\<rparr> tokens"
proof -
  have miss: ?thesis if "mint_token mint net reg repo tokens n = (r, tokens', n')"
  proof -
    obtain m n1 where m: "mint reg repo n = (m, n1)" by force
    show ?thesis
    proof (cases m)
      case (Inl e)
      show ?thesis by (rule refused [of e]) (use that m Inl in \<open>simp_all add: mint_token_def\<close>)
    next
      case (Inr p)
      obtain token ttl where p: "p = (token, ttl)" by force
      show ?thesis
      proof (cases "token = []")
        case True
        show ?thesis
          by (rule refused [of "''acr token mint returned empty token''"])
            (use that m Inr p True in \<open>auto simp: mint_token_def\<close>)
      next
        case False
        show ?thesis by (rule fresh [of token ttl]) (use that m Inr p False in \<open>auto simp: mint_token_def\<close>)
      qed
    qed
  qed
  show ?thesis
  proof (cases "reg = [] \<or> repo = []")
    case True
    then have "isl r" "tokens' = tokens" using assms by (auto simp: Token_def split: if_splits)
    then show ?thesis using refused by (cases r) auto
  next
    case False
    show ?thesis
    proof (cases "map_of tokens (acrTokenCacheKey reg repo)")
      case None
      then show ?thesis using assms False miss by (simp add: Token_def)
    next
      case (Some c)
      show ?thesis
      proof (cases "cachedTokenUsable (net_now net n) c")
        case True
        then have "Token mint net reg repo (tokens, n) = (Inr (ct_token c), tokens, n)"
          using False Some by (simp add: Token_def)
        moreover have "ct_token c \<noteq> []" "net_now net n + defaultACRRefreshSkew < ct_expiresAt c"
          using True by (simp_all add: cachedTokenUsable_def split: if_splits)
        ultimately show ?thesis using assms Some by (intro cached [of c]) simp_all
      next
        case stale: False
        then have "Token mint net reg repo (tokens, n) = mint_token mint net reg repo tokens n"
          using False Some by (simp add: Token_def)
        then show ?thesis using assms miss by simp
      qed
    qed
  qed
qed

text \<open>
  (C33) Pull tokens stay within their repository. From a cache whose entries were minted for the
  repository of their key, a token that is handed out is not empty and was minted for the
  requested registry and repository; one that comes from the cache is valid for longer than
  the refresh window; and the cache keeps this property. Registry names hold no slash.
\<close>

theorem acr_token_scoped:
  assumes "cache_scoped mint tokens" "CHR ''/'' \<notin> set reg" "Token mint net reg repo (tokens, n) = (r, tokens', n')"
  shows "cache_scoped mint tokens' \<and>
    (\<forall>token. r = Inr token \<longrightarrow> token \<noteq> '''' \<and> minted mint reg repo token \<and>
       (n' = n \<and> tokens' = tokens \<longrightarrow> (\<exists>c. map_of tokens (acrTokenCacheKey reg repo) = Some c \<and> ct_token c = token \<and>
          net_now net n + defaultACRRefreshSkew < ct_expiresAt c) \<or> (\<exists>ttl. mint reg repo n = (Inr (token, ttl), n))))"
  using assms(3)
proof (cases rule: Token_cases)
  case (refused e)
  then show ?thesis using assms(1) by simp
next
  case (cached c)
  obtain reg' repo' where k: "CHR ''/'' \<notin> set reg'" "acrTokenCacheKey reg repo = acrTokenCacheKey reg' repo'"
      "minted mint reg' repo' (ct_token c)"
    using cached(1) assms(1) unfolding cache_scoped_def by blast
  then have "minted mint reg repo (ct_token c)" using acrTokenCacheKey_inj [OF assms(2) k(1,2)] by simp
  then show ?thesis using cached assms(1) by simp
next
  case (fresh token ttl)
  have m: "minted mint reg repo token" using fresh(1) unfolding minted_def by (metis fst_conv)
  then have "cache_scoped mint tokens'"
    using assms(1,2) unfolding cache_scoped_def fresh(4) map_of_put by (auto split: if_splits)
  then show ?thesis using fresh m by auto
qed

definition mint_once :: "unit mint" where
  "mint_once reg repo n = (Inr (''t-'' @ repo, 60 * Second), n)"

definition still_network :: "unit network" where
  "still_network = \<lparr>net_do = (\<lambda>_ n. (Inl ''down'', n)), net_done = (\<lambda>_. False), net_sleep = (\<lambda>_ n. (None, n)), net_now = (\<lambda>_. 7)\<rparr>"

theorem acr_token_scoped_witness:
  "cache_scoped mint_once (fst (snd (Token mint_once still_network ''reg'' ''team/api'' ([], ())))) \<and>
   fst (Token mint_once still_network ''reg'' ''team/api'' ([], ())) = Inr ''t-team/api''"
proof -
  obtain r ts u where "Token mint_once still_network ''reg'' ''team/api'' ([], ()) = (r, ts, u)" by (rule prod_cases3)
  then have t: "Token mint_once still_network ''reg'' ''team/api'' ([], ()) = (r, ts, ())" by simp
  have r: "r = Inr ''t-team/api''" using t by (simp add: Token_def mint_token_def mint_once_def)
  have "cache_scoped mint_once []" by (simp add: cache_scoped_def)
  from acr_token_scoped [OF this _ t] show ?thesis using t r by simp
qed

section \<open>References split the path\<close>

lemma acr_keyword_kinds [simp]: "acr_keyword w \<noteq> Some acrReferenceKindRepository"
  by (auto simp: acr_keyword_def acrReferenceKindRepository_def acrReferenceKindManifest_def acrReferenceKindBlob_def)

lemma acr_scan_cases:
  assumes "acr_scan i ws = (j, kind)"
  obtains (none) "kind = acrReferenceKindRepository" "j = i + length ws" "\<forall>x \<in> set ws. acr_keyword x = None"
  | (some) pre w post where "ws = pre @ w # post" "j = i + length pre" "acr_keyword w = Some kind"
      "\<forall>x \<in> set pre. acr_keyword x = None"
  using assms
proof (induction ws arbitrary: i thesis)
  case (Cons a ws)
  show ?case
  proof (cases "acr_keyword a")
    case (Some k)
    then show ?thesis using Cons.prems(2)[of "[]" a ws] Cons.prems(3) by simp
  next
    case None
    then have scan: "acr_scan (Suc i) ws = (j, kind)" using Cons.prems(3) by simp
    show ?thesis
    proof (rule Cons.IH [OF _ _ scan])
      show ?thesis if "kind = acrReferenceKindRepository" "j = Suc i + length ws" "\<forall>x \<in> set ws. acr_keyword x = None"
        by (rule Cons.prems(1)) (use that None in auto)
      show ?thesis if "ws = pre @ w # post" "j = Suc i + length pre" "acr_keyword w = Some kind"
        "\<forall>x \<in> set pre. acr_keyword x = None" for pre w post
        by (rule Cons.prems(2) [of "a # pre" w post]) (use that None in auto)
    qed
  qed
qed simp

lemma acr_scan_append:
  "\<forall>x \<in> set pre. acr_keyword x = None \<Longrightarrow> acr_keyword w = Some kind \<Longrightarrow> acr_scan i (pre @ w # post) = (i + length pre, kind)"
  by (induction pre arbitrary: i) auto

lemma Join_append: "xs \<noteq> [] \<Longrightarrow> ys \<noteq> [] \<Longrightarrow> Join (xs @ ys) s = Join xs s @ s @ Join ys s"
  by (induction xs s rule: Join.induct) (auto simp: neq_Nil_conv)

lemma HasSuffix_append: "HasSuffix s p \<Longrightarrow> TrimSuffix s p @ p = s"
proof -
  assume a: "HasSuffix s p"
  then obtain t where "rev s = rev p @ t" by (auto simp: HasSuffix_def HasPrefix_iff)
  then have "s = rev t @ p" by (metis rev_append rev_rev_ident)
  then show ?thesis using a by (simp add: TrimSuffix_def)
qed

lemma parseACR_cases:
  assumes "parseACRModuleReference parse url = Inr ref"
  obtains u pre where "parse url = Inr u" "HasSuffix (Hostname u) ''.azurecr.io''"
    "RegistryName ref = TrimSuffix (Hostname u) ''.azurecr.io''"
    "acr_scan 0 (acr_segments (Trim CHR ''/'' (u_Path u))) = (length pre, Kind ref)"
    "pre = take (length pre) (acr_segments (Trim CHR ''/'' (u_Path u)))"
    "RepositoryName ref = Join pre ''/''" "RepositoryName ref \<noteq> ''''"
    "Kind ref \<noteq> acrReferenceKindRepository \<Longrightarrow>
       Suc (length pre) < length (acr_segments (Trim CHR ''/'' (u_Path u))) \<and>
       Reference ref = Join (drop (Suc (length pre)) (acr_segments (Trim CHR ''/'' (u_Path u)))) ''/''"
    "Kind ref = acrReferenceKindRepository \<Longrightarrow> Reference ref = ''''"
proof -
  obtain u where u: "parse url = Inr u" using assms by (auto simp: parseACRModuleReference_def split: sum.splits)
  let ?ws = "acr_segments (Trim CHR ''/'' (u_Path u))"
  obtain j kind where sc: "acr_scan 0 ?ws = (j, kind)" by force
  have le: "j \<le> length ?ws" using sc by (cases rule: acr_scan_cases) auto
  show ?thesis
    by (rule that [of u "take j ?ws"])
      (use assms u sc le in \<open>auto simp: parseACRModuleReference_def Let_def split: if_splits\<close>)
qed

text \<open>
  A parsed registry reference accounts for the whole URL: the registry name and the Azure
  suffix make the host, and the path (less a leading \<open>v2\<close>) is the repository, or the repository,
  the keyword of its kind, and the reference. The repository name holds no keyword segment, so
  the first keyword is where it ends.
\<close>

theorem acr_reference_splits_path:
  assumes "parseACRModuleReference parse url = Inr ref"
  shows "\<exists>u pre. parse url = Inr u \<and> Hostname u = RegistryName ref @ ''.azurecr.io'' \<and>
    RepositoryName ref = Join pre ''/'' \<and> RepositoryName ref \<noteq> '''' \<and> (\<forall>w \<in> set pre. acr_keyword w = None) \<and>
    (if Kind ref = acrReferenceKindRepository
     then acr_segments (Trim CHR ''/'' (u_Path u)) = pre \<and> Reference ref = ''''
     else \<exists>kw post. acr_keyword kw = Some (Kind ref) \<and> post \<noteq> [] \<and> Reference ref = Join post ''/'' \<and>
       acr_segments (Trim CHR ''/'' (u_Path u)) = pre @ kw # post)"
proof (rule parseACR_cases [OF assms])
  fix u :: URL and pre
  let ?ws = "acr_segments (Trim CHR ''/'' (u_Path u))"
  assume u: "parse url = Inr u" and host: "HasSuffix (Hostname u) ''.azurecr.io''"
    "RegistryName ref = TrimSuffix (Hostname u) ''.azurecr.io''"
    and sc: "acr_scan 0 ?ws = (length pre, Kind ref)" and pre: "pre = take (length pre) ?ws"
    and repo: "RepositoryName ref = Join pre ''/''" "RepositoryName ref \<noteq> ''''"
    and more: "Kind ref \<noteq> acrReferenceKindRepository \<Longrightarrow>
       Suc (length pre) < length ?ws \<and> Reference ref = Join (drop (Suc (length pre)) ?ws) ''/''"
    and norm: "Kind ref = acrReferenceKindRepository \<Longrightarrow> Reference ref = ''''"
  have h: "Hostname u = RegistryName ref @ ''.azurecr.io''" using HasSuffix_append host by simp
  show ?thesis
    using sc
  proof (cases rule: acr_scan_cases)
    case none
    then have "?ws = pre" using pre by simp
    moreover have "Reference ref = ''''" using norm none(1) by simp
    ultimately show ?thesis using u h repo none by (intro exI [of _ u] exI [of _ pre] conjI) simp_all
  next
    case (some p w post)
    then have p: "p = pre" using pre by simp
    have k: "Kind ref \<noteq> acrReferenceKindRepository" using some(3) by auto
    have "Suc (length pre) < length ?ws" "Reference ref = Join (drop (Suc (length pre)) ?ws) ''/''"
      using more [OF k] by simp_all
    then have "post \<noteq> []" "Reference ref = Join post ''/''" unfolding some(1) p by simp_all
    moreover have "\<forall>w \<in> set pre. acr_keyword w = None" using some(4) p by simp
    ultimately show ?thesis
      using u h repo some(1,3) p k by (intro exI [of _ u] exI [of _ pre] conjI) simp_all
  qed
qed

definition parse_acr :: "string \<Rightarrow> URL go_result" where
  "parse_acr s = Inr \<lparr>u_Scheme = ''https'', u_Host = ''r.azurecr.io'', u_Path = s, u_RawQuery = '''', u_Fragment = '''',
     u_Rest = ''''\<rparr>"

theorem acr_reference_splits_path_witness:
  "parseACRModuleReference parse_acr ''/v2/team/api/manifests/v1'' =
     Inr \<lparr>RegistryName = ''r'', RepositoryName = ''team/api'', Reference = ''v1'', Kind = ''manifest''\<rparr> \<and>
   (\<exists>u. parse_acr ''/v2/team/api/manifests/v1'' = Inr u \<and> Hostname u = ''r.azurecr.io'')"
proof -
  have p: "parseACRModuleReference parse_acr ''/v2/team/api/manifests/v1'' =
     Inr \<lparr>RegistryName = ''r'', RepositoryName = ''team/api'', Reference = ''v1'', Kind = ''manifest''\<rparr>"
    by code_simp
  from acr_reference_splits_path [OF p] p show ?thesis by auto
qed

section \<open>Resolved blobs\<close>

lemma Trim_blob:
  assumes "digest \<noteq> []" "last digest \<noteq> c" "x \<noteq> c"
  shows "Trim c (c # (x # xs) @ digest) = x # xs @ digest"
proof -
  have "dropWhile (\<lambda>d. d = c) (rev digest @ ys) = rev digest @ ys" for ys
    using assms(1,2) by (cases digest rule: rev_cases) auto
  then show ?thesis using assms(3) by (simp add: Trim_def TrimLeft_def TrimRight_def)
qed

text \<open>
  A manifest is resolved to a blob of the same repository: the URL the worker is given
  parses as a blob reference in the same registry and repository, whose reference is the digest
  of the selected layer, a \<open>sha256:\<close> one; that digest is what the worker will check. The
  hypotheses are that the URL parses, that the printed blob URL parses back to what was printed,
  and that the digest has no slash.
\<close>

theorem acr_manifest_resolves_to_blob:
  assumes "resolveACRModuleURL env net url token ref n = (Inr (blobURL, digest), n')" "Kind ref = acrReferenceKindManifest"
    and "parseACRModuleReference (ae_parse env) url = Inr ref"
    and "ae_parse env url = Inr u" "CHR ''/'' \<notin> set digest"
    and "ae_parse env blobURL = Inr (u\<lparr>u_Path := ''/v2/'' @ RepositoryName ref @ ''/blobs/'' @ digest,
      u_RawQuery := '''', u_Fragment := ''''\<rparr>)"
  shows "HasPrefix digest ''sha256:'' \<and>
    parseACRModuleReference (ae_parse env) blobURL =
      Inr (ref\<lparr>Reference := digest, Kind := acrReferenceKindBlob\<rparr>)"
proof -
  note u = assms(4)
  have d: "HasPrefix digest ''sha256:''" and h: "HasSuffix (Hostname u) ''.azurecr.io''"
    using assms(1,2,4) by (auto simp: resolveACRModuleURL_def buildACRBlobURL_def split: prod.splits sum.splits if_splits)
  obtain pre where repo: "RepositoryName ref = Join pre ''/''" "RepositoryName ref \<noteq> ''''"
      "\<forall>w \<in> set pre. acr_keyword w = None" "\<forall>w \<in> set pre. CHR ''/'' \<notin> set w"
    and reg: "RegistryName ref = TrimSuffix (Hostname u) ''.azurecr.io''"
  proof (rule parseACR_cases [OF assms(3)])
    fix v :: URL and pre
    let ?ws = "acr_segments (Trim CHR ''/'' (u_Path v))"
    assume a: "ae_parse env url = Inr v" "RegistryName ref = TrimSuffix (Hostname v) ''.azurecr.io''"
      "acr_scan 0 ?ws = (length pre, Kind ref)" "pre = take (length pre) ?ws"
      "RepositoryName ref = Join pre ''/''" "RepositoryName ref \<noteq> ''''"
    have "set pre \<subseteq> set ?ws" by (metis a(4) set_take_subset)
    moreover have "CHR ''/'' \<notin> set w" if "w \<in> set ?ws" for w
      using that list.set_sel(2) [OF Split_not_Nil]
      by (auto simp: acr_segments_def Let_def dest: Split_no_sep split: if_splits)
    moreover have "\<forall>w \<in> set pre. acr_keyword w = None"
      using a(3)
    proof (cases rule: acr_scan_cases)
      case none
      then show ?thesis using a(4) by (metis in_set_takeD)
    next
      case (some p w post)
      then show ?thesis using a(4) by simp
    qed
    ultimately have "\<forall>w \<in> set pre. CHR ''/'' \<notin> set w" by blast
    moreover have "v = u" using a(1) u by simp
    ultimately show ?thesis using a(2,5,6) \<open>\<forall>w \<in> set pre. acr_keyword w = None\<close> that by blast
  qed
  have dne: "digest \<noteq> []" using d by (auto simp: HasPrefix_iff)
  have last: "last digest \<noteq> CHR ''/''" using dne assms(5) by (metis last_in_set)
  let ?path = "''/v2/'' @ RepositoryName ref @ ''/blobs/'' @ digest"
  have trim: "Trim CHR ''/'' ?path = ''v2/'' @ RepositoryName ref @ ''/blobs/'' @ digest"
    using Trim_blob [OF dne last, of "CHR ''v''" "''2/'' @ RepositoryName ref @ ''/blobs/''"] by simp
  have pne: "pre \<noteq> []" using repo by auto
  have "''v2/'' @ RepositoryName ref @ ''/blobs/'' @ digest = Join (''v2'' # pre @ [''blobs'', digest]) ''/''"
    using pne repo(1) Join_append [of "''v2'' # pre" "[''blobs'', digest]" "''/''"]
    by (cases pre) (simp_all)
  then have segs: "acr_segments (Trim CHR ''/'' ?path) = pre @ ''blobs'' # [digest]"
    unfolding trim acr_segments_def
    using Split_Join [of "''v2'' # pre @ [''blobs'', digest]" "CHR ''/''"] repo(4) assms(5) by (simp add: Let_def)
  have scan: "acr_scan 0 (pre @ ''blobs'' # [digest]) = (length pre, acrReferenceKindBlob)"
    using acr_scan_append [OF repo(3), of "''blobs''" acrReferenceKindBlob 0 "[digest]"]
    by (simp add: acr_keyword_def)
  have "u_Host (u\<lparr>u_Path := p, u_RawQuery := q, u_Fragment := f\<rparr>) = u_Host u" for p q f by simp
  then have host: "Hostname (u\<lparr>u_Path := p, u_RawQuery := q, u_Fragment := f\<rparr>) = Hostname u" for p q f
    unfolding Hostname_def by (simp only:)
  have "parseACRModuleReference (ae_parse env) blobURL = Inr \<lparr>RegistryName = RegistryName ref,
      RepositoryName = RepositoryName ref, Reference = digest, Kind = acrReferenceKindBlob\<rparr>"
    unfolding parseACRModuleReference_def assms(6) sum.case Let_def
    using h reg segs scan repo(1,2) host trim
    by (simp add: acrReferenceKindBlob_def acrReferenceKindRepository_def)
  then show ?thesis using d by simp
qed

definition acr_env_a :: "unit acr_env" where
  "acr_env_a = \<lparr>ae_parse = parse_acr, ae_url_string = u_Path, ae_new_request = (\<lambda>_. None),
     ae_decode_manifest = (\<lambda>_. Inr \<lparr>ma_MediaType = '''', ma_Layers = [\<lparr>la_MediaType = '''', la_Digest = ''sha256:ab'', la_Size = 2\<rparr>]\<rparr>),
     ae_decode_exchange = (\<lambda>_. Inl ''''), ae_decode_access = (\<lambda>_. Inl ''''), ae_form_encode = (\<lambda>_. ''''),
     ae_base64 = Inr, ae_decode_claims = Inr, ae_new_credential = (\<lambda>n. (None, n)), ae_get_token = (\<lambda>_ n. (Inr '''', n))\<rparr>"

definition ok_network :: "unit network" where
  "ok_network = \<lparr>net_do = (\<lambda>_ n. (Inr \<lparr>hp_StatusCode = 200, hp_Status = '''', hp_Body = ''''\<rparr>, n)),
     net_done = (\<lambda>_. False), net_sleep = (\<lambda>_ n. (None, n)), net_now = (\<lambda>_. 7)\<rparr>"

theorem acr_manifest_resolves_to_blob_witness:
  "resolveACRModuleURL acr_env_a ok_network ''/v2/m/manifests/v1'' ''t''
     \<lparr>RegistryName = ''r'', RepositoryName = ''m'', Reference = ''v1'', Kind = ''manifest''\<rparr> () =
     (Inr (''/v2/m/blobs/sha256:ab'', ''sha256:ab''), ()) \<and>
   parseACRModuleReference parse_acr ''/v2/m/blobs/sha256:ab'' =
     Inr \<lparr>RegistryName = ''r'', RepositoryName = ''m'', Reference = ''sha256:ab'', Kind = ''blob''\<rparr>"
proof -
  let ?ref = "\<lparr>RegistryName = ''r'', RepositoryName = ''m'', Reference = ''v1'', Kind = ''manifest''\<rparr>"
  have r: "resolveACRModuleURL acr_env_a ok_network ''/v2/m/manifests/v1'' ''t'' ?ref () =
     (Inr (''/v2/m/blobs/sha256:ab'', ''sha256:ab''), ())" by code_simp
  have p: "parseACRModuleReference (ae_parse acr_env_a) ''/v2/m/manifests/v1'' = Inr ?ref" by code_simp
  have k: "Kind ?ref = acrReferenceKindManifest" by (simp add: acrReferenceKindManifest_def)
  have env: "ae_parse acr_env_a = parse_acr" by (simp add: acr_env_a_def)
  show ?thesis
    using acr_manifest_resolves_to_blob [OF r k p] r
    by (simp add: env parse_acr_def acrReferenceKindBlob_def)
qed

end
