(* ===== verification/Master_Dispatcher.thy ===== *)
theory Master_Dispatcher
  imports Master_Scheduler Master_Acr Master_Tracker
begin

text \<open>
  \<open>src/internal/master/dispatcher.go\<close>: resolve the module, pick a worker, forward the request,
  and try another worker when the failure allows it.

  The retry loop ends only if every selected worker is one of the candidates, so it is a
  partial function: \<open>None\<close> means that it runs for ever. The \<open>Dispatcher\<close> record holds the
  arguments from outside: the network, the registry environment, the JSON codec of the worker protocol,
  \<open>http.NewRequest\<close>, and the error of building the mTLS client (none when a client is set).
\<close>

datatype dispatch_error =
    WorkerDispatchError (de_worker: string) (de_retryable: bool) (de_text: string)
  | PlainDispatchError (de_text: string)

record 'n Dispatcher =
  d_net :: "'n network"
  d_acr :: "'n acr_env"
  d_hav :: distance
  d_scheduler :: Scheduler
  d_marshal :: "ExecutionRequest \<Rightarrow> string go_result"
  d_decode :: "string \<Rightarrow> ExecutionResponse go_result"
  d_new_request :: "string \<Rightarrow> go_error"
  d_client_error :: go_error

record 'n dispatch_state =
  ds_tokens :: ACRTokenProvider
  ds_metrics :: "Metrics option"
  ds_net :: 'n

section \<open>Forwarding\<close>

definition isRetryableWorkerStatus :: "int \<Rightarrow> bool" where
  "isRetryableWorkerStatus statusCode \<longleftrightarrow> statusCode = 502 \<or> statusCode = 503 \<or> statusCode = 504"

fun isRetryableDispatchError :: "dispatch_error \<Rightarrow> bool" where
  "isRetryableDispatchError (WorkerDispatchError _ retryable _) = retryable"
| "isRetryableDispatchError (PlainDispatchError _) = False"

definition workerInvokeURL :: "string \<Rightarrow> string" where
  "workerInvokeURL address =
     (if HasPrefix address ''http://'' \<or> HasPrefix address ''https://''
      then TrimRight CHR ''/'' address @ ''/invoke''
      else ''https://'' @ TrimPrefix address ''https://'' @ ''/invoke'')"

definition removeWorkerCandidate :: "WorkerNode list \<Rightarrow> WorkerNode \<Rightarrow> WorkerNode list" where
  "removeWorkerCandidate ws selected =
     filter (\<lambda>worker. \<not> (wn_ID worker = wn_ID selected \<and> wn_IPAddress worker = wn_IPAddress selected)) ws"

definition invoke_call :: "string \<Rightarrow> string \<Rightarrow> http_call" where
  "invoke_call url data = \<lparr>hc_Method = ''POST'', hc_URL = url,
     hc_Headers = [(''Content-Type'', ''application/json'')], hc_Body = Replayable data\<rparr>"

definition worker_answer ::
  "'n Dispatcher \<Rightarrow> WorkerNode \<Rightarrow> ExecutionRequest \<Rightarrow> http_reply go_result \<Rightarrow> dispatch_error + ExecutionResponse" where
  "worker_answer d node req answer =
     (case answer of
        Inl err \<Rightarrow> Inl (WorkerDispatchError (wn_ID node) True err)
      | Inr resp \<Rightarrow>
          if hp_StatusCode resp < 200 \<or> hp_StatusCode resp \<ge> 300
          then Inl (WorkerDispatchError (wn_ID node) (isRetryableWorkerStatus (hp_StatusCode resp))
                 (''worker '' @ wn_ID node @ '' returned '' @ hp_Status resp @ '': '' @ TrimSpace (take 4096 (hp_Body resp))))
          else (case d_decode d (hp_Body resp) of
                  Inl err \<Rightarrow> Inl (PlainDispatchError (''decode worker response: '' @ err))
                | Inr execResp \<Rightarrow>
                    Inr (execResp\<lparr>resp_ExecutedOnNodeID := wn_ID node,
                           resp_RequestID := (if resp_RequestID execResp = '''' then req_RequestID req
                                              else resp_RequestID execResp)\<rparr>)))"

definition forwardToWorker ::
  "'n Dispatcher \<Rightarrow> WorkerNode \<Rightarrow> ExecutionRequest \<Rightarrow> 'n \<Rightarrow> (dispatch_error + ExecutionResponse) \<times> 'n" where
  "forwardToWorker d node req n =
     (case d_marshal d req of
        Inl err \<Rightarrow> (Inl (PlainDispatchError (''marshal worker request: '' @ err)), n)
      | Inr data \<Rightarrow>
          (let url = workerInvokeURL (wn_IPAddress node) in
           case d_client_error d of
             Some err \<Rightarrow> (Inl (PlainDispatchError err), n)
           | None \<Rightarrow>
               (case d_new_request d url of
                  Some err \<Rightarrow> (Inl (PlainDispatchError (''create worker request: '' @ err)), n)
                | None \<Rightarrow>
                    (case net_do (d_net d) (invoke_call url data) n of
                       (answer, n) \<Rightarrow> (worker_answer d node req answer, n)))))"

section \<open>Resolving the module\<close>

definition resolve_module ::
  "'n Dispatcher \<Rightarrow> ExecutionRequest \<Rightarrow> 'n dispatch_state \<Rightarrow> (dispatch_error + ExecutionRequest) \<times> 'n dispatch_state" where
  "resolve_module d req0 s =
     (let url = (if req_ModuleURL req0 = '''' then req_ModuleRegistryURL req0 else req_ModuleURL req0);
          req = req0\<lparr>req_ModuleURL := url, req_ModuleRegistryURL := url\<rparr>
      in if \<not> isACRURL (ae_parse (d_acr d)) url then (Inr req, s)
         else case parseACRModuleReference (ae_parse (d_acr d)) url of
           Inl err \<Rightarrow> (Inl (PlainDispatchError err), s)
         | Inr ref \<Rightarrow>
             (case GenerateACRToken (d_acr d) (d_net d) (RegistryName ref) (RepositoryName ref) (ds_tokens s, ds_net s) of
                (Inl err, tokens, n) \<Rightarrow> (Inl (PlainDispatchError err), s\<lparr>ds_tokens := tokens, ds_net := n\<rparr>)
              | (Inr token, tokens, n) \<Rightarrow>
                  (case resolveACRModuleURL (d_acr d) (d_net d) url token ref n of
                     (Inl err, n) \<Rightarrow> (Inl (PlainDispatchError err), s\<lparr>ds_tokens := tokens, ds_net := n\<rparr>)
                   | (Inr (resolvedURL, moduleDigest), n) \<Rightarrow>
                       (Inr (req\<lparr>req_JITBearerToken := token, req_ModuleURL := resolvedURL, req_ModuleDigest := moduleDigest\<rparr>),
                        s\<lparr>ds_tokens := tokens, ds_net := n\<rparr>))))"

section \<open>The loop over candidates\<close>

partial_function (option) dispatch_loop ::
  "'n Dispatcher \<Rightarrow> ExecutionRequest \<Rightarrow> WorkerNode list \<Rightarrow> dispatch_error option \<Rightarrow> 'n dispatch_state \<Rightarrow>
   ((dispatch_error + ExecutionResponse) \<times> 'n dispatch_state) option" where
  "dispatch_loop d req candidates lastErr s =
     (if candidates = []
      then Some (case lastErr of Some e \<Rightarrow> Inl e | None \<Rightarrow> Inr zero_ExecutionResponse,
                 s\<lparr>ds_metrics := IncDispatchRescheduleExhausted (ds_metrics s)\<rparr>)
      else case SelectWorker (d_hav d) (d_scheduler d) (req_UserLat req) (req_UserLon req) candidates of
        Inl err \<Rightarrow> Some (Inl (PlainDispatchError err), s)
      | Inr targetNode \<Rightarrow>
          (case forwardToWorker d targetNode req (ds_net s) of
             (Inr resp, n) \<Rightarrow> Some (Inr resp, s\<lparr>ds_net := n\<rparr>)
           | (Inl err, n) \<Rightarrow>
               if net_done (d_net d) n \<or> \<not> isRetryableDispatchError err then Some (Inl err, s\<lparr>ds_net := n\<rparr>)
               else if removeWorkerCandidate candidates targetNode = []
               then dispatch_loop d req [] (Some err) (s\<lparr>ds_net := n\<rparr>)
               else dispatch_loop d req (removeWorkerCandidate candidates targetNode) (Some err)
                      (s\<lparr>ds_net := n, ds_metrics := IncDispatchReschedule (ds_metrics s)\<rparr>)))"

definition Dispatch ::
  "'n Dispatcher \<Rightarrow> (string, WorkerNode) visit \<Rightarrow> Registry \<Rightarrow> ExecutionRequest \<Rightarrow> 'n dispatch_state \<Rightarrow>
   ((dispatch_error + ExecutionResponse) \<times> 'n dispatch_state) option" where
  "Dispatch d it registry req s =
     (case resolve_module d req s of
        (Inl err, s) \<Rightarrow> Some (Inl err, s)
      | (Inr req, s) \<Rightarrow>
          (let ws = GetSchedulableWorkers it registry in
           if ws = [] then Some (Inl (PlainDispatchError ''no schedulable workers available''), s)
           else dispatch_loop d req ws None s))"

section \<open>One exchange\<close>

lemma forwardToWorker_cases:
  assumes "forwardToWorker d node req n = (r, n')"
  obtains (unsent) t where "r = Inl (PlainDispatchError t)" "n' = n"
  | (sent) data ans where "net_do (d_net d) (invoke_call (workerInvokeURL (wn_IPAddress node)) data) n = (ans, n')"
      "r = worker_answer d node req ans"
  using assms by (auto simp: forwardToWorker_def Let_def split: sum.splits option.splits prod.splits)

text \<open>The answers after which another worker may be tried: the request may not have been run.\<close>

definition retryable_answer :: "http_reply go_result \<Rightarrow> bool" where
  "retryable_answer ans = (case ans of Inl _ \<Rightarrow> True | Inr resp \<Rightarrow> isRetryableWorkerStatus (hp_StatusCode resp))"

lemma worker_answer_retryable:
  "worker_answer d node req ans = Inl err \<Longrightarrow> isRetryableDispatchError err \<Longrightarrow> retryable_answer ans"
  by (auto simp: worker_answer_def retryable_answer_def split: sum.splits if_splits)

lemma worker_answer_Inr:
  assumes "worker_answer d node req ans = Inr resp"
  shows "resp_ExecutedOnNodeID resp = wn_ID node" "req_RequestID req \<noteq> '''' \<Longrightarrow> resp_RequestID resp \<noteq> ''''"
  using assms by (auto simp: worker_answer_def split: sum.splits if_splits)

section \<open>A dispatch ends, and tries each worker at most once\<close>

abbreviation reachable_worker :: "'n Dispatcher \<Rightarrow> ExecutionRequest \<Rightarrow> WorkerNode \<Rightarrow> bool" where
  "reachable_worker d req w \<equiv> flt_less (distance_to (d_hav d) (req_UserLat req) (req_UserLon req) w) MaxFloat64"

abbreviation worker_key :: "WorkerNode \<Rightarrow> string \<times> string" where
  "worker_key w \<equiv> (wn_ID w, wn_IPAddress w)"

abbreviation called :: "WorkerNode \<Rightarrow> http_call \<times> http_reply go_result \<Rightarrow> bool" where
  "called w ex \<equiv> hc_URL (fst ex) = workerInvokeURL (wn_IPAddress w)"

text \<open>
  \<open>failover d req ws res new\<close>: the exchanges \<open>new\<close> (newest first) were made with different eligible
  workers of \<open>ws\<close>, all but the last with an answer that allows another try, and a result names
  the worker called last.
\<close>

definition failover ::
  "'n Dispatcher \<Rightarrow> ExecutionRequest \<Rightarrow> WorkerNode list \<Rightarrow> (dispatch_error + ExecutionResponse) \<Rightarrow>
   (http_call \<times> http_reply go_result) list \<Rightarrow> bool" where
  "failover d req ws res new \<longleftrightarrow>
     (\<exists>tried. list_all2 called tried new \<and> distinct (map worker_key tried) \<and> set tried \<subseteq> set ws \<and>
        (\<forall>w \<in> set tried. eligible_worker (d_scheduler d) w) \<and>
        (\<forall>ex \<in> set (tl new). retryable_answer (snd ex)) \<and>
        (\<forall>resp. res = Inr resp \<longrightarrow> tried \<noteq> [] \<and> resp_ExecutedOnNodeID resp = wn_ID (hd tried) \<and>
           (req_RequestID req \<noteq> '''' \<longrightarrow> resp_RequestID resp \<noteq> '''')))"

lemma failover_unsent: "failover d req ws (Inl e) []"
  by (auto simp: failover_def intro!: exI [of _ "[]"])

lemma failover_first:
  assumes "called w ex" "w \<in> set ws" "eligible_worker (d_scheduler d) w" "res = worker_answer d w req ans"
  shows "failover d req ws res [ex]"
  using assms by (auto simp: failover_def worker_answer_Inr intro!: exI [of _ "[w]"])

lemma failover_next:
  assumes "failover d req (removeWorkerCandidate ws w) res new" "called w ex" "w \<in> set ws"
    and "eligible_worker (d_scheduler d) w" "retryable_answer (snd ex)" "new = [] \<Longrightarrow> isl res"
  shows "failover d req ws res (new @ [ex])"
proof -
  obtain tried where t: "list_all2 called tried new" "distinct (map worker_key tried)"
      "set tried \<subseteq> set (removeWorkerCandidate ws w)" "\<forall>w \<in> set tried. eligible_worker (d_scheduler d) w"
      "\<forall>ex \<in> set (tl new). retryable_answer (snd ex)"
      "\<forall>resp. res = Inr resp \<longrightarrow> tried \<noteq> [] \<and> resp_ExecutedOnNodeID resp = wn_ID (hd tried) \<and>
           (req_RequestID req \<noteq> '''' \<longrightarrow> resp_RequestID resp \<noteq> '''')"
    using assms(1) unfolding failover_def by blast
  have "worker_key w \<notin> worker_key ` set tried" using t(3) by (auto simp: removeWorkerCandidate_def)
  moreover have "set tried \<subseteq> set ws" using t(3) by (auto simp: removeWorkerCandidate_def)
  moreover have "list_all2 called (tried @ [w]) (new @ [ex])" using t(1) assms(2) by (simp add: list_all2_appendI)
  moreover have "\<forall>x \<in> set (tl (new @ [ex])). retryable_answer (snd x)"
    using t(5) assms(5) by (cases new) auto
  ultimately show ?thesis
    unfolding failover_def using t assms(3,4) by (intro exI [of _ "tried @ [w]"]) (auto simp: hd_append)
qed

lemma dispatch_loop_empty:
  "dispatch_loop d req [] (Some e) s = Some (Inl e, s\<lparr>ds_metrics := IncDispatchRescheduleExhausted (ds_metrics s)\<rparr>)"
  by (simp add: dispatch_loop.simps)

text \<open>
  One round of the loop: it ends the dispatch with at most one exchange, or it calls a worker
  that gives a retryable answer and goes on with the other candidates.
\<close>

lemma dispatch_round:
  assumes "records (d_net d) h" "\<forall>w \<in> set ws. reachable_worker d req w" "ws \<noteq> []"
  obtains (ends) res s' new where "dispatch_loop d req ws e s = Some (res, s')" "h (ds_net s') = new @ h (ds_net s)"
      "failover d req ws res new" "new = [] \<longrightarrow> isl res"
  | (goes_on) w ex err s1 where "dispatch_loop d req ws e s = dispatch_loop d req (removeWorkerCandidate ws w) (Some err) s1"
      "h (ds_net s1) = ex # h (ds_net s)" "called w ex" "w \<in> set ws" "eligible_worker (d_scheduler d) w"
      "retryable_answer (snd ex)"
proof (cases "SelectWorker (d_hav d) (d_scheduler d) (req_UserLat req) (req_UserLon req) ws")
  case (Inl err)
  show ?thesis
    by (rule ends [of "Inl (PlainDispatchError err)" s "[]"])
      (use assms(3) Inl in \<open>simp_all add: dispatch_loop.simps failover_unsent\<close>)
next
  case (Inr w)
  have w: "w \<in> set ws" by (rule nearest.select_member [OF assms(2) Inr])
  have el: "eligible_worker (d_scheduler d) w" by (rule SelectWorker_member(2) [OF Inr assms(2)])
  obtain r n' where f: "forwardToWorker d w req (ds_net s) = (r, n')" by force
  show ?thesis
    using f
  proof (cases rule: forwardToWorker_cases)
    case (unsent t)
    show ?thesis
      by (rule ends [of "Inl (PlainDispatchError t)" "s\<lparr>ds_net := n'\<rparr>" "[]"])
        (use assms(3) Inr f unsent in \<open>simp_all add: dispatch_loop.simps failover_unsent\<close>)
  next
    case (sent data ans)
    let ?ex = "(invoke_call (workerInvokeURL (wn_IPAddress w)) data, ans)"
    have h: "h n' = ?ex # h (ds_net s)"
      using assms(1) sent(1) unfolding records_def by (metis fst_conv snd_conv)
    have c: "called w ?ex" by (simp add: invoke_call_def)
    show ?thesis
    proof (cases "\<exists>err. r = Inl err \<and> \<not> net_done (d_net d) n' \<and> isRetryableDispatchError err")
      case False
      then have "dispatch_loop d req ws e s = Some (r, s\<lparr>ds_net := n'\<rparr>)"
        using assms(3) Inr f by (cases r) (auto simp: dispatch_loop.simps)
      then show ?thesis by (rule ends [of _ _ "[?ex]"]) (use h failover_first [OF c w el sent(2)] in simp_all)
    next
      case True
      then obtain err where err: "r = Inl err" "\<not> net_done (d_net d) n'" "isRetryableDispatchError err" by blast
      have ra: "retryable_answer (snd ?ex)" using worker_answer_retryable err sent(2) by auto
      obtain s1 where "ds_net s1 = n'"
          "dispatch_loop d req ws e s = dispatch_loop d req (removeWorkerCandidate ws w) (Some err) s1"
        using assms(3) Inr f err that [of "s\<lparr>ds_net := n'\<rparr>"]
          that [of "s\<lparr>ds_net := n', ds_metrics := IncDispatchReschedule (ds_metrics s)\<rparr>"]
        by (cases "removeWorkerCandidate ws w = []") (simp_all add: dispatch_loop.simps [of d req ws])
      then show ?thesis using goes_on h c w el ra by auto
    qed
  qed
qed

lemma remove_shrinks:
  assumes "w \<in> set ws"
  shows "length (removeWorkerCandidate ws w) < length ws" "set (removeWorkerCandidate ws w) \<subseteq> set ws"
  using assms by (auto simp: removeWorkerCandidate_def intro: length_filter_less)

lemma dispatch_loop_returns:
  assumes "records (d_net d) h" "\<forall>w \<in> set ws. reachable_worker d req w" "ws \<noteq> [] \<or> e \<noteq> None"
  shows "\<exists>res s' new. dispatch_loop d req ws e s = Some (res, s') \<and>
    h (ds_net s') = new @ h (ds_net s) \<and> failover d req ws res new \<and> (new = [] \<longrightarrow> isl res)"
  using assms(2,3)
proof (induction "length ws" arbitrary: ws e s rule: less_induct)
  case less
  show ?case
  proof (cases "ws = []")
    case True
    then obtain e' where "e = Some e'" using less.prems(2) by auto
    then show ?thesis using True failover_unsent by (auto simp: dispatch_loop_empty intro!: exI [of _ "[]"])
  next
    case False
    show ?thesis
    proof (rule dispatch_round [OF assms(1) less.prems(1) False])
      fix w ex err s1
      let ?rest = "removeWorkerCandidate ws w"
      assume r: "dispatch_loop d req ws e s = dispatch_loop d req ?rest (Some err) s1" "h (ds_net s1) = ex # h (ds_net s)"
        "called w ex" "w \<in> set ws" "eligible_worker (d_scheduler d) w" "retryable_answer (snd ex)"
      obtain res s' new where "dispatch_loop d req ?rest (Some err) s1 = Some (res, s')"
          "h (ds_net s') = new @ h (ds_net s1)" "failover d req ?rest res new" "new = [] \<longrightarrow> isl res"
        using less.hyps [of ?rest "Some err" s1] remove_shrinks [OF r(4)] less.prems(1) by blast
      then show ?thesis
        using r failover_next [OF _ r(3-6), of req res new] by (auto intro!: exI [of _ "new @ [ex]"])
    qed blast
  qed
qed

text \<open>
  (C3) A dispatch always ends when the distances to the schedulable workers are ordinary
  numbers. It calls eligible workers only, each at most once; it goes on to another worker only
  after a transport error or a 502, 503 or 504, so at most one worker gave any other answer; and a
  response names the worker that was called last. (The history counts the exchanges after the module has
  been resolved.)
\<close>

theorem dispatch_failover:
  assumes "records (d_net d) h"
    and "\<forall>w \<in> set (GetSchedulableWorkers it registry). reachable_worker d req w"
    and "resolve_module d req s = (Inr req1, s1)" "GetSchedulableWorkers it registry \<noteq> []"
  shows "\<exists>res s' new. Dispatch d it registry req s = Some (res, s') \<and> h (ds_net s') = new @ h (ds_net s1) \<and>
    failover d req1 (GetSchedulableWorkers it registry) res new"
proof -
  have "req_UserLat req1 = req_UserLat req" "req_UserLon req1 = req_UserLon req"
    using assms(3) by (auto simp: resolve_module_def Let_def split: if_splits sum.splits prod.splits)
  then have "\<forall>w \<in> set (GetSchedulableWorkers it registry). reachable_worker d req1 w" using assms(2) by simp
  from dispatch_loop_returns [OF assms(1) this, of None s1] assms(3,4) show ?thesis
    by (auto simp: Dispatch_def)
qed

type_synonym history = "(http_call \<times> http_reply go_result) list"

definition answering :: "http_reply go_result \<Rightarrow> history network" where
  "answering a = \<lparr>net_do = (\<lambda>call n. (a, (call, a) # n)), net_done = (\<lambda>_. False), net_sleep = (\<lambda>_ n. (None, n)),
     net_now = (\<lambda>_. 7)\<rparr>"

definition no_acr :: "'n acr_env" where
  "no_acr = \<lparr>ae_parse = (\<lambda>s. Inr \<lparr>u_Scheme = ''https'', u_Host = ''h'', u_Path = s, u_RawQuery = '''', u_Fragment = '''', u_Rest = ''''\<rparr>),
     ae_url_string = u_Path, ae_new_request = (\<lambda>_. None), ae_decode_manifest = (\<lambda>_. Inl ''''),
     ae_decode_exchange = (\<lambda>_. Inl ''''), ae_decode_access = (\<lambda>_. Inl ''''), ae_form_encode = (\<lambda>_. ''''),
     ae_base64 = Inr, ae_decode_claims = Inr, ae_new_credential = (\<lambda>n. (None, n)), ae_get_token = (\<lambda>_ n. (Inr '''', n))\<rparr>"

definition dispatcher_a :: "distance \<Rightarrow> http_reply go_result \<Rightarrow> history Dispatcher" where
  "dispatcher_a hav a = \<lparr>d_net = answering a, d_acr = no_acr, d_hav = hav,
     d_scheduler = \<lparr>MinCPUFree = Fin 0, MinRAMFreeMB = Fin 0\<rparr>, d_marshal = (\<lambda>r. Inr (req_Payload r)),
     d_decode = (\<lambda>_. Inr zero_ExecutionResponse), d_new_request = (\<lambda>_. None), d_client_error = None\<rparr>"

definition dispatch_state_a :: "history dispatch_state" where
  "dispatch_state_a = \<lparr>ds_tokens = [], ds_metrics = None, ds_net = []\<rparr>"

lemma dispatcher_a_records: "records (d_net (dispatcher_a hav a)) id"
  by (simp add: records_def dispatcher_a_def answering_def)

lemma no_acr_url: "\<not> isACRURL (ae_parse no_acr) url"
proof -
  have "Hostname \<lparr>u_Scheme = ''https'', u_Host = ''h'', u_Path = url, u_RawQuery = '''', u_Fragment = '''', u_Rest = ''''\<rparr> = ''h''"
    by (simp add: Hostname_def)
  then show ?thesis by (simp add: isACRURL_def no_acr_def HasSuffix_def HasPrefix_def)
qed

lemma dispatcher_a_resolve:
  "resolve_module (dispatcher_a hav a) request_a s = (Inr request_a, s)"
proof -
  have "d_acr (dispatcher_a hav a) = no_acr" by (simp add: dispatcher_a_def)
  then show ?thesis unfolding resolve_module_def Let_def by (simp add: no_acr_url) (simp add: request_a_def)
qed

lemma schedulable_a: "GetSchedulableWorkers id registry_a = [node_a\<lparr>wn_LastSeen := 5, wn_State := ''ready''\<rparr>]"
  by (simp add: GetSchedulableWorkers_def registry_a_def RegisterWorker_def NewRegistry_def
      NewRegistryWithStaleTimeout_def node_a_def zero_WorkerNode_def WorkerStateReady_def Let_def)

theorem dispatch_failover_witness:
  "\<exists>res s' new. Dispatch (dispatcher_a (\<lambda>_ _ _ _. Fin 1) (Inr \<lparr>hp_StatusCode = 200, hp_Status = '''', hp_Body = ''''\<rparr>)) id
      registry_a request_a dispatch_state_a = Some (res, s') \<and> ds_net s' = new @ [] \<and> length new \<le> 1"
proof -
  let ?d = "dispatcher_a (\<lambda>_ _ _ _. Fin 1) (Inr \<lparr>hp_StatusCode = 200, hp_Status = '''', hp_Body = ''''\<rparr>)"
  have "\<forall>w \<in> set (GetSchedulableWorkers id registry_a). reachable_worker ?d request_a w"
    by (simp add: dispatcher_a_def MaxFloat64_def)
  from dispatch_failover [OF dispatcher_a_records this dispatcher_a_resolve, of dispatch_state_a] schedulable_a
  obtain res s' new where r: "Dispatch ?d id registry_a request_a dispatch_state_a = Some (res, s')"
    "ds_net s' = new @ ds_net dispatch_state_a" "failover ?d request_a (GetSchedulableWorkers id registry_a) res new"
    by auto
  then obtain tried where t: "list_all2 called tried new" "distinct (map worker_key tried)"
      "set tried \<subseteq> {node_a\<lparr>wn_LastSeen := 5, wn_State := ''ready''\<rparr>}"
    by (auto simp: failover_def schedulable_a)
  then have "length tried \<le> 1" by (cases tried rule: list.exhaust; cases "tl tried") auto
  then have "length new \<le> 1" using t(1) list_all2_lengthD by fastforce
  then show ?thesis using r by (auto simp: dispatch_state_a_def)
qed

section \<open>A dispatch that never ends\<close>

text \<open>
  A selection that returns the zero node removes no candidate: with at least one eligible worker, unless
  a candidate has the empty id and address, nothing changes from one round to the next.
\<close>

lemma dispatch_loop_spins:
  assumes "dispatch_loop d req ws e s = Some y"
  shows "\<not> (ws \<noteq> [] \<and> SelectWorker (d_hav d) (d_scheduler d) (req_UserLat req) (req_UserLon req) ws = Inr zero_WorkerNode \<and>
    removeWorkerCandidate ws zero_WorkerNode = ws \<and>
    (\<forall>n. \<exists>err n'. forwardToWorker d zero_WorkerNode req n = (Inl err, n') \<and> isRetryableDispatchError err \<and>
       \<not> net_done (d_net d) n'))"
proof (rule dispatch_loop.raw_induct [OF _ assms], goal_cases)
  case (1 loop d req ws e s y)
  show ?case
  proof
    assume a: "ws \<noteq> [] \<and> SelectWorker (d_hav d) (d_scheduler d) (req_UserLat req) (req_UserLon req) ws = Inr zero_WorkerNode \<and>
      removeWorkerCandidate ws zero_WorkerNode = ws \<and>
      (\<forall>n. \<exists>err n'. forwardToWorker d zero_WorkerNode req n = (Inl err, n') \<and> isRetryableDispatchError err \<and>
         \<not> net_done (d_net d) n')"
    then obtain err n' where f: "forwardToWorker d zero_WorkerNode req (ds_net s) = (Inl err, n')"
      "isRetryableDispatchError err" "\<not> net_done (d_net d) n'" by blast
    have "loop d req ws (Some err) (s\<lparr>ds_net := n', ds_metrics := IncDispatchReschedule (ds_metrics s)\<rparr>) = Some y"
      using 1(2) a f by simp
    from 1(1) [OF this] a show False by blast
  qed
qed

text \<open>
  A dispatch can run for ever. When no distance compares as a number (a latitude
  or longitude that is NaN), an eligible worker exists, and every call fails in transport while the
  request's context stays alive, the loop keeps selecting the node without an address and its
  candidate list never shrinks. A candidate always has a non-empty id, so the zero node is none of them.
\<close>

theorem dispatch_never_returns:
  assumes "\<forall>w \<in> set ws. \<not> flt_less (distance_to (d_hav d) (req_UserLat req) (req_UserLon req) w) MaxFloat64"
    and "\<exists>w \<in> set ws. eligible_worker (d_scheduler d) w" "\<forall>w \<in> set ws. wn_ID w \<noteq> ''''"
    and "\<forall>n. \<exists>err n'. forwardToWorker d zero_WorkerNode req n = (Inl err, n') \<and> isRetryableDispatchError err \<and>
       \<not> net_done (d_net d) n'"
  shows "dispatch_loop d req ws e s = None"
proof (rule ccontr)
  assume "dispatch_loop d req ws e s \<noteq> None"
  then obtain y where y: "dispatch_loop d req ws e s = Some y" by blast
  have "SelectWorker (d_hav d) (d_scheduler d) (req_UserLat req) (req_UserLon req) ws = Inr zero_WorkerNode"
    using assms(1,2) by (simp add: SelectWorker_alt FindClosestWorker_def closest_loop_blind filter_empty_conv)
  moreover have "removeWorkerCandidate ws zero_WorkerNode = ws"
    using assms(3) by (simp add: removeWorkerCandidate_def zero_WorkerNode_def filter_id_conv)
  moreover have "ws \<noteq> []" using assms(2) by auto
  ultimately show False using dispatch_loop_spins [OF y] assms(4) by blast
qed

theorem dispatch_never_returns_witness:
  "dispatch_loop (dispatcher_a exact_haversine (Inl ''refused'')) (request_a\<lparr>req_UserLat := NaN\<rparr>) [node_a] None dispatch_state_a = None"
  by (rule dispatch_never_returns)
    (simp_all add: eligible_worker_def node_a_def zero_WorkerNode_def WorkerStateDraining_def dispatcher_a_def request_a_def
      forwardToWorker_def answering_def worker_answer_def)

section \<open>What happens to the digest\<close>

text \<open>
  For a module in an Azure registry that is referenced neither by manifest nor by blob, the digest of the
  request is replaced by the text after the keyword, and by nothing when the URL names only a
  repository: a digest the client pinned does not reach the worker.
\<close>

theorem acr_dispatch_drops_digest:
  assumes "resolve_module d req s = (Inr req1, s1)"
    and "url = (if req_ModuleURL req = '''' then req_ModuleRegistryURL req else req_ModuleURL req)"
    and "isACRURL (ae_parse (d_acr d)) url" "parseACRModuleReference (ae_parse (d_acr d)) url = Inr ref"
    and "Kind ref \<noteq> acrReferenceKindManifest"
  shows "req_ModuleDigest req1 = Reference ref \<and> (Kind ref = acrReferenceKindRepository \<longrightarrow> req_ModuleDigest req1 = '''')"
proof -
  have "req_ModuleDigest req1 = Reference ref"
    using assms by (auto simp: resolve_module_def Let_def resolveACRModuleURL_def split: prod.splits sum.splits if_splits)
  moreover have "Reference ref = ''''" if "Kind ref = acrReferenceKindRepository"
    using parseACR_cases [OF assms(4)] that by metis
  ultimately show ?thesis by simp
qed

definition acr_dispatcher :: "unit Dispatcher" where
  "acr_dispatcher = \<lparr>d_net = ok_network,
     d_acr = acr_env_a\<lparr>ae_decode_exchange := (\<lambda>_. Inr ''x''), ae_decode_access := (\<lambda>_. Inr (''t'', 60)),
       ae_get_token := (\<lambda>_ n. (Inr ''h.p.s'', n))\<rparr>,
     d_hav = (\<lambda>_ _ _ _. Fin 1), d_scheduler = \<lparr>MinCPUFree = Fin 0, MinRAMFreeMB = Fin 0\<rparr>,
     d_marshal = (\<lambda>r. Inr (req_Payload r)), d_decode = (\<lambda>_. Inr zero_ExecutionResponse),
     d_new_request = (\<lambda>_. None), d_client_error = None\<rparr>"

theorem acr_dispatch_drops_digest_witness:
  "\<exists>req1 s1. resolve_module acr_dispatcher
      (request_a\<lparr>req_ModuleURL := ''/v2/team/api'', req_ModuleDigest := ''sha256:aa''\<rparr>)
      \<lparr>ds_tokens = [], ds_metrics = None, ds_net = ()\<rparr> = (Inr req1, s1) \<and> req_ModuleDigest req1 = ''''"
proof -
  let ?req = "request_a\<lparr>req_ModuleURL := ''/v2/team/api'', req_ModuleDigest := ''sha256:aa''\<rparr>"
  let ?s = "\<lparr>ds_tokens = [], ds_metrics = None, ds_net = ()\<rparr>"
  let ?ref = "\<lparr>RegistryName = ''r'', RepositoryName = ''team/api'', Reference = '''', Kind = ''repository''\<rparr>"
  have parse: "ae_parse (d_acr acr_dispatcher) = parse_acr" by (simp add: acr_dispatcher_def acr_env_a_def)
  have ref: "parseACRModuleReference (ae_parse (d_acr acr_dispatcher)) ''/v2/team/api'' = Inr ?ref"
    unfolding parse by code_simp
  have acr: "isACRURL (ae_parse (d_acr acr_dispatcher)) ''/v2/team/api''" unfolding parse by code_simp
  have "isl (fst (resolve_module acr_dispatcher ?req ?s)) = False" by code_simp
  then obtain req1 s1 where r: "resolve_module acr_dispatcher ?req ?s = (Inr req1, s1)"
    by (cases "resolve_module acr_dispatcher ?req ?s"; cases "fst (resolve_module acr_dispatcher ?req ?s)") auto
  have "req_ModuleDigest req1 = ''''"
    using acr_dispatch_drops_digest [OF r refl _ _, of ?ref] ref acr
    by (simp add: acrReferenceKindManifest_def acrReferenceKindRepository_def)
  then show ?thesis using r by blast
qed

end
