(* ===== verification/Master_Recovery.thy ===== *)
theory Master_Recovery
  imports Master_Jobs "HOL-Library.Sublist"
begin

text \<open>
  \<open>src/internal/master/job_recovery.go\<close>: the background loop that picks up jobs a crash or a failure
  left behind.

  \<open>Dispatch\<close> is a function field of the struct, so it is an argument here; it acts on a world
  \<open>'w\<close>, which also has the clock. \<open>format_time\<close> is \<open>Format(time.RFC3339Nano)\<close>. The theorems here are about one
  run; \<open>Start\<close>, the loop over the runs, is in \<open>Master_Recovery_Loop\<close>.
\<close>

definition DefaultJobRecoveryInterval :: duration where "DefaultJobRecoveryInterval = 5 * Second"
definition DefaultJobRecoveryBatchSize :: int where "DefaultJobRecoveryBatchSize = 32"

record 'w JobRecovery =
  r_env :: store_env
  r_dispatch :: "ExecutionRequest \<Rightarrow> 'w \<Rightarrow> ExecutionResponse go_result \<times> 'w"
  r_clock :: "'w \<Rightarrow> time"
  r_format :: "time \<Rightarrow> string"
  r_interval :: duration
  r_batchSize :: int
  r_leaseTTL :: duration

record 'w recovery_state =
  rs_db :: job_db
  rs_metrics :: "Metrics option"
  rs_world :: 'w

definition interval :: "'w JobRecovery \<Rightarrow> duration" where
  "interval r = (if r_interval r > 0 then r_interval r else DefaultJobRecoveryInterval)"

definition batchSize :: "'w JobRecovery \<Rightarrow> int" where
  "batchSize r = (if r_batchSize r > 0 then r_batchSize r else DefaultJobRecoveryBatchSize)"

definition leaseTTL :: "'w JobRecovery \<Rightarrow> duration" where
  "leaseTTL r = (if r_leaseTTL r > 0 then r_leaseTTL r else DefaultJobLeaseTTL)"

text \<open>\<open>metrics()\<close> creates the counters when there are none.\<close>

definition recovery_metrics :: "time \<Rightarrow> Metrics option \<Rightarrow> Metrics option" where
  "recovery_metrics now m = (case m of None \<Rightarrow> Some (NewMetrics now) | Some _ \<Rightarrow> m)"

definition recoverQueuedJob ::
  "'w JobRecovery \<Rightarrow> JobRecord \<Rightarrow> time \<Rightarrow> 'w recovery_state \<Rightarrow> job_error option \<times> 'w recovery_state" where
  "recoverQueuedJob r job now s =
     (case MarkDispatching (r_clock r (rs_world s)) (job_RequestID job) '''' (now + leaseTTL r) (rs_db s) of
        (Some err, db) \<Rightarrow> (Some err, s\<lparr>rs_db := db\<rparr>)
      | (None, db) \<Rightarrow>
          (case r_dispatch r (job_Request job) (rs_world s) of
             (Inr response, w) \<Rightarrow>
               (let m = IncDispatchSuccess (recovery_metrics (r_clock r w) (rs_metrics s)) in
                case MarkSucceeded (r_env r) (r_clock r w) (job_RequestID job) response db of
                  (e, db) \<Rightarrow> (e, s\<lparr>rs_db := db, rs_metrics := m, rs_world := w\<rparr>))
           | (Inl reason, w) \<Rightarrow>
               if job_MaxAttempts job > 0 \<and> job_Attempt job + 1 \<ge> job_MaxAttempts job
               then (let m = IncDispatchFailure (recovery_metrics (r_clock r w) (rs_metrics s)) in
                     case MarkFailed (r_clock r w) (job_RequestID job) reason db of
                       (e, db) \<Rightarrow> (e, s\<lparr>rs_db := db, rs_metrics := m, rs_world := w\<rparr>))
               else (case MarkQueued (r_clock r w) (job_RequestID job) reason db of
                       (e, db) \<Rightarrow> (e, s\<lparr>rs_db := db, rs_world := w\<rparr>))))"

definition recoverJob ::
  "'w JobRecovery \<Rightarrow> JobRecord \<Rightarrow> time \<Rightarrow> 'w recovery_state \<Rightarrow> job_error option \<times> 'w recovery_state" where
  "recoverJob r job now s =
     (if job_Status job = JobQueued then recoverQueuedJob r job now s
      else if job_Status job = JobDispatching \<or> job_Status job = JobRunning then
        (if IsZero (job_LeaseUntil job) \<or> job_LeaseUntil job > now then (None, s)
         else (case MarkAmbiguous (r_clock r (rs_world s)) (job_RequestID job)
                      (''job lease expired at '' @ r_format r (job_LeaseUntil job)) (rs_db s) of
                 (e, db) \<Rightarrow> (e, s\<lparr>rs_db := db\<rparr>)))
      else (None, s))"

text \<open>The error of one job is logged and the loop goes on.\<close>

definition recover_jobs :: "'w JobRecovery \<Rightarrow> time \<Rightarrow> JobRecord list \<Rightarrow> 'w recovery_state \<Rightarrow> 'w recovery_state" where
  "recover_jobs r now jobs s = fold (\<lambda>job s. snd (recoverJob r job now s)) jobs s"

definition RecoverOnce :: "'w JobRecovery \<Rightarrow> 'w recovery_state \<Rightarrow> job_error option \<times> 'w recovery_state" where
  "RecoverOnce r s =
     (let now = r_clock r (rs_world s) in
      case ListRecoverable (r_env r) now (batchSize r) (rs_db s) of
        (Inl err, db) \<Rightarrow> (Some err, s\<lparr>rs_db := db\<rparr>)
      | (Inr jobs, db) \<Rightarrow> (None, recover_jobs r now jobs (s\<lparr>rs_db := db\<rparr>)))"

section \<open>What one run may do to a job\<close>

definition same_job :: "job_row \<Rightarrow> job_row \<Rightarrow> bool" where
  "same_job r r' \<longleftrightarrow> jb_request_id r' = jb_request_id r \<and> jb_fingerprint r' = jb_fingerprint r \<and>
     jb_request_json r' = jb_request_json r \<and> jb_max_attempts r' = jb_max_attempts r"

definition recovery_step :: "time \<Rightarrow> job_row \<Rightarrow> job_row \<Rightarrow> bool" where
  "recovery_step now r r' \<longleftrightarrow> same_job r r' \<and>
     (jb_response_json r' = jb_response_json r \<or> jb_status r' = JobSucceeded) \<and>
     (jb_status r' = JobDispatching \<longrightarrow> r' = r \<or> (\<exists>ttl > 0. jb_lease_until r' = unixMilli (now + ttl))) \<and>
     (r' = r \<or>
      jb_status r = JobQueued \<and> jb_attempt r' = jb_attempt r + 1 \<and>
        (jb_status r' = JobDispatching \<or> jb_status r' = JobSucceeded \<or>
         jb_status r' = JobFailed \<and> jb_attempt r' \<ge> jb_max_attempts r \<or>
         jb_status r' = JobQueued \<and> \<not> (jb_max_attempts r > 0 \<and> jb_attempt r' \<ge> jb_max_attempts r)) \<or>
      (jb_status r = JobDispatching \<or> jb_status r = JobRunning) \<and> jb_lease_until r \<noteq> 0 \<and>
        timeFromUnixMilli (jb_lease_until r) \<le> now \<and> jb_status r' = JobAmbiguous \<and> jb_attempt r' = jb_attempt r)"

lemma leaseTTL_pos: "0 < leaseTTL r"
  by (simp add: leaseTTL_def DefaultJobLeaseTTL_def)

lemma recovery_step_refl [simp]: "recovery_step now r r"
  by (simp add: recovery_step_def same_job_def)

lemmas row_sets = set_queued_def set_dispatching_def set_succeeded_def set_failed_def set_ambiguous_def

text \<open>Two updates of the same job, each of which may be lost.\<close>

lemma two_updates:
  assumes "row_update db_wf find_row op1 k f" "row_update db_wf find_row op2 k g" "db_wf db" "find_row db k = Some r"
    and "op1 db = (e1, db1)" "op2 db1 = (e2, db2)" "e1 = None"
  shows "db_wf db2 \<and> (find_row db2 = (find_row db)(k \<mapsto> f r) \<or> find_row db2 = (find_row db)(k \<mapsto> g (f r)))"
proof -
  have 1: "db_wf db1" "find_row db1 = (find_row db)(k \<mapsto> f r)"
    using row_update.op_wf [OF assms(1,3)] row_update.op_ok [OF assms(1,3)] assms(4,5,7) by auto
  have "db_wf db2" using row_update.op_wf [OF assms(2) 1(1)] assms(6) by simp
  then show ?thesis using row_update.op_any [OF assms(2) 1(1)] assms(6) 1(2) by auto
qed

lemma one_update:
  assumes "row_update db_wf find_row op k f" "db_wf db" "find_row db k = Some r" "op db = (e, db1)"
  shows "db_wf db1 \<and> (find_row db1 = find_row db \<or> find_row db1 = (find_row db)(k \<mapsto> f r))"
  using row_update.op_wf [OF assms(1,2)] row_update.op_any [OF assms(1,2)] assms(3,4) by auto

abbreviation moves :: "time \<Rightarrow> string \<Rightarrow> job_row \<Rightarrow> job_db \<Rightarrow> job_db \<Rightarrow> bool" where
  "moves now k r db db' \<equiv> db_wf db' \<and> (\<exists>r'. recovery_step now r r' \<and> find_row db' = (find_row db)(k \<mapsto> r'))"

lemma moves_refl: "db_wf db \<Longrightarrow> find_row db k = Some r \<Longrightarrow> moves now k r db db"
  by (auto intro!: exI [of _ r])

lemma moves_either:
  assumes "db_wf db'" "find_row db' = (find_row db)(k \<mapsto> a) \<or> find_row db' = (find_row db)(k \<mapsto> b)"
    and "recovery_step now r a" "recovery_step now r b"
  shows "moves now k r db db'"
  using assms by blast

lemma recoverQueuedJob_moves:
  assumes "db_wf (rs_db s)" "find_row (rs_db s) (job_RequestID job) = Some row" "jb_status row = JobQueued"
    and "job_Attempt job = jb_attempt row" "job_MaxAttempts job = jb_max_attempts row"
    and "recoverQueuedJob r job now s = (e, s')"
  shows "moves now (job_RequestID job) row (rs_db s) (rs_db s')"
proof -
  let ?k = "job_RequestID job" and ?t0 = "r_clock r (rs_world s)" and ?l = "now + leaseTTL r"
  let ?f = "set_dispatching ?t0 '''' ?l"
  obtain e1 db1 where d: "MarkDispatching ?t0 ?k '''' ?l (rs_db s) = (e1, db1)" by force
  have f: "recovery_step now row (?f row)"
    using assms(3) leaseTTL_pos [of r] by (auto simp: recovery_step_def same_job_def row_sets)
  show ?thesis
  proof (cases e1)
    case (Some err)
    then have "rs_db s' = db1" using assms(6) d by (auto simp: recoverQueuedJob_def)
    then show ?thesis
      using one_update [OF dispatching.row_update_axioms assms(1,2) d] f
        moves_refl [OF assms(1,2), of now] recovery_step_refl by (metis fun_upd_triv assms(2))
  next
    case None
    note two = two_updates [OF dispatching.row_update_axioms _ assms(1,2) d]
    obtain a w where w: "r_dispatch r (job_Request job) (rs_world s) = (a, w)" by force
    let ?t = "r_clock r w"
    show ?thesis
    proof (cases a)
      case (Inr resp)
      obtain e2 db2 where m: "MarkSucceeded (r_env r) ?t ?k resp db1 = (e2, db2)" by force
      have "rs_db s' = db2" using assms(6) d None w Inr m by (auto simp: recoverQueuedJob_def)
      moreover have "recovery_step now row (set_succeeded ?t j (?f row))" for j
        using assms(3) by (simp add: recovery_step_def same_job_def row_sets job_statuses)
      ultimately show ?thesis using moves_either [OF _ _ f] two [OF succeeded.row_update_axioms m None] by blast
    next
      case (Inl reason)
      show ?thesis
      proof (cases "job_MaxAttempts job > 0 \<and> job_Attempt job + 1 \<ge> job_MaxAttempts job")
        case True
        obtain e2 db2 where m: "MarkFailed ?t ?k reason db1 = (e2, db2)" by force
        have "rs_db s' = db2" using assms(6) d None w Inl m True by (auto simp: recoverQueuedJob_def)
        moreover have "recovery_step now row (set_failed ?t reason (?f row))"
          using assms(3-5) True by (simp add: recovery_step_def same_job_def row_sets job_statuses)
        ultimately show ?thesis using moves_either [OF _ _ f] two [OF failed.row_update_axioms m None] by blast
      next
        case False
        obtain e2 db2 where m: "MarkQueued ?t ?k reason db1 = (e2, db2)" by force
        have "rs_db s' = db2" using assms(6) d None w Inl m False by (auto simp: recoverQueuedJob_def)
        moreover have "recovery_step now row (set_queued ?t reason (?f row))"
          using assms(3-5) False by (simp add: recovery_step_def same_job_def row_sets job_statuses)
        ultimately show ?thesis using moves_either [OF _ _ f] two [OF queued.row_update_axioms m None] by blast
      qed
    qed
  qed
qed

lemma recoverJob_moves:
  assumes "db_wf (rs_db s)" "find_row (rs_db s) (job_RequestID job) = Some row" "scanJob env row = Inr job"
    and "recoverJob r job now s = (e, s')"
  shows "moves now (job_RequestID job) row (rs_db s) (rs_db s')"
proof -
  note f = scanJob_fields [OF assms(3)]
  consider (queued) "jb_status row = JobQueued"
    | (leased) "jb_status row \<noteq> JobQueued" "jb_status row = JobDispatching \<or> jb_status row = JobRunning"
        "\<not> (IsZero (job_LeaseUntil job) \<or> job_LeaseUntil job > now)"
    | (other) "jb_status row \<noteq> JobQueued"
        "\<not> ((jb_status row = JobDispatching \<or> jb_status row = JobRunning) \<and>
            \<not> (IsZero (job_LeaseUntil job) \<or> job_LeaseUntil job > now))"
    by blast
  then show ?thesis
  proof cases
    case queued
    then show ?thesis using recoverQueuedJob_moves [OF assms(1,2)] assms(4) f by (simp add: recoverJob_def)
  next
    case leased
    let ?reason = "''job lease expired at '' @ r_format r (job_LeaseUntil job)"
    obtain db where m: "MarkAmbiguous (r_clock r (rs_world s)) (job_RequestID job) ?reason (rs_db s) = (e, db)" "rs_db s' = db"
      using assms(4) leased f(2) by (auto simp: recoverJob_def split: prod.splits)
    have "recovery_step now row (set_ambiguous (r_clock r (rs_world s)) ?reason row)"
      using leased f(5) by (auto simp: recovery_step_def same_job_def row_sets timeFromUnixMilli_def)
    then show ?thesis
      using one_update [OF ambiguous.row_update_axioms assms(1,2) m(1)] m(2)
      by (metis assms(2) fun_upd_triv recovery_step_refl)
  next
    case other
    then have "recoverJob r job now s = (None, s)" unfolding recoverJob_def f(2) by auto
    then show ?thesis using assms(4) moves_refl [OF assms(1,2)] by simp
  qed
qed

text \<open>What every job of a run does to its row, a run does to all rows, as long as an invariant of the state lasts.\<close>

lemma recover_jobs_rows:
  assumes step: "\<And>job s row e s'. P s \<Longrightarrow> db_wf (rs_db s) \<Longrightarrow> find_row (rs_db s) (job_RequestID job) = Some row \<Longrightarrow>
      scanJob env row = Inr job \<Longrightarrow> recoverJob r job now s = (e, s') \<Longrightarrow>
      P s' \<and> db_wf (rs_db s') \<and> (\<exists>row'. R row row' \<and> find_row (rs_db s') = (find_row (rs_db s))(job_RequestID job \<mapsto> row'))"
    and refl: "\<And>row. R row row"
    and "P s" "db_wf (rs_db s)" "distinct (map job_RequestID jobs)"
    and "\<forall>job \<in> set jobs. \<exists>row. find_row (rs_db s) (job_RequestID job) = Some row \<and> scanJob env row = Inr job"
  shows "P (recover_jobs r now jobs s) \<and> db_wf (rs_db (recover_jobs r now jobs s)) \<and>
    (\<forall>k. (k \<notin> job_RequestID ` set jobs \<longrightarrow> find_row (rs_db (recover_jobs r now jobs s)) k = find_row (rs_db s) k) \<and>
       rel_option R (find_row (rs_db s) k) (find_row (rs_db (recover_jobs r now jobs s)) k))"
  using assms(3-6)
proof (induction jobs arbitrary: s)
  case Nil
  have "rel_option R x x" for x using refl by (cases x) auto
  then show ?case using Nil by (simp add: recover_jobs_def)
next
  case (Cons job jobs)
  obtain e s1 where j: "recoverJob r job now s = (e, s1)" by force
  obtain row where row: "find_row (rs_db s) (job_RequestID job) = Some row" "scanJob env row = Inr job"
    using Cons.prems(4) by auto
  obtain r' where m: "P s1" "db_wf (rs_db s1)" "R row r'"
      "find_row (rs_db s1) = (find_row (rs_db s))(job_RequestID job \<mapsto> r')"
    using step [OF Cons.prems(1,2) row j] by blast
  have rest: "\<forall>job' \<in> set jobs. \<exists>row. find_row (rs_db s1) (job_RequestID job') = Some row \<and> scanJob env row = Inr job'"
    using Cons.prems(3,4) m(4) by (auto simp: image_iff)
  note IH = Cons.IH [OF m(1,2) _ rest]
  have eq: "recover_jobs r now (job # jobs) s = recover_jobs r now jobs s1" by (simp add: recover_jobs_def j)
  show ?case
    unfolding eq
  proof (intro conjI allI impI)
    show "P (recover_jobs r now jobs s1)" "db_wf (rs_db (recover_jobs r now jobs s1))" using IH Cons.prems(3) by simp_all
  next
    fix k assume "k \<notin> job_RequestID ` set (job # jobs)"
    then show "find_row (rs_db (recover_jobs r now jobs s1)) k = find_row (rs_db s) k"
      using IH Cons.prems(3) m(4) by simp
  next
    fix k
    show "rel_option R (find_row (rs_db s) k) (find_row (rs_db (recover_jobs r now jobs s1)) k)"
    proof (cases "k = job_RequestID job")
      case True
      then have "find_row (rs_db (recover_jobs r now jobs s1)) k = Some r'"
        using IH Cons.prems(3) m(4) by auto
      then show ?thesis using True row(1) m(3) by simp
    next
      case False
      then have "find_row (rs_db s1) k = find_row (rs_db s) k" using m(4) by simp
      then show ?thesis using IH Cons.prems(3) by (metis distinct.simps(2) list.simps(9))
    qed
  qed
qed

lemma recover_jobs_steps:
  assumes "db_wf (rs_db s)" "distinct (map job_RequestID jobs)"
    and "\<forall>job \<in> set jobs. \<exists>row. find_row (rs_db s) (job_RequestID job) = Some row \<and> scanJob env row = Inr job"
  shows "db_wf (rs_db (recover_jobs r now jobs s)) \<and>
    (\<forall>k. (k \<notin> job_RequestID ` set jobs \<longrightarrow> find_row (rs_db (recover_jobs r now jobs s)) k = find_row (rs_db s) k) \<and>
       rel_option (recovery_step now) (find_row (rs_db s) k) (find_row (rs_db (recover_jobs r now jobs s)) k))"
  using recover_jobs_rows [where P = "\<lambda>_. True" and R = "recovery_step now" and r = r and now = now, OF _ recovery_step_refl TrueI assms]
    recoverJob_moves [of _ _ _ env r now] by blast

lemma listed_jobs:
  assumes "db_wf db" "ListRecoverable env now n db = (Inr jobs, db')"
  shows "distinct (map job_RequestID jobs)"
    "\<forall>job \<in> set jobs. \<exists>row. find_row db' (job_RequestID job) = Some row \<and> scanJob env row = Inr job \<and> recoverable_row now row"
proof -
  let ?rs = "take (nat (if n \<le> 0 then 32 else n)) (order_by_updated (order_rows env) (filter (recoverable_row now) (db_rows db)))"
  note l = ListRecoverable_rows [OF assms(2)]
  have "mset (map jb_request_id (order_by_updated (order_rows env) (filter (recoverable_row now) (db_rows db)))) =
      mset (map jb_request_id (filter (recoverable_row now) (db_rows db)))" by simp
  moreover have "distinct (map jb_request_id (filter (recoverable_row now) (db_rows db)))"
    using assms(1) by (rule distinct_map_filter)
  ultimately have "distinct (map jb_request_id (order_by_updated (order_rows env) (filter (recoverable_row now) (db_rows db))))"
    by (metis mset_eq_imp_distinct_iff)
  then have "distinct (map jb_request_id ?rs)" by (simp add: take_map [symmetric])
  moreover have "map job_RequestID jobs = map jb_request_id ?rs"
    using l(1) by (induction rule: list_all2_induct) (auto dest: scanJob_fields(1))
  ultimately show "distinct (map job_RequestID jobs)" by simp
  show "\<forall>job \<in> set jobs. \<exists>row. find_row db' (job_RequestID job) = Some row \<and> scanJob env row = Inr job \<and> recoverable_row now row"
  proof
    fix job assume "job \<in> set jobs"
    then obtain row where "row \<in> set (db_rows db)" "recoverable_row now row" "scanJob env row = Inr job"
      using ListRecoverable_member [OF assms(2)] by blast
    then show "\<exists>row. find_row db' (job_RequestID job) = Some row \<and> scanJob env row = Inr job \<and> recoverable_row now row"
      using find_row_Some [of db'] assms(1) l(2) scanJob_fields(1) by (intro exI [of _ row]) auto
  qed
qed

lemma recover_rows:
  assumes "db_wf (rs_db s)" "RecoverOnce r s = (e, s')"
  shows "rel_option (recovery_step (r_clock r (rs_world s))) (find_row (rs_db s) k) (find_row (rs_db s') k)"
proof -
  let ?now = "r_clock r (rs_world s)"
  have same: "rel_option (recovery_step ?now) x x" for x by (cases x) auto
  obtain l db where l: "ListRecoverable (r_env r) ?now (batchSize r) (rs_db s) = (l, db)" by force
  have rows: "db_rows db = db_rows (rs_db s)"
    using l by (auto simp: ListRecoverable_def Let_def split: sql_outcome.splits sum.splits prod.splits)
  then have look: "find_row db = find_row (rs_db s)" by (rule find_row_rows)
  show ?thesis
  proof (cases l)
    case (Inl err)
    then show ?thesis using assms(2) l same look by (auto simp: RecoverOnce_def Let_def)
  next
    case (Inr jobs)
    have s': "s' = recover_jobs r ?now jobs (s\<lparr>rs_db := db\<rparr>)" using assms(2) l Inr by (auto simp: RecoverOnce_def Let_def)
    have wf: "db_wf (rs_db (s\<lparr>rs_db := db\<rparr>))" using assms(1) rows by simp
    have "\<forall>job \<in> set jobs. \<exists>row. find_row (rs_db (s\<lparr>rs_db := db\<rparr>)) (job_RequestID job) = Some row \<and> scanJob (r_env r) row = Inr job"
      using listed_jobs(2) [OF assms(1) l [unfolded Inr]] by auto
    from recover_jobs_steps [OF wf listed_jobs(1) [OF assms(1) l [unfolded Inr]] this, of r ?now]
    show ?thesis unfolding s' using look by simp
  qed
qed

text \<open>
  (C8) One recovery run, whatever its statements and dispatches return, moves each job along the
  life cycle and no other way: a queued job is attempted once more and ends dispatching (its outcome lost),
  succeeded, queued again while it has attempts left, or failed when it has none; a job
  whose lease has expired becomes ambiguous and is not attempted; succeeded, failed and
  ambiguous jobs and jobs under a valid lease stay as they are, and a result is stored with
  success only. No job appears or disappears, and a job left dispatching has a lease that ends later.
\<close>

theorem recovery_moves_jobs:
  assumes "db_wf (rs_db s)" "RecoverOnce r s = (e, s')"
  shows "rel_option (recovery_step (r_clock r (rs_world s))) (find_row (rs_db s) k) (find_row (rs_db s') k)"
  by (rule recover_rows [OF assms])

definition recovery_a :: "ExecutionRequest list JobRecovery" where
  "recovery_a = \<lparr>r_env = plain_env, r_dispatch = (\<lambda>req w. (Inl ''no workers'', req # w)), r_clock = (\<lambda>_. unix_epoch + 9000000000),
     r_format = (\<lambda>_. ''''), r_interval = 0, r_batchSize = 0, r_leaseTTL = 0\<rparr>"

theorem recovery_moves_jobs_witness:
  "\<exists>r r'. find_row db_a ''a'' = Some r \<and>
     find_row (rs_db (snd (RecoverOnce recovery_a \<lparr>rs_db = db_a, rs_metrics = None, rs_world = []\<rparr>))) ''a'' = Some r' \<and>
     recovery_step (unix_epoch + 9000000000) r r'"
proof -
  let ?s = "\<lparr>rs_db = db_a, rs_metrics = None, rs_world = []\<rparr>"
  obtain e s' where once: "RecoverOnce recovery_a ?s = (e, s')" by force
  have "db_wf (rs_db ?s)" by (simp add: db_a_eq)
  from recovery_moves_jobs [OF this once, of "''a''"]
  have "rel_option (recovery_step (unix_epoch + 9000000000)) (find_row db_a ''a'') (find_row (rs_db s') ''a'')"
    by (simp add: recovery_a_def)
  moreover have "find_row db_a ''a'' \<noteq> None" by (simp add: db_a_eq find_row_def)
  ultimately show ?thesis using once by (auto simp: rel_option_iff split: option.splits)
qed

section \<open>What one run dispatches\<close>

lemma recoverJob_world:
  assumes "recoverJob r job now s = (e, s')"
  shows "rs_world s' = rs_world s \<or>
    job_Status job = JobQueued \<and> rs_world s' = snd (r_dispatch r (job_Request job) (rs_world s))"
  using assms
  by (auto simp: recoverJob_def recoverQueuedJob_def Let_def split: if_splits prod.splits option.splits sum.splits)

lemma recover_jobs_world:
  assumes "\<And>req w. h (snd (r_dispatch r req w)) = req # h w"
  shows "\<exists>sub :: JobRecord list. subseq sub (filter (\<lambda>job. job_Status job = JobQueued) jobs) \<and>
    h (rs_world (recover_jobs r now jobs s)) = rev (map job_Request sub) @ h (rs_world s)"
proof (induction jobs arbitrary: s)
  case Nil
  then show ?case by (simp add: recover_jobs_def)
next
  case (Cons job jobs)
  obtain e s1 where j: "recoverJob r job now s = (e, s1)" by force
  obtain sub where sub: "subseq sub (filter (\<lambda>job. job_Status job = JobQueued) jobs)"
      "h (rs_world (recover_jobs r now jobs s1)) = rev (map job_Request sub) @ h (rs_world s1)"
    using Cons by blast
  have eq: "recover_jobs r now (job # jobs) s = recover_jobs r now jobs s1" by (simp add: recover_jobs_def j)
  show ?case
  proof (cases "rs_world s1 = rs_world s")
    case True
    then show ?thesis using sub eq by (intro exI [of _ sub]) (auto intro: subseq_Cons')
  next
    case False
    then have "job_Status job = JobQueued" "h (rs_world s1) = job_Request job # h (rs_world s)"
      using recoverJob_world [OF j] assms by auto
    then show ?thesis using sub eq by (intro exI [of _ "job # sub"]) auto
  qed
qed

text \<open>
  A recovery run dispatches only jobs that were queued when it started, each of them at most
  once and with the request that was stored for it: a job that was being dispatched, running,
  or already ambiguous is never dispatched again.
\<close>

theorem recovery_dispatches_queued_once:
  assumes "db_wf (rs_db s)" "RecoverOnce r s = (e, s')" "\<And>req w. h (snd (r_dispatch r req w)) = req # h w"
  shows "\<exists>sub :: JobRecord list. distinct (map job_RequestID sub) \<and> h (rs_world s') = rev (map job_Request sub) @ h (rs_world s) \<and>
    (\<forall>job \<in> set sub. \<exists>row. find_row (rs_db s) (job_RequestID job) = Some row \<and> jb_status row = JobQueued \<and>
       unmarshal_request (r_env r) (jb_request_json row) = Inr (job_Request job))"
proof -
  let ?now = "r_clock r (rs_world s)"
  obtain l db where l: "ListRecoverable (r_env r) ?now (batchSize r) (rs_db s) = (l, db)" by force
  show ?thesis
  proof (cases l)
    case (Inl err)
    then show ?thesis using assms(2) l by (intro exI [of _ "[]"]) (auto simp: RecoverOnce_def Let_def)
  next
    case (Inr jobs)
    note lj = listed_jobs [OF assms(1) l [unfolded Inr]]
    have look: "find_row db = find_row (rs_db s)"
      by (rule find_row_rows) (rule ListRecoverable_rows(2) [OF l [unfolded Inr]])
    obtain sub where sub: "subseq sub (filter (\<lambda>job. job_Status job = JobQueued) jobs)"
        "h (rs_world s') = rev (map job_Request sub) @ h (rs_world s)"
      using recover_jobs_world [of h r, OF assms(3), of jobs ?now "s\<lparr>rs_db := db\<rparr>"] assms(2) l Inr
      by (auto simp: RecoverOnce_def Let_def)
    have "subseq sub jobs" using sub(1) subseq_filter_left subseq_order.trans by blast
    then have "distinct (map job_RequestID sub)" using lj(1) by (metis subseq_conv_nths distinct_nthsI nths_map)
    moreover have in_jobs: "set sub \<subseteq> {job \<in> set jobs. job_Status job = JobQueued}"
      using sub(1) set_nths_subset by (fastforce simp: subseq_conv_nths)
    moreover have "\<exists>row. find_row (rs_db s) (job_RequestID job) = Some row \<and> jb_status row = JobQueued \<and>
       unmarshal_request (r_env r) (jb_request_json row) = Inr (job_Request job)" if "job \<in> set sub" for job
    proof -
      have j: "job \<in> set jobs" "job_Status job = JobQueued" using in_jobs that by blast+
      then obtain row where row: "find_row db (job_RequestID job) = Some row" "scanJob (r_env r) row = Inr job"
        using lj(2) by blast
      have "jb_status row = JobQueued" using scanJob_fields(2) [OF row(2)] j(2) by simp
      then show ?thesis
        using look row(1) scanJob_fields(6) [OF row(2)] by (intro exI [of _ row]) simp
    qed
    ultimately show ?thesis using sub(2) by (intro exI [of _ sub] conjI ballI) simp_all
  qed
qed

definition within_budget :: "job_row \<Rightarrow> bool" where
  "within_budget r \<longleftrightarrow> 0 < jb_max_attempts r \<and> jb_attempt r \<le> jb_max_attempts r \<and>
     (jb_status r = JobQueued \<longrightarrow> jb_attempt r < jb_max_attempts r)"

lemma recovery_step_budget: "recovery_step now r r' \<Longrightarrow> within_budget r \<Longrightarrow> within_budget r'"
  by (auto simp: recovery_step_def same_job_def within_budget_def)

text \<open>
  Recovery never exceeds the attempts of a job: when every job has at most its allowed attempts
  and a queued one has fewer, the same holds after the run.
\<close>

theorem recovery_within_budget:
  assumes "db_wf (rs_db s)" "RecoverOnce r s = (e, s')" "\<forall>k row. find_row (rs_db s) k = Some row \<longrightarrow> within_budget row"
    and "find_row (rs_db s') k = Some row"
  shows "within_budget row"
proof -
  let ?now = "r_clock r (rs_world s)"
  have "rel_option (recovery_step ?now) (find_row (rs_db s) k) (find_row (rs_db s') k)"
    using recover_rows [OF assms(1,2)] .
  then obtain row0 where "find_row (rs_db s) k = Some row0" "recovery_step ?now row0 row"
    using assms(4) by (cases "find_row (rs_db s) k") auto
  then show ?thesis using assms(3) recovery_step_budget by blast
qed

theorem recovery_within_budget_witness:
  "\<exists>row. find_row (rs_db (snd (RecoverOnce recovery_a \<lparr>rs_db = db_a, rs_metrics = None, rs_world = []\<rparr>))) ''a'' = Some row \<and>
     jb_attempt row \<le> jb_max_attempts row"
proof -
  let ?s = "\<lparr>rs_db = db_a, rs_metrics = None, rs_world = []\<rparr>"
  have "find_row (rs_db (snd (RecoverOnce recovery_a ?s))) ''a'' \<noteq> None" by code_simp
  then obtain row where f: "find_row (rs_db (snd (RecoverOnce recovery_a ?s))) ''a'' = Some row" by blast
  have "within_budget row"
    by (rule recovery_within_budget [of ?s recovery_a "fst (RecoverOnce recovery_a ?s)" "snd (RecoverOnce recovery_a ?s)" "''a''"])
      (use f in \<open>auto simp: db_a_eq find_row_def within_budget_def\<close>)
  then show ?thesis using f by (simp add: within_budget_def)
qed

theorem recovery_dispatches_queued_once_witness:
  "\<exists>sub :: JobRecord list. rs_world (snd (RecoverOnce recovery_a \<lparr>rs_db = db_a, rs_metrics = None, rs_world = []\<rparr>)) = rev (map job_Request sub) \<and>
     list_all (\<lambda>job. find_row db_a (job_RequestID job) \<noteq> None) sub"
proof -
  let ?s = "\<lparr>rs_db = db_a, rs_metrics = None, rs_world = []\<rparr>"
  have "db_wf (rs_db ?s)" by (simp add: db_a_eq)
  moreover have "id (snd (r_dispatch recovery_a req w)) = req # id w" for req w by (simp add: recovery_a_def)
  ultimately show ?thesis
    using recovery_dispatches_queued_once [of ?s recovery_a "fst (RecoverOnce recovery_a ?s)" "snd (RecoverOnce recovery_a ?s)" id]
    by (fastforce simp: list_all_iff)
qed

end
