(* ===== verification/Master_Recovery_Loop.thy ===== *)
theory Master_Recovery_Loop
  imports Master_Recovery
begin

text \<open>
  \<open>JobRecovery.Start\<close> of \<open>src/internal/master/job_recovery.go\<close>: one run at once and one at every
  tick. The list \<open>others\<close> has an entry for each tick before the context is done: what
  the rest of the master did to the state while the loop waited for that tick. A \<open>nil\<close> receiver is \<open>None\<close>.

  Every run with a job that can be recovered makes progress, so the loop leaves no job queued after a
  number of ticks that is known beforehand, and settles all of them after as many that come when leases have ended; the measure is \<open>pending\<close>.
\<close>

definition recoverOnceAndLog :: "'w JobRecovery \<Rightarrow> 'w recovery_state \<Rightarrow> 'w recovery_state" where
  "recoverOnceAndLog r s = snd (RecoverOnce r s)"

definition JobRecovery_Start ::
  "'w JobRecovery option \<Rightarrow> ('w recovery_state \<Rightarrow> 'w recovery_state) list \<Rightarrow> 'w recovery_state \<Rightarrow> 'w recovery_state" where
  "JobRecovery_Start rec others s =
     (case rec of
        None \<Rightarrow> s
      | Some r \<Rightarrow> fold (\<lambda>other s. recoverOnceAndLog r (other s)) others (recoverOnceAndLog r s))"

section \<open>Statements only use up outcomes\<close>

lemma next_outcome_uses:
  assumes "next_outcome db = (out, db')"
  shows "db_faults db' = tl (db_faults db)"
proof (cases "db_faults db")
  case Nil
  then show ?thesis using assms by (simp add: next_outcome_def)
next
  case (Cons f fs)
  then show ?thesis using assms by (simp add: next_outcome_def) force
qed

lemma update_job_uses: "db_faults (snd (update_job k f what db)) = tl (db_faults db)"
proof -
  obtain out db1 where o: "next_outcome db = (out, db1)" by force
  show ?thesis
    using next_outcome_uses [OF o] by (simp add: update_job_eq [OF o] Let_def split: sql_outcome.split)
qed

definition faults_left :: "job_db \<Rightarrow> job_db \<Rightarrow> bool" where
  "faults_left db db' \<longleftrightarrow> length (db_faults db') \<le> length (db_faults db)"

lemma faults_left_trans [trans]: "faults_left a b \<Longrightarrow> faults_left b c \<Longrightarrow> faults_left a c"
  by (simp add: faults_left_def)

lemma faults_left_tl: "db_faults db' = tl (db_faults db) \<Longrightarrow> faults_left db db'"
  by (simp add: faults_left_def)

lemma update_job_left: "update_job k f what db = (e, db') \<Longrightarrow> faults_left db db'"
  by (metis faults_left_tl update_job_uses snd_conv)

lemma Mark_faults:
  "MarkQueued now k reason db = (e, db') \<Longrightarrow> faults_left db db'"
  "MarkDispatching now k w l db = (e, db') \<Longrightarrow> faults_left db db'"
  "MarkFailed now k reason db = (e, db') \<Longrightarrow> faults_left db db'"
  "MarkAmbiguous now k reason db = (e, db') \<Longrightarrow> faults_left db db'"
  "MarkSucceeded env now k resp db = (e, db') \<Longrightarrow> faults_left db db'"
  unfolding MarkQueued_def MarkDispatching_def MarkFailed_def MarkAmbiguous_def MarkSucceeded_def
  by (auto dest: update_job_left simp: faults_left_def split: sum.splits)

lemma recoverJob_faults: "recoverJob r job now s = (e, s') \<Longrightarrow> faults_left (rs_db s) (rs_db s')"
  by (auto simp: recoverJob_def recoverQueuedJob_def Let_def faults_left_def
      dest!: Mark_faults split: if_splits prod.splits option.splits sum.splits)

lemma recover_jobs_faults: "faults_left (rs_db s) (rs_db (recover_jobs r now jobs s))"
proof (induction jobs arbitrary: s)
  case Nil
  then show ?case by (simp add: recover_jobs_def faults_left_def)
next
  case (Cons job jobs)
  have "faults_left (rs_db s) (rs_db (snd (recoverJob r job now s)))"
    by (rule recoverJob_faults [of r job now s "fst (recoverJob r job now s)"]) simp
  also note Cons.IH
  finally show ?case by (simp add: recover_jobs_def)
qed


section \<open>What is left to do\<close>

definition active_status :: "string \<Rightarrow> bool" where
  "active_status st \<longleftrightarrow> st = JobQueued \<or> st = JobDispatching \<or> st = JobRunning"

text \<open>The runs that a job may still take: its attempts while it is queued, and one to give up a lease.\<close>

definition runs_left :: "job_row \<Rightarrow> nat" where
  "runs_left r =
     (if jb_status r = JobQueued then Suc (max 1 (nat (jb_max_attempts r - jb_attempt r)))
      else if jb_status r = JobDispatching \<or> jb_status r = JobRunning then 1 else 0)"

definition pending :: "job_db \<Rightarrow> nat" where
  "pending db = sum_list (map runs_left (db_rows db)) + length (db_faults db)"

definition row_readable :: "store_env \<Rightarrow> job_row \<Rightarrow> bool" where
  "row_readable env r \<longleftrightarrow> (active_status (jb_status r) \<longrightarrow> \<not> isl (scanJob env r))"

lemma recovery_step_runs_left:
  assumes "recovery_step now r r'" "0 < jb_max_attempts r"
  shows "runs_left r' \<le> runs_left r" "r' \<noteq> r \<Longrightarrow> runs_left r' < runs_left r"
proof -
  have *: "runs_left r' < runs_left r" if changed: "r' \<noteq> r"
  proof -
    have max: "jb_max_attempts r' = jb_max_attempts r"
      using assms(1) by (simp add: recovery_step_def same_job_def)
    consider (queued) "jb_status r = JobQueued" "jb_attempt r' = jb_attempt r + 1"
          "jb_status r' = JobDispatching \<or> jb_status r' = JobSucceeded \<or> jb_status r' = JobFailed \<or>
           jb_status r' = JobQueued \<and> \<not> (jb_max_attempts r > 0 \<and> jb_attempt r' \<ge> jb_max_attempts r)"
      | (leased) "jb_status r = JobDispatching \<or> jb_status r = JobRunning" "jb_status r' = JobAmbiguous"
      using assms(1) changed unfolding recovery_step_def by blast
    then show ?thesis
    proof cases
      case queued
      show ?thesis
      proof (cases "jb_status r' = JobQueued")
        case True
        then have "nat (jb_max_attempts r - (jb_attempt r + 1)) < nat (jb_max_attempts r - jb_attempt r)"
          "1 < nat (jb_max_attempts r - jb_attempt r)" using queued(2,3) assms(2) by auto
        then show ?thesis using queued True max by (simp add: runs_left_def)
      next
        case False
        then show ?thesis using queued(1,3) by (auto simp: runs_left_def)
      qed
    next
      case leased
      then show ?thesis by (auto simp: runs_left_def)
    qed
  qed
  show "r' \<noteq> r \<Longrightarrow> runs_left r' < runs_left r" using * by simp
  show "runs_left r' \<le> runs_left r" using * by (cases "r' = r") simp_all
qed

lemma scanJob_cong:
  assumes "jb_request_json r' = jb_request_json r" "jb_response_json r' = jb_response_json r"
  shows "isl (scanJob env r') = isl (scanJob env r)"
  unfolding scanJob_def assms by (simp split: sum.split)

lemma recovery_step_readable:
  assumes "recovery_step now r r'" "row_readable env r"
  shows "row_readable env r'"
proof (cases "active_status (jb_status r')")
  case True
  then have "active_status (jb_status r)" "jb_request_json r' = jb_request_json r" "jb_response_json r' = jb_response_json r"
    using assms(1) by (auto simp: recovery_step_def same_job_def active_status_def)
  then show ?thesis using assms(2) scanJob_cong [of r' r env] by (simp add: row_readable_def)
qed (simp add: row_readable_def)

lemma recovery_step_queued: "recovery_step now r r' \<Longrightarrow> jb_status r' = JobQueued \<Longrightarrow> jb_status r = JobQueued"
  by (auto simp: recovery_step_def)

lemma dom_find_row: "dom (find_row db) = jb_request_id ` set (db_rows db)"
  by (simp add: find_row_map_of dom_map_of_conv_image_fst image_image)

text \<open>The total of a table is a sum over its ids, so it may be compared id by id.\<close>

lemma sum_rows:
  assumes "db_wf db"
  shows "sum_list (map f (db_rows db)) = (\<Sum>k \<in> dom (find_row db). f (the (find_row db k)))"
proof -
  have "sum_list (map f (db_rows db)) = (\<Sum>r \<in> set (db_rows db). f r)"
    using assms by (simp add: distinct_map sum_list_distinct_conv_sum_set)
  also have "\<dots> = (\<Sum>r \<in> set (db_rows db). f (the (find_row db (jb_request_id r))))"
  proof (rule sum.cong)
    fix r assume "r \<in> set (db_rows db)"
    then have "find_row db (jb_request_id r) = Some r" using find_row_Some [OF assms] by blast
    then show "f r = f (the (find_row db (jb_request_id r)))" by simp
  qed simp
  also have "\<dots> = (\<Sum>k \<in> jb_request_id ` set (db_rows db). f (the (find_row db k)))"
    using assms by (simp add: distinct_map sum.reindex)
  finally show ?thesis by (simp add: dom_find_row)
qed

lemma rel_option_dom: "(\<And>k. rel_option R (m k) (m' k)) \<Longrightarrow> dom m' = dom m"
  by (auto simp: dom_def) (metis option.rel_distinct not_None_eq)+

lemma sum_rows_mono:
  fixes f :: "job_row \<Rightarrow> nat"
  assumes "db_wf db" "db_wf db'" "\<And>k. rel_option R (find_row db k) (find_row db' k)"
    and "\<forall>k r r'. find_row db k = Some r \<longrightarrow> R r r' \<longrightarrow> f r' \<le> f r"
  shows "sum_list (map f (db_rows db')) \<le> sum_list (map f (db_rows db))"
    and "find_row db k = Some r \<Longrightarrow> find_row db' k = Some r' \<Longrightarrow> f r' < f r \<Longrightarrow>
      sum_list (map f (db_rows db')) < sum_list (map f (db_rows db))"
proof -
  have d: "dom (find_row db') = dom (find_row db)" using assms(3) by (rule rel_option_dom)
  have le: "f (the (find_row db' k)) \<le> f (the (find_row db k))" if "k \<in> dom (find_row db)" for k
    using that assms(3) [of k] assms(4) by (auto simp: rel_option_iff split: option.splits)
  show "sum_list (map f (db_rows db')) \<le> sum_list (map f (db_rows db))"
    unfolding sum_rows [OF assms(1)] sum_rows [OF assms(2)] d using le by (rule sum_mono)
  assume "find_row db k = Some r" "find_row db' k = Some r'" "f r' < f r"
  then show "sum_list (map f (db_rows db')) < sum_list (map f (db_rows db))"
    unfolding sum_rows [OF assms(1)] sum_rows [OF assms(2)] d
    using le by (intro sum_strict_mono_ex1) (simp add: dom_find_row, blast, force)
qed


section \<open>Every run makes progress\<close>

text \<open>When statements run, an update changes the row and the table still has no failures ahead.\<close>

lemma update_job_no_fault:
  assumes "db_faults db = []" "find_row db k = Some r"
  shows "fst (update_job k f what db) = None"
  using assms update_job_eq [of db Runs db k f what] by (simp add: next_outcome_def Let_def)

text \<open>The first job of the list is changed when its statements run, whatever the dispatch returns.\<close>

lemma attempt_stays:
  assumes "row_update db_wf find_row op k f" "db_wf db" "find_row db k = Some r" "jb_attempt r = n"
    and "\<And>r. jb_attempt (f r) = jb_attempt r" "op db = (e, db')"
  shows "\<exists>r'. find_row db' k = Some r' \<and> jb_attempt r' = n"
  using row_update.op_any [OF assms(1,2)] assms(3-6) by auto

lemma recoverQueuedJob_changes:
  assumes "db_wf (rs_db s)" "db_faults (rs_db s) = []" "find_row (rs_db s) (job_RequestID job) = Some row"
    and "recoverQueuedJob r job now s = (e, s')"
  shows "find_row (rs_db s') (job_RequestID job) \<noteq> Some row"
proof -
  let ?k = "job_RequestID job" and ?t0 = "r_clock r (rs_world s)" and ?l = "now + leaseTTL r"
  obtain e1 db1 where d: "MarkDispatching ?t0 ?k '''' ?l (rs_db s) = (e1, db1)" by force
  have e1: "e1 = None"
    using update_job_no_fault [OF assms(2,3)] d by (metis MarkDispatching_def fst_conv)
  have db1: "db_wf db1" "find_row db1 ?k = Some (set_dispatching ?t0 '''' ?l row)"
    using dispatching.op_wf [OF assms(1)] dispatching.changed [OF assms(1) _ assms(3)] d e1 by (metis snd_conv fst_conv)+
  note later = attempt_stays [OF _ db1, where n = "jb_attempt row + 1"]
  have "\<exists>r'. find_row (rs_db s') ?k = Some r' \<and> jb_attempt r' = jb_attempt row + 1"
    using assms(4) d e1
    by (auto simp: recoverQueuedJob_def Let_def row_sets split: prod.splits sum.splits if_splits
        intro: later [OF succeeded.row_update_axioms] later [OF failed.row_update_axioms] later [OF queued.row_update_axioms])
  then show ?thesis by auto
qed

lemma set_ambiguous_status: "jb_status (set_ambiguous t reason r) = JobAmbiguous"
  by (simp add: set_ambiguous_def)

lemma recoverJob_changes:
  assumes "db_wf (rs_db s)" "db_faults (rs_db s) = []" "find_row (rs_db s) (job_RequestID job) = Some row"
    and "scanJob env row = Inr job" "recoverable_row now row" "recoverJob r job now s = (e, s')"
  shows "find_row (rs_db s') (job_RequestID job) \<noteq> Some row"
proof (cases "jb_status row = JobQueued")
  case True
  then show ?thesis
    using recoverQueuedJob_changes [OF assms(1-3)] assms(6) scanJob_fields(2) [OF assms(4)] by (simp add: recoverJob_def)
next
  case False
  note f = scanJob_fields [OF assms(4)]
  let ?reason = "''job lease expired at '' @ r_format r (job_LeaseUntil job)" and ?t = "r_clock r (rs_world s)"
  have leased: "jb_status row = JobDispatching \<or> jb_status row = JobRunning"
    and lease: "0 < jb_lease_until row" "jb_lease_until row \<le> unixMilli now"
    using assms(5) False by (auto simp: recoverable_row_def)
  have "\<not> (IsZero (job_LeaseUntil job) \<or> job_LeaseUntil job > now)"
    using lease_expired [OF lease] lease(1) f(5) by (simp add: timeFromUnixMilli_def unix_epoch_def)
  then have m: "rs_db s' = snd (MarkAmbiguous ?t (job_RequestID job) ?reason (rs_db s))"
    using assms(6) leased False f(2) by (auto simp: recoverJob_def split: prod.splits)
  have "fst (MarkAmbiguous ?t (job_RequestID job) ?reason (rs_db s)) = None"
    using update_job_no_fault [OF assms(2,3)] by (simp add: MarkAmbiguous_def)
  from ambiguous.changed [OF assms(1) this assms(3)]
  have "find_row (rs_db s') (job_RequestID job) = Some (set_ambiguous ?t ?reason row)" using m by simp
  moreover have "set_ambiguous ?t ?reason row \<noteq> row"
  proof
    assume "set_ambiguous ?t ?reason row = row"
    then have "jb_status row = JobAmbiguous" by (metis set_ambiguous_status)
    then show False using leased by auto
  qed
  ultimately show ?thesis by simp
qed


lemma ListRecoverable_db:
  assumes "ListRecoverable env now n db = (l, db')"
  shows "db_rows db' = db_rows db" "db_faults db' = tl (db_faults db)"
proof -
  obtain out db1 where o: "next_outcome db = (out, db1)" by force
  have "db' = db1"
    using assms o by (auto simp: ListRecoverable_def Let_def split: sql_outcome.splits sum.splits)
  then show "db_rows db' = db_rows db" "db_faults db' = tl (db_faults db)"
    using o next_outcome_uses [OF o] by simp_all
qed

lemma RecoverOnce_db:
  assumes "db_wf (rs_db s)" "RecoverOnce r s = (e, s')"
  shows "db_wf (rs_db s')" "length (db_faults (rs_db s')) \<le> length (tl (db_faults (rs_db s)))"
proof -
  let ?now = "r_clock r (rs_world s)"
  obtain l db where l: "ListRecoverable (r_env r) ?now (batchSize r) (rs_db s) = (l, db)" by force
  note db = ListRecoverable_db [OF l]
  have "db_wf (rs_db s') \<and> length (db_faults (rs_db s')) \<le> length (tl (db_faults (rs_db s)))"
  proof (cases l)
    case (Inl err)
    then have "rs_db s' = db" using assms(2) l by (auto simp: RecoverOnce_def Let_def)
    then show ?thesis using db assms(1) by simp
  next
    case (Inr jobs)
    have s': "s' = recover_jobs r ?now jobs (s\<lparr>rs_db := db\<rparr>)" using assms(2) l Inr by (auto simp: RecoverOnce_def Let_def)
    have wf: "db_wf (rs_db (s\<lparr>rs_db := db\<rparr>))" using assms(1) db(1) by simp
    have "\<forall>job \<in> set jobs. \<exists>row. find_row (rs_db (s\<lparr>rs_db := db\<rparr>)) (job_RequestID job) = Some row \<and> scanJob (r_env r) row = Inr job"
      using listed_jobs(2) [OF assms(1) l [unfolded Inr]] by auto
    from recover_jobs_steps [OF wf listed_jobs(1) [OF assms(1) l [unfolded Inr]] this, of r ?now]
    have "db_wf (rs_db s')" unfolding s' by simp
    moreover have "faults_left db (rs_db s')"
      unfolding s' using recover_jobs_faults [of "s\<lparr>rs_db := db\<rparr>" r ?now jobs] by simp
    ultimately show ?thesis using db(2) by (simp add: faults_left_def)
  qed
  then show "db_wf (rs_db s')" "length (db_faults (rs_db s')) \<le> length (tl (db_faults (rs_db s)))" by simp_all
qed

lemma scan_all_succeeds:
  assumes "\<forall>r \<in> set rs. \<not> isl (scanJob env r)"
  shows "\<exists>jobs. scan_all env rs = Inr jobs"
  using assms
proof (induction rs)
  case (Cons r rs)
  then obtain jobs job where "scan_all env rs = Inr jobs" "scanJob env r = Inr job"
    by (cases "scanJob env r") auto
  then show ?case by simp
qed simp

lemma recoverable_active: "recoverable_row now r \<Longrightarrow> active_status (jb_status r)"
  by (auto simp: recoverable_row_def active_status_def)

lemma listing_not_empty:
  assumes "db_faults db = []" "\<forall>row \<in> set (db_rows db). row_readable env row" "0 < n"
    and "row \<in> set (db_rows db)" "recoverable_row now row"
  shows "\<exists>job jobs. ListRecoverable env now n db = (Inr (job # jobs), db)"
proof -
  let ?sorted = "order_by_updated (order_rows env) (filter (recoverable_row now) (db_rows db))"
  let ?rs = "take (nat n) ?sorted"
  have "\<forall>r \<in> set ?rs. \<not> isl (scanJob env r)"
    using assms(2) recoverable_active by (fastforce simp: row_readable_def dest: in_set_takeD)
  then obtain jobs where jobs: "scan_all env ?rs = Inr jobs" using scan_all_succeeds by blast
  have "row \<in> set ?sorted" using assms(4,5) by simp
  then have "?sorted \<noteq> []" by (metis list.set(1) empty_iff)
  then have "?rs \<noteq> []" using assms(3) by simp
  then have "jobs \<noteq> []" using jobs scan_all_Inr [of env ?rs jobs] by auto
  then show ?thesis
    using jobs assms(1,3) by (auto simp: ListRecoverable_def next_outcome_def Let_def neq_Nil_conv)
qed

lemma RecoverOnce_progress:
  assumes wf: "db_wf (rs_db s)" and "db_faults (rs_db s) = []" "\<forall>row \<in> set (db_rows (rs_db s)). row_readable (r_env r) row"
    and "row \<in> set (db_rows (rs_db s))" "recoverable_row (r_clock r (rs_world s)) row" "RecoverOnce r s = (e, s')"
  shows "\<exists>k row. find_row (rs_db s) k = Some row \<and> find_row (rs_db s') k \<noteq> Some row"
proof -
  let ?now = "r_clock r (rs_world s)"
  have "0 < batchSize r" by (simp add: batchSize_def DefaultJobRecoveryBatchSize_def)
  from listing_not_empty [OF assms(2,3) this assms(4,5)]
  obtain job jobs where l: "ListRecoverable (r_env r) ?now (batchSize r) (rs_db s) = (Inr (job # jobs), rs_db s)" by blast
  let ?k = "job_RequestID job"
  note lj = listed_jobs [OF wf l]
  obtain row where row: "find_row (rs_db s) ?k = Some row" "scanJob (r_env r) row = Inr job" "recoverable_row ?now row"
    using lj(2) by auto
  obtain e1 s1 where j: "recoverJob r job ?now s = (e1, s1)" by force
  have s': "s' = recover_jobs r ?now jobs s1" using assms(6) l j by (simp add: RecoverOnce_def Let_def recover_jobs_def)
  obtain r' where m: "db_wf (rs_db s1)" "find_row (rs_db s1) = (find_row (rs_db s))(?k \<mapsto> r')"
    using recoverJob_moves [OF wf row(1,2) j] by blast
  have "\<forall>job' \<in> set jobs. \<exists>row. find_row (rs_db s1) (job_RequestID job') = Some row \<and> scanJob (r_env r) row = Inr job'"
    using lj m(2) by (auto simp: image_iff)
  from recover_jobs_steps [OF m(1) _ this, of r ?now]
  have "find_row (rs_db s') ?k = find_row (rs_db s1) ?k" unfolding s' using lj(1) by auto
  then show ?thesis using recoverJob_changes [OF wf assms(2) row j] row(1) by (intro exI [of _ ?k] exI [of _ row]) simp
qed


definition recovery_ready :: "store_env \<Rightarrow> job_db \<Rightarrow> bool" where
  "recovery_ready env db \<longleftrightarrow> db_wf db \<and> (\<forall>row \<in> set (db_rows db). 0 < jb_max_attempts row \<and> row_readable env row)"

definition no_queued :: "job_db \<Rightarrow> bool" where
  "no_queued db \<longleftrightarrow> (\<forall>row \<in> set (db_rows db). jb_status row \<noteq> JobQueued)"

lemma recovery_ready_find:
  "recovery_ready env db \<longleftrightarrow> db_wf db \<and> (\<forall>k row. find_row db k = Some row \<longrightarrow> 0 < jb_max_attempts row \<and> row_readable env row)"
  using find_row_Some [of db] by (auto simp: recovery_ready_def)

lemma no_queued_find: "db_wf db \<Longrightarrow> no_queued db \<longleftrightarrow> (\<forall>k row. find_row db k = Some row \<longrightarrow> jb_status row \<noteq> JobQueued)"
  using find_row_Some [of db] by (auto simp: no_queued_def)

lemma rel_option_back: "rel_option R x y \<Longrightarrow> y = Some b \<Longrightarrow> \<exists>a. x = Some a \<and> R a b"
  by (cases x) auto

lemma run_ready:
  assumes "recovery_ready env (rs_db s)" "RecoverOnce r s = (e, s')"
  shows "recovery_ready env (rs_db s')" "no_queued (rs_db s) \<Longrightarrow> no_queued (rs_db s')"
    "dom (find_row (rs_db s')) = dom (find_row (rs_db s))"
proof -
  have wf: "db_wf (rs_db s)" using assms(1) by (simp add: recovery_ready_def)
  note wf' = RecoverOnce_db(1) [OF wf assms(2)] and rows = recover_rows [OF wf assms(2)]
  show "dom (find_row (rs_db s')) = dom (find_row (rs_db s))" using rows by (rule rel_option_dom)
  have origin: "\<exists>row0. find_row (rs_db s) k = Some row0 \<and> recovery_step (r_clock r (rs_world s)) row0 row"
    if "find_row (rs_db s') k = Some row" for k row
    using rel_option_back [OF rows that] .
  have "0 < jb_max_attempts row \<and> row_readable env row" if f: "find_row (rs_db s') k = Some row" for k row
  proof -
    obtain row0 where row0: "find_row (rs_db s) k = Some row0" "recovery_step (r_clock r (rs_world s)) row0 row"
      using origin [OF f] by blast
    then have "0 < jb_max_attempts row0" "row_readable env row0" using assms(1) by (simp_all add: recovery_ready_find)
    then show ?thesis using recovery_step_readable [OF row0(2)] row0(2) by (simp add: recovery_step_def same_job_def)
  qed
  then show "recovery_ready env (rs_db s')" using wf' by (simp add: recovery_ready_find)
  show "no_queued (rs_db s')" if "no_queued (rs_db s)"
    using that origin recovery_step_queued unfolding no_queued_find [OF wf] no_queued_find [OF wf'] by blast
qed

lemma run_pending:
  assumes "recovery_ready (r_env r) (rs_db s)" "RecoverOnce r s = (e, s')"
    and "row \<in> set (db_rows (rs_db s))" "recoverable_row (r_clock r (rs_world s)) row"
  shows "pending (rs_db s') < pending (rs_db s)"
proof -
  let ?sum = "\<lambda>db. sum_list (map runs_left (db_rows db))"
  have wf: "db_wf (rs_db s)" using assms(1) by (simp add: recovery_ready_def)
  note once = RecoverOnce_db [OF wf assms(2)] and rows = recover_rows [OF wf assms(2)]
  have mono: "\<forall>k row row'. find_row (rs_db s) k = Some row \<longrightarrow> recovery_step (r_clock r (rs_world s)) row row' \<longrightarrow>
      runs_left row' \<le> runs_left row"
    using assms(1) recovery_step_runs_left(1) by (simp add: recovery_ready_find)
  note sums = sum_rows_mono [where f = runs_left, OF wf once(1) rows mono]
  show ?thesis
  proof (cases "db_faults (rs_db s)")
    case (Cons f fs)
    then show ?thesis using once(2) sums(1) by (simp add: pending_def)
  next
    case Nil
    from RecoverOnce_progress [OF wf Nil _ assms(3,4,2)] assms(1)
    obtain k row where row: "find_row (rs_db s) k = Some row" "find_row (rs_db s') k \<noteq> Some row"
      by (auto simp: recovery_ready_def)
    obtain row' where row': "find_row (rs_db s') k = Some row'" "recovery_step (r_clock r (rs_world s)) row row'"
      using rows [of k] row(1) by (cases "find_row (rs_db s') k") auto
    then have "runs_left row' < runs_left row"
      using row assms(1) recovery_step_runs_left(2) by (auto simp: recovery_ready_find)
    then have "?sum (rs_db s') < ?sum (rs_db s)" using sums(2) row(1) row'(1) by blast
    then show ?thesis using once(2) Nil by (simp add: pending_def)
  qed
qed

lemma pending_0: "pending db = 0 \<Longrightarrow> no_queued db"
  by (auto simp: pending_def no_queued_def runs_left_def sum_list_eq_0_iff split: if_splits)

lemma runs_settle:
  assumes "recovery_ready (r_env r) (rs_db s)" "\<forall>other \<in> set others. \<forall>s. rs_db (other s) = rs_db s"
    and "no_queued (rs_db s) \<or> pending (rs_db s) \<le> length others"
  shows "no_queued (rs_db (fold (\<lambda>other s. recoverOnceAndLog r (other s)) others s)) \<and>
    dom (find_row (rs_db (fold (\<lambda>other s. recoverOnceAndLog r (other s)) others s))) = dom (find_row (rs_db s))"
  using assms
proof (induction others arbitrary: s)
  case Nil
  then show ?case using pending_0 by auto
next
  case (Cons other others)
  obtain e s1 where once: "RecoverOnce r (other s) = (e, s1)" by force
  have db: "rs_db (other s) = rs_db s" using Cons.prems(2) by simp
  note run = run_ready [OF _ once, of "r_env r", unfolded db, OF Cons.prems(1)]
  have "no_queued (rs_db s1) \<or> pending (rs_db s1) \<le> length others"
  proof (cases "no_queued (rs_db s)")
    case False
    then obtain row where "row \<in> set (db_rows (rs_db (other s)))" "recoverable_row (r_clock r (rs_world (other s))) row"
      using db by (auto simp: no_queued_def recoverable_row_def)
    from run_pending [OF _ once this] False Cons.prems(1,3) db show ?thesis by simp
  qed (use run(2) in simp)
  from Cons.IH [OF run(1) _ this] Cons.prems(2) show ?case
    using run(3) by (simp add: recoverOnceAndLog_def once)
qed

text \<open>
  The recovery loop leaves no job queued: after as many runs as the jobs have attempts left (one more for
  each queued job, one for each leased job, one for each failing statement). This needs no lease to end.
\<close>

theorem recovery_leaves_no_job_queued:
  assumes "recovery_ready (r_env r) (rs_db s)" "\<forall>other \<in> set others. \<forall>s. rs_db (other s) = rs_db s"
    and "pending (rs_db s) \<le> Suc (length others)"
  shows "no_queued (rs_db (JobRecovery_Start (Some r) others s)) \<and>
    dom (find_row (rs_db (JobRecovery_Start (Some r) others s))) = dom (find_row (rs_db s))"
  using runs_settle [of r s "(\<lambda>s. s) # others"] assms by (simp add: JobRecovery_Start_def)

section \<open>Which outcome a queued job ends with\<close>

text \<open>
  The job of \<open>row\<close> ended as \<open>row'\<close> with the outcome of a dispatch of its own request: its response is stored, or, when
  no attempt is left, the error.
\<close>

definition dispatched_outcome :: "'w JobRecovery \<Rightarrow> job_row \<Rightarrow> job_row \<Rightarrow> bool" where
  "dispatched_outcome r row row' \<longleftrightarrow>
     (\<exists>req w. unmarshal_request (r_env r) (jb_request_json row) = Inr req \<and>
        (case fst (r_dispatch r req w) of
           Inr response \<Rightarrow> jb_status row' = JobSucceeded \<and> marshal_response (r_env r) response = Inr (jb_response_json row')
         | Inl reason \<Rightarrow> jb_status row' = JobFailed \<and> jb_last_error row' = reason \<and> jb_max_attempts row \<le> jb_attempt row'))"

definition settles :: "'w JobRecovery \<Rightarrow> job_row \<Rightarrow> job_row \<Rightarrow> bool" where
  "settles r row row' \<longleftrightarrow> (jb_status row = JobQueued \<longrightarrow> jb_status row' = JobQueued \<or> dispatched_outcome r row row')"

definition responses_marshal :: "store_env \<Rightarrow> bool" where
  "responses_marshal env \<longleftrightarrow> (\<forall>response. \<exists>json. marshal_response env response = Inr json)"

lemma dispatched_outcome_status:
  assumes "dispatched_outcome r row row'"
  shows "jb_status row' = JobSucceeded \<or> jb_status row' = JobFailed"
proof -
  obtain req w where "case fst (r_dispatch r req w) of Inr response \<Rightarrow> jb_status row' = JobSucceeded \<and> marshal_response (r_env r) response = Inr (jb_response_json row')
     | Inl reason \<Rightarrow> jb_status row' = JobFailed \<and> jb_last_error row' = reason \<and> jb_max_attempts row \<le> jb_attempt row'"
    using assms unfolding dispatched_outcome_def by blast
  then show ?thesis by (cases "fst (r_dispatch r req w)") simp_all
qed

text \<open>An update when no statement fails.\<close>

lemma clean_update:
  assumes "\<And>r. jb_request_id (change r) = jb_request_id r" "db_wf db" "db_faults db = []" "find_row db k = Some row"
    and "update_job k change what db = (e, db')"
  shows "e = None" "db_wf db'" "db_faults db' = []" "find_row db' = (find_row db)(k \<mapsto> change row)"
proof -
  have law: "row_update db_wf find_row (update_job k change what) k change" by (rule update_job_law [OF assms(1)])
  show e: "e = None" using update_job_no_fault [OF assms(3,4)] assms(5) by (metis fst_conv)
  show "db_wf db'" using row_update.op_wf [OF law assms(2)] assms(5) by simp
  show "db_faults db' = []" using update_job_uses [of k change what db] assms(3,5) by simp
  show "find_row db' = (find_row db)(k \<mapsto> change row)" using row_update.op_ok [OF law assms(2)] assms(4,5) e by auto
qed

lemma recoverQueuedJob_settles:
  assumes "db_faults (rs_db s) = []" "db_wf (rs_db s)" "responses_marshal (r_env r)"
    and "find_row (rs_db s) (job_RequestID job) = Some row" "scanJob (r_env r) row = Inr job"
    and "recoverQueuedJob r job now s = (e, s')"
  shows "db_faults (rs_db s') = [] \<and> (\<exists>row'. settles r row row' \<and> find_row (rs_db s') = (find_row (rs_db s))(job_RequestID job \<mapsto> row'))"
proof -
  let ?k = "job_RequestID job" and ?t0 = "r_clock r (rs_world s)" and ?l = "now + leaseTTL r"
  let ?row1 = "set_dispatching ?t0 '''' ?l row"
  obtain e1 db1 where d: "MarkDispatching ?t0 ?k '''' ?l (rs_db s) = (e1, db1)" by force
  note one = clean_update [OF _ assms(2,1,4) d [unfolded MarkDispatching_def], simplified]
  have at: "find_row db1 ?k = Some ?row1" using one(4) by simp
  obtain a w where w: "r_dispatch r (job_Request job) (rs_world s) = (a, w)" by force
  have req: "unmarshal_request (r_env r) (jb_request_json row) = Inr (job_Request job)"
    using assms(5) by (auto simp: scanJob_def split: sum.splits)
  have max: "job_MaxAttempts job = jb_max_attempts row" "job_Attempt job = jb_attempt row" using scanJob_fields [OF assms(5)] by simp_all
  show ?thesis
  proof (cases a)
    case (Inr resp)
    obtain json where json: "marshal_response (r_env r) resp = Inr json" using assms(3) by (auto simp: responses_marshal_def)
    let ?f = "set_succeeded (r_clock r w) json"
    obtain e2 db2 where m: "update_job ?k ?f ''mark job succeeded'' db1 = (e2, db2)" by force
    note two = clean_update [OF _ one(2,3) at m, simplified]
    have "rs_db s' = db2" using assms(6) d one(1) w Inr json m
      by (auto simp: recoverQueuedJob_def MarkSucceeded_def Let_def)
    moreover have "settles r row (?f ?row1)"
      unfolding settles_def dispatched_outcome_def using req w Inr json
      by (intro impI disjI2 exI [of _ "job_Request job"] exI [of _ "rs_world s"]) (simp add: row_sets)
    ultimately show ?thesis using two(3,4) one(4) by (intro conjI exI [of _ "?f ?row1"]) simp_all
  next
    case (Inl reason)
    show ?thesis
    proof (cases "job_MaxAttempts job > 0 \<and> job_Attempt job + 1 \<ge> job_MaxAttempts job")
      case True
      let ?f = "set_failed (r_clock r w) reason"
      obtain e2 db2 where m: "MarkFailed (r_clock r w) ?k reason db1 = (e2, db2)" by force
      note two = clean_update [OF _ one(2,3) at m [unfolded MarkFailed_def], simplified]
      have "rs_db s' = db2" using assms(6) d one(1) w Inl m True by (auto simp: recoverQueuedJob_def Let_def)
      moreover have "settles r row (?f ?row1)"
        unfolding settles_def dispatched_outcome_def using req w Inl True max
        by (intro impI disjI2 exI [of _ "job_Request job"] exI [of _ "rs_world s"]) (simp add: row_sets)
      ultimately show ?thesis using two(3,4) one(4) by (intro conjI exI [of _ "?f ?row1"]) simp_all
    next
      case False
      let ?f = "set_queued (r_clock r w) reason"
      obtain e2 db2 where m: "MarkQueued (r_clock r w) ?k reason db1 = (e2, db2)" by force
      note two = clean_update [OF _ one(2,3) at m [unfolded MarkQueued_def], simplified]
      have "rs_db s' = db2" using assms(6) d one(1) w Inl m False by (auto simp: recoverQueuedJob_def Let_def)
      moreover have "settles r row (?f ?row1)" by (simp add: settles_def row_sets)
      ultimately show ?thesis using two(3,4) one(4) by (intro conjI exI [of _ "?f ?row1"]) simp_all
    qed
  qed
qed

lemma recoverJob_settles:
  assumes "db_faults (rs_db s) = []" "db_wf (rs_db s)" "responses_marshal (r_env r)"
    and "find_row (rs_db s) (job_RequestID job) = Some row" "scanJob (r_env r) row = Inr job" "recoverJob r job now s = (e, s')"
  shows "db_faults (rs_db s') = [] \<and> db_wf (rs_db s') \<and>
    (\<exists>row'. (recovery_step now row row' \<and> settles r row row') \<and> find_row (rs_db s') = (find_row (rs_db s))(job_RequestID job \<mapsto> row'))"
proof -
  obtain row1 where m: "db_wf (rs_db s')" "recovery_step now row row1" "find_row (rs_db s') = (find_row (rs_db s))(job_RequestID job \<mapsto> row1)"
    using recoverJob_moves [OF assms(2,4-6)] by blast
  have "db_faults (rs_db s') = []" using recoverJob_faults [OF assms(6)] assms(1) by (simp add: faults_left_def)
  moreover have "settles r row row1"
  proof (cases "jb_status row = JobQueued")
    case True
    then have "recoverQueuedJob r job now s = (e, s')" using assms(6) scanJob_fields(2) [OF assms(5)] by (simp add: recoverJob_def)
    from recoverQueuedJob_settles [OF assms(1-5) this] m(3) show ?thesis by (metis fun_upd_same option.inject)
  qed (simp add: settles_def)
  ultimately show ?thesis using m by blast
qed

lemma run_settles:
  assumes "db_faults (rs_db s) = []" "db_wf (rs_db s)" "responses_marshal (r_env r)" "RecoverOnce r s = (e, s')"
  shows "db_faults (rs_db s') = []"
    "rel_option (\<lambda>row row'. recovery_step (r_clock r (rs_world s)) row row' \<and> settles r row row') (find_row (rs_db s) k) (find_row (rs_db s') k)"
proof -
  let ?now = "r_clock r (rs_world s)" and ?R = "\<lambda>row row'. recovery_step (r_clock r (rs_world s)) row row' \<and> settles r row row'"
  have refl: "?R row row" for row by (simp add: settles_def)
  obtain l db where l: "ListRecoverable (r_env r) ?now (batchSize r) (rs_db s) = (l, db)" by force
  note db = ListRecoverable_db [OF l]
  have look: "find_row db = find_row (rs_db s)" using db(1) by (rule find_row_rows)
  have "db_faults (rs_db s') = [] \<and> (\<forall>k. rel_option ?R (find_row (rs_db s) k) (find_row (rs_db s') k))"
  proof (cases l)
    case (Inl err)
    then have "rs_db s' = db" using assms(4) l by (auto simp: RecoverOnce_def Let_def)
    then show ?thesis using db(2) assms(1) look refl by (simp add: option.rel_refl)
  next
    case (Inr jobs)
    have s': "s' = recover_jobs r ?now jobs (s\<lparr>rs_db := db\<rparr>)" using assms(4) l Inr by (auto simp: RecoverOnce_def Let_def)
    have start: "db_faults (rs_db (s\<lparr>rs_db := db\<rparr>)) = []" "db_wf (rs_db (s\<lparr>rs_db := db\<rparr>))" using db assms(1,2) by simp_all
    have listed: "\<forall>job \<in> set jobs. \<exists>row. find_row (rs_db (s\<lparr>rs_db := db\<rparr>)) (job_RequestID job) = Some row \<and> scanJob (r_env r) row = Inr job"
      using listed_jobs(2) [OF assms(2) l [unfolded Inr]] by auto
    have "db_faults (rs_db s') = [] \<and> db_wf (rs_db s') \<and>
      (\<forall>k. (k \<notin> job_RequestID ` set jobs \<longrightarrow> find_row (rs_db s') k = find_row (rs_db (s\<lparr>rs_db := db\<rparr>)) k) \<and>
         rel_option ?R (find_row (rs_db (s\<lparr>rs_db := db\<rparr>)) k) (find_row (rs_db s') k))"
      unfolding s'
      by (rule recover_jobs_rows [where P = "\<lambda>s. db_faults (rs_db s) = []", OF _ refl start listed_jobs(1) [OF assms(2) l [unfolded Inr]] listed])
        (rule recoverJob_settles [OF _ _ assms(3)], assumption+)
    then show ?thesis using look by simp
  qed
  then show "db_faults (rs_db s') = []" "rel_option ?R (find_row (rs_db s) k) (find_row (rs_db s') k)" by simp_all
qed

text \<open>What became of a job that was queued as \<open>row\<close>, while statements may fail and while they do not.\<close>

definition attempted :: "job_row \<Rightarrow> job_row \<Rightarrow> bool" where
  "attempted row row' \<longleftrightarrow> same_job row row' \<and> jb_status row' \<in> {JobQueued, JobDispatching, JobSucceeded, JobFailed, JobAmbiguous}"

lemma attempted_step: "attempted row row1 \<Longrightarrow> recovery_step now row1 row2 \<Longrightarrow> attempted row row2"
  by (auto simp: attempted_def recovery_step_def same_job_def)

definition answered :: "'w JobRecovery \<Rightarrow> job_row \<Rightarrow> job_row \<Rightarrow> bool" where
  "answered r row row' \<longleftrightarrow> same_job row row' \<and> (jb_status row' = JobQueued \<or> dispatched_outcome r row row')"

lemma answered_step:
  assumes "answered r row row1" "recovery_step now row1 row2" "settles r row1 row2"
  shows "answered r row row2"
proof (cases "jb_status row1 = JobQueued")
  case True
  have same: "jb_request_json row1 = jb_request_json row" "jb_max_attempts row1 = jb_max_attempts row"
    using assms(1) by (simp_all add: answered_def same_job_def)
  have "dispatched_outcome r row1 row2 = dispatched_outcome r row row2" unfolding dispatched_outcome_def same ..
  then show ?thesis using assms True by (auto simp: settles_def answered_def recovery_step_def same_job_def)
next
  case False
  then have "jb_status row1 = JobSucceeded \<or> jb_status row1 = JobFailed"
    using assms(1) dispatched_outcome_status by (auto simp: answered_def)
  then have "row2 = row1" using assms(2) by (auto simp: recovery_step_def job_statuses)
  then show ?thesis using assms(1) by simp
qed

definition came_from :: "(job_row \<Rightarrow> job_row \<Rightarrow> bool) \<Rightarrow> job_db \<Rightarrow> job_db \<Rightarrow> bool" where
  "came_from R db db' \<longleftrightarrow>
     (\<forall>k row. find_row db k = Some row \<longrightarrow> jb_status row = JobQueued \<longrightarrow> (\<exists>row'. find_row db' k = Some row' \<and> R row row'))"

lemma came_from_step:
  assumes "came_from R db0 db" "\<And>k. rel_option S (find_row db k) (find_row db' k)"
    and "\<And>row row1 row2. R row row1 \<Longrightarrow> S row1 row2 \<Longrightarrow> R row row2"
  shows "came_from R db0 db'"
  unfolding came_from_def
proof (intro allI impI)
  fix k row assume "find_row db0 k = Some row" "jb_status row = JobQueued"
  then obtain row1 where row1: "find_row db k = Some row1" "R row row1" using assms(1) by (auto simp: came_from_def)
  then obtain row2 where "find_row db' k = Some row2" "S row1 row2"
    using assms(2) [of k] by (cases "find_row db' k") auto
  then show "\<exists>row'. find_row db' k = Some row' \<and> R row row'" using row1(2) assms(3) by blast
qed

section \<open>Leases end\<close>

definition leased :: "job_row \<Rightarrow> bool" where
  "leased row \<longleftrightarrow> jb_status row = JobDispatching \<or> jb_status row = JobRunning"

definition leases_set :: "job_db \<Rightarrow> bool" where
  "leases_set db \<longleftrightarrow> (\<forall>row \<in> set (db_rows db). leased row \<longrightarrow> 0 < jb_lease_until row)"

definition leases_over :: "time \<Rightarrow> job_db \<Rightarrow> bool" where
  "leases_over now db \<longleftrightarrow> (\<forall>row \<in> set (db_rows db). leased row \<longrightarrow> jb_lease_until row \<le> unixMilli now)"

definition no_active :: "job_db \<Rightarrow> bool" where
  "no_active db \<longleftrightarrow> (\<forall>row \<in> set (db_rows db). \<not> active_status (jb_status row))"

text \<open>At each of these ticks the clock has passed the leases in the table.\<close>

fun leases_end :: "'w JobRecovery \<Rightarrow> ('w recovery_state \<Rightarrow> 'w recovery_state) list \<Rightarrow> 'w recovery_state \<Rightarrow> bool" where
  "leases_end r [] s = True"
| "leases_end r (other # others) s =
     (leases_over (r_clock r (rs_world (other s))) (rs_db (other s)) \<and> leases_end r others (recoverOnceAndLog r (other s)))"

lemma leases_set_find: "db_wf db \<Longrightarrow> leases_set db \<longleftrightarrow> (\<forall>k row. find_row db k = Some row \<longrightarrow> leased row \<longrightarrow> 0 < jb_lease_until row)"
  using find_row_Some [of db] by (auto simp: leases_set_def)

lemma leased_step:
  assumes "recovery_step now row row'" "leased row'" "leased row \<longrightarrow> 0 < jb_lease_until row" "0 < unixMilli now"
  shows "0 < jb_lease_until row'"
proof (cases "row' = row")
  case False
  then have "jb_status row' = JobDispatching" using assms(1,2) by (auto simp: recovery_step_def leased_def job_statuses)
  then obtain ttl where ttl: "0 < ttl" "jb_lease_until row' = unixMilli (now + ttl)"
    using assms(1) False by (auto simp: recovery_step_def)
  have "now \<noteq> 0" "0 < (now - unix_epoch) div 1000000" using assms(4) by (auto simp: unixMilli_def split: if_splits)
  moreover from this(2) have "unix_epoch \<le> now" using div_neg_pos_less0 [of "now - unix_epoch" 1000000] by linarith
  moreover have "0 < unix_epoch" by (simp add: unix_epoch_def)
  moreover have "(now - unix_epoch) div 1000000 \<le> (now + ttl - unix_epoch) div 1000000" using ttl(1) by (intro zdiv_mono1) simp_all
  ultimately show ?thesis using ttl by (simp add: unixMilli_def)
qed (use assms(2,3) in simp)

lemma run_leases:
  assumes "db_wf (rs_db s)" "leases_set (rs_db s)" "0 < unixMilli (r_clock r (rs_world s))" "RecoverOnce r s = (e, s')"
  shows "leases_set (rs_db s')"
proof -
  have "0 < jb_lease_until row'" if row': "find_row (rs_db s') k = Some row'" "leased row'" for k row'
  proof -
    obtain row where row: "find_row (rs_db s) k = Some row" "recovery_step (r_clock r (rs_world s)) row row'"
      using rel_option_back [OF recover_rows [OF assms(1,4)] row'(1)] by blast
    then have "leased row \<longrightarrow> 0 < jb_lease_until row" using assms(2) by (simp add: leases_set_find [OF assms(1)])
    then show ?thesis using leased_step [OF row(2) row'(2) _ assms(3)] by blast
  qed
  then show ?thesis using leases_set_find [OF RecoverOnce_db(1) [OF assms(1,4)]] by blast
qed

lemma run_finishes:
  assumes "recovery_ready (r_env r) (rs_db s)" "leases_set (rs_db s)" "leases_over (r_clock r (rs_world s)) (rs_db s)"
    and "RecoverOnce r s = (e, s')" "\<not> no_active (rs_db s)"
  shows "pending (rs_db s') < pending (rs_db s)"
proof -
  obtain row where "row \<in> set (db_rows (rs_db s))" "active_status (jb_status row)" using assms(5) by (auto simp: no_active_def)
  moreover from this have "recoverable_row (r_clock r (rs_world s)) row"
    using assms(2,3) by (auto simp: leases_set_def leases_over_def leased_def recoverable_row_def active_status_def)
  ultimately show ?thesis using run_pending [OF assms(1,4)] by blast
qed

lemma run_no_active:
  assumes "db_wf (rs_db s)" "no_active (rs_db s)" "RecoverOnce r s = (e, s')"
  shows "no_active (rs_db s')"
proof -
  have "\<not> active_status (jb_status row')" if row': "find_row (rs_db s') k = Some row'" for k row'
  proof -
    obtain row where row: "find_row (rs_db s) k = Some row" "recovery_step (r_clock r (rs_world s)) row row'"
      using rel_option_back [OF recover_rows [OF assms(1,3)] row'] by blast
    then have "\<not> active_status (jb_status row)" using assms(2) find_row_Some [OF assms(1)] by (auto simp: no_active_def)
    then show ?thesis using row(2) by (auto simp: recovery_step_def active_status_def)
  qed
  then show ?thesis using find_row_Some [OF RecoverOnce_db(1) [OF assms(1,3)]] by (auto simp: no_active_def)
qed

lemma pending_0_active:
  assumes "pending db = 0"
  shows "no_active db"
proof -
  have "runs_left row = 0" if "row \<in> set (db_rows db)" for row using assms that by (simp add: pending_def sum_list_eq_0_iff)
  moreover have "runs_left row = 0 \<Longrightarrow> \<not> active_status (jb_status row)" for row
    by (auto simp: runs_left_def active_status_def split: if_splits)
  ultimately show ?thesis by (simp add: no_active_def)
qed

section \<open>The loop settles all jobs\<close>

text \<open>All that a run keeps of the table \<open>db0\<close> that the loop started with.\<close>

definition recovering :: "'w JobRecovery \<Rightarrow> job_db \<Rightarrow> job_db \<Rightarrow> bool" where
  "recovering r db0 db \<longleftrightarrow> recovery_ready (r_env r) db \<and> leases_set db \<and> dom (find_row db) = dom (find_row db0) \<and>
     pending db \<le> pending db0 \<and> came_from attempted db0 db \<and>
     (db_faults db0 = [] \<and> responses_marshal (r_env r) \<longrightarrow> db_faults db = [] \<and> came_from (answered r) db0 db)"

lemma recovering_refl: "recovery_ready (r_env r) db \<Longrightarrow> leases_set db \<Longrightarrow> recovering r db db"
  by (auto simp: recovering_def came_from_def attempted_def answered_def same_job_def)

lemma run_pending_mono:
  assumes "recovery_ready (r_env r) (rs_db s)" "RecoverOnce r s = (e, s')"
  shows "pending (rs_db s') \<le> pending (rs_db s)"
proof -
  have wf: "db_wf (rs_db s)" using assms(1) by (simp add: recovery_ready_def)
  note once = RecoverOnce_db [OF wf assms(2)] and rows = recover_rows [OF wf assms(2)]
  have mono: "\<forall>k row row'. find_row (rs_db s) k = Some row \<longrightarrow> recovery_step (r_clock r (rs_world s)) row row' \<longrightarrow>
      runs_left row' \<le> runs_left row"
    using assms(1) recovery_step_runs_left(1) by (simp add: recovery_ready_find)
  show ?thesis using sum_rows_mono(1) [where f = runs_left, OF wf once(1) rows mono] once(2) by (simp add: pending_def)
qed

lemma recovering_run:
  assumes "recovering r db0 (rs_db s)" "\<forall>w. 0 < unixMilli (r_clock r w)" "RecoverOnce r s = (e, s')"
  shows "recovering r db0 (rs_db s')"
proof -
  have ready: "recovery_ready (r_env r) (rs_db s)" and wf: "db_wf (rs_db s)"
    using assms(1) by (simp_all add: recovering_def recovery_ready_def)
  note ok = run_ready [OF ready assms(3)] and rows = recover_rows [OF wf assms(3)]
  have "leases_set (rs_db s')" using run_leases [OF wf _ _ assms(3)] assms(1,2) by (simp add: recovering_def)
  moreover have "came_from attempted db0 (rs_db s')"
    using came_from_step [OF _ rows attempted_step] assms(1) by (simp add: recovering_def)
  moreover have "db_faults (rs_db s') = [] \<and> came_from (answered r) db0 (rs_db s')" if "db_faults db0 = []" "responses_marshal (r_env r)"
  proof -
    have prev: "db_faults (rs_db s) = []" "came_from (answered r) db0 (rs_db s)" using assms(1) that by (simp_all add: recovering_def)
    note run = run_settles [OF prev(1) wf that(2) assms(3)]
    show ?thesis using run(1) came_from_step [OF prev(2) run(2)] answered_step by blast
  qed
  ultimately show ?thesis
    using ok run_pending_mono [OF ready assms(3)] assms(1) by (simp add: recovering_def)
qed

lemma runs_recovering:
  assumes "recovering r db0 (rs_db s)" "\<forall>w. 0 < unixMilli (r_clock r w)" "\<forall>other \<in> set others. \<forall>s. rs_db (other s) = rs_db s"
  shows "recovering r db0 (rs_db (fold (\<lambda>other s. recoverOnceAndLog r (other s)) others s))"
  using assms(1,3)
proof (induction others arbitrary: s)
  case (Cons other others)
  obtain e s1 where once: "RecoverOnce r (other s) = (e, s1)" by force
  have "recovering r db0 (rs_db (other s))" using Cons.prems by simp
  from recovering_run [OF this assms(2) once] Cons.IH [of s1] Cons.prems(2) show ?case
    by (simp add: recoverOnceAndLog_def once)
qed simp

lemma runs_finish:
  assumes "recovering r db0 (rs_db s)" "\<forall>w. 0 < unixMilli (r_clock r w)" "\<forall>other \<in> set others. \<forall>s. rs_db (other s) = rs_db s"
    and "leases_end r others s" "no_active (rs_db s) \<or> pending (rs_db s) \<le> length others"
  shows "no_active (rs_db (fold (\<lambda>other s. recoverOnceAndLog r (other s)) others s))"
  using assms(1,3-5)
proof (induction others arbitrary: s)
  case Nil
  then show ?case using pending_0_active by auto
next
  case (Cons other others)
  obtain e s1 where once: "RecoverOnce r (other s) = (e, s1)" by force
  have db: "rs_db (other s) = rs_db s" using Cons.prems(2) by simp
  have rec: "recovering r db0 (rs_db (other s))" using Cons.prems(1) db by simp
  then have ready: "recovery_ready (r_env r) (rs_db (other s))" "leases_set (rs_db (other s))" "db_wf (rs_db (other s))"
    by (simp_all add: recovering_def recovery_ready_def)
  have "no_active (rs_db s1) \<or> pending (rs_db s1) \<le> length others"
  proof (cases "no_active (rs_db (other s))")
    case True
    then show ?thesis using run_no_active [OF ready(3) _ once] by blast
  next
    case False
    then show ?thesis using run_finishes [OF ready(1,2) _ once] Cons.prems(3,4) db by simp
  qed
  from Cons.IH [OF recovering_run [OF rec assms(2) once] _ _ this] Cons.prems(2,3) show ?case
    by (simp add: recoverOnceAndLog_def once)
qed

text \<open>
  (C18) The recovery loop settles every job. Whatever the dispatches return, whichever statements of a finite number fail and whatever
  earlier ticks did: once as many ticks as \<open>pending\<close> (the attempts that the queued jobs have left, one more for each queued job, one
  for each leased job, one for each failing statement) have each found the leases in the table at their end, no job is queued, dispatching
  or running. No job is lost, and every job that was queued has ended succeeded, failed or ambiguous. When no statement fails and responses can be encoded, none
  of these is ambiguous: each holds the outcome of a dispatch of its own stored request, the response, or the error once its attempts
  are used up. (The rows of unfinished jobs can be read, and nothing else changes the table meanwhile.)
\<close>

theorem recovery_settles_jobs:
  assumes "recovery_ready (r_env r) (rs_db s)" "leases_set (rs_db s)" "\<forall>w. 0 < unixMilli (r_clock r w)"
    and "\<forall>other \<in> set (before @ after). \<forall>s. rs_db (other s) = rs_db s"
    and "pending (rs_db s) \<le> length after" "leases_end r after (JobRecovery_Start (Some r) before s)"
  shows "no_active (rs_db (JobRecovery_Start (Some r) (before @ after) s)) \<and>
    dom (find_row (rs_db (JobRecovery_Start (Some r) (before @ after) s))) = dom (find_row (rs_db s)) \<and>
    (\<forall>k row. find_row (rs_db s) k = Some row \<longrightarrow> jb_status row = JobQueued \<longrightarrow>
       (\<exists>row'. find_row (rs_db (JobRecovery_Start (Some r) (before @ after) s)) k = Some row' \<and> same_job row row' \<and>
          jb_status row' \<in> {JobSucceeded, JobFailed, JobAmbiguous} \<and>
          (db_faults (rs_db s) = [] \<longrightarrow> responses_marshal (r_env r) \<longrightarrow> dispatched_outcome r row row')))"
proof -
  let ?s1 = "JobRecovery_Start (Some r) before s" and ?s2 = "JobRecovery_Start (Some r) (before @ after) s"
  have s1: "?s1 = fold (\<lambda>other s. recoverOnceAndLog r (other s)) ((\<lambda>s. s) # before) s"
    and s2: "?s2 = fold (\<lambda>other s. recoverOnceAndLog r (other s)) after ?s1" by (simp_all add: JobRecovery_Start_def)
  have "recovering r (rs_db s) (rs_db ?s1)"
    unfolding s1 using recovering_refl [OF assms(1,2)] assms(3,4) by (intro runs_recovering) auto
  then have rec: "recovering r (rs_db s) (rs_db ?s2)" and fin: "no_active (rs_db ?s2)"
    unfolding s2 using assms(3-6) runs_finish [of r "rs_db s" ?s1 after] runs_recovering [of r "rs_db s" ?s1 after]
    by (auto simp: recovering_def)
  have "\<exists>row'. find_row (rs_db ?s2) k = Some row' \<and> same_job row row' \<and> jb_status row' \<in> {JobSucceeded, JobFailed, JobAmbiguous} \<and>
      (db_faults (rs_db s) = [] \<longrightarrow> responses_marshal (r_env r) \<longrightarrow> dispatched_outcome r row row')"
    if k: "find_row (rs_db s) k = Some row" "jb_status row = JobQueued" for k row
  proof -
    obtain row' where row': "find_row (rs_db ?s2) k = Some row'" "attempted row row'"
        "db_faults (rs_db s) = [] \<and> responses_marshal (r_env r) \<longrightarrow> answered r row row'"
      using rec k unfolding recovering_def came_from_def by (metis option.inject)
    moreover have "db_wf (rs_db ?s2)" using rec by (simp add: recovering_def recovery_ready_def)
    ultimately have "\<not> active_status (jb_status row')" using fin find_row_Some by (auto simp: no_active_def)
    then show ?thesis using row' by (auto simp: attempted_def answered_def active_status_def)
  qed
  then show ?thesis using fin rec by (auto simp: recovering_def)
qed

definition recovery_b :: "nat JobRecovery" where
  "recovery_b = \<lparr>r_env = plain_env, r_dispatch = (\<lambda>req w. (if w = 0 then Inl ''no workers'' else Inr response_a, Suc w)),
     r_clock = (\<lambda>w. unix_epoch + 1000000000 * (9 + int w)), r_format = (\<lambda>_. ''''), r_interval = 0, r_batchSize = 0, r_leaseTTL = 0\<rparr>"

lemma leases_end_b: "leases_end recovery_b (replicate 4 (\<lambda>s. s)) (JobRecovery_Start (Some recovery_b) [\<lambda>s. s] \<lparr>rs_db = db_a, rs_metrics = None, rs_world = 0\<rparr>)"
  by code_simp

theorem recovery_settles_jobs_witness:
  "\<exists>row row'. find_row db_a ''a'' = Some row \<and>
     find_row (rs_db (JobRecovery_Start (Some recovery_b) (replicate 5 (\<lambda>s. s)) \<lparr>rs_db = db_a, rs_metrics = None, rs_world = 0\<rparr>)) ''a'' = Some row' \<and>
     dispatched_outcome recovery_b row row'"
proof -
  let ?s = "\<lparr>rs_db = db_a, rs_metrics = None, rs_world = 0 :: nat\<rparr>" and ?i = "\<lambda>s :: nat recovery_state. s"
  have ready: "recovery_ready (r_env recovery_b) (rs_db ?s)" "leases_set (rs_db ?s)"
    by (simp_all add: recovery_ready_def leases_set_def leased_def db_a_eq recovery_b_def row_readable_def scanJob_def plain_env_def)
  have clock: "\<forall>w. 0 < unixMilli (r_clock recovery_b w)" by (simp add: recovery_b_def unixMilli_def unix_epoch_def)
  have enough: "pending (rs_db ?s) \<le> length (replicate 4 ?i)" by (simp add: pending_def db_a_eq runs_left_def)
  have still: "\<forall>other \<in> set ([?i] @ replicate 4 ?i). \<forall>s. rs_db (other s) = rs_db s" by simp
  obtain row where row: "find_row db_a ''a'' = Some row" "jb_status row = JobQueued" by (simp add: db_a_eq find_row_def)
  have "db_faults (rs_db ?s) = []" "responses_marshal (r_env recovery_b)"
    by (simp_all add: db_a_eq responses_marshal_def recovery_b_def plain_env_def)
  with recovery_settles_jobs [OF ready clock still enough leases_end_b] row
  have "\<exists>row'. find_row (rs_db (JobRecovery_Start (Some recovery_b) ([?i] @ replicate 4 ?i) ?s)) ''a'' = Some row' \<and> dispatched_outcome recovery_b row row'"
    by simp blast
  moreover have "[?i] @ replicate 4 ?i = replicate 5 ?i" by (simp add: eval_nat_numeral)
  ultimately show ?thesis using row(1) by simp
qed

section \<open>A row that cannot be read\<close>

lemma scan_all_unreadable: "\<exists>r \<in> set rs. isl (scanJob env r) \<Longrightarrow> \<exists>e. scan_all env rs = Inl e"
proof (induction rs)
  case (Cons r rs)
  then show ?case by (cases "scanJob env r") auto
qed simp

lemma length_filter_mono: "(\<And>x. P x \<Longrightarrow> Q x) \<Longrightarrow> length (filter P xs) \<le> length (filter Q xs)"
  by (induction xs) auto

lemma run_blocked:
  assumes "row \<in> set (db_rows (rs_db s))" "jb_status row = JobQueued" "isl (scanJob (r_env r) row)"
    and "length (filter (\<lambda>r. active_status (jb_status r)) (db_rows (rs_db s))) \<le> nat (batchSize r)"
  shows "db_rows (rs_db (recoverOnceAndLog r s)) = db_rows (rs_db s)"
proof -
  let ?now = "r_clock r (rs_world s)" and ?rows = "db_rows (rs_db s)"
  let ?sorted = "order_by_updated (order_rows (r_env r)) (filter (recoverable_row ?now) ?rows)"
  have pos: "0 < batchSize r" by (simp add: batchSize_def DefaultJobRecoveryBatchSize_def)
  have "length (filter (recoverable_row ?now) ?rows) \<le> length (filter (\<lambda>r. active_status (jb_status r)) ?rows)"
    using recoverable_active by (intro length_filter_mono) blast
  then have "take (nat (batchSize r)) ?sorted = ?sorted" using assms(4) by simp
  moreover have "row \<in> set ?sorted" using assms(1,2) by (simp add: recoverable_row_def)
  ultimately obtain e where "scan_all (r_env r) (take (nat (batchSize r)) ?sorted) = Inl e"
    using scan_all_unreadable assms(3) by metis
  moreover obtain out db where o: "next_outcome (rs_db s) = (out, db)" by force
  ultimately have "\<exists>err. ListRecoverable (r_env r) ?now (batchSize r) (rs_db s) = (Inl err, db)"
    using pos next_outcome_rows [OF o] by (cases out) (simp_all add: ListRecoverable_def Let_def)
  then obtain err where l: "ListRecoverable (r_env r) ?now (batchSize r) (rs_db s) = (Inl err, db)" by blast
  then show ?thesis
    using ListRecoverable_db(1) [OF l] by (simp add: recoverOnceAndLog_def RecoverOnce_def Let_def)
qed

text \<open>
  One queued row that cannot be read stops the recovery of all jobs for good, as
  long as the unfinished jobs fit into one batch: the listing fails as a whole at every tick.
\<close>

theorem unreadable_job_blocks_recovery:
  assumes "row \<in> set (db_rows (rs_db s))" "jb_status row = JobQueued" "isl (scanJob (r_env r) row)"
    and "length (filter (\<lambda>r. active_status (jb_status r)) (db_rows (rs_db s))) \<le> nat (batchSize r)"
    and "\<forall>other \<in> set others. \<forall>s. rs_db (other s) = rs_db s"
  shows "db_rows (rs_db (JobRecovery_Start (Some r) others s)) = db_rows (rs_db s)"
proof -
  have "db_rows (rs_db (fold (\<lambda>other s. recoverOnceAndLog r (other s)) others s)) = db_rows (rs_db s)"
    if "db_rows (rs_db s) = db_rows (rs_db s0)" "row \<in> set (db_rows (rs_db s0))"
      "length (filter (\<lambda>r. active_status (jb_status r)) (db_rows (rs_db s0))) \<le> nat (batchSize r)"
      "\<forall>other \<in> set others. \<forall>s. rs_db (other s) = rs_db s" for s s0
    using that
  proof (induction others arbitrary: s)
    case (Cons other others)
    have "db_rows (rs_db (recoverOnceAndLog r (other s))) = db_rows (rs_db s)"
      using run_blocked [of row "other s" r] assms(2,3) Cons.prems by simp
    then show ?case using Cons.IH [of "recoverOnceAndLog r (other s)"] Cons.prems by simp
  qed simp
  from this [OF run_blocked [OF assms(1-4)] assms(1,4,5)] show ?thesis
    using run_blocked [OF assms(1-4)] by (simp add: JobRecovery_Start_def)
qed

end
