(* ===== verification/Master_Gateway.thy ===== *)
theory Master_Gateway
  imports Shared_Http Master_Dispatcher Master_Jobs
begin

text \<open>
  \<open>src/internal/master/gateway.go\<close>: the HTTP handlers of the master.

  A handler maps a request and the gateway's state to a reply and the new state. Arguments from outside are in
  \<open>gateway_env\<close>: the JSON decoders behind \<open>http.MaxBytesReader\<close> (the first argument is the limit),
  \<open>url.Parse\<close>, the random source, the fingerprint, the store's environment, iteration orders, and the
  clock, where \<open>ge_clock env i\<close> is the \<open>i\<close>-th reading of the handler. The handlers that dispatch return
  \<open>None\<close> when the dispatch never ends. A nil dispatcher or registry panics where a handler would use it.
  Gateway and dispatcher share one set of counters, as in \<open>cmd/master\<close>.
\<close>

record gateway_env =
  ge_decode_node :: "int \<Rightarrow> string \<Rightarrow> WorkerNode decoded"
  ge_decode_beat :: "int \<Rightarrow> string \<Rightarrow> Heartbeat decoded"
  ge_decode_drain :: "int \<Rightarrow> string \<Rightarrow> DrainRequest decoded"
  ge_decode_completion :: "int \<Rightarrow> string \<Rightarrow> JobCompletionRequest decoded"
  ge_decode_execution :: "int \<Rightarrow> string \<Rightarrow> ExecutionRequest decoded"
  ge_parse :: "string \<Rightarrow> URL go_result"
  ge_lower :: "string \<Rightarrow> string"
  ge_random :: "string go_result"
  ge_fingerprint :: "ExecutionRequest \<Rightarrow> string go_result"
  ge_store :: store_env
  ge_clock :: "nat \<Rightarrow> time"
  ge_format :: "time \<Rightarrow> string"
  ge_workers :: "(string, WorkerNode) visit"
  ge_tracked :: tracked_visit
  ge_counts :: "(string, counter) visit"

record 'n Gateway =
  gw_Registry :: "Registry option"
  gw_Dispatcher :: "'n Dispatcher option"
  gw_Metrics :: "Metrics option"
  gw_Requests :: "ExecutionRequestTracker option"
  gw_JobStore :: "job_db option"
  gw_ExecuteClientIDs :: "string list"
  gw_MaxExecuteBodyBytes :: int
  gw_ModulePolicy :: ModulePolicy
  gw_RequestCacheTTL :: duration
  gw_RequestCacheMaxEntries :: int
  gw_JobMaxAttempts :: int
  gw_JobLeaseTTL :: duration
  gw_tokens :: ACRTokenProvider
  gw_net :: 'n

section \<open>Settings and lazily created parts\<close>

definition defaultMaxExecuteBodyBytes :: int where "defaultMaxExecuteBodyBytes = 2 * 2 ^ 20"
definition internalControlMaxBodyBytes :: int where "internalControlMaxBodyBytes = 4 * 2 ^ 10"

definition maxExecuteBodyBytes :: "'n Gateway \<Rightarrow> int" where
  "maxExecuteBodyBytes g = (if gw_MaxExecuteBodyBytes g > 0 then gw_MaxExecuteBodyBytes g else defaultMaxExecuteBodyBytes)"

definition requestCacheTTL :: "'n Gateway \<Rightarrow> duration" where
  "requestCacheTTL g = (if gw_RequestCacheTTL g > 0 then gw_RequestCacheTTL g else DefaultExecutionRequestCacheTTL)"

definition requestCacheMaxEntries :: "'n Gateway \<Rightarrow> int" where
  "requestCacheMaxEntries g =
     (if gw_RequestCacheMaxEntries g > 0 then gw_RequestCacheMaxEntries g else DefaultExecutionRequestCacheMaxEntries)"

definition jobMaxAttempts :: "'n Gateway \<Rightarrow> int" where
  "jobMaxAttempts g = (if gw_JobMaxAttempts g > 0 then gw_JobMaxAttempts g else DefaultJobMaxAttempts)"

definition jobLeaseTTL :: "'n Gateway \<Rightarrow> duration" where
  "jobLeaseTTL g = (if gw_JobLeaseTTL g > 0 then gw_JobLeaseTTL g else DefaultJobLeaseTTL)"

text \<open>\<open>g.metrics()\<close> followed by a counter, and \<open>g.requests()\<close>.\<close>

definition with_metrics :: "gateway_env \<Rightarrow> (Metrics option \<Rightarrow> Metrics option) \<Rightarrow> 'n Gateway \<Rightarrow> 'n Gateway" where
  "with_metrics env inc g =
     g\<lparr>gw_Metrics := inc (case gw_Metrics g of None \<Rightarrow> Some (NewMetrics (ge_clock env 0)) | Some m \<Rightarrow> Some m)\<rparr>"

definition with_requests :: "'n Gateway \<Rightarrow> 'n Gateway" where
  "with_requests g =
     (case gw_Requests g of
        None \<Rightarrow> g\<lparr>gw_Requests := Some (NewExecutionRequestTrackerWithLimit (requestCacheTTL g) (requestCacheMaxEntries g))\<rparr>
      | Some _ \<Rightarrow> g)"

definition attachDispatcherMetrics :: "gateway_env \<Rightarrow> 'n Gateway \<Rightarrow> 'n Gateway" where
  "attachDispatcherMetrics env g = (if gw_Dispatcher g = None then g else with_metrics env (\<lambda>m. m) g)"

section \<open>Identity\<close>

definition workerCertificateName :: "string \<Rightarrow> string" where
  "workerCertificateName workerID = ''wasmcat-worker-'' @ workerID"

definition validateWorkerPeerIdentity :: "http_request \<Rightarrow> string \<Rightarrow> go_error" where
  "validateWorkerPeerIdentity r workerID0 =
     (let workerID = TrimSpace workerID0 in
      if workerID = '''' then Some ''worker id is required''
      else case rq_TLS r of
        None \<Rightarrow> None
      | Some [] \<Rightarrow> Some ''worker client certificate is required''
      | Some (c # _) \<Rightarrow>
          (let expectedName = workerCertificateName workerID in
           if CommonName c = expectedName then None
           else if list_ex (\<lambda>dnsName. dnsName = workerID \<or> dnsName = expectedName) (DNSNames c) then None
           else Some ''worker certificate identity is not allowed to claim worker id''))"

definition validateExecuteClientIdentity :: "string list \<Rightarrow> http_request \<Rightarrow> go_error" where
  "validateExecuteClientIdentity ids r =
     (if ids = [] then None
      else case rq_TLS r of
        None \<Rightarrow> Some ''execution client certificate is required''
      | Some [] \<Rightarrow> Some ''execution client certificate is required''
      | Some (c # _) \<Rightarrow>
          if list_ex (\<lambda>allowedID0.
               let allowedID = TrimSpace allowedID0 in
               allowedID \<noteq> '''' \<and> (CommonName c = allowedID \<or> list_ex (\<lambda>dnsName. dnsName = allowedID) (DNSNames c))) ids
          then None
          else Some ''execution client certificate identity is not allowed'')"

section \<open>Health and metrics\<close>

type_synonym 'n handler = "http_request \<Rightarrow> 'n Gateway \<Rightarrow> reply \<times> 'n Gateway"

definition handleHealth :: "'n handler" where
  "handleHealth r g =
     (case RequireMethod r MethodGet of
        Some resp \<Rightarrow> (Replied resp, g)
      | None \<Rightarrow> (Replied (WriteJSON 200 (JHealth \<lparr>hr_Status = ''ok'', hr_NodeID = '''', hr_Role = ''master''\<rparr>)), g))"

text \<open>A dispatcher of the model always has a scheduler, so the test for a missing one falls away.\<close>

definition handleReady :: "'n handler" where
  "handleReady r g =
     (case RequireMethod r MethodGet of
        Some resp \<Rightarrow> (Replied resp, g)
      | None \<Rightarrow>
          if gw_Registry g = None \<or> gw_Dispatcher g = None
          then (Replied (WriteError 503 ''not_ready'' (Some ''master dependencies are not initialized'')), g)
          else (Replied (WriteJSON 200 (JHealth \<lparr>hr_Status = ''ready'', hr_NodeID = '''', hr_Role = ''master''\<rparr>)), g))"

definition handleMetrics :: "gateway_env \<Rightarrow> 'n handler" where
  "handleMetrics env r g =
     (case RequireMethod r MethodGet of
        Some resp \<Rightarrow> (Replied resp, g)
      | None \<Rightarrow>
          (let g = with_requests (attachDispatcherMetrics env g);
               (active, byState, oldest) =
                 (case gw_Registry g of
                    None \<Rightarrow> (0, [], None)
                  | Some reg \<Rightarrow> (ActiveWorkerCount reg, WorkerStateCounts (ge_workers env) reg,
                                 OldestHeartbeatAge (ge_workers env) (ge_clock env 1) reg));
               (stats, requests) = Stats (ge_tracked env) (ge_clock env 2) (gw_Requests g);
               g = with_metrics env (\<lambda>m. m) (g\<lparr>gw_Requests := requests\<rparr>)
           in case MasterSnapshotWithRequestTracker (ge_counts env) (ge_clock env 3) active byState oldest (Some stats) (gw_Metrics g) of
                None \<Rightarrow> (Panicked, g)
              | Some snapshot \<Rightarrow> (Replied (WriteJSON 200 (JMetrics snapshot)), g)))"

section \<open>Workers\<close>

definition handleRegister :: "gateway_env \<Rightarrow> 'n handler" where
  "handleRegister env r g =
     (case RequireMethod r MethodPost of
        Some resp \<Rightarrow> (Replied resp, g)
      | None \<Rightarrow>
          (case ge_decode_node env internalControlMaxBodyBytes (rq_Body r) of
             BodyTooLarge \<Rightarrow> (Replied (WriteError 413 ''request_body_too_large'' None), g)
           | BadJSON \<Rightarrow> (Replied (WriteError 400 ''invalid_worker_data'' None), g)
           | Decoded node \<Rightarrow>
               (case validateWorkerPeerIdentity r (wn_ID node) of
                  Some err \<Rightarrow> (Replied (WriteError 403 ''worker_identity_mismatch'' (Some err)), g)
                | None \<Rightarrow>
                    (case gw_Registry g of
                       None \<Rightarrow> (Panicked, g)
                     | Some reg \<Rightarrow>
                         (Replied (WriteJSON 200 (JApi \<lparr>api_Status = ''success'', api_Message = ''Worker registered successfully''\<rparr>)),
                          g\<lparr>gw_Registry := Some (RegisterWorker (ge_clock env 0) node reg)\<rparr>)))))"

definition handleHeartbeat :: "gateway_env \<Rightarrow> 'n handler" where
  "handleHeartbeat env r g =
     (case RequireMethod r MethodPost of
        Some resp \<Rightarrow> (Replied resp, g)
      | None \<Rightarrow>
          (case ge_decode_beat env internalControlMaxBodyBytes (rq_Body r) of
             BodyTooLarge \<Rightarrow> (Replied (WriteError 413 ''request_body_too_large'' None), g)
           | BadJSON \<Rightarrow> (Replied (WriteError 400 ''invalid_heartbeat'' None), g)
           | Decoded beat \<Rightarrow>
               (case validateWorkerPeerIdentity r (hb_NodeID beat) of
                  Some err \<Rightarrow> (Replied (WriteError 403 ''worker_identity_mismatch'' (Some err)), g)
                | None \<Rightarrow>
                    (case gw_Registry g of
                       None \<Rightarrow> (Panicked, g)
                     | Some reg \<Rightarrow>
                         (case UpdateWorkerStatus (ge_clock env 0) beat reg of
                            (Some err, reg) \<Rightarrow>
                              (Replied (WriteError 404 ''worker_not_found'' (Some err)), g\<lparr>gw_Registry := Some reg\<rparr>)
                          | (None, reg) \<Rightarrow> (Replied (WriteJSON 200 JEmpty), g\<lparr>gw_Registry := Some reg\<rparr>))))))"

text \<open>The end of both drain handlers.\<close>

definition drain_and_reply :: "gateway_env \<Rightarrow> string \<Rightarrow> Registry \<Rightarrow> 'n Gateway \<Rightarrow> reply \<times> 'n Gateway" where
  "drain_and_reply env workerID reg g =
     (case DrainWorker (ge_clock env 0) workerID reg of
        (Some err, reg) \<Rightarrow> (Replied (WriteError 404 ''worker_not_found'' (Some err)), g\<lparr>gw_Registry := Some reg\<rparr>)
      | (None, reg) \<Rightarrow>
          (Replied (WriteJSON 200 (JApi \<lparr>api_Status = ''success'', api_Message = ''Worker marked as draining''\<rparr>)),
           g\<lparr>gw_Registry := Some reg\<rparr>))"

definition handleDrain :: "gateway_env \<Rightarrow> 'n handler" where
  "handleDrain env r g =
     (case RequireMethod r MethodPost of
        Some resp \<Rightarrow> (Replied resp, g)
      | None \<Rightarrow>
          (case ge_decode_drain env internalControlMaxBodyBytes (rq_Body r) of
             BodyTooLarge \<Rightarrow> (Replied (WriteError 413 ''request_body_too_large'' None), g)
           | BadJSON \<Rightarrow> (Replied (WriteError 400 ''invalid_drain_request'' None), g)
           | Decoded req \<Rightarrow>
               (case validateWorkerPeerIdentity r (dr_NodeID req) of
                  Some err \<Rightarrow> (Replied (WriteError 403 ''worker_identity_mismatch'' (Some err)), g)
                | None \<Rightarrow>
                    (case gw_Registry g of
                       None \<Rightarrow> (Panicked, g)
                     | Some reg \<Rightarrow> drain_and_reply env (dr_NodeID req) reg g))))"

definition handleListWorkers :: "gateway_env \<Rightarrow> 'n handler" where
  "handleListWorkers env r g =
     (case RequireMethod r MethodGet of
        Some resp \<Rightarrow> (Replied resp, g)
      | None \<Rightarrow>
          (case validateExecuteClientIdentity (gw_ExecuteClientIDs g) r of
             Some err \<Rightarrow> (Replied (WriteError 403 ''execute_client_unauthorized'' (Some err)), g)
           | None \<Rightarrow>
               (case gw_Registry g of
                  None \<Rightarrow> (Replied (WriteError 503 ''not_ready'' (Some ''worker registry is not initialized'')), g)
                | Some reg \<Rightarrow> (Replied (WriteJSON 200 (JWorkers (GetActiveWorkers (ge_workers env) reg))), g))))"

definition handleOperatorDrain :: "gateway_env \<Rightarrow> string \<Rightarrow> 'n handler" where
  "handleOperatorDrain env workerID r g =
     (case RequireMethod r MethodPost of
        Some resp \<Rightarrow> (Replied resp, g)
      | None \<Rightarrow>
          (case validateExecuteClientIdentity (gw_ExecuteClientIDs g) r of
             Some err \<Rightarrow> (Replied (WriteError 403 ''execute_client_unauthorized'' (Some err)), g)
           | None \<Rightarrow>
               (case gw_Registry g of
                  None \<Rightarrow> (Replied (WriteError 503 ''not_ready'' (Some ''worker registry is not initialized'')), g)
                | Some reg \<Rightarrow> drain_and_reply env workerID reg g)))"

definition handleWorkerSubresource :: "gateway_env \<Rightarrow> 'n handler" where
  "handleWorkerSubresource env r g =
     (let rest = TrimPrefix (rq_Path r) ''/api/v1/workers/'';
          (workerID0, action, ok) = Cut CHR ''/'' rest;
          workerID = TrimSpace workerID0
      in if \<not> ok \<or> workerID = '''' then (Replied (WriteError 404 ''not_found'' (Some ''unknown worker route'')), g)
         else if action = ''drain'' then handleOperatorDrain env workerID r g
         else (Replied (WriteError 404 ''not_found'' (Some ''unknown worker action'')), g))"

section \<open>Completions\<close>

fun completion_store_error :: "job_error \<Rightarrow> http_response" where
  "completion_store_error ErrJobNotFound = WriteError 404 ''job_not_found'' (Some (job_error_text ErrJobNotFound))"
| "completion_store_error err = WriteError 503 ''dispatch_failed'' (Some (job_error_text err))"

text \<open>The switch over the completion status; \<open>None\<close> for the response is excluded by the check before it.\<close>

definition record_completion :: "gateway_env \<Rightarrow> JobCompletionRequest \<Rightarrow> job_db \<Rightarrow> reply \<times> job_db" where
  "record_completion env completion db =
     (let recorded = Replied (WriteJSON 200 (JApi \<lparr>api_Status = ''success'', api_Message = ''Job completion recorded''\<rparr>));
          answer = (\<lambda>(e, db). (case e of None \<Rightarrow> recorded | Some err \<Rightarrow> Replied (completion_store_error err), db))
      in if jc_Status completion = JobCompletionSucceeded then
           (case jc_Response completion of
              None \<Rightarrow> (Panicked, db)
            | Some response0 \<Rightarrow>
                (let response = response0\<lparr>resp_RequestID := jc_RequestID completion,
                       resp_ExecutedOnNodeID := (if resp_ExecutedOnNodeID response0 = '''' then jc_WorkerID completion
                                                 else resp_ExecutedOnNodeID response0)\<rparr>
                 in answer (MarkSucceeded (ge_store env) (ge_clock env 0) (jc_RequestID completion) response db)))
         else if jc_Status completion = JobCompletionFailed then
           answer (MarkFailed (ge_clock env 0) (jc_RequestID completion) (jc_Error completion) db)
         else (Replied (WriteError 400 ''invalid_job_completion'' (Some ''unsupported completion status'')), db))"

definition handleJobCompletion :: "gateway_env \<Rightarrow> 'n handler" where
  "handleJobCompletion env r g =
     (case RequireMethod r MethodPost of
        Some resp \<Rightarrow> (Replied resp, g)
      | None \<Rightarrow>
          (case gw_JobStore g of
             None \<Rightarrow> (Replied (WriteError 503 ''not_ready'' (Some ''job store is not configured'')), g)
           | Some db \<Rightarrow>
               (case ge_decode_completion env internalControlMaxBodyBytes (rq_Body r) of
                  BodyTooLarge \<Rightarrow> (Replied (WriteError 413 ''request_body_too_large'' None), g)
                | BadJSON \<Rightarrow> (Replied (WriteError 400 ''invalid_job_completion'' None), g)
                | Decoded completion \<Rightarrow>
                    (case JobCompletionRequest_Validate completion of
                       Some err \<Rightarrow> (Replied (WriteError 400 ''invalid_job_completion'' (Some err)), g)
                     | None \<Rightarrow>
                         (case validateWorkerPeerIdentity r (jc_WorkerID completion) of
                            Some err \<Rightarrow> (Replied (WriteError 403 ''worker_identity_mismatch'' (Some err)), g)
                          | None \<Rightarrow>
                              (case record_completion env completion db of
                                 (rep, db) \<Rightarrow> (rep, g\<lparr>gw_JobStore := Some db\<rparr>)))))))"

section \<open>Decoding an execution request\<close>

definition decodeExecutionRequest ::
  "gateway_env \<Rightarrow> http_request \<Rightarrow> 'n Gateway \<Rightarrow> http_response + ExecutionRequest" where
  "decodeExecutionRequest env r g =
     (case ge_decode_execution env (maxExecuteBodyBytes g) (rq_Body r) of
        BodyTooLarge \<Rightarrow> Inl (WriteError 413 ''request_body_too_large'' None)
      | BadJSON \<Rightarrow> Inl (WriteError 400 ''invalid_execution_request'' None)
      | Decoded req \<Rightarrow>
          (case ExecutionRequest_Validate req of
             Some err \<Rightarrow> Inl (WriteError 400 ''invalid_execution_request'' (Some err))
           | None \<Rightarrow>
               (case ModulePolicy_Validate (ge_parse env) (ge_lower env) (gw_ModulePolicy g) req of
                  Some err \<Rightarrow> Inl (WriteError 403 ''module_policy_violation'' (Some err))
                | None \<Rightarrow>
                    (case EnsureRequestID (ge_random env) (req_RequestID req) of
                       Inl err \<Rightarrow> Inl (WriteError 400 ''invalid_execution_request'' (Some err))
                     | Inr requestID \<Rightarrow> Inr (req\<lparr>req_RequestID := requestID\<rparr>)))))"

section \<open>Executing\<close>

text \<open>\<open>g.Dispatcher.Dispatch\<close> on the gateway's state; \<open>Inl Panicked\<close> for a missing dispatcher or registry.\<close>

definition gateway_dispatch ::
  "gateway_env \<Rightarrow> ExecutionRequest \<Rightarrow> 'n Gateway \<Rightarrow> ((reply + (dispatch_error + ExecutionResponse)) \<times> 'n Gateway) option" where
  "gateway_dispatch env req g =
     (case (gw_Dispatcher g, gw_Registry g) of
        (Some d, Some reg) \<Rightarrow>
          map_option (\<lambda>(res, s). (Inr res, g\<lparr>gw_tokens := ds_tokens s, gw_Metrics := ds_metrics s, gw_net := ds_net s\<rparr>))
            (Dispatch d (ge_workers env) reg req
               \<lparr>ds_tokens = gw_tokens g, ds_metrics = gw_Metrics g, ds_net = gw_net g\<rparr>)
      | _ \<Rightarrow> Some (Inl Panicked, g))"

definition execute_tracked ::
  "gateway_env \<Rightarrow> ExecutionRequest \<Rightarrow> 'n Gateway \<Rightarrow> (reply \<times> 'n Gateway) option" where
  "execute_tracked env req g =
     (case gateway_dispatch env req (attachDispatcherMetrics env g) of
        None \<Rightarrow> None
      | Some (Inl rep, g) \<Rightarrow> Some (rep, g)
      | Some (Inr (Inl err), g) \<Rightarrow>
          Some (Replied (WriteError 503 ''dispatch_failed'' (Some (de_text err))),
                with_metrics env IncDispatchFailure (g\<lparr>gw_Requests := Forget (req_RequestID req) (gw_Requests g)\<rparr>))
      | Some (Inr (Inr result), g) \<Rightarrow>
          Some (Replied (WriteJSON 200 (JExec result)),
                with_metrics env IncDispatchSuccess
                  (g\<lparr>gw_Requests := Complete (ge_tracked env) (ge_clock env 2) (req_RequestID req) result (gw_Requests g)\<rparr>)))"

definition execute_cached ::
  "gateway_env \<Rightarrow> ExecutionRequest \<Rightarrow> 'n Gateway \<Rightarrow> (reply \<times> 'n Gateway) option" where
  "execute_cached env req g0 =
     (let g = with_requests g0 in
      case Begin (ge_fingerprint env) (ge_tracked env) (ge_clock env 1) req (gw_Requests g) of
        (Inl err, requests) \<Rightarrow>
          Some (Replied (WriteError 400 ''invalid_execution_request'' (Some err)), g\<lparr>gw_Requests := requests\<rparr>)
      | (Inr status, requests) \<Rightarrow>
          (let g = g\<lparr>gw_Requests := requests\<rparr> in
           case st_Decision status of
             ExecutionRequestCompleted \<Rightarrow>
               Some (Replied (WriteJSON 200 (JExec (st_Response status))), with_metrics env IncRequestCacheHit g)
           | ExecutionRequestInFlight \<Rightarrow>
               Some (Replied (WriteError 409 ''request_in_progress'' (Some ''request_id is already running'')),
                     with_metrics env IncRequestInProgressConflict g)
           | ExecutionRequestConflict \<Rightarrow>
               Some (Replied (WriteError 409 ''request_id_conflict'' (Some ''request_id was already used for a different execution request'')),
                     with_metrics env IncRequestIDConflict g)
           | ExecutionRequestStarted \<Rightarrow> execute_tracked env req g))"

section \<open>Durable execution\<close>

text \<open>
  What \<open>beginDurableJob\<close> decides: start the dispatch, or send the reply it has written. The counters it
  bumps are a function on the gateway. \<open>createQueuedJob\<close> shares the creation and the lookup.
\<close>

datatype begin_outcome = Starts JobRecord | Answers http_response "Metrics option \<Rightarrow> Metrics option"

definition existing_job_outcome :: "JobRecord \<Rightarrow> begin_outcome" where
  "existing_job_outcome existing =
     (if job_Status existing = JobSucceeded then
        (case job_Response existing of
           None \<Rightarrow> Answers (WriteError 503 ''dispatch_failed'' (Some ''job succeeded without a stored response'')) (\<lambda>m. m)
         | Some resp \<Rightarrow> Answers (WriteJSON 200 (JExec resp)) IncRequestCacheHit)
      else if job_Status existing = JobQueued \<or> job_Status existing = JobDispatching \<or> job_Status existing = JobRunning then
        Answers (WriteError 409 ''request_in_progress'' (Some ''request_id is already running'')) IncRequestInProgressConflict
      else if job_Status existing = JobFailed then
        (if job_MaxAttempts existing > 0 \<and> job_Attempt existing \<ge> job_MaxAttempts existing
         then Answers (WriteError 503 ''dispatch_failed'' (Some ''request_id reached max attempts'')) IncDispatchFailure
         else Starts existing)
      else if job_Status existing = JobAmbiguous then
        Answers (WriteError 409 ''request_in_progress'' (Some ''request_id is ambiguous and requires recovery''))
          IncRequestInProgressConflict
      else Answers (WriteError 503 ''dispatch_failed'' (Some ''job has unknown status'')) (\<lambda>m. m))"

definition request_id_conflict :: begin_outcome where
  "request_id_conflict =
     Answers (WriteError 409 ''request_id_conflict'' (Some ''request_id was already used for a different execution request''))
       IncRequestIDConflict"

definition beginDurableJob ::
  "gateway_env \<Rightarrow> int \<Rightarrow> ExecutionRequest \<Rightarrow> job_db \<Rightarrow> begin_outcome \<times> job_db" where
  "beginDurableJob env maxAttempts req db0 =
     (case ge_fingerprint env req of
        Inl err \<Rightarrow> (Answers (WriteError 400 ''invalid_execution_request'' (Some err)) (\<lambda>m. m), db0)
      | Inr fingerprint \<Rightarrow>
          (let job = NewJobRecord req fingerprint maxAttempts (ge_clock env 1) in
           case Create (ge_store env) (ge_clock env 2) job db0 of
             (None, db) \<Rightarrow> (Starts job, db)
           | (Some ErrJobExists, db) \<Rightarrow>
               (case Get (ge_store env) (req_RequestID req) db of
                  (Inl err, db) \<Rightarrow> (Answers (WriteError 503 ''dispatch_failed'' (Some (job_error_text err))) (\<lambda>m. m), db)
                | (Inr existing, db) \<Rightarrow>
                    if job_Fingerprint existing \<noteq> fingerprint then (request_id_conflict, db)
                    else (existing_job_outcome existing, db))
           | (Some err, db) \<Rightarrow> (Answers (WriteError 503 ''dispatch_failed'' (Some (job_error_text err))) (\<lambda>m. m), db)))"

text \<open>The part of \<open>handleDurableExecute\<close> after the job may start.\<close>

definition dispatch_durable ::
  "gateway_env \<Rightarrow> ExecutionRequest \<Rightarrow> job_db \<Rightarrow> 'n Gateway \<Rightarrow> (reply \<times> 'n Gateway) option" where
  "dispatch_durable env req db g =
     (case MarkDispatching (ge_clock env 4) (req_RequestID req) '''' (ge_clock env 3 + jobLeaseTTL g) db of
        (Some err, db) \<Rightarrow>
          Some (Replied (WriteError 503 ''dispatch_failed'' (Some (job_error_text err))),
                with_metrics env IncDispatchFailure (g\<lparr>gw_JobStore := Some db\<rparr>))
      | (None, db) \<Rightarrow>
          (case gateway_dispatch env req (attachDispatcherMetrics env (g\<lparr>gw_JobStore := Some db\<rparr>)) of
             None \<Rightarrow> None
           | Some (Inl rep, g) \<Rightarrow> Some (rep, g)
           | Some (Inr (Inl err), g) \<Rightarrow>
               (case MarkFailed (ge_clock env 5) (req_RequestID req) (de_text err) db of
                  (_, db) \<Rightarrow>
                    Some (Replied (WriteError 503 ''dispatch_failed'' (Some (de_text err))),
                          with_metrics env IncDispatchFailure (g\<lparr>gw_JobStore := Some db\<rparr>)))
           | Some (Inr (Inr result), g) \<Rightarrow>
               (case MarkSucceeded (ge_store env) (ge_clock env 5) (req_RequestID req) result db of
                  (Some err, db) \<Rightarrow>
                    Some (Replied (WriteError 503 ''dispatch_failed'' (Some (job_error_text err))),
                          with_metrics env IncDispatchFailure (g\<lparr>gw_JobStore := Some db\<rparr>))
                | (None, db) \<Rightarrow>
                    Some (Replied (WriteJSON 200 (JExec result)),
                          with_metrics env IncDispatchSuccess (g\<lparr>gw_JobStore := Some db\<rparr>)))))"

definition handleDurableExecute ::
  "gateway_env \<Rightarrow> ExecutionRequest \<Rightarrow> job_db \<Rightarrow> 'n Gateway \<Rightarrow> (reply \<times> 'n Gateway) option" where
  "handleDurableExecute env req db0 g =
     (case beginDurableJob env (jobMaxAttempts g) req db0 of
        (Answers resp inc, db) \<Rightarrow> Some (Replied resp, with_metrics env inc (g\<lparr>gw_JobStore := Some db\<rparr>))
      | (Starts _, db) \<Rightarrow> dispatch_durable env req db g)"

definition handleExecute :: "gateway_env \<Rightarrow> http_request \<Rightarrow> 'n Gateway \<Rightarrow> (reply \<times> 'n Gateway) option" where
  "handleExecute env r g =
     (case RequireMethod r MethodPost of
        Some resp \<Rightarrow> Some (Replied resp, g)
      | None \<Rightarrow>
          (case validateExecuteClientIdentity (gw_ExecuteClientIDs g) r of
             Some err \<Rightarrow> Some (Replied (WriteError 403 ''execute_client_unauthorized'' (Some err)), g)
           | None \<Rightarrow>
               (case decodeExecutionRequest env r g of
                  Inl resp \<Rightarrow> Some (Replied resp, g)
                | Inr req \<Rightarrow>
                    (case gw_JobStore g of
                       Some db \<Rightarrow> handleDurableExecute env req db g
                     | None \<Rightarrow> execute_cached env req g))))"

section \<open>Asynchronous jobs\<close>

definition formatJobTime :: "gateway_env \<Rightarrow> time \<Rightarrow> string" where
  "formatJobTime env t = (if IsZero t then '''' else ge_format env t)"

definition jobResponse :: "gateway_env \<Rightarrow> JobRecord \<Rightarrow> JobResponse" where
  "jobResponse env job =
     \<lparr>jr_RequestID = job_RequestID job, jr_Status = job_Status job, jr_WorkerID = job_WorkerID job,
      jr_Attempt = job_Attempt job, jr_MaxAttempts = job_MaxAttempts job,
      jr_LeaseUntil = (if IsZero (job_LeaseUntil job) then '''' else formatJobTime env (job_LeaseUntil job)),
      jr_LastError = job_LastError job, jr_Response = job_Response job,
      jr_CreatedAt = formatJobTime env (job_CreatedAt job), jr_UpdatedAt = formatJobTime env (job_UpdatedAt job)\<rparr>"

definition createQueuedJob ::
  "gateway_env \<Rightarrow> int \<Rightarrow> ExecutionRequest \<Rightarrow> job_db \<Rightarrow> (begin_outcome + (JobRecord \<times> int)) \<times> job_db" where
  "createQueuedJob env maxAttempts req db0 =
     (case ge_fingerprint env req of
        Inl err \<Rightarrow> (Inl (Answers (WriteError 400 ''invalid_execution_request'' (Some err)) (\<lambda>m. m)), db0)
      | Inr fingerprint \<Rightarrow>
          (let job = NewJobRecord req fingerprint maxAttempts (ge_clock env 1) in
           case Create (ge_store env) (ge_clock env 2) job db0 of
             (None, db) \<Rightarrow> (Inr (job, 202), db)
           | (Some ErrJobExists, db) \<Rightarrow>
               (case Get (ge_store env) (req_RequestID req) db of
                  (Inl err, db) \<Rightarrow> (Inl (Answers (WriteError 503 ''dispatch_failed'' (Some (job_error_text err))) (\<lambda>m. m)), db)
                | (Inr existing, db) \<Rightarrow>
                    if job_Fingerprint existing \<noteq> fingerprint then (Inl request_id_conflict, db)
                    else (Inr (existing, 200), db))
           | (Some err, db) \<Rightarrow> (Inl (Answers (WriteError 503 ''dispatch_failed'' (Some (job_error_text err))) (\<lambda>m. m)), db)))"

definition handleCreateJob :: "gateway_env \<Rightarrow> 'n handler" where
  "handleCreateJob env r g =
     (case RequireMethod r MethodPost of
        Some resp \<Rightarrow> (Replied resp, g)
      | None \<Rightarrow>
          (case validateExecuteClientIdentity (gw_ExecuteClientIDs g) r of
             Some err \<Rightarrow> (Replied (WriteError 403 ''execute_client_unauthorized'' (Some err)), g)
           | None \<Rightarrow>
               (case gw_JobStore g of
                  None \<Rightarrow> (Replied (WriteError 503 ''not_ready'' (Some ''job store is not configured'')), g)
                | Some db0 \<Rightarrow>
                    (case decodeExecutionRequest env r g of
                       Inl resp \<Rightarrow> (Replied resp, g)
                     | Inr req \<Rightarrow>
                         (case createQueuedJob env (jobMaxAttempts g) req db0 of
                            (Inr (job, status), db) \<Rightarrow>
                              (Replied (WriteJSON status (JJob (jobResponse env job))), g\<lparr>gw_JobStore := Some db\<rparr>)
                          | (Inl (Answers resp inc), db) \<Rightarrow>
                              (Replied resp, with_metrics env inc (g\<lparr>gw_JobStore := Some db\<rparr>))
                          | (Inl (Starts _), db) \<Rightarrow> (Panicked, g\<lparr>gw_JobStore := Some db\<rparr>))))))"

definition handleGetJob :: "gateway_env \<Rightarrow> 'n handler" where
  "handleGetJob env r g =
     (case RequireMethod r MethodGet of
        Some resp \<Rightarrow> (Replied resp, g)
      | None \<Rightarrow>
          (case validateExecuteClientIdentity (gw_ExecuteClientIDs g) r of
             Some err \<Rightarrow> (Replied (WriteError 403 ''execute_client_unauthorized'' (Some err)), g)
           | None \<Rightarrow>
               (case gw_JobStore g of
                  None \<Rightarrow> (Replied (WriteError 503 ''not_ready'' (Some ''job store is not configured'')), g)
                | Some db \<Rightarrow>
                    (let requestID = TrimSpace (TrimPrefix (rq_Path r) ''/api/v1/jobs/'') in
                     if requestID = '''' \<or> Contains requestID ''/''
                     then (Replied (WriteError 400 ''invalid_execution_request'' (Some ''job request_id is required'')), g)
                     else case ValidateRequestID requestID of
                       Some err \<Rightarrow> (Replied (WriteError 400 ''invalid_execution_request'' (Some err)), g)
                     | None \<Rightarrow>
                         (case Get (ge_store env) requestID db of
                            (Inl ErrJobNotFound, db) \<Rightarrow>
                              (Replied (WriteError 404 ''job_not_found'' (Some (job_error_text ErrJobNotFound))), g\<lparr>gw_JobStore := Some db\<rparr>)
                          | (Inl err, db) \<Rightarrow>
                              (Replied (WriteError 503 ''dispatch_failed'' (Some (job_error_text err))), g\<lparr>gw_JobStore := Some db\<rparr>)
                          | (Inr job, db) \<Rightarrow>
                              (Replied (WriteJSON 200 (JJob (jobResponse env job))), g\<lparr>gw_JobStore := Some db\<rparr>))))))"

section \<open>Routing\<close>

text \<open>
  \<open>Handler\<close>: the patterns of the mux for paths in clean form (the mux itself redirects others), and the counting
  middleware around it. A path no pattern matches gets the mux's own 404.
\<close>

definition route :: "gateway_env \<Rightarrow> http_request \<Rightarrow> 'n Gateway \<Rightarrow> (reply \<times> 'n Gateway) option" where
  "route env r g =
     (let p = rq_Path r in
      if p = ''/wasmcat/health'' then Some (handleHealth r g)
      else if p = ''/wasmcat/ready'' then Some (handleReady r g)
      else if p = ''/wasmcat/metrics'' then Some (handleMetrics env r g)
      else if p = ''/internal/register'' then Some (handleRegister env r g)
      else if p = ''/internal/heartbeat'' then Some (handleHeartbeat env r g)
      else if p = ''/internal/drain'' then Some (handleDrain env r g)
      else if p = ''/internal/jobs/complete'' then Some (handleJobCompletion env r g)
      else if p = ''/api/v1/execute'' then handleExecute env r g
      else if p = ''/api/v1/jobs'' then Some (handleCreateJob env r g)
      else if HasPrefix p ''/api/v1/jobs/'' then Some (handleGetJob env r g)
      else if p = ''/api/v1/workers'' then Some (handleListWorkers env r g)
      else if HasPrefix p ''/api/v1/workers/'' then Some (handleWorkerSubresource env r g)
      else Some (Replied (WriteJSON 404 JEmpty), g))"

definition Handler :: "gateway_env \<Rightarrow> http_request \<Rightarrow> 'n Gateway \<Rightarrow> (reply \<times> 'n Gateway) option" where
  "Handler env r g0 =
     (case route env r (with_metrics env (\<lambda>m. m) g0) of
        None \<Rightarrow> None
      | Some (rep, g) \<Rightarrow> Some (rep, g\<lparr>gw_Metrics := MiddlewareWithMetrics r rep (gw_Metrics g)\<rparr>))"

section \<open>Who may call what\<close>

lemma with_metrics_fields [simp]:
  "gw_Registry (with_metrics env inc g) = gw_Registry g" "gw_JobStore (with_metrics env inc g) = gw_JobStore g"
  "gw_net (with_metrics env inc g) = gw_net g" "gw_Requests (with_metrics env inc g) = gw_Requests g"
  "gw_Dispatcher (with_metrics env inc g) = gw_Dispatcher g" "gw_tokens (with_metrics env inc g) = gw_tokens g"
  by (simp_all add: with_metrics_def)

lemma attach_fields [simp]:
  "gw_Registry (attachDispatcherMetrics env g) = gw_Registry g" "gw_JobStore (attachDispatcherMetrics env g) = gw_JobStore g"
  "gw_net (attachDispatcherMetrics env g) = gw_net g" "gw_Requests (attachDispatcherMetrics env g) = gw_Requests g"
  by (simp_all add: attachDispatcherMetrics_def)

definition client_allowed :: "string list \<Rightarrow> http_request \<Rightarrow> bool" where
  "client_allowed ids r \<longleftrightarrow>
     (\<exists>c cs i. rq_TLS r = Some (c # cs) \<and> i \<in> set ids \<and> TrimSpace i \<noteq> '''' \<and>
        (CommonName c = TrimSpace i \<or> TrimSpace i \<in> set (DNSNames c)))"

lemma validateExecuteClientIdentity_None:
  "validateExecuteClientIdentity ids r = None \<longleftrightarrow> ids = [] \<or> client_allowed ids r"
  by (auto simp: validateExecuteClientIdentity_def client_allowed_def list_ex_iff Let_def split: option.split list.split)

text \<open>
  (C9) With an allow-list of clients, nobody else gets anything from the client API: for a request whose
  certificate matches no entry, every path under \<open>/api/v1/\<close> answers with an error and leaves the
  whole state of the gateway as it was. Nothing is dispatched, stored, drained or listed.
\<close>

theorem client_api_gate:
  assumes "HasPrefix (rq_Path r) ''/api/v1/''" "gw_ExecuteClientIDs g \<noteq> []"
    and "\<not> client_allowed (gw_ExecuteClientIDs g) r"
  shows "\<exists>resp. route env r g = Some (Replied resp, g) \<and> rs_Status resp \<in> {403, 404, 405}"
proof -
  obtain err where err: "validateExecuteClientIdentity (gw_ExecuteClientIDs g) r = Some err"
    using assms(2,3) validateExecuteClientIdentity_None by (metis not_None_eq)
  have no: "rq_Path r \<noteq> ''/wasmcat/health''" "rq_Path r \<noteq> ''/wasmcat/ready''" "rq_Path r \<noteq> ''/wasmcat/metrics''"
    "rq_Path r \<noteq> ''/internal/register''" "rq_Path r \<noteq> ''/internal/heartbeat''" "rq_Path r \<noteq> ''/internal/drain''"
    "rq_Path r \<noteq> ''/internal/jobs/complete''"
    using assms(1) by (auto simp: HasPrefix_def)
  have "\<exists>resp. handleOperatorDrain env k r g = (Replied resp, g) \<and> rs_Status resp \<in> {403, 404, 405}" for k
    using err by (cases "rq_Method r = MethodPost") (auto simp: handleOperatorDrain_def RequireMethod_def)
  then have sub: "\<exists>resp. handleWorkerSubresource env r g = (Replied resp, g) \<and> rs_Status resp \<in> {403, 404, 405}"
    by (auto simp: handleWorkerSubresource_def Let_def split: prod.split)
  have post: "\<exists>resp. handleExecute env r g = Some (Replied resp, g) \<and> rs_Status resp \<in> {403, 405}"
      "\<exists>resp. handleCreateJob env r g = (Replied resp, g) \<and> rs_Status resp \<in> {403, 405}"
    using err by (cases "rq_Method r = MethodPost"; auto simp: handleExecute_def handleCreateJob_def RequireMethod_def)+
  have get: "\<exists>resp. handleGetJob env r g = (Replied resp, g) \<and> rs_Status resp \<in> {403, 405}"
      "\<exists>resp. handleListWorkers env r g = (Replied resp, g) \<and> rs_Status resp \<in> {403, 405}"
    using err by (cases "rq_Method r = MethodGet"; auto simp: handleGetJob_def handleListWorkers_def RequireMethod_def)+
  let ?P = "\<lambda>x. \<exists>resp. x = Some (Replied resp, g) \<and> rs_Status resp \<in> {403, 404, 405}"
  have each: "?P (handleExecute env r g)" "?P (Some (handleCreateJob env r g))" "?P (Some (handleGetJob env r g))"
      "?P (Some (handleListWorkers env r g))" "?P (Some (handleWorkerSubresource env r g))"
      "?P (Some (Replied (WriteJSON 404 JEmpty), g))"
    using post get sub by auto
  have pick: "?P a \<Longrightarrow> ?P b \<Longrightarrow> ?P (if c then a else b)" for a b c by (cases c) simp_all
  show ?thesis
    unfolding route_def Let_def no [THEN if_not_P] by (intro pick each)
qed

definition worker_claims :: "http_request \<Rightarrow> string \<Rightarrow> bool" where
  "worker_claims r workerID \<longleftrightarrow> TrimSpace workerID \<noteq> '''' \<and>
     (\<forall>chain. rq_TLS r = Some chain \<longrightarrow>
        (\<exists>c cs. chain = c # cs \<and>
           (CommonName c = workerCertificateName (TrimSpace workerID) \<or>
            TrimSpace workerID \<in> set (DNSNames c) \<or> workerCertificateName (TrimSpace workerID) \<in> set (DNSNames c))))"

lemma validateWorkerPeerIdentity_None: "validateWorkerPeerIdentity r w = None \<longleftrightarrow> worker_claims r w"
  by (auto simp: validateWorkerPeerIdentity_def worker_claims_def list_ex_iff Let_def split: option.split list.split)

text \<open>
  What a request of a worker may touch: one entry of the registry or one row of the job table. The id of the caller is
  decoded from the body the way the path asks for it.
\<close>

definition registry_entry :: "'n Gateway \<Rightarrow> string \<Rightarrow> WorkerNode option" where
  "registry_entry g k = Option.bind (gw_Registry g) (\<lambda>reg. map_of (workers reg) k)"

definition job_entry :: "'n Gateway \<Rightarrow> string \<Rightarrow> job_row option" where
  "job_entry g k = Option.bind (gw_JobStore g) (\<lambda>db. find_row db k)"

definition decoded_id :: "('a \<Rightarrow> string) \<Rightarrow> 'a decoded \<Rightarrow> string option" where
  "decoded_id worker d = (case d of Decoded x \<Rightarrow> Some (worker x) | _ \<Rightarrow> None)"

lemma decoded_id_Decoded [simp]: "decoded_id worker (Decoded x) = Some (worker x)"
  by (simp add: decoded_id_def)

definition body_worker_id :: "gateway_env \<Rightarrow> http_request \<Rightarrow> string option" where
  "body_worker_id env r =
     (let n = internalControlMaxBodyBytes; b = rq_Body r in
      if rq_Path r = ''/internal/register'' then decoded_id wn_ID (ge_decode_node env n b)
      else if rq_Path r = ''/internal/heartbeat'' then decoded_id hb_NodeID (ge_decode_beat env n b)
      else if rq_Path r = ''/internal/drain'' then decoded_id dr_NodeID (ge_decode_drain env n b)
      else decoded_id jc_WorkerID (ge_decode_completion env n b))"

text \<open>The caller passed for \<open>id\<close>, and at most the entry of \<open>id\<close> in the registry is new; or nothing is.\<close>

definition acts_for :: "http_request \<Rightarrow> string \<Rightarrow> 'n Gateway \<Rightarrow> 'n Gateway \<Rightarrow> bool" where
  "acts_for r i g g' \<longleftrightarrow> g' = g \<or>
     worker_claims r i \<and> gw_JobStore g' = gw_JobStore g \<and> gw_net g' = gw_net g \<and>
       (\<forall>k. registry_entry g' k \<noteq> registry_entry g k \<longrightarrow> i = k)"

lemma acts_for_refl [simp]: "acts_for r i g g"
  by (simp add: acts_for_def)

lemma acts_for_update:
  assumes "worker_claims r i" "gw_Registry g = Some reg" "\<And>k. i \<noteq> k \<Longrightarrow> map_of (workers reg') k = map_of (workers reg) k"
  shows "acts_for r i g (g\<lparr>gw_Registry := Some reg'\<rparr>)"
  using assms(1,2) by (auto simp: acts_for_def registry_entry_def dest: assms(3))

lemma handleRegister_acts:
  assumes "handleRegister env r g = (rep, g')"
  shows "g' = g \<or> (\<exists>node. ge_decode_node env internalControlMaxBodyBytes (rq_Body r) = Decoded node \<and> acts_for r (wn_ID node) g g')"
  using assms
  by (auto simp: handleRegister_def validateWorkerPeerIdentity_None RegisterWorker_other split: option.splits decoded.splits intro: acts_for_update)

lemma handleHeartbeat_acts:
  assumes "handleHeartbeat env r g = (rep, g')"
  shows "g' = g \<or> (\<exists>beat. ge_decode_beat env internalControlMaxBodyBytes (rq_Body r) = Decoded beat \<and> acts_for r (hb_NodeID beat) g g')"
proof -
  have "acts_for r (hb_NodeID beat) g (g\<lparr>gw_Registry := Some reg'\<rparr>)"
    if "gw_Registry g = Some reg" "worker_claims r (hb_NodeID beat)" "UpdateWorkerStatus t beat reg = (e, reg')" for beat reg t e reg'
    using that UpdateWorkerStatus_other [of beat _ t reg] by (intro acts_for_update) auto
  then show ?thesis
    using assms by (auto simp: handleHeartbeat_def validateWorkerPeerIdentity_None split: option.splits decoded.splits prod.splits)
qed

lemma handleDrain_acts:
  assumes "handleDrain env r g = (rep, g')"
  shows "g' = g \<or> (\<exists>d. ge_decode_drain env internalControlMaxBodyBytes (rq_Body r) = Decoded d \<and> acts_for r (dr_NodeID d) g g')"
proof -
  have "acts_for r i g (g\<lparr>gw_Registry := Some reg'\<rparr>)"
    if "gw_Registry g = Some reg" "worker_claims r i" "DrainWorker t i reg = (e, reg')" for i reg t e reg'
    using that DrainWorker_other [of i _ t reg] by (intro acts_for_update) auto
  then show ?thesis
    using assms by (auto simp: handleDrain_def drain_and_reply_def validateWorkerPeerIdentity_None split: option.splits decoded.splits prod.splits)
qed

lemma record_completion_other:
  assumes "record_completion env c db = (rep, db')" "jc_RequestID c \<noteq> k"
  shows "find_row db' k = find_row db k"
  using assms
  by (auto simp: record_completion_def Let_def MarkSucceeded_def MarkFailed_def update_job_other
      split: if_splits option.splits prod.splits sum.splits dest!: arg_cong [where f = snd])

lemma handleJobCompletion_acts:
  assumes "handleJobCompletion env r g = (rep, g')"
  shows "g' = g \<or> (\<exists>c. ge_decode_completion env internalControlMaxBodyBytes (rq_Body r) = Decoded c \<and> worker_claims r (jc_WorkerID c) \<and>
    gw_Registry g' = gw_Registry g \<and> gw_net g' = gw_net g \<and> (\<forall>k. job_entry g' k \<noteq> job_entry g k \<longrightarrow> jc_RequestID c = k))"
proof -
  have "jc_RequestID c = k" if "record_completion env c db = (rep, db')" "find_row db' k \<noteq> find_row db k" for c db db' k
    using record_completion_other [OF that(1), of k] that(2) by blast
  then show ?thesis
    using assms by (auto simp: handleJobCompletion_def validateWorkerPeerIdentity_None job_entry_def split: option.splits decoded.splits prod.splits)
qed

text \<open>
  (C10) What a worker's request changes is tied to the certificate of its caller. A request to \<open>/internal/register\<close>,
  \<open>/internal/heartbeat\<close> or \<open>/internal/drain\<close> leaves the job table alone and changes at most one entry of the registry, the one
  of the worker id in its body; a request to \<open>/internal/jobs/complete\<close> leaves the registry alone and changes at most one row, the one of the
  job id in its body (which may be any job). A change requires that the worker id in the body, without the blanks around it, is
  one that the caller's certificate carries; no such request calls the network. (Only a connection without
  TLS, which \<open>servers_demand_client_certificates\<close> excludes, has no certificate to check.)
\<close>

theorem internal_api_gate:
  assumes "rq_Path r \<in> {''/internal/register'', ''/internal/heartbeat'', ''/internal/drain'', ''/internal/jobs/complete''}"
    and "route env r g = Some (rep, g')"
  shows "gw_net g' = gw_net g \<and>
    (gw_Registry g' \<noteq> gw_Registry g \<or> gw_JobStore g' \<noteq> gw_JobStore g \<longrightarrow>
       (\<exists>i. body_worker_id env r = Some i \<and> worker_claims r i)) \<and>
    (\<forall>k. registry_entry g' k \<noteq> registry_entry g k \<longrightarrow> rq_Path r \<noteq> ''/internal/jobs/complete'' \<and> body_worker_id env r = Some k) \<and>
    (\<forall>k. job_entry g' k \<noteq> job_entry g k \<longrightarrow> rq_Path r = ''/internal/jobs/complete'' \<and>
       (\<exists>c. ge_decode_completion env internalControlMaxBodyBytes (rq_Body r) = Decoded c \<and> jc_RequestID c = k))"
  using assms(1)
proof (elim insertE emptyE)
  assume p: "rq_Path r = ''/internal/register''"
  then have "handleRegister env r g = (rep, g')" using assms(2) by (simp add: route_def)
  from handleRegister_acts [OF this] show ?thesis
    using p by (auto simp: acts_for_def body_worker_id_def job_entry_def)
next
  assume p: "rq_Path r = ''/internal/heartbeat''"
  then have "handleHeartbeat env r g = (rep, g')" using assms(2) by (simp add: route_def)
  from handleHeartbeat_acts [OF this] show ?thesis
    using p by (auto simp: acts_for_def body_worker_id_def job_entry_def)
next
  assume p: "rq_Path r = ''/internal/drain''"
  then have "handleDrain env r g = (rep, g')" using assms(2) by (simp add: route_def)
  from handleDrain_acts [OF this] show ?thesis
    using p by (auto simp: acts_for_def body_worker_id_def job_entry_def)
next
  assume p: "rq_Path r = ''/internal/jobs/complete''"
  then have "handleJobCompletion env r g = (rep, g')" using assms(2) by (simp add: route_def)
  from handleJobCompletion_acts [OF this] show ?thesis
    using p by (auto simp: body_worker_id_def registry_entry_def)
qed

section \<open>When a durable execution is dispatched\<close>

lemma Create_None:
  assumes "Create env now job db = (None, db')"
  shows "find_row db (job_RequestID job) = None" "\<exists>json. find_row db' = (find_row db)(job_RequestID job \<mapsto> insert_row (create_defaults now job) json)"
proof -
  obtain json where j: "marshal_request env (job_Request job) = Inr json"
      "insert_job env (insert_row (create_defaults now job) json) db = (None, db')"
    using assms by (auto simp: Create_def Let_def split: sum.splits prod.splits option.splits if_splits)
  obtain out db1 where o: "next_outcome db = (out, db1)" by force
  have new: "find_row db1 (job_RequestID job) = None" "db' = db1\<lparr>db_rows := db_rows db1 @ [insert_row (create_defaults now job) json]\<rparr>"
    using j(2) o by (auto simp: insert_job_def insert_row_id split: sql_outcome.splits if_splits)
  have look: "find_row db1 = find_row db" using o by (intro find_row_rows) simp
  then show "find_row db (job_RequestID job) = None" using new(1) by simp
  have "find_row db' = (find_row db1)(job_RequestID job \<mapsto> insert_row (create_defaults now job) json)"
    using new by (auto simp: find_row_map_of fun_eq_iff map_add_def insert_row_id split: option.splits)
  then show "\<exists>json. find_row db' = (find_row db)(job_RequestID job \<mapsto> insert_row (create_defaults now job) json)" using look by auto
qed

lemma Create_Some: "Create env now job db = (Some e, db') \<Longrightarrow> db_rows db' = db_rows db"
  by (auto simp: Create_def Let_def insert_job_def split: sum.splits prod.splits option.splits if_splits sql_outcome.splits)

lemma Get_Inr:
  assumes "Get env k db = (Inr job, db')"
  obtains row where "find_row db k = Some row" "scanJob env row = Inr job" "db_rows db' = db_rows db"
proof -
  obtain out db1 where o: "next_outcome db = (out, db1)" by force
  then have rows: "db_rows db1 = db_rows db" by simp
  then have "find_row db1 = find_row db" by (rule find_row_rows)
  then show ?thesis
    using assms o rows that by (auto simp: Get_def split: sql_outcome.splits option.splits)
qed

text \<open>When the gateway may start a job: there is none yet, or the same one failed with attempts left.\<close>

definition may_start :: "string \<Rightarrow> job_row option \<Rightarrow> bool" where
  "may_start fingerprint row =
     (case row of
        None \<Rightarrow> True
      | Some r \<Rightarrow> jb_fingerprint r = fingerprint \<and> jb_status r = JobFailed \<and>
                  \<not> (jb_max_attempts r > 0 \<and> jb_attempt r \<ge> jb_max_attempts r))"

lemma existing_job_starts:
  "existing_job_outcome existing = Starts job \<Longrightarrow>
   job_Status existing = JobFailed \<and> \<not> (job_MaxAttempts existing > 0 \<and> job_Attempt existing \<ge> job_MaxAttempts existing)"
  by (auto simp: existing_job_outcome_def split: if_splits option.splits)

lemma beginDurableJob_starts:
  assumes "beginDurableJob env n req db = (Starts job, db')"
  obtains f where "ge_fingerprint env req = Inr f" "may_start f (find_row db (req_RequestID req))"
proof -
  obtain f where f: "ge_fingerprint env req = Inr f"
    using assms by (auto simp: beginDurableJob_def split: sum.splits)
  let ?job = "NewJobRecord req f n (ge_clock env 1)"
  have id: "job_RequestID ?job = req_RequestID req" by (simp add: NewJobRecord_def)
  obtain c db1 where c: "Create (ge_store env) (ge_clock env 2) ?job db = (c, db1)" by force
  show ?thesis
  proof (cases c)
    case None
    then have "find_row db (job_RequestID ?job) = None" using Create_None(1) c by blast
    then have "may_start f (find_row db (req_RequestID req))" by (simp only: id may_start_def option.case)
    then show ?thesis using that f by blast
  next
    case (Some e)
    then have ex: "e = ErrJobExists"
      using assms f c by (cases e) (auto simp: beginDurableJob_def Let_def)
    obtain res db2 where get: "Get (ge_store env) (req_RequestID req) db1 = (res, db2)" by force
    obtain old where old: "res = Inr old" "job_Fingerprint old = f" "existing_job_outcome old = Starts job"
      using assms f c Some ex get
      by (cases res) (auto simp: beginDurableJob_def Let_def request_id_conflict_def split: if_splits)
    obtain row where row: "find_row db1 (req_RequestID req) = Some row" "scanJob (ge_store env) row = Inr old"
      using Get_Inr [of "ge_store env" "req_RequestID req" db1 old db2] get old(1) by auto
    have "find_row db1 = find_row db" using Create_Some c Some find_row_rows by blast
    then have "may_start f (find_row db (req_RequestID req))"
      using row existing_job_starts [OF old(3)] old(2) scanJob_fields [OF row(2)] by (simp add: may_start_def)
    then show ?thesis using that f by blast
  qed
qed

text \<open>
  (C1) Durable idempotence. Whatever the store reports, a durable execution reaches the dispatcher
  only when no job with its id exists, or when the job has the same content, has failed, and has attempts
  left. A queued, dispatching, running, succeeded or ambiguous job is never dispatched a second time
  by a repeated request: the handler then replies and no call has gone out.
\<close>

theorem durable_execute_guard:
  assumes "\<And>f. ge_fingerprint env req = Inr f \<Longrightarrow> \<not> may_start f (find_row db (req_RequestID req))"
  shows "\<exists>resp g'. handleDurableExecute env req db g = Some (Replied resp, g') \<and> gw_net g' = gw_net g \<and> gw_tokens g' = gw_tokens g"
proof -
  obtain o1 db1 where b: "beginDurableJob env (jobMaxAttempts g) req db = (o1, db1)" by force
  have "\<nexists>job. o1 = Starts job"
  proof
    assume "\<exists>job. o1 = Starts job"
    then obtain job where "beginDurableJob env (jobMaxAttempts g) req db = (Starts job, db1)" using b by auto
    then show False by (rule beginDurableJob_starts) (use assms in blast)
  qed
  then obtain resp inc where "o1 = Answers resp inc" by (cases o1) auto
  then show ?thesis using b by (simp add: handleDurableExecute_def)
qed

text \<open>
  A durable job that succeeded is replayed: a repeated request with the same content gets the stored
  response with status 200, without a dispatch. (The two statements run, and the stored JSON decodes.)
\<close>

theorem durable_replay:
  assumes "db_faults db = []" "ge_fingerprint env req = Inr f" "is_ok (marshal_request (ge_store env) req)"
    and "find_row db (req_RequestID req) = Some row" "jb_status row = JobSucceeded" "jb_fingerprint row = f"
    and "scanJob (ge_store env) row = Inr job" "job_Response job = Some resp"
    and "isSQLiteConstraintError (ge_store env) (unique_error (ge_store env))"
  shows "\<exists>g'. handleDurableExecute env req db g = Some (Replied (WriteJSON 200 (JExec resp)), g') \<and>
    gw_net g' = gw_net g \<and> gw_JobStore g' = Some db"
proof -
  have nx: "next_outcome db = (Runs, db)" using assms(1) by (simp add: next_outcome_def)
  let ?job = "NewJobRecord req f (jobMaxAttempts g) (ge_clock env 1)"
  have id: "job_RequestID ?job = req_RequestID req" "job_Request ?job = req" by (simp_all add: NewJobRecord_def)
  have "Create (ge_store env) (ge_clock env 2) ?job db = (Some ErrJobExists, db)"
    using assms(3,4,9) id by (auto simp: Create_def Let_def insert_job_def nx insert_row_id is_ok_iff)
  moreover have "Get (ge_store env) (req_RequestID req) db = (Inr job, db)"
    using assms(4,7) by (simp add: Get_def nx)
  moreover have "existing_job_outcome job = Answers (WriteJSON 200 (JExec resp)) IncRequestCacheHit"
    using scanJob_fields(2) [OF assms(7)] assms(5,8) by (simp add: existing_job_outcome_def)
  ultimately have "beginDurableJob env (jobMaxAttempts g) req db = (Answers (WriteJSON 200 (JExec resp)) IncRequestCacheHit, db)"
    using assms(2,6) scanJob_fields(7) [OF assms(7)] by (simp add: beginDurableJob_def Let_def)
  then show ?thesis by (simp add: handleDurableExecute_def)
qed

text \<open>
  (C38) A completion report is recorded whatever the job's state and whoever ran it: a worker with a valid
  identity of its own turns any existing job, also one that has succeeded or that another worker is
  running, into a failed one.
\<close>

theorem completion_overwrites_any_job:
  assumes "rq_Method r = MethodPost" "gw_JobStore g = Some db" "db_faults db = []" "db_wf db"
    and "ge_decode_completion env internalControlMaxBodyBytes (rq_Body r) = Decoded c"
    and "JobCompletionRequest_Validate c = None" "worker_claims r (jc_WorkerID c)" "jc_Status c = JobCompletionFailed"
    and "find_row db (jc_RequestID c) = Some row"
  shows "\<exists>g' db'. handleJobCompletion env r g = (Replied (WriteJSON 200 (JApi \<lparr>api_Status = ''success'', api_Message = ''Job completion recorded''\<rparr>)), g') \<and>
    gw_JobStore g' = Some db' \<and> find_row db' (jc_RequestID c) = Some (set_failed (ge_clock env 0) (jc_Error c) row)"
proof -
  have nx: "next_outcome db = (Runs, db)" using assms(3) by (simp add: next_outcome_def)
  have "row \<in> set (db_rows db)" "jb_request_id row = jc_RequestID c" using assms(4,9) find_row_Some by auto
  then have "filter (\<lambda>r. jb_request_id r = jc_RequestID c) (db_rows db) \<noteq> []" by (auto simp: filter_empty_conv)
  then have ok: "fst (MarkFailed (ge_clock env 0) (jc_RequestID c) (jc_Error c) db) = None"
    by (simp add: MarkFailed_def update_job_def update_jobs_def nx requireUpdated_def)
  obtain db' where m: "MarkFailed (ge_clock env 0) (jc_RequestID c) (jc_Error c) db = (None, db')" using ok by (metis prod.collapse)
  have "find_row db' (jc_RequestID c) = Some (set_failed (ge_clock env 0) (jc_Error c) row)"
    using failed.changed [OF assms(4) ok assms(9)] m by simp
  moreover have "jc_Status c \<noteq> JobCompletionSucceeded" using assms(8) by (simp add: JobCompletionSucceeded_def JobCompletionFailed_def)
  moreover have "validateWorkerPeerIdentity r (jc_WorkerID c) = None"
    using assms(7) validateWorkerPeerIdentity_None by blast
  ultimately show ?thesis
    using assms(1,2,5,6,8) m
    by (simp add: handleJobCompletion_def record_completion_def RequireMethod_def)
qed

section \<open>Examples\<close>

definition gateway_env_a :: gateway_env where
  "gateway_env_a = \<lparr>ge_decode_node = (\<lambda>_ _. Decoded node_b), ge_decode_beat = (\<lambda>_ _. BadJSON), ge_decode_drain = (\<lambda>_ _. BadJSON),
     ge_decode_completion = (\<lambda>_ _. Decoded \<lparr>jc_RequestID = ''a'', jc_WorkerID = ''w'', jc_Status = JobCompletionFailed,
        jc_Response = None, jc_Error = ''boom''\<rparr>),
     ge_decode_execution = (\<lambda>_ _. Decoded request_a), ge_parse = Inl, ge_lower = id, ge_random = Inl '''',
     ge_fingerprint = (\<lambda>r. Inr (req_ModuleName r)), ge_store = plain_env, ge_clock = (\<lambda>_. 7), ge_format = (\<lambda>_. ''''),
     ge_workers = id, ge_tracked = id, ge_counts = id\<rparr>"

definition gateway_a :: "string list \<Rightarrow> job_db option \<Rightarrow> unit Gateway" where
  "gateway_a ids db = \<lparr>gw_Registry = Some registry_a, gw_Dispatcher = None, gw_Metrics = None, gw_Requests = None, gw_JobStore = db,
     gw_ExecuteClientIDs = ids, gw_MaxExecuteBodyBytes = 0, gw_ModulePolicy = \<lparr>AllowedHosts = [], RequireDigest = False\<rparr>,
     gw_RequestCacheTTL = 0, gw_RequestCacheMaxEntries = 0, gw_JobMaxAttempts = 0, gw_JobLeaseTTL = 0, gw_tokens = [], gw_net = ()\<rparr>"

definition call_as :: "string \<Rightarrow> string \<Rightarrow> string \<Rightarrow> http_request" where
  "call_as name method path =
     \<lparr>rq_Method = method, rq_Path = path, rq_TLS = Some [\<lparr>CommonName = name, DNSNames = []\<rparr>], rq_Body = ''''\<rparr>"

lemma TrimSpace_examples: "TrimSpace ''alice'' = ''alice''" "TrimSpace ''b'' = ''b''" "TrimSpace ''w'' = ''w''"
    "TrimSpace ''boom'' = ''boom''" "TrimSpace ''a'' = ''a''"
  by code_simp+

theorem client_api_gate_witness:
  "\<exists>resp. route gateway_env_a (call_as ''mallory'' ''POST'' ''/api/v1/execute'') (gateway_a [''alice''] None) =
     Some (Replied resp, gateway_a [''alice''] None)"
proof -
  let ?r = "call_as ''mallory'' ''POST'' ''/api/v1/execute''" and ?g = "gateway_a [''alice''] None"
  have "HasPrefix (rq_Path ?r) ''/api/v1/''" by code_simp
  moreover have "gw_ExecuteClientIDs ?g \<noteq> []" by (simp add: gateway_a_def)
  moreover have "\<not> client_allowed (gw_ExecuteClientIDs ?g) ?r"
    by (simp add: gateway_a_def client_allowed_def call_as_def TrimSpace_examples)
  ultimately show ?thesis using client_api_gate [of ?r ?g gateway_env_a] by blast
qed

theorem internal_api_gate_witness:
  "\<exists>rep g'. route gateway_env_a (call_as ''wasmcat-worker-b'' ''POST'' ''/internal/register'') (gateway_a [] None) = Some (rep, g') \<and>
     registry_entry g' ''b'' \<noteq> registry_entry (gateway_a [] None) ''b'' \<and> registry_entry g' ''w'' = registry_entry (gateway_a [] None) ''w''"
proof -
  let ?r = "call_as ''wasmcat-worker-b'' ''POST'' ''/internal/register''" and ?g = "gateway_a [] None"
  have c: "worker_claims ?r ''b''"
    by (simp add: worker_claims_def call_as_def TrimSpace_examples workerCertificateName_def)
  then have v: "validateWorkerPeerIdentity ?r ''b'' = None" using validateWorkerPeerIdentity_None by blast
  obtain rep g' where run: "route gateway_env_a ?r ?g = Some (rep, g')" "gw_Registry g' = Some (RegisterWorker 7 node_b registry_a)"
    using v by (simp add: route_def call_as_def handleRegister_def RequireMethod_def MethodPost_def gateway_env_a_def gateway_a_def node_b_def)
  have "map_of (workers (RegisterWorker 7 node_b registry_a)) ''b'' \<noteq> None" "map_of (workers registry_a) ''b'' = None"
    by (simp_all add: RegisterWorker_def Let_def registry_example_defs NewRegistry_def NewRegistryWithStaleTimeout_def zero_WorkerNode_def)
  then have ne: "registry_entry g' ''b'' \<noteq> registry_entry ?g ''b''" using run(2) by (auto simp: registry_entry_def gateway_a_def)
  have "rq_Path ?r \<in> {''/internal/register'', ''/internal/heartbeat'', ''/internal/drain'', ''/internal/jobs/complete''}"
    by (simp add: call_as_def)
  from internal_api_gate [OF this run(1)]
  have "registry_entry g' ''w'' \<noteq> registry_entry ?g ''w'' \<longrightarrow> body_worker_id gateway_env_a ?r = Some ''w''" by blast
  moreover have "body_worker_id gateway_env_a ?r = Some ''b''"
    by (simp add: body_worker_id_def call_as_def gateway_env_a_def node_b_def)
  ultimately show ?thesis using run(1) ne by auto
qed

definition db_done :: job_db where "db_done = snd (MarkSucceeded plain_env 9 ''a'' response_a db_a)"

lemma db_done_eq: "db_done = \<lparr>db_rows = [\<lparr>jb_request_id = ''a'', jb_fingerprint = ''m'', jb_request_json = ''a'',
     jb_status = JobSucceeded, jb_worker_id = '''', jb_attempt = 0, jb_max_attempts = 3, jb_lease_until = 0,
     jb_last_error = '''', jb_response_json = ''r42'', jb_created_at = 5, jb_updated_at = unixMilli 9\<rparr>], db_faults = []\<rparr>"
  by (simp add: db_done_def db_a_eq MarkSucceeded_def plain_env_def response_a_def update_job_def update_jobs_def
      next_outcome_def set_succeeded_def)

theorem durable_execute_guard_witness:
  "\<exists>resp g'. handleDurableExecute gateway_env_a request_a db_done (gateway_a [] (Some db_done)) = Some (Replied resp, g') \<and> gw_net g' = ()"
proof -
  have "\<not> may_start f (find_row db_done (req_RequestID request_a))" for f
    by (simp add: may_start_def db_done_eq find_row_def request_a_def)
  from durable_execute_guard [OF this, of gateway_env_a "gateway_a [] (Some db_done)"] show ?thesis by auto
qed

theorem durable_replay_witness:
  "\<exists>g'. handleDurableExecute gateway_env_a request_a db_done (gateway_a [] (Some db_done)) =
     Some (Replied (WriteJSON 200 (JExec response_a)), g')"
proof -
  let ?row = "hd (db_rows db_done)" and ?env = gateway_env_a
  have c: "isSQLiteConstraintError (ge_store ?env) (unique_error (ge_store ?env))"
    unfolding gateway_env_a_def plain_env_def by code_simp
  obtain job where j: "scanJob (ge_store ?env) ?row = Inr job" "job_Response job = Some response_a"
    by (simp add: scanJob_def gateway_env_a_def plain_env_def db_done_eq)
  have "find_row db_done (req_RequestID request_a) = Some ?row" "jb_status ?row = JobSucceeded" "jb_fingerprint ?row = ''m''"
    by (simp_all add: db_done_eq find_row_def request_a_def)
  from durable_replay [OF _ _ _ this j c] show ?thesis
    by (auto simp: db_done_eq gateway_env_a_def request_a_def plain_env_def)
qed

theorem completion_overwrites_any_job_witness:
  "\<exists>g' db' row. handleJobCompletion gateway_env_a (call_as ''wasmcat-worker-w'' ''POST'' ''/internal/jobs/complete'') (gateway_a [] (Some db_done)) =
       (Replied (WriteJSON 200 (JApi \<lparr>api_Status = ''success'', api_Message = ''Job completion recorded''\<rparr>)), g') \<and>
     gw_JobStore g' = Some db' \<and> find_row db' ''a'' = Some row \<and> jb_status row = JobFailed"
proof -
  let ?r = "call_as ''wasmcat-worker-w'' ''POST'' ''/internal/jobs/complete''" and ?g = "gateway_a [] (Some db_done)"
  let ?c = "\<lparr>jc_RequestID = ''a'', jc_WorkerID = ''w'', jc_Status = JobCompletionFailed, jc_Response = None, jc_Error = ''boom''\<rparr>"
  have v: "JobCompletionRequest_Validate ?c = None" by code_simp
  have w: "worker_claims ?r (jc_WorkerID ?c)"
    by (simp add: worker_claims_def call_as_def TrimSpace_examples workerCertificateName_def)
  have f: "find_row db_done (jc_RequestID ?c) = Some (hd (db_rows db_done))" by (simp add: db_done_eq find_row_def)
  have "rq_Method ?r = MethodPost" "gw_JobStore ?g = Some db_done" "db_faults db_done = []" "db_wf db_done"
      "ge_decode_completion gateway_env_a internalControlMaxBodyBytes (rq_Body ?r) = Decoded ?c"
    by (simp_all add: call_as_def MethodPost_def gateway_a_def db_done_eq gateway_env_a_def)
  from completion_overwrites_any_job [OF this v w _ f] obtain g' db' where
    "handleJobCompletion gateway_env_a ?r ?g =
       (Replied (WriteJSON 200 (JApi \<lparr>api_Status = ''success'', api_Message = ''Job completion recorded''\<rparr>)), g')"
    "gw_JobStore g' = Some db'" "find_row db' ''a'' = Some (set_failed (ge_clock gateway_env_a 0) ''boom'' (hd (db_rows db_done)))"
    by auto
  moreover have "jb_status (set_failed t e row) = JobFailed" for t e row by (simp add: set_failed_def)
  ultimately show ?thesis by blast
qed

end
