(* ===== verification/Worker_Limits.thy ===== *)
theory Worker_Limits
  imports Wasmcat_Prelude
begin

text \<open>\<open>src/internal/worker/limits.go\<close>: the limits of a worker and their defaults.\<close>

record Limits =
  ExecutionTimeout :: duration
  ModuleFetchTimeout :: duration
  ShutdownTimeout :: duration
  MaxModuleBytes :: int
  MaxPayloadBytes :: int
  MaxOutputBytes :: "32 word"
  MaxConcurrentExecs :: int
  MaxCachedModules :: int
  MaxCacheBytes :: int
  ModuleCacheTTL :: duration

definition DefaultLimits :: Limits where
  "DefaultLimits = \<lparr>ExecutionTimeout = 5 * Second, ModuleFetchTimeout = 10 * Second, ShutdownTimeout = 10 * Second,
     MaxModuleBytes = 10 * 2 ^ 20, MaxPayloadBytes = 2 ^ 20, MaxOutputBytes = 2 ^ 20, MaxConcurrentExecs = 4,
     MaxCachedModules = 128, MaxCacheBytes = 256 * 2 ^ 20, ModuleCacheTTL = 30 * 60 * Second\<rparr>"

definition or_default :: "int \<Rightarrow> int \<Rightarrow> int" where
  "or_default v d = (if v \<le> 0 then d else v)"

text \<open>The shutdown timeout is derived from the execution timeout after that has been normalised; the sum wraps.\<close>

definition normalizeLimits :: "Limits \<Rightarrow> Limits" where
  "normalizeLimits l =
     (let execution = or_default (ExecutionTimeout l) (ExecutionTimeout DefaultLimits) in
      \<lparr>ExecutionTimeout = execution,
       ModuleFetchTimeout = or_default (ModuleFetchTimeout l) (ModuleFetchTimeout DefaultLimits),
       ShutdownTimeout = or_default (ShutdownTimeout l) (add64 execution (5 * Second)),
       MaxModuleBytes = or_default (MaxModuleBytes l) (MaxModuleBytes DefaultLimits),
       MaxPayloadBytes = or_default (MaxPayloadBytes l) (MaxPayloadBytes DefaultLimits),
       MaxOutputBytes = (if MaxOutputBytes l = 0 then MaxOutputBytes DefaultLimits else MaxOutputBytes l),
       MaxConcurrentExecs = or_default (MaxConcurrentExecs l) (MaxConcurrentExecs DefaultLimits),
       MaxCachedModules = or_default (MaxCachedModules l) (MaxCachedModules DefaultLimits),
       MaxCacheBytes = or_default (MaxCacheBytes l) (MaxCacheBytes DefaultLimits),
       ModuleCacheTTL = or_default (ModuleCacheTTL l) (ModuleCacheTTL DefaultLimits)\<rparr>)"

text \<open>What the engine relies on: every limit it applies is positive.\<close>

definition limits_ok :: "Limits \<Rightarrow> bool" where
  "limits_ok l \<longleftrightarrow> 0 < ExecutionTimeout l \<and> 0 < ModuleFetchTimeout l \<and>
     0 < MaxModuleBytes l \<and> 0 < MaxPayloadBytes l \<and> MaxOutputBytes l \<noteq> 0 \<and> 0 < MaxConcurrentExecs l \<and>
     0 < MaxCachedModules l \<and> 0 < MaxCacheBytes l \<and> 0 < ModuleCacheTTL l"

lemma or_default_pos: "0 < d \<Longrightarrow> 0 < or_default v d"
  by (simp add: or_default_def)

lemma normalizeLimits_ok: "limits_ok (normalizeLimits l)"
  by (simp add: limits_ok_def normalizeLimits_def Let_def DefaultLimits_def or_default_pos)

text \<open>The derived shutdown timeout is positive unless the execution timeout is within five seconds of the largest duration.\<close>

lemma normalizeLimits_shutdown:
  assumes "ExecutionTimeout l \<le> max_duration - 5 * Second"
  shows "0 < ShutdownTimeout (normalizeLimits l)"
proof -
  have "0 < or_default (ExecutionTimeout l) (5 * Second)" by (simp add: or_default_pos)
  moreover have "or_default (ExecutionTimeout l) (5 * Second) \<le> max_duration - 5 * Second"
    using assms by (simp add: or_default_def max_duration_def)
  ultimately have "0 < add64 (or_default (ExecutionTimeout l) (5 * Second)) (5 * Second)"
    by (subst add64_exact) (simp_all add: min_duration_def)
  then show ?thesis by (simp add: normalizeLimits_def Let_def DefaultLimits_def or_default_pos)
qed

lemma normalizeLimits_id: "limits_ok l \<Longrightarrow> 0 < ShutdownTimeout l \<Longrightarrow> normalizeLimits l = l"
  by (cases l) (simp add: limits_ok_def normalizeLimits_def Let_def or_default_def)

end
