(* ===== verification/Worker_Cache.thy ===== *)
theory Worker_Cache
  imports Go_Maps Single_Flight Worker_Limits Shared_Metrics
begin

text \<open>
  The module cache of \<open>src/internal/worker/engine.go\<close>: compiled modules by cache key, bounded in
  number and in bytes, with the table of keys that are being compiled. \<open>'c\<close> is
  \<open>wazero.CompiledModule\<close>.

  Every function here runs under the engine's mutex from its first to its last statement, so
  each is one atomic step of the goroutines that share the engine. The clock reading is the
  argument \<open>now\<close>; \<open>it\<close> picks the iteration order of the \<open>range\<close> loops. Closing a compiled module
  releases its memory and is not represented; the loops that do it are.
\<close>

section \<open>State\<close>

record ModuleCacheKey =
  mk_ModuleName :: string
  mk_ModuleURL :: string
  mk_Digest :: string

definition ModuleCacheKey_String :: "ModuleCacheKey \<Rightarrow> string" where
  "ModuleCacheKey_String k =
     (if mk_Digest k \<noteq> '''' then mk_ModuleName k @ ''@digest:'' @ mk_Digest k
      else if mk_ModuleURL k \<noteq> '''' then mk_ModuleName k @ ''@url:'' @ mk_ModuleURL k
      else mk_ModuleName k)"

record 'c moduleCacheEntry =
  ce_key :: ModuleCacheKey
  ce_compiled :: 'c
  ce_sizeBytes :: int
  ce_createdAt :: time
  ce_lastUsedAt :: time
  ce_usedOrder :: "64 word"

type_synonym 'c cache_map = "(string, 'c moduleCacheEntry) gomap"
type_synonym 'c cache_visit = "(string, 'c moduleCacheEntry) visit"

text \<open>
  \<open>we_inflight\<close> holds the keys of the map \<open>inflight\<close>; its channels carry no value and are only
  closed. \<open>we_sem\<close> is the number of tokens in the channel \<open>sem\<close>.
\<close>

record 'c WasmEngine =
  we_cache :: "'c cache_map"
  we_inflight :: "(string, unit) gomap"
  we_cacheBytes :: int
  we_cacheClock :: "64 word"
  we_limits :: Limits
  we_sem :: nat

definition NewWasmEngineWithLimits :: "Limits \<Rightarrow> 'c WasmEngine" where
  "NewWasmEngineWithLimits limits =
     \<lparr>we_cache = [], we_inflight = [], we_cacheBytes = 0, we_cacheClock = 0, we_limits = normalizeLimits limits, we_sem = 0\<rparr>"

definition NewWasmEngine :: "'c WasmEngine" where
  "NewWasmEngine = NewWasmEngineWithLimits DefaultLimits"

section \<open>Operations\<close>

definition CacheStats :: "'c WasmEngine \<Rightarrow> ModuleCacheStats" where
  "CacheStats e = \<lparr>cs_Entries = int (length (we_cache e)), cs_Bytes = we_cacheBytes e,
     cs_MaxEntries = MaxCachedModules (we_limits e), cs_MaxBytes = MaxCacheBytes (we_limits e)\<rparr>"

definition ClearCache :: "'c cache_visit \<Rightarrow> 'c WasmEngine \<Rightarrow> 'c WasmEngine" where
  "ClearCache it e = e\<lparr>we_cache := delete_where it (\<lambda>_ _. True) (we_cache e), we_cacheBytes := 0\<rparr>"

definition removeEntryLocked :: "string \<Rightarrow> 'c moduleCacheEntry \<Rightarrow> 'c WasmEngine \<Rightarrow> 'c WasmEngine" where
  "removeEntryLocked key entry e =
     (let bytes = we_cacheBytes e - ce_sizeBytes entry in
      e\<lparr>we_cache := go_delete key (we_cache e), we_cacheBytes := (if bytes < 0 then 0 else bytes)\<rparr>)"

definition entryExpired :: "Limits \<Rightarrow> 'c moduleCacheEntry \<Rightarrow> time \<Rightarrow> bool" where
  "entryExpired limits entry now \<longleftrightarrow> 0 < ModuleCacheTTL limits \<and> Sub now (ce_createdAt entry) > ModuleCacheTTL limits"

definition cachedCompiledModule :: "string \<Rightarrow> time \<Rightarrow> 'c WasmEngine \<Rightarrow> 'c option \<times> 'c WasmEngine" where
  "cachedCompiledModule cacheKey now e =
     (case map_of (we_cache e) cacheKey of
        None \<Rightarrow> (None, e)
      | Some entry \<Rightarrow>
          if entryExpired (we_limits e) entry now then (None, removeEntryLocked cacheKey entry e)
          else
            (let clock = we_cacheClock e + 1;
                 entry = entry\<lparr>ce_lastUsedAt := now, ce_usedOrder := clock\<rparr>
             in (Some (ce_compiled entry), e\<lparr>we_cacheClock := clock, we_cache := go_put cacheKey entry (we_cache e)\<rparr>)))"

definition touchCachedModule :: "string \<Rightarrow> time \<Rightarrow> 'c WasmEngine \<Rightarrow> bool \<times> 'c WasmEngine" where
  "touchCachedModule cacheKey now e =
     (case cachedCompiledModule cacheKey now e of (m, e) \<Rightarrow> (m \<noteq> None, e))"

definition beginCompile :: "string \<Rightarrow> 'c WasmEngine \<Rightarrow> bool \<times> 'c WasmEngine" where
  "beginCompile cacheKey e =
     (case map_of (we_inflight e) cacheKey of
        Some _ \<Rightarrow> (False, e)
      | None \<Rightarrow> (True, e\<lparr>we_inflight := go_put cacheKey () (we_inflight e)\<rparr>))"

definition finishCompile :: "string \<Rightarrow> 'c WasmEngine \<Rightarrow> 'c WasmEngine" where
  "finishCompile cacheKey e =
     (case map_of (we_inflight e) cacheKey of
        Some _ \<Rightarrow> e\<lparr>we_inflight := go_delete cacheKey (we_inflight e)\<rparr>
      | None \<Rightarrow> e)"

definition oldestEntryLocked :: "'c cache_visit \<Rightarrow> 'c WasmEngine \<Rightarrow> (string \<times> 'c moduleCacheEntry) option" where
  "oldestEntryLocked it e = scan_min (\<lambda>_. True) (\<lambda>(_, entry). ce_usedOrder entry) (range_of it (we_cache e)) None"

text \<open>The first loop of \<open>evictLocked\<close>: it removes while it iterates.\<close>

definition remove_expired :: "'c cache_visit \<Rightarrow> time \<Rightarrow> 'c WasmEngine \<Rightarrow> 'c WasmEngine" where
  "remove_expired it now e =
     fold (\<lambda>(key, entry) acc. if entryExpired (we_limits acc) entry now then removeEntryLocked key entry acc else acc)
       (range_of it (we_cache e)) e"

lemma oldest_in_cache: "oldestEntryLocked it e = Some (k, entry) \<Longrightarrow> (k, entry) \<in> set (we_cache e)"
  unfolding oldestEntryLocked_def by (drule scan_min_Some) simp

lemma removeEntry_smaller:
  assumes "oldestEntryLocked it e = Some (k, entry)"
  shows "length (we_cache (removeEntryLocked k entry e)) < length (we_cache e)"
proof -
  have "map_of (we_cache e) k \<noteq> None"
    using oldest_in_cache [OF assms] unfolding map_of_eq_None_iff by force
  then show ?thesis by (simp add: removeEntryLocked_def Let_def length_delete_less)
qed

text \<open>
  The second and the third loop differ in their condition only. They leave the function when
  no entry is left.
\<close>

function evict_while :: "('c WasmEngine \<Rightarrow> bool) \<Rightarrow> 'c cache_visit \<Rightarrow> 'c WasmEngine \<Rightarrow> 'c WasmEngine" where
  "evict_while over it e =
     (if over e
      then (case oldestEntryLocked it e of
              None \<Rightarrow> e
            | Some (key, entry) \<Rightarrow> evict_while over it (removeEntryLocked key entry e))
      else e)"
  by pat_completeness auto

termination
  by (relation "measure (\<lambda>(_, _, e). length (we_cache e))") (simp_all add: removeEntry_smaller)

declare evict_while.simps [simp del]

definition too_many :: "'c WasmEngine \<Rightarrow> bool" where
  "too_many e \<longleftrightarrow> int (length (we_cache e)) > MaxCachedModules (we_limits e)"

definition too_large :: "'c WasmEngine \<Rightarrow> bool" where
  "too_large e \<longleftrightarrow> we_cacheBytes e > MaxCacheBytes (we_limits e)"

definition evictLocked :: "'c cache_visit \<Rightarrow> time \<Rightarrow> 'c WasmEngine \<Rightarrow> 'c WasmEngine" where
  "evictLocked it now e =
     (let e = evict_while too_many it (remove_expired it now e) in
      if too_many e then e else evict_while too_large it e)"

text \<open>The critical section of \<open>FetchAndCacheWithDigest\<close> that stores a compiled module.\<close>

definition store_compiled ::
  "'c cache_visit \<Rightarrow> ModuleCacheKey \<Rightarrow> 'c \<Rightarrow> int \<Rightarrow> time \<Rightarrow> 'c WasmEngine \<Rightarrow> 'c WasmEngine" where
  "store_compiled it cacheKey compiled nbytes now e =
     (let cacheKeyString = ModuleCacheKey_String cacheKey in
      case map_of (we_cache e) cacheKeyString of
        Some _ \<Rightarrow> e
      | None \<Rightarrow>
          (let clock = we_cacheClock e + 1;
               entry = \<lparr>ce_key = cacheKey, ce_compiled = compiled, ce_sizeBytes = nbytes, ce_createdAt = now,
                        ce_lastUsedAt = now, ce_usedOrder = clock\<rparr>
           in evictLocked it now (e\<lparr>we_cacheClock := clock, we_cache := go_put cacheKeyString entry (we_cache e),
                we_cacheBytes := we_cacheBytes e + nbytes\<rparr>)))"

text \<open>The execution slots: a send on \<open>sem\<close> that fails when the channel is full, and the receive.\<close>

definition acquire_slot :: "'c WasmEngine \<Rightarrow> 'c WasmEngine option" where
  "acquire_slot e =
     (if int (we_sem e) < MaxConcurrentExecs (we_limits e) then Some (e\<lparr>we_sem := Suc (we_sem e)\<rparr>) else None)"

definition release_slot :: "'c WasmEngine \<Rightarrow> 'c WasmEngine" where
  "release_slot e = e\<lparr>we_sem := we_sem e - 1\<rparr>"


section \<open>Accounting\<close>

text \<open>
  The bytes of the cache are the sum over its entries, every entry is stored under the text of
  its own key, and the limits are normalised.
\<close>

definition cache_bytes :: "'c cache_map \<Rightarrow> int" where
  "cache_bytes m = sum_list (map (\<lambda>(_, entry). ce_sizeBytes entry) m)"

definition accounted :: "'c WasmEngine \<Rightarrow> bool" where
  "accounted e \<longleftrightarrow> wf_map (we_cache e) \<and> we_cacheBytes e = cache_bytes (we_cache e) \<and> limits_ok (we_limits e) \<and>
     (\<forall>(k, entry) \<in> set (we_cache e). 0 \<le> ce_sizeBytes entry \<and> k = ModuleCacheKey_String (ce_key entry))"

text \<open>What eviction leaves untouched.\<close>

definition same_frame :: "'c WasmEngine \<Rightarrow> 'c WasmEngine \<Rightarrow> bool" where
  "same_frame e e' \<longleftrightarrow> we_limits e' = we_limits e \<and> we_inflight e' = we_inflight e \<and>
     we_cacheClock e' = we_cacheClock e \<and> we_sem e' = we_sem e"

lemma same_frame_refl [simp]: "same_frame e e"
  by (simp add: same_frame_def)

lemma same_frame_trans: "same_frame a b \<Longrightarrow> same_frame b c \<Longrightarrow> same_frame a c"
  by (simp add: same_frame_def)

lemma removeEntry_simps [simp]:
  "we_cache (removeEntryLocked k entry e) = go_delete k (we_cache e)"
  "we_limits (removeEntryLocked k entry e) = we_limits e"
  "same_frame e0 (removeEntryLocked k entry e) = same_frame e0 e"
  by (simp_all add: removeEntryLocked_def Let_def same_frame_def)

lemma cache_bytes_delete:
  "wf_map m \<Longrightarrow> (k, entry) \<in> set m \<Longrightarrow> cache_bytes (go_delete k m) = cache_bytes m - ce_sizeBytes entry"
proof (induction m)
  case (Cons p m)
  show ?case
  proof (cases "fst p = k")
    case True
    then have "k \<notin> fst ` set m" using Cons.prems(1) by simp
    moreover from this have "p = (k, entry)" using True Cons.prems(2) by (metis fst_conv imageI set_ConsD)
    ultimately show ?thesis by (simp add: cache_bytes_def delete_id)
  next
    case False
    then show ?thesis using Cons by (cases p) (auto simp: cache_bytes_def)
  qed
qed simp

lemma cache_bytes_nonneg: "\<forall>(k, entry) \<in> set m. 0 \<le> ce_sizeBytes entry \<Longrightarrow> 0 \<le> cache_bytes m"
  unfolding cache_bytes_def by (rule sum_list_nonneg) auto

lemma cache_bytes_put:
  "map_of m k = None \<Longrightarrow> cache_bytes (go_put k entry m) = cache_bytes m + ce_sizeBytes entry"
proof (induction m)
  case (Cons p m)
  then show ?case by (cases p) (auto simp: cache_bytes_def split: if_splits)
qed (simp add: cache_bytes_def)

lemma cache_bytes_replace:
  "wf_map m \<Longrightarrow> map_of m k = Some entry \<Longrightarrow> ce_sizeBytes entry' = ce_sizeBytes entry \<Longrightarrow>
   cache_bytes (go_put k entry' m) = cache_bytes m"
proof (induction m)
  case (Cons p m)
  then show ?case by (cases p) (auto simp: cache_bytes_def split: if_splits)
qed simp

lemma removeEntry_accounted:
  assumes "accounted e" "(k, entry) \<in> set (we_cache e)"
  shows "accounted (removeEntryLocked k entry e)"
proof -
  have wf: "wf_map (we_cache e)" and bytes: "we_cacheBytes e = cache_bytes (we_cache e)"
    using assms(1) by (simp_all add: accounted_def)
  have all: "\<forall>(j, en) \<in> set (go_delete k (we_cache e)). 0 \<le> ce_sizeBytes en \<and> j = ModuleCacheKey_String (ce_key en)"
    using assms(1) by (auto simp: accounted_def set_delete)
  then have "0 \<le> cache_bytes (go_delete k (we_cache e))" by (intro cache_bytes_nonneg) auto
  then have "we_cacheBytes (removeEntryLocked k entry e) = cache_bytes (go_delete k (we_cache e))"
    using cache_bytes_delete [OF wf assms(2)] bytes by (simp add: removeEntryLocked_def Let_def)
  then show ?thesis using wf all assms(1) by (simp add: accounted_def)
qed

section \<open>Eviction\<close>

interpretation module_evict: eviction_loop over "oldestEntryLocked it" "\<lambda>e (k, entry). removeEntryLocked k entry e"
  "\<lambda>e. length (we_cache e)" "evict_while over it" for over it
proof
  show "evict_while over it e = (if over e then (case oldestEntryLocked it e of None \<Rightarrow> e
      | Some v \<Rightarrow> evict_while over it (case v of (k, entry) \<Rightarrow> removeEntryLocked k entry e)) else e)" for e
    by (subst evict_while.simps) (auto split: option.splits)
qed (auto simp: removeEntry_smaller simp del: removeEntry_simps)

lemma oldest_None: "oldestEntryLocked it e = None \<longleftrightarrow> we_cache e = []"
  by (cases "we_cache e") (auto simp: oldestEntryLocked_def scan_min_None)

lemma evict_while_accounted:
  assumes "accounted e"
  shows "accounted (evict_while over it e) \<and> same_frame e (evict_while over it e) \<and>
    set (we_cache (evict_while over it e)) \<subseteq> set (we_cache e)"
proof (rule module_evict.loop_keeps)
  fix s v
  assume s: "accounted s \<and> same_frame e s \<and> set (we_cache s) \<subseteq> set (we_cache e)" "oldestEntryLocked it s = Some v"
  obtain k entry where v: "v = (k, entry)" by force
  have "(k, entry) \<in> set (we_cache s)" using oldest_in_cache [of it s k entry] s(2) v by simp
  then show "accounted (case v of (k, entry) \<Rightarrow> removeEntryLocked k entry s) \<and>
      same_frame e (case v of (k, entry) \<Rightarrow> removeEntryLocked k entry s) \<and>
      set (we_cache (case v of (k, entry) \<Rightarrow> removeEntryLocked k entry s)) \<subseteq> set (we_cache e)"
    using s(1) v removeEntry_accounted [of s k entry] by (auto simp: set_delete)
qed (use assms in simp)

lemma evict_while_over: "over (evict_while over it e) \<Longrightarrow> we_cache (evict_while over it e) = []"
  using module_evict.loop_done [of over it e] by (simp add: oldest_None)

lemma not_over_empty:
  assumes "accounted e" "we_cache e = []"
  shows "\<not> too_many e" "\<not> too_large e"
  using assms by (auto simp: accounted_def too_many_def too_large_def limits_ok_def cache_bytes_def)

lemma evict_while_not_over:
  assumes "accounted e"
  shows "\<not> too_many (evict_while too_many it e)" "\<not> too_large (evict_while too_large it e)"
  using assms evict_while_accounted [OF assms] evict_while_over not_over_empty by metis+

lemma remove_expired_loop:
  fixes now :: time
  assumes "accounted e" "wf_map xs" "set xs \<subseteq> set (we_cache e)"
  defines "e' \<equiv> fold (\<lambda>(key, entry) acc. if entryExpired (we_limits acc) entry now then removeEntryLocked key entry acc else acc) xs e"
  shows "accounted e' \<and> same_frame e e' \<and>
    set (we_cache e') = {(k, entry) \<in> set (we_cache e). \<not> ((k, entry) \<in> set xs \<and> entryExpired (we_limits e) entry now)}"
  using assms(1-3) unfolding e'_def
proof (induction xs arbitrary: e)
  case (Cons x xs)
  obtain k entry where x: "x = (k, entry)" by force
  have "(k, entry) \<in> set (we_cache e)" using Cons.prems(3) x by simp
  define e1 where "e1 = (if entryExpired (we_limits e) entry now then removeEntryLocked k entry e else e)"
  have acc: "accounted e1" using Cons.prems x removeEntry_accounted by (auto simp: e1_def)
  have frame: "same_frame e e1" "we_limits e1 = we_limits e" by (simp_all add: e1_def)
  have set1: "set (we_cache e1) = {(j, en) \<in> set (we_cache e). \<not> (j = k \<and> entryExpired (we_limits e) entry now)}"
    by (auto simp: e1_def set_delete)
  have fresh: "k \<notin> fst ` set xs" using Cons.prems(2) x by simp
  have sub: "set xs \<subseteq> set (we_cache e1)"
    using Cons.prems(3) fresh unfolding set1 by force
  have unique: "en = entry" if "(k, en) \<in> set (we_cache e)" for en
    using that \<open>(k, entry) \<in> set (we_cache e)\<close> Cons.prems(1) by (auto simp: accounted_def dest: eq_key_imp_eq_value)
  have "set (we_cache e1) = {(j, en) \<in> set (we_cache e). \<not> ((j, en) = (k, entry) \<and> entryExpired (we_limits e) en now)}"
    unfolding set1 using unique by auto
  then show ?case
    using Cons.IH [OF acc _ sub] Cons.prems(2) frame same_frame_trans [OF frame(1)]
    by (auto simp: x e1_def [symmetric])
qed simp

lemma remove_expired_exact:
  assumes "accounted e"
  shows "accounted (remove_expired it now e)" "same_frame e (remove_expired it now e)"
    "set (we_cache (remove_expired it now e)) = {(k, entry) \<in> set (we_cache e). \<not> entryExpired (we_limits e) entry now}"
  using remove_expired_loop [OF assms, of "range_of it (we_cache e)" now] assms
  by (auto simp: remove_expired_def accounted_def)

lemma evict_bounded:
  fixes it :: "'c cache_visit" and now :: time
  assumes "accounted e"
  defines "e' \<equiv> evictLocked it now e"
  shows "accounted e'" "same_frame e e'" "\<not> too_many e'" "\<not> too_large e'"
    "set (we_cache e') \<subseteq> {(k, entry) \<in> set (we_cache e). \<not> entryExpired (we_limits e) entry now}"
proof -
  define a where "a = remove_expired it now e"
  define b where "b = evict_while too_many it a"
  define c where "c = evict_while too_large it b"
  note a = remove_expired_exact [OF assms(1), of it now, folded a_def]
  note b = evict_while_accounted [OF a(1), of too_many it, folded b_def]
  have nb: "\<not> too_many b" using evict_while_not_over(1) [OF a(1)] by (simp add: b_def)
  then have e': "e' = c" by (simp add: e'_def evictLocked_def Let_def a_def b_def c_def)
  have b1: "accounted b" using b by simp
  note c = evict_while_accounted [OF b1, of too_large it, folded c_def]
  have "distinct (we_cache b)" "distinct (we_cache c)" using b1 c by (simp_all add: accounted_def distinct_map)
  then have "length (we_cache c) \<le> length (we_cache b)"
    using c by (metis card_mono distinct_card finite_set)
  then show "\<not> too_many e'" using nb c by (auto simp: e' too_many_def same_frame_def)
  show "\<not> too_large e'" unfolding e' c_def by (rule evict_while_not_over(2) [OF b1])
  show "accounted e'" "same_frame e e'" using a b c same_frame_trans e' by blast+
  show "set (we_cache e') \<subseteq> {(k, entry) \<in> set (we_cache e). \<not> entryExpired (we_limits e) entry now}"
    using a(3) b c e' by auto
qed


section \<open>Every operation keeps the bounds\<close>

text \<open>
  A healthy engine: the cache is accounted for and within both of its bounds, no key is
  compiled twice at a time, and no more executions run than there are slots.
\<close>

definition engine_wf :: "'c WasmEngine \<Rightarrow> bool" where
  "engine_wf e \<longleftrightarrow> accounted e \<and> \<not> too_many e \<and> \<not> too_large e \<and> wf_map (we_inflight e) \<and>
     int (we_sem e) \<le> MaxConcurrentExecs (we_limits e)"

text \<open>What a goroutine does to the shared engine under the mutex, or through \<open>sem\<close>.\<close>

datatype 'c engine_op =
    OpTouch string time
  | OpBeginCompile string
  | OpFinishCompile string
  | OpStore "'c cache_visit" ModuleCacheKey 'c nat time
  | OpClear "'c cache_visit"
  | OpAcquire
  | OpRelease

fun engine_apply :: "'c engine_op \<Rightarrow> 'c WasmEngine \<Rightarrow> 'c WasmEngine" where
  "engine_apply (OpTouch k now) e = snd (cachedCompiledModule k now e)"
| "engine_apply (OpBeginCompile k) e = snd (beginCompile k e)"
| "engine_apply (OpFinishCompile k) e = finishCompile k e"
| "engine_apply (OpStore it key compiled n now) e = store_compiled it key compiled (int n) now e"
| "engine_apply (OpClear it) e = ClearCache it e"
| "engine_apply OpAcquire e = (case acquire_slot e of None \<Rightarrow> e | Some e' \<Rightarrow> e')"
| "engine_apply OpRelease e = release_slot e"

lemma touch_accounted:
  assumes "accounted e" "map_of (we_cache e) k = Some entry"
  shows "accounted (e\<lparr>we_cacheClock := c, we_cache := go_put k (entry\<lparr>ce_lastUsedAt := t, ce_usedOrder := c\<rparr>) (we_cache e)\<rparr>)"
proof -
  let ?m = "go_put k (entry\<lparr>ce_lastUsedAt := t, ce_usedOrder := c\<rparr>) (we_cache e)"
  have wf: "wf_map (we_cache e)" using assms(1) by (simp add: accounted_def)
  have "(k, entry) \<in> set (we_cache e)" using assms(2) by (rule map_of_SomeD)
  moreover have "cache_bytes ?m = cache_bytes (we_cache e)"
    by (rule cache_bytes_replace [OF wf assms(2)]) simp
  ultimately show ?thesis using assms(1) by (auto simp: accounted_def set_put_wf)
qed

lemma cached_engine_wf:
  assumes "engine_wf e"
  shows "engine_wf (snd (cachedCompiledModule k now e))"
proof (cases "map_of (we_cache e) k")
  case None
  then show ?thesis using assms by (simp add: cachedCompiledModule_def)
next
  case (Some entry)
  have m: "(k, entry) \<in> set (we_cache e)" using Some by (rule map_of_SomeD)
  have wf: "accounted e" "wf_map (we_cache e)" using assms by (simp_all add: engine_wf_def accounted_def)
  have size: "0 \<le> ce_sizeBytes entry" using wf(1) m by (auto simp: accounted_def)
  show ?thesis
  proof (cases "entryExpired (we_limits e) entry now")
    case True
    have "accounted (removeEntryLocked k entry e)" by (rule removeEntry_accounted [OF wf(1) m])
    moreover have "\<not> too_many (removeEntryLocked k entry e)" "\<not> too_large (removeEntryLocked k entry e)"
      using assms length_delete_le [of k "we_cache e"] size
      by (auto simp: engine_wf_def too_many_def too_large_def removeEntryLocked_def Let_def limits_ok_def accounted_def)
    ultimately show ?thesis
      using assms Some True by (simp add: cachedCompiledModule_def engine_wf_def removeEntryLocked_def Let_def)
  next
    case False
    show ?thesis
      using assms Some False touch_accounted [OF wf(1) Some, of "we_cacheClock e + 1" now]
      by (simp add: cachedCompiledModule_def engine_wf_def too_many_def too_large_def length_put Let_def)
  qed
qed

definition inserted :: "ModuleCacheKey \<Rightarrow> 'c \<Rightarrow> int \<Rightarrow> time \<Rightarrow> 'c WasmEngine \<Rightarrow> 'c WasmEngine" where
  "inserted key compiled n now e = e\<lparr>we_cacheClock := we_cacheClock e + 1,
     we_cache := go_put (ModuleCacheKey_String key)
       \<lparr>ce_key = key, ce_compiled = compiled, ce_sizeBytes = n, ce_createdAt = now, ce_lastUsedAt = now,
        ce_usedOrder = we_cacheClock e + 1\<rparr> (we_cache e),
     we_cacheBytes := we_cacheBytes e + n\<rparr>"

lemma store_new:
  "map_of (we_cache e) (ModuleCacheKey_String key) = None \<Longrightarrow>
   store_compiled it key compiled n now e = evictLocked it now (inserted key compiled n now e)"
  by (simp add: store_compiled_def inserted_def Let_def)

lemma inserted_accounted:
  assumes "accounted e" "map_of (we_cache e) (ModuleCacheKey_String key) = None" "0 \<le> n"
  shows "accounted (inserted key compiled n now e)"
  using assms by (auto simp: inserted_def accounted_def set_put_wf cache_bytes_put)

lemma store_wf_frame:
  assumes "accounted e" "0 \<le> n" "map_of (we_cache e) (ModuleCacheKey_String key) = None"
  shows "accounted (store_compiled it key compiled n now e)" "\<not> too_many (store_compiled it key compiled n now e)"
    "\<not> too_large (store_compiled it key compiled n now e)"
    "same_frame (e\<lparr>we_cacheClock := we_cacheClock e + 1\<rparr>) (store_compiled it key compiled n now e)"
  using evict_bounded [OF inserted_accounted [OF assms(1,3,2), of compiled now], of it now]
  unfolding store_new [OF assms(3)] by (simp_all add: same_frame_def inserted_def)

lemma store_engine_wf:
  assumes "engine_wf e"
  shows "engine_wf (store_compiled it key compiled (int n) now e)"
proof (cases "map_of (we_cache e) (ModuleCacheKey_String key)")
  case None
  then show ?thesis
    using store_wf_frame [of e "int n" key it compiled now] assms by (simp add: engine_wf_def same_frame_def)
qed (use assms in \<open>simp add: store_compiled_def\<close>)

lemma ClearCache_eq: "wf_map (we_cache e) \<Longrightarrow> ClearCache it e = e\<lparr>we_cache := [], we_cacheBytes := 0\<rparr>"
  by (simp add: ClearCache_def delete_where_eq case_prod_beta)

lemma engine_apply_wf:
  assumes "engine_wf e"
  shows "engine_wf (engine_apply op e)"
proof (cases op)
  case (OpTouch k now)
  then show ?thesis using cached_engine_wf [OF assms] by simp
next
  case (OpStore it key compiled n now)
  then show ?thesis using store_engine_wf [OF assms] by simp
next
  case (OpClear it)
  have "wf_map (we_cache e)" using assms by (simp add: engine_wf_def accounted_def)
  then show ?thesis
    using assms OpClear
    by (simp add: ClearCache_eq engine_wf_def accounted_def too_many_def too_large_def cache_bytes_def limits_ok_def)
qed (use assms in \<open>auto simp: engine_wf_def accounted_def too_many_def too_large_def beginCompile_def finishCompile_def
      acquire_slot_def release_slot_def split: option.splits\<close>)

lemma new_engine_wf: "engine_wf (NewWasmEngineWithLimits l)"
  using normalizeLimits_ok [of l]
  by (simp add: engine_wf_def NewWasmEngineWithLimits_def accounted_def too_many_def too_large_def cache_bytes_def limits_ok_def)

lemma run_engine_wf: "engine_wf e \<Longrightarrow> engine_wf (fold engine_apply ops e)"
  by (induction ops arbitrary: e) (simp_all add: engine_apply_wf)

text \<open>
  (C12) The cache stays within its bounds. Whatever the goroutines of a worker do to the engine,
  in whatever order their critical sections run, the cache holds at most
  \<open>MaxCachedModules\<close> modules and \<open>MaxCacheBytes\<close> bytes, the counter reported in the statistics
  is the sum of the sizes of the cached modules, every module is filed under the text of its
  own key, and at most \<open>MaxConcurrentExecs\<close> executions hold a slot.
\<close>

theorem engine_cache_invariant:
  fixes ops :: "'c engine_op list" and l :: Limits
  defines "e \<equiv> fold engine_apply ops (NewWasmEngineWithLimits l)"
  shows "cs_Entries (CacheStats e) \<le> MaxCachedModules (we_limits e) \<and>
    cs_Bytes (CacheStats e) \<le> MaxCacheBytes (we_limits e) \<and>
    cs_Bytes (CacheStats e) = sum_list (map (\<lambda>(_, entry). ce_sizeBytes entry) (we_cache e)) \<and>
    distinct (map fst (we_cache e)) \<and> (\<forall>(k, entry) \<in> set (we_cache e). k = ModuleCacheKey_String (ce_key entry)) \<and>
    int (we_sem e) \<le> MaxConcurrentExecs (we_limits e)"
proof -
  have "engine_wf e" unfolding e_def by (rule run_engine_wf [OF new_engine_wf])
  then show ?thesis
    by (auto simp: engine_wf_def accounted_def too_many_def too_large_def CacheStats_def cache_bytes_def)
qed

section \<open>One compilation at a time\<close>

fun ends_compile :: "string \<Rightarrow> 'c engine_op \<Rightarrow> bool" where
  "ends_compile k (OpFinishCompile j) = (j = k)"
| "ends_compile k _ = False"

abbreviation compiling :: "string \<Rightarrow> 'c WasmEngine \<Rightarrow> bool" where
  "compiling k e \<equiv> map_of (we_inflight e) k \<noteq> None"

lemma store_inflight:
  assumes "accounted e"
  shows "we_inflight (store_compiled it key c (int n) now e) = we_inflight e"
proof (cases "map_of (we_cache e) (ModuleCacheKey_String key)")
  case None
  show ?thesis
    using store_wf_frame(4) [OF assms _ None, of "int n" it c now] by (simp add: same_frame_def)
qed (simp add: store_compiled_def)

interpretation compile_flight: single_flight engine_wf compiling "\<lambda>k e. fst (beginCompile k e)" engine_apply ends_compile
proof
  fix e :: "'c WasmEngine" and op :: "'c engine_op" and k
  assume "engine_wf e" and r: "compiling k e" and "\<not> ends_compile k op"
  show "compiling k (engine_apply op e)"
  proof (cases op)
    case (OpTouch j now)
    then show ?thesis
      using r by (simp add: cachedCompiledModule_def removeEntryLocked_def Let_def split: option.splits)
  next
    case (OpStore it key c n now)
    then show ?thesis using r \<open>engine_wf e\<close> by (simp add: store_inflight engine_wf_def)
  next
    case (OpFinishCompile j)
    then show ?thesis using r \<open>\<not> ends_compile k op\<close> by (simp add: finishCompile_def split: option.splits)
  qed (use r in \<open>simp_all add: beginCompile_def ClearCache_def acquire_slot_def release_slot_def split: option.splits\<close>)
qed (simp_all add: engine_apply_wf beginCompile_def split: option.splits)


text \<open>
  (C29) A module is compiled by one goroutine at a time. Once \<open>beginCompile\<close> has made a goroutine
  the leader for a key, then through any operations of the others, until that key is finished,
  no other goroutine becomes its leader; when it is finished, the next one does.
\<close>

theorem compile_single_flight:
  assumes "beginCompile k (fold engine_apply ops0 (NewWasmEngineWithLimits l)) = (True, e1)"
    and "\<forall>op \<in> set ops. \<not> ends_compile k op"
  shows "\<not> fst (beginCompile k (fold engine_apply ops e1)) \<and>
    fst (beginCompile k (finishCompile k (fold engine_apply ops e1)))"
proof -
  let ?e = "fold engine_apply ops0 (NewWasmEngineWithLimits l)"
  have e1: "e1 = engine_apply (OpBeginCompile k) ?e" using assms(1) by simp
  have wf: "engine_wf e1" unfolding e1 by (rule engine_apply_wf [OF run_engine_wf [OF new_engine_wf]])
  have "compiling k e1"
    using assms(1) by (auto simp: beginCompile_def split: option.splits)
  then have "compiling k (fold engine_apply ops e1)" using compile_flight.run_running [OF wf _ assms(2)] by blast
  then show ?thesis by (auto simp: beginCompile_def finishCompile_def)
qed

theorem compile_single_flight_witness:
  "\<not> fst (beginCompile ''m@url:u'' (fold engine_apply [OpTouch ''x'' 3, OpFinishCompile ''x'']
     (snd (beginCompile ''m@url:u'' (NewWasmEngine :: nat WasmEngine)))))"
proof -
  let ?e = "NewWasmEngineWithLimits DefaultLimits :: nat WasmEngine"
  have "beginCompile ''m@url:u'' (fold engine_apply [] ?e) = (True, snd (beginCompile ''m@url:u'' ?e))"
    by (simp add: beginCompile_def NewWasmEngineWithLimits_def)
  moreover have "\<forall>op \<in> set [OpTouch ''x'' 3, OpFinishCompile ''x'']. \<not> ends_compile ''m@url:u'' op" by simp
  ultimately show ?thesis
    using compile_single_flight [of "''m@url:u''" "[]" DefaultLimits "snd (beginCompile ''m@url:u'' ?e)"
        "[OpTouch ''x'' 3, OpFinishCompile ''x'']"]
    unfolding NewWasmEngine_def by blast
qed

section \<open>A stored module can be loaded\<close>

text \<open>The use counters never run ahead of the clock of the cache, unless it wraps around.\<close>

definition ordered :: "'c WasmEngine \<Rightarrow> bool" where
  "ordered e \<longleftrightarrow> (\<forall>(k, entry) \<in> set (we_cache e). ce_usedOrder entry \<le> we_cacheClock e)"

lemma ordered_put:
  assumes "ordered e" "wf_map (we_cache e)" "we_cacheClock e + 1 \<noteq> 0" "ce_usedOrder entry = we_cacheClock e + 1"
  shows "ordered (e\<lparr>we_cacheClock := we_cacheClock e + 1, we_cache := go_put k entry (we_cache e), we_cacheBytes := b\<rparr>)"
proof -
  have "we_cacheClock e \<le> we_cacheClock e + 1"    using assms(3) unatSuc [of "we_cacheClock e"] by (simp add: word_le_nat_alt add.commute)
  then show ?thesis using assms by (auto simp: ordered_def set_put_wf intro: order_trans)
qed

lemma other_entry:
  assumes "accounted s" "map_of (we_cache s) k = Some entry" "over s" "ce_sizeBytes entry \<le> MaxCacheBytes (we_limits s)"
    and "over = too_many \<or> over = too_large"
  obtains j en where "(j, en) \<in> set (we_cache s)" "j \<noteq> k"
proof (rule ccontr)
  assume "\<not> thesis"
  then have all: "fst ` set (we_cache s) \<subseteq> {k}" using that by force
  have wf: "wf_map (we_cache s)" using assms(1) by (simp add: accounted_def)
  have "we_cache s = [(k, entry)]"
  proof (cases "we_cache s")
    case (Cons p m)
    then have "m = []" using all wf by (cases m) auto
    then show ?thesis using Cons assms(2) by (cases p) (auto split: if_splits)
  qed (use assms(2) in simp)
  then show False
    using assms by (auto simp: accounted_def too_many_def too_large_def limits_ok_def cache_bytes_def)
qed

definition newest :: "string \<Rightarrow> 'c moduleCacheEntry \<Rightarrow> 'c WasmEngine \<Rightarrow> bool" where
  "newest k entry s \<longleftrightarrow> accounted s \<and> map_of (we_cache s) k = Some entry \<and>
     ce_sizeBytes entry \<le> MaxCacheBytes (we_limits s) \<and>
     (\<forall>(j, en) \<in> set (we_cache s). j \<noteq> k \<longrightarrow> ce_usedOrder en < ce_usedOrder entry)"

lemma evict_keeps_newest:
  assumes "newest k entry e" "over = too_many \<or> over = too_large"
  shows "newest k entry (evict_while over it e)"
proof (rule module_evict.loop_keeps [where I = "newest k entry", OF _ assms(1)])
  fix s v assume s: "newest k entry s" "over s" "oldestEntryLocked it s = Some v"
  obtain i en where v: "v = (i, en)" by force
  have acc: "accounted s" using s(1) by (simp add: newest_def)
  obtain j jn where j: "(j, jn) \<in> set (we_cache s)" "j \<noteq> k"
    using other_entry [OF acc _ s(2) _ assms(2), of k entry] s(1) by (auto simp: newest_def)
  have "ce_usedOrder en \<le> ce_usedOrder jn"
    using scan_min_Some [OF s(3) [unfolded oldestEntryLocked_def]] j(1) v by fastforce
  also have "\<dots> < ce_usedOrder entry" using s(1) j by (auto simp: newest_def)
  finally have less: "ce_usedOrder en < ce_usedOrder entry" .
  have m: "(i, en) \<in> set (we_cache s)" using oldest_in_cache s(3) v by blast
  have "i \<noteq> k"
  proof
    assume "i = k"
    then have "map_of (we_cache s) k = Some en" using m acc by (simp add: accounted_def)
    then show False using s(1) less by (simp add: newest_def)
  qed
  then show "newest k entry (case v of (k, entry) \<Rightarrow> removeEntryLocked k entry s)"
    using s(1) v removeEntry_accounted [OF acc m] by (auto simp: newest_def set_delete)
qed


lemma clock_no_wrap:
  fixes c :: "64 word"
  assumes "unat c < 2 ^ 64 - 1"
  shows "c + 1 \<noteq> 0 \<and> unat (c + 1) = Suc (unat c)"
proof -
  have "c + 1 \<noteq> 0"
  proof
    assume "c + 1 = 0"
    then have "c = - 1" by (simp add: eq_neg_iff_add_eq_0)
    then show False using assms by (simp add: unsigned_minus_1_eq_mask mask_eq_exp_minus_1)
  qed
  then show ?thesis using unatSuc [of c] by (simp add: add.commute)
qed

lemma ordered_sub:
  "ordered e \<Longrightarrow> set (we_cache e') \<subseteq> set (we_cache e) \<Longrightarrow> we_cacheClock e' = we_cacheClock e \<Longrightarrow> ordered e'"
  by (auto simp: ordered_def)

lemma inserted_ordered:
  assumes "ordered e" "wf_map (we_cache e)" "we_cacheClock e + 1 \<noteq> 0"
  shows "ordered (inserted key c n now e)"
  unfolding inserted_def by (rule ordered_put [OF assms]) simp

lemma store_ordered:
  assumes "accounted e" "ordered e" "we_cacheClock e + 1 \<noteq> 0" "0 \<le> n"
  shows "ordered (store_compiled it key c n now e)"
proof (cases "map_of (we_cache e) (ModuleCacheKey_String key)")
  case None
  have wf: "wf_map (we_cache e)" using assms(1) by (simp add: accounted_def)
  note ev = evict_bounded [OF inserted_accounted [OF assms(1) None assms(4), of c now], of it now]
  show ?thesis unfolding store_new [OF None]
    by (rule ordered_sub [OF inserted_ordered [OF assms(2) wf assms(3)]]) (use ev in \<open>auto simp: same_frame_def\<close>)
qed (use assms in \<open>simp add: store_compiled_def\<close>)

lemma cached_ordered:
  assumes "accounted e" "ordered e" "we_cacheClock e + 1 \<noteq> 0"
  shows "ordered (snd (cachedCompiledModule k now e))"
proof (cases "map_of (we_cache e) k")
  case (Some entry)
  have wf: "wf_map (we_cache e)" using assms(1) by (simp add: accounted_def)
  show ?thesis
  proof (cases "entryExpired (we_limits e) entry now")
    case True
    then show ?thesis
      using assms(2) Some by (auto simp: cachedCompiledModule_def ordered_def set_delete removeEntryLocked_def Let_def)
  next
    case False
    then show ?thesis
      using ordered_put [OF assms(2) wf assms(3), of "entry\<lparr>ce_lastUsedAt := now, ce_usedOrder := we_cacheClock e + 1\<rparr>" "we_cacheBytes e" k] Some
      by (simp add: cachedCompiledModule_def Let_def ordered_def)
  qed
qed (use assms in \<open>simp add: cachedCompiledModule_def\<close>)

lemma engine_apply_ordered:
  assumes "engine_wf e" "ordered e" "unat (we_cacheClock e) < 2 ^ 64 - 1"
  shows "ordered (engine_apply op e) \<and> unat (we_cacheClock (engine_apply op e)) \<le> Suc (unat (we_cacheClock e))"
proof (cases op)
  case (OpTouch k now)
  then show ?thesis
    using cached_ordered [of e k now] assms clock_no_wrap [OF assms(3)]
    by (auto simp: engine_wf_def cachedCompiledModule_def removeEntryLocked_def Let_def split: option.splits)
next
  case (OpStore it key c n now)
  have acc: "accounted e" using assms(1) by (simp add: engine_wf_def)
  have "unat (we_cacheClock (store_compiled it key c (int n) now e)) \<le> Suc (unat (we_cacheClock e))"
  proof (cases "map_of (we_cache e) (ModuleCacheKey_String key)")
    case None
    show ?thesis
      using store_wf_frame(4) [OF acc _ None, of "int n" it c now] clock_no_wrap [OF assms(3)] by (simp add: same_frame_def)
  qed (simp add: store_compiled_def)
  then show ?thesis
    using OpStore store_ordered [OF acc assms(2), of "int n"] clock_no_wrap [OF assms(3)] by simp
next
  case (OpClear it)
  have "wf_map (we_cache e)" using assms by (simp add: engine_wf_def accounted_def)
  then show ?thesis using OpClear by (simp add: ClearCache_eq ordered_def)
qed (use assms in \<open>auto simp: ordered_def beginCompile_def finishCompile_def
      acquire_slot_def release_slot_def split: option.splits\<close>)

lemma run_ordered:
  assumes "length ops < 2 ^ 64"
  shows "ordered (fold engine_apply ops (NewWasmEngineWithLimits l)) \<and>
    unat (we_cacheClock (fold engine_apply ops (NewWasmEngineWithLimits l))) \<le> length ops"
  using assms
proof (induction ops rule: rev_induct)
  case Nil
  show ?case by (simp add: NewWasmEngineWithLimits_def ordered_def)
next
  case (snoc op ops)
  have "engine_wf (fold engine_apply ops (NewWasmEngineWithLimits l))" by (rule run_engine_wf [OF new_engine_wf])
  then show ?case
    using snoc engine_apply_ordered [of "fold engine_apply ops (NewWasmEngineWithLimits l)" op] by simp
qed

lemma inserted_newest:
  assumes "accounted e" "ordered e" "we_cacheClock e + 1 \<noteq> 0" "map_of (we_cache e) (ModuleCacheKey_String key) = None"
    and "0 \<le> n" "n \<le> MaxCacheBytes (we_limits e)"
  shows "\<exists>entry. newest (ModuleCacheKey_String key) entry (inserted key c n now e) \<and>
    ce_compiled entry = c \<and> ce_createdAt entry = now"
proof -
  have "x < we_cacheClock e + 1" if "x \<le> we_cacheClock e" for x
    using that assms(3) unatSuc [of "we_cacheClock e"] by (simp add: word_le_nat_alt word_less_nat_alt add.commute)
  moreover have "wf_map (we_cache e)" using assms(1) by (simp add: accounted_def)
  ultimately show ?thesis
    using inserted_accounted [OF assms(1,4,5), of c now] assms(2,6)
    by (auto simp: newest_def inserted_def ordered_def set_put_wf)
qed

lemma Sub_self: "Sub t t = 0"
  by (simp add: Sub_def min_duration_def max_duration_def)

lemma evictLocked_newest:
  assumes "newest k entry e" "ce_createdAt entry = now"
  shows "newest k entry (evictLocked it now e)"
proof -
  have acc: "accounted e" "wf_map (we_cache e)" using assms(1) by (simp_all add: newest_def accounted_def)
  have "(k, entry) \<in> set (we_cache e)" using assms(1) by (auto simp: newest_def dest: map_of_SomeD)
  then have "(k, entry) \<in> set (we_cache (remove_expired it now e))"
    using remove_expired_exact(3) [OF acc(1), of it now] assms(2) by (simp add: entryExpired_def Sub_self)
  then have "newest k entry (remove_expired it now e)"
    using remove_expired_exact [OF acc(1), of it now] assms(1)
    by (auto simp: newest_def same_frame_def accounted_def)
  then show ?thesis
    by (simp add: evictLocked_def Let_def evict_keeps_newest)
qed

lemma store_too_large:
  assumes "accounted e" "map_of (we_cache e) (ModuleCacheKey_String key) = None" "int n > MaxCacheBytes (we_limits e)"
  shows "map_of (we_cache (store_compiled it key c (int n) now e)) (ModuleCacheKey_String key) = None"
proof (rule ccontr)
  let ?k = "ModuleCacheKey_String key" and ?s = "store_compiled it key c (int n) now e"
  note frame = store_wf_frame [OF assms(1) _ assms(2), of "int n" it c now]
  assume "map_of (we_cache ?s) ?k \<noteq> None"
  then obtain entry where m: "(?k, entry) \<in> set (we_cache ?s)" by (auto dest: map_of_SomeD)
  have "set (we_cache ?s) \<subseteq> set (we_cache (inserted key c (int n) now e))"
    using evict_bounded(5) [OF inserted_accounted [OF assms(1,2), of "int n" c now], of it now]
    by (auto simp: store_new [OF assms(2)])
  moreover have "wf_map (we_cache e)" using assms(1) by (simp add: accounted_def)
  ultimately have "ce_sizeBytes entry = int n" using m by (auto simp: inserted_def set_put_wf)
  moreover have "0 \<le> cache_bytes (go_delete ?k (we_cache ?s))"
    using frame(1) by (intro cache_bytes_nonneg) (auto simp: accounted_def set_delete)
  ultimately have "int n \<le> we_cacheBytes ?s"
    using cache_bytes_delete [OF _ m] frame(1) by (simp add: accounted_def)
  then show False using frame(3,4) assms(3) by (simp add: too_large_def same_frame_def)
qed

text \<open>
  (C30) Storing and loading. In a cache reached by fewer than \<open>2 ^ 64 - 1\<close> operations, a module
  stored under a new key is found under that key exactly when it fits into the cache by itself
  and its time to live has not passed: a fresh module is never the victim of its own insertion,
  and one larger than \<open>MaxCacheBytes\<close> is evicted at once.
\<close>

theorem module_cache_roundtrip:
  fixes ops :: "'c engine_op list" and l :: Limits
  assumes "length ops < 2 ^ 64 - 1"
  defines "e \<equiv> fold engine_apply ops (NewWasmEngineWithLimits l)"
  assumes "map_of (we_cache e) (ModuleCacheKey_String key) = None"
  shows "fst (cachedCompiledModule (ModuleCacheKey_String key) now' (store_compiled it key c (int n) now e)) =
    (if int n \<le> MaxCacheBytes (we_limits e) \<and> Sub now' now \<le> ModuleCacheTTL (we_limits e) then Some c else None)"
proof -
  let ?k = "ModuleCacheKey_String key" and ?s = "store_compiled it key c (int n) now e"
  have wf: "engine_wf e" unfolding e_def by (rule run_engine_wf [OF new_engine_wf])
  then have acc: "accounted e" by (simp add: engine_wf_def)
  have ord: "ordered e" "unat (we_cacheClock e) < 2 ^ 64 - 1" using run_ordered [of ops l] assms(1) by (simp_all add: e_def)
  note frame = store_wf_frame [OF acc _ assms(3), of "int n" it c now]
  have limits: "we_limits ?s = we_limits e" using frame(4) by (simp add: same_frame_def)
  show ?thesis
  proof (cases "int n \<le> MaxCacheBytes (we_limits e)")
    case True
    obtain entry where en: "newest ?k entry (inserted key c (int n) now e)" "ce_compiled entry = c" "ce_createdAt entry = now"
      using inserted_newest [OF acc ord(1) _ assms(3) _ True] clock_no_wrap [OF ord(2)] by fastforce
    then have "map_of (we_cache ?s) ?k = Some entry"
      using evictLocked_newest [OF en(1,3)] by (simp add: store_new [OF assms(3)] newest_def)
    then show ?thesis
      using True en limits acc by (auto simp: cachedCompiledModule_def entryExpired_def Let_def accounted_def limits_ok_def)
  next
    case False
    then have "map_of (we_cache ?s) ?k = None" by (intro store_too_large [OF acc assms(3)]) simp
    then show ?thesis using False by (simp add: cachedCompiledModule_def)
  qed
qed


definition key_a :: ModuleCacheKey where
  "key_a = \<lparr>mk_ModuleName = ''m'', mk_ModuleURL = ''u'', mk_Digest = ''''\<rparr>"

definition limits_a :: Limits where
  "limits_a = DefaultLimits\<lparr>MaxCachedModules := 1, MaxCacheBytes := 10\<rparr>"

theorem module_cache_roundtrip_witness:
  "fst (cachedCompiledModule ''m@url:u'' 9 (store_compiled id key_a (7 :: nat) (int 4) 5 (NewWasmEngineWithLimits limits_a))) = Some 7 \<and>
   fst (cachedCompiledModule ''m@url:u'' 9 (store_compiled id key_a (7 :: nat) (int 11) 5 (NewWasmEngineWithLimits limits_a))) = None"
proof -
  let ?e = "NewWasmEngineWithLimits limits_a :: nat WasmEngine"
  have k: "ModuleCacheKey_String key_a = ''m@url:u''" by (simp add: ModuleCacheKey_String_def key_a_def)
  have l: "MaxCacheBytes (we_limits ?e) = 10" "ModuleCacheTTL (we_limits ?e) = 30 * 60 * Second" "we_cache ?e = []"
    by (simp_all add: NewWasmEngineWithLimits_def normalizeLimits_def limits_a_def DefaultLimits_def or_default_def)
  have s: "Sub 9 5 = 4" by (simp add: Sub_def min_duration_def max_duration_def)
  show ?thesis
    using module_cache_roundtrip [of "[]" limits_a key_a 9 id "7 :: nat" 4 5]
      module_cache_roundtrip [of "[]" limits_a key_a 9 id "7 :: nat" 11 5]
    unfolding k by (simp add: l s)
qed

theorem engine_cache_invariant_witness:
  "cs_Entries (CacheStats (fold engine_apply [OpStore id key_a (1 :: nat) 4 5, OpStore id (key_a\<lparr>mk_Digest := ''d''\<rparr>) 2 8 6]
     (NewWasmEngineWithLimits limits_a))) \<le> 1"
proof -
  let ?e = "fold engine_apply [OpStore id key_a (1 :: nat) 4 5, OpStore id (key_a\<lparr>mk_Digest := ''d''\<rparr>) 2 8 6] (NewWasmEngineWithLimits limits_a)"
  have "engine_wf (NewWasmEngineWithLimits limits_a :: nat WasmEngine)" by (rule new_engine_wf)
  have "MaxCachedModules (we_limits ?e) = 1" by code_simp
  then show ?thesis
    using engine_cache_invariant [of "[OpStore id key_a (1 :: nat) 4 5, OpStore id (key_a\<lparr>mk_Digest := ''d''\<rparr>) 2 8 6]" limits_a]
    by metis
qed

section \<open>Where the cached modules come from\<close>

text \<open>
  Every cached module was put there by a store, so what holds of all stores holds of the cache.
\<close>

definition cache_sat :: "(ModuleCacheKey \<Rightarrow> 'c \<Rightarrow> bool) \<Rightarrow> 'c WasmEngine \<Rightarrow> bool" where
  "cache_sat P e \<longleftrightarrow> (\<forall>(k, entry) \<in> set (we_cache e). P (ce_key entry) (ce_compiled entry))"

fun op_sat :: "(ModuleCacheKey \<Rightarrow> 'c \<Rightarrow> bool) \<Rightarrow> 'c engine_op \<Rightarrow> bool" where
  "op_sat P (OpStore it key compiled n now) = P key compiled"
| "op_sat P _ = True"

lemma cached_sat:
  assumes "engine_wf e" "cache_sat P e"
  shows "cache_sat P (snd (cachedCompiledModule k now e))"
proof (cases "map_of (we_cache e) k")
  case (Some entry)
  have wf: "wf_map (we_cache e)" using assms(1) by (simp add: engine_wf_def accounted_def)
  have "P (ce_key entry) (ce_compiled entry)" using map_of_SomeD [OF Some] assms(2) by (auto simp: cache_sat_def)
  then show ?thesis
    using Some assms(2) wf
    by (auto simp: cachedCompiledModule_def cache_sat_def Let_def set_put_wf set_delete)
qed (use assms in \<open>simp add: cachedCompiledModule_def\<close>)

lemma store_sat:
  assumes "engine_wf e" "cache_sat P e" "P key c"
  shows "cache_sat P (store_compiled it key c (int n) now e)"
proof (cases "map_of (we_cache e) (ModuleCacheKey_String key)")
  case None
  have wf: "accounted e" "wf_map (we_cache e)" using assms(1) by (simp_all add: engine_wf_def accounted_def)
  have "set (we_cache (store_compiled it key c (int n) now e)) \<subseteq> set (we_cache (inserted key c (int n) now e))"
    using evict_bounded(5) [OF inserted_accounted [OF wf(1) None, of "int n" c now], of it now]
    by (auto simp: store_new [OF None])
  moreover have "cache_sat P (inserted key c (int n) now e)"
    using assms(2,3) wf(2) by (auto simp: cache_sat_def inserted_def set_put_wf)
  ultimately show ?thesis by (auto simp: cache_sat_def)
qed (use assms in \<open>simp add: store_compiled_def\<close>)

lemma engine_apply_sat:
  assumes "engine_wf e" "cache_sat P e" "op_sat P op"
  shows "cache_sat P (engine_apply op e)"
proof (cases op)
  case (OpTouch k now)
  then show ?thesis using cached_sat [OF assms(1,2)] by simp
next
  case (OpStore it key c n now)
  then show ?thesis using store_sat [OF assms(1,2), of key c] assms(3) by simp
next
  case (OpClear it)
  have "wf_map (we_cache e)" using assms(1) by (simp add: engine_wf_def accounted_def)
  then show ?thesis using OpClear by (simp add: ClearCache_eq cache_sat_def)
qed (use assms in \<open>auto simp: cache_sat_def beginCompile_def finishCompile_def acquire_slot_def release_slot_def
      split: option.splits\<close>)

lemma run_sat:
  assumes "engine_wf e" "cache_sat P e" "\<forall>op \<in> set ops. op_sat P op"
  shows "engine_wf (fold engine_apply ops e) \<and> cache_sat P (fold engine_apply ops e)"
  using assms
  by (induction ops arbitrary: e) (simp_all add: engine_apply_wf engine_apply_sat)

lemma new_engine_sat: "cache_sat P (NewWasmEngineWithLimits l)"
  by (simp add: cache_sat_def NewWasmEngineWithLimits_def)

text \<open>What a lookup hands out.\<close>

lemma cached_origin:
  assumes "fst (cachedCompiledModule k now e) = Some c"
  obtains entry where "(k, entry) \<in> set (we_cache e)" "ce_compiled entry = c" "\<not> entryExpired (we_limits e) entry now"
  using assms that
  by (auto simp: cachedCompiledModule_def Let_def split: option.splits if_splits dest!: map_of_SomeD)

end
