(* ===== verification/Worker_Runtime.thy ===== *)
theory Worker_Runtime
  imports Worker_Limits Shared_Models
begin

text \<open>
  Running a compiled module: \<open>src/internal/worker/memory.go\<close> and the two ABIs of
  \<open>src/internal/worker/engine.go\<close>.

  The runtime wazero is not part of the repository, so it is a record of functions: \<open>'c\<close> is a
  compiled module, \<open>'i\<close> an instance (its linear memory and the course of its calls), and \<open>'w\<close> the
  world in which modules are compiled and started. A command module's run is the sequence of its
  writes to stdout and stderr and the way it ended. An execution that its deadline cuts short ends
  with an error like any other.
\<close>

datatype wasi_write = Stdout string | Stderr string

datatype wasi_end = Returned | Exited "32 word" | Faulted string

record ('c, 'i, 'w) wazero =
  wz_CompileModule :: "string \<Rightarrow> 'w \<Rightarrow> 'c go_result \<times> 'w"
  wz_ExportedFunctions :: "'c \<Rightarrow> string list"
  wz_InstantiateModule :: "'c \<Rightarrow> 'w \<Rightarrow> 'i go_result \<times> 'w"
  wz_exports :: "'i \<Rightarrow> string \<Rightarrow> bool"
  wz_Call :: "string \<Rightarrow> 64 word list \<Rightarrow> 'i \<Rightarrow> 64 word list go_result \<times> 'i"
  wz_Memory :: "'i \<Rightarrow> bool"
  wz_Write :: "32 word \<Rightarrow> string \<Rightarrow> 'i \<Rightarrow> 'i option"
  wz_Read :: "32 word \<Rightarrow> 32 word \<Rightarrow> 'i \<Rightarrow> string option"
  wz_command :: "'c \<Rightarrow> string \<Rightarrow> 'w \<Rightarrow> (wasi_write list \<times> wasi_end) \<times> 'w"

section \<open>Linear memory\<close>

definition Allocate :: "('c, 'i, 'w) wazero \<Rightarrow> 32 word \<Rightarrow> 'i \<Rightarrow> (32 word) go_result \<times> 'i" where
  "Allocate wz sz inst =
     (if \<not> wz_exports wz inst ''malloc'' then (Inl ''module does not export malloc'', inst)
      else case wz_Call wz ''malloc'' [ucast sz] inst of
        (Inl err, inst) \<Rightarrow> (Inl err, inst)
      | (Inr [], inst) \<Rightarrow> (Inl ''malloc returned no pointer'', inst)
      | (Inr (p # _), inst) \<Rightarrow> (Inr (ucast p), inst))"

definition WriteString :: "('c, 'i, 'w) wazero \<Rightarrow> string \<Rightarrow> 'i \<Rightarrow> (32 word) go_result \<times> 'i" where
  "WriteString wz input inst =
     (case Allocate wz (of_nat (length input)) inst of
        (Inl err, inst) \<Rightarrow> (Inl err, inst)
      | (Inr ptr, inst) \<Rightarrow>
          if \<not> wz_Memory wz inst then (Inl ''module does not export memory'', inst)
          else (case wz_Write wz ptr input inst of
                  None \<Rightarrow> (Inl ''could not write to Wasm memory'', inst)
                | Some inst \<Rightarrow> (Inr ptr, inst)))"

definition ReadString :: "('c, 'i, 'w) wazero \<Rightarrow> 32 word \<Rightarrow> 32 word \<Rightarrow> 'i \<Rightarrow> string go_result" where
  "ReadString wz ptr len inst =
     (if \<not> wz_Memory wz inst then Inl ''module does not export memory''
      else case wz_Read wz ptr len inst of None \<Rightarrow> Inl ''out of memory bounds'' | Some data \<Rightarrow> Inr data)"

section \<open>The ABI of a module\<close>

definition resolveModuleABI :: "('c, 'i, 'w) wazero \<Rightarrow> string \<Rightarrow> 'c \<Rightarrow> string \<Rightarrow> string go_result" where
  "resolveModuleABI wz abi compiled moduleName =
     (if abi = ModuleABIWasmcat \<or> abi = ModuleABIWASI then Inr abi
      else if abi = ModuleABIAuto then
        (if ''run'' \<in> set (wz_ExportedFunctions wz compiled) then Inr ModuleABIWasmcat
         else if ''_start'' \<in> set (wz_ExportedFunctions wz compiled) then Inr ModuleABIWASI
         else Inl (''module '' @ moduleName @ '' exports neither run (wasmcat ABI) nor _start (wasi); set abi explicitly''))
      else Inl (''unsupported abi '' @ abi @ '' for module '' @ moduleName))"

text \<open>The result of \<open>run\<close>: the pointer in the high 32 bits, the length in the low 32 bits.\<close>

definition outputPtr :: "64 word \<Rightarrow> 32 word" where
  "outputPtr packedOutput = ucast (drop_bit 32 packedOutput)"

definition outputLen :: "64 word \<Rightarrow> 32 word" where
  "outputLen packedOutput = ucast packedOutput"

definition output_too_large :: "Limits \<Rightarrow> string" where
  "output_too_large limits = ''output exceeds max size of '' @ itoa (uint (MaxOutputBytes limits)) @ '' bytes''"

text \<open>What \<open>runWasmcatModule\<close> does with the results of \<open>run\<close>.\<close>

definition read_output :: "('c, 'i, 'w) wazero \<Rightarrow> Limits \<Rightarrow> string \<Rightarrow> 64 word list \<Rightarrow> 'i \<Rightarrow> string go_result" where
  "read_output wz limits moduleName results inst =
     (case results of
        [] \<Rightarrow> Inl (''module '' @ moduleName @ '' returned no result'')
      | packedOutput # _ \<Rightarrow>
          if outputLen packedOutput > MaxOutputBytes limits then Inl (output_too_large limits)
          else (case ReadString wz (outputPtr packedOutput) (outputLen packedOutput) inst of
                  Inl err \<Rightarrow> Inl (''read output for '' @ moduleName @ '': '' @ err)
                | Inr output \<Rightarrow> Inr output))"

definition runWasmcatModule ::
  "('c, 'i, 'w) wazero \<Rightarrow> Limits \<Rightarrow> 'c \<Rightarrow> string \<Rightarrow> string \<Rightarrow> 'w \<Rightarrow> string go_result \<times> 'w" where
  "runWasmcatModule wz limits compiled moduleName payload w =
     (case wz_InstantiateModule wz compiled w of
        (Inl err, w) \<Rightarrow> (Inl (''instantiate module '' @ moduleName @ '': '' @ err), w)
      | (Inr inst, w) \<Rightarrow>
          (case WriteString wz payload inst of
             (Inl err, _) \<Rightarrow> (Inl (''write input for '' @ moduleName @ '': '' @ err), w)
           | (Inr inputPtr, inst) \<Rightarrow>
               if \<not> wz_exports wz inst ''run'' then (Inl (''module '' @ moduleName @ '' does not export run''), w)
               else (case wz_Call wz ''run'' [ucast inputPtr, of_nat (length payload)] inst of
                       (Inl err, _) \<Rightarrow> (Inl (''run module '' @ moduleName @ '': '' @ err), w)
                     | (Inr results, inst) \<Rightarrow> (read_output wz limits moduleName results inst, w))))"

section \<open>Bounded output of command modules\<close>

record cappedBuffer =
  cb_buf :: string
  cb_max :: int
  cb_overflow :: bool

definition cappedBuffer_Write :: "string \<Rightarrow> cappedBuffer \<Rightarrow> cappedBuffer" where
  "cappedBuffer_Write p c =
     (if cb_max c \<le> 0 then c\<lparr>cb_buf := cb_buf c @ p\<rparr>
      else if cb_overflow c then c
      else
        (let remaining = cb_max c - int (length (cb_buf c)) in
         if remaining \<le> 0 then c\<lparr>cb_overflow := True\<rparr>
         else if int (length p) > remaining then c\<lparr>cb_buf := cb_buf c @ take (nat remaining) p, cb_overflow := True\<rparr>
         else c\<lparr>cb_buf := cb_buf c @ p\<rparr>))"

definition new_cappedBuffer :: "int \<Rightarrow> cappedBuffer" where
  "new_cappedBuffer m = \<lparr>cb_buf = '''', cb_max = m, cb_overflow = False\<rparr>"

fun on_stdout :: "wasi_write \<Rightarrow> string list" where
  "on_stdout (Stdout s) = [s]"
| "on_stdout (Stderr _) = []"

fun on_stderr :: "wasi_write \<Rightarrow> string list" where
  "on_stderr (Stderr s) = [s]"
| "on_stderr (Stdout _) = []"

definition runWASIModule ::
  "('c, 'i, 'w) wazero \<Rightarrow> Limits \<Rightarrow> 'c \<Rightarrow> string \<Rightarrow> string \<Rightarrow> 'w \<Rightarrow> string go_result \<times> 'w" where
  "runWASIModule wz limits compiled moduleName payload w =
     (case wz_command wz compiled payload w of
        ((writes, finish), w) \<Rightarrow>
          (let stdout = fold cappedBuffer_Write (concat (map on_stdout writes)) (new_cappedBuffer (uint (MaxOutputBytes limits)));
               stderr = fold cappedBuffer_Write (concat (map on_stderr writes)) (new_cappedBuffer 4096);
               output = (if cb_overflow stdout then Inl (output_too_large limits) else Inr (cb_buf stdout))
           in (case finish of
                 Returned \<Rightarrow> output
               | Exited code \<Rightarrow>
                   if code \<noteq> 0
                   then Inl (''wasi module '' @ moduleName @ '' exited with code '' @ itoa (uint code) @ '': '' @ TrimSpace (cb_buf stderr))
                   else output
               | Faulted err \<Rightarrow> Inl (''run wasi module '' @ moduleName @ '': '' @ err), w)))"

section \<open>The buffer keeps a prefix\<close>

text \<open>After any writes the buffer holds the first \<open>max\<close> bytes, and has overflowed if there were more.\<close>

definition capped :: "string \<Rightarrow> cappedBuffer \<Rightarrow> bool" where
  "capped s c \<longleftrightarrow> cb_buf c = take (nat (cb_max c)) s \<and> (int (length s) > cb_max c \<longrightarrow> cb_overflow c) \<and>
     (cb_overflow c \<longrightarrow> int (length s) \<ge> cb_max c)"

lemma capped_Write:
  assumes "capped s c" "0 < cb_max c"
  shows "capped (s @ p) (cappedBuffer_Write p c) \<and> cb_max (cappedBuffer_Write p c) = cb_max c"
proof (cases "cb_overflow c")
  case True
  then show ?thesis using assms by (auto simp: capped_def cappedBuffer_Write_def)
next
  case False
  then have s: "int (length s) \<le> cb_max c" "cb_buf c = s" using assms by (auto simp: capped_def)
  then show ?thesis using False assms(2) by (auto simp: capped_def cappedBuffer_Write_def Let_def nat_diff_distrib')
qed

lemma capped_fold:
  "capped s c \<Longrightarrow> 0 < cb_max c \<Longrightarrow>
   capped (s @ concat ps) (fold cappedBuffer_Write ps c) \<and> cb_max (fold cappedBuffer_Write ps c) = cb_max c"
proof (induction ps arbitrary: s c)
  case (Cons p ps)
  show ?case using capped_Write [OF Cons.prems, of p] Cons.IH [of "s @ p" "cappedBuffer_Write p c"] Cons.prems(2) by simp
qed simp

lemma capped_new: "0 < m \<Longrightarrow> capped '''' (new_cappedBuffer m)"
  by (simp add: capped_def new_cappedBuffer_def)

text \<open>Writes that are not empty never report an overflow that did not happen.\<close>

lemma exact_Write:
  assumes "capped s c" "0 < cb_max c" "p \<noteq> []" "cb_overflow c \<longrightarrow> int (length s) > cb_max c"
  shows "cb_overflow (cappedBuffer_Write p c) \<longrightarrow> int (length (s @ p)) > cb_max c"
proof (cases "cb_overflow c")
  case False
  then have s: "int (length s) \<le> cb_max c" "cb_buf c = s" using assms by (auto simp: capped_def)
  have "0 < length p" using assms(3) by simp
  then show ?thesis using False assms(2) s by (auto simp: cappedBuffer_Write_def Let_def)
qed (use assms in auto)

lemma exact_fold:
  "capped s c \<Longrightarrow> 0 < cb_max c \<Longrightarrow> [] \<notin> set ps \<Longrightarrow> (cb_overflow c \<longrightarrow> int (length s) > cb_max c) \<Longrightarrow>
   cb_overflow (fold cappedBuffer_Write ps c) \<longrightarrow> int (length (s @ concat ps)) > cb_max c"
proof (induction ps arbitrary: s c)
  case (Cons p ps)
  have "p \<noteq> []" using Cons.prems(3) by auto
  then show ?case
    using capped_Write [OF Cons.prems(1,2), of p] exact_Write [OF Cons.prems(1,2) _ Cons.prems(4), of p]
      Cons.IH [of "s @ p" "cappedBuffer_Write p c"] Cons.prems by simp
qed simp


text \<open>
  The output buffer of a command module never holds more than its limit: after any writes it holds
  exactly the first \<open>max\<close> bytes of what was written, and it has overflowed whenever more was written.
  Without empty writes it has overflowed only then.
\<close>

theorem capped_buffer_exact:
  fixes ps :: "string list" and m :: int
  assumes "0 < m"
  defines "c \<equiv> fold cappedBuffer_Write ps (new_cappedBuffer m)"
  shows "cb_buf c = take (nat m) (concat ps) \<and> (int (length (concat ps)) > m \<longrightarrow> cb_overflow c) \<and>
    ([] \<notin> set ps \<longrightarrow> cb_overflow c = (int (length (concat ps)) > m))"
proof -
  have "capped (concat ps) c \<and> cb_max c = m"
    using capped_fold [OF capped_new [OF assms(1)], of ps] assms(1) by (simp add: c_def new_cappedBuffer_def)
  moreover have "cb_overflow c \<longrightarrow> int (length (concat ps)) > m" if "[] \<notin> set ps"
    using exact_fold [OF capped_new [OF assms(1)] _ that] assms(1) by (simp add: c_def new_cappedBuffer_def)
  ultimately show ?thesis by (auto simp: capped_def)
qed

theorem capped_buffer_exact_witness:
  "cb_buf (fold cappedBuffer_Write [''ab'', ''cd''] (new_cappedBuffer 3)) = ''abc'' \<and>
   cb_overflow (fold cappedBuffer_Write [''ab'', ''cd''] (new_cappedBuffer 3))"
  using capped_buffer_exact [of 3 "[''ab'', ''cd'']"] by simp

text \<open>A module that packs a pointer and a length into its result gets exactly these read back.\<close>

lemma packed_output:
  fixes ptr len :: "32 word"
  defines "packed \<equiv> or (push_bit 32 (ucast ptr)) (ucast len) :: 64 word"
  shows "outputPtr packed = ptr" "outputLen packed = len"
proof -
  show "outputPtr packed = ptr"
    unfolding packed_def outputPtr_def by (rule bit_word_eqI) (auto simp: bit_simps dest: bit_imp_le_length)
  show "outputLen packed = len"
    unfolding packed_def outputLen_def by (rule bit_word_eqI) (auto simp: bit_simps)
qed

end
