(* ===== verification/Worker_Engine.thy ===== *)
theory Worker_Engine
  imports Worker_Cache Worker_Runtime Shared_Client
begin

text \<open>
  The rest of \<open>src/internal/worker/engine.go\<close>: fetching a module, checking its digest, and executing it.

  A goroutine runs its statements in order, and the other goroutines of the worker change the shared
  engine in between. A \<open>schedule\<close> says what they do: the critical sections they run in the \<open>i\<close>-th gap
  of this goroutine, the clock readings, and whether the context ends the \<open>i\<close>-th wait for another
  goroutine's compilation. Theorems quantify over schedules.
\<close>

section \<open>Digests\<close>

datatype engine_error =
    EngineErr string
  | ModuleDigestError string string string string

fun engine_error_text :: "engine_error \<Rightarrow> string" where
  "engine_error_text (EngineErr text) = text"
| "engine_error_text (ModuleDigestError reason moduleName digest text) = text"

definition ModuleDigestErrorInvalid :: string where "ModuleDigestErrorInvalid = ''invalid''"
definition ModuleDigestErrorMismatch :: string where "ModuleDigestErrorMismatch = ''mismatch''"

text \<open>
  What the engine uses of its surroundings: the runtime, the network, whether a download request
  can be built for a URL, an error of reading a body, \<open>sha256.Sum256\<close>, the Unicode part of
  \<open>strings.ToLower\<close>, \<open>strconv.Quote\<close>, the text of a \<open>hex.DecodeString\<close> error and of the context's error.
\<close>

record ('c, 'i, 'w) engine_env =
  en_wazero :: "('c, 'i, 'w) wazero"
  en_net :: "'w network"
  en_NewRequest :: "string \<Rightarrow> go_error"
  en_ReadAll :: "http_reply \<Rightarrow> nat \<Rightarrow> go_error"
  en_sha256 :: "string \<Rightarrow> string"
  en_lower :: "string \<Rightarrow> string"
  en_quote :: "string \<Rightarrow> string"
  en_hex_error :: "string \<Rightarrow> string"
  en_ctx_error :: string

definition newModuleDigestError :: "string \<Rightarrow> string \<Rightarrow> string \<Rightarrow> string \<Rightarrow> engine_error" where
  "newModuleDigestError reason moduleName digest err = ModuleDigestError reason moduleName digest err"

definition verifyModuleDigest ::
  "('c, 'i, 'w) engine_env \<Rightarrow> string \<Rightarrow> string \<Rightarrow> string \<Rightarrow> engine_error option" where
  "verifyModuleDigest env moduleName wasmBytes digest0 =
     (let moduleDigest = TrimSpace digest0 in
      if moduleDigest = '''' then None
      else case Cut (CHR '':'') moduleDigest of
        (algorithm, expectedDigest, ok) \<Rightarrow>
          if \<not> ok \<or> algorithm \<noteq> ''sha256'' \<or> expectedDigest = ''''
          then Some (newModuleDigestError ModuleDigestErrorInvalid moduleName moduleDigest
                 (''unsupported module digest '' @ en_quote env moduleDigest @ '' for '' @ moduleName))
          else
            (let expectedDigest = ToLower (en_lower env) (TrimSpace expectedDigest) in
             if length expectedDigest \<noteq> 64
             then Some (newModuleDigestError ModuleDigestErrorInvalid moduleName moduleDigest
                    (''module digest '' @ en_quote env moduleDigest @ '' for '' @ moduleName @ '' must be a sha256 hex digest''))
             else if \<not> hex_valid expectedDigest
             then Some (newModuleDigestError ModuleDigestErrorInvalid moduleName moduleDigest
                    (''module digest '' @ en_quote env moduleDigest @ '' for '' @ moduleName @ '' must be valid hex: '' @ en_hex_error env expectedDigest))
             else
               (let actualDigest = hex_encode (en_sha256 env wasmBytes) in
                if actualDigest \<noteq> expectedDigest
                then Some (newModuleDigestError ModuleDigestErrorMismatch moduleName moduleDigest
                       (''module '' @ moduleName @ '' digest mismatch: expected sha256:'' @ expectedDigest @ '' got sha256:'' @ actualDigest))
                else None)))"

section \<open>Download\<close>

definition download_call :: "string \<Rightarrow> string \<Rightarrow> http_call" where
  "download_call moduleURL bearerToken =
     \<lparr>hc_Method = ''GET'', hc_URL = moduleURL,
      hc_Headers = (if bearerToken \<noteq> '''' then [(''Authorization'', ''Bearer '' @ bearerToken)] else []),
      hc_Body = NoBody\<rparr>"

text \<open>The checks on the body of a download, and the compilation.\<close>

definition compile_body ::
  "('c, 'i, 'w) engine_env \<Rightarrow> Limits \<Rightarrow> string \<Rightarrow> string \<Rightarrow> string \<Rightarrow> http_reply \<Rightarrow> 'w \<Rightarrow> (engine_error + ('c \<times> string)) \<times> 'w" where
  "compile_body env limits moduleName moduleURL moduleDigest resp w =
     (let limit = nat (add64 (MaxModuleBytes limits) 1) in
      case en_ReadAll env resp limit of
        Some err \<Rightarrow> (Inl (EngineErr (''read '' @ moduleURL @ '': '' @ err)), w)
      | None \<Rightarrow>
          (let wasmBytes = take limit (hp_Body resp) in
           if int (length wasmBytes) > MaxModuleBytes limits
           then (Inl (EngineErr (''module '' @ moduleName @ '' exceeds max size of '' @ itoa (MaxModuleBytes limits) @ '' bytes'')), w)
           else case verifyModuleDigest env moduleName wasmBytes moduleDigest of
             Some err \<Rightarrow> (Inl err, w)
           | None \<Rightarrow>
               (case wz_CompileModule (en_wazero env) wasmBytes w of
                  (Inl err, w) \<Rightarrow> (Inl (EngineErr (''compile '' @ moduleName @ '': '' @ err)), w)
                | (Inr compiled, w) \<Rightarrow> (Inr (compiled, wasmBytes), w))))"

definition downloadAndCompile ::
  "('c, 'i, 'w) engine_env \<Rightarrow> Limits \<Rightarrow> string \<Rightarrow> string \<Rightarrow> string \<Rightarrow> string \<Rightarrow> 'w \<Rightarrow> (engine_error + ('c \<times> string)) \<times> 'w" where
  "downloadAndCompile env limits moduleName moduleURL moduleDigest bearerToken w =
     (case en_NewRequest env moduleURL of
        Some err \<Rightarrow> (Inl (EngineErr (''create request for '' @ moduleURL @ '': '' @ err)), w)
      | None \<Rightarrow>
          (case DoWithRetry (en_net env) (download_call moduleURL bearerToken) w of
             (Inl err, w) \<Rightarrow> (Inl (EngineErr (''download '' @ moduleURL @ '': '' @ err)), w)
           | (Inr resp, w) \<Rightarrow>
               if hp_StatusCode resp \<noteq> 200
               then (Inl (EngineErr (''download '' @ moduleURL @ '': unexpected status '' @ hp_Status resp)), w)
               else compile_body env limits moduleName moduleURL moduleDigest resp w))"

section \<open>Fetching through the cache\<close>

record 'c schedule =
  sc_ops :: "nat \<Rightarrow> 'c engine_op list"
  sc_clock :: "nat \<Rightarrow> time"
  sc_done :: "nat \<Rightarrow> bool"
  sc_refuse :: bool
  sc_visit :: "'c cache_visit"

definition others :: "'c schedule \<Rightarrow> nat \<Rightarrow> 'c WasmEngine \<Rightarrow> 'c WasmEngine" where
  "others sc i e = fold engine_apply (sc_ops sc i) e"

definition cache_key :: "string \<Rightarrow> string \<Rightarrow> string \<Rightarrow> ModuleCacheKey" where
  "cache_key moduleName moduleURL moduleDigest =
     \<lparr>mk_ModuleName = TrimSpace moduleName, mk_ModuleURL = TrimSpace moduleURL, mk_Digest = TrimSpace moduleDigest\<rparr>"

text \<open>
  The loop that becomes the leader or waits for it. A wait ends when the leader's channel is closed or
  when the context is done; with both, either may be taken.
\<close>

datatype wait_end = Leads | Hits | Cancelled

partial_function (option) await_leader ::
  "'c schedule \<Rightarrow> string \<Rightarrow> nat \<Rightarrow> 'c WasmEngine \<Rightarrow> (wait_end \<times> nat \<times> 'c WasmEngine) option" where
  "await_leader sc k i e =
     (let (leader, e) = beginCompile k e in
      if leader then Some (Leads, i, e)
      else
        (let e = others sc i e in
         if sc_done sc i then Some (Cancelled, Suc i, e)
         else
           (let (hit, e) = touchCachedModule k (sc_clock sc i) e in
            if hit then Some (Hits, Suc i, e)
            else await_leader sc k (i + 2) (others sc (i + 1) e))))"

declare await_leader.simps [code]

text \<open>What the leader does; \<open>finishCompile\<close> is deferred to its end.\<close>

definition lead_compile ::
  "('c, 'i, 'w) engine_env \<Rightarrow> 'c schedule \<Rightarrow> string \<Rightarrow> string \<Rightarrow> string \<Rightarrow> string \<Rightarrow> nat \<Rightarrow> 'c WasmEngine \<Rightarrow> 'w \<Rightarrow>
   engine_error option \<times> 'c WasmEngine \<times> 'w" where
  "lead_compile env sc moduleName moduleURL moduleDigest bearerToken i e w =
     (let key = cache_key moduleName moduleURL moduleDigest;
          k = ModuleCacheKey_String key;
          (hit, e) = touchCachedModule k (sc_clock sc i) (others sc i e)
      in if hit then (None, finishCompile k e, w)
         else case downloadAndCompile env (we_limits e) moduleName moduleURL moduleDigest bearerToken w of
           (Inl err, w) \<Rightarrow> (Some err, finishCompile k (others sc (i + 1) e), w)
         | (Inr (compiled, wasmBytes), w) \<Rightarrow>
             (None, finishCompile k (others sc (i + 2)
                (store_compiled (sc_visit sc) key compiled (int (length wasmBytes)) (sc_clock sc (i + 1))
                   (others sc (i + 1) e))), w))"

definition FetchAndCacheWithDigest ::
  "('c, 'i, 'w) engine_env \<Rightarrow> 'c schedule \<Rightarrow> string \<Rightarrow> string \<Rightarrow> string \<Rightarrow> string \<Rightarrow> 'c WasmEngine \<Rightarrow> 'w \<Rightarrow>
   (engine_error option \<times> nat \<times> 'c WasmEngine \<times> 'w) option" where
  "FetchAndCacheWithDigest env sc moduleName moduleURL moduleDigest bearerToken e w =
     (let k = ModuleCacheKey_String (cache_key moduleName moduleURL moduleDigest);
          (hit, e) = touchCachedModule k (sc_clock sc 0) e
      in if hit then Some (None, 1, e, w)
         else if moduleURL = '''' then Some (Some (EngineErr (''module '' @ moduleName @ '' has no module URL'')), 1, e, w)
         else case await_leader sc k 2 (others sc 1 e) of
           None \<Rightarrow> None
         | Some (Cancelled, i, e) \<Rightarrow> Some (Some (EngineErr (en_ctx_error env)), i, e, w)
         | Some (Hits, i, e) \<Rightarrow> Some (None, i, e, w)
         | Some (Leads, i, e) \<Rightarrow>
             (case lead_compile env sc moduleName moduleURL moduleDigest bearerToken i e w of
                (err, e, w) \<Rightarrow> Some (err, i + 3, e, w)))"

definition FetchAndCache where
  "FetchAndCache env sc moduleName moduleURL bearerToken e w =
     FetchAndCacheWithDigest env sc moduleName moduleURL '''' bearerToken e w"

section \<open>Execution\<close>

definition run_module ::
  "('c, 'i, 'w) engine_env \<Rightarrow> Limits \<Rightarrow> string \<Rightarrow> 'c \<Rightarrow> string \<Rightarrow> string \<Rightarrow> 'w \<Rightarrow> (engine_error + string) \<times> 'w" where
  "run_module env limits abi compiled moduleName payload w =
     (case resolveModuleABI (en_wazero env) abi compiled moduleName of
        Inl err \<Rightarrow> (Inl (EngineErr err), w)
      | Inr mode \<Rightarrow>
          (case (if mode = ModuleABIWASI then runWASIModule (en_wazero env) limits compiled moduleName payload w
                 else runWasmcatModule (en_wazero env) limits compiled moduleName payload w) of
             (Inl err, w) \<Rightarrow> (Inl (EngineErr err), w)
           | (Inr result, w) \<Rightarrow> (Inr result, w)))"

text \<open>The execution between taking and giving back the slot.\<close>

definition execute_in_slot ::
  "('c, 'i, 'w) engine_env \<Rightarrow> 'c schedule \<Rightarrow> string \<Rightarrow> string \<Rightarrow> string \<Rightarrow> string \<Rightarrow> string \<Rightarrow> string \<Rightarrow> 'c WasmEngine \<Rightarrow> 'w \<Rightarrow>
   ((engine_error + string) \<times> 'c WasmEngine \<times> 'w) option" where
  "execute_in_slot env sc moduleName moduleURL moduleDigest payload bearerToken abi e w =
     (case FetchAndCacheWithDigest env sc moduleName moduleURL moduleDigest bearerToken e w of
        None \<Rightarrow> None
      | Some (Some err, i, e, w) \<Rightarrow> Some (Inl err, e, w)
      | Some (None, i, e, w) \<Rightarrow>
          (case cachedCompiledModule (ModuleCacheKey_String (cache_key moduleName moduleURL moduleDigest)) (sc_clock sc i) (others sc i e) of
             (None, e) \<Rightarrow> Some (Inl (EngineErr (''module '' @ moduleName @ '' not loaded'')), e, w)
           | (Some compiled, e) \<Rightarrow>
               (case run_module env (we_limits e) abi compiled moduleName payload w of
                  (res, w) \<Rightarrow> Some (res, others sc (i + 1) e, w))))"

definition ExecuteWithDigestAndABI ::
  "('c, 'i, 'w) engine_env \<Rightarrow> 'c schedule \<Rightarrow> string \<Rightarrow> string \<Rightarrow> string \<Rightarrow> string \<Rightarrow> string \<Rightarrow> string \<Rightarrow> 'c WasmEngine \<Rightarrow> 'w \<Rightarrow>
   ((engine_error + string) \<times> 'c WasmEngine \<times> 'w) option" where
  "ExecuteWithDigestAndABI env sc moduleName moduleURL moduleDigest payload bearerToken abi e w =
     (if int (length payload) > MaxPayloadBytes (we_limits e)
      then Some (Inl (EngineErr (''payload exceeds max size of '' @ itoa (MaxPayloadBytes (we_limits e)) @ '' bytes'')), e, w)
      else if sc_refuse sc then Some (Inl (EngineErr (en_ctx_error env)), e, w)
      else case acquire_slot e of
        None \<Rightarrow> Some (Inl (EngineErr (''worker is at max execution capacity of '' @ itoa (MaxConcurrentExecs (we_limits e)))), e, w)
      | Some e \<Rightarrow>
          map_option (\<lambda>(res, e, w). (res, release_slot e, w))
            (execute_in_slot env sc moduleName moduleURL moduleDigest payload bearerToken abi (others sc 0 e) w))"

definition ExecuteWithDigest where
  "ExecuteWithDigest env sc moduleName moduleURL moduleDigest payload bearerToken e w =
     ExecuteWithDigestAndABI env sc moduleName moduleURL moduleDigest payload bearerToken ModuleABIAuto e w"

definition Execute where
  "Execute env sc moduleName moduleURL payload bearerToken e w =
     ExecuteWithDigest env sc moduleName moduleURL '''' payload bearerToken e w"


section \<open>Reading the digest\<close>

text \<open>What \<open>verifyModuleDigest\<close> accepts: no digest, or the SHA-256 of the bytes in hexadecimal.\<close>

definition digest_of :: "('c, 'i, 'w) engine_env \<Rightarrow> string \<Rightarrow> string \<Rightarrow> bool" where
  "digest_of env wasmBytes moduleDigest \<longleftrightarrow>
     (\<exists>expected. TrimSpace moduleDigest = ''sha256:'' @ expected \<and>
        ToLower (en_lower env) (TrimSpace expected) = hex_encode (en_sha256 env wasmBytes))"

lemma verify_digest_of:
  assumes "verifyModuleDigest env moduleName wasmBytes moduleDigest = None" "TrimSpace moduleDigest \<noteq> ''''"
  shows "digest_of env wasmBytes moduleDigest"
proof -
  obtain a x ok where c: "Cut (CHR '':'') (TrimSpace moduleDigest) = (a, x, ok)" by (metis prod_cases3)
  have ok: "ok" "a = ''sha256''" "ToLower (en_lower env) (TrimSpace x) = hex_encode (en_sha256 env wasmBytes)"
    using assms c by (auto simp: verifyModuleDigest_def Let_def split: if_splits)
  then have "TrimSpace moduleDigest = a @ CHR '':'' # x" using c by (simp add: Cut_found)
  then show ?thesis using ok by (auto simp: digest_of_def)
qed

lemma verify_trim [simp]: "verifyModuleDigest env n b (TrimSpace d) = verifyModuleDigest env n b d"
  by (simp add: verifyModuleDigest_def)

section \<open>Only verified modules are cached\<close>

definition verified :: "('c, 'i, 'w) engine_env \<Rightarrow> ModuleCacheKey \<Rightarrow> 'c \<Rightarrow> bool" where
  "verified env key compiled \<longleftrightarrow>
     (\<exists>wasmBytes w w'. wz_CompileModule (en_wazero env) wasmBytes w = (Inr compiled, w') \<and>
        (if mk_Digest key = '''' then mk_ModuleURL key \<noteq> '''' else digest_of env wasmBytes (mk_Digest key)))"

text \<open>An HTTP client refuses a request whose URL is blank: it has no scheme.\<close>

definition refuses_blank_urls :: "'w network \<Rightarrow> bool" where
  "refuses_blank_urls net \<longleftrightarrow>
     (\<forall>call w. TrimSpace (hc_URL call) = '''' \<longrightarrow> (\<exists>err w'. net_do net call w = (Inl err, w')))"

lemma retry_loop_refused:
  assumes "\<And>call w. hc_URL call = hc_URL req \<Longrightarrow> \<exists>err w'. net_do net call w = (Inl err, w')" "hc_Body req = NoBody"
  shows "\<exists>err w'. retry_loop net req b a k lastErr w = (Inl err, w')"
proof (induction k arbitrary: a lastErr w)
  case 0
  show ?case by (simp split: option.splits)
next
  case (Suc k)
  obtain err w1 where d: "net_do net req w = (Inl err, w1)" using assms(1) by blast
  have "requestForRetryAttempt (Some req) a = Inr req" using assms(2) by (simp add: requestForRetryAttempt_def)
  then show ?case
    using d Suc.IH by (cases "sleepBeforeRetry net b a w1") (auto split: option.splits)
qed

lemma blank_download_fails:
  assumes "refuses_blank_urls net" "TrimSpace url = ''''"
  shows "DoWithRetry net (download_call url token) w \<noteq> (Inr resp, w')"
proof -
  have "\<exists>err w'. net_do net call w = (Inl err, w')" if "hc_URL call = hc_URL (download_call url token)" for call w
    using assms that by (simp add: refuses_blank_urls_def download_call_def)
  then have "\<exists>err w'. retry_loop net (download_call url token) b a k lastErr w = (Inl err, w')" for b a k lastErr
    by (intro retry_loop_refused) (auto simp: download_call_def)
  then show ?thesis unfolding DoWithRetry_def DoWithRetryPolicy_def Let_def by (metis Inl_Inr_False prod.inject)
qed

lemma download_verified:
  assumes "downloadAndCompile env limits moduleName moduleURL moduleDigest bearerToken w = (Inr (compiled, wasmBytes), w')"
    and "refuses_blank_urls (en_net env)"
  shows "verified env (cache_key moduleName moduleURL moduleDigest) compiled \<and> int (length wasmBytes) \<le> MaxModuleBytes limits"
proof -
  obtain resp w1 where reply: "DoWithRetry (en_net env) (download_call moduleURL bearerToken) w = (Inr resp, w1)"
    and body: "compile_body env limits moduleName moduleURL moduleDigest resp w1 = (Inr (compiled, wasmBytes), w')"
    using assms(1) by (auto simp: downloadAndCompile_def split: option.splits prod.splits sum.splits if_splits)
  from body have b: "int (length wasmBytes) \<le> MaxModuleBytes limits" "verifyModuleDigest env moduleName wasmBytes moduleDigest = None"
    "wz_CompileModule (en_wazero env) wasmBytes w1 = (Inr compiled, w')"
    by (auto simp: compile_body_def Let_def split: option.splits prod.splits sum.splits if_splits)
  moreover have "TrimSpace moduleURL \<noteq> ''''" using blank_download_fails [OF assms(2)] reply by blast
  ultimately show ?thesis
    using verify_digest_of [of env moduleName wasmBytes "TrimSpace moduleDigest"] by (auto simp: verified_def cache_key_def)
qed

text \<open>
  \<open>sound env L e\<close> is what every goroutine may rely on and keeps: a healthy engine whose modules were
  all verified. \<open>fair_schedule\<close> is what it relies on: the other goroutines run the same code, so their
  stores satisfy the same, and the HTTP client refuses blank URLs.
\<close>

definition sound :: "('c, 'i, 'w) engine_env \<Rightarrow> Limits \<Rightarrow> 'c WasmEngine \<Rightarrow> bool" where
  "sound env L e \<longleftrightarrow> we_limits e = L \<and> engine_wf e \<and> cache_sat (verified env) e"

definition fair_schedule :: "('c, 'i, 'w) engine_env \<Rightarrow> 'c schedule \<Rightarrow> bool" where
  "fair_schedule env sc \<longleftrightarrow> refuses_blank_urls (en_net env) \<and> (\<forall>i. \<forall>op \<in> set (sc_ops sc i). op_sat (verified env) op)"

lemma apply_limits:
  assumes "engine_wf e"
  shows "we_limits (engine_apply op e) = we_limits e"
proof (cases op)
  case (OpStore it key c n now)
  have "accounted e" using assms by (simp add: engine_wf_def)
  then show ?thesis
    using store_wf_frame(4) [of e "int n" key it c now] OpStore
    by (cases "map_of (we_cache e) (ModuleCacheKey_String key)") (simp_all add: same_frame_def store_compiled_def)
qed (simp_all add: cachedCompiledModule_def removeEntryLocked_def beginCompile_def finishCompile_def ClearCache_def
    acquire_slot_def release_slot_def Let_def split: option.splits)

lemma sound_apply: "sound env L e \<Longrightarrow> op_sat (verified env) op \<Longrightarrow> sound env L (engine_apply op e)"
  by (simp add: sound_def engine_apply_wf engine_apply_sat apply_limits)

lemma sound_run: "sound env L e \<Longrightarrow> \<forall>op \<in> set ops. op_sat (verified env) op \<Longrightarrow> sound env L (fold engine_apply ops e)"
  by (induction ops arbitrary: e) (simp_all add: sound_apply)

lemma sound_others: "sound env L e \<Longrightarrow> fair_schedule env sc \<Longrightarrow> sound env L (others sc i e)"
  unfolding others_def fair_schedule_def by (intro sound_run) blast+

lemma sound_touch: "sound env L e \<Longrightarrow> touchCachedModule k now e = (hit, e') \<Longrightarrow> sound env L e'"
  using sound_apply [of env L e "OpTouch k now"] by (auto simp: touchCachedModule_def split: prod.splits)

lemma sound_lookup: "sound env L e \<Longrightarrow> cachedCompiledModule k now e = (c, e') \<Longrightarrow> sound env L e'"
  using sound_apply [of env L e "OpTouch k now"] by simp

lemma sound_begin: "sound env L e \<Longrightarrow> beginCompile k e = (l, e') \<Longrightarrow> sound env L e'"
  using sound_apply [of env L e "OpBeginCompile k"] by simp

lemma sound_finish: "sound env L e \<Longrightarrow> sound env L (finishCompile k e)"
  using sound_apply [of env L e "OpFinishCompile k"] by simp

lemma sound_store: "sound env L e \<Longrightarrow> verified env key c \<Longrightarrow> sound env L (store_compiled it key c (int n) now e)"
  using sound_apply [of env L e "OpStore it key c n now"] by simp

lemma sound_slot: "sound env L e \<Longrightarrow> acquire_slot e = Some e' \<Longrightarrow> sound env L e'" "sound env L e \<Longrightarrow> sound env L (release_slot e)"
  using sound_apply [of env L e OpAcquire] sound_apply [of env L e OpRelease] by simp_all

lemmas sound_steps = sound_others sound_touch sound_lookup sound_begin sound_finish sound_store sound_slot

lemma sound_await:
  assumes "await_leader sc k i e = Some y"
  shows "fair_schedule env sc \<longrightarrow> sound env L e \<longrightarrow> sound env L (snd (snd y))"
proof (rule await_leader.raw_induct [OF _ assms], goal_cases)
  case (1 await sc k i e y)
  obtain l e1 where b: "beginCompile k e = (l, e1)" by force
  obtain h e2 where t: "touchCachedModule k (sc_clock sc i) (others sc i e1) = (h, e2)" by force
  have rec: "await sc k (i + 2) (others sc (i + 1) e2) = Some y" if "\<not> l" "\<not> sc_done sc i" "\<not> h"
    using 1(2) b t that by simp
  show ?case
  proof (intro impI)
    assume s: "fair_schedule env sc" "sound env L e"
    then have e: "sound env L e1" "sound env L (others sc i e1)" "sound env L e2" "sound env L (others sc (i + 1) e2)"
      using b t sound_steps by metis+
    show "sound env L (snd (snd y))"
      using 1(2) 1(1) [OF rec] s e b t by (auto simp: Let_def split: if_splits)
  qed
qed


lemma sound_lead:
  assumes "lead_compile env sc moduleName moduleURL moduleDigest bearerToken i e w = (err, e', w')"
    and "fair_schedule env sc" "sound env L e"
  shows "sound env L e'"
proof -
  let ?key = "cache_key moduleName moduleURL moduleDigest"
  let ?k = "ModuleCacheKey_String ?key"
  obtain h e1 where t: "touchCachedModule ?k (sc_clock sc i) (others sc i e) = (h, e1)" by force
  obtain r w1 where d: "downloadAndCompile env (we_limits e1) moduleName moduleURL moduleDigest bearerToken w = (r, w1)" by force
  have e1: "sound env L e1" using sound_touch [OF sound_others [OF assms(3,2)] t] .
  show ?thesis
  proof (cases r)
    case (Inl x)
    then have "e' = finishCompile ?k e1 \<or> e' = finishCompile ?k (others sc (i + 1) e1)"
      using assms(1) t d by (auto simp: lead_compile_def Let_def split: if_splits)
    then show ?thesis using sound_finish [OF e1] sound_finish [OF sound_others [OF e1 assms(2)]] by metis
  next
    case (Inr cb)
    obtain c b where cb: "cb = (c, b)" by force
    have "verified env ?key c" using download_verified [of env "we_limits e1" moduleName moduleURL moduleDigest bearerToken w c b w1] d Inr cb assms(2)
      by (simp add: fair_schedule_def)
    then have st: "sound env L (store_compiled (sc_visit sc) ?key c (int (length b)) (sc_clock sc (i + 1)) (others sc (i + 1) e1))"
      using sound_store [OF sound_others [OF e1 assms(2)]] by blast
    moreover have "e' = finishCompile ?k e1 \<or> e' = finishCompile ?k (others sc (i + 2)
        (store_compiled (sc_visit sc) ?key c (int (length b)) (sc_clock sc (i + 1)) (others sc (i + 1) e1)))"
      using assms(1) t d Inr cb by (auto simp: lead_compile_def Let_def split: if_splits)
    ultimately show ?thesis using sound_finish [OF e1] sound_finish [OF sound_others [OF st assms(2)]] by metis
  qed
qed

lemma sound_fetch:
  assumes "FetchAndCacheWithDigest env sc moduleName moduleURL moduleDigest bearerToken e w = Some (err, i, e', w')"
    and "fair_schedule env sc" "sound env L e"
  shows "sound env L e'"
proof -
  let ?k = "ModuleCacheKey_String (cache_key moduleName moduleURL moduleDigest)"
  obtain h e1 where t: "touchCachedModule ?k (sc_clock sc 0) e = (h, e1)" by force
  have e1: "sound env L e1" "sound env L (others sc 1 e1)" using sound_touch [OF assms(3) t] sound_others assms(2) by blast+
  show ?thesis
  proof (cases "h \<or> moduleURL = ''''")
    case True
    then show ?thesis using assms(1) t e1 by (auto simp: FetchAndCacheWithDigest_def Let_def split: if_splits)
  next
    case False
    then obtain r j e2 where a: "await_leader sc ?k 2 (others sc 1 e1) = Some (r, j, e2)"
      using assms(1) t by (auto simp: FetchAndCacheWithDigest_def Let_def split: option.splits)
    have e2: "sound env L e2" using sound_await [OF a, of env] e1 assms(2) by simp
    show ?thesis
    proof (cases r)
      case Leads
      obtain x e3 w3 where l: "lead_compile env sc moduleName moduleURL moduleDigest bearerToken j e2 w = (x, e3, w3)" by (metis prod_cases3)
      have "e' = e3" using assms(1) t False a Leads l by (simp add: FetchAndCacheWithDigest_def Let_def)
      then show ?thesis using sound_lead [OF l assms(2) e2] by simp
    qed (use assms(1) t False a e2 in \<open>simp_all add: FetchAndCacheWithDigest_def Let_def\<close>)
  qed
qed

lemma run_module_result:
  assumes "run_module env limits abi compiled moduleName payload w = (Inr result, w')"
  shows "runWASIModule (en_wazero env) limits compiled moduleName payload w = (Inr result, w') \<or>
    runWasmcatModule (en_wazero env) limits compiled moduleName payload w = (Inr result, w')"
  using assms by (auto simp: run_module_def split: sum.splits prod.splits if_splits)

text \<open>What an execution that returned went through.\<close>

lemma execute_trace:
  assumes "execute_in_slot env sc moduleName moduleURL moduleDigest payload bearerToken abi e w = Some (res, e', w')"
  obtains (fetch_failed) err i where "res = Inl err"
      "FetchAndCacheWithDigest env sc moduleName moduleURL moduleDigest bearerToken e w = Some (Some err, i, e', w')"
  | (not_loaded) i e1 where "res = Inl (EngineErr (''module '' @ moduleName @ '' not loaded''))"
      "FetchAndCacheWithDigest env sc moduleName moduleURL moduleDigest bearerToken e w = Some (None, i, e1, w')"
      "cachedCompiledModule (ModuleCacheKey_String (cache_key moduleName moduleURL moduleDigest)) (sc_clock sc i) (others sc i e1) = (None, e')"
  | (ran) i e1 w1 compiled e2 where
      "FetchAndCacheWithDigest env sc moduleName moduleURL moduleDigest bearerToken e w = Some (None, i, e1, w1)"
      "cachedCompiledModule (ModuleCacheKey_String (cache_key moduleName moduleURL moduleDigest)) (sc_clock sc i) (others sc i e1) = (Some compiled, e2)"
      "run_module env (we_limits e2) abi compiled moduleName payload w1 = (res, w')" "e' = others sc (i + 1) e2"
proof -
  obtain r i e1 w1 where f: "FetchAndCacheWithDigest env sc moduleName moduleURL moduleDigest bearerToken e w = Some (r, i, e1, w1)"
    using assms by (cases "FetchAndCacheWithDigest env sc moduleName moduleURL moduleDigest bearerToken e w")
      (auto simp: execute_in_slot_def)
  show ?thesis
  proof (cases r)
    case (Some err)
    then show ?thesis using assms f that(1) by (auto simp: execute_in_slot_def)
  next
    case None
    obtain c e2 where c: "cachedCompiledModule (ModuleCacheKey_String (cache_key moduleName moduleURL moduleDigest)) (sc_clock sc i) (others sc i e1) = (c, e2)"
      by force
    show ?thesis
    proof (cases c)
      case None
      then show ?thesis using assms f c \<open>r = None\<close> that(2) by (auto simp: execute_in_slot_def)
    next
      case (Some m)
      then show ?thesis using assms f c \<open>r = None\<close> that(3) by (auto simp: execute_in_slot_def split: prod.splits)
    qed
  qed
qed

lemma sound_execute_in_slot:
  assumes "execute_in_slot env sc moduleName moduleURL moduleDigest payload bearerToken abi e w = Some (res, e', w')"
    and "fair_schedule env sc" "sound env L e"
  shows "sound env L e'"
  using assms(1)
proof (cases rule: execute_trace)
  case (fetch_failed err i)
  show ?thesis by (rule sound_fetch [OF fetch_failed(2) assms(2,3)])
next
  case (not_loaded i e1)
  show ?thesis
    by (rule sound_lookup [OF sound_others [OF sound_fetch [OF not_loaded(2) assms(2,3)] assms(2)] not_loaded(3)])
next
  case (ran i e1 w1 compiled e2)
  have "sound env L e2"
    by (rule sound_lookup [OF sound_others [OF sound_fetch [OF ran(1) assms(2,3)] assms(2)] ran(2)])
  then show ?thesis using ran(4) sound_others [OF _ assms(2)] by simp
qed

lemma execute_slot:
  assumes "ExecuteWithDigestAndABI env sc moduleName moduleURL moduleDigest payload bearerToken abi e w = Some (res, e', w')"
  obtains (refused) err where "res = Inl err" "e' = e" "w' = w"
  | (slot) e0 e1 where "acquire_slot e = Some e0" "e' = release_slot e1" "int (length payload) \<le> MaxPayloadBytes (we_limits e)"
      "execute_in_slot env sc moduleName moduleURL moduleDigest payload bearerToken abi (others sc 0 e0) w = Some (res, e1, w')"
  using assms that by (auto simp: ExecuteWithDigestAndABI_def split: if_splits option.splits)


section \<open>Digest integrity\<close>

lemma single_sep:
  fixes c :: char
  assumes "N @ c # X = a @ c # D" "c \<notin> set a" "c \<notin> set D"
  shows "N = a \<and> X = D"
proof -
  have "count_list (a @ c # D) c = 1" using assms(2,3) by (simp add: count_list_0_iff)
  then have "count_list (N @ c # X) c = 1" by (simp only: assms(1))
  then have "c \<notin> set N" by (simp add: count_list_0_iff)
  then have "Cut c (N @ c # X) = (N, X, True)" by (rule Cut_append)
  moreover have "Cut c (a @ c # D) = (a, D, True)" by (rule Cut_append [OF assms(2)])
  ultimately show ?thesis unfolding assms(1) by simp
qed

text \<open>
  Without an \<open>@\<close> in the name and the digest, the text of a key with a digest belongs to no other key
  that could have been stored.
\<close>

lemma digest_key_injective:
  assumes "ModuleCacheKey_String key' = ModuleCacheKey_String key" "mk_Digest key \<noteq> ''''"
    and "CHR ''@'' \<notin> set (mk_ModuleName key)" "CHR ''@'' \<notin> set (mk_Digest key)"
    and "mk_Digest key' \<noteq> '''' \<or> mk_ModuleURL key' \<noteq> ''''"
  shows "mk_Digest key' = mk_Digest key"
proof -
  let ?rhs = "mk_ModuleName key @ CHR ''@'' # ''digest:'' @ mk_Digest key"
  have rhs: "ModuleCacheKey_String key = ?rhs" using assms(2) by (simp add: ModuleCacheKey_String_def)
  have at: "CHR ''@'' \<notin> set (''digest:'' @ mk_Digest key)" using assms(4) by simp
  show ?thesis
  proof (cases "mk_Digest key' = ''''")
    case False
    then have "mk_ModuleName key' @ CHR ''@'' # ''digest:'' @ mk_Digest key' = ?rhs"
      using assms(1) rhs by (simp add: ModuleCacheKey_String_def)
    from single_sep [OF this assms(3) at] show ?thesis by simp
  next
    case True
    then have "mk_ModuleName key' @ CHR ''@'' # ''url:'' @ mk_ModuleURL key' = ?rhs"
      using assms(1,5) rhs by (simp add: ModuleCacheKey_String_def)
    from single_sep [OF this assms(3) at] show ?thesis by simp
  qed
qed

lemma lookup_verified:
  assumes "sound env L e" "cachedCompiledModule (ModuleCacheKey_String key) now e = (Some c, e')" "mk_Digest key \<noteq> ''''"
    and "CHR ''@'' \<notin> set (mk_ModuleName key)" "CHR ''@'' \<notin> set (mk_Digest key)"
  shows "\<exists>wasmBytes w w'. wz_CompileModule (en_wazero env) wasmBytes w = (Inr c, w') \<and> digest_of env wasmBytes (mk_Digest key)"
proof -
  have "fst (cachedCompiledModule (ModuleCacheKey_String key) now e) = Some c" using assms(2) by simp
  then obtain entry where en: "(ModuleCacheKey_String key, entry) \<in> set (we_cache e)" "ce_compiled entry = c"
    by (rule cached_origin)
  have "cache_sat (verified env) e" "accounted e" using assms(1) by (simp_all add: sound_def engine_wf_def)
  then have "\<forall>(k, entry) \<in> set (we_cache e). verified env (ce_key entry) (ce_compiled entry) \<and> k = ModuleCacheKey_String (ce_key entry)"
    unfolding cache_sat_def accounted_def by blast
  from bspec [OF this en(1)] have v: "verified env (ce_key entry) c"
    and k: "ModuleCacheKey_String (ce_key entry) = ModuleCacheKey_String key" unfolding en(2) [symmetric] by simp_all
  have "mk_Digest (ce_key entry) \<noteq> [] \<or> mk_ModuleURL (ce_key entry) \<noteq> []" using v by (auto simp: verified_def split: if_splits)
  then have "mk_Digest (ce_key entry) = mk_Digest key" by (rule digest_key_injective [OF k assms(3-5)])
  then show ?thesis using v assms(3) unfolding verified_def by auto
qed

lemma sound_execute:
  assumes "ExecuteWithDigestAndABI env sc moduleName moduleURL moduleDigest payload bearerToken abi e w = Some (res, e', w')"
    and "fair_schedule env sc" "sound env L e"
  shows "sound env L e'"
  using assms(1)
proof (cases rule: execute_slot)
  case (slot e0 e1)
  have "sound env L (others sc 0 e0)" by (rule sound_others [OF sound_slot(1) [OF assms(3) slot(1)] assms(2)])
  then show ?thesis unfolding slot(2) by (rule sound_slot(2) [OF sound_execute_in_slot [OF slot(4) assms(2)]])
qed (use assms(3) in simp)

lemma execute_digest:
  assumes "sound env L e" "fair_schedule env sc"
    and "ExecuteWithDigestAndABI env sc moduleName moduleURL moduleDigest payload bearerToken abi e w = Some (Inr result, e', w')"
    and "TrimSpace moduleDigest \<noteq> ''''" "CHR ''@'' \<notin> set (TrimSpace moduleName)" "CHR ''@'' \<notin> set (TrimSpace moduleDigest)"
  shows "sound env L e' \<and>
    (\<exists>wasmBytes compiled w1 w2 w3. wz_CompileModule (en_wazero env) wasmBytes w1 = (Inr compiled, w2) \<and>
       digest_of env wasmBytes moduleDigest \<and>
       (runWASIModule (en_wazero env) (we_limits e) compiled moduleName payload w3 = (Inr result, w') \<or>
        runWasmcatModule (en_wazero env) (we_limits e) compiled moduleName payload w3 = (Inr result, w')))"
  using assms(3)
proof (cases rule: execute_slot)
  case (slot e0 e1)
  let ?key = "cache_key moduleName moduleURL moduleDigest"
  have e0: "sound env L (others sc 0 e0)" by (rule sound_others [OF sound_slot(1) [OF assms(1) slot(1)] assms(2)])
  have "sound env L e'" by (rule sound_execute [OF assms(3,2,1)])
  from slot(4) show ?thesis
  proof (cases rule: execute_trace)
    case (ran i e2 w1 compiled e3)
    have e2: "sound env L (others sc i e2)" by (rule sound_others [OF sound_fetch [OF ran(1) assms(2) e0] assms(2)])
    obtain wasmBytes w2 w3 where c: "wz_CompileModule (en_wazero env) wasmBytes w2 = (Inr compiled, w3)"
        "digest_of env wasmBytes (mk_Digest ?key)"
      using lookup_verified [OF e2 ran(2)] assms(4-6) by (auto simp: cache_key_def)
    have "we_limits e3 = we_limits e" using sound_lookup [OF e2 ran(2)] assms(1) by (simp add: sound_def)
    then show ?thesis
      using run_module_result [OF ran(3)] c \<open>sound env L e'\<close> by (auto simp: cache_key_def digest_of_def)
  qed auto
qed simp

text \<open>
  (C5) Digest integrity. When a request with a digest is executed, whatever the other goroutines of the
  worker do at the same time, the module that ran was compiled from bytes whose SHA-256 is the
  requested digest, also when it came out of the cache; and the engine stays one whose cached
  modules have all been verified. The module name and the digest hold no \<open>@\<close>, which separates
  the parts of a cache key.
\<close>

theorem engine_digest_integrity:
  assumes "sound env L e" "fair_schedule env sc"
    and "ExecuteWithDigestAndABI env sc moduleName moduleURL moduleDigest payload bearerToken abi e w = Some (Inr result, e', w')"
    and "TrimSpace moduleDigest \<noteq> ''''" "CHR ''@'' \<notin> set (TrimSpace moduleName)" "CHR ''@'' \<notin> set (TrimSpace moduleDigest)"
  shows "sound env L e' \<and>
    (\<exists>wasmBytes compiled w1 w2 w3. wz_CompileModule (en_wazero env) wasmBytes w1 = (Inr compiled, w2) \<and>
       digest_of env wasmBytes moduleDigest \<and>
       (runWASIModule (en_wazero env) (we_limits e) compiled moduleName payload w3 = (Inr result, w') \<or>
        runWasmcatModule (en_wazero env) (we_limits e) compiled moduleName payload w3 = (Inr result, w')))"
  by (rule execute_digest [OF assms])


section \<open>Bounded results\<close>

text \<open>What wazero documents of a read of linear memory: it returns exactly the bytes asked for.\<close>

definition reads_exactly :: "('c, 'i, 'w) wazero \<Rightarrow> bool" where
  "reads_exactly wz \<longleftrightarrow> (\<forall>ptr len inst data. wz_Read wz ptr len inst = Some data \<longrightarrow> length data = unat len)"

lemma wasmcat_output:
  assumes "runWasmcatModule wz limits compiled moduleName payload w = (Inr result, w')" "reads_exactly wz"
  shows "length result \<le> unat (MaxOutputBytes limits)"
proof -
  obtain results inst where "read_output wz limits moduleName results inst = Inr result"
    using assms(1) by (auto simp: runWasmcatModule_def split: prod.splits sum.splits if_splits)
  then obtain p ptr where "p \<le> MaxOutputBytes limits" "wz_Read wz ptr p inst = Some result"
    by (auto simp: read_output_def ReadString_def not_less split: list.splits if_splits sum.splits option.splits)
  then show ?thesis using assms(2) by (auto simp: reads_exactly_def word_le_nat_alt)
qed

text \<open>A command module's result is everything it wrote to stdout.\<close>

lemma wasi_output:
  assumes "runWASIModule wz limits compiled moduleName payload w = (Inr result, w')" "limits_ok limits"
  shows "length result \<le> unat (MaxOutputBytes limits) \<and>
    result = concat (concat (map on_stdout (fst (fst (wz_command wz compiled payload w)))))"
proof -
  obtain writes finish where c: "wz_command wz compiled payload w = ((writes, finish), w')"
    using assms(1) by (cases "wz_command wz compiled payload w") (auto simp: runWASIModule_def Let_def split: prod.splits)
  define m where "m = uint (MaxOutputBytes limits)"
  define ps where "ps = concat (map on_stdout writes)"
  define c0 where "c0 = fold cappedBuffer_Write ps (new_cappedBuffer m)"
  have "0 < m" using assms(2) by (simp add: m_def limits_ok_def word_neq_0_conv word_less_def)
  then have "capped (concat ps) c0 \<and> cb_max c0 = m"
    using capped_fold [OF capped_new, of m ps] unfolding c0_def by (simp add: new_cappedBuffer_def)
  moreover have "\<not> cb_overflow c0" "result = cb_buf c0"
    using assms(1) c unfolding runWASIModule_def c0_def ps_def m_def
    by (cases finish; simp add: Let_def split: if_splits)+
  ultimately have "result = concat ps" "int (length result) \<le> m" by (auto simp: capped_def)
  moreover from this(2) have "length result \<le> unat (MaxOutputBytes limits)" unfolding m_def unat_eq_nat_uint by linarith
  ultimately show ?thesis using c by (simp add: ps_def)
qed

text \<open>
  (C15) What an execution hands back is bounded: the payload was within \<open>MaxPayloadBytes\<close> and the result
  is within \<open>MaxOutputBytes\<close>, under either ABI and whatever the other goroutines do. (A read of linear
  memory returns the bytes asked for.)
\<close>

theorem engine_output_bounded:
  assumes "sound env L e" "fair_schedule env sc" "reads_exactly (en_wazero env)"
    and "ExecuteWithDigestAndABI env sc moduleName moduleURL moduleDigest payload bearerToken abi e w = Some (Inr result, e', w')"
  shows "int (length payload) \<le> MaxPayloadBytes L \<and> length result \<le> unat (MaxOutputBytes L)"
  using assms(4)
proof (cases rule: execute_slot)
  case (slot e0 e1)
  have e0: "sound env L (others sc 0 e0)" by (rule sound_others [OF sound_slot(1) [OF assms(1) slot(1)] assms(2)])
  have payload: "int (length payload) \<le> MaxPayloadBytes L" using slot(3) assms(1) by (simp add: sound_def)
  from slot(4) show ?thesis
  proof (cases rule: execute_trace)
    case (ran i e2 w1 compiled e3)
    have "sound env L e3" by (rule sound_lookup [OF sound_others [OF sound_fetch [OF ran(1) assms(2) e0] assms(2)] ran(2)])
    then have "we_limits e3 = L" "limits_ok L" by (auto simp: sound_def engine_wf_def accounted_def)
    then have "runWASIModule (en_wazero env) L compiled moduleName payload w1 = (Inr result, w') \<or>
        runWasmcatModule (en_wazero env) L compiled moduleName payload w1 = (Inr result, w')"
      using run_module_result [OF ran(3)] by simp
    then have "length result \<le> unat (MaxOutputBytes L)"
    proof
      assume "runWASIModule (en_wazero env) L compiled moduleName payload w1 = (Inr result, w')"
      from wasi_output [OF this \<open>limits_ok L\<close>] show ?thesis ..
    qed (rule wasmcat_output [OF _ assms(3)])
    then show ?thesis using payload by blast
  qed auto
qed simp

section \<open>Every execution ends and cleans up\<close>

text \<open>The operations that take or give back slots or compile entries; the others are neutral.\<close>

fun neutral :: "'c engine_op \<Rightarrow> bool" where
  "neutral (OpTouch _ _) = True"
| "neutral (OpStore _ _ _ _ _) = True"
| "neutral (OpClear _) = True"
| "neutral _ = False"

definition neutral_schedule :: "'c schedule \<Rightarrow> bool" where
  "neutral_schedule sc \<longleftrightarrow> (\<forall>i. \<forall>op \<in> set (sc_ops sc i). neutral op)"

text \<open>A healthy engine with \<open>s\<close> slots taken and the keys of \<open>f\<close> being compiled.\<close>

definition holding :: "nat \<Rightarrow> (string \<rightharpoonup> unit) \<Rightarrow> 'c WasmEngine \<Rightarrow> bool" where
  "holding s f e \<longleftrightarrow> engine_wf e \<and> we_sem e = s \<and> map_of (we_inflight e) = f"

lemma holding_neutral:
  assumes "holding s f e" "neutral op"
  shows "holding s f (engine_apply op e)"
proof -
  have wf: "engine_wf (engine_apply op e)" and acc: "accounted e"
    using assms(1) engine_apply_wf by (auto simp: holding_def engine_wf_def)
  have "we_sem (engine_apply op e) = we_sem e \<and> we_inflight (engine_apply op e) = we_inflight e"
  proof (cases op)
    case (OpStore it key c n now)
    show ?thesis
      using store_wf_frame(4) [OF acc, of "int n" key it c now] OpStore
      by (cases "map_of (we_cache e) (ModuleCacheKey_String key)") (simp_all add: same_frame_def store_compiled_def)
  qed (use assms(2) in \<open>simp_all add: cachedCompiledModule_def removeEntryLocked_def ClearCache_def Let_def split: option.splits\<close>)
  then show ?thesis using wf assms(1) by (simp add: holding_def)
qed

lemma holding_others:
  assumes "holding s f e" "neutral_schedule sc"
  shows "holding s f (others sc i e)"
proof -
  have "\<forall>op \<in> set (sc_ops sc i). neutral op" using assms(2) by (simp add: neutral_schedule_def)
  then have "holding s f (fold engine_apply ops e)" if "set ops \<subseteq> set (sc_ops sc i)" for ops
    using assms(1) that by (induction ops arbitrary: e) (auto simp: holding_neutral)
  then show ?thesis by (simp add: others_def)
qed

lemma holding_touch: "holding s f e \<Longrightarrow> touchCachedModule k now e = (h, e') \<Longrightarrow> holding s f e'"
  using holding_neutral [of s f e "OpTouch k now"] by (auto simp: touchCachedModule_def split: prod.splits)

lemma holding_lookup: "holding s f e \<Longrightarrow> cachedCompiledModule k now e = (c, e') \<Longrightarrow> holding s f e'"
  using holding_neutral [of s f e "OpTouch k now"] by simp

lemma holding_store: "holding s f e \<Longrightarrow> holding s f (store_compiled it key c (int n) now e)"
  using holding_neutral [of s f e "OpStore it key c n now"] by simp

lemma holding_begin:
  assumes "holding s f e" "beginCompile k e = (l, e')"
  shows "(if l then f k = None \<and> holding s (f(k \<mapsto> ())) e' else holding s f e')"
  using assms engine_apply_wf [of e "OpBeginCompile k"]
  by (auto simp: holding_def beginCompile_def split: option.splits)

lemma holding_finish: "holding s (f(k \<mapsto> ())) e \<Longrightarrow> f k = None \<Longrightarrow> holding s f (finishCompile k e)"
  using engine_apply_wf [of e "OpFinishCompile k"] by (auto simp: holding_def finishCompile_def fun_upd_idem)

lemma await_returns:
  assumes "\<forall>i \<ge> n. sc_done sc i" "neutral_schedule sc"
  shows "holding s f e \<Longrightarrow> \<exists>r j e'. await_leader sc k i e = Some (r, j, e') \<and>
    (if r = Leads then f k = None \<and> holding s (f(k \<mapsto> ())) e' else holding s f e')"
proof (induction "n - i" arbitrary: i e rule: less_induct)
  case less
  obtain l e1 where b: "beginCompile k e = (l, e1)" by force
  obtain h e2 where t: "touchCachedModule k (sc_clock sc i) (others sc i e1) = (h, e2)" by force
  note l = holding_begin [OF less.prems b]
  show ?case
  proof (cases "l \<or> sc_done sc i \<or> h")
    case True
    have "holding s f (others sc i e1)" "holding s f e2" if "\<not> l"
      using that l holding_others [OF _ assms(2)] holding_touch [OF _ t] by auto
    then show ?thesis using True b t l by (subst await_leader.simps) (auto simp: Let_def)
  next
    case False
    then have "\<not> n \<le> i" using assms(1) by blast
    then have "n - (i + 2) < n - i" by simp
    moreover have "holding s f (others sc (i + 1) e2)"
      using False l holding_others [OF _ assms(2)] holding_touch [OF _ t] by auto
    ultimately have "\<exists>r j e'. await_leader sc k (i + 2) (others sc (i + 1) e2) = Some (r, j, e') \<and>
        (if r = Leads then f k = None \<and> holding s (f(k \<mapsto> ())) e' else holding s f e')"
      by (rule less.hyps)
    then show ?thesis using False b t by (subst await_leader.simps) (simp add: Let_def)
  qed
qed


lemma holding_lead:
  assumes "holding s (f(ModuleCacheKey_String (cache_key moduleName moduleURL moduleDigest) \<mapsto> ())) e"
    and "f (ModuleCacheKey_String (cache_key moduleName moduleURL moduleDigest)) = None" "neutral_schedule sc"
  shows "\<exists>err e' w'. lead_compile env sc moduleName moduleURL moduleDigest bearerToken i e w = (err, e', w') \<and> holding s f e'"
proof -
  let ?key = "cache_key moduleName moduleURL moduleDigest"
  let ?k = "ModuleCacheKey_String ?key"
  let ?h = "holding s (f(?k \<mapsto> ()))"
  obtain h e1 where t: "touchCachedModule ?k (sc_clock sc i) (others sc i e) = (h, e1)" by force
  obtain r w1 where d: "downloadAndCompile env (we_limits e1) moduleName moduleURL moduleDigest bearerToken w = (r, w1)" by force
  have e1: "?h e1" by (rule holding_touch [OF holding_others [OF assms(1,3)] t])
  have e2: "?h (others sc (i + 1) e1)" by (rule holding_others [OF e1 assms(3)])
  have e3: "?h (others sc (i + 2) (store_compiled (sc_visit sc) ?key c (int n) now (others sc (i + 1) e1)))" for c n now
    by (rule holding_others [OF holding_store [OF e2] assms(3)])
  note fin = holding_finish [of s f ?k, OF _ assms(2)]
  show ?thesis
  proof (cases h)
    case True
    then show ?thesis using t fin [OF e1] by (simp add: lead_compile_def Let_def)
  next
    case False
    show ?thesis
    proof (cases r)
      case (Inl err)
      then show ?thesis using False t d fin [OF e2] by (simp add: lead_compile_def Let_def)
    next
      case (Inr cb)
      obtain c b where cb: "cb = (c, b)" by force
      show ?thesis using False t d Inr cb fin [OF e3] by (simp add: lead_compile_def Let_def)
    qed
  qed
qed

lemma fetch_returns:
  assumes "\<forall>i \<ge> n. sc_done sc i" "neutral_schedule sc" "holding s f e"
  shows "\<exists>err i e' w'. FetchAndCacheWithDigest env sc moduleName moduleURL moduleDigest bearerToken e w = Some (err, i, e', w') \<and> holding s f e'"
proof -
  let ?k = "ModuleCacheKey_String (cache_key moduleName moduleURL moduleDigest)"
  obtain h e1 where t: "touchCachedModule ?k (sc_clock sc 0) e = (h, e1)" by force
  have e1: "holding s f e1" by (rule holding_touch [OF assms(3) t])
  obtain r j e2 where a: "await_leader sc ?k 2 (others sc 1 e1) = Some (r, j, e2)"
      "if r = Leads then f ?k = None \<and> holding s (f(?k \<mapsto> ())) e2 else holding s f e2"
    using await_returns [OF assms(1,2) holding_others [OF e1 assms(2), of 1], where k = ?k and i = 2] by blast
  show ?thesis
  proof (cases "h \<or> moduleURL = ''''")
    case True
    then show ?thesis using t e1 by (auto simp: FetchAndCacheWithDigest_def Let_def)
  next
    case False
    show ?thesis
    proof (cases r)
      case Leads
      then obtain err e3 w3 where "lead_compile env sc moduleName moduleURL moduleDigest bearerToken j e2 w = (err, e3, w3)" "holding s f e3"
        using holding_lead [OF _ _ assms(2), of s f moduleName moduleURL moduleDigest e2 env bearerToken j w] a(2) by auto
      then show ?thesis using t False a Leads by (simp add: FetchAndCacheWithDigest_def Let_def)
    qed (use t False a in \<open>auto simp: FetchAndCacheWithDigest_def Let_def\<close>)
  qed
qed

lemma execute_in_slot_returns:
  assumes "\<forall>i \<ge> n. sc_done sc i" "neutral_schedule sc" "holding s f e"
  shows "\<exists>res e' w'. execute_in_slot env sc moduleName moduleURL moduleDigest payload bearerToken abi e w = Some (res, e', w') \<and> holding s f e'"
proof -
  let ?k = "ModuleCacheKey_String (cache_key moduleName moduleURL moduleDigest)"
  obtain err i e1 w1 where f: "FetchAndCacheWithDigest env sc moduleName moduleURL moduleDigest bearerToken e w = Some (err, i, e1, w1)"
      "holding s f e1"
    using fetch_returns [OF assms, where env = env and moduleName = moduleName and moduleURL = moduleURL and
        moduleDigest = moduleDigest and bearerToken = bearerToken and w = w] by blast
  obtain c e2 where l: "cachedCompiledModule ?k (sc_clock sc i) (others sc i e1) = (c, e2)" by force
  have e2: "holding s f e2" by (rule holding_lookup [OF holding_others [OF f(2) assms(2)] l])
  show ?thesis
  proof (cases err)
    case (Some x)
    then show ?thesis using f by (simp add: execute_in_slot_def)
  next
    case None
    show ?thesis
    proof (cases c)
      case None
      then show ?thesis using f l e2 \<open>err = None\<close> by (simp add: execute_in_slot_def)
    next
      case (Some m)
      then show ?thesis
        using f l holding_others [OF e2 assms(2)] \<open>err = None\<close> by (simp add: execute_in_slot_def split: prod.splits)
    qed
  qed
qed

lemma execute_cleans_up:
  assumes "engine_wf e" "\<forall>i \<ge> n. sc_done sc i" "neutral_schedule sc"
  shows "\<exists>res e' w'. ExecuteWithDigestAndABI env sc moduleName moduleURL moduleDigest payload bearerToken abi e w = Some (res, e', w') \<and>
    engine_wf e' \<and> we_sem e' = we_sem e \<and> map_of (we_inflight e') = map_of (we_inflight e)"
proof (cases "acquire_slot e")
  case None
  then show ?thesis using assms(1) by (simp add: ExecuteWithDigestAndABI_def)
next
  case (Some e0)
  have "engine_wf e0" using engine_apply_wf [OF assms(1), of OpAcquire] Some by simp
  then have "holding (Suc (we_sem e)) (map_of (we_inflight e)) e0"
    using Some by (auto simp: holding_def acquire_slot_def split: if_splits)
  from execute_in_slot_returns [OF assms(2,3) holding_others [OF this assms(3), of 0], where env = env and moduleName = moduleName and
      moduleURL = moduleURL and moduleDigest = moduleDigest and payload = payload and bearerToken = bearerToken and abi = abi and w = w]
  obtain res e1 w' where x: "execute_in_slot env sc moduleName moduleURL moduleDigest payload bearerToken abi (others sc 0 e0) w = Some (res, e1, w')"
      "holding (Suc (we_sem e)) (map_of (we_inflight e)) e1"
    by blast
  have "engine_wf (release_slot e1)" using engine_apply_wf [of e1 OpRelease] x(2) by (simp add: holding_def)
  then show ?thesis
    using Some x assms(1) by (auto simp: ExecuteWithDigestAndABI_def holding_def release_slot_def)
qed


text \<open>
  (C7) Every execution ends and cleans up. Once the execution's context is done it stays done, and then the
  execution returns: whether it was refused, failed to fetch, lost its module or ran, the slot it
  took has been given back and the key it was compiling is no longer marked. (The other
  goroutines look up, store and clear modules meanwhile; they take no slots and start no
  compilations, so that the count is this execution's own.)
\<close>

theorem engine_execute_returns:
  assumes "engine_wf e" "\<forall>i \<ge> n. sc_done sc i" "neutral_schedule sc"
  shows "\<exists>res e' w'. ExecuteWithDigestAndABI env sc moduleName moduleURL moduleDigest payload bearerToken abi e w = Some (res, e', w') \<and>
    engine_wf e' \<and> we_sem e' = we_sem e \<and> map_of (we_inflight e') = map_of (we_inflight e)"
  by (rule execute_cleans_up [OF assms])

section \<open>A concrete execution\<close>

definition wazero_a :: "(string, string, nat) wazero" where
  "wazero_a = \<lparr>wz_CompileModule = (\<lambda>b w. (Inr b, Suc w)), wz_ExportedFunctions = (\<lambda>_. [''run'']),
     wz_InstantiateModule = (\<lambda>c w. (Inr [], w)), wz_exports = (\<lambda>_ _. True),
     wz_Call = (\<lambda>f args inst. (Inr (if f = ''malloc'' then [0] else [last args]), inst)), wz_Memory = (\<lambda>_. True),
     wz_Write = (\<lambda>p s inst. Some s), wz_Read = (\<lambda>p l inst. if unat l \<le> length inst then Some (take (unat l) inst) else None),
     wz_command = (\<lambda>c p w. (([Stdout p], Exited 0), w))\<rparr>"

definition engine_net_a :: "nat network" where
  "engine_net_a = \<lparr>net_do = (\<lambda>call w. if TrimSpace (hc_URL call) = '''' then (Inl ''unsupported protocol scheme'', w)
       else (Inr \<lparr>hp_StatusCode = 200, hp_Status = ''200 OK'', hp_Body = ''wasm''\<rparr>, Suc w)),
     net_done = (\<lambda>_. False), net_sleep = (\<lambda>_ w. (None, w)), net_now = int\<rparr>"

definition engine_env_a :: "(string, string, nat) engine_env" where
  "engine_env_a = \<lparr>en_wazero = wazero_a, en_net = engine_net_a, en_NewRequest = (\<lambda>_. None), en_ReadAll = (\<lambda>_ _. None),
     en_sha256 = (\<lambda>_. replicate 32 (CHR 0x00)), en_lower = id, en_quote = id, en_hex_error = id, en_ctx_error = ''context deadline exceeded''\<rparr>"

definition schedule_a :: "string schedule" where
  "schedule_a = \<lparr>sc_ops = (\<lambda>_. []), sc_clock = int, sc_done = (\<lambda>i. 9 \<le> i), sc_refuse = False, sc_visit = id\<rparr>"

definition digest_a :: string where
  "digest_a = ''sha256:'' @ replicate 64 (CHR ''0'')"

definition engine_a :: "string WasmEngine" where
  "engine_a = NewWasmEngineWithLimits (DefaultLimits\<lparr>MaxModuleBytes := 8, MaxOutputBytes := 16\<rparr>)"

lemma schedule_a_ok: "fair_schedule engine_env_a schedule_a" "neutral_schedule schedule_a"
  by (simp_all add: fair_schedule_def neutral_schedule_def schedule_a_def engine_env_a_def refuses_blank_urls_def engine_net_a_def)

lemma wazero_a_reads: "reads_exactly (en_wazero engine_env_a)"
  by (auto simp: reads_exactly_def engine_env_a_def wazero_a_def split: if_splits)

lemma new_engine_sound: "sound env (normalizeLimits l) (NewWasmEngineWithLimits l)"
proof -
  have "we_limits (NewWasmEngineWithLimits l) = normalizeLimits l" by (simp add: NewWasmEngineWithLimits_def)
  then show ?thesis by (simp add: sound_def new_engine_wf new_engine_sat)
qed

lemma engine_a_sound: "sound engine_env_a (we_limits engine_a) engine_a"
proof -
  have "we_limits engine_a = normalizeLimits (DefaultLimits\<lparr>MaxModuleBytes := 8, MaxOutputBytes := 16\<rparr>)"
    by (simp add: engine_a_def NewWasmEngineWithLimits_def)
  then show ?thesis unfolding engine_a_def by (simp add: new_engine_sound)
qed

lemma execute_a:
  "\<exists>e' w'. ExecuteWithDigestAndABI engine_env_a schedule_a ''m'' ''http://h/m'' digest_a ''hi'' [] ModuleABIAuto engine_a 0 =
     Some (Inr ''hi'', e', w')"
proof -
  have "map_option fst (ExecuteWithDigestAndABI engine_env_a schedule_a ''m'' ''http://h/m'' digest_a ''hi'' [] ModuleABIAuto engine_a 0) =
     Some (Inr ''hi'')"
    by code_simp
  then show ?thesis by auto
qed


theorem engine_digest_integrity_witness:
  "\<exists>wasmBytes. digest_of engine_env_a wasmBytes digest_a \<and>
     hex_encode (en_sha256 engine_env_a wasmBytes) = replicate 64 (CHR ''0'')"
proof -
  obtain e' w' where x: "ExecuteWithDigestAndABI engine_env_a schedule_a ''m'' ''http://h/m'' digest_a ''hi'' [] ModuleABIAuto engine_a 0 =
      Some (Inr ''hi'', e', w')"
    using execute_a by blast
  have t: "TrimSpace digest_a = digest_a" "TrimSpace ''m'' = ''m''"
    by (rule TrimSpace_visible; code_simp)+
  have a: "TrimSpace digest_a \<noteq> ''''" "CHR ''@'' \<notin> set (TrimSpace ''m'')" "CHR ''@'' \<notin> set (TrimSpace digest_a)"
    unfolding t by (simp_all add: digest_a_def)
  have "hex_encode (en_sha256 engine_env_a b) = replicate 64 (CHR ''0'')" for b
  proof -
    have "hex_encode (replicate 32 (CHR 0x00)) = replicate 64 (CHR ''0'')" by code_simp
    then show ?thesis by (simp add: engine_env_a_def)
  qed
  then show ?thesis using engine_digest_integrity [OF engine_a_sound schedule_a_ok(1) x a] by blast
qed

theorem engine_output_bounded_witness:
  "\<exists>result e' w'. ExecuteWithDigestAndABI engine_env_a schedule_a ''m'' ''http://h/m'' digest_a ''hi'' [] ModuleABIAuto engine_a 0 =
     Some (Inr result, e', w') \<and> length result \<le> unat (MaxOutputBytes (we_limits engine_a))"
proof -
  obtain e' w' where x: "ExecuteWithDigestAndABI engine_env_a schedule_a ''m'' ''http://h/m'' digest_a ''hi'' [] ModuleABIAuto engine_a 0 =
      Some (Inr ''hi'', e', w')"
    using execute_a by blast
  from engine_output_bounded [OF engine_a_sound schedule_a_ok(1) wazero_a_reads x] x show ?thesis by blast
qed

theorem engine_execute_returns_witness:
  "\<exists>res e' w'. ExecuteWithDigestAndABI engine_env_a schedule_a ''m'' ''http://h/m'' '''' ''hi'' [] ModuleABIAuto engine_a 0 =
     Some (res, e', w') \<and> we_sem e' = 0"
proof -
  have "engine_wf engine_a" "we_sem engine_a = 0"
    unfolding engine_a_def by (rule new_engine_wf) (simp add: NewWasmEngineWithLimits_def)
  moreover have "\<forall>i \<ge> 9. sc_done schedule_a i" by (simp add: schedule_a_def)
  ultimately show ?thesis
    using engine_execute_returns [OF _ _ schedule_a_ok(2), of engine_a 9 engine_env_a "''m''" "''http://h/m''" "''''" "''hi''" "[]" ModuleABIAuto 0]
    by fastforce
qed

end
