(* ===== verification/Worker_Server.thy ===== *)
theory Worker_Server
  imports Worker_Engine Shared_Http
begin

text \<open>
  \<open>src/internal/worker/server.go\<close>: the HTTP handlers of a worker.

  A handler maps a request and the server's state to a reply and the new state; \<open>handleInvoke\<close> returns
  \<open>None\<close> if the execution never ends. Arguments from outside are in \<open>worker_env\<close>: the surroundings of the
  engine, the schedule of the other goroutines, the JSON codec (the first argument of the decoder is the limit of
  \<open>http.MaxBytesReader\<close>), the random source, whether the mutual-TLS client of the completion callback can be
  built, and the clock. \<open>'w\<close> is the world of the engine's network, through which the callback goes too.
\<close>

definition DefaultJobCompletionTimeout :: duration where "DefaultJobCompletionTimeout = 5 * Second"

record ('c, 'i, 'w) worker_env =
  wv_engine :: "('c, 'i, 'w) engine_env"
  wv_schedule :: "'c schedule"
  wv_decode :: "int \<Rightarrow> string \<Rightarrow> ExecutionRequest decoded"
  wv_marshal :: "JobCompletionRequest \<Rightarrow> string go_result"
  wv_NewRequest :: "string \<Rightarrow> go_error"
  wv_client :: go_error
  wv_random :: "string go_result"
  wv_clock :: "nat \<Rightarrow> time"
  wv_counts :: "(string, counter) visit"

record ('c, 'w) WorkerServer =
  sv_Engine :: "'c WasmEngine option"
  sv_NodeID :: string
  sv_MasterURL :: string
  sv_CompletionTimeout :: duration
  sv_Metrics :: "Metrics option"
  sv_world :: 'w

section \<open>Helpers\<close>

definition server_metrics ::
  "('c, 'i, 'w) worker_env \<Rightarrow> (Metrics option \<Rightarrow> Metrics option) \<Rightarrow> ('c, 'w) WorkerServer \<Rightarrow> ('c, 'w) WorkerServer" where
  "server_metrics env inc s =
     s\<lparr>sv_Metrics := inc (case sv_Metrics s of None \<Rightarrow> Some (NewMetrics (wv_clock env 0)) | Some m \<Rightarrow> Some m)\<rparr>"

definition completionTimeout :: "('c, 'w) WorkerServer \<Rightarrow> duration" where
  "completionTimeout s = (if sv_CompletionTimeout s > 0 then sv_CompletionTimeout s else DefaultJobCompletionTimeout)"

definition shutdownTimeout :: "('c, 'w) WorkerServer \<Rightarrow> duration" where
  "shutdownTimeout s =
     (case sv_Engine s of None \<Rightarrow> ShutdownTimeout DefaultLimits | Some e \<Rightarrow> ShutdownTimeout (we_limits e))"

fun workerExecutionErrorCode :: "engine_error \<Rightarrow> string" where
  "workerExecutionErrorCode (ModuleDigestError reason _ _ _) =
     (if reason = ModuleDigestErrorMismatch then ''module_digest_mismatch'' else ''module_digest_invalid'')"
| "workerExecutionErrorCode (EngineErr _) = ''execution_failed''"

definition observeWorkerExecutionError ::
  "('c, 'i, 'w) worker_env \<Rightarrow> string \<Rightarrow> ('c, 'w) WorkerServer \<Rightarrow> ('c, 'w) WorkerServer" where
  "observeWorkerExecutionError env code s =
     (if code = ''module_digest_invalid'' then server_metrics env IncWorkerModuleDigestInvalid s
      else if code = ''module_digest_mismatch'' then server_metrics env IncWorkerModuleDigestMismatch s
      else s)"

definition completion_call :: "string \<Rightarrow> string \<Rightarrow> http_call" where
  "completion_call masterURL payload =
     \<lparr>hc_Method = ''POST'', hc_URL = masterURL @ ''/internal/jobs/complete'',
      hc_Headers = [(''Content-Type'', ''application/json'')], hc_Body = Replayable payload\<rparr>"

text \<open>The callback is best effort: every failure is logged and dropped.\<close>

definition reportJobCompletion ::
  "('c, 'i, 'w) worker_env \<Rightarrow> JobCompletionRequest \<Rightarrow> ('c, 'w) WorkerServer \<Rightarrow> ('c, 'w) WorkerServer" where
  "reportJobCompletion env completion s =
     (let masterURL = TrimRight (CHR ''/'') (TrimSpace (sv_MasterURL s)) in
      if masterURL = '''' then s
      else case wv_marshal env completion of
        Inl _ \<Rightarrow> s
      | Inr payload \<Rightarrow>
          if wv_NewRequest env (masterURL @ ''/internal/jobs/complete'') \<noteq> None then s
          else if wv_client env \<noteq> None then s
          else s\<lparr>sv_world := snd (DoWithRetry (en_net (wv_engine env)) (completion_call masterURL payload) (sv_world s))\<rparr>)"

section \<open>Handlers\<close>

definition worker_handleHealth :: "http_request \<Rightarrow> ('c, 'w) WorkerServer \<Rightarrow> reply \<times> ('c, 'w) WorkerServer" where
  "worker_handleHealth r s =
     (case RequireMethod r MethodGet of
        Some resp \<Rightarrow> (Replied resp, s)
      | None \<Rightarrow> (Replied (WriteJSON 200 (JHealth \<lparr>hr_Status = ''ok'', hr_NodeID = sv_NodeID s, hr_Role = ''worker''\<rparr>)), s))"

definition worker_handleReady :: "http_request \<Rightarrow> ('c, 'w) WorkerServer \<Rightarrow> reply \<times> ('c, 'w) WorkerServer" where
  "worker_handleReady r s =
     (case RequireMethod r MethodGet of
        Some resp \<Rightarrow> (Replied resp, s)
      | None \<Rightarrow>
          if sv_Engine s = None
          then (Replied (WriteError 503 ''not_ready'' (Some ''worker engine is not initialized'')), s)
          else (Replied (WriteJSON 200 (JHealth \<lparr>hr_Status = ''ready'', hr_NodeID = sv_NodeID s, hr_Role = ''worker''\<rparr>)), s))"

definition zero_ModuleCacheStats :: ModuleCacheStats where
  "zero_ModuleCacheStats = \<lparr>cs_Entries = 0, cs_Bytes = 0, cs_MaxEntries = 0, cs_MaxBytes = 0\<rparr>"

definition worker_handleMetrics ::
  "('c, 'i, 'w) worker_env \<Rightarrow> http_request \<Rightarrow> ('c, 'w) WorkerServer \<Rightarrow> reply \<times> ('c, 'w) WorkerServer" where
  "worker_handleMetrics env r s =
     (case RequireMethod r MethodGet of
        Some resp \<Rightarrow> (Replied resp, s)
      | None \<Rightarrow>
          (let cacheStats = (case sv_Engine s of None \<Rightarrow> zero_ModuleCacheStats | Some e \<Rightarrow> CacheStats e);
               s = server_metrics env (\<lambda>m. m) s
           in case WorkerSnapshot (wv_counts env) (wv_clock env 1) (sv_NodeID s) cacheStats (sv_Metrics s) of
                None \<Rightarrow> (Panicked, s)
              | Some snapshot \<Rightarrow> (Replied (WriteJSON 200 (JMetrics snapshot)), s)))"

text \<open>\<open>float64(time.Since(start).Microseconds()) / 1000\<close>\<close>

definition duration_ms :: "time \<Rightarrow> time \<Rightarrow> float64" where
  "duration_ms start now = Fin (real_of_int (trunc_div (Sub now start) 1000) / 1000)"

definition failed_completion :: "string \<Rightarrow> string \<Rightarrow> string \<Rightarrow> JobCompletionRequest" where
  "failed_completion requestID nodeID err =
     \<lparr>jc_RequestID = requestID, jc_WorkerID = nodeID, jc_Status = JobCompletionFailed, jc_Response = None, jc_Error = err\<rparr>"

definition succeeded_completion :: "string \<Rightarrow> string \<Rightarrow> ExecutionResponse \<Rightarrow> JobCompletionRequest" where
  "succeeded_completion requestID nodeID resp =
     \<lparr>jc_RequestID = requestID, jc_WorkerID = nodeID, jc_Status = JobCompletionSucceeded, jc_Response = Some resp, jc_Error = ''''\<rparr>"

text \<open>What \<open>handleInvoke\<close> does with the result of the execution.\<close>

definition finish_invoke ::
  "('c, 'i, 'w) worker_env \<Rightarrow> ExecutionRequest \<Rightarrow> engine_error + string \<Rightarrow> ('c, 'w) WorkerServer \<Rightarrow> reply \<times> ('c, 'w) WorkerServer" where
  "finish_invoke env req res s =
     (case res of
        Inl err \<Rightarrow>
          (let errorCode = workerExecutionErrorCode err;
               s = observeWorkerExecutionError env errorCode (server_metrics env IncWorkerExecutionFailure s);
               s = reportJobCompletion env (failed_completion (req_RequestID req) (sv_NodeID s) (engine_error_text err)) s
           in (Replied (WriteError 400 errorCode (Some (engine_error_text err))), s))
      | Inr result \<Rightarrow>
          (let s = server_metrics env IncWorkerExecutionSuccess s;
               resp = \<lparr>resp_RequestID = req_RequestID req, resp_Result = result,
                       resp_ExecutionTimeMs = duration_ms (wv_clock env 0) (wv_clock env 1),
                       resp_ExecutedOnNodeID = sv_NodeID s, resp_Error = ''''\<rparr>;
               s = reportJobCompletion env (succeeded_completion (req_RequestID req) (sv_NodeID s) resp) s
           in (Replied (WriteJSON 200 (JExec resp)), s)))"

definition invoke_engine ::
  "('c, 'i, 'w) worker_env \<Rightarrow> ExecutionRequest \<Rightarrow> 'c WasmEngine \<Rightarrow> ('c, 'w) WorkerServer \<Rightarrow> (reply \<times> ('c, 'w) WorkerServer) option" where
  "invoke_engine env req e s =
     (case ExecuteWithDigestAndABI (wv_engine env) (wv_schedule env) (req_ModuleName req) (req_ModuleURL req)
             (req_ModuleDigest req) (req_Payload req) (req_JITBearerToken req) (req_ModuleABI req) e (sv_world s) of
        None \<Rightarrow> None
      | Some (res, e, w) \<Rightarrow> Some (finish_invoke env req res (s\<lparr>sv_Engine := Some e, sv_world := w\<rparr>)))"

text \<open>The checks on the body; any failure is a 400 with the same code.\<close>

definition decode_invoke :: "('c, 'i, 'w) worker_env \<Rightarrow> int \<Rightarrow> string \<Rightarrow> ExecutionRequest go_result" where
  "decode_invoke env limit body =
     (case wv_decode env limit body of
        BodyTooLarge \<Rightarrow> Inl ''http: request body too large''
      | BadJSON \<Rightarrow> Inl ''invalid JSON''
      | Decoded req \<Rightarrow>
          (case ExecutionRequest_Validate req of
             Some err \<Rightarrow> Inl err
           | None \<Rightarrow>
               (case EnsureRequestID (wv_random env) (req_RequestID req) of
                  Inl err \<Rightarrow> Inl err
                | Inr requestID \<Rightarrow> Inr (req\<lparr>req_RequestID := requestID\<rparr>))))"

definition handleInvoke ::
  "('c, 'i, 'w) worker_env \<Rightarrow> http_request \<Rightarrow> ('c, 'w) WorkerServer \<Rightarrow> (reply \<times> ('c, 'w) WorkerServer) option" where
  "handleInvoke env r s =
     (case RequireMethod r MethodPost of
        Some resp \<Rightarrow> Some (Replied resp, s)
      | None \<Rightarrow>
          (case sv_Engine s of
             None \<Rightarrow> Some (Replied (WriteError 503 ''not_ready'' (Some ''worker engine is not initialized'')), s)
           | Some e \<Rightarrow>
               (case decode_invoke env (add64 (MaxPayloadBytes (we_limits e)) 4096) (rq_Body r) of
                  Inl err \<Rightarrow> Some (Replied (WriteError 400 ''invalid_execution_request'' (Some err)), s)
                | Inr req \<Rightarrow> invoke_engine env req e s)))"

definition worker_Handler ::
  "('c, 'i, 'w) worker_env \<Rightarrow> http_request \<Rightarrow> ('c, 'w) WorkerServer \<Rightarrow> (reply \<times> ('c, 'w) WorkerServer) option" where
  "worker_Handler env r s0 =
     (let s0 = server_metrics env (\<lambda>m. m) s0 in
      map_option (\<lambda>(rep, s). (rep, s\<lparr>sv_Metrics := MiddlewareWithMetrics r rep (sv_Metrics s)\<rparr>))
       (if rq_Path r = ''/wasmcat/health'' then Some (worker_handleHealth r s0)
        else if rq_Path r = ''/wasmcat/ready'' then Some (worker_handleReady r s0)
        else if rq_Path r = ''/wasmcat/metrics'' then Some (worker_handleMetrics env r s0)
        else if rq_Path r = ''/invoke'' then handleInvoke env r s0
        else Some (Replied (WriteJSON 404 JEmpty), s0)))"


section \<open>Every execution is answered\<close>

definition rejected :: "http_response \<Rightarrow> bool" where
  "rejected resp \<longleftrightarrow> (\<exists>code text. rs_Value resp = JError \<lparr>er_Error = text, er_Code = code, er_Details = ''''\<rparr> \<and>
     code \<in> {''method_not_allowed'', ''not_ready'', ''invalid_execution_request''})"

text \<open>One case per way through \<open>handleInvoke\<close>.\<close>

lemma handleInvoke_cases:
  assumes "handleInvoke env r s = Some (rep, s')"
  obtains (reject) resp where "rep = Replied resp" "rejected resp" "s' = s" "rs_Status resp \<in> {400, 405, 503}"
      "rs_Status resp = 503 \<longrightarrow> sv_Engine s = None"
  | (executed) e req res e' w where "sv_Engine s = Some e" "decode_invoke env (add64 (MaxPayloadBytes (we_limits e)) 4096) (rq_Body r) = Inr req"
      "ExecuteWithDigestAndABI (wv_engine env) (wv_schedule env) (req_ModuleName req) (req_ModuleURL req)
         (req_ModuleDigest req) (req_Payload req) (req_JITBearerToken req) (req_ModuleABI req) e (sv_world s) = Some (res, e', w)"
      "finish_invoke env req res (s\<lparr>sv_Engine := Some e', sv_world := w\<rparr>) = (rep, s')"
proof (cases "rq_Method r = MethodPost")
  case False
  then show ?thesis using assms that(1) by (auto simp: handleInvoke_def RequireMethod_def rejected_def)
next
  case post: True
  show ?thesis
  proof (cases "sv_Engine s")
    case None
    then show ?thesis using assms post that(1) by (auto simp: handleInvoke_def RequireMethod_def rejected_def)
  next
    case (Some e)
    show ?thesis
    proof (cases "decode_invoke env (add64 (MaxPayloadBytes (we_limits e)) 4096) (rq_Body r)")
      case (Inl err)
      then show ?thesis using assms post Some that(1) by (auto simp: handleInvoke_def RequireMethod_def rejected_def)
    next
      case (Inr req)
      then have "invoke_engine env req e s = Some (rep, s')" using assms post Some by (simp add: handleInvoke_def RequireMethod_def)
      then show ?thesis using that(2) [OF Some Inr] by (auto simp: invoke_engine_def split: option.splits)
    qed
  qed
qed

lemma server_metrics_simps [simp]:
  "sv_NodeID (server_metrics env f s) = sv_NodeID s" "sv_world (server_metrics env f s) = sv_world s"
  "sv_MasterURL (server_metrics env f s) = sv_MasterURL s" "sv_Engine (server_metrics env f s) = sv_Engine s"
  by (simp_all add: server_metrics_def)

lemma observe_simps [simp]:
  "sv_NodeID (observeWorkerExecutionError env c s) = sv_NodeID s" "sv_world (observeWorkerExecutionError env c s) = sv_world s"
  "sv_MasterURL (observeWorkerExecutionError env c s) = sv_MasterURL s" "sv_Engine (observeWorkerExecutionError env c s) = sv_Engine s"
  by (simp_all add: observeWorkerExecutionError_def)

lemma report_simps [simp]:
  "sv_NodeID (reportJobCompletion env c s) = sv_NodeID s" "sv_Engine (reportJobCompletion env c s) = sv_Engine s"
  by (simp_all add: reportJobCompletion_def Let_def split: sum.splits)

text \<open>
  What the master is told about a reply: a response is reported as succeeded with that very response, a
  failure as failed with its error.
\<close>

definition tells :: "string \<Rightarrow> http_response \<Rightarrow> JobCompletionRequest \<Rightarrow> bool" where
  "tells node resp c \<longleftrightarrow>
     (\<exists>x. rs_Status resp = 200 \<and> rs_Value resp = JExec x \<and> resp_ExecutedOnNodeID x = node \<and>
        c = succeeded_completion (resp_RequestID x) node x) \<or>
     (\<exists>requestID err. rs_Status resp = 400 \<and> c = failed_completion requestID node (engine_error_text err) \<and>
        rs_Value resp = JError \<lparr>er_Error = PublicErrorMessage (workerExecutionErrorCode err),
          er_Code = workerExecutionErrorCode err, er_Details = ''''\<rparr>)"

lemma finish_invoke_tells:
  assumes "finish_invoke env req res s = (rep, s')"
  obtains resp c s1 where "rep = Replied resp" "tells (sv_NodeID s) resp c" "s' = reportJobCompletion env c s1"
    "sv_MasterURL s1 = sv_MasterURL s" "sv_world s1 = sv_world s" "jc_RequestID c = req_RequestID req"
    "sv_Engine s' = sv_Engine s"
proof (cases res)
  case (Inl err)
  let ?c = "failed_completion (req_RequestID req) (sv_NodeID s) (engine_error_text err)"
  let ?s = "observeWorkerExecutionError env (workerExecutionErrorCode err) (server_metrics env IncWorkerExecutionFailure s)"
  have "rep = Replied (WriteError 400 (workerExecutionErrorCode err) (Some (engine_error_text err)))" "s' = reportJobCompletion env ?c ?s"
    using assms Inl by (simp_all add: finish_invoke_def Let_def)
  moreover have "tells (sv_NodeID s) (WriteError 400 (workerExecutionErrorCode err) (Some (engine_error_text err))) ?c"
    unfolding tells_def by auto
  ultimately show ?thesis using that [of _ ?c ?s] by (simp add: failed_completion_def)
next
  case (Inr result)
  define x where "x = \<lparr>resp_RequestID = req_RequestID req, resp_Result = result,
     resp_ExecutionTimeMs = duration_ms (wv_clock env 0) (wv_clock env 1), resp_ExecutedOnNodeID = sv_NodeID s, resp_Error = ''''\<rparr>"
  let ?c = "succeeded_completion (req_RequestID req) (sv_NodeID s) x"
  let ?s = "server_metrics env IncWorkerExecutionSuccess s"
  have "rep = Replied (WriteJSON 200 (JExec x))" "s' = reportJobCompletion env ?c ?s"
    using assms Inr by (simp_all add: finish_invoke_def Let_def x_def)
  moreover have "tells (sv_NodeID s) (WriteJSON 200 (JExec x)) ?c"
    by (simp add: tells_def x_def)
  ultimately show ?thesis using that [of _ ?c ?s] by (simp add: succeeded_completion_def)
qed

lemma report_sends:
  assumes "records (en_net (wv_engine env)) h" "quiet (en_net (wv_engine env)) h"
    and "TrimRight (CHR ''/'') (TrimSpace (sv_MasterURL s)) \<noteq> ''''" "wv_marshal env c = Inr payload"
    and "\<And>u. wv_NewRequest env u = None" "wv_client env = None"
  shows "\<exists>pre. h (sv_world (reportJobCompletion env c s)) = pre @ h (sv_world s) \<and> pre \<noteq> [] \<and>
    (\<forall>x \<in> set pre. fst x = completion_call (TrimRight (CHR ''/'') (TrimSpace (sv_MasterURL s))) payload)"
proof -
  have "hc_Body (completion_call u payload) = NoBody \<or> (\<exists>b. hc_Body (completion_call u payload) = Replayable b)" for u
    by (simp add: completion_call_def)
  from DoWithRetry_history [OF assms(1,2) this] show ?thesis
    using assms(3-6) by (simp add: reportJobCompletion_def Let_def)
qed

lemma invoke_reports:
  assumes "records (en_net (wv_engine env)) h" "quiet (en_net (wv_engine env)) h"
    and "TrimRight (CHR ''/'') (TrimSpace (sv_MasterURL s)) \<noteq> ''''" "\<And>c. \<exists>payload. wv_marshal env c = Inr payload"
    and "\<And>u. wv_NewRequest env u = None" "wv_client env = None"
    and "handleInvoke env r s = Some (rep, s')"
  shows "\<exists>resp. rep = Replied resp \<and> (rejected resp \<and> s' = s \<or>
    (\<exists>c payload rest. tells (sv_NodeID s) resp c \<and> wv_marshal env c = Inr payload \<and>
       map fst (h (sv_world s')) = completion_call (TrimRight (CHR ''/'') (TrimSpace (sv_MasterURL s))) payload # rest))"
  using assms(7)
proof (cases rule: handleInvoke_cases)
  case (executed e req res e' w)
  obtain resp c s1 where f: "rep = Replied resp" "tells (sv_NodeID s) resp c" "s' = reportJobCompletion env c s1"
      "sv_MasterURL s1 = sv_MasterURL s"
    by (rule finish_invoke_tells [OF executed(4)]) simp
  obtain payload where m: "wv_marshal env c = Inr payload" using assms(4) by blast
  obtain pre where "h (sv_world s') = pre @ h (sv_world s1)" "pre \<noteq> []"
      "\<forall>x \<in> set pre. fst x = completion_call (TrimRight (CHR ''/'') (TrimSpace (sv_MasterURL s))) payload"
    using report_sends [OF assms(1,2) _ m assms(5,6), of s1] f(3,4) assms(3) by metis
  then obtain rest where "map fst (h (sv_world s')) = completion_call (TrimRight (CHR ''/'') (TrimSpace (sv_MasterURL s))) payload # rest"
    by (cases pre) auto
  with f(1,2) m show ?thesis
    by (intro exI [of _ resp] conjI disjI2 exI [of _ c] exI [of _ payload] exI [of _ rest])
qed simp

text \<open>
  (C13) A worker tells the master what it tells its caller. When a reply of \<open>/invoke\<close> is not a rejection of the
  request itself, the worker has sent to the master, after everything else and at least once, a completion with
  the same outcome: the very response that was returned, or a failure with the error behind the returned code.
  A rejected request sends nothing and changes nothing. (A master is configured and the completion can be encoded and sent.)
\<close>

theorem invoke_reports_outcome:
  assumes "records (en_net (wv_engine env)) h" "quiet (en_net (wv_engine env)) h"
    and "TrimRight (CHR ''/'') (TrimSpace (sv_MasterURL s)) \<noteq> ''''" "\<And>c. \<exists>payload. wv_marshal env c = Inr payload"
    and "\<And>u. wv_NewRequest env u = None" "wv_client env = None"
    and "handleInvoke env r s = Some (rep, s')"
  shows "\<exists>resp. rep = Replied resp \<and> (rejected resp \<and> s' = s \<or>
    (\<exists>c payload rest. tells (sv_NodeID s) resp c \<and> wv_marshal env c = Inr payload \<and>
       map fst (h (sv_world s')) = completion_call (TrimRight (CHR ''/'') (TrimSpace (sv_MasterURL s))) payload # rest))"
  by (rule invoke_reports [OF assms])

lemma invoke_returns:
  assumes "sv_Engine s = Some e" "engine_wf e" "\<forall>i \<ge> n. sc_done (wv_schedule env) i" "neutral_schedule (wv_schedule env)"
  shows "\<exists>resp s' e'. handleInvoke env r s = Some (Replied resp, s') \<and> rs_Status resp \<in> {200, 400, 405} \<and>
    sv_Engine s' = Some e' \<and> engine_wf e' \<and> we_sem e' = we_sem e \<and> map_of (we_inflight e') = map_of (we_inflight e)"
proof (cases "rq_Method r = MethodPost")
  case False
  then show ?thesis using assms(1,2) by (simp add: handleInvoke_def RequireMethod_def)
next
  case post: True
  show ?thesis
  proof (cases "decode_invoke env (add64 (MaxPayloadBytes (we_limits e)) 4096) (rq_Body r)")
    case (Inl err)
    then show ?thesis using assms(1,2) post by (simp add: handleInvoke_def RequireMethod_def)
  next
    case (Inr req)
    from execute_cleans_up [OF assms(2-4), where env = "wv_engine env" and moduleName = "req_ModuleName req" and
        moduleURL = "req_ModuleURL req" and moduleDigest = "req_ModuleDigest req" and payload = "req_Payload req" and
        bearerToken = "req_JITBearerToken req" and abi = "req_ModuleABI req" and w = "sv_world s"]
    obtain res e' w' where x: "ExecuteWithDigestAndABI (wv_engine env) (wv_schedule env) (req_ModuleName req) (req_ModuleURL req)
         (req_ModuleDigest req) (req_Payload req) (req_JITBearerToken req) (req_ModuleABI req) e (sv_world s) = Some (res, e', w')"
        "engine_wf e'" "we_sem e' = we_sem e" "map_of (we_inflight e') = map_of (we_inflight e)"
      by blast
    obtain rep s' where f: "finish_invoke env req res (s\<lparr>sv_Engine := Some e', sv_world := w'\<rparr>) = (rep, s')" by force
    obtain resp c where r: "rep = Replied resp" "tells (sv_NodeID s) resp c" "sv_Engine s' = Some e'"
      by (rule finish_invoke_tells [OF f]) simp
    have "handleInvoke env r s = Some (Replied resp, s')"
      using post assms(1) Inr x(1) f r(1) by (simp add: handleInvoke_def RequireMethod_def invoke_engine_def)
    moreover have "rs_Status resp \<in> {200, 400, 405}" using r(2) by (auto simp: tells_def)
    ultimately show ?thesis using r(3) x(2-4) by blast
  qed
qed

section \<open>A concrete worker\<close>

definition worker_env_a :: "(string, string, (http_call \<times> http_reply go_result) list) worker_env" where
  "worker_env_a = \<lparr>wv_engine = \<lparr>en_wazero = \<lparr>wz_CompileModule = (\<lambda>b w. (Inr b, w)), wz_ExportedFunctions = (\<lambda>_. [''_start'']),
        wz_InstantiateModule = (\<lambda>c w. (Inr [], w)), wz_exports = (\<lambda>_ _. True), wz_Call = (\<lambda>f args inst. (Inr [], inst)),
        wz_Memory = (\<lambda>_. True), wz_Write = (\<lambda>p s inst. Some s), wz_Read = (\<lambda>p l inst. None),
        wz_command = (\<lambda>c p w. (([Stdout p], Exited 0), w))\<rparr>,
      en_net = \<lparr>net_do = (\<lambda>call w. (Inr \<lparr>hp_StatusCode = 200, hp_Status = ''200 OK'', hp_Body = ''wasm''\<rparr>,
          (call, Inr \<lparr>hp_StatusCode = 200, hp_Status = ''200 OK'', hp_Body = ''wasm''\<rparr>) # w)),
        net_done = (\<lambda>_. False), net_sleep = (\<lambda>_ w. (None, w)), net_now = (\<lambda>_. 0)\<rparr>,
      en_NewRequest = (\<lambda>_. None), en_ReadAll = (\<lambda>_ _. None), en_sha256 = id, en_lower = id, en_quote = id, en_hex_error = id,
      en_ctx_error = ''context deadline exceeded''\<rparr>,
     wv_schedule = schedule_a, wv_decode = (\<lambda>_ b. Decoded \<lparr>req_RequestID = ''a'', req_ModuleName = ''m'', req_Payload = b, req_ModuleURL = ''u'',
        req_ModuleRegistryURL = [], req_ModuleDigest = [], req_JITBearerToken = [], req_ModuleABI = [], req_UserLat = Fin 0, req_UserLon = Fin 0\<rparr>),
     wv_marshal = (\<lambda>c. Inr (jc_RequestID c)), wv_NewRequest = (\<lambda>_. None), wv_client = None, wv_random = Inl [], wv_clock = int, wv_counts = id\<rparr>"

definition server_a :: "(string, (http_call \<times> http_reply go_result) list) WorkerServer" where
  "server_a = \<lparr>sv_Engine = Some engine_a, sv_NodeID = ''w'', sv_MasterURL = ''https://m/'', sv_CompletionTimeout = 0, sv_Metrics = None, sv_world = []\<rparr>"

definition invoke_a :: http_request where
  "invoke_a = \<lparr>rq_Method = ''POST'', rq_Path = ''/invoke'', rq_TLS = None, rq_Body = ''hi''\<rparr>"

theorem invoke_reports_outcome_witness:
  "\<exists>rep s' c payload rest. handleInvoke worker_env_a invoke_a server_a = Some (rep, s') \<and> wv_marshal worker_env_a c = Inr payload \<and>
     map fst (sv_world s') = completion_call ''https://m'' payload # rest"
proof -
  have m: "TrimRight (CHR ''/'') (TrimSpace (sv_MasterURL server_a)) = ''https://m''" by code_simp
  have "map_option (\<lambda>(rep, s). length (sv_world s)) (handleInvoke worker_env_a invoke_a server_a) = Some 2" by code_simp
  then obtain rep s' where h: "handleInvoke worker_env_a invoke_a server_a = Some (rep, s')" and sent: "length (sv_world s') = 2"
    by auto
  have "records (en_net (wv_engine worker_env_a)) id" "quiet (en_net (wv_engine worker_env_a)) id"
    "\<And>c. \<exists>p. wv_marshal worker_env_a c = Inr p" "\<And>u. wv_NewRequest worker_env_a u = None" "wv_client worker_env_a = None"
    by (simp_all add: worker_env_a_def records_def quiet_def)
  note net = this
  have "TrimRight (CHR ''/'') (TrimSpace (sv_MasterURL server_a)) \<noteq> ''''" by (simp add: m)
  from invoke_reports_outcome [OF net(1,2) this net(3-5) h, unfolded m id_apply]
  obtain resp where "rejected resp \<and> s' = server_a \<or> (\<exists>c payload rest. tells (sv_NodeID server_a) resp c \<and>
      wv_marshal worker_env_a c = Inr payload \<and> map fst (sv_world s') = completion_call ''https://m'' payload # rest)"
    by (elim exE conjE) (rule that)
  moreover have "s' \<noteq> server_a" using sent by (auto simp: server_a_def)
  ultimately obtain c payload rest where "wv_marshal worker_env_a c = Inr payload"
      "map fst (sv_world s') = completion_call ''https://m'' payload # rest"
    by (elim disjE exE conjE) simp_all
  with h show ?thesis
    by (intro exI [of _ rep] exI [of _ s'] exI [of _ c] exI [of _ payload] exI [of _ rest] conjI)
qed

end
