(* ===== verification/Cluster.thy ===== *)
theory Cluster
  imports Master_Dispatcher Worker_Server
begin

text \<open>
  The dispatcher on a network of workers: a call to an address at which a worker listens is served by that worker's
  handler (\<open>src/internal/worker/server.go\<close>), any other call by the network outside. A cluster is a family
  of servers, of which a call changes one, beside the outside. The encoding of requests and replies in
  HTTP is an argument, and so is what a worker sees of its own surroundings during a call: its schedule, its
  clock and its random numbers, which may differ from call to call.
\<close>

section \<open>Workers as a network\<close>

record ('k, 'c, 'i, 'w) cluster_env =
  cl_locate :: "string \<Rightarrow> 'k option"
  cl_worker :: "'k \<Rightarrow> ('c, 'i, 'w) worker_env"
  cl_schedule :: "'k \<Rightarrow> nat \<Rightarrow> 'c schedule"
  cl_clock :: "nat \<Rightarrow> nat \<Rightarrow> time"
  cl_random :: "nat \<Rightarrow> string go_result"
  cl_request :: "http_call \<Rightarrow> http_request"
  cl_reply :: "http_response \<Rightarrow> http_reply"

record ('k, 'c, 'w, 'o) cluster =
  cs_calls :: nat
  cs_servers :: "'k \<Rightarrow> ('c, 'w) WorkerServer"
  cs_outside :: 'o

definition worker_at :: "('k, 'c, 'i, 'w) cluster_env \<Rightarrow> 'k \<Rightarrow> nat \<Rightarrow> ('c, 'i, 'w) worker_env" where
  "worker_at c k i = (cl_worker c k)\<lparr>wv_schedule := cl_schedule c k i, wv_clock := cl_clock c i, wv_random := cl_random c i\<rparr>"

text \<open>A handler that does not return ends by the time limit of the client, one that panics closes the connection.\<close>

definition call_worker ::
  "('k, 'c, 'i, 'w) cluster_env \<Rightarrow> 'k \<Rightarrow> http_call \<Rightarrow> ('k, 'c, 'w, 'o) cluster \<Rightarrow> http_reply go_result \<times> ('k, 'c, 'w, 'o) cluster" where
  "call_worker c k call s =
     (let s' = s\<lparr>cs_calls := Suc (cs_calls s)\<rparr> in
      case worker_Handler (worker_at c k (cs_calls s)) (cl_request c call) (cs_servers s k) of
        None \<Rightarrow> (Inl ''context deadline exceeded'', s')
      | Some (Panicked, srv) \<Rightarrow> (Inl ''EOF'', s'\<lparr>cs_servers := (cs_servers s)(k := srv)\<rparr>)
      | Some (Replied resp, srv) \<Rightarrow> (Inr (cl_reply c resp), s'\<lparr>cs_servers := (cs_servers s)(k := srv)\<rparr>))"

definition cluster_network :: "('k, 'c, 'i, 'w) cluster_env \<Rightarrow> 'o network \<Rightarrow> ('k, 'c, 'w, 'o) cluster network" where
  "cluster_network c out =
     \<lparr>net_do = (\<lambda>call s. case cl_locate c (hc_URL call) of
          Some k \<Rightarrow> call_worker c k call s
        | None \<Rightarrow> (case net_do out call (cs_outside s) of (answer, o') \<Rightarrow> (answer, s\<lparr>cs_outside := o'\<rparr>))),
      net_done = (\<lambda>s. net_done out (cs_outside s)),
      net_sleep = (\<lambda>d s. case net_sleep out d (cs_outside s) of (err, o') \<Rightarrow> (err, s\<lparr>cs_outside := o'\<rparr>)),
      net_now = (\<lambda>s. net_now out (cs_outside s))\<rparr>"

section \<open>What a worker may have returned\<close>

text \<open>
  \<open>ran c k i req e result\<close>: in its turn \<open>i\<close> worker \<open>k\<close> executed the module, payload and convention of \<open>req\<close> on its
  engine \<open>e\<close>, with that result.
\<close>

definition ran :: "('k, 'c, 'i, 'w) cluster_env \<Rightarrow> 'k \<Rightarrow> nat \<Rightarrow> ExecutionRequest \<Rightarrow> 'c WasmEngine \<Rightarrow> string \<Rightarrow> bool" where
  "ran c k i req e result \<longleftrightarrow>
     (\<exists>w e' w'. ExecuteWithDigestAndABI (wv_engine (cl_worker c k)) (cl_schedule c k i) (req_ModuleName req) (req_ModuleURL req)
        (req_ModuleDigest req) (req_Payload req) (req_JITBearerToken req) (req_ModuleABI req) e w = Some (Inr result, e', w'))"

text \<open>All engines of the cluster are sound, and the other goroutines of each worker keep them so.\<close>

definition cluster_sound :: "('k, 'c, 'i, 'w) cluster_env \<Rightarrow> ('k \<Rightarrow> Limits) \<Rightarrow> ('k, 'c, 'w, 'o) cluster \<Rightarrow> bool" where
  "cluster_sound c L s \<longleftrightarrow> (\<forall>k e. sv_Engine (cs_servers s k) = Some e \<longrightarrow> sound (wv_engine (cl_worker c k)) (L k) e)"

definition cluster_fair :: "('k, 'c, 'i, 'w) cluster_env \<Rightarrow> bool" where
  "cluster_fair c \<longleftrightarrow> (\<forall>k i. fair_schedule (wv_engine (cl_worker c k)) (cl_schedule c k i))"

text \<open>
  \<open>wired c d req enc\<close>: the encodings carry \<open>req\<close> to the workers and their replies back. A call to a worker reaches
  \<open>/invoke\<close> with its body; decoding what the dispatcher encoded gives the request again (or fails); a reply keeps its
  status; the result in a decoded response is \<open>enc\<close> of the result that was encoded (JSON replaces bytes that
  are not UTF-8).
\<close>

definition wired :: "('k, 'c, 'i, 'w) cluster_env \<Rightarrow> 'n Dispatcher \<Rightarrow> ExecutionRequest \<Rightarrow> (string \<Rightarrow> string) \<Rightarrow> bool" where
  "wired c d req enc \<longleftrightarrow>
     (\<forall>url data k. cl_locate c url = Some k \<longrightarrow>
        rq_Path (cl_request c (invoke_call url data)) = ''/invoke'' \<and> rq_Body (cl_request c (invoke_call url data)) = data) \<and>
     (\<forall>data k limit r. d_marshal d req = Inr data \<longrightarrow> wv_decode (cl_worker c k) limit data = Decoded r \<longrightarrow> r = req) \<and>
     (\<forall>resp. hp_StatusCode (cl_reply c resp) = rs_Status resp) \<and>
     (\<forall>x y. d_decode d (hp_Body (cl_reply c (WriteJSON 200 (JExec x)))) = Inr y \<longrightarrow> resp_Result y = enc (resp_Result x))"

lemma worker_at_simps [simp]:
  "wv_engine (worker_at c k i) = wv_engine (cl_worker c k)" "wv_schedule (worker_at c k i) = cl_schedule c k i"
  "wv_decode (worker_at c k i) = wv_decode (cl_worker c k)"
  by (simp_all add: worker_at_def)

section \<open>One call to a worker\<close>

lemma finish_invoke_engine: "finish_invoke env req res s = (rep, s') \<Longrightarrow> sv_Engine s' = sv_Engine s"
  by (auto simp: finish_invoke_def Let_def split: sum.splits)

lemma finish_invoke_success:
  assumes "finish_invoke env req res s = (Replied resp, s')" "rs_Status resp = 200"
  shows "\<exists>x. resp = WriteJSON 200 (JExec x) \<and> res = Inr (resp_Result x)"
  using assms by (auto simp: finish_invoke_def Let_def split: sum.splits)

lemma decode_invoke_request:
  assumes "decode_invoke env limit body = Inr req'" "\<And>r. wv_decode env limit body = Decoded r \<Longrightarrow> r = req"
  shows "\<exists>requestID. req' = req\<lparr>req_RequestID := requestID\<rparr>"
  using assms by (auto simp: decode_invoke_def split: decoded.splits option.splits sum.splits)

lemma worker_invoke:
  assumes "worker_Handler env r s = Some (rep, s')" "rq_Path r = ''/invoke''"
  obtains s1 where "handleInvoke env r (server_metrics env (\<lambda>m. m) s) = Some (rep, s1)" "sv_Engine s' = sv_Engine s1"
  using assms by (auto simp: worker_Handler_def Let_def)


lemma finish_invoke_status:
  assumes "finish_invoke env req res s = (rep, s')"
  obtains resp where "rep = Replied resp" "rs_Status resp \<in> {200, 400}"
  using assms by (auto simp: finish_invoke_def Let_def split: sum.splits)

text \<open>A handled invocation keeps the engine sound, and a reply with a success status is the result of an execution.\<close>

lemma invoke_sound:
  assumes "handleInvoke env r s = Some (rep, s')" "fair_schedule (wv_engine env) (wv_schedule env)"
    and "\<And>e. sv_Engine s = Some e \<Longrightarrow> sound (wv_engine env) L e"
  shows "sv_Engine s' = Some e \<Longrightarrow> sound (wv_engine env) L e"
  using assms(1)
proof (cases rule: handleInvoke_cases)
  case (executed e1 req res e' w)
  assume "sv_Engine s' = Some e"
  then have "e = e'" using finish_invoke_engine [OF executed(4)] by simp
  then show ?thesis using sound_execute [OF executed(3) assms(2)] assms(3) executed(1) by blast
qed (use assms(3) in simp)

lemma invoke_success:
  assumes "handleInvoke env r s = Some (Replied resp, s')" "200 \<le> rs_Status resp" "rs_Status resp < 300"
    and "\<And>limit req'. wv_decode env limit (rq_Body r) = Decoded req' \<Longrightarrow> req' = req"
  obtains e x e' w where "sv_Engine s = Some e" "resp = WriteJSON 200 (JExec x)"
    "ExecuteWithDigestAndABI (wv_engine env) (wv_schedule env) (req_ModuleName req) (req_ModuleURL req)
       (req_ModuleDigest req) (req_Payload req) (req_JITBearerToken req) (req_ModuleABI req) e (sv_world s) = Some (Inr (resp_Result x), e', w)"
  using assms(1)
proof (cases rule: handleInvoke_cases)
  case (reject resp')
  then show ?thesis using assms(2,3) by auto
next
  case (executed e req' res e' w)
  obtain requestID where req': "req' = req\<lparr>req_RequestID := requestID\<rparr>"
    using decode_invoke_request [OF executed(2), of req] assms(4) by blast
  have "rs_Status resp = 200"
    by (rule finish_invoke_status [OF executed(4)]) (use assms(2,3) in auto)
  then obtain x where "resp = WriteJSON 200 (JExec x)" "res = Inr (resp_Result x)"
    using finish_invoke_success [OF executed(4)] by blast
  then show ?thesis using that executed(1,3) req' by simp
qed

lemma call_worker_sound:
  assumes "call_worker c k call s = (ans, s')" "cluster_sound c L s" "cluster_fair c" "rq_Path (cl_request c call) = ''/invoke''"
  shows "cluster_sound c L s'"
proof -
  let ?env = "worker_at c k (cs_calls s)" and ?r = "cl_request c call"
  let ?s = "server_metrics ?env (\<lambda>m. m) (cs_servers s k)"
  show ?thesis
  proof (cases "worker_Handler ?env ?r (cs_servers s k)")
    case None
    then show ?thesis using assms(1,2) by (auto simp: call_worker_def cluster_sound_def)
  next
    case (Some a)
    obtain rep srv where a: "a = (rep, srv)" by force
    obtain s1 where i: "handleInvoke ?env ?r ?s = Some (rep, s1)" "sv_Engine srv = sv_Engine s1"
      by (rule worker_invoke [OF Some [unfolded a] assms(4)])
    have "sound (wv_engine (cl_worker c k)) (L k) e" if "sv_Engine srv = Some e" for e
      using invoke_sound [OF i(1), of "L k" e] that i(2) assms(2,3) by (simp add: cluster_sound_def cluster_fair_def)
    moreover have "cs_servers s' = (cs_servers s)(k := srv)"
      using assms(1) Some a by (auto simp: call_worker_def Let_def split: reply.splits)
    ultimately show ?thesis using assms(2) by (simp add: cluster_sound_def)
  qed
qed

lemma call_worker_success:
  assumes "call_worker c k (invoke_call url data) s = (Inr answer, s')" "200 \<le> hp_StatusCode answer" "hp_StatusCode answer < 300"
    and "cl_locate c url = Some k" "d_marshal d req = Inr data" "wired c d req enc"
  obtains e x where "sv_Engine (cs_servers s k) = Some e" "answer = cl_reply c (WriteJSON 200 (JExec x))"
    "ran c k (cs_calls s) req e (resp_Result x)"
proof -
  let ?env = "worker_at c k (cs_calls s)" and ?r = "cl_request c (invoke_call url data)"
  have path: "rq_Path ?r = ''/invoke''" "rq_Body ?r = data" using assms(4,6) by (simp_all add: wired_def)
  have dec: "wv_decode ?env limit (rq_Body ?r) = Decoded req' \<Longrightarrow> req' = req" for limit req'
    using assms(5,6) path(2) by (simp add: wired_def)
  obtain resp srv where h: "worker_Handler ?env ?r (cs_servers s k) = Some (Replied resp, srv)" "answer = cl_reply c resp"
    using assms(1) by (auto simp: call_worker_def Let_def split: option.splits prod.splits reply.splits)
  then have st: "200 \<le> rs_Status resp" "rs_Status resp < 300" using assms(2,3,6) by (simp_all add: wired_def)
  obtain s1 where i: "handleInvoke ?env ?r (server_metrics ?env (\<lambda>m. m) (cs_servers s k)) = Some (Replied resp, s1)"
    by (rule worker_invoke [OF h(1) path(1)])
  show ?thesis
  proof (rule invoke_success [OF i st dec])
    fix e x e' w
    assume x: "sv_Engine (server_metrics ?env (\<lambda>m. m) (cs_servers s k)) = Some e" "resp = WriteJSON 200 (JExec x)"
      "ExecuteWithDigestAndABI (wv_engine ?env) (wv_schedule ?env) (req_ModuleName req) (req_ModuleURL req) (req_ModuleDigest req)
         (req_Payload req) (req_JITBearerToken req) (req_ModuleABI req) e (sv_world (server_metrics ?env (\<lambda>m. m) (cs_servers s k))) =
       Some (Inr (resp_Result x), e', w)"
    then have "ran c k (cs_calls s) req e (resp_Result x)" by (auto simp: ran_def)
    then show ?thesis using that [of e x] x(1,2) h(2) by simp
  qed
qed

section \<open>A dispatch\<close>

text \<open>The request whose execution on worker \<open>node\<close> gave \<open>resp\<close>.\<close>

definition genuine ::
  "('k, 'c, 'i, 'w) cluster_env \<Rightarrow> ('k \<Rightarrow> Limits) \<Rightarrow> (string \<Rightarrow> string) \<Rightarrow> ExecutionRequest \<Rightarrow> WorkerNode \<Rightarrow> ExecutionResponse \<Rightarrow> bool" where
  "genuine c L enc req node resp \<longleftrightarrow>
     (\<exists>k i e result. cl_locate c (workerInvokeURL (wn_IPAddress node)) = Some k \<and> sound (wv_engine (cl_worker c k)) (L k) e \<and>
        ran c k i req e result \<and> resp_Result resp = enc result \<and> resp_ExecutedOnNodeID resp = wn_ID node)"

lemma worker_answer_success:
  assumes "worker_answer d node req (Inr answer) = Inr resp"
  shows "200 \<le> hp_StatusCode answer" "hp_StatusCode answer < 300"
    "\<exists>y. d_decode d (hp_Body answer) = Inr y \<and> resp_Result resp = resp_Result y"
    "resp_ExecutedOnNodeID resp = wn_ID node"
  using assms by (auto simp: worker_answer_def split: if_splits sum.splits)

lemma forward_genuine:
  assumes "d_net d = cluster_network c out" "wired c d req enc" "cluster_fair c" "cluster_sound c L n"
    and "cl_locate c (workerInvokeURL (wn_IPAddress node)) \<noteq> None" "forwardToWorker d node req n = (res, n')"
  shows "cluster_sound c L n' \<and> (\<forall>resp. res = Inr resp \<longrightarrow> genuine c L enc req node resp)"
proof -
  let ?url = "workerInvokeURL (wn_IPAddress node)"
  obtain k where k: "cl_locate c ?url = Some k" using assms(5) by blast
  consider (unsent) t where "res = Inl t" "n' = n"
    | (sent) data ans where "d_marshal d req = Inr data" "net_do (d_net d) (invoke_call ?url data) n = (ans, n')" "res = worker_answer d node req ans"
    using assms(6) by (auto simp: forwardToWorker_def Let_def split: sum.splits option.splits prod.splits)
  then show ?thesis
  proof cases
    case unsent
    then show ?thesis using assms(4) by simp
  next
    case sent
    have call: "call_worker c k (invoke_call ?url data) n = (ans, n')"
      using sent(2) k assms(1) by (simp add: cluster_network_def invoke_call_def)
    have "rq_Path (cl_request c (invoke_call ?url data)) = ''/invoke''" using assms(2) k by (simp add: wired_def)
    then have "cluster_sound c L n'" by (rule call_worker_sound [OF call assms(4,3)])
    moreover have "genuine c L enc req node resp" if r: "res = Inr resp" for resp
    proof -
      obtain answer where a: "ans = Inr answer" using sent(3) r by (cases ans) (simp_all add: worker_answer_def)
      note ok = worker_answer_success [OF sent(3) [unfolded a r, symmetric]]
      obtain e x where w: "sv_Engine (cs_servers n k) = Some e" "answer = cl_reply c (WriteJSON 200 (JExec x))" "ran c k (cs_calls n) req e (resp_Result x)"
        by (rule call_worker_success [OF call [unfolded a] ok(1,2) k sent(1) assms(2)])
      have "resp_Result resp = enc (resp_Result x)" using ok(3) w(2) assms(2) by (auto simp: wired_def)
      then show ?thesis unfolding genuine_def using k w(1,3) ok(4) assms(4) by (auto simp: cluster_sound_def)
    qed
    ultimately show ?thesis by blast
  qed
qed

lemma dispatch_loop_genuine:
  assumes "dispatch_loop d req ws e s = Some y"
  shows "d_net d = cluster_network c out \<longrightarrow> wired c d req enc \<longrightarrow> cluster_fair c \<longrightarrow> cluster_sound c L (ds_net s) \<longrightarrow>
    (e = None \<longrightarrow> ws \<noteq> []) \<longrightarrow>
    (\<forall>w \<in> set ws. reachable_worker d req w \<and> cl_locate c (workerInvokeURL (wn_IPAddress w)) \<noteq> None) \<longrightarrow>
    cluster_sound c L (ds_net (snd y)) \<and> (\<forall>resp. fst y = Inr resp \<longrightarrow> (\<exists>node \<in> set ws. genuine c L enc req node resp))"
proof (rule dispatch_loop.raw_induct [OF _ assms], goal_cases)
  case (1 loop d req ws e s y)
  show ?case
  proof (intro impI)
    assume a: "d_net d = cluster_network c out" "wired c d req enc" "cluster_fair c" "cluster_sound c L (ds_net s)"
      "e = None \<longrightarrow> ws \<noteq> []" "\<forall>w \<in> set ws. reachable_worker d req w \<and> cl_locate c (workerInvokeURL (wn_IPAddress w)) \<noteq> None"
    note body = 1(2)
    let ?G = "\<lambda>ws y. cluster_sound c L (ds_net (snd y)) \<and> (\<forall>resp. fst y = Inr resp \<longrightarrow> (\<exists>node \<in> set ws. genuine c L enc req node resp))"
    show "?G ws y"
    proof (cases "ws = []")
      case True
      then show ?thesis using body a(4,5) by auto
    next
      case ws: False
      show ?thesis
      proof (cases "SelectWorker (d_hav d) (d_scheduler d) (req_UserLat req) (req_UserLon req) ws")
        case (Inl err)
        then show ?thesis using body ws a(4) by auto
      next
        case (Inr node)
        have node: "node \<in> set ws" using a(6) by (intro nearest.select_member [OF _ Inr]) blast
        obtain r n' where f: "forwardToWorker d node req (ds_net s) = (r, n')" by force
        have g: "cluster_sound c L n'" "\<And>resp. r = Inr resp \<Longrightarrow> genuine c L enc req node resp"
          using forward_genuine [OF a(1-4) _ f] a(6) node by blast+
        have rest: "set (removeWorkerCandidate ws node) \<subseteq> set ws" by (auto simp: removeWorkerCandidate_def)
        show ?thesis
        proof (cases "\<exists>err. r = Inl err \<and> \<not> net_done (d_net d) n' \<and> isRetryableDispatchError err")
          case False
          then show ?thesis using body ws Inr f g node by (auto split: sum.splits if_splits)
        next
          case True
          then obtain err s1 where l: "loop d req (removeWorkerCandidate ws node) (Some err) s1 = Some y" "ds_net s1 = n'"
            using body ws Inr f by (auto split: if_splits)
          have "?G (removeWorkerCandidate ws node) y"
            using 1(1) [OF l(1)] a(1-3,6) g(1) l(2) rest by blast
          then show ?thesis using rest by blast
        qed
      qed
    qed
  qed
qed


lemma dispatch_loop_ends:
  assumes "\<forall>w \<in> set ws. reachable_worker d req w"
  shows "\<exists>y. dispatch_loop d req ws e s = Some y"
  using assms
proof (induction "length ws" arbitrary: ws e s rule: less_induct)
  case less
  show ?case
  proof (cases "ws = []")
    case True
    then show ?thesis by (simp add: dispatch_loop.simps)
  next
    case ws: False
    show ?thesis
    proof (cases "SelectWorker (d_hav d) (d_scheduler d) (req_UserLat req) (req_UserLon req) ws")
      case (Inl err)
      then show ?thesis using ws by (simp add: dispatch_loop.simps)
    next
      case (Inr node)
      have node: "node \<in> set ws" by (rule nearest.select_member [OF less.prems Inr])
      obtain r n where f: "forwardToWorker d node req (ds_net s) = (r, n)" by force
      have "\<exists>y. dispatch_loop d req (removeWorkerCandidate ws node) e' s' = Some y" for e' s'
        using less.hyps [OF remove_shrinks(1) [OF node]] less.prems by (simp add: removeWorkerCandidate_def)
      then show ?thesis using ws Inr f by (subst dispatch_loop.simps) (auto split: sum.split)
    qed
  qed
qed

text \<open>Outside the Azure registries, resolving a module keeps the digest of the client.\<close>

lemma resolve_module_digest:
  assumes "resolve_module d req s = (Inr resolved, s1)"
  shows "req_ModuleName resolved = req_ModuleName req" "req_Payload resolved = req_Payload req"
    "req_ModuleDigest resolved = req_ModuleDigest req \<or>
     isACRURL (ae_parse (d_acr d)) (if req_ModuleURL req = '''' then req_ModuleRegistryURL req else req_ModuleURL req)"
  using assms by (auto simp: resolve_module_def Let_def split: if_splits sum.splits prod.splits)

text \<open>
  \<open>resp\<close> is the output that the module of \<open>req\<close>, compiled from bytes with the digest of \<open>req\<close>, gave for the payload of
  \<open>req\<close> on the worker at the address of \<open>node\<close>, and it names this worker.
\<close>

definition verified_output ::
  "('k, 'c, 'i, 'w) cluster_env \<Rightarrow> ('k \<Rightarrow> Limits) \<Rightarrow> (string \<Rightarrow> string) \<Rightarrow> ExecutionRequest \<Rightarrow> WorkerNode \<Rightarrow> ExecutionResponse \<Rightarrow> bool" where
  "verified_output c L enc req node resp \<longleftrightarrow>
     (\<exists>k wasmBytes compiled result w1 w2 w3 w4. cl_locate c (workerInvokeURL (wn_IPAddress node)) = Some k \<and>
        resp_ExecutedOnNodeID resp = wn_ID node \<and>
        wz_CompileModule (en_wazero (wv_engine (cl_worker c k))) wasmBytes w1 = (Inr compiled, w2) \<and>
        digest_of (wv_engine (cl_worker c k)) wasmBytes (req_ModuleDigest req) \<and>
        (runWASIModule (en_wazero (wv_engine (cl_worker c k))) (L k) compiled (req_ModuleName req) (req_Payload req) w3 = (Inr result, w4) \<or>
         runWasmcatModule (en_wazero (wv_engine (cl_worker c k))) (L k) compiled (req_ModuleName req) (req_Payload req) w3 = (Inr result, w4)) \<and>
        resp_Result resp = enc result)"

lemma genuine_verified:
  assumes "genuine c L enc req node resp" "cluster_fair c" "TrimSpace (req_ModuleDigest req) \<noteq> ''''"
    and "CHR ''@'' \<notin> set (TrimSpace (req_ModuleName req))" "CHR ''@'' \<notin> set (TrimSpace (req_ModuleDigest req))"
  shows "verified_output c L enc req node resp"
proof -
  obtain k i e result where k: "cl_locate c (workerInvokeURL (wn_IPAddress node)) = Some k" "sound (wv_engine (cl_worker c k)) (L k) e"
      "ran c k i req e result" "resp_Result resp = enc result" "resp_ExecutedOnNodeID resp = wn_ID node"
    using assms(1) by (auto simp: genuine_def)
  obtain w e' w' where x: "ExecuteWithDigestAndABI (wv_engine (cl_worker c k)) (cl_schedule c k i) (req_ModuleName req) (req_ModuleURL req)
      (req_ModuleDigest req) (req_Payload req) (req_JITBearerToken req) (req_ModuleABI req) e w = Some (Inr result, e', w')"
    using k(3) by (auto simp: ran_def)
  have "fair_schedule (wv_engine (cl_worker c k)) (cl_schedule c k i)" using assms(2) by (simp add: cluster_fair_def)
  from execute_digest [OF k(2) this x assms(3-5)] k(2)
  show ?thesis using k(1,4,5) unfolding sound_def verified_output_def by metis
qed

text \<open>
  (C4) End to end, from the dispatcher to the module. Once the dispatcher has resolved the module of a request to a request with a
  digest, the dispatch returns, and a result that it returns is the output of a module with that very SHA-256, run on the client's payload by the
  worker that the response names, whatever the workers had cached before and whatever else they do; and every cache in the
  cluster stays verified. The digest is the one that the client pinned, unless the module is in an Azure registry: there the code
  replaces the pin by the digest that the registry answers. (All registered addresses are those of the workers and have ordinary distances,
  without which a dispatch may not return. Module name and digest hold no \<open>@\<close>, which separates the parts of a cache key.)
\<close>

theorem dispatched_result_is_genuine:
  assumes "d_net d = cluster_network c out" "cluster_fair c"
    and "resolve_module d req s = (Inr resolved, s1)" "cluster_sound c L (ds_net s1)" "wired c d resolved enc"
    and "\<forall>w \<in> set (GetSchedulableWorkers it registry). reachable_worker d resolved w \<and> cl_locate c (workerInvokeURL (wn_IPAddress w)) \<noteq> None"
    and "TrimSpace (req_ModuleDigest resolved) \<noteq> ''''"
    and "CHR ''@'' \<notin> set (TrimSpace (req_ModuleName resolved))" "CHR ''@'' \<notin> set (TrimSpace (req_ModuleDigest resolved))"
  shows "(\<exists>res s'. Dispatch d it registry req s = Some (res, s') \<and> cluster_sound c L (ds_net s') \<and>
      (\<forall>resp. res = Inr resp \<longrightarrow> (\<exists>node \<in> set (GetSchedulableWorkers it registry). verified_output c L enc resolved node resp))) \<and>
    req_ModuleName resolved = req_ModuleName req \<and> req_Payload resolved = req_Payload req \<and>
    (req_ModuleDigest resolved = req_ModuleDigest req \<or>
     isACRURL (ae_parse (d_acr d)) (if req_ModuleURL req = '''' then req_ModuleRegistryURL req else req_ModuleURL req))"
proof (intro conjI resolve_module_digest [OF assms(3)])
  let ?ws = "GetSchedulableWorkers it registry"
  show "\<exists>res s'. Dispatch d it registry req s = Some (res, s') \<and> cluster_sound c L (ds_net s') \<and>
    (\<forall>resp. res = Inr resp \<longrightarrow> (\<exists>node \<in> set ?ws. verified_output c L enc resolved node resp))"
  proof (cases "?ws = []")
    case True
    then show ?thesis using assms(3,4) by (simp add: Dispatch_def Let_def)
  next
    case ws: False
    obtain res s' where loop: "dispatch_loop d resolved ?ws None s1 = Some (res, s')"
      using dispatch_loop_ends [of ?ws d resolved] assms(6) by (metis surj_pair)
    then have "Dispatch d it registry req s = Some (res, s')" using ws assms(3) by (simp add: Dispatch_def Let_def)
    moreover have "cluster_sound c L (ds_net s')" "res = Inr resp \<Longrightarrow> \<exists>node \<in> set ?ws. genuine c L enc resolved node resp" for resp
      using dispatch_loop_genuine [OF loop, of c out enc L] assms(1,2,4-6) ws by simp_all
    ultimately show ?thesis using genuine_verified [OF _ assms(2,7-9)] by blast
  qed
qed


section \<open>Examples\<close>

definition pinned_a :: ExecutionRequest where
  "pinned_a = request_a\<lparr>req_ModuleURL := ''http://h/m'', req_ModuleRegistryURL := ''http://h/m'', req_ModuleDigest := digest_a, req_Payload := ''hi''\<rparr>"

definition cluster_a :: "(unit, string, string, nat) cluster_env" where
  "cluster_a = \<lparr>cl_locate = (\<lambda>url. if url = ''https://h:1/invoke'' then Some () else None),
     cl_worker = (\<lambda>_. \<lparr>wv_engine = engine_env_a, wv_schedule = schedule_a, wv_decode = (\<lambda>_ _. Decoded pinned_a), wv_marshal = (\<lambda>_. Inl ''''),
       wv_NewRequest = (\<lambda>_. None), wv_client = None, wv_random = Inl '''', wv_clock = int, wv_counts = id\<rparr>),
     cl_schedule = (\<lambda>_ _. schedule_a), cl_clock = (\<lambda>_. int), cl_random = (\<lambda>_. Inl ''''),
     cl_request = (\<lambda>call. \<lparr>rq_Method = hc_Method call, rq_Path = ''/invoke'', rq_TLS = None,
       rq_Body = (case hc_Body call of Replayable b \<Rightarrow> b | _ \<Rightarrow> '''')\<rparr>),
     cl_reply = (\<lambda>resp. \<lparr>hp_StatusCode = rs_Status resp, hp_Status = '''',
       hp_Body = (case rs_Value resp of JExec x \<Rightarrow> resp_Result x | _ \<Rightarrow> '''')\<rparr>)\<rparr>"

definition workers_a :: "(unit, string, nat, unit) cluster" where
  "workers_a = \<lparr>cs_calls = 0, cs_servers = (\<lambda>_. \<lparr>sv_Engine = Some engine_a, sv_NodeID = ''w'', sv_MasterURL = '''',
     sv_CompletionTimeout = 0, sv_Metrics = None, sv_world = 0\<rparr>), cs_outside = ()\<rparr>"

definition cluster_dispatcher :: "(unit, string, nat, unit) cluster Dispatcher" where
  "cluster_dispatcher = \<lparr>d_net = cluster_network cluster_a
       \<lparr>net_do = (\<lambda>_ _. (Inl ''connection refused'', ())), net_done = (\<lambda>_. False), net_sleep = (\<lambda>_ _. (None, ())), net_now = (\<lambda>_. 0)\<rparr>,
     d_acr = no_acr, d_hav = (\<lambda>_ _ _ _. Fin 1), d_scheduler = \<lparr>MinCPUFree = Fin 0, MinRAMFreeMB = Fin 0\<rparr>,
     d_marshal = (\<lambda>r. Inr (req_Payload r)), d_decode = (\<lambda>b. Inr (zero_ExecutionResponse\<lparr>resp_Result := b\<rparr>)),
     d_new_request = (\<lambda>_. None), d_client_error = None\<rparr>"

definition cluster_state :: "(unit, string, nat, unit) cluster dispatch_state" where
  "cluster_state = \<lparr>ds_tokens = [], ds_metrics = None, ds_net = workers_a\<rparr>"

lemma cluster_forward:
  "map_sum id resp_Result (fst (forwardToWorker cluster_dispatcher (node_a\<lparr>wn_LastSeen := 5, wn_State := ''ready''\<rparr>) pinned_a workers_a)) =
     Inr ''hi''"
  by code_simp


lemma cluster_select:
  "SelectWorker (d_hav cluster_dispatcher) (d_scheduler cluster_dispatcher) x y [node_a\<lparr>wn_LastSeen := 5, wn_State := ''ready''\<rparr>] =
     Inr (node_a\<lparr>wn_LastSeen := 5, wn_State := ''ready''\<rparr>)"
  (is "?sel = Inr ?node")
proof -
  have reach: "\<forall>w \<in> set [?node]. flt_less (distance_to (d_hav cluster_dispatcher) x y w) MaxFloat64"
    by (simp add: cluster_dispatcher_def MaxFloat64_def)
  have "is_ok ?sel"
    by (simp add: SelectWorker_ok_iff eligible_worker_def cluster_dispatcher_def node_a_def zero_WorkerNode_def WorkerStateDraining_def)
  then obtain n where n: "?sel = Inr n" by (auto simp: is_ok_iff)
  from nearest.select_member [OF _ n] reach n show ?thesis by simp
qed

theorem dispatched_result_is_genuine_witness:
  "\<exists>resp s' node. Dispatch cluster_dispatcher id registry_a pinned_a cluster_state = Some (Inr resp, s') \<and> resp_Result resp = ''hi'' \<and>
     verified_output cluster_a (\<lambda>_. we_limits engine_a) id pinned_a node resp"
proof -
  let ?node = "node_a\<lparr>wn_LastSeen := 5, wn_State := ''ready''\<rparr>"
  obtain resp n where f: "forwardToWorker cluster_dispatcher ?node pinned_a workers_a = (Inr resp, n)" "resp_Result resp = ''hi''"
    using cluster_forward
    by (cases "forwardToWorker cluster_dispatcher ?node pinned_a workers_a"; cases "fst (forwardToWorker cluster_dispatcher ?node pinned_a workers_a)") auto
  have acr: "\<not> isACRURL (ae_parse (d_acr cluster_dispatcher)) ''http://h/m''" by (simp add: cluster_dispatcher_def no_acr_url)
  have resolve: "resolve_module cluster_dispatcher pinned_a cluster_state = (Inr pinned_a, cluster_state)"
    using acr by (simp add: resolve_module_def Let_def pinned_a_def)
  have "dispatch_loop cluster_dispatcher pinned_a [?node] None cluster_state = Some (Inr resp, cluster_state\<lparr>ds_net := n\<rparr>)"
    using f(1) by (subst dispatch_loop.simps) (simp add: cluster_select, simp add: cluster_state_def)
  with resolve have d: "Dispatch cluster_dispatcher id registry_a pinned_a cluster_state = Some (Inr resp, cluster_state\<lparr>ds_net := n\<rparr>)"
    by (simp add: Dispatch_def schedulable_a)
  have sound: "cluster_sound cluster_a (\<lambda>_. we_limits engine_a) (ds_net cluster_state)" "cluster_fair cluster_a"
    using engine_a_sound schedule_a_ok(1) by (simp_all add: cluster_sound_def cluster_fair_def cluster_a_def cluster_state_def workers_a_def)
  have wired: "wired cluster_a cluster_dispatcher pinned_a id"
    by (simp add: wired_def cluster_a_def cluster_dispatcher_def invoke_call_def WriteJSON_def)
  have "workerInvokeURL ''h:1'' = ''https://h:1/invoke''" by code_simp
  then have nodes: "\<forall>w \<in> set (GetSchedulableWorkers id registry_a). reachable_worker cluster_dispatcher pinned_a w \<and>
      cl_locate cluster_a (workerInvokeURL (wn_IPAddress w)) \<noteq> None"
    by (simp add: schedulable_a cluster_dispatcher_def MaxFloat64_def cluster_a_def node_a_def)
  have "TrimSpace digest_a = digest_a" "TrimSpace ''m'' = ''m''" by (rule TrimSpace_visible; code_simp)+
  then have plain: "TrimSpace (req_ModuleDigest pinned_a) \<noteq> ''''" "CHR ''@'' \<notin> set (TrimSpace (req_ModuleName pinned_a))"
      "CHR ''@'' \<notin> set (TrimSpace (req_ModuleDigest pinned_a))"
    by (simp_all add: pinned_a_def request_a_def digest_a_def)
  have "d_net cluster_dispatcher = cluster_network cluster_a
       \<lparr>net_do = (\<lambda>_ _. (Inl ''connection refused'', ())), net_done = (\<lambda>_. False), net_sleep = (\<lambda>_ _. (None, ())), net_now = (\<lambda>_. 0)\<rparr>"
    by (simp add: cluster_dispatcher_def)
  from dispatched_result_is_genuine [OF this sound(2) resolve sound(1) wired nodes plain] d
  have "\<exists>node. verified_output cluster_a (\<lambda>_. we_limits engine_a) id pinned_a node resp" by fastforce
  then show ?thesis using d f(2) by blast
qed

end
