(* ===== verification/Worker_Telemetry.thy ===== *)
theory Worker_Telemetry
  imports Shared_Models Shared_Client
begin

text \<open>
  \<open>src/internal/worker/telemetry.go\<close> and \<open>src/internal/worker/metrics.go\<close>: registration, heartbeats and the
  final drain request of a worker.

  The ticker and the context are a list of events: a tick, or the end of the context. The JSON encoder, building a
  request, building the mutual-TLS client and the metrics provider are arguments; failures are logged and dropped.
\<close>

record NodeMetrics =
  nm_CPUFree :: float64
  nm_RAMFreeMB :: float64

section \<open>System metrics\<close>

text \<open>\<open>cpu\<close> is the outcome of \<open>cpu.PercentWithContext\<close> and \<open>memory\<close> the available bytes of \<open>mem.VirtualMemoryWithContext\<close>.\<close>

fun hundred_minus :: "float64 \<Rightarrow> float64" where
  "hundred_minus (Fin x) = Fin (100 - x)"
| "hundred_minus PosInf = NegInf"
| "hundred_minus NegInf = PosInf"
| "hundred_minus NaN = NaN"

definition Snapshot :: "float64 list go_result \<Rightarrow> (64 word) go_result \<Rightarrow> NodeMetrics go_result" where
  "Snapshot cpu memory =
     (case cpu of
        Inl err \<Rightarrow> Inl (''read cpu percent: '' @ err)
      | Inr [] \<Rightarrow> Inl ''read cpu percent: no samples returned''
      | Inr (used # _) \<Rightarrow>
          (case memory of
             Inl err \<Rightarrow> Inl (''read virtual memory: '' @ err)
           | Inr available \<Rightarrow>
               Inr \<lparr>nm_CPUFree = hundred_minus used, nm_RAMFreeMB = Fin (real (unat available) / 1024 / 1024)\<rparr>))"

section \<open>Messages\<close>

record 'w telemetry_env =
  te_net :: "'w network"
  te_marshal_node :: "WorkerNode \<Rightarrow> string go_result"
  te_marshal_beat :: "Heartbeat \<Rightarrow> string go_result"
  te_marshal_drain :: "DrainRequest \<Rightarrow> string go_result"
  te_NewRequest :: "string \<Rightarrow> go_error"
  te_client :: go_error
  te_snapshot :: "'w \<Rightarrow> NodeMetrics go_result \<times> 'w"

definition post_call :: "string \<Rightarrow> string \<Rightarrow> http_call" where
  "post_call endpoint data =
     \<lparr>hc_Method = ''POST'', hc_URL = endpoint, hc_Headers = [(''Content-Type'', ''application/json'')], hc_Body = Replayable data\<rparr>"

text \<open>The part the three messages share: build the request, send it with retries, drop the answer.\<close>

definition post_message :: "'w telemetry_env \<Rightarrow> string \<Rightarrow> string go_result \<Rightarrow> 'w \<Rightarrow> 'w" where
  "post_message env endpoint marshalled w =
     (case marshalled of
        Inl _ \<Rightarrow> w
      | Inr data \<Rightarrow>
          if te_NewRequest env endpoint \<noteq> None then w
          else snd (DoWithRetry (te_net env) (post_call endpoint data) w))"

definition sendDrain :: "'w telemetry_env \<Rightarrow> string \<Rightarrow> string \<Rightarrow> 'w \<Rightarrow> 'w" where
  "sendDrain env masterURL nodeID w =
     post_message env (masterURL @ ''/internal/drain'') (te_marshal_drain env \<lparr>dr_NodeID = nodeID\<rparr>) w"

definition registration_node :: "string \<Rightarrow> string \<Rightarrow> float64 \<Rightarrow> float64 \<Rightarrow> WorkerNode" where
  "registration_node nodeID workerAddress latitude longitude =
     zero_WorkerNode\<lparr>wn_ID := nodeID, wn_IPAddress := workerAddress, wn_Latitude := latitude, wn_Longitude := longitude\<rparr>"

definition registerWorker :: "'w telemetry_env \<Rightarrow> string \<Rightarrow> WorkerNode \<Rightarrow> 'w \<Rightarrow> 'w" where
  "registerWorker env masterURL node w =
     post_message env (masterURL @ ''/internal/register'') (te_marshal_node env node) w"

definition sendHeartbeat :: "'w telemetry_env \<Rightarrow> string \<Rightarrow> string \<Rightarrow> 'w \<Rightarrow> 'w" where
  "sendHeartbeat env masterURL nodeID w =
     (case te_snapshot env w of
        (Inl _, w) \<Rightarrow> w
      | (Inr metrics, w) \<Rightarrow>
          post_message env (masterURL @ ''/internal/heartbeat'')
            (te_marshal_beat env \<lparr>hb_NodeID = nodeID, hb_CPUFree = nm_CPUFree metrics, hb_RAMFreeMB = nm_RAMFreeMB metrics\<rparr>) w)"

section \<open>The loop\<close>

datatype telemetry_event = Tick | Done

definition telemetry_interval :: "duration \<Rightarrow> duration" where
  "telemetry_interval interval = (if interval \<le> 0 then 5 * Second else interval)"

definition telemetry_round :: "'w telemetry_env \<Rightarrow> string \<Rightarrow> WorkerNode \<Rightarrow> 'w \<Rightarrow> 'w" where
  "telemetry_round env masterURL node w = sendHeartbeat env masterURL (wn_ID node) (registerWorker env masterURL node w)"

fun telemetry_loop :: "'w telemetry_env \<Rightarrow> string \<Rightarrow> WorkerNode \<Rightarrow> telemetry_event list \<Rightarrow> 'w \<Rightarrow> 'w" where
  "telemetry_loop env masterURL node [] w = w"
| "telemetry_loop env masterURL node (Tick # events) w =
     telemetry_loop env masterURL node events (telemetry_round env masterURL node w)"
| "telemetry_loop env masterURL node (Done # _) w = sendDrain env masterURL (wn_ID node) w"

definition StartTelemetryWithMetrics ::
  "'w telemetry_env \<Rightarrow> string \<Rightarrow> string \<Rightarrow> string \<Rightarrow> float64 \<Rightarrow> float64 \<Rightarrow> telemetry_event list \<Rightarrow> 'w \<Rightarrow> 'w" where
  "StartTelemetryWithMetrics env masterURL nodeID workerAddress latitude longitude events w =
     (if te_client env \<noteq> None then w
      else
        (let node = registration_node nodeID workerAddress latitude longitude in
         telemetry_loop env masterURL node events (telemetry_round env masterURL node w)))"


text \<open>\<open>StartTelemetry\<close> reports the metrics of the system; \<open>system\<close> reads its two sources, the second one unused when the first fails.\<close>

definition StartTelemetry ::
  "'w telemetry_env \<Rightarrow> ('w \<Rightarrow> float64 list go_result \<times> (64 word) go_result \<times> 'w) \<Rightarrow> string \<Rightarrow> string \<Rightarrow> string \<Rightarrow> float64 \<Rightarrow> float64 \<Rightarrow>
   telemetry_event list \<Rightarrow> 'w \<Rightarrow> 'w" where
  "StartTelemetry env system masterURL nodeID workerAddress latitude longitude events w =
     StartTelemetryWithMetrics (env\<lparr>te_snapshot := (\<lambda>w. case system w of (cpu, memory, w) \<Rightarrow> (Snapshot cpu memory, w))\<rparr>)
       masterURL nodeID workerAddress latitude longitude events w"

section \<open>What a worker sends, and when\<close>

text \<open>The endpoints called so far, oldest first, with the repetitions of retries collapsed.\<close>

definition endpoints :: "('w \<Rightarrow> (http_call \<times> http_reply go_result) list) \<Rightarrow> 'w \<Rightarrow> string list" where
  "endpoints h w = remdups_adj (map (hc_URL \<circ> fst) (rev (h w)))"

lemma post_endpoints:
  assumes "records (te_net env) h" "quiet (te_net env) h" "te_NewRequest env u = None"
    and "endpoints h w = [] \<or> last (endpoints h w) \<noteq> u"
  shows "endpoints h (post_message env u (Inr data) w) = endpoints h w @ [u]"
proof -
  have "hc_Body (post_call u data) = NoBody \<or> (\<exists>b. hc_Body (post_call u data) = Replayable b)" by (simp add: post_call_def)
  from DoWithRetry_history [OF assms(1,2) this, of w]
  obtain pre where pre: "h (snd (DoWithRetry (te_net env) (post_call u data) w)) = pre @ h w" "pre \<noteq> []"
      "\<forall>x \<in> set pre. fst x = post_call u data" by blast
  let ?url = "hc_URL \<circ> (fst :: http_call \<times> http_reply go_result \<Rightarrow> http_call)"
  have "map ?url (rev pre) = replicate (length pre) u"
    using pre(3) by (intro replicate_eqI) (auto simp: post_call_def)
  moreover obtain n where "length pre = Suc n" using pre(2) by (cases pre) auto
  ultimately have new: "map ?url (rev (h (post_message env u (Inr data) w))) = map ?url (rev (h w)) @ replicate (Suc n) u"
    using pre(1) assms(3) by (simp add: post_message_def)
  have "map ?url (rev (h w)) = [] \<or> replicate (Suc n) u = [] \<or> last (map ?url (rev (h w))) \<noteq> hd (replicate (Suc n) u)"
    using assms(4) unfolding endpoints_def by (metis last_remdups_adj hd_replicate old.nat.distinct(2) remdups_adj_Nil_iff)
  from remdups_adj_append' [OF this]
  have "remdups_adj (map ?url (rev (h w)) @ replicate (Suc n) u) = remdups_adj (map ?url (rev (h w))) @ [u]"
    unfolding remdups_adj_replicate by simp
  then show ?thesis unfolding endpoints_def new .
qed

definition telemetry_ready :: "'w telemetry_env \<Rightarrow> ('w \<Rightarrow> (http_call \<times> http_reply go_result) list) \<Rightarrow> bool" where
  "telemetry_ready env h \<longleftrightarrow> records (te_net env) h \<and> quiet (te_net env) h \<and> te_client env = None \<and>
     (\<forall>u. te_NewRequest env u = None) \<and> (\<forall>x. is_ok (te_marshal_node env x)) \<and> (\<forall>x. is_ok (te_marshal_beat env x)) \<and>
     (\<forall>x. is_ok (te_marshal_drain env x)) \<and> (\<forall>w. is_ok (fst (te_snapshot env w)) \<and> h (snd (te_snapshot env w)) = h w)"

lemma post_ready:
  assumes "telemetry_ready env h" "is_ok m" "endpoints h w = [] \<or> last (endpoints h w) \<noteq> u"
  shows "endpoints h (post_message env u m w) = endpoints h w @ [u]"
  using post_endpoints [OF _ _ _ assms(3)] assms(1,2) by (auto simp: is_ok_iff telemetry_ready_def)

lemma round_endpoints:
  assumes "telemetry_ready env h" "endpoints h w = [] \<or> last (endpoints h w) = masterURL @ ''/internal/heartbeat''"
  shows "endpoints h (telemetry_round env masterURL node w) =
    endpoints h w @ [masterURL @ ''/internal/register'', masterURL @ ''/internal/heartbeat'']"
proof -
  define w1 where "w1 = registerWorker env masterURL node w"
  have "endpoints h w1 = endpoints h w @ [masterURL @ ''/internal/register'']"
    unfolding w1_def registerWorker_def
    by (rule post_ready [OF assms(1)]) (use assms in \<open>auto simp: telemetry_ready_def\<close>)
  moreover obtain m w2 where s: "te_snapshot env w1 = (Inr m, w2)" "h w2 = h w1"
    using assms(1) unfolding telemetry_ready_def is_ok_iff by (metis fst_conv prod.collapse snd_conv)
  moreover have "endpoints h w2 = endpoints h w1" using s(2) by (simp add: endpoints_def)
  ultimately have "endpoints h (sendHeartbeat env masterURL (wn_ID node) w1) =
      (endpoints h w @ [masterURL @ ''/internal/register'']) @ [masterURL @ ''/internal/heartbeat'']"
    unfolding sendHeartbeat_def s(1) by (simp, subst post_ready [OF assms(1)]) (use assms(1) in \<open>auto simp: telemetry_ready_def\<close>)
  then show ?thesis by (simp add: telemetry_round_def w1_def)
qed

lemma loop_endpoints:
  assumes "telemetry_ready env h" "endpoints h w \<noteq> []" "last (endpoints h w) = masterURL @ ''/internal/heartbeat''"
  shows "endpoints h (telemetry_loop env masterURL node events w) = endpoints h w @
    concat (replicate (length (takeWhile (\<lambda>e. e = Tick) events)) [masterURL @ ''/internal/register'', masterURL @ ''/internal/heartbeat'']) @
    (if Done \<in> set events then [masterURL @ ''/internal/drain''] else [])"
  using assms(2,3)
proof (induction events arbitrary: w)
  case (Cons ev events)
  show ?case
  proof (cases ev)
    case Tick
    have r: "endpoints h (telemetry_round env masterURL node w) =
        endpoints h w @ [masterURL @ ''/internal/register'', masterURL @ ''/internal/heartbeat'']"
      using round_endpoints [OF assms(1)] Cons.prems by blast
    show ?thesis using Cons.IH [of "telemetry_round env masterURL node w"] r Tick by simp
  next
    case Done
    have "endpoints h (sendDrain env masterURL (wn_ID node) w) = endpoints h w @ [masterURL @ ''/internal/drain'']"
      unfolding sendDrain_def
      by (rule post_ready [OF assms(1)]) (use assms(1) Cons.prems in \<open>auto simp: telemetry_ready_def\<close>)
    then show ?thesis using Done by simp
  qed
qed simp

text \<open>
  (C31) The life of a worker as the master sees it: it registers and sends a heartbeat at once and again at every tick,
  in this order, and when it is stopped it sends one drain request and nothing after it. (The messages can be encoded and
  sent, and the system metrics can be read; the answers do not matter. Retries of one message count once.)
\<close>

theorem telemetry_call_order:
  assumes "telemetry_ready env h" "h w = []"
  shows "endpoints h (StartTelemetryWithMetrics env masterURL nodeID workerAddress latitude longitude events w) =
    concat (replicate (Suc (length (takeWhile (\<lambda>e. e = Tick) events)))
      [masterURL @ ''/internal/register'', masterURL @ ''/internal/heartbeat'']) @
    (if Done \<in> set events then [masterURL @ ''/internal/drain''] else [])"
proof -
  let ?node = "registration_node nodeID workerAddress latitude longitude"
  have "endpoints h w = []" using assms(2) by (simp add: endpoints_def)
  then have r: "endpoints h (telemetry_round env masterURL ?node w) =
      [masterURL @ ''/internal/register'', masterURL @ ''/internal/heartbeat'']"
    using round_endpoints [OF assms(1), of w masterURL ?node] by simp
  show ?thesis
    using loop_endpoints [OF assms(1), of "telemetry_round env masterURL ?node w" masterURL ?node events] r assms(1)
    by (simp add: StartTelemetryWithMetrics_def Let_def telemetry_ready_def)
qed

definition telemetry_env_a :: "(http_call \<times> http_reply go_result) list telemetry_env" where
  "telemetry_env_a = \<lparr>te_net = \<lparr>net_do = (\<lambda>call w. (Inl ''refused'', (call, Inl ''refused'') # w)),
       net_done = (\<lambda>_. False), net_sleep = (\<lambda>_ w. (None, w)), net_now = (\<lambda>_. 0)\<rparr>,
     te_marshal_node = (\<lambda>_. Inr []), te_marshal_beat = (\<lambda>_. Inr []), te_marshal_drain = (\<lambda>_. Inr []),
     te_NewRequest = (\<lambda>_. None), te_client = None,
     te_snapshot = (\<lambda>w. (Snapshot (Inr [Fin 25]) (Inr 1048576), w))\<rparr>"

theorem telemetry_call_order_witness:
  "endpoints id (StartTelemetryWithMetrics telemetry_env_a ''m'' ''w'' ''a'' (Fin 0) (Fin 0) [Tick, Done, Tick] []) =
     [''m/internal/register'', ''m/internal/heartbeat'', ''m/internal/register'', ''m/internal/heartbeat'', ''m/internal/drain'']"
proof -
  have "telemetry_ready telemetry_env_a id"
    by (simp add: telemetry_ready_def telemetry_env_a_def records_def quiet_def Snapshot_def)
  from telemetry_call_order [OF this, of "[]" "''m''" "''w''" "''a''" "Fin 0" "Fin 0" "[Tick, Done, Tick]"]
  show ?thesis by simp
qed

end
