(* ===== verification/Geolocation.thy ===== *)
theory Geolocation
  imports Shared_Client
begin

text \<open>
  \<open>src/internal/geolocation/geolocation.go\<close>: asking HTTP services where the machine is.

  The network is that of \<open>Shared_Client\<close>; a lookup is one call, without retries. Building a request,
  decoding the reply and \<open>strconv.ParseFloat\<close> are arguments.
\<close>

definition DefaultProviderURL :: string where "DefaultProviderURL = ''https://ipapi.co/json/''"
definition DefaultProviderURLs :: string where "DefaultProviderURLs = ''https://ipapi.co/json/,https://ipinfo.io/json''"

record Coordinates =
  co_Latitude :: float64
  co_Longitude :: float64
  co_Source :: string

record providerResponse =
  pr_Latitude :: "float64 option"
  pr_Longitude :: "float64 option"
  pr_Lat :: "float64 option"
  pr_Lon :: "float64 option"
  pr_Loc :: string

record 'w geo_env =
  gl_net :: "'w network"
  gl_NewRequest :: "string \<Rightarrow> go_error"
  gl_decode :: "string \<Rightarrow> providerResponse go_result"
  gl_ParseFloat :: "string \<Rightarrow> float64 go_result"

section \<open>Range checks\<close>

definition Validate :: "float64 \<Rightarrow> float64 \<Rightarrow> string \<Rightarrow> go_error" where
  "Validate lat lon prefix =
     (if flt_less lat (Fin (-90)) \<or> flt_less (Fin 90) lat then Some (prefix @ '' latitude must be between -90 and 90'')
      else if flt_less lon (Fin (-180)) \<or> flt_less (Fin 180) lon then Some (prefix @ '' longitude must be between -180 and 180'')
      else None)"

section \<open>One provider\<close>

definition coordinates :: "(string \<Rightarrow> float64 go_result) \<Rightarrow> providerResponse \<Rightarrow> (float64 \<times> float64) go_result" where
  "coordinates parse r =
     (case (pr_Latitude r, pr_Longitude r) of
        (Some lat, Some lon) \<Rightarrow> Inr (lat, lon)
      | _ \<Rightarrow>
          (case (pr_Lat r, pr_Lon r) of
             (Some lat, Some lon) \<Rightarrow> Inr (lat, lon)
           | _ \<Rightarrow>
               if TrimSpace (pr_Loc r) \<noteq> '''' then
                 (case Split (CHR '','') (pr_Loc r) of
                    [a, b] \<Rightarrow>
                      (case parse (TrimSpace a) of
                         Inl err \<Rightarrow> Inl (''parse provider latitude: '' @ err)
                       | Inr lat \<Rightarrow>
                           (case parse (TrimSpace b) of
                              Inl err \<Rightarrow> Inl (''parse provider longitude: '' @ err)
                            | Inr lon \<Rightarrow> Inr (lat, lon)))
                  | _ \<Rightarrow> Inl (''provider loc field must use '' @ [CHR 0x22] @ ''lat,lon'' @ [CHR 0x22] @ '' format''))
               else Inl ''provider response must include latitude/longitude, lat/lon, or loc''))"

definition provider_call :: "string \<Rightarrow> http_call" where
  "provider_call url = \<lparr>hc_Method = ''GET'', hc_URL = url, hc_Headers = [(''Accept'', ''application/json'')], hc_Body = NoBody\<rparr>"

definition Detect :: "'w geo_env \<Rightarrow> string \<Rightarrow> 'w \<Rightarrow> Coordinates go_result \<times> 'w" where
  "Detect env providerURL0 w =
     (let providerURL = (if TrimSpace providerURL0 = '''' then DefaultProviderURL else TrimSpace providerURL0) in
      case gl_NewRequest env providerURL of
        Some err \<Rightarrow> (Inl (''create provider request: '' @ err), w)
      | None \<Rightarrow>
          (case net_do (gl_net env) (provider_call providerURL) w of
             (Inl err, w) \<Rightarrow> (Inl (''query provider: '' @ err), w)
           | (Inr resp, w) \<Rightarrow>
               (if hp_StatusCode resp < 200 \<or> hp_StatusCode resp \<ge> 300 then Inl (''provider returned '' @ hp_Status resp)
                else case gl_decode env (hp_Body resp) of
                  Inl err \<Rightarrow> Inl (''decode provider response: '' @ err)
                | Inr provider \<Rightarrow>
                    (case coordinates (gl_ParseFloat env) provider of
                       Inl err \<Rightarrow> Inl err
                     | Inr (lat, lon) \<Rightarrow>
                         (case Validate lat lon ''detected'' of
                            Some err \<Rightarrow> Inl err
                          | None \<Rightarrow> Inr \<lparr>co_Latitude = lat, co_Longitude = lon, co_Source = ''auto''\<rparr>)), w)))"

section \<open>Several providers\<close>

fun try_providers :: "'w geo_env \<Rightarrow> string list \<Rightarrow> string list \<Rightarrow> 'w \<Rightarrow> Coordinates go_result \<times> 'w" where
  "try_providers env [] failures w = (Inl (''all location providers failed: '' @ Join failures ''; ''), w)"
| "try_providers env (url # urls) failures w =
     (case Detect env url w of
        (Inr coords, w) \<Rightarrow> (Inr coords, w)
      | (Inl err, w) \<Rightarrow> try_providers env urls (failures @ [url @ '' ('' @ err @ '')'']) w)"

definition usable_urls :: "string list \<Rightarrow> string list" where
  "usable_urls urls = filter (\<lambda>u. u \<noteq> '''') (map TrimSpace urls)"

definition DetectWithFallback :: "'w geo_env \<Rightarrow> string list \<Rightarrow> 'w \<Rightarrow> Coordinates go_result \<times> 'w" where
  "DetectWithFallback env providerURLs w =
     (let urls = (if usable_urls providerURLs = [] then [DefaultProviderURL] else usable_urls providerURLs)
      in try_providers env urls [] w)"

section \<open>What a detected location is\<close>

text \<open>A coordinate that passes is in range, or it is not a number.\<close>

definition in_range :: "real \<Rightarrow> float64 \<Rightarrow> bool" where
  "in_range b x \<longleftrightarrow> x = NaN \<or> (\<exists>v. x = Fin v \<and> \<bar>v\<bar> \<le> b)"

lemma Validate_None: "Validate lat lon p = None \<longleftrightarrow> in_range 90 lat \<and> in_range 180 lon"
  by (cases lat; cases lon) (auto simp: Validate_def in_range_def)

lemma Detect_valid:
  assumes "Detect env url w = (Inr c, w')"
  shows "in_range 90 (co_Latitude c) \<and> in_range 180 (co_Longitude c) \<and> co_Source c = ''auto''"
  using assms Validate_None
  by (auto simp: Detect_def Let_def split: option.splits sum.splits prod.splits if_splits)

lemma try_providers_valid:
  "try_providers env urls failures w = (Inr c, w') \<Longrightarrow>
   in_range 90 (co_Latitude c) \<and> in_range 180 (co_Longitude c) \<and> co_Source c = ''auto''"
  by (induction urls arbitrary: failures w) (auto dest: Detect_valid split: prod.splits sum.splits)


text \<open>
  The providers are asked one after the other, each once: an answer ends the search, and it fails only
  after all of them have been asked.
\<close>

lemma Detect_asks:
  assumes "records (gl_net env) h" "\<And>u. gl_NewRequest env u = None" "TrimSpace url = url" "url \<noteq> ''''"
  shows "\<exists>ans. h (snd (Detect env url w)) = (provider_call url, ans) # h w"
proof -
  obtain ans w1 where d: "net_do (gl_net env) (provider_call url) w = (ans, w1)" by force
  then have "h w1 = (provider_call url, ans) # h w" using assms(1) by (metis fst_conv records_def snd_conv)
  then show ?thesis using d assms(2-4) by (auto simp: Detect_def split: sum.split)
qed

lemma try_providers_asks:
  assumes "records (gl_net env) h" "\<And>u. gl_NewRequest env u = None" "\<forall>u \<in> set urls. TrimSpace u = u \<and> u \<noteq> ''''"
    and "try_providers env urls failures w = (res, w')"
  shows "\<exists>n \<le> length urls. map fst (h w') = rev (map provider_call (take n urls)) @ map fst (h w) \<and>
    (is_ok res \<longrightarrow> 0 < n) \<and> (\<not> is_ok res \<longrightarrow> n = length urls)"
  using assms(3,4)
proof (induction urls arbitrary: failures w)
  case (Cons url urls)
  obtain r w1 where d: "Detect env url w = (r, w1)" by force
  obtain ans where h1: "h w1 = (provider_call url, ans) # h w"
    using Detect_asks [OF assms(1,2), of url w] Cons.prems(1) d by auto
  show ?case
  proof (cases r)
    case (Inr c)
    then have "res = Inr c" "w' = w1" using Cons.prems(2) d by simp_all
    then show ?thesis using h1 by (intro exI [of _ 1]) simp
  next
    case (Inl err)
    then have "try_providers env urls (failures @ [url @ '' ('' @ err @ '')'']) w1 = (res, w')" using Cons.prems(2) d by simp
    from Cons.IH [OF _ this] Cons.prems(1) obtain n where "n \<le> length urls"
      "map fst (h w') = rev (map provider_call (take n urls)) @ map fst (h w1)" "is_ok res \<longrightarrow> 0 < n" "\<not> is_ok res \<longrightarrow> n = length urls"
      by auto
    then show ?thesis using h1 by (intro exI [of _ "Suc n"]) auto
  qed
qed auto

lemma usable_urls_trimmed: "\<forall>u \<in> set (usable_urls urls). TrimSpace u = u \<and> u \<noteq> ''''"
  by (auto simp: usable_urls_def)


lemma DetectWithFallback_valid:
  "DetectWithFallback env urls w = (Inr c, w') \<Longrightarrow>
   in_range 90 (co_Latitude c) \<and> in_range 180 (co_Longitude c) \<and> co_Source c = ''auto''"
  unfolding DetectWithFallback_def Let_def by (rule try_providers_valid)

lemma DetectWithFallback_asks:
  assumes "records (gl_net env) h" "\<And>u. gl_NewRequest env u = None" "usable_urls urls \<noteq> []"
    and "DetectWithFallback env urls w = (res, w')"
  shows "\<exists>n \<le> length (usable_urls urls). map fst (h w') = rev (map provider_call (take n (usable_urls urls))) @ map fst (h w) \<and>
    (is_ok res \<longrightarrow> 0 < n) \<and> (\<not> is_ok res \<longrightarrow> n = length (usable_urls urls))"
  by (rule try_providers_asks [OF assms(1,2) usable_urls_trimmed]) (use assms(3,4) in \<open>simp add: DetectWithFallback_def\<close>)

end
