(* ===== verification/Go_Strconv.thy ===== *)
theory Go_Strconv
  imports Wasmcat_Prelude
begin

text \<open>
  The conversions of \<open>strconv\<close> that the configuration uses: decimal integers and booleans, with the
  errors they report. \<open>strconv.Quote\<close>, which the error texts use, is an argument.
\<close>

section \<open>Unsigned integers\<close>

definition digit_value :: "char \<Rightarrow> nat option" where
  "digit_value c = (let n = of_char c in if 48 \<le> n \<and> n \<le> 57 then Some (n - 48) else None)"

datatype number = Number nat | BadSyntax | OutOfRange

text \<open>The loop of \<open>ParseUint\<close> stops at the first byte that is no digit or that leaves the range.\<close>

fun uint_loop :: "nat \<Rightarrow> nat \<Rightarrow> string \<Rightarrow> number" where
  "uint_loop largest n [] = Number n"
| "uint_loop largest n (c # s) =
     (case digit_value c of
        None \<Rightarrow> BadSyntax
      | Some d \<Rightarrow> if n * 10 + d > largest then OutOfRange else uint_loop largest (n * 10 + d) s)"

definition scan_uint :: "nat \<Rightarrow> string \<Rightarrow> number" where
  "scan_uint largest s = (if s = '''' then BadSyntax else uint_loop largest 0 s)"

definition num_error :: "(string \<Rightarrow> string) \<Rightarrow> string \<Rightarrow> string \<Rightarrow> string \<Rightarrow> string" where
  "num_error quote f s what = ''strconv.'' @ f @ '': parsing '' @ quote s @ '': '' @ what"

abbreviation (input) syntax_error :: string where "syntax_error \<equiv> ''invalid syntax''"
abbreviation (input) range_error :: string where "range_error \<equiv> ''value out of range''"

definition ParseUint32 :: "(string \<Rightarrow> string) \<Rightarrow> string \<Rightarrow> (32 word) go_result" where
  "ParseUint32 quote s =
     (case scan_uint (2 ^ 32 - 1) s of
        BadSyntax \<Rightarrow> Inl (num_error quote ''ParseUint'' s syntax_error)
      | OutOfRange \<Rightarrow> Inl (num_error quote ''ParseUint'' s range_error)
      | Number n \<Rightarrow> Inr (of_nat n))"

section \<open>Signed integers\<close>

definition split_sign :: "string \<Rightarrow> bool \<times> string" where
  "split_sign s = (case s of [] \<Rightarrow> (False, [])
     | c # t \<Rightarrow> if c = CHR ''+'' then (False, t) else if c = CHR ''-'' then (True, t) else (False, s))"

definition parse_int64 :: "string \<Rightarrow> (string \<Rightarrow> string) \<Rightarrow> string \<Rightarrow> int go_result" where
  "parse_int64 f quote s =
     (let (neg, digits) = split_sign s in
      case scan_uint (2 ^ 64 - 1) digits of
        BadSyntax \<Rightarrow> Inl (num_error quote f s syntax_error)
      | OutOfRange \<Rightarrow> Inl (num_error quote f s range_error)
      | Number n \<Rightarrow>
          if \<not> neg \<and> n \<ge> 2 ^ 63 \<or> neg \<and> n > 2 ^ 63 then Inl (num_error quote f s range_error)
          else Inr (if neg then - int n else int n))"

definition ParseInt :: "(string \<Rightarrow> string) \<Rightarrow> string \<Rightarrow> int go_result" where
  "ParseInt = parse_int64 ''ParseInt''"

text \<open>\<open>int\<close> has 64 bits.\<close>

definition Atoi :: "(string \<Rightarrow> string) \<Rightarrow> string \<Rightarrow> int go_result" where
  "Atoi = parse_int64 ''Atoi''"

section \<open>Booleans\<close>

definition ParseBool :: "(string \<Rightarrow> string) \<Rightarrow> string \<Rightarrow> bool go_result" where
  "ParseBool quote s =
     (if s \<in> set [''1'', ''t'', ''T'', ''true'', ''TRUE'', ''True''] then Inr True
      else if s \<in> set [''0'', ''f'', ''F'', ''false'', ''FALSE'', ''False''] then Inr False
      else Inl (num_error quote ''ParseBool'' s syntax_error))"

definition FormatBool :: "bool \<Rightarrow> string" where
  "FormatBool b = (if b then ''true'' else ''false'')"

lemma ParseBool_FormatBool [simp]: "ParseBool quote (FormatBool b) = Inr b"
  by (simp add: ParseBool_def FormatBool_def)

lemma FormatBool_not_Nil [simp]: "FormatBool b \<noteq> []"
  by (simp add: FormatBool_def)

section \<open>Printing and parsing integers\<close>

lemma digit_value_char: "d < 10 \<Longrightarrow> digit_value (char_of (48 + d)) = Some d"
  by (simp add: digit_value_def of_char_of)

lemma uint_loop_itoa: "n \<le> largest \<Longrightarrow> uint_loop largest 0 (nat_itoa n @ s) = uint_loop largest n s"
proof (induction n arbitrary: s rule: nat_itoa.induct)
  case (1 n)
  show ?case
  proof (cases "n < 10")
    case True
    then show ?thesis using 1(2) by (simp add: nat_itoa.simps [of n] digit_value_char)
  next
    case False
    then have "uint_loop largest 0 (nat_itoa (n div 10) @ char_of (48 + n mod 10) # s) =
        uint_loop largest (n div 10) (char_of (48 + n mod 10) # s)"
      using 1 by (intro "1.IH") auto
    also have "\<dots> = uint_loop largest n s" using 1(2) by (simp add: digit_value_char)
    finally show ?thesis using False by (simp add: nat_itoa.simps [of n])
  qed
qed

lemma nat_itoa_not_Nil [simp]: "nat_itoa n \<noteq> []"
  by (simp add: nat_itoa.simps [of n])

lemma itoa_not_Nil [simp]: "itoa i \<noteq> []"
  by (simp add: itoa_def)

lemma scan_uint_itoa: "n \<le> largest \<Longrightarrow> scan_uint largest (nat_itoa n) = Number n"
  using uint_loop_itoa [of n largest "[]"] by (simp add: scan_uint_def)

lemma nat_itoa_digits: "c \<in> set (nat_itoa n) \<Longrightarrow> 48 \<le> (of_char c :: nat) \<and> (of_char c :: nat) \<le> 57"
proof (induction n rule: nat_itoa.induct)
  case (1 n)
  show ?case
  proof (cases "n < 10")
    case True
    then show ?thesis using 1(2) by (simp add: nat_itoa.simps [of n] of_char_of)
  next
    case False
    then have "c \<in> set (nat_itoa (n div 10)) \<or> c = char_of (48 + n mod 10)" using 1(2) by (auto simp: nat_itoa.simps [of n])
    then show ?thesis using 1(1) [OF False] by (auto simp: of_char_of)
  qed
qed

lemma split_sign_itoa: "split_sign (itoa i) = (i < 0, nat_itoa (nat \<bar>i\<bar>))"
proof (cases "i < 0")
  case False
  obtain c s where s: "nat_itoa (nat i) = c # s" by (cases "nat_itoa (nat i)") auto
  then have "48 \<le> (of_char c :: nat)" using nat_itoa_digits [of c "nat i"] by simp
  then have "c \<noteq> CHR ''+''" "c \<noteq> CHR ''-''" by auto
  then show ?thesis using False s by (simp add: split_sign_def itoa_def)
qed (simp add: split_sign_def itoa_def)

lemma parse_int64_itoa:
  assumes "min_duration \<le> i" "i \<le> max_duration"
  shows "parse_int64 f quote (itoa i) = Inr i"
proof -
  have "nat \<bar>i\<bar> \<le> 2 ^ 64 - 1" "(i \<ge> 0 \<longrightarrow> nat \<bar>i\<bar> < 2 ^ 63) \<and> nat \<bar>i\<bar> \<le> 2 ^ 63"
    using assms by (auto simp: min_duration_def max_duration_def)
  then show ?thesis by (auto simp: parse_int64_def split_sign_itoa scan_uint_itoa)
qed

lemma ParseInt_itoa [simp]: "min_duration \<le> i \<Longrightarrow> i \<le> max_duration \<Longrightarrow> ParseInt quote (itoa i) = Inr i"
  by (simp add: ParseInt_def parse_int64_itoa)

lemma Atoi_itoa [simp]: "min_duration \<le> i \<Longrightarrow> i \<le> max_duration \<Longrightarrow> Atoi quote (itoa i) = Inr i"
  by (simp add: Atoi_def parse_int64_itoa)

lemma ParseUint32_itoa [simp]: "ParseUint32 quote (itoa (uint (w :: 32 word))) = Inr w"
proof -
  have "uint w \<le> 2 ^ 32 - 1" using uint_bounded [of w] by simp
  then have "nat (uint w) \<le> nat (2 ^ 32 - 1)" by (rule nat_mono)
  then have "nat (uint w) \<le> 2 ^ 32 - 1" by simp
  then have "scan_uint (2 ^ 32 - 1) (nat_itoa (nat (uint w))) = Number (nat (uint w))" by (rule scan_uint_itoa)
  then show ?thesis by (simp add: ParseUint32_def itoa_def)
qed

lemma parse_int64_range:
  assumes "parse_int64 f quote s = Inr i"
  shows "min_duration \<le> i" "i \<le> max_duration"
  using assms by (auto simp: parse_int64_def min_duration_def max_duration_def split: prod.splits number.splits if_splits)

end
