(* ===== verification/Config.thy ===== *)
theory Config
  imports Geolocation Go_Strconv Shared_Models Worker_Limits
begin

text \<open>
  \<open>src/internal/config/config.go\<close>: the configuration of master and worker from environment variables.

  The environment is a map from names to values; \<open>time.ParseDuration\<close>, \<open>strconv.ParseFloat\<close>, \<open>strconv.Quote\<close>
  and the host name are arguments. The limits of a worker are the record of \<open>Worker_Limits\<close>, which has the
  same fields.
\<close>

section \<open>Reading one variable\<close>

record config_env =
  cf_lookup :: "string \<Rightarrow> string option"
  cf_ParseDuration :: "string \<Rightarrow> duration go_result"
  cf_ParseFloat :: "string \<Rightarrow> float64 go_result"
  cf_quote :: "string \<Rightarrow> string"
  cf_hostname :: "string go_result"

definition Getenv :: "config_env \<Rightarrow> string \<Rightarrow> string" where
  "Getenv env name = (case cf_lookup env name of None \<Rightarrow> '''' | Some v \<Rightarrow> v)"

definition go_bind :: "'a go_result \<Rightarrow> ('a \<Rightarrow> 'b go_result) \<Rightarrow> 'b go_result" where
  "go_bind r f = (case r of Inl err \<Rightarrow> Inl err | Inr v \<Rightarrow> f v)"

definition wrap_error :: "string \<Rightarrow> 'a go_result \<Rightarrow> 'a go_result" where
  "wrap_error text r = (case r of Inl err \<Rightarrow> Inl (text @ err) | Inr v \<Rightarrow> Inr v)"

definition positive :: "string \<Rightarrow> int \<Rightarrow> int go_result" where
  "positive name v = (if v \<le> 0 then Inl (name @ '' must be greater than zero'') else Inr v)"

definition stringEnv :: "config_env \<Rightarrow> string \<Rightarrow> string \<Rightarrow> string" where
  "stringEnv env name fallback = (if Getenv env name \<noteq> '''' then Getenv env name else fallback)"

definition durationEnv :: "config_env \<Rightarrow> string \<Rightarrow> duration \<Rightarrow> duration go_result" where
  "durationEnv env name fallback =
     (if Getenv env name = '''' then Inr fallback
      else wrap_error (''parse '' @ name @ '' duration: '') (cf_ParseDuration env (Getenv env name)))"

definition positiveDurationEnv :: "config_env \<Rightarrow> string \<Rightarrow> duration \<Rightarrow> duration go_result" where
  "positiveDurationEnv env name fallback = go_bind (durationEnv env name fallback) (positive name)"

definition boolEnv :: "config_env \<Rightarrow> string \<Rightarrow> bool \<Rightarrow> bool go_result" where
  "boolEnv env name fallback =
     (if Getenv env name = '''' then Inr fallback
      else wrap_error (''parse '' @ name @ '' boolean: '') (ParseBool (cf_quote env) (Getenv env name)))"

definition intEnv :: "config_env \<Rightarrow> string \<Rightarrow> int \<Rightarrow> int go_result" where
  "intEnv env name fallback =
     (if Getenv env name = '''' then Inr fallback
      else wrap_error (''parse '' @ name @ '' integer: '') (Atoi (cf_quote env) (Getenv env name)))"

definition positiveIntEnv :: "config_env \<Rightarrow> string \<Rightarrow> int \<Rightarrow> int go_result" where
  "positiveIntEnv env name fallback = go_bind (intEnv env name fallback) (positive name)"

definition int64Env :: "config_env \<Rightarrow> string \<Rightarrow> int \<Rightarrow> int go_result" where
  "int64Env env name fallback =
     (if Getenv env name = '''' then Inr fallback
      else wrap_error (''parse '' @ name @ '' integer: '') (ParseInt (cf_quote env) (Getenv env name)))"

definition positiveInt64Env :: "config_env \<Rightarrow> string \<Rightarrow> int \<Rightarrow> int go_result" where
  "positiveInt64Env env name fallback = go_bind (int64Env env name fallback) (positive name)"

definition float64Env :: "config_env \<Rightarrow> string \<Rightarrow> float64 \<Rightarrow> float64 go_result" where
  "float64Env env name fallback =
     (if Getenv env name = '''' then Inr fallback
      else wrap_error (''parse '' @ name @ '' float: '') (cf_ParseFloat env (Getenv env name)))"

definition uint32Env :: "config_env \<Rightarrow> string \<Rightarrow> 32 word \<Rightarrow> (32 word) go_result" where
  "uint32Env env name fallback =
     (if Getenv env name = '''' then Inr fallback
      else wrap_error (''parse '' @ name @ '' integer: '') (ParseUint32 (cf_quote env) (Getenv env name)))"

definition positiveUint32Env :: "config_env \<Rightarrow> string \<Rightarrow> 32 word \<Rightarrow> (32 word) go_result" where
  "positiveUint32Env env name fallback =
     go_bind (uint32Env env name fallback) (\<lambda>v. if v = 0 then Inl (name @ '' must be greater than zero'') else Inr v)"

text \<open>A comma-separated list without its blank parts.\<close>

definition comma_parts :: "string \<Rightarrow> string list" where
  "comma_parts value = filter (\<lambda>p. p \<noteq> '''') (map TrimSpace (Split (CHR '','') value))"

definition listEnv :: "config_env \<Rightarrow> string \<Rightarrow> string list" where
  "listEnv env name = (if Getenv env name = '''' then [] else comma_parts (Getenv env name))"

definition splitProviderURLs :: "string \<Rightarrow> string list" where
  "splitProviderURLs value = comma_parts value"

section \<open>The master\<close>

record MasterConfig =
  mc_Port :: string
  mc_CertDir :: string
  mc_AutoGenerateCerts :: bool
  mc_WorkerIDForCert :: string
  mc_CleanupInterval :: duration
  mc_WorkerStaleTimeout :: duration
  mc_ShutdownTimeout :: duration
  mc_MinWorkerCPUFree :: float64
  mc_MinWorkerRAMFreeMB :: float64
  mc_ExecuteClientIDs :: "string list"
  mc_MaxExecuteBodyBytes :: int
  mc_RequestCacheTTL :: duration
  mc_RequestCacheMaxEntries :: int
  mc_JobStorePath :: string
  mc_JobMaxAttempts :: int
  mc_JobLeaseTTL :: duration
  mc_JobRecoveryInterval :: duration
  mc_JobRecoveryBatchSize :: int
  mc_ModuleHostAllowlist :: "string list"
  mc_RequireModuleDigest :: bool

text \<open>The scheduler thresholds and their range.\<close>

definition loadThresholds :: "config_env \<Rightarrow> (float64 \<times> float64) go_result" where
  "loadThresholds env =
     go_bind (float64Env env ''MIN_WORKER_CPU_FREE'' (Fin 0)) (\<lambda>cpu.
     if flt_less cpu (Fin 0) \<or> flt_less (Fin 100) cpu then Inl ''MIN_WORKER_CPU_FREE must be between 0 and 100'' else
     go_bind (float64Env env ''MIN_WORKER_RAM_FREE_MB'' (Fin 0)) (\<lambda>ram.
     if flt_less ram (Fin 0) then Inl ''MIN_WORKER_RAM_FREE_MB must be greater than or equal to zero'' else
     Inr (cpu, ram)))"

definition LoadMaster :: "config_env \<Rightarrow> MasterConfig go_result" where
  "LoadMaster env =
     go_bind (positiveDurationEnv env ''CLEANUP_INTERVAL'' (15 * Second)) (\<lambda>cleanupInterval.
     go_bind (positiveDurationEnv env ''WORKER_STALE_TIMEOUT'' (30 * Second)) (\<lambda>workerStaleTimeout.
     go_bind (positiveDurationEnv env ''MASTER_SHUTDOWN_TIMEOUT'' (5 * Second)) (\<lambda>shutdownTimeout.
     go_bind (boolEnv env ''AUTO_GENERATE_CERTS'' True) (\<lambda>autoGenerateCerts.
     go_bind (loadThresholds env) (\<lambda>(minWorkerCPUFree, minWorkerRAMFreeMB).
     go_bind (positiveInt64Env env ''MAX_EXECUTION_REQUEST_BYTES'' (2 * 2 ^ 20)) (\<lambda>maxExecuteBodyBytes.
     go_bind (positiveDurationEnv env ''EXECUTION_REQUEST_CACHE_TTL'' (5 * 60 * Second)) (\<lambda>requestCacheTTL.
     go_bind (positiveIntEnv env ''EXECUTION_REQUEST_CACHE_MAX_ENTRIES'' 4096) (\<lambda>requestCacheMaxEntries.
     go_bind (positiveIntEnv env ''JOB_MAX_ATTEMPTS'' 3) (\<lambda>jobMaxAttempts.
     go_bind (positiveDurationEnv env ''JOB_LEASE_TTL'' (30 * Second)) (\<lambda>jobLeaseTTL.
     go_bind (positiveDurationEnv env ''JOB_RECOVERY_INTERVAL'' (5 * Second)) (\<lambda>jobRecoveryInterval.
     go_bind (positiveIntEnv env ''JOB_RECOVERY_BATCH_SIZE'' 32) (\<lambda>jobRecoveryBatchSize.
     go_bind (boolEnv env ''REQUIRE_MODULE_DIGEST'' False) (\<lambda>requireModuleDigest.
     Inr \<lparr>mc_Port = stringEnv env ''MASTER_PORT'' ''7270'', mc_CertDir = stringEnv env ''CERT_DIR'' ''./certs'',
          mc_AutoGenerateCerts = autoGenerateCerts, mc_WorkerIDForCert = stringEnv env ''DEV_WORKER_ID'' ''worker-vn-01'',
          mc_CleanupInterval = cleanupInterval, mc_WorkerStaleTimeout = workerStaleTimeout,
          mc_ShutdownTimeout = shutdownTimeout, mc_MinWorkerCPUFree = minWorkerCPUFree,
          mc_MinWorkerRAMFreeMB = minWorkerRAMFreeMB, mc_ExecuteClientIDs = listEnv env ''EXECUTE_CLIENT_ALLOWLIST'',
          mc_MaxExecuteBodyBytes = maxExecuteBodyBytes, mc_RequestCacheTTL = requestCacheTTL,
          mc_RequestCacheMaxEntries = requestCacheMaxEntries,
          mc_JobStorePath = stringEnv env ''JOB_STORE_PATH'' ''./wasmcat-jobs.db'', mc_JobMaxAttempts = jobMaxAttempts,
          mc_JobLeaseTTL = jobLeaseTTL, mc_JobRecoveryInterval = jobRecoveryInterval,
          mc_JobRecoveryBatchSize = jobRecoveryBatchSize, mc_ModuleHostAllowlist = listEnv env ''MODULE_HOST_ALLOWLIST'',
          mc_RequireModuleDigest = requireModuleDigest\<rparr>)))))))))))))"

section \<open>The worker\<close>

record WorkerConfig =
  wc_Port :: string
  wc_NodeID :: string
  wc_MasterURL :: string
  wc_AdvertiseAddress :: string
  wc_Latitude :: float64
  wc_Longitude :: float64
  wc_LocationSource :: string
  wc_AutoDetectLocation :: bool
  wc_LocationProviderURL :: string
  wc_CertDir :: string
  wc_HeartbeatInterval :: duration
  wc_Limits :: Limits

definition loadWorkerLimits :: "config_env \<Rightarrow> Limits go_result" where
  "loadWorkerLimits env =
     go_bind (positiveDurationEnv env ''EXECUTION_TIMEOUT'' (ExecutionTimeout DefaultLimits)) (\<lambda>executionTimeout.
     go_bind (positiveDurationEnv env ''MODULE_FETCH_TIMEOUT'' (ModuleFetchTimeout DefaultLimits)) (\<lambda>moduleFetchTimeout.
     go_bind (positiveDurationEnv env ''WORKER_SHUTDOWN_TIMEOUT'' (add64 executionTimeout (5 * Second))) (\<lambda>shutdownTimeout.
     go_bind (positiveInt64Env env ''MAX_MODULE_BYTES'' (MaxModuleBytes DefaultLimits)) (\<lambda>maxModuleBytes.
     go_bind (positiveInt64Env env ''MAX_PAYLOAD_BYTES'' (MaxPayloadBytes DefaultLimits)) (\<lambda>maxPayloadBytes.
     go_bind (positiveUint32Env env ''MAX_OUTPUT_BYTES'' (MaxOutputBytes DefaultLimits)) (\<lambda>maxOutputBytes.
     go_bind (positiveIntEnv env ''MAX_CONCURRENT_EXECS'' (MaxConcurrentExecs DefaultLimits)) (\<lambda>maxConcurrentExecs.
     go_bind (positiveIntEnv env ''MAX_CACHED_MODULES'' (MaxCachedModules DefaultLimits)) (\<lambda>maxCachedModules.
     go_bind (positiveInt64Env env ''MAX_CACHE_BYTES'' (MaxCacheBytes DefaultLimits)) (\<lambda>maxCacheBytes.
     go_bind (positiveDurationEnv env ''MODULE_CACHE_TTL'' (ModuleCacheTTL DefaultLimits)) (\<lambda>moduleCacheTTL.
     Inr \<lparr>ExecutionTimeout = executionTimeout, ModuleFetchTimeout = moduleFetchTimeout, ShutdownTimeout = shutdownTimeout,
          MaxModuleBytes = maxModuleBytes, MaxPayloadBytes = maxPayloadBytes, MaxOutputBytes = maxOutputBytes,
          MaxConcurrentExecs = maxConcurrentExecs, MaxCachedModules = maxCachedModules, MaxCacheBytes = maxCacheBytes,
          ModuleCacheTTL = moduleCacheTTL\<rparr>))))))))))"

definition loadWorkerCoordinates :: "config_env \<Rightarrow> (float64 \<times> float64 \<times> string) go_result" where
  "loadWorkerCoordinates env =
     (case (cf_lookup env ''WORKER_LATITUDE'', cf_lookup env ''WORKER_LONGITUDE'') of
        (None, None) \<Rightarrow> Inr (Fin 0, Fin 0, '''')
      | (Some latValue, Some lonValue) \<Rightarrow>
          go_bind (wrap_error ''parse WORKER_LATITUDE: '' (cf_ParseFloat env (TrimSpace latValue))) (\<lambda>latitude.
          go_bind (wrap_error ''parse WORKER_LONGITUDE: '' (cf_ParseFloat env (TrimSpace lonValue))) (\<lambda>longitude.
          case Validate latitude longitude ''worker'' of
            Some err \<Rightarrow> Inl err
          | None \<Rightarrow> Inr (latitude, longitude, ''env'')))
      | _ \<Rightarrow> Inl ''WORKER_LATITUDE and WORKER_LONGITUDE must be set together'')"

definition LoadWorker :: "config_env \<Rightarrow> WorkerConfig go_result" where
  "LoadWorker env =
     go_bind (positiveDurationEnv env ''HEARTBEAT_INTERVAL'' (5 * Second)) (\<lambda>heartbeatInterval.
     go_bind (loadWorkerLimits env) (\<lambda>limits.
     go_bind (boolEnv env ''WORKER_AUTO_DETECT_LOCATION'' True) (\<lambda>autoDetectLocation.
     go_bind (loadWorkerCoordinates env) (\<lambda>(latitude, longitude, source).
     let port = stringEnv env ''WORKER_PORT'' ''7271'' in
     Inr \<lparr>wc_Port = port, wc_NodeID = stringEnv env ''WORKER_ID'' ''worker-vn-01'',
          wc_MasterURL = stringEnv env ''MASTER_URL'' ''https://localhost:7270'',
          wc_AdvertiseAddress = stringEnv env ''WORKER_ADVERTISE_ADDRESS'' (DefaultWorkerAdvertiseAddress (cf_hostname env) port),
          wc_Latitude = latitude, wc_Longitude = longitude,
          wc_LocationSource = (if source = '''' then (if autoDetectLocation then ''auto_pending'' else ''unset'') else source),
          wc_AutoDetectLocation = autoDetectLocation,
          wc_LocationProviderURL = stringEnv env ''WORKER_LOCATION_PROVIDER_URL'' DefaultProviderURLs,
          wc_CertDir = stringEnv env ''CERT_DIR'' ''./certs'', wc_HeartbeatInterval = heartbeatInterval, wc_Limits = limits\<rparr>))))"

definition location_missing :: string where
  "location_missing = ''worker location is not configured; set WORKER_LATITUDE/WORKER_LONGITUDE or enable WORKER_AUTO_DETECT_LOCATION''"

definition ResolveWorkerLocation ::
  "'w geo_env \<Rightarrow> (string \<Rightarrow> string) \<Rightarrow> WorkerConfig \<Rightarrow> 'w \<Rightarrow> WorkerConfig go_result \<times> 'w" where
  "ResolveWorkerLocation env quote cfg w =
     (if wc_LocationSource cfg = ''env'' then
        (case Validate (wc_Latitude cfg) (wc_Longitude cfg) ''worker'' of Some err \<Rightarrow> (Inl err, w) | None \<Rightarrow> (Inr cfg, w))
      else if wc_LocationSource cfg = ''auto_pending'' \<or> wc_LocationSource cfg = '''' then
        (if \<not> wc_AutoDetectLocation cfg then (Inl location_missing, w)
         else case DetectWithFallback env (splitProviderURLs (wc_LocationProviderURL cfg)) w of
           (Inl err, w) \<Rightarrow> (Inl (''auto-detect worker location: '' @ err), w)
         | (Inr detected, w) \<Rightarrow>
             (Inr (cfg\<lparr>wc_Latitude := co_Latitude detected, wc_Longitude := co_Longitude detected,
                       wc_LocationSource := co_Source detected\<rparr>), w))
      else if wc_LocationSource cfg = ''unset'' then (Inl location_missing, w)
      else (Inl (''unknown worker location source '' @ quote (wc_LocationSource cfg)), w))"


section \<open>What a loaded configuration guarantees\<close>

lemma go_bind_Inr [simp]: "go_bind r f = Inr v \<longleftrightarrow> (\<exists>a. r = Inr a \<and> f a = Inr v)"
  by (cases r) (simp_all add: go_bind_def)

lemma go_bind_Inr_left [simp]: "go_bind (Inr a) f = f a"
  by (simp add: go_bind_def)

lemma positive_Inr [simp]: "positive name v = Inr r \<longleftrightarrow> 0 < v \<and> r = v"
  by (auto simp: positive_def)

lemma positive_pos [simp]: "0 < v \<Longrightarrow> positive name v = Inr v"
  by (simp add: positive_def)

lemma wrap_error_simps [simp]: "wrap_error t (Inr v) = Inr v" "wrap_error t (Inl e) = Inl (t @ e)"
  by (simp_all add: wrap_error_def)

text \<open>The readers of variables, for computing with a concrete environment.\<close>

lemmas env_readers = positiveDurationEnv_def durationEnv_def positiveIntEnv_def intEnv_def positiveInt64Env_def int64Env_def
  positiveUint32Env_def uint32Env_def boolEnv_def float64Env_def listEnv_def stringEnv_def Getenv_def

lemma positive_envs:
  "positiveDurationEnv env name d = Inr v \<Longrightarrow> 0 < v"
  "positiveIntEnv env name d = Inr v \<Longrightarrow> 0 < v"
  "positiveInt64Env env name d = Inr v \<Longrightarrow> 0 < v"
  "positiveUint32Env env name d32 = Inr v32 \<Longrightarrow> v32 \<noteq> 0"
  by (auto simp: positiveDurationEnv_def positiveIntEnv_def positiveInt64Env_def positiveUint32Env_def split: if_splits)

lemma loadWorkerLimits_ok:
  assumes "loadWorkerLimits env = Inr l"
  shows "limits_ok l" "0 < ShutdownTimeout l"
  using assms unfolding loadWorkerLimits_def by (auto simp: limits_ok_def dest!: positive_envs)

lemma loadWorkerCoordinates_valid:
  assumes "loadWorkerCoordinates env = Inr (lat, lon, source)"
  shows "source = ''env'' \<and> in_range 90 lat \<and> in_range 180 lon \<or> source = ''''"
  using assms by (auto simp: loadWorkerCoordinates_def Validate_None split: option.splits)

lemma LoadWorker_fields:
  assumes "LoadWorker env = Inr cfg"
  shows "0 < wc_HeartbeatInterval cfg" "loadWorkerLimits env = Inr (wc_Limits cfg)"
    "wc_LocationSource cfg = ''env'' \<and> in_range 90 (wc_Latitude cfg) \<and> in_range 180 (wc_Longitude cfg) \<or>
     wc_LocationSource cfg = (if wc_AutoDetectLocation cfg then ''auto_pending'' else ''unset'')"
proof -
  obtain h l a lat lon source where p: "positiveDurationEnv env ''HEARTBEAT_INTERVAL'' (5 * Second) = Inr h" "loadWorkerLimits env = Inr l"
      "loadWorkerCoordinates env = Inr (lat, lon, source)"
    and c: "wc_HeartbeatInterval cfg = h" "wc_Limits cfg = l" "wc_Latitude cfg = lat" "wc_Longitude cfg = lon" "wc_AutoDetectLocation cfg = a"
      "wc_LocationSource cfg = (if source = '''' then (if a then ''auto_pending'' else ''unset'') else source)"
    using assms unfolding LoadWorker_def Let_def by (elim go_bind_Inr [THEN iffD1, elim_format] exE conjE) (auto elim!: that split: prod.splits)
  show "0 < wc_HeartbeatInterval cfg" "loadWorkerLimits env = Inr (wc_Limits cfg)" using positive_envs(1) [OF p(1)] p(2) c(1,2) by simp_all
  show "wc_LocationSource cfg = ''env'' \<and> in_range 90 (wc_Latitude cfg) \<and> in_range 180 (wc_Longitude cfg) \<or>
     wc_LocationSource cfg = (if wc_AutoDetectLocation cfg then ''auto_pending'' else ''unset'')"
    using loadWorkerCoordinates_valid [OF p(3)] c by auto
qed

lemma resolved_worker_config:
  assumes "LoadWorker env = Inr cfg" "ResolveWorkerLocation genv quote cfg w = (Inr cfg', w')"
  shows "limits_ok (wc_Limits cfg') \<and> normalizeLimits (wc_Limits cfg') = wc_Limits cfg' \<and> 0 < wc_HeartbeatInterval cfg' \<and>
    in_range 90 (wc_Latitude cfg') \<and> in_range 180 (wc_Longitude cfg') \<and> wc_LocationSource cfg' \<in> {''env'', ''auto''}"
proof -
  note fields = LoadWorker_fields [OF assms(1)]
  have "limits_ok (wc_Limits cfg)" "0 < ShutdownTimeout (wc_Limits cfg)" using loadWorkerLimits_ok [OF fields(2)] by simp_all
  moreover have "wc_Limits cfg' = wc_Limits cfg" "wc_HeartbeatInterval cfg' = wc_HeartbeatInterval cfg"
    using assms(2) by (auto simp: ResolveWorkerLocation_def split: if_splits option.splits prod.splits sum.splits)
  moreover have "in_range 90 (wc_Latitude cfg') \<and> in_range 180 (wc_Longitude cfg') \<and> wc_LocationSource cfg' \<in> {''env'', ''auto''}"
    using assms(2)
    by (auto simp: ResolveWorkerLocation_def Validate_None dest!: DetectWithFallback_valid
        split: if_splits option.splits prod.splits sum.splits)
  ultimately show ?thesis using fields(1) normalizeLimits_id by simp
qed


definition config_env_a :: config_env where
  "config_env_a = \<lparr>cf_lookup = map_of [(''WORKER_LATITUDE'', ''10''), (''WORKER_LONGITUDE'', ''20''), (''MAX_PAYLOAD_BYTES'', ''64'')],
     cf_ParseDuration = Inl, cf_ParseFloat = (\<lambda>s. Inr (Fin 10)), cf_quote = id, cf_hostname = Inr ''h''\<rparr>"

definition geo_env_a :: "nat geo_env" where
  "geo_env_a = \<lparr>gl_net = \<lparr>net_do = (\<lambda>call w. (Inl ''down'', Suc w)), net_done = (\<lambda>_. False), net_sleep = (\<lambda>_ w. (None, w)), net_now = (\<lambda>_. 0)\<rparr>,
     gl_NewRequest = (\<lambda>_. None), gl_decode = Inl, gl_ParseFloat = Inl\<rparr>"

end
