(* ===== verification/Go_Files.thy ===== *)
theory Go_Files
  imports Wasmcat_Prelude
begin

text \<open>
  Files, as the sources use \<open>os\<close> and \<open>path/filepath\<close> on Unix. The state of the file system is part
  of the world \<open>'w\<close> and the calls are functions on it, gathered in \<open>files\<close>; \<open>filepath.Clean\<close> and
  \<open>filepath.Join\<close> work on the text of a path only and are defined below.
\<close>

section \<open>Calls\<close>

datatype stat = Exists | Missing | StatFails string

datatype contents = Bytes string | NoFile | ReadFails string

record 'w files =
  fi_MkdirAll :: "string \<Rightarrow> 'w \<Rightarrow> go_error \<times> 'w"
  fi_Stat :: "string \<Rightarrow> 'w \<Rightarrow> stat"
  fi_ReadFile :: "string \<Rightarrow> 'w \<Rightarrow> contents"
  fi_WriteFile :: "string \<Rightarrow> string \<Rightarrow> 'w \<Rightarrow> go_error \<times> 'w"

text \<open>What a successful write promises: the file has the content, and no other file changes.\<close>

definition writes_files :: "'w files \<Rightarrow> bool" where
  "writes_files fs \<longleftrightarrow> (\<forall>path data w w'. fi_WriteFile fs path data w = (None, w') \<longrightarrow>
     (\<forall>p. fi_ReadFile fs p w' = (if p = path then Bytes data else fi_ReadFile fs p w)))"

section \<open>filepath.Clean\<close>

text \<open>The elements that are kept, the last one first.\<close>

fun clean_elements :: "bool \<Rightarrow> string list \<Rightarrow> string list \<Rightarrow> string list" where
  "clean_elements rooted kept [] = kept"
| "clean_elements rooted kept (e # es) =
     (if e = '''' \<or> e = ''.'' then clean_elements rooted kept es
      else if e = ''..'' then
        (case kept of
           k # ks \<Rightarrow> if k \<noteq> ''..'' then clean_elements rooted ks es else clean_elements rooted (e # kept) es
         | [] \<Rightarrow> if rooted then clean_elements rooted [] es else clean_elements rooted [e] es)
      else clean_elements rooted (e # kept) es)"

definition Clean :: "string \<Rightarrow> string" where
  "Clean path =
     (let rooted = HasPrefix path ''/'';
          body = Join (rev (clean_elements rooted [] (Split (CHR ''/'') path))) ''/''
      in if rooted then ''/'' @ body else if body = '''' then ''.'' else body)"

definition path_Join :: "string \<Rightarrow> string \<Rightarrow> string" where
  "path_Join a b = (if a \<noteq> '''' then Clean (a @ ''/'' @ b) else if b \<noteq> '''' then Clean b else '''')"

section \<open>Cleaning is idempotent\<close>

text \<open>A stack of kept elements: names, over a bottom of \<open>..\<close> that a rooted path does not have.\<close>

definition element_ok :: "string \<Rightarrow> bool" where
  "element_ok e \<longleftrightarrow> e \<noteq> '''' \<and> e \<noteq> ''.'' \<and> CHR ''/'' \<notin> set e"

fun stack_ok :: "bool \<Rightarrow> string list \<Rightarrow> bool" where
  "stack_ok rooted [] = True"
| "stack_ok rooted (e # kept) \<longleftrightarrow> element_ok e \<and> stack_ok rooted kept \<and>
     (e = ''..'' \<longrightarrow> \<not> rooted \<and> (kept = [] \<or> hd kept = ''..''))"

lemma clean_elements_ok:
  "stack_ok rooted kept \<Longrightarrow> \<forall>e \<in> set es. CHR ''/'' \<notin> set e \<Longrightarrow> stack_ok rooted (clean_elements rooted kept es)"
proof (induction es arbitrary: kept)
  case (Cons e es)
  show ?case
  proof (cases "e = ''..''")
    case True
    then show ?thesis using Cons by (cases kept) (auto simp: element_ok_def)
  next
    case False
    then show ?thesis using Cons by (auto simp: element_ok_def)
  qed
qed simp

lemma stack_ok_below: "stack_ok rooted (es @ kept) \<Longrightarrow> stack_ok rooted kept"
  by (induction es) auto

lemma clean_elements_stack:
  "stack_ok rooted (rev es @ kept) \<Longrightarrow> clean_elements rooted kept es = rev es @ kept"
proof (induction es arbitrary: kept)
  case (Cons e es)
  then have "stack_ok rooted (rev es @ e # kept)" by simp
  then have "stack_ok rooted (e # kept)" by (rule stack_ok_below)
  then have "clean_elements rooted kept (e # es) = clean_elements rooted (e # kept) es"
    by (cases kept) (auto simp: element_ok_def)
  then show ?case using Cons by simp
qed simp

lemma stack_ok_elements: "stack_ok rooted kept \<Longrightarrow> \<forall>e \<in> set kept. element_ok e"
  by (induction kept) auto

lemma Join_Nil_iff: "\<forall>e \<in> set es. e \<noteq> [] \<Longrightarrow> Join es sep = [] \<longleftrightarrow> es = []"
  by (induction es sep rule: Join.induct) auto

lemma hd_Join: "e \<noteq> [] \<Longrightarrow> hd (Join (e # es) sep) = hd e"
  by (cases es) auto

lemma HasPrefix_slash: "HasPrefix s ''/'' \<longleftrightarrow> s \<noteq> [] \<and> hd s = CHR ''/''"
  by (cases s) auto

lemma Clean_idem [simp]: "Clean (Clean path) = Clean path"
proof -
  define rooted where "rooted = HasPrefix path ''/''"
  define kept where "kept = clean_elements rooted [] (Split (CHR ''/'') path)"
  have "stack_ok rooted kept" unfolding kept_def by (rule clean_elements_ok) (auto dest: Split_no_sep)
  then have ok: "clean_elements rooted [] (rev kept) = kept" "\<forall>e \<in> set kept. element_ok e"
    using clean_elements_stack [of rooted "rev kept" "[]"] stack_ok_elements by auto
  let ?body = "Join (rev kept) ''/''"
  have body: "?body = [] \<longleftrightarrow> kept = []" using Join_Nil_iff [of "rev kept" "''/''"] ok(2) by (auto simp: element_ok_def)
  have path: "Clean path = (if rooted then ''/'' @ ?body else if ?body = '''' then ''.'' else ?body)"
    by (simp add: Clean_def Let_def rooted_def kept_def)
  have split: "Split (CHR ''/'') ?body = rev kept" if "kept \<noteq> []"
    using Split_Join [of "rev kept" "CHR ''/''"] that ok(2) by (auto simp: element_ok_def)
  have first: "\<not> HasPrefix ?body ''/''" if "kept \<noteq> []"
  proof -
    obtain e es where e: "rev kept = e # es" using \<open>kept \<noteq> []\<close> by (cases "rev kept") auto
    then have "element_ok e" using ok(2) by (metis list.set_intros(1) set_rev)
    then show ?thesis unfolding HasPrefix_slash e by (auto simp: hd_Join element_ok_def dest: hd_in_set)
  qed
  show ?thesis
  proof (cases "kept = []")
    case True
    then show ?thesis unfolding path using body by (auto simp: Clean_def Let_def)
  next
    case False
    then show ?thesis unfolding path using body split first ok(1) by (auto simp: Clean_def Let_def)
  qed
qed

lemma Clean_not_Nil [simp]: "Clean path \<noteq> []"
  by (simp add: Clean_def Let_def)


section \<open>filepath.Dir\<close>

definition path_Dir :: "string \<Rightarrow> string" where
  "path_Dir path = Clean (rev (dropWhile (\<lambda>c. c \<noteq> CHR ''/'') (rev path)))"

end
