(* ===== verification/Security_Mtls.thy ===== *)
theory Security_Mtls
  imports Go_Files
begin

text \<open>
  \<open>src/internal/security/mtls.go\<close>: certificates for a local cluster.

  Keys, certificates and PEM are of \<open>crypto\<close> and \<open>encoding/pem\<close>: generating a key, a random serial number,
  signing a template and writing a PEM block are the functions of \<open>crypto\<close>. What the code decides is
  which certificates it asks for, under which names, signed by whom, and where it puts them.
\<close>

record cert_template =
  ct_SerialNumber :: int
  ct_CommonName :: string
  ct_NotBefore :: time
  ct_NotAfter :: time
  ct_KeyUsage :: "string list"
  ct_ExtKeyUsage :: "string list"
  ct_IsCA :: bool
  ct_DNSNames :: "string list"
  ct_IPAddresses :: "string list"

record ('k, 'w) crypto =
  cr_files :: "'w files"
  cr_now :: "'w \<Rightarrow> time"
  cr_GenerateKey :: "'w \<Rightarrow> 'k go_result \<times> 'w"
  cr_RandInt :: "'w \<Rightarrow> int go_result \<times> 'w"
  cr_CreateCertificate :: "cert_template \<Rightarrow> cert_template \<Rightarrow> 'k \<Rightarrow> 'k \<Rightarrow> 'w \<Rightarrow> string go_result \<times> 'w"
  cr_ParseCertificate :: "string \<Rightarrow> cert_template go_result"
  cr_MarshalKey :: "'k \<Rightarrow> string"
  cr_Create :: "string \<Rightarrow> 'w \<Rightarrow> go_error \<times> 'w"
  cr_Encode :: "string \<Rightarrow> string \<Rightarrow> string \<Rightarrow> 'w \<Rightarrow> go_error \<times> 'w"

section \<open>Steps that may fail or panic\<close>

datatype 'a outcome = Value 'a | Failed string | Panic string

definition act_bind :: "('w \<Rightarrow> 'a outcome \<times> 'w) \<Rightarrow> ('a \<Rightarrow> 'w \<Rightarrow> 'b outcome \<times> 'w) \<Rightarrow> 'w \<Rightarrow> 'b outcome \<times> 'w" where
  "act_bind a f w = (case a w of (Value v, w) \<Rightarrow> f v w | (Failed e, w) \<Rightarrow> (Failed e, w) | (Panic e, w) \<Rightarrow> (Panic e, w))"

definition act_result :: "string \<Rightarrow> ('w \<Rightarrow> 'a go_result \<times> 'w) \<Rightarrow> 'w \<Rightarrow> 'a outcome \<times> 'w" where
  "act_result text a w = (case a w of (Inr v, w) \<Rightarrow> (Value v, w) | (Inl err, w) \<Rightarrow> (Failed (text @ err), w))"

definition act_error :: "string \<Rightarrow> ('w \<Rightarrow> go_error \<times> 'w) \<Rightarrow> 'w \<Rightarrow> unit outcome \<times> 'w" where
  "act_error text a w = (case a w of (None, w) \<Rightarrow> (Value (), w) | (Some err, w) \<Rightarrow> (Failed (text @ err), w))"

lemma act_bind_Value:
  "act_bind a f w = (Value v, w') \<longleftrightarrow> (\<exists>u w1. a w = (Value u, w1) \<and> f u w1 = (Value v, w'))"
  by (auto simp: act_bind_def split: prod.splits outcome.splits)

lemma act_result_Value: "act_result t a w = (Value v, w') \<longleftrightarrow> a w = (Inr v, w')"
  by (auto simp: act_result_def split: prod.splits sum.splits)

lemma act_error_Value: "act_error t a w = (Value u, w') \<longleftrightarrow> a w = (None, w')"
  by (auto simp: act_error_def split: prod.splits option.splits)

section \<open>File names\<close>

definition CACertPath :: "string \<Rightarrow> string" where "CACertPath certDir = path_Join certDir ''ca.crt''"
definition MasterCertPath :: "string \<Rightarrow> string" where "MasterCertPath certDir = path_Join certDir ''master.crt''"
definition MasterKeyPath :: "string \<Rightarrow> string" where "MasterKeyPath certDir = path_Join certDir ''master.key''"

definition WorkerCertPath :: "string \<Rightarrow> string \<Rightarrow> string" where
  "WorkerCertPath certDir workerID = path_Join certDir (''worker-'' @ workerID @ ''.crt'')"

definition WorkerKeyPath :: "string \<Rightarrow> string \<Rightarrow> string" where
  "WorkerKeyPath certDir workerID = path_Join certDir (''worker-'' @ workerID @ ''.key'')"

section \<open>Certificates\<close>

definition randomSerialNumber :: "('k, 'w) crypto \<Rightarrow> 'w \<Rightarrow> int outcome \<times> 'w" where
  "randomSerialNumber env w = (case cr_RandInt env w of (Inr n, w) \<Rightarrow> (Value n, w) | (Inl err, w) \<Rightarrow> (Panic err, w))"

definition writeCertificate :: "('k, 'w) crypto \<Rightarrow> string \<Rightarrow> string \<Rightarrow> 'w \<Rightarrow> unit outcome \<times> 'w" where
  "writeCertificate env path derBytes =
     act_bind (act_error (''create cert file '' @ path @ '': '') (cr_Create env path)) (\<lambda>_.
     act_error '''' (cr_Encode env path ''CERTIFICATE'' derBytes))"

definition writePrivateKey :: "('k, 'w) crypto \<Rightarrow> string \<Rightarrow> 'k \<Rightarrow> 'w \<Rightarrow> unit outcome \<times> 'w" where
  "writePrivateKey env path key =
     act_bind (act_error (''create key file '' @ path @ '': '') (cr_Create env path)) (\<lambda>_.
     act_error '''' (cr_Encode env path ''RSA PRIVATE KEY'' (cr_MarshalKey env key)))"

definition Hour :: duration where "Hour = 3600 * Second"

definition leaf_template :: "int \<Rightarrow> time \<Rightarrow> time \<Rightarrow> string \<Rightarrow> bool \<Rightarrow> cert_template" where
  "leaf_template serial before after commonName addLocalSANs =
     \<lparr>ct_SerialNumber = serial, ct_CommonName = commonName, ct_NotBefore = before - Hour, ct_NotAfter = after + 365 * 24 * Hour,
      ct_KeyUsage = [''DigitalSignature'', ''KeyEncipherment''], ct_ExtKeyUsage = [''ServerAuth'', ''ClientAuth''], ct_IsCA = False,
      ct_DNSNames = (if addLocalSANs then [''localhost''] else []), ct_IPAddresses = (if addLocalSANs then [''127.0.0.1''] else [])\<rparr>"

definition ca_template :: "int \<Rightarrow> time \<Rightarrow> time \<Rightarrow> cert_template" where
  "ca_template serial before after =
     \<lparr>ct_SerialNumber = serial, ct_CommonName = ''wasmcat-local-ca'', ct_NotBefore = before - Hour, ct_NotAfter = after + 3650 * 24 * Hour,
      ct_KeyUsage = [''CertSign'', ''CRLSign''], ct_ExtKeyUsage = [], ct_IsCA = True, ct_DNSNames = [], ct_IPAddresses = []\<rparr>"

definition generateLeafCert ::
  "('k, 'w) crypto \<Rightarrow> string \<Rightarrow> string \<Rightarrow> cert_template \<Rightarrow> 'k \<Rightarrow> string \<Rightarrow> bool \<Rightarrow> 'w \<Rightarrow> unit outcome \<times> 'w" where
  "generateLeafCert env certPath keyPath caCert caKey commonName addLocalSANs =
     act_bind (act_result (''generate leaf key for '' @ commonName @ '': '') (cr_GenerateKey env)) (\<lambda>leafKey.
     act_bind (randomSerialNumber env) (\<lambda>serial w.
     let template = leaf_template serial (cr_now env w) (cr_now env w) commonName addLocalSANs in
     act_bind (act_result (''create leaf cert for '' @ commonName @ '': '') (cr_CreateCertificate env template caCert leafKey caKey)) (\<lambda>certDER.
     act_bind (writeCertificate env certPath certDER) (\<lambda>_.
     writePrivateKey env keyPath leafKey)) w))"

definition worker_certificate_name :: "string \<Rightarrow> string" where
  "worker_certificate_name workerID = ''wasmcat-worker-'' @ workerID"

definition GenerateCAAndCerts :: "('k, 'w) crypto \<Rightarrow> string \<Rightarrow> string \<Rightarrow> 'w \<Rightarrow> unit outcome \<times> 'w" where
  "GenerateCAAndCerts env certDir workerID =
     (if certDir = '''' then Pair (Failed ''certDir is required'')
      else if workerID = '''' then Pair (Failed ''workerID is required'')
      else
        act_bind (act_error ''create cert directory: '' (fi_MkdirAll (cr_files env) certDir)) (\<lambda>_.
        act_bind (act_result ''generate ca key: '' (cr_GenerateKey env)) (\<lambda>caKey.
        act_bind (randomSerialNumber env) (\<lambda>serial w.
        let caTemplate = ca_template serial (cr_now env w) (cr_now env w) in
        act_bind (act_result ''create ca cert: '' (cr_CreateCertificate env caTemplate caTemplate caKey caKey)) (\<lambda>caCertDER.
        act_bind (act_result ''parse ca cert: '' (Pair (cr_ParseCertificate env caCertDER))) (\<lambda>caCert.
        act_bind (writeCertificate env (path_Join certDir ''ca.crt'') caCertDER) (\<lambda>_.
        act_bind (writePrivateKey env (path_Join certDir ''ca.key'') caKey) (\<lambda>_.
        act_bind (generateLeafCert env (path_Join certDir ''master.crt'') (path_Join certDir ''master.key'') caCert caKey ''wasmcat-master'' True) (\<lambda>_.
        generateLeafCert env (path_Join certDir (''worker-'' @ workerID @ ''.crt'')) (path_Join certDir (''worker-'' @ workerID @ ''.key''))
          caCert caKey (worker_certificate_name workerID) True))))) w))))"

section \<open>Client connections\<close>

record 'p tls_config =
  tc_Certificates :: "'p list"
  tc_RootCAs :: string
  tc_MinVersion :: string

definition NewMTLSHTTPClient ::
  "'w files \<Rightarrow> (string \<Rightarrow> string \<Rightarrow> 'w \<Rightarrow> 'p go_result) \<Rightarrow> (string \<Rightarrow> bool) \<Rightarrow> (string \<Rightarrow> string) \<Rightarrow> string \<Rightarrow> string \<Rightarrow> string \<Rightarrow> 'w \<Rightarrow> 'p tls_config go_result" where
  "NewMTLSHTTPClient fs load_pair pem_ok not_found certFile keyFile caFile w =
     (case load_pair certFile keyFile w of
        Inl err \<Rightarrow> Inl (''load client cert: '' @ err)
      | Inr clientCert \<Rightarrow>
          (case fi_ReadFile fs caFile w of
             NoFile \<Rightarrow> Inl (''read ca cert: '' @ not_found caFile)
           | ReadFails err \<Rightarrow> Inl (''read ca cert: '' @ err)
           | Bytes caPEM \<Rightarrow>
               if \<not> pem_ok caPEM then Inl ''append ca certs''
               else Inr \<lparr>tc_Certificates = [clientCert], tc_RootCAs = caPEM, tc_MinVersion = ''TLS1.2''\<rparr>))"


section \<open>Which certificates are signed\<close>

text \<open>\<open>h\<close> is the list of the templates signed so far, newest first; nothing else changes it.\<close>

definition signs :: "('k, 'w) crypto \<Rightarrow> ('w \<Rightarrow> cert_template list) \<Rightarrow> bool" where
  "signs env h \<longleftrightarrow>
     (\<forall>t p k s w der w'. cr_CreateCertificate env t p k s w = (Inr der, w') \<longrightarrow> h w' = t # h w) \<and>
     (\<forall>w. h (snd (cr_GenerateKey env w)) = h w) \<and> (\<forall>w. h (snd (cr_RandInt env w)) = h w) \<and>
     (\<forall>p w. h (snd (cr_Create env p w)) = h w) \<and> (\<forall>p t d w. h (snd (cr_Encode env p t d w)) = h w) \<and>
     (\<forall>p w. h (snd (fi_MkdirAll (cr_files env) p w)) = h w)"

lemma signs_steps:
  assumes "signs env h"
  shows "cr_CreateCertificate env t p k s w = (Inr der, w') \<Longrightarrow> h w' = t # h w"
    "cr_GenerateKey env w = (r1, w') \<Longrightarrow> h w' = h w" "randomSerialNumber env w = (r2, w') \<Longrightarrow> h w' = h w"
    "writeCertificate env path d w = (Value u, w') \<Longrightarrow> h w' = h w" "writePrivateKey env path key w = (Value u, w') \<Longrightarrow> h w' = h w"
    "fi_MkdirAll (cr_files env) path w = (r3, w') \<Longrightarrow> h w' = h w"
proof -
  have wr: "h w2 = h w" if "cr_Create env path w = (None, w1)" "cr_Encode env path t d w1 = (None, w2)" for path t d w w1 w2
    using assms that unfolding signs_def by (metis snd_conv)
  show "writeCertificate env path d w = (Value u, w') \<Longrightarrow> h w' = h w" "writePrivateKey env path key w = (Value u, w') \<Longrightarrow> h w' = h w"
    using wr by (auto simp: writeCertificate_def writePrivateKey_def act_bind_Value act_error_Value)
  show "randomSerialNumber env w = (r2, w') \<Longrightarrow> h w' = h w"
    using assms unfolding signs_def randomSerialNumber_def by (cases "cr_RandInt env w") (auto split: sum.splits, (metis snd_conv)+)
qed (use assms in \<open>auto simp: signs_def, (metis snd_conv)+\<close>)

lemma generateLeafCert_signs:
  assumes "signs env h" "generateLeafCert env certPath keyPath caCert caKey commonName addLocalSANs w = (Value u, w')"
  shows "\<exists>t. h w' = t # h w \<and> ct_CommonName t = commonName \<and> ct_DNSNames t = (if addLocalSANs then [''localhost''] else [])"
proof -
  obtain key w1 serial w2 der w3 w4 where steps: "cr_GenerateKey env w = (Inr key, w1)" "randomSerialNumber env w1 = (Value serial, w2)"
      "cr_CreateCertificate env (leaf_template serial (cr_now env w2) (cr_now env w2) commonName addLocalSANs) caCert key caKey w2 = (Inr der, w3)"
      "writeCertificate env certPath der w3 = (Value (), w4)" "writePrivateKey env keyPath key w4 = (Value u, w')"
    using assms(2) by (auto simp: generateLeafCert_def act_bind_Value act_result_Value Let_def)
  let ?t = "leaf_template serial (cr_now env w2) (cr_now env w2) commonName addLocalSANs"
  have "h w' = ?t # h w" using signs_steps [OF assms(1)] steps by metis
  then show ?thesis by (intro exI [of _ ?t]) (simp add: leaf_template_def)
qed

lemma GenerateCAAndCerts_signs:
  assumes "signs env h" "GenerateCAAndCerts env certDir workerID w = (Value u, w')"
  shows "\<exists>worker master ca. h w' = worker # master # ca # h w \<and>
    ct_CommonName worker = worker_certificate_name workerID \<and> ct_DNSNames worker = [''localhost''] \<and>
    ct_CommonName master = ''wasmcat-master'' \<and> ct_DNSNames master = [''localhost''] \<and> ct_IsCA ca"
proof -
  obtain w1 key w2 serial w3 der w4 ca w5 w6 w7 where steps: "fi_MkdirAll (cr_files env) certDir w = (None, w1)"
      "cr_GenerateKey env w1 = (Inr key, w2)" "randomSerialNumber env w2 = (Value serial, w3)"
      "cr_CreateCertificate env (ca_template serial (cr_now env w3) (cr_now env w3)) (ca_template serial (cr_now env w3) (cr_now env w3)) key key w3 = (Inr der, w4)"
      "writeCertificate env (path_Join certDir ''ca.crt'') der w4 = (Value (), w5)"
      "writePrivateKey env (path_Join certDir ''ca.key'') key w5 = (Value (), w6)"
    and leaves: "generateLeafCert env (path_Join certDir ''master.crt'') (path_Join certDir ''master.key'') ca key ''wasmcat-master'' True w6 = (Value (), w7)"
      "generateLeafCert env (path_Join certDir (''worker-'' @ workerID @ ''.crt'')) (path_Join certDir (''worker-'' @ workerID @ ''.key''))
          ca key (worker_certificate_name workerID) True w7 = (Value u, w')"
    using assms(2) by (auto simp: GenerateCAAndCerts_def act_bind_Value act_result_Value act_error_Value Let_def split: if_splits)
  let ?ca = "ca_template serial (cr_now env w3) (cr_now env w3)"
  have "h w6 = ?ca # h w" using signs_steps [OF assms(1)] steps by metis
  then show ?thesis using generateLeafCert_signs [OF assms(1) leaves(1)] generateLeafCert_signs [OF assms(1) leaves(2)]
    by (auto simp: ca_template_def)
qed

end
