(* ===== verification/Bootstrap.thy ===== *)
theory Bootstrap
  imports Config Security_Mtls Master_Policy
begin

text \<open>
  \<open>src/internal/bootstrap/bootstrap.go\<close>: writing the environment files of a master and a worker.

  Files and certificates are those of \<open>Go_Files\<close> and \<open>Security_Mtls\<close>. Arguments are \<open>time.ParseDuration\<close>,
  \<open>strconv.FormatFloat\<close>, \<open>url.Parse\<close>, and \<open>net.SplitHostPort\<close> and \<open>net.ParseIP\<close>.
\<close>

record ('k, 'w) boot_env =
  bt_crypto :: "('k, 'w) crypto"
  bt_ParseDuration :: "string \<Rightarrow> duration go_result"
  bt_FormatFloat :: "float64 \<Rightarrow> string"
  bt_Parse :: "string \<Rightarrow> URL go_result"
  bt_SplitHostPort :: "string \<Rightarrow> (string \<times> string) go_result"
  bt_IsLoopback :: "string \<Rightarrow> bool option"
  bt_lower :: "string \<Rightarrow> string"
  bt_hostname :: "string go_result"

abbreviation (input) bt_files :: "('k, 'w) boot_env \<Rightarrow> 'w files" where
  "bt_files env \<equiv> cr_files (bt_crypto env)"

record MasterOptions =
  mo_ConfigDir :: string
  mo_CertDir :: string
  mo_Port :: string
  mo_CleanupInterval :: string
  mo_WorkerStaleTimeout :: string
  mo_ShutdownTimeout :: string
  mo_MinWorkerCPUFree :: float64
  mo_MinWorkerRAMFreeMB :: float64
  mo_ExecuteClientIDs :: string
  mo_MaxExecuteBodyBytes :: int
  mo_RequestCacheTTL :: string
  mo_RequestCacheMaxEntries :: int
  mo_JobStorePath :: string
  mo_JobMaxAttempts :: int
  mo_JobLeaseTTL :: string
  mo_JobRecoveryInterval :: string
  mo_JobRecoveryBatchSize :: int
  mo_ModuleHostAllowlist :: string
  mo_RequireModuleDigest :: bool
  mo_DevWorkerID :: string
  mo_GenerateDevCerts :: bool
  mo_Force :: bool

record WorkerOptions =
  wo_ConfigDir :: string
  wo_CertDir :: string
  wo_WorkerID :: string
  wo_Port :: string
  wo_MasterURL :: string
  wo_AdvertiseAddress :: string
  wo_Latitude :: float64
  wo_Longitude :: float64
  wo_HasLatitude :: bool
  wo_HasLongitude :: bool
  wo_AutoDetectLocation :: bool
  wo_HasAutoDetectLocation :: bool
  wo_LocationProviderURL :: string
  wo_HeartbeatInterval :: string
  wo_ExecutionTimeout :: string
  wo_ModuleFetchTimeout :: string
  wo_ShutdownTimeout :: string
  wo_MaxModuleBytes :: int
  wo_MaxPayloadBytes :: int
  wo_MaxOutputBytes :: "32 word"
  wo_MaxConcurrentExecs :: int
  wo_MaxCachedModules :: int
  wo_MaxCacheBytes :: int
  wo_ModuleCacheTTL :: string
  wo_Force :: bool

record Result =
  rl_ConfigPath :: string
  rl_CertDir :: string
  rl_Warnings :: "string list"

section \<open>Defaults\<close>

definition text_or :: "string \<Rightarrow> string \<Rightarrow> string" where
  "text_or v d = (if v = '''' then d else v)"

definition int_or :: "int \<Rightarrow> int \<Rightarrow> int" where
  "int_or v d = (if v = 0 then d else v)"

definition cert_dir_or :: "string \<Rightarrow> string \<Rightarrow> string" where
  "cert_dir_or configDir certDir = (if certDir = '''' \<and> configDir \<noteq> '''' then path_Join configDir ''certs'' else certDir)"

definition normalizeMaster :: "MasterOptions \<Rightarrow> MasterOptions" where
  "normalizeMaster o1 = o1\<lparr>
     mo_Port := text_or (mo_Port o1) ''7270'', mo_CleanupInterval := text_or (mo_CleanupInterval o1) ''15s'',
     mo_WorkerStaleTimeout := text_or (mo_WorkerStaleTimeout o1) ''30s'', mo_ShutdownTimeout := text_or (mo_ShutdownTimeout o1) ''5s'',
     mo_RequestCacheTTL := text_or (mo_RequestCacheTTL o1) ''5m'',
     mo_RequestCacheMaxEntries := int_or (mo_RequestCacheMaxEntries o1) 4096,
     mo_JobStorePath := text_or (mo_JobStorePath o1) (path_Join (mo_ConfigDir o1) ''wasmcat-jobs.db''),
     mo_JobMaxAttempts := int_or (mo_JobMaxAttempts o1) 3, mo_JobLeaseTTL := text_or (mo_JobLeaseTTL o1) ''30s'',
     mo_JobRecoveryInterval := text_or (mo_JobRecoveryInterval o1) ''5s'',
     mo_JobRecoveryBatchSize := int_or (mo_JobRecoveryBatchSize o1) 32, mo_DevWorkerID := text_or (mo_DevWorkerID o1) ''worker-vn-01'',
     mo_CertDir := cert_dir_or (mo_ConfigDir o1) (mo_CertDir o1),
     mo_MaxExecuteBodyBytes := int_or (mo_MaxExecuteBodyBytes o1) (2 * 2 ^ 20)\<rparr>"

definition normalizeWorker :: "string go_result \<Rightarrow> WorkerOptions \<Rightarrow> WorkerOptions" where
  "normalizeWorker hostname o1 = o1\<lparr>
     wo_Port := text_or (wo_Port o1) ''7271'', wo_WorkerID := text_or (wo_WorkerID o1) ''worker-vn-01'',
     wo_MasterURL := text_or (wo_MasterURL o1) ''https://localhost:7270'',
     wo_AdvertiseAddress := text_or (wo_AdvertiseAddress o1) (DefaultWorkerAdvertiseAddress hostname (text_or (wo_Port o1) ''7271'')),
     wo_HeartbeatInterval := text_or (wo_HeartbeatInterval o1) ''5s'', wo_ExecutionTimeout := text_or (wo_ExecutionTimeout o1) ''5s'',
     wo_ModuleFetchTimeout := text_or (wo_ModuleFetchTimeout o1) ''10s'', wo_ShutdownTimeout := text_or (wo_ShutdownTimeout o1) ''10s'',
     wo_ModuleCacheTTL := text_or (wo_ModuleCacheTTL o1) ''30m'',
     wo_AutoDetectLocation := (if wo_HasAutoDetectLocation o1 then wo_AutoDetectLocation o1 else True),
     wo_LocationProviderURL := text_or (wo_LocationProviderURL o1) DefaultProviderURLs,
     wo_CertDir := cert_dir_or (wo_ConfigDir o1) (wo_CertDir o1)\<rparr>"

section \<open>Validation\<close>

definition validatePositiveDuration :: "('k, 'w) boot_env \<Rightarrow> string \<Rightarrow> string \<Rightarrow> go_error" where
  "validatePositiveDuration env label value =
     (case bt_ParseDuration env value of
        Inl err \<Rightarrow> Some err
      | Inr parsed \<Rightarrow> if parsed \<le> 0 then Some (label @ '' must be greater than zero'') else None)"

definition validateURL :: "('k, 'w) boot_env \<Rightarrow> string \<Rightarrow> go_error" where
  "validateURL env value =
     (case bt_Parse env value of
        Inl err \<Rightarrow> Some (''parse master url: '' @ err)
      | Inr parsed \<Rightarrow> if u_Scheme parsed \<noteq> ''https'' \<or> u_Host parsed = '''' then Some ''master url must be an https URL with a host'' else None)"

text \<open>A validation is a list of checks; the first one that fails gives the error.\<close>

definition require :: "bool \<Rightarrow> string \<Rightarrow> go_error" where
  "require ok err = (if ok then None else Some err)"

fun first_error :: "go_error list \<Rightarrow> go_error" where
  "first_error [] = None"
| "first_error (None # checks) = first_error checks"
| "first_error (Some err # checks) = Some err"

definition duration_check :: "('k, 'w) boot_env \<Rightarrow> string \<Rightarrow> string \<Rightarrow> go_error" where
  "duration_check env label value = map_option (\<lambda>err. ''parse '' @ label @ '': '' @ err) (validatePositiveDuration env label value)"

definition validateMaster :: "('k, 'w) boot_env \<Rightarrow> MasterOptions \<Rightarrow> go_error" where
  "validateMaster env opts = first_error
    [require (TrimSpace (mo_ConfigDir opts) \<noteq> '''') ''config directory is required'',
     require (TrimSpace (mo_CertDir opts) \<noteq> '''') ''cert directory is required'',
     require (TrimSpace (mo_Port opts) \<noteq> '''') ''master port is required'',
     require (TrimSpace (mo_DevWorkerID opts) \<noteq> '''') ''dev worker id is required'',
     duration_check env ''cleanup interval'' (mo_CleanupInterval opts),
     duration_check env ''worker stale timeout'' (mo_WorkerStaleTimeout opts),
     duration_check env ''master shutdown timeout'' (mo_ShutdownTimeout opts),
     require (\<not> (flt_less (mo_MinWorkerCPUFree opts) (Fin 0) \<or> flt_less (Fin 100) (mo_MinWorkerCPUFree opts))) ''min worker cpu free must be between 0 and 100'',
     require (\<not> flt_less (mo_MinWorkerRAMFreeMB opts) (Fin 0)) ''min worker ram free mb must be greater than or equal to zero'',
     require (\<not> mo_MaxExecuteBodyBytes opts \<le> 0) ''max execution request bytes must be greater than zero'',
     duration_check env ''execution request cache ttl'' (mo_RequestCacheTTL opts),
     require (\<not> mo_RequestCacheMaxEntries opts \<le> 0) ''execution request cache max entries must be greater than zero'',
     require (TrimSpace (mo_JobStorePath opts) \<noteq> '''') ''job store path is required'',
     require (\<not> mo_JobMaxAttempts opts \<le> 0) ''job max attempts must be greater than zero'',
     duration_check env ''job lease ttl'' (mo_JobLeaseTTL opts),
     duration_check env ''job recovery interval'' (mo_JobRecoveryInterval opts),
     require (\<not> mo_JobRecoveryBatchSize opts \<le> 0) ''job recovery batch size must be greater than zero'']"

definition validateWorker :: "('k, 'w) boot_env \<Rightarrow> WorkerOptions \<Rightarrow> go_error" where
  "validateWorker env opts = first_error
    [require (TrimSpace (wo_ConfigDir opts) \<noteq> '''') ''config directory is required'',
     require (TrimSpace (wo_CertDir opts) \<noteq> '''') ''cert directory is required'',
     require (TrimSpace (wo_WorkerID opts) \<noteq> '''') ''worker id is required'',
     require (TrimSpace (wo_Port opts) \<noteq> '''') ''worker port is required'',
     validateURL env (wo_MasterURL opts),
     require (TrimSpace (wo_AdvertiseAddress opts) \<noteq> '''') ''worker advertise address is required'',
     require (wo_HasLatitude opts = wo_HasLongitude opts) ''worker latitude and longitude must be set together'',
     if wo_HasLatitude opts then Validate (wo_Latitude opts) (wo_Longitude opts) ''worker'' else None,
     duration_check env ''heartbeat interval'' (wo_HeartbeatInterval opts),
     duration_check env ''execution timeout'' (wo_ExecutionTimeout opts),
     duration_check env ''module fetch timeout'' (wo_ModuleFetchTimeout opts),
     duration_check env ''worker shutdown timeout'' (wo_ShutdownTimeout opts),
     duration_check env ''module cache ttl'' (wo_ModuleCacheTTL opts),
     require (\<not> wo_MaxModuleBytes opts \<le> 0) ''max module bytes must be greater than zero'',
     require (\<not> wo_MaxPayloadBytes opts \<le> 0) ''max payload bytes must be greater than zero'',
     require (wo_MaxOutputBytes opts \<noteq> 0) ''max output bytes must be greater than zero'',
     require (\<not> wo_MaxConcurrentExecs opts \<le> 0) ''max concurrent executions must be greater than zero'',
     require (\<not> wo_MaxCachedModules opts \<le> 0) ''max cached modules must be greater than zero'',
     require (\<not> wo_MaxCacheBytes opts \<le> 0) ''max cache bytes must be greater than zero'']"

section \<open>Environment files\<close>

type_synonym envValue = "string \<times> string"

definition env_text :: "envValue list \<Rightarrow> string" where
  "env_text values = concat (map (\<lambda>(name, value). name @ ''='' @ value @ [CHR 0x0A]) values)"

definition writeEnvFile :: "'w files \<Rightarrow> string \<Rightarrow> envValue list \<Rightarrow> bool \<Rightarrow> 'w \<Rightarrow> unit outcome \<times> 'w" where
  "writeEnvFile fs path values force w =
     (let write = act_error ''write env file: '' (fi_WriteFile fs path (env_text values)) w in
      if force then write
      else case fi_Stat fs path w of
        Exists \<Rightarrow> (Failed (path @ '' already exists; use --force to overwrite it''), w)
      | StatFails err \<Rightarrow> (Failed (''check '' @ path @ '': '' @ err), w)
      | Missing \<Rightarrow> write)"

fun first_existing :: "'w files \<Rightarrow> string list \<Rightarrow> 'w \<Rightarrow> go_error" where
  "first_existing fs [] w = None"
| "first_existing fs (path # paths) w =
     (case fi_Stat fs path w of
        Exists \<Rightarrow> Some (path @ '' already exists; use --force to overwrite development certificates'')
      | StatFails err \<Rightarrow> Some (''check '' @ path @ '': '' @ err)
      | Missing \<Rightarrow> first_existing fs paths w)"

definition ensureDevCertTargetsCanBeWritten :: "'w files \<Rightarrow> string \<Rightarrow> string \<Rightarrow> bool \<Rightarrow> 'w \<Rightarrow> go_error" where
  "ensureDevCertTargetsCanBeWritten fs certDir workerID force w =
     (if force then None
      else first_existing fs [CACertPath certDir, path_Join certDir ''ca.key'', MasterCertPath certDir, MasterKeyPath certDir,
             WorkerCertPath certDir workerID, WorkerKeyPath certDir workerID] w)"

section \<open>The master\<close>

definition master_values :: "('k, 'w) boot_env \<Rightarrow> MasterOptions \<Rightarrow> envValue list" where
  "master_values env opts =
    [(''MASTER_PORT'', mo_Port opts), (''CERT_DIR'', mo_CertDir opts), (''AUTO_GENERATE_CERTS'', ''false''),
     (''DEV_WORKER_ID'', mo_DevWorkerID opts), (''CLEANUP_INTERVAL'', mo_CleanupInterval opts),
     (''WORKER_STALE_TIMEOUT'', mo_WorkerStaleTimeout opts), (''MASTER_SHUTDOWN_TIMEOUT'', mo_ShutdownTimeout opts),
     (''MIN_WORKER_CPU_FREE'', bt_FormatFloat env (mo_MinWorkerCPUFree opts)),
     (''MIN_WORKER_RAM_FREE_MB'', bt_FormatFloat env (mo_MinWorkerRAMFreeMB opts)),
     (''EXECUTE_CLIENT_ALLOWLIST'', mo_ExecuteClientIDs opts), (''MAX_EXECUTION_REQUEST_BYTES'', itoa (mo_MaxExecuteBodyBytes opts)),
     (''EXECUTION_REQUEST_CACHE_TTL'', mo_RequestCacheTTL opts),
     (''EXECUTION_REQUEST_CACHE_MAX_ENTRIES'', itoa (mo_RequestCacheMaxEntries opts)), (''JOB_STORE_PATH'', mo_JobStorePath opts),
     (''JOB_MAX_ATTEMPTS'', itoa (mo_JobMaxAttempts opts)), (''JOB_LEASE_TTL'', mo_JobLeaseTTL opts),
     (''JOB_RECOVERY_INTERVAL'', mo_JobRecoveryInterval opts), (''JOB_RECOVERY_BATCH_SIZE'', itoa (mo_JobRecoveryBatchSize opts)),
     (''MODULE_HOST_ALLOWLIST'', mo_ModuleHostAllowlist opts), (''REQUIRE_MODULE_DIGEST'', FormatBool (mo_RequireModuleDigest opts))]"

definition dev_certs :: "('k, 'w) boot_env \<Rightarrow> MasterOptions \<Rightarrow> 'w \<Rightarrow> unit outcome \<times> 'w" where
  "dev_certs env opts w =
     (if \<not> mo_GenerateDevCerts opts then (Value (), w)
      else case ensureDevCertTargetsCanBeWritten (bt_files env) (mo_CertDir opts) (mo_DevWorkerID opts) (mo_Force opts) w of
        Some err \<Rightarrow> (Failed err, w)
      | None \<Rightarrow> GenerateCAAndCerts (bt_crypto env) (mo_CertDir opts) (mo_DevWorkerID opts) w)"

definition InitMaster :: "('k, 'w) boot_env \<Rightarrow> MasterOptions \<Rightarrow> 'w \<Rightarrow> Result outcome \<times> 'w" where
  "InitMaster env opts0 =
     (let opts = normalizeMaster opts0; configPath = path_Join (mo_ConfigDir opts) ''master.env'' in
      case validateMaster env opts of
        Some err \<Rightarrow> Pair (Failed err)
      | None \<Rightarrow>
          act_bind (act_error ''create config directory: '' (fi_MkdirAll (bt_files env) (mo_ConfigDir opts))) (\<lambda>_.
          act_bind (act_error ''create cert directory: '' (fi_MkdirAll (bt_files env) (mo_CertDir opts))) (\<lambda>_.
          act_bind (dev_certs env opts) (\<lambda>_.
          act_bind (writeEnvFile (bt_files env) configPath (master_values env opts) (mo_Force opts)) (\<lambda>_.
          Pair (Value \<lparr>rl_ConfigPath = configPath, rl_CertDir = mo_CertDir opts,
            rl_Warnings = (if mo_GenerateDevCerts opts then []
              else [''copy ca.crt, master.crt, and master.key into the cert directory before starting the master''])\<rparr>))))))"


section \<open>The worker\<close>

definition hostOnly :: "('k, 'w) boot_env \<Rightarrow> string \<Rightarrow> string" where
  "hostOnly env address0 =
     (let address = TrimSpace address0 in
      case bt_SplitHostPort env address of Inr (host, port) \<Rightarrow> host | Inl _ \<Rightarrow> address)"

text \<open>\<open>bt_IsLoopback\<close> is \<open>None\<close> for a text that is no IP address.\<close>

definition isLoopbackHost :: "('k, 'w) boot_env \<Rightarrow> string \<Rightarrow> bool" where
  "isLoopbackHost env host0 =
     (let host = TrimSpace (ToLower (bt_lower env) host0) in
      if host = ''localhost'' then True else case bt_IsLoopback env host of Some b \<Rightarrow> b | None \<Rightarrow> False)"

definition workerNetworkWarnings :: "('k, 'w) boot_env \<Rightarrow> string \<Rightarrow> string \<Rightarrow> string list" where
  "workerNetworkWarnings env masterURL advertiseAddress =
     (case bt_Parse env masterURL of
        Inr parsed \<Rightarrow> if isLoopbackHost env (Hostname parsed)
          then [''MASTER_URL points at a loopback host; on a separate worker VM set it to the master private IP or DNS name, for example https://MASTER_PRIVATE_IP:7270''] else []
      | Inl _ \<Rightarrow> []) @
     (if isLoopbackHost env (hostOnly env advertiseAddress)
      then [''WORKER_ADVERTISE_ADDRESS points at a loopback host; the master must reach this address, so on a separate VM use WORKER_PRIVATE_IP:7271''] else [])"

definition worker_values :: "('k, 'w) boot_env \<Rightarrow> WorkerOptions \<Rightarrow> envValue list" where
  "worker_values env opts =
    (if wo_HasLatitude opts \<and> wo_HasLongitude opts
     then [(''WORKER_LATITUDE'', bt_FormatFloat env (wo_Latitude opts)), (''WORKER_LONGITUDE'', bt_FormatFloat env (wo_Longitude opts))]
     else []) @
    [(''WORKER_ID'', wo_WorkerID opts), (''WORKER_PORT'', wo_Port opts), (''MASTER_URL'', wo_MasterURL opts),
     (''WORKER_ADVERTISE_ADDRESS'', wo_AdvertiseAddress opts), (''WORKER_AUTO_DETECT_LOCATION'', FormatBool (wo_AutoDetectLocation opts)),
     (''WORKER_LOCATION_PROVIDER_URL'', wo_LocationProviderURL opts), (''CERT_DIR'', wo_CertDir opts),
     (''HEARTBEAT_INTERVAL'', wo_HeartbeatInterval opts), (''EXECUTION_TIMEOUT'', wo_ExecutionTimeout opts),
     (''MODULE_FETCH_TIMEOUT'', wo_ModuleFetchTimeout opts), (''WORKER_SHUTDOWN_TIMEOUT'', wo_ShutdownTimeout opts),
     (''MAX_MODULE_BYTES'', itoa (wo_MaxModuleBytes opts)), (''MAX_PAYLOAD_BYTES'', itoa (wo_MaxPayloadBytes opts)),
     (''MAX_OUTPUT_BYTES'', itoa (uint (wo_MaxOutputBytes opts))), (''MAX_CONCURRENT_EXECS'', itoa (wo_MaxConcurrentExecs opts)),
     (''MAX_CACHED_MODULES'', itoa (wo_MaxCachedModules opts)), (''MAX_CACHE_BYTES'', itoa (wo_MaxCacheBytes opts)),
     (''MODULE_CACHE_TTL'', wo_ModuleCacheTTL opts)]"

definition InitWorker :: "('k, 'w) boot_env \<Rightarrow> WorkerOptions \<Rightarrow> 'w \<Rightarrow> Result outcome \<times> 'w" where
  "InitWorker env opts0 =
     (let opts = normalizeWorker (bt_hostname env) opts0; configPath = path_Join (wo_ConfigDir opts) ''worker.env'' in
      case validateWorker env opts of
        Some err \<Rightarrow> Pair (Failed err)
      | None \<Rightarrow>
          act_bind (act_error ''create config directory: '' (fi_MkdirAll (bt_files env) (wo_ConfigDir opts))) (\<lambda>_.
          act_bind (act_error ''create cert directory: '' (fi_MkdirAll (bt_files env) (wo_CertDir opts))) (\<lambda>_.
          act_bind (writeEnvFile (bt_files env) configPath (worker_values env opts) (wo_Force opts)) (\<lambda>_.
          Pair (Value \<lparr>rl_ConfigPath = configPath, rl_CertDir = wo_CertDir opts,
            rl_Warnings = (''copy ca.crt, worker-'' @ wo_WorkerID opts @ ''.crt, and worker-'' @ wo_WorkerID opts @ ''.key into the cert directory before starting the worker'')
              # workerNetworkWarnings env (wo_MasterURL opts) (wo_AdvertiseAddress opts)\<rparr>)))))"

section \<open>What was written can be loaded\<close>

lemma first_error_None: "first_error checks = None \<longleftrightarrow> list_all (\<lambda>c. c = None) checks"
  by (induction checks rule: first_error.induct) auto

lemma require_None [simp]: "require ok err = None \<longleftrightarrow> ok"
  by (simp add: require_def)

lemma duration_check_None:
  "duration_check env label value = None \<longleftrightarrow> (\<exists>d. bt_ParseDuration env value = Inr d \<and> 0 < d)"
  by (auto simp: duration_check_def validatePositiveDuration_def split: sum.splits)

lemma writeEnvFile_reads:
  assumes "writes_files fs" "writeEnvFile fs path values force w = (Value u, w')"
  shows "fi_ReadFile fs path w' = Bytes (env_text values)"
proof -
  have "fi_WriteFile fs path (env_text values) w = (None, w')"
    using assms(2) by (auto simp: writeEnvFile_def act_error_def Let_def split: if_splits stat.splits prod.splits option.splits)
  then show ?thesis using assms(1) unfolding writes_files_def by auto
qed

text \<open>The configuration that belongs to options.\<close>

definition dur :: "('k, 'w) boot_env \<Rightarrow> string \<Rightarrow> duration" where
  "dur env value = (case bt_ParseDuration env value of Inr d \<Rightarrow> d | Inl _ \<Rightarrow> 0)"

definition master_config :: "('k, 'w) boot_env \<Rightarrow> MasterOptions \<Rightarrow> MasterConfig" where
  "master_config env opts =
     \<lparr>mc_Port = mo_Port opts, mc_CertDir = mo_CertDir opts, mc_AutoGenerateCerts = False, mc_WorkerIDForCert = mo_DevWorkerID opts,
      mc_CleanupInterval = dur env (mo_CleanupInterval opts), mc_WorkerStaleTimeout = dur env (mo_WorkerStaleTimeout opts),
      mc_ShutdownTimeout = dur env (mo_ShutdownTimeout opts), mc_MinWorkerCPUFree = mo_MinWorkerCPUFree opts,
      mc_MinWorkerRAMFreeMB = mo_MinWorkerRAMFreeMB opts, mc_ExecuteClientIDs = comma_parts (mo_ExecuteClientIDs opts),
      mc_MaxExecuteBodyBytes = mo_MaxExecuteBodyBytes opts, mc_RequestCacheTTL = dur env (mo_RequestCacheTTL opts),
      mc_RequestCacheMaxEntries = mo_RequestCacheMaxEntries opts, mc_JobStorePath = mo_JobStorePath opts,
      mc_JobMaxAttempts = mo_JobMaxAttempts opts, mc_JobLeaseTTL = dur env (mo_JobLeaseTTL opts),
      mc_JobRecoveryInterval = dur env (mo_JobRecoveryInterval opts), mc_JobRecoveryBatchSize = mo_JobRecoveryBatchSize opts,
      mc_ModuleHostAllowlist = comma_parts (mo_ModuleHostAllowlist opts), mc_RequireModuleDigest = mo_RequireModuleDigest opts\<rparr>"

text \<open>
  A process that gets the written variables reads durations the same way, and what was printed from a number
  is read as that number; the integers of the options are those of Go.
\<close>

definition int64 :: "int \<Rightarrow> bool" where "int64 i \<longleftrightarrow> min_duration \<le> i \<and> i \<le> max_duration"

definition reads_back :: "('k, 'w) boot_env \<Rightarrow> envValue list \<Rightarrow> float64 list \<Rightarrow> int list \<Rightarrow> config_env \<Rightarrow> bool" where
  "reads_back env values floats ints cenv \<longleftrightarrow>
     cf_lookup cenv = map_of values \<and> cf_ParseDuration cenv = bt_ParseDuration env \<and> list_all int64 ints \<and>
     list_all (\<lambda>x. bt_FormatFloat env x \<noteq> '''' \<and> TrimSpace (bt_FormatFloat env x) = bt_FormatFloat env x \<and>
       cf_ParseFloat cenv (bt_FormatFloat env x) = Inr x) floats"

lemma text_or_neq [simp]: "d \<noteq> [] \<Longrightarrow> text_or v d \<noteq> []"
  by (simp add: text_or_def)

lemma TrimSpace_neq: "TrimSpace v \<noteq> [] \<Longrightarrow> v \<noteq> []"
  by auto

lemma durationEnv_read:
  assumes "Getenv cenv name = v" "v \<noteq> []" "cf_ParseDuration cenv = bt_ParseDuration env" "bt_ParseDuration env v = Inr d" "0 < d"
  shows "positiveDurationEnv cenv name fallback = Inr (dur env v)"
  using assms by (simp add: positiveDurationEnv_def durationEnv_def dur_def)

lemma intEnv_read:
  assumes "Getenv cenv name = itoa i" "int64 i" "0 < i"
  shows "positiveIntEnv cenv name fallback = Inr i" "positiveInt64Env cenv name fallback = Inr i"
  using assms by (simp_all add: positiveIntEnv_def intEnv_def positiveInt64Env_def int64Env_def int64_def)

lemma uint32Env_read:
  assumes "Getenv cenv name = itoa (uint v)" "v \<noteq> 0"
  shows "positiveUint32Env cenv name fallback = Inr v"
  using assms by (simp add: positiveUint32Env_def uint32Env_def)

lemma boolEnv_read: "Getenv cenv name = FormatBool b \<Longrightarrow> boolEnv cenv name fallback = Inr b"
  by (simp add: boolEnv_def)

lemma stringEnv_read: "Getenv cenv name = v \<Longrightarrow> v \<noteq> [] \<Longrightarrow> stringEnv cenv name fallback = v"
  by (simp add: stringEnv_def)

lemma comma_parts_Nil [simp]: "comma_parts [] = []"
  by (simp add: comma_parts_def)

lemma listEnv_read: "Getenv cenv name = v \<Longrightarrow> listEnv cenv name = comma_parts v"
  by (simp add: listEnv_def)


lemma LoadMaster_values:
  assumes norm: "opts = normalizeMaster opts0" and ok: "validateMaster env opts = None"
    and rb: "reads_back env (master_values env opts) [mo_MinWorkerCPUFree opts, mo_MinWorkerRAMFreeMB opts]
      [mo_MaxExecuteBodyBytes opts, mo_RequestCacheMaxEntries opts, mo_JobMaxAttempts opts, mo_JobRecoveryBatchSize opts] cenv"
  shows "LoadMaster cenv = Inr (master_config env opts)"
proof -
  note valid = ok [unfolded validateMaster_def first_error_None]
  have get: "Getenv cenv name = (case map_of (master_values env opts) name of None \<Rightarrow> '''' | Some v \<Rightarrow> v)" for name
    using rb by (simp add: Getenv_def reads_back_def)
  have parse: "cf_ParseDuration cenv = bt_ParseDuration env" using rb by (simp add: reads_back_def)
  have texts: "mo_CleanupInterval opts \<noteq> []" "mo_WorkerStaleTimeout opts \<noteq> []" "mo_ShutdownTimeout opts \<noteq> []"
    "mo_RequestCacheTTL opts \<noteq> []" "mo_JobLeaseTTL opts \<noteq> []" "mo_JobRecoveryInterval opts \<noteq> []"
    by (simp_all add: norm normalizeMaster_def)
  have dirs: "mo_Port opts \<noteq> []" "mo_CertDir opts \<noteq> []" "mo_DevWorkerID opts \<noteq> []" "mo_JobStorePath opts \<noteq> []"
    using valid by (simp_all, auto)
  have durs: "positiveDurationEnv cenv ''CLEANUP_INTERVAL'' f1 = Inr (dur env (mo_CleanupInterval opts))"
    "positiveDurationEnv cenv ''WORKER_STALE_TIMEOUT'' f2 = Inr (dur env (mo_WorkerStaleTimeout opts))"
    "positiveDurationEnv cenv ''MASTER_SHUTDOWN_TIMEOUT'' f3 = Inr (dur env (mo_ShutdownTimeout opts))"
    "positiveDurationEnv cenv ''EXECUTION_REQUEST_CACHE_TTL'' f4 = Inr (dur env (mo_RequestCacheTTL opts))"
    "positiveDurationEnv cenv ''JOB_LEASE_TTL'' f5 = Inr (dur env (mo_JobLeaseTTL opts))"
    "positiveDurationEnv cenv ''JOB_RECOVERY_INTERVAL'' f6 = Inr (dur env (mo_JobRecoveryInterval opts))"
    for f1 f2 f3 f4 f5 f6
    using valid texts parse by (auto simp: get master_values_def duration_check_None intro!: durationEnv_read)
  have ranges: "int64 (mo_MaxExecuteBodyBytes opts)" "0 < mo_MaxExecuteBodyBytes opts" "int64 (mo_RequestCacheMaxEntries opts)"
    "0 < mo_RequestCacheMaxEntries opts" "int64 (mo_JobMaxAttempts opts)" "0 < mo_JobMaxAttempts opts"
    "int64 (mo_JobRecoveryBatchSize opts)" "0 < mo_JobRecoveryBatchSize opts"
    using valid rb by (simp_all add: reads_back_def)
  have ints: "positiveInt64Env cenv ''MAX_EXECUTION_REQUEST_BYTES'' f1 = Inr (mo_MaxExecuteBodyBytes opts)"
    "positiveIntEnv cenv ''EXECUTION_REQUEST_CACHE_MAX_ENTRIES'' f2 = Inr (mo_RequestCacheMaxEntries opts)"
    "positiveIntEnv cenv ''JOB_MAX_ATTEMPTS'' f3 = Inr (mo_JobMaxAttempts opts)"
    "positiveIntEnv cenv ''JOB_RECOVERY_BATCH_SIZE'' f4 = Inr (mo_JobRecoveryBatchSize opts)"
    for f1 f2 f3 f4
    by (rule intEnv_read; use ranges in \<open>simp add: get master_values_def\<close>)+
  have bools: "boolEnv cenv ''AUTO_GENERATE_CERTS'' f1 = Inr False" "boolEnv cenv ''REQUIRE_MODULE_DIGEST'' f2 = Inr (mo_RequireModuleDigest opts)"
    for f1 f2 by (rule boolEnv_read, simp add: get master_values_def FormatBool_def)+
  have floats: "loadThresholds cenv = Inr (mo_MinWorkerCPUFree opts, mo_MinWorkerRAMFreeMB opts)"
    using valid rb by (auto simp: loadThresholds_def float64Env_def get master_values_def reads_back_def)
  have strings: "stringEnv cenv ''MASTER_PORT'' f1 = mo_Port opts" "stringEnv cenv ''CERT_DIR'' f2 = mo_CertDir opts"
    "stringEnv cenv ''DEV_WORKER_ID'' f3 = mo_DevWorkerID opts" "stringEnv cenv ''JOB_STORE_PATH'' f4 = mo_JobStorePath opts"
    "listEnv cenv ''EXECUTE_CLIENT_ALLOWLIST'' = comma_parts (mo_ExecuteClientIDs opts)"
    "listEnv cenv ''MODULE_HOST_ALLOWLIST'' = comma_parts (mo_ModuleHostAllowlist opts)"
    for f1 f2 f3 f4
    using dirs by (auto simp: get master_values_def intro!: stringEnv_read listEnv_read)
  show ?thesis by (simp add: LoadMaster_def master_config_def durs ints bools floats strings)
qed


definition worker_limits :: "('k, 'w) boot_env \<Rightarrow> WorkerOptions \<Rightarrow> Limits" where
  "worker_limits env opts =
     \<lparr>ExecutionTimeout = dur env (wo_ExecutionTimeout opts), ModuleFetchTimeout = dur env (wo_ModuleFetchTimeout opts),
      ShutdownTimeout = dur env (wo_ShutdownTimeout opts), MaxModuleBytes = wo_MaxModuleBytes opts,
      MaxPayloadBytes = wo_MaxPayloadBytes opts, MaxOutputBytes = wo_MaxOutputBytes opts,
      MaxConcurrentExecs = wo_MaxConcurrentExecs opts, MaxCachedModules = wo_MaxCachedModules opts,
      MaxCacheBytes = wo_MaxCacheBytes opts, ModuleCacheTTL = dur env (wo_ModuleCacheTTL opts)\<rparr>"

definition worker_config :: "('k, 'w) boot_env \<Rightarrow> WorkerOptions \<Rightarrow> WorkerConfig" where
  "worker_config env opts =
     \<lparr>wc_Port = wo_Port opts, wc_NodeID = wo_WorkerID opts, wc_MasterURL = wo_MasterURL opts,
      wc_AdvertiseAddress = wo_AdvertiseAddress opts,
      wc_Latitude = (if wo_HasLatitude opts then wo_Latitude opts else Fin 0),
      wc_Longitude = (if wo_HasLatitude opts then wo_Longitude opts else Fin 0),
      wc_LocationSource = (if wo_HasLatitude opts then ''env'' else if wo_AutoDetectLocation opts then ''auto_pending'' else ''unset''),
      wc_AutoDetectLocation = wo_AutoDetectLocation opts, wc_LocationProviderURL = wo_LocationProviderURL opts,
      wc_CertDir = wo_CertDir opts, wc_HeartbeatInterval = dur env (wo_HeartbeatInterval opts), wc_Limits = worker_limits env opts\<rparr>"

lemma LoadWorker_values:
  assumes norm: "opts = normalizeWorker hostname opts0" and ok: "validateWorker env opts = None"
    and rb: "reads_back env (worker_values env opts) (if wo_HasLatitude opts then [wo_Latitude opts, wo_Longitude opts] else [])
      [wo_MaxModuleBytes opts, wo_MaxPayloadBytes opts, wo_MaxConcurrentExecs opts, wo_MaxCachedModules opts, wo_MaxCacheBytes opts] cenv"
  shows "LoadWorker cenv = Inr (worker_config env opts)"
proof -
  note valid = ok [unfolded validateWorker_def first_error_None]
  have look: "cf_lookup cenv = map_of (worker_values env opts)" using rb by (simp add: reads_back_def)
  have get: "Getenv cenv name = (case map_of (worker_values env opts) name of None \<Rightarrow> '''' | Some v \<Rightarrow> v)" for name
    by (simp add: Getenv_def look)
  have parse: "cf_ParseDuration cenv = bt_ParseDuration env" using rb by (simp add: reads_back_def)
  have texts: "wo_HeartbeatInterval opts \<noteq> []" "wo_ExecutionTimeout opts \<noteq> []" "wo_ModuleFetchTimeout opts \<noteq> []"
    "wo_ShutdownTimeout opts \<noteq> []" "wo_ModuleCacheTTL opts \<noteq> []" "wo_MasterURL opts \<noteq> []" "wo_LocationProviderURL opts \<noteq> []"
    by (simp_all add: norm normalizeWorker_def DefaultProviderURLs_def)
  have dirs: "wo_Port opts \<noteq> []" "wo_CertDir opts \<noteq> []" "wo_WorkerID opts \<noteq> []" "wo_AdvertiseAddress opts \<noteq> []"
    using valid by (simp_all, auto)
  have durs: "positiveDurationEnv cenv ''HEARTBEAT_INTERVAL'' f1 = Inr (dur env (wo_HeartbeatInterval opts))"
    "positiveDurationEnv cenv ''EXECUTION_TIMEOUT'' f2 = Inr (dur env (wo_ExecutionTimeout opts))"
    "positiveDurationEnv cenv ''MODULE_FETCH_TIMEOUT'' f3 = Inr (dur env (wo_ModuleFetchTimeout opts))"
    "positiveDurationEnv cenv ''WORKER_SHUTDOWN_TIMEOUT'' f4 = Inr (dur env (wo_ShutdownTimeout opts))"
    "positiveDurationEnv cenv ''MODULE_CACHE_TTL'' f5 = Inr (dur env (wo_ModuleCacheTTL opts))"
    for f1 f2 f3 f4 f5
    using valid texts parse by (auto simp: get worker_values_def duration_check_None intro!: durationEnv_read)
  have ranges: "int64 (wo_MaxModuleBytes opts)" "0 < wo_MaxModuleBytes opts" "int64 (wo_MaxPayloadBytes opts)" "0 < wo_MaxPayloadBytes opts"
    "int64 (wo_MaxConcurrentExecs opts)" "0 < wo_MaxConcurrentExecs opts" "int64 (wo_MaxCachedModules opts)" "0 < wo_MaxCachedModules opts"
    "int64 (wo_MaxCacheBytes opts)" "0 < wo_MaxCacheBytes opts" "wo_MaxOutputBytes opts \<noteq> 0"
    using valid rb by (simp_all add: reads_back_def)
  have ints: "positiveInt64Env cenv ''MAX_MODULE_BYTES'' f1 = Inr (wo_MaxModuleBytes opts)"
    "positiveInt64Env cenv ''MAX_PAYLOAD_BYTES'' f2 = Inr (wo_MaxPayloadBytes opts)"
    "positiveIntEnv cenv ''MAX_CONCURRENT_EXECS'' f3 = Inr (wo_MaxConcurrentExecs opts)"
    "positiveIntEnv cenv ''MAX_CACHED_MODULES'' f4 = Inr (wo_MaxCachedModules opts)"
    "positiveInt64Env cenv ''MAX_CACHE_BYTES'' f5 = Inr (wo_MaxCacheBytes opts)"
    "positiveUint32Env cenv ''MAX_OUTPUT_BYTES'' f6 = Inr (wo_MaxOutputBytes opts)"
    for f1 f2 f3 f4 f5 f6
    by (rule intEnv_read uint32Env_read; use ranges in \<open>simp add: get worker_values_def\<close>)+
  have auto_loc: "boolEnv cenv ''WORKER_AUTO_DETECT_LOCATION'' f = Inr (wo_AutoDetectLocation opts)" for f
    by (rule boolEnv_read) (simp add: get worker_values_def)
  have both: "wo_HasLongitude opts = wo_HasLatitude opts" using valid by simp
  have coords: "loadWorkerCoordinates cenv = Inr (if wo_HasLatitude opts then wo_Latitude opts else Fin 0,
      if wo_HasLatitude opts then wo_Longitude opts else Fin 0, if wo_HasLatitude opts then ''env'' else '''')"
    using valid rb both by (auto simp: loadWorkerCoordinates_def look worker_values_def reads_back_def)
  have strings: "stringEnv cenv ''WORKER_PORT'' f1 = wo_Port opts" "stringEnv cenv ''WORKER_ID'' f2 = wo_WorkerID opts"
    "stringEnv cenv ''MASTER_URL'' f3 = wo_MasterURL opts" "stringEnv cenv ''WORKER_ADVERTISE_ADDRESS'' f4 = wo_AdvertiseAddress opts"
    "stringEnv cenv ''WORKER_LOCATION_PROVIDER_URL'' f5 = wo_LocationProviderURL opts" "stringEnv cenv ''CERT_DIR'' f6 = wo_CertDir opts"
    for f1 f2 f3 f4 f5 f6
    using dirs texts by (auto simp: get worker_values_def intro!: stringEnv_read)
  have "loadWorkerLimits cenv = Inr (worker_limits env opts)"
    by (simp add: loadWorkerLimits_def worker_limits_def durs ints)
  then show ?thesis by (simp add: LoadWorker_def worker_config_def durs auto_loc coords strings Let_def)
qed

text \<open>
  What the bootstrap writes can be loaded: after a successful run the configuration file holds the variables of the
  options with their defaults filled in, and a program started with those variables loads exactly the
  configuration these options stand for. (Durations are read the same way by both, and a number that
  was printed is read back as it was.)
\<close>

lemma InitMaster_loads:
  assumes "writes_files (bt_files env)" "InitMaster env opts0 w = (Value result, w')" "opts = normalizeMaster opts0"
  shows "fi_ReadFile (bt_files env) (path_Join (mo_ConfigDir opts0) ''master.env'') w' = Bytes (env_text (master_values env opts)) \<and>
    rl_ConfigPath result = path_Join (mo_ConfigDir opts0) ''master.env'' \<and>
    (\<forall>cenv. reads_back env (master_values env opts) [mo_MinWorkerCPUFree opts, mo_MinWorkerRAMFreeMB opts]
        [mo_MaxExecuteBodyBytes opts, mo_RequestCacheMaxEntries opts, mo_JobMaxAttempts opts, mo_JobRecoveryBatchSize opts] cenv \<longrightarrow>
      LoadMaster cenv = Inr (master_config env opts))"
proof -
  let ?path = "path_Join (mo_ConfigDir opts) ''master.env''"
  have ok: "validateMaster env opts = None" using assms(2,3) by (auto simp: InitMaster_def Let_def split: option.splits)
  have "\<exists>u w1. writeEnvFile (bt_files env) ?path (master_values env opts) (mo_Force opts) w1 = (Value u, w') \<and> rl_ConfigPath result = ?path"
    using assms(2,3) ok by (auto simp: InitMaster_def Let_def act_bind_Value)
  moreover have "mo_ConfigDir opts = mo_ConfigDir opts0" using assms(3) by (simp add: normalizeMaster_def)
  ultimately show ?thesis using writeEnvFile_reads [OF assms(1)] LoadMaster_values [OF assms(3) ok] by auto
qed

lemma InitWorker_loads:
  assumes "writes_files (bt_files env)" "InitWorker env opts0 w = (Value result, w')" "opts = normalizeWorker (bt_hostname env) opts0"
  shows "fi_ReadFile (bt_files env) (path_Join (wo_ConfigDir opts0) ''worker.env'') w' = Bytes (env_text (worker_values env opts)) \<and>
    rl_ConfigPath result = path_Join (wo_ConfigDir opts0) ''worker.env'' \<and>
    (\<forall>cenv. reads_back env (worker_values env opts) (if wo_HasLatitude opts then [wo_Latitude opts, wo_Longitude opts] else [])
        [wo_MaxModuleBytes opts, wo_MaxPayloadBytes opts, wo_MaxConcurrentExecs opts, wo_MaxCachedModules opts, wo_MaxCacheBytes opts] cenv \<longrightarrow>
      LoadWorker cenv = Inr (worker_config env opts) \<and> limits_ok (wc_Limits (worker_config env opts)))"
proof -
  let ?path = "path_Join (wo_ConfigDir opts) ''worker.env''"
  have ok: "validateWorker env opts = None" using assms(2,3) by (auto simp: InitWorker_def Let_def split: option.splits)
  have "\<exists>u w1. writeEnvFile (bt_files env) ?path (worker_values env opts) (wo_Force opts) w1 = (Value u, w') \<and> rl_ConfigPath result = ?path"
    using assms(2,3) ok by (auto simp: InitWorker_def Let_def act_bind_Value)
  moreover have "wo_ConfigDir opts = wo_ConfigDir opts0" using assms(3) by (simp add: normalizeWorker_def)
  moreover have "limits_ok (wc_Limits cfg)" if "LoadWorker cenv = Inr cfg" for cenv cfg
    using loadWorkerLimits_ok(1) [OF LoadWorker_fields(2) [OF that]] .
  ultimately show ?thesis using writeEnvFile_reads [OF assms(1)] LoadWorker_values [OF assms(3) ok] by metis
qed


section \<open>A concrete bootstrap\<close>

text \<open>Files as a list of paths and contents; keys are numbers and a certificate is the name it carries.\<close>

definition files_a :: "(string \<times> string) list files" where
  "files_a = \<lparr>fi_MkdirAll = (\<lambda>_ w. (None, w)), fi_Stat = (\<lambda>p w. case map_of w p of None \<Rightarrow> Missing | Some _ \<Rightarrow> Exists),
     fi_ReadFile = (\<lambda>p w. case map_of w p of None \<Rightarrow> NoFile | Some d \<Rightarrow> Bytes d), fi_WriteFile = (\<lambda>p d w. (None, (p, d) # w))\<rparr>"

definition crypto_a :: "(nat, (string \<times> string) list) crypto" where
  "crypto_a = \<lparr>cr_files = files_a, cr_now = (\<lambda>_. 0), cr_GenerateKey = (\<lambda>w. (Inr (length w), w)), cr_RandInt = (\<lambda>w. (Inr 1, w)),
     cr_CreateCertificate = (\<lambda>t p k s w. (Inr (ct_CommonName t), w)), cr_ParseCertificate = (\<lambda>der. Inr (ca_template 1 0 0)),
     cr_MarshalKey = (\<lambda>k. ''key''), cr_Create = (\<lambda>p w. (None, w)), cr_Encode = (\<lambda>p t d w. (None, (p, d) # w))\<rparr>"

definition boot_env_a :: "(nat, (string \<times> string) list) boot_env" where
  "boot_env_a = \<lparr>bt_crypto = crypto_a, bt_ParseDuration = (\<lambda>s. Inr (int (length s))), bt_FormatFloat = (\<lambda>_. ''0''),
     bt_Parse = (\<lambda>s. Inr \<lparr>u_Scheme = ''https'', u_Host = s, u_Path = [], u_RawQuery = [], u_Fragment = [], u_Rest = []\<rparr>),
     bt_SplitHostPort = Inl, bt_IsLoopback = (\<lambda>_. None), bt_lower = id, bt_hostname = Inr ''h''\<rparr>"

definition config_of_a :: "envValue list \<Rightarrow> config_env" where
  "config_of_a values = \<lparr>cf_lookup = map_of values, cf_ParseDuration = bt_ParseDuration boot_env_a, cf_ParseFloat = (\<lambda>_. Inr (Fin 0)),
     cf_quote = id, cf_hostname = Inr ''h''\<rparr>"

lemma files_a_write: "writes_files (bt_files boot_env_a)"
  by (simp add: writes_files_def boot_env_a_def crypto_a_def files_a_def)

lemma reads_back_a: "reads_back boot_env_a values floats ints (config_of_a values) \<longleftrightarrow> list_all int64 ints \<and> list_all (\<lambda>x. x = Fin 0) floats"
proof -
  have "TrimSpace ''0'' = ''0''" by code_simp
  then show ?thesis by (auto simp: reads_back_def config_of_a_def boot_env_a_def list_all_iff)
qed

end
