(* ===== verification/Serving.thy ===== *)
theory Serving
  imports Security_Mtls Shared_Client
begin

text \<open>
  \<open>src/internal/shared/server.go\<close>, the settings of outgoing connections in \<open>src/internal/shared/client.go\<close>, and the two functions
  \<open>Start\<close> of \<open>src/internal/master/gateway.go\<close> and \<open>src/internal/worker/server.go\<close>: with which settings the servers of the
  program listen, and how they end.

  Listening is outside: \<open>se_select\<close> runs a server with its certificate files until it stops by itself or the
  context is done, whatever comes first (\<open>None\<close> stands for the context). What a server does with
  its handler is the subject of the theories of the handlers, so the handler is an argument here.
\<close>

section \<open>Settings\<close>

definition DefaultHTTPServerReadHeaderTimeout :: duration where "DefaultHTTPServerReadHeaderTimeout = 5 * Second"
definition DefaultHTTPServerReadTimeout :: duration where "DefaultHTTPServerReadTimeout = 30 * Second"
definition DefaultHTTPServerWriteTimeout :: duration where "DefaultHTTPServerWriteTimeout = 30 * Second"
definition DefaultHTTPServerIdleTimeout :: duration where "DefaultHTTPServerIdleTimeout = 60 * Second"

text \<open>The fields of \<open>tls.Config\<close> that the servers set: \<open>sl_ClientAuth\<close> is \<open>RequireAndVerifyClientCert\<close>, the pool is its PEM text.\<close>

record server_tls =
  sl_ClientAuth :: bool
  sl_ClientCAs :: string
  sl_MinVersion :: string

record 'h http_server =
  hs_Addr :: string
  hs_Handler :: 'h
  hs_TLSConfig :: "server_tls option"
  hs_ReadHeaderTimeout :: duration
  hs_ReadTimeout :: duration
  hs_WriteTimeout :: duration
  hs_IdleTimeout :: duration

definition NewHTTPServer :: "string \<Rightarrow> 'h \<Rightarrow> server_tls option \<Rightarrow> 'h http_server" where
  "NewHTTPServer addr handler tlsConfig =
     \<lparr>hs_Addr = addr, hs_Handler = handler, hs_TLSConfig = tlsConfig, hs_ReadHeaderTimeout = DefaultHTTPServerReadHeaderTimeout,
      hs_ReadTimeout = DefaultHTTPServerReadTimeout, hs_WriteTimeout = DefaultHTTPServerWriteTimeout, hs_IdleTimeout = DefaultHTTPServerIdleTimeout\<rparr>"

definition DefaultHTTPClientTimeout :: duration where "DefaultHTTPClientTimeout = 30 * Second"
definition DefaultHTTPDialTimeout :: duration where "DefaultHTTPDialTimeout = 10 * Second"
definition DefaultHTTPKeepAlive :: duration where "DefaultHTTPKeepAlive = 30 * Second"
definition DefaultHTTPResponseHeaderTimeout :: duration where "DefaultHTTPResponseHeaderTimeout = 10 * Second"
definition DefaultHTTPIdleConnTimeout :: duration where "DefaultHTTPIdleConnTimeout = 90 * Second"
definition DefaultHTTPTLSHandshakeTimeout :: duration where "DefaultHTTPTLSHandshakeTimeout = 10 * Second"
definition DefaultHTTPMaxIdleConns :: int where "DefaultHTTPMaxIdleConns = 100"
definition DefaultHTTPMaxIdleConnsPerHost :: int where "DefaultHTTPMaxIdleConnsPerHost = 10"

record 'p http_transport =
  ht_ProxyFromEnvironment :: bool
  ht_DialTimeout :: duration
  ht_DialKeepAlive :: duration
  ht_ForceAttemptHTTP2 :: bool
  ht_MaxIdleConns :: int
  ht_MaxIdleConnsPerHost :: int
  ht_IdleConnTimeout :: duration
  ht_TLSHandshakeTimeout :: duration
  ht_ResponseHeaderTimeout :: duration
  ht_TLSClientConfig :: "'p tls_config option"

record 'p http_client =
  hl_Timeout :: duration
  hl_Transport :: "'p http_transport"

definition NewHTTPTransport :: "'p tls_config option \<Rightarrow> 'p http_transport" where
  "NewHTTPTransport tlsConfig =
     \<lparr>ht_ProxyFromEnvironment = True, ht_DialTimeout = DefaultHTTPDialTimeout, ht_DialKeepAlive = DefaultHTTPKeepAlive,
      ht_ForceAttemptHTTP2 = True, ht_MaxIdleConns = DefaultHTTPMaxIdleConns, ht_MaxIdleConnsPerHost = DefaultHTTPMaxIdleConnsPerHost,
      ht_IdleConnTimeout = DefaultHTTPIdleConnTimeout, ht_TLSHandshakeTimeout = DefaultHTTPTLSHandshakeTimeout,
      ht_ResponseHeaderTimeout = DefaultHTTPResponseHeaderTimeout, ht_TLSClientConfig = tlsConfig\<rparr>"

definition NewHTTPClientWithTLSConfig :: "'p tls_config option \<Rightarrow> 'p http_client" where
  "NewHTTPClientWithTLSConfig tlsConfig = \<lparr>hl_Timeout = DefaultHTTPClientTimeout, hl_Transport = NewHTTPTransport tlsConfig\<rparr>"

definition NewHTTPClient :: "'p http_client" where
  "NewHTTPClient = NewHTTPClientWithTLSConfig None"

section \<open>Listening\<close>

datatype listen_error = ErrServerClosed | ListenError string

record ('h, 'w) serve_env =
  se_files :: "'w files"
  se_AppendCerts :: "string \<Rightarrow> bool"
  se_not_found :: "string \<Rightarrow> string"
  se_select :: "'h http_server \<Rightarrow> (string \<times> string) option \<Rightarrow> 'w \<Rightarrow> listen_error option option \<times> 'w"
  se_Shutdown :: "duration \<Rightarrow> 'w \<Rightarrow> go_error \<times> 'w"
  se_receive :: "'w \<Rightarrow> listen_error option \<times> 'w"

definition listen_failure :: "listen_error option \<Rightarrow> go_error" where
  "listen_failure res = (case res of Some (ListenError err) \<Rightarrow> Some err | _ \<Rightarrow> None)"

definition read_client_cas :: "('h, 'w) serve_env \<Rightarrow> string \<Rightarrow> 'w \<Rightarrow> server_tls go_result" where
  "read_client_cas env certDir w =
     (let path = CACertPath certDir in
      case fi_ReadFile (se_files env) path w of
        NoFile \<Rightarrow> Inl (''read ca cert: '' @ se_not_found env path)
      | ReadFails err \<Rightarrow> Inl (''read ca cert: '' @ err)
      | Bytes caPEM \<Rightarrow>
          if \<not> se_AppendCerts env caPEM then Inl ''append ca cert''
          else Inr \<lparr>sl_ClientAuth = True, sl_ClientCAs = caPEM, sl_MinVersion = ''TLS1.2''\<rparr>)"

text \<open>The \<open>select\<close> of both servers: the listener ends, or the context does and the server is shut down.\<close>

definition run_server ::
  "('h, 'w) serve_env \<Rightarrow> string \<Rightarrow> duration \<Rightarrow> 'h http_server \<Rightarrow> string \<times> string \<Rightarrow> 'w \<Rightarrow> go_error \<times> 'w" where
  "run_server env what shutdownTimeout server keys w =
     (case se_select env server (Some keys) w of
        (Some res, w) \<Rightarrow> (listen_failure res, w)
      | (None, w) \<Rightarrow>
          (case se_Shutdown env shutdownTimeout w of
             (Some err, w) \<Rightarrow> (Some (''shutdown '' @ what @ '': '' @ err), w)
           | (None, w) \<Rightarrow> (case se_receive env w of (res, w) \<Rightarrow> (listen_failure res, w))))"

definition cert_dir :: "string \<Rightarrow> string" where
  "cert_dir certDir = (if certDir = '''' then ''./certs'' else certDir)"

definition DefaultMasterShutdownTimeout :: duration where "DefaultMasterShutdownTimeout = 5 * Second"

definition gateway_shutdownTimeout :: "duration \<Rightarrow> duration" where
  "gateway_shutdownTimeout configured = (if configured \<le> 0 then DefaultMasterShutdownTimeout else configured)"

definition Gateway_Start :: "('h, 'w) serve_env \<Rightarrow> string \<Rightarrow> duration \<Rightarrow> 'h \<Rightarrow> string \<Rightarrow> 'w \<Rightarrow> go_error \<times> 'w" where
  "Gateway_Start env certDir0 timeout handler port w =
     (let certDir = cert_dir certDir0 in
      case read_client_cas env certDir w of
        Inl err \<Rightarrow> (Some err, w)
      | Inr tls \<Rightarrow> run_server env ''master gateway'' (gateway_shutdownTimeout timeout) (NewHTTPServer (CHR '':'' # port) handler (Some tls))
          (MasterCertPath certDir, MasterKeyPath certDir) w)"

definition WorkerServer_Start ::
  "('h, 'w) serve_env \<Rightarrow> string \<Rightarrow> string \<Rightarrow> duration \<Rightarrow> 'h \<Rightarrow> string \<Rightarrow> 'w \<Rightarrow> go_error \<times> 'w" where
  "WorkerServer_Start env certDir0 nodeID timeout handler port w =
     (let certDir = cert_dir certDir0 in
      case read_client_cas env certDir w of
        Inl err \<Rightarrow> (Some err, w)
      | Inr tls \<Rightarrow> run_server env ''worker server'' timeout (NewHTTPServer (CHR '':'' # port) handler (Some tls))
          (WorkerCertPath certDir nodeID, WorkerKeyPath certDir nodeID) w)"

section \<open>Which servers listen\<close>

text \<open>\<open>h\<close> is the list of the servers that were started, the newest first; nothing else changes it.\<close>

definition notes_servers :: "('h, 'w) serve_env \<Rightarrow> ('w \<Rightarrow> ('h http_server \<times> (string \<times> string) option) list) \<Rightarrow> bool" where
  "notes_servers env h \<longleftrightarrow>
     (\<forall>server keys w. h (snd (se_select env server keys w)) = (server, keys) # h w) \<and>
     (\<forall>d w. h (snd (se_Shutdown env d w)) = h w) \<and> (\<forall>w. h (snd (se_receive env w)) = h w)"

lemma run_server_notes:
  assumes "notes_servers env h"
  shows "h (snd (run_server env what d server keys w)) = (server, Some keys) # h w"
proof -
  note n = assms [unfolded notes_servers_def]
  obtain res w1 where s: "se_select env server (Some keys) w = (res, w1)" by (rule prod.exhaust)
  have 1: "h w1 = (server, Some keys) # h w" using n s by (metis snd_conv)
  show ?thesis
  proof (cases res)
    case None
    obtain e w2 where d: "se_Shutdown env d w1 = (e, w2)" by (rule prod.exhaust)
    obtain r w3 where r: "se_receive env w2 = (r, w3)" by (rule prod.exhaust)
    have "h w2 = h w1" "h w3 = h w2" using n d r by (metis snd_conv)+
    then show ?thesis using 1 s None d r by (simp add: run_server_def split: option.split)
  qed (use 1 s in \<open>simp add: run_server_def\<close>)
qed

definition mutual_tls :: "('h, 'w) serve_env \<Rightarrow> string \<Rightarrow> 'w \<Rightarrow> 'h http_server \<Rightarrow> bool" where
  "mutual_tls env certDir w server \<longleftrightarrow>
     (\<exists>pem. fi_ReadFile (se_files env) (CACertPath (cert_dir certDir)) w = Bytes pem \<and> se_AppendCerts env pem \<and>
        hs_TLSConfig server = Some \<lparr>sl_ClientAuth = True, sl_ClientCAs = pem, sl_MinVersion = ''TLS1.2''\<rparr>)"

lemma read_client_cas_Inr:
  "read_client_cas env (cert_dir certDir) w = Inr tls \<Longrightarrow> mutual_tls env certDir w (NewHTTPServer a handler (Some tls))"
  by (auto simp: read_client_cas_def mutual_tls_def NewHTTPServer_def Let_def split: contents.splits if_splits)

text \<open>\<open>Start\<close> either starts one server, or fails and does nothing.\<close>

definition listens ::
  "('h, 'w) serve_env \<Rightarrow> ('w \<Rightarrow> ('h http_server \<times> (string \<times> string) option) list) \<Rightarrow> string \<Rightarrow> 'h \<Rightarrow> string \<Rightarrow> string \<times> string \<Rightarrow> 'w \<Rightarrow>
   go_error \<Rightarrow> 'w \<Rightarrow> bool" where
  "listens env h certDir handler port keys w err w' \<longleftrightarrow>
     (\<exists>server. h w' = (server, Some keys) # h w \<and> mutual_tls env certDir w server \<and> hs_Addr server = CHR '':'' # port \<and> hs_Handler server = handler) \<or>
     w' = w \<and> err \<noteq> None"

lemma run_server_listens:
  assumes "notes_servers env h" "read_client_cas env (cert_dir certDir) w = Inr tls"
    and "run_server env what d (NewHTTPServer (CHR '':'' # port) handler (Some tls)) keys w = (err, w')"
  shows "listens env h certDir handler port keys w err w'"
proof -
  let ?server = "NewHTTPServer (CHR '':'' # port) handler (Some tls)"
  have "h w' = (?server, Some keys) # h w" using run_server_notes [OF assms(1), of what d ?server keys w] assms(3) by simp
  moreover have "hs_Addr ?server = CHR '':'' # port" "hs_Handler ?server = handler" by (simp_all add: NewHTTPServer_def)
  ultimately show ?thesis using read_client_cas_Inr [OF assms(2), of "CHR '':'' # port" handler] unfolding listens_def by blast
qed

lemma Gateway_Start_listens:
  assumes "notes_servers env h" "Gateway_Start env certDir timeout handler port w = (err, w')"
  shows "listens env h certDir handler port (MasterCertPath (cert_dir certDir), MasterKeyPath (cert_dir certDir)) w err w'"
proof (cases "read_client_cas env (cert_dir certDir) w")
  case (Inr tls)
  then show ?thesis using assms(2) by (intro run_server_listens [OF assms(1) Inr]) (simp add: Gateway_Start_def Let_def)
qed (use assms(2) in \<open>auto simp: Gateway_Start_def Let_def listens_def\<close>)

lemma WorkerServer_Start_listens:
  assumes "notes_servers env h" "WorkerServer_Start env certDir nodeID timeout handler port w = (err, w')"
  shows "listens env h certDir handler port (WorkerCertPath (cert_dir certDir) nodeID, WorkerKeyPath (cert_dir certDir) nodeID) w err w'"
proof (cases "read_client_cas env (cert_dir certDir) w")
  case (Inr tls)
  then show ?thesis using assms(2) by (intro run_server_listens [OF assms(1) Inr]) (simp add: WorkerServer_Start_def Let_def)
qed (use assms(2) in \<open>auto simp: WorkerServer_Start_def Let_def listens_def\<close>)

text \<open>A port that cannot be listened on makes \<open>Start\<close> fail.\<close>

definition port_taken :: "('h, 'w) serve_env \<Rightarrow> bool" where
  "port_taken env \<longleftrightarrow> (\<forall>server keys w. \<exists>err. fst (se_select env server keys w) = Some (Some (ListenError err)))"

lemma run_server_taken:
  assumes "port_taken env"
  shows "fst (run_server env what d server keys w) \<noteq> None"
proof -
  obtain res w1 where s: "se_select env server (Some keys) w = (res, w1)" by (rule prod.exhaust)
  then obtain err where "res = Some (Some (ListenError err))" using assms unfolding port_taken_def by (metis fst_conv)
  then show ?thesis using s by (simp add: run_server_def listen_failure_def)
qed

lemma Start_taken:
  assumes "port_taken env"
  shows "fst (Gateway_Start env certDir timeout handler port w) \<noteq> None"
    "fst (WorkerServer_Start env certDir nodeID timeout handler port w) \<noteq> None"
  using run_server_taken [OF assms] by (auto simp: Gateway_Start_def WorkerServer_Start_def Let_def split: sum.split)

text \<open>What a program does when it starts: it logs an error and starts no server, or it starts one server.\<close>

definition starts_or_logs ::
  "('w \<Rightarrow> ('h http_server \<times> (string \<times> string) option) list) \<Rightarrow> (string \<Rightarrow> 'w \<Rightarrow> 'w) \<Rightarrow> ('h http_server \<Rightarrow> bool) \<Rightarrow> 'w \<Rightarrow> 'w \<Rightarrow> bool" where
  "starts_or_logs h report ok w w' \<longleftrightarrow>
     (\<exists>server keys. h w' = (server, Some keys) # h w \<and> ok server) \<or> h w' = h w \<and> (\<exists>err w1. w' = report err w1)"

text \<open>
  (C11) Master and worker never listen without mutual TLS. Whatever their settings, \<open>Start\<close> of either starts at
  most one server, on the port it was given and with that program's own certificate; this server
  demands a client certificate that verifies against the CA file of the certificate directory, from TLS 1.2
  on. When the CA file cannot be read or holds no certificate, no server is started and the error is returned.
\<close>

theorem servers_demand_client_certificates:
  assumes "notes_servers env h" "Gateway_Start env certDir timeout handler port w = (err, w') \<or>
      WorkerServer_Start env certDir nodeID timeout handler port w = (err, w')"
  shows "(\<exists>server keys. h w' = (server, Some keys) # h w \<and> mutual_tls env certDir w server \<and> hs_Addr server = CHR '':'' # port \<and>
      hs_Handler server = handler \<and> keys \<in> {(MasterCertPath (cert_dir certDir), MasterKeyPath (cert_dir certDir)),
        (WorkerCertPath (cert_dir certDir) nodeID, WorkerKeyPath (cert_dir certDir) nodeID)}) \<or>
    w' = w \<and> err \<noteq> None"
proof -
  have "\<exists>keys. listens env h certDir handler port keys w err w' \<and> keys \<in> {(MasterCertPath (cert_dir certDir), MasterKeyPath (cert_dir certDir)),
        (WorkerCertPath (cert_dir certDir) nodeID, WorkerKeyPath (cert_dir certDir) nodeID)}"
    using assms(2) Gateway_Start_listens [OF assms(1)] WorkerServer_Start_listens [OF assms(1)] by blast
  then show ?thesis unfolding listens_def by blast
qed

definition serve_env_a :: "(nat, (nat http_server \<times> (string \<times> string) option) list) serve_env" where
  "serve_env_a = \<lparr>se_files = \<lparr>fi_MkdirAll = (\<lambda>_ w. (None, w)), fi_Stat = (\<lambda>_ _. Exists), fi_ReadFile = (\<lambda>_ _. Bytes ''pem''), fi_WriteFile = (\<lambda>_ _ w. (None, w))\<rparr>,
     se_AppendCerts = (\<lambda>_. True), se_not_found = id, se_select = (\<lambda>s k w. (Some (Some (ListenError ''in use'')), (s, k) # w)),
     se_Shutdown = (\<lambda>_ w. (None, w)), se_receive = (\<lambda>w. (None, w))\<rparr>"

theorem servers_demand_client_certificates_witness:
  "\<exists>server keys. Gateway_Start serve_env_a '''' 0 (7 :: nat) ''7270'' [] = (Some ''in use'', [(server, Some keys)]) \<and>
     mutual_tls serve_env_a '''' [] server \<and> hs_Addr server = '':7270''"
proof -
  have n: "notes_servers serve_env_a id" by (simp add: notes_servers_def serve_env_a_def)
  have r: "\<exists>w'. Gateway_Start serve_env_a '''' 0 (7 :: nat) ''7270'' [] = (Some ''in use'', w') \<and> w' \<noteq> []"
    by (simp add: Gateway_Start_def read_client_cas_def run_server_def serve_env_a_def listen_failure_def Let_def)
  then obtain w' where w: "Gateway_Start serve_env_a '''' 0 (7 :: nat) ''7270'' [] = (Some ''in use'', w')" "w' \<noteq> []" by blast
  from servers_demand_client_certificates [OF n disjI1, OF w(1), of "''w''"] w show ?thesis by fastforce
qed

end
