(* ===== verification/Go_Flag.thy ===== *)
theory Go_Flag
  imports Go_Strconv
begin

text \<open>
  The package \<open>flag\<close>, as far as the commands use it: a \<open>FlagSet\<close> with \<open>ContinueOnError\<close>. A flag has a name and a
  kind; parsing gives the flags that were passed with their texts, in order, and the arguments that
  are left. What \<open>strconv\<close> makes of the text of a number, in the base its prefix tells, is an argument.
\<close>

section \<open>Flags and their values\<close>

datatype flag_kind = StringFlag | BoolFlag | FloatFlag | IntFlag | UintFlag | DurationFlag

record flag_env =
  fl_quote :: "string \<Rightarrow> string"
  fl_ParseFloat :: "string \<Rightarrow> float64 go_result"
  fl_ParseInt0 :: "string \<Rightarrow> int go_result"
  fl_ParseUint0 :: "string \<Rightarrow> int go_result"
  fl_ParseDuration :: "string \<Rightarrow> duration go_result"

definition result_error :: "'a go_result \<Rightarrow> go_error" where
  "result_error r = (case r of Inl err \<Rightarrow> Some err | Inr _ \<Rightarrow> None)"

definition flag_Set :: "flag_env \<Rightarrow> flag_kind \<Rightarrow> string \<Rightarrow> go_error" where
  "flag_Set env kind s =
     (case kind of
        StringFlag \<Rightarrow> None
      | BoolFlag \<Rightarrow> (if result_error (ParseBool (fl_quote env) s) = None then None else Some ''parse error'')
      | FloatFlag \<Rightarrow> result_error (fl_ParseFloat env s)
      | IntFlag \<Rightarrow> result_error (fl_ParseInt0 env s)
      | UintFlag \<Rightarrow> result_error (fl_ParseUint0 env s)
      | DurationFlag \<Rightarrow> (if result_error (fl_ParseDuration env s) = None then None else Some ''parse error''))"

section \<open>Parsing\<close>

datatype flag_step = FlagsEnd "string list" | FlagFails string | FlagIs string string "string list"

definition flag_value :: "flag_kind \<Rightarrow> string \<Rightarrow> bool \<Rightarrow> string list \<Rightarrow> (string \<times> string list) option" where
  "flag_value kind value hasValue rest =
     (if hasValue then Some (value, rest)
      else if kind = BoolFlag then Some (''true'', rest)
      else case rest of [] \<Rightarrow> None | v # rest \<Rightarrow> Some (v, rest))"

definition invalid_flag :: "flag_env \<Rightarrow> flag_kind \<Rightarrow> string \<Rightarrow> string \<Rightarrow> string \<Rightarrow> string" where
  "invalid_flag env kind v name err =
     (if kind = BoolFlag then ''invalid boolean value '' @ fl_quote env v @ '' for -'' @ name @ '': '' @ err
      else ''invalid value '' @ fl_quote env v @ '' for flag -'' @ name @ '': '' @ err)"

definition parseOne :: "flag_env \<Rightarrow> (string \<times> flag_kind) list \<Rightarrow> string list \<Rightarrow> flag_step" where
  "parseOne env formal args =
     (case args of
        [] \<Rightarrow> FlagsEnd []
      | s # rest \<Rightarrow>
          if length s < 2 \<or> hd s \<noteq> CHR ''-'' then FlagsEnd args
          else if s = ''--'' then FlagsEnd rest
          else
            (let text = drop (if s ! 1 = CHR ''-'' then 2 else 1) s in
             if text = '''' \<or> hd text = CHR ''-'' \<or> hd text = CHR ''='' then FlagFails (''bad flag syntax: '' @ s)
             else case Cut (CHR ''='') (tl text) of
               (tail_text, value, hasValue) \<Rightarrow>
                 (let name = hd text # tail_text in
                  case map_of formal name of
                    None \<Rightarrow>
                      if name = ''help'' \<or> name = ''h'' then FlagFails ''flag: help requested''
                      else FlagFails (''flag provided but not defined: -'' @ name)
                  | Some kind \<Rightarrow>
                      (case flag_value kind value hasValue rest of
                         None \<Rightarrow> FlagFails (''flag needs an argument: -'' @ name)
                       | Some (v, rest) \<Rightarrow>
                           (case flag_Set env kind v of
                              Some err \<Rightarrow> FlagFails (invalid_flag env kind v name err)
                            | None \<Rightarrow> FlagIs name v rest)))))"

lemma parseOne_shorter: "parseOne env formal args = FlagIs name v rest \<Longrightarrow> length rest < length args"
  by (auto simp: parseOne_def flag_value_def Let_def split: list.splits if_splits prod.splits option.splits)

function flag_Parse :: "flag_env \<Rightarrow> (string \<times> flag_kind) list \<Rightarrow> string list \<Rightarrow> ((string \<times> string) list \<times> string list) go_result" where
  "flag_Parse env formal args =
     (case parseOne env formal args of
        FlagsEnd rest \<Rightarrow> Inr ([], rest)
      | FlagFails err \<Rightarrow> Inl err
      | FlagIs name v rest \<Rightarrow>
          (case flag_Parse env formal rest of
             Inl err \<Rightarrow> Inl err
           | Inr (passed, left) \<Rightarrow> Inr ((name, v) # passed, left)))"
  by pat_completeness auto
termination by (relation "measure (\<lambda>(env, formal, args). length args)") (auto dest: parseOne_shorter)

declare flag_Parse.simps [simp del]

section \<open>Reading the flags\<close>

text \<open>A flag that is passed twice has its last value.\<close>

definition flag_last :: "(string \<times> string) list \<Rightarrow> string \<Rightarrow> string option" where
  "flag_last passed name = map_of (rev passed) name"

definition flag_passed :: "(string \<times> string) list \<Rightarrow> string \<Rightarrow> bool" where
  "flag_passed passed name \<longleftrightarrow> list_ex (\<lambda>(n, _). n = name) passed"

definition flag_String :: "(string \<times> string) list \<Rightarrow> string \<Rightarrow> string \<Rightarrow> string" where
  "flag_String passed name initial = (case flag_last passed name of None \<Rightarrow> initial | Some v \<Rightarrow> v)"

definition flag_read :: "(string \<Rightarrow> 'a go_result) \<Rightarrow> (string \<times> string) list \<Rightarrow> string \<Rightarrow> 'a \<Rightarrow> 'a" where
  "flag_read parse passed name initial =
     (case flag_last passed name of None \<Rightarrow> initial | Some v \<Rightarrow> (case parse v of Inl _ \<Rightarrow> initial | Inr x \<Rightarrow> x))"

definition flag_Bool where "flag_Bool env = flag_read (ParseBool (fl_quote env))"
definition flag_Float64 where "flag_Float64 env = flag_read (fl_ParseFloat env)"
definition flag_Int where "flag_Int env = flag_read (fl_ParseInt0 env)"
definition flag_Uint where "flag_Uint env = flag_read (fl_ParseUint0 env)"
definition flag_Duration where "flag_Duration env = flag_read (fl_ParseDuration env)"

section \<open>Lemmas\<close>

text \<open>What a successful parse has checked: every passed flag is one of the set, and its text is a value of its kind.\<close>

lemma parseOne_checked:
  "parseOne env formal args = FlagIs name v rest \<Longrightarrow> \<exists>kind. map_of formal name = Some kind \<and> flag_Set env kind v = None"
  by (auto simp: parseOne_def Let_def split: list.splits if_splits prod.splits option.splits)

lemma flag_Parse_checked:
  assumes "flag_Parse env formal args = Inr (passed, left)" "(name, v) \<in> set passed"
  shows "\<exists>kind. map_of formal name = Some kind \<and> flag_Set env kind v = None"
  using assms
proof (induction env formal args arbitrary: passed left rule: flag_Parse.induct)
  case (1 env formal args)
  show ?case
  proof (cases "parseOne env formal args")
    case (FlagIs n t rest)
    then obtain more where more: "flag_Parse env formal rest = Inr (more, left)" "passed = (n, t) # more"
      using 1(2) by (subst (asm) flag_Parse.simps) (auto split: sum.splits)
    show ?thesis
    proof (cases "(name, v) = (n, t)")
      case True
      then show ?thesis using parseOne_checked [OF FlagIs] by simp
    next
      case False
      then show ?thesis using 1(1) [OF FlagIs more(1)] 1(3) more(2) by auto
    qed
  qed (use 1(2,3) in \<open>auto simp: flag_Parse.simps [of env formal args]\<close>)
qed

lemma flag_last_passed: "flag_last passed name = Some v \<Longrightarrow> (name, v) \<in> set passed"
  unfolding flag_last_def using map_of_SomeD by fastforce

lemma flag_passed_last: "flag_passed passed name \<longleftrightarrow> flag_last passed name \<noteq> None"
  unfolding flag_passed_def flag_last_def map_of_eq_None_iff by (force simp: list_ex_iff)

end
