(* ===== verification/Master_Main.thy ===== *)
theory Master_Main
  imports Master_Gateway Master_Recovery Bootstrap Go_Flag Serving
begin

text \<open>
  \<open>src/cmd/master/main.go\<close>: the program of the master, and the opening of its job store in
  \<open>src/internal/master/sqlite_job_store.go\<close>.

  \<open>master_setup\<close> is everything from reading the configuration to the moment the parts are wired together,
  \<open>master_main\<close> the program with its exit status, and \<open>master_runInit\<close> the command \<open>init\<close>. The two goroutines that it starts
  are the reaper, which calls \<open>Cleanup\<close> at every tick, and the recovery; they run beside the server and are
  steps of \<open>Master_System\<close>. What the dispatcher and the recovery use from outside, the database driver, the
  two outputs and the operating system are arguments.
\<close>

section \<open>Opening the job store\<close>

record 'w sql_env =
  sq_Open :: "string \<Rightarrow> 'w \<Rightarrow> go_error \<times> 'w"
  sq_Exec :: "string \<Rightarrow> 'w \<Rightarrow> go_error \<times> 'w"
  sq_Close :: "'w \<Rightarrow> 'w"
  sq_table :: "'w \<Rightarrow> job_db"

text \<open>The statements, without their line breaks.\<close>

definition sql_empty :: string where "sql_empty = [CHR 0x27, CHR 0x27]"

definition init_statements :: "string list" where
  "init_statements =
     [''PRAGMA journal_mode=WAL;'',
      ''PRAGMA busy_timeout=5000;'',
      ''CREATE TABLE IF NOT EXISTS jobs (request_id TEXT PRIMARY KEY, fingerprint TEXT NOT NULL, request_json TEXT NOT NULL, status TEXT NOT NULL, '' @
      ''worker_id TEXT NOT NULL DEFAULT '' @ sql_empty @ '', attempt INTEGER NOT NULL DEFAULT 0, max_attempts INTEGER NOT NULL DEFAULT 3, '' @
      ''lease_until INTEGER NOT NULL DEFAULT 0, last_error TEXT NOT NULL DEFAULT '' @ sql_empty @ '', response_json TEXT NOT NULL DEFAULT '' @ sql_empty @ '', '' @
      ''created_at INTEGER NOT NULL, updated_at INTEGER NOT NULL);'',
      ''CREATE INDEX IF NOT EXISTS idx_jobs_recoverable ON jobs(status, lease_until, updated_at);'']"

fun exec_statements :: "'w sql_env \<Rightarrow> string list \<Rightarrow> 'w \<Rightarrow> unit outcome \<times> 'w" where
  "exec_statements env [] w = (Value (), w)"
| "exec_statements env (s # ss) w =
     (case sq_Exec env s w of
        (Some err, w) \<Rightarrow> (Failed (''initialize job store: '' @ err), w)
      | (None, w) \<Rightarrow> exec_statements env ss w)"

definition create_store_dir :: "'w files \<Rightarrow> string \<Rightarrow> 'w \<Rightarrow> unit outcome \<times> 'w" where
  "create_store_dir fs path w =
     (let dir = path_Dir path in
      if dir \<noteq> ''.'' \<and> dir \<noteq> '''' then act_error ''create job store directory: '' (fi_MkdirAll fs dir) w else (Value (), w))"

definition NewSQLiteJobStore :: "'w files \<Rightarrow> 'w sql_env \<Rightarrow> string \<Rightarrow> 'w \<Rightarrow> job_db outcome \<times> 'w" where
  "NewSQLiteJobStore fs env path0 w =
     (let path = TrimSpace path0 in
      if path = '''' then (Failed ''job store path is required'', w)
      else act_bind (create_store_dir fs path) (\<lambda>_.
        act_bind (act_error ''open job store: '' (sq_Open env path)) (\<lambda>_ w.
        case exec_statements env init_statements w of
          (Failed err, w) \<Rightarrow> (Failed err, sq_Close env w)
        | (Panic err, w) \<Rightarrow> (Panic err, w)
        | (Value _, w) \<Rightarrow> (Value (sq_table env w), w))) w)"

section \<open>Wiring\<close>

record ('k, 'n, 'r, 'w) master_env =
  mm_boot :: "('k, 'w) boot_env"
  mm_config :: config_env
  mm_flags :: flag_env
  mm_flag_report :: "string \<Rightarrow> 'w \<Rightarrow> 'w"
  mm_sql :: "'w sql_env"
  mm_serve :: "('n Gateway, 'w) serve_env"
  mm_dispatcher :: "string \<Rightarrow> 'n Dispatcher"
  mm_recovery :: "'n Dispatcher \<Rightarrow> 'r JobRecovery"
  mm_net :: 'n
  mm_now :: "'w \<Rightarrow> time"
  mm_stdout :: "string \<Rightarrow> 'w \<Rightarrow> 'w"
  mm_stderr :: "string \<Rightarrow> 'w \<Rightarrow> 'w"
  mm_log :: "string \<Rightarrow> 'w \<Rightarrow> 'w"
  mm_windows :: bool
  mm_version :: string

record ('n, 'r) Master =
  ma_gateway :: "'n Gateway"
  ma_recovery :: "'r JobRecovery"
  ma_CertDir :: string
  ma_Port :: string
  ma_ShutdownTimeout :: duration
  ma_CleanupInterval :: duration

definition wire_dispatcher :: "('k, 'n, 'r, 'w) master_env \<Rightarrow> MasterConfig \<Rightarrow> 'n Dispatcher" where
  "wire_dispatcher env cfg = mm_dispatcher env (mc_CertDir cfg)
     \<lparr>d_scheduler := \<lparr>MinCPUFree = mc_MinWorkerCPUFree cfg, MinRAMFreeMB = mc_MinWorkerRAMFreeMB cfg\<rparr>\<rparr>"

definition wire_gateway :: "('k, 'n, 'r, 'w) master_env \<Rightarrow> MasterConfig \<Rightarrow> time \<Rightarrow> job_db \<Rightarrow> 'n Gateway" where
  "wire_gateway env cfg now jobStore =
     \<lparr>gw_Registry = Some (NewRegistryWithStaleTimeout (mc_WorkerStaleTimeout cfg)), gw_Dispatcher = Some (wire_dispatcher env cfg),
      gw_Metrics = Some (NewMetrics now), gw_Requests = None, gw_JobStore = Some jobStore,
      gw_ExecuteClientIDs = mc_ExecuteClientIDs cfg, gw_MaxExecuteBodyBytes = mc_MaxExecuteBodyBytes cfg,
      gw_ModulePolicy = \<lparr>AllowedHosts = mc_ModuleHostAllowlist cfg, RequireDigest = mc_RequireModuleDigest cfg\<rparr>,
      gw_RequestCacheTTL = mc_RequestCacheTTL cfg, gw_RequestCacheMaxEntries = mc_RequestCacheMaxEntries cfg,
      gw_JobMaxAttempts = mc_JobMaxAttempts cfg, gw_JobLeaseTTL = mc_JobLeaseTTL cfg, gw_tokens = [], gw_net = mm_net env\<rparr>"

text \<open>
  The recovery dispatches with the method of the dispatcher that it is given. \<open>mm_recovery\<close> makes it a function for \<open>r_dispatch\<close>, since a
  dispatch may not return and acts on its own part of the state.
\<close>

definition wire_recovery :: "('k, 'n, 'r, 'w) master_env \<Rightarrow> MasterConfig \<Rightarrow> 'r JobRecovery" where
  "wire_recovery env cfg = mm_recovery env (wire_dispatcher env cfg)
     \<lparr>r_interval := mc_JobRecoveryInterval cfg, r_batchSize := mc_JobRecoveryBatchSize cfg, r_leaseTTL := mc_JobLeaseTTL cfg\<rparr>"

definition wire_master :: "('k, 'n, 'r, 'w) master_env \<Rightarrow> MasterConfig \<Rightarrow> time \<Rightarrow> job_db \<Rightarrow> ('n, 'r) Master" where
  "wire_master env cfg now jobStore =
     \<lparr>ma_gateway = wire_gateway env cfg now jobStore, ma_recovery = wire_recovery env cfg, ma_CertDir = mc_CertDir cfg,
      ma_Port = mc_Port cfg, ma_ShutdownTimeout = mc_ShutdownTimeout cfg, ma_CleanupInterval = mc_CleanupInterval cfg\<rparr>"

text \<open>What the program logs when a step fails starts with the name of the step.\<close>

definition act_failing :: "string \<Rightarrow> ('w \<Rightarrow> 'a outcome \<times> 'w) \<Rightarrow> 'w \<Rightarrow> 'a outcome \<times> 'w" where
  "act_failing text a w = (case a w of (Failed err, w) \<Rightarrow> (Failed (text @ err), w) | (Value v, w) \<Rightarrow> (Value v, w) | (Panic err, w) \<Rightarrow> (Panic err, w))"

lemma act_failing_Value [simp]: "act_failing text a w = (Value v, w') \<longleftrightarrow> a w = (Value v, w')"
  by (auto simp: act_failing_def split: prod.splits outcome.splits)

definition master_setup :: "('k, 'n, 'r, 'w) master_env \<Rightarrow> 'w \<Rightarrow> ('n, 'r) Master outcome \<times> 'w" where
  "master_setup env w =
     (case LoadMaster (mm_config env) of
        Inl err \<Rightarrow> (Failed (''failed to load master config: '' @ err), w)
      | Inr cfg \<Rightarrow>
          (let now = mm_now env w in
           act_bind (act_failing ''failed to open durable job store: ''
                       (NewSQLiteJobStore (bt_files (mm_boot env)) (mm_sql env) (mc_JobStorePath cfg))) (\<lambda>jobStore.
           act_bind (if mc_AutoGenerateCerts cfg
                     then act_failing ''failed to generate local certs: ''
                       (GenerateCAAndCerts (bt_crypto (mm_boot env)) (mc_CertDir cfg) (mc_WorkerIDForCert cfg))
                     else Pair (Value ())) (\<lambda>_.
           Pair (Value (wire_master env cfg now jobStore)))) w))"

section \<open>The command init\<close>

definition master_defaultConfigDir :: "('k, 'n, 'r, 'w) master_env \<Rightarrow> string" where
  "master_defaultConfigDir env = (if mm_windows env then ''C:'' @ [CHR 0x5C] @ ''wasmcat'' else ''/etc/wasmcat'')"

definition master_flags :: "(string \<times> flag_kind) list" where
  "master_flags =
     [(''config-dir'', StringFlag), (''cert-dir'', StringFlag), (''port'', StringFlag), (''cleanup-interval'', StringFlag),
      (''worker-stale-timeout'', StringFlag), (''master-shutdown-timeout'', StringFlag), (''min-worker-cpu-free'', FloatFlag),
      (''min-worker-ram-free-mb'', FloatFlag), (''execute-client-allowlist'', StringFlag), (''max-execution-request-bytes'', IntFlag),
      (''execution-request-cache-ttl'', StringFlag), (''execution-request-cache-max-entries'', IntFlag), (''job-store-path'', StringFlag),
      (''job-max-attempts'', IntFlag), (''job-lease-ttl'', StringFlag), (''job-recovery-interval'', StringFlag), (''job-recovery-batch-size'', IntFlag),
      (''module-host-allowlist'', StringFlag), (''require-module-digest'', BoolFlag), (''dev-worker-id'', StringFlag), (''dev-certs'', BoolFlag), (''force'', BoolFlag)]"

definition master_options :: "flag_env \<Rightarrow> string \<Rightarrow> (string \<times> string) list \<Rightarrow> MasterOptions" where
  "master_options env configDir passed =
     \<lparr>mo_ConfigDir = flag_String passed ''config-dir'' configDir, mo_CertDir = flag_String passed ''cert-dir'' '''',
      mo_Port = flag_String passed ''port'' ''7270'', mo_CleanupInterval = flag_String passed ''cleanup-interval'' ''15s'',
      mo_WorkerStaleTimeout = flag_String passed ''worker-stale-timeout'' ''30s'', mo_ShutdownTimeout = flag_String passed ''master-shutdown-timeout'' ''5s'',
      mo_MinWorkerCPUFree = flag_Float64 env passed ''min-worker-cpu-free'' (Fin 0),
      mo_MinWorkerRAMFreeMB = flag_Float64 env passed ''min-worker-ram-free-mb'' (Fin 0),
      mo_ExecuteClientIDs = flag_String passed ''execute-client-allowlist'' '''',
      mo_MaxExecuteBodyBytes = flag_Int env passed ''max-execution-request-bytes'' (2 * 2 ^ 20),
      mo_RequestCacheTTL = flag_String passed ''execution-request-cache-ttl'' ''5m'',
      mo_RequestCacheMaxEntries = flag_Int env passed ''execution-request-cache-max-entries'' 4096,
      mo_JobStorePath = flag_String passed ''job-store-path'' '''', mo_JobMaxAttempts = flag_Int env passed ''job-max-attempts'' 3,
      mo_JobLeaseTTL = flag_String passed ''job-lease-ttl'' ''30s'', mo_JobRecoveryInterval = flag_String passed ''job-recovery-interval'' ''5s'',
      mo_JobRecoveryBatchSize = flag_Int env passed ''job-recovery-batch-size'' 32,
      mo_ModuleHostAllowlist = flag_String passed ''module-host-allowlist'' '''', mo_RequireModuleDigest = flag_Bool env passed ''require-module-digest'' False,
      mo_DevWorkerID = flag_String passed ''dev-worker-id'' ''worker-vn-01'', mo_GenerateDevCerts = flag_Bool env passed ''dev-certs'' False,
      mo_Force = flag_Bool env passed ''force'' False\<rparr>"

text \<open>What \<open>init\<close> prints of a result; the program of the worker prints the same with its own name.\<close>

definition result_lines :: "string \<Rightarrow> Result \<Rightarrow> string list" where
  "result_lines role result =
     [''created '' @ role @ '' config: '' @ rl_ConfigPath result @ [CHR 0x0A], ''using certificate directory: '' @ rl_CertDir result @ [CHR 0x0A]]
     @ map (\<lambda>warning. ''next: '' @ warning @ [CHR 0x0A]) (rl_Warnings result)"

definition master_runInit :: "('k, 'n, 'r, 'w) master_env \<Rightarrow> string list \<Rightarrow> 'w \<Rightarrow> unit outcome \<times> 'w" where
  "master_runInit env args w =
     (case flag_Parse (mm_flags env) master_flags args of
        Inl err \<Rightarrow> (Failed err, mm_flag_report env err w)
      | Inr (passed, _) \<Rightarrow>
          act_bind (InitMaster (mm_boot env) (master_options (mm_flags env) (master_defaultConfigDir env) passed)) (\<lambda>result w.
          (Value (), fold (mm_stdout env) (result_lines ''master'' result) w)) w)"

section \<open>The program\<close>

text \<open>The exit status; an uncaught panic ends a program with status 2. \<open>mm_log\<close> is \<open>slog.Error\<close>, with its text and error.\<close>

definition finish_init :: "(string \<Rightarrow> 'w \<Rightarrow> 'w) \<Rightarrow> unit outcome \<times> 'w \<Rightarrow> int \<times> 'w" where
  "finish_init stderr res =
     (case res of
        (Value _, w) \<Rightarrow> (0, w)
      | (Failed err, w) \<Rightarrow> (1, stderr (''init failed: '' @ err @ [CHR 0x0A]) w)
      | (Panic err, w) \<Rightarrow> (2, w))"

definition serve_master :: "('k, 'n, 'r, 'w) master_env \<Rightarrow> 'w \<Rightarrow> int \<times> 'w" where
  "serve_master env w =
     (case master_setup env w of
        (Failed err, w) \<Rightarrow> (0, mm_log env err w)
      | (Panic _, w) \<Rightarrow> (2, w)
      | (Value m, w) \<Rightarrow>
          (case Gateway_Start (mm_serve env) (ma_CertDir m) (ma_ShutdownTimeout m) (ma_gateway m) (ma_Port m) w of
             (None, w) \<Rightarrow> (0, w)
           | (Some err, w) \<Rightarrow> (0, mm_log env (''master gateway crashed: '' @ err) w)))"

definition master_main :: "('k, 'n, 'r, 'w) master_env \<Rightarrow> string list \<Rightarrow> 'w \<Rightarrow> int \<times> 'w" where
  "master_main env args w =
     (case args of
        [] \<Rightarrow> serve_master env w
      | first # rest \<Rightarrow>
          if first = ''version'' then (0, mm_stdout env (''wasmcat-master '' @ mm_version env @ [CHR 0x0A]) w)
          else if first = ''init'' then finish_init (mm_stderr env) (master_runInit env rest w)
          else serve_master env w)"

section \<open>A master runs under its configuration\<close>

lemma loadThresholds_valid:
  "loadThresholds env = Inr (cpu, ram) \<Longrightarrow> \<not> flt_less cpu (Fin 0) \<and> \<not> flt_less (Fin 100) cpu \<and> \<not> flt_less ram (Fin 0)"
  by (auto simp: loadThresholds_def split: if_splits)

lemma LoadMaster_fields:
  assumes "LoadMaster env = Inr cfg"
  shows "0 < mc_CleanupInterval cfg" "0 < mc_WorkerStaleTimeout cfg" "0 < mc_ShutdownTimeout cfg" "0 < mc_MaxExecuteBodyBytes cfg"
    "0 < mc_RequestCacheTTL cfg" "0 < mc_RequestCacheMaxEntries cfg" "0 < mc_JobMaxAttempts cfg" "0 < mc_JobLeaseTTL cfg"
    "0 < mc_JobRecoveryInterval cfg" "0 < mc_JobRecoveryBatchSize cfg"
    "\<not> flt_less (mc_MinWorkerCPUFree cfg) (Fin 0) \<and> \<not> flt_less (Fin 100) (mc_MinWorkerCPUFree cfg) \<and> \<not> flt_less (mc_MinWorkerRAMFreeMB cfg) (Fin 0)"
  using assms unfolding LoadMaster_def by (auto dest!: positive_envs loadThresholds_valid)


lemma master_setup_Value:
  assumes "master_setup env w = (Value m, w')"
  obtains cfg jobStore w1 where "LoadMaster (mm_config env) = Inr cfg"
    "NewSQLiteJobStore (bt_files (mm_boot env)) (mm_sql env) (mc_JobStorePath cfg) w = (Value jobStore, w1)"
    "m = wire_master env cfg (mm_now env w) jobStore"
  using assms by (cases "LoadMaster (mm_config env)") (auto simp: master_setup_def act_bind_Value Let_def)

text \<open>
  (C21) A master that starts runs under exactly the configuration it was given. Each of its parts has a
  default of its own that it falls back to when a setting is not positive; once \<open>LoadMaster\<close> has accepted
  the environment none of these defaults comes into play, so that the values in effect in the registry, the scheduler, the
  gateway, the recovery and the shutdown are the loaded ones, and gateway and recovery use the same lease.
\<close>

theorem master_config_applies:
  assumes "master_setup env w = (Value m, w')"
  shows "\<exists>cfg d. LoadMaster (mm_config env) = Inr cfg \<and>
    maxExecuteBodyBytes (ma_gateway m) = mc_MaxExecuteBodyBytes cfg \<and> requestCacheTTL (ma_gateway m) = mc_RequestCacheTTL cfg \<and>
    requestCacheMaxEntries (ma_gateway m) = mc_RequestCacheMaxEntries cfg \<and> jobMaxAttempts (ma_gateway m) = mc_JobMaxAttempts cfg \<and>
    jobLeaseTTL (ma_gateway m) = mc_JobLeaseTTL cfg \<and> leaseTTL (ma_recovery m) = mc_JobLeaseTTL cfg \<and>
    interval (ma_recovery m) = mc_JobRecoveryInterval cfg \<and> batchSize (ma_recovery m) = mc_JobRecoveryBatchSize cfg \<and>
    gw_Registry (ma_gateway m) = Some \<lparr>workers = [], workerStaleTimeout = mc_WorkerStaleTimeout cfg\<rparr> \<and>
    gw_Dispatcher (ma_gateway m) = Some d \<and> MinCPUFree (d_scheduler d) = mc_MinWorkerCPUFree cfg \<and>
    MinRAMFreeMB (d_scheduler d) = mc_MinWorkerRAMFreeMB cfg \<and> gw_ExecuteClientIDs (ma_gateway m) = mc_ExecuteClientIDs cfg \<and>
    gw_ModulePolicy (ma_gateway m) = \<lparr>AllowedHosts = mc_ModuleHostAllowlist cfg, RequireDigest = mc_RequireModuleDigest cfg\<rparr> \<and>
    gateway_shutdownTimeout (ma_ShutdownTimeout m) = mc_ShutdownTimeout cfg \<and> ma_CertDir m = mc_CertDir cfg \<and>
    ma_Port m = mc_Port cfg \<and> ma_CleanupInterval m = mc_CleanupInterval cfg \<and> 0 < ma_CleanupInterval m"
proof -
  obtain cfg jobStore w1 where l: "LoadMaster (mm_config env) = Inr cfg" and m: "m = wire_master env cfg (mm_now env w) jobStore"
    using master_setup_Value [OF assms] by metis
  note f = LoadMaster_fields [OF l]
  show ?thesis
    by (rule exI [of _ cfg], rule exI [of _ "wire_dispatcher env cfg"])
      (use f in \<open>simp add: l m wire_master_def wire_gateway_def wire_recovery_def wire_dispatcher_def maxExecuteBodyBytes_def requestCacheTTL_def
        requestCacheMaxEntries_def jobMaxAttempts_def jobLeaseTTL_def leaseTTL_def interval_def batchSize_def
        NewRegistryWithStaleTimeout_def gateway_shutdownTimeout_def\<close>)
qed

section \<open>What a start of the master does\<close>

lemma master_main_serves:
  assumes "take 1 args \<noteq> [''init'']" "take 1 args \<noteq> [''version'']"
  shows "master_main env args w = serve_master env w"
  using assms by (cases args) (simp_all add: master_main_def)

text \<open>
  A master that is started serves when its configuration loads, its job store opens and its certificates are there; then it
  serves the gateway that is wired from them. Otherwise it only logs an error. Opening the store, writing certificates and logging start no server.
\<close>

lemma master_start:
  assumes "notes_servers (mm_serve env) h" "\<And>e w. h (mm_log env e w) = h w" "\<And>w. h (snd (master_setup env w)) = h w"
    and "serve_master env w = (status, w')"
  shows "status = 2 \<and> (\<exists>err. fst (master_setup env w) = Panic err) \<or>
    status = 0 \<and> (port_taken (mm_serve env) \<longrightarrow> (\<exists>err w1. w' = mm_log env err w1)) \<and>
      starts_or_logs h (mm_log env) (\<lambda>server. \<exists>cfg jobStore w1 m. LoadMaster (mm_config env) = Inr cfg \<and>
        NewSQLiteJobStore (bt_files (mm_boot env)) (mm_sql env) (mc_JobStorePath cfg) w = (Value jobStore, w1) \<and>
        fst (master_setup env w) = Value m \<and> hs_Handler server = wire_gateway env cfg (mm_now env w) jobStore \<and>
        hs_Addr server = CHR '':'' # mc_Port cfg) w w'"
proof -
  obtain start w1 where s: "master_setup env w = (start, w1)" by (rule prod.exhaust)
  have w1: "h w1 = h w" using assms(3) [of w] s by simp
  show ?thesis
  proof (cases start)
    case (Value m)
    obtain cfg jobStore w0 where m: "LoadMaster (mm_config env) = Inr cfg"
      "NewSQLiteJobStore (bt_files (mm_boot env)) (mm_sql env) (mc_JobStorePath cfg) w = (Value jobStore, w0)"
      "m = wire_master env cfg (mm_now env w) jobStore"
      by (rule master_setup_Value [OF s [unfolded Value]])
    obtain err w2 where g: "Gateway_Start (mm_serve env) (ma_CertDir m) (ma_ShutdownTimeout m) (ma_gateway m) (ma_Port m) w1 = (err, w2)"
      by (rule prod.exhaust)
    have run: "status = 0" "w' = (case err of None \<Rightarrow> w2 | Some e \<Rightarrow> mm_log env (''master gateway crashed: '' @ e) w2)"
      using assms(4) s Value g by (auto simp: serve_master_def split: option.splits)
    have "h w' = h w2" using run(2) assms(2) by (cases err) simp_all
    moreover have "port_taken (mm_serve env) \<longrightarrow> err \<noteq> None" using Start_taken(1) g by (metis fst_conv)
    moreover have "err \<noteq> None \<longrightarrow> (\<exists>e w1. w' = mm_log env e w1)" unfolding run(2) by (cases err) (simp, simp only: option.simps, blast)
    ultimately show ?thesis
      using Gateway_Start_listens [OF assms(1) g] run(1) w1 m s Value
      by (auto simp: listens_def starts_or_logs_def wire_master_def)
  next
    case (Failed e)
    then have "status = 0" "w' = mm_log env e w1" using assms(4) s by (simp_all add: serve_master_def)
    then show ?thesis using w1 assms(2) by (auto simp: starts_or_logs_def)
  next
    case (Panic e)
    then show ?thesis using assms(4) s by (simp add: serve_master_def)
  qed
qed

section \<open>What init writes, the master loads\<close>

text \<open>Printing changes no file.\<close>

definition prints_only :: "'w files \<Rightarrow> (string \<Rightarrow> 'w \<Rightarrow> 'w) \<Rightarrow> bool" where
  "prints_only fs out \<longleftrightarrow> (\<forall>s w p. fi_ReadFile fs p (out s w) = fi_ReadFile fs p w)"

lemma prints_only_fold: "prints_only fs out \<Longrightarrow> fi_ReadFile fs p (fold out ls w) = fi_ReadFile fs p w"
  by (induction ls arbitrary: w) (simp_all add: prints_only_def)

lemma master_runInit_Value:
  assumes "master_runInit env args w = (Value u, w')"
  obtains passed left result w1 where "flag_Parse (mm_flags env) master_flags args = Inr (passed, left)"
    "InitMaster (mm_boot env) (master_options (mm_flags env) (master_defaultConfigDir env) passed) w = (Value result, w1)"
    "w' = fold (mm_stdout env) (result_lines ''master'' result) w1"
  using assms by (cases "flag_Parse (mm_flags env) master_flags args") (auto simp: master_runInit_def act_bind_Value)


text \<open>
  (C23) What \<open>wasmcat-master init\<close> writes, the master loads. If the command succeeds, the file \<open>master.env\<close> of the directory
  that was asked for holds the variables of the flags that were passed, with their defaults filled in, and a master that
  is started with those variables loads exactly the configuration these flags stand for: no check of \<open>LoadMaster\<close>
  is left that the command does not make first. (Durations are read the same way by both, a number that
  was printed is read back as it was, and printing changes no file.)
\<close>

theorem init_configures_master:
  assumes "writes_files (bt_files (mm_boot env))" "prints_only (bt_files (mm_boot env)) (mm_stdout env)"
    and "master_runInit env args w = (Value u, w')"
  shows "\<exists>passed left opts. flag_Parse (mm_flags env) master_flags args = Inr (passed, left) \<and>
    opts = normalizeMaster (master_options (mm_flags env) (master_defaultConfigDir env) passed) \<and>
    fi_ReadFile (bt_files (mm_boot env)) (path_Join (flag_String passed ''config-dir'' (master_defaultConfigDir env)) ''master.env'') w' =
      Bytes (env_text (master_values (mm_boot env) opts)) \<and>
    (\<forall>cenv. reads_back (mm_boot env) (master_values (mm_boot env) opts) [mo_MinWorkerCPUFree opts, mo_MinWorkerRAMFreeMB opts]
        [mo_MaxExecuteBodyBytes opts, mo_RequestCacheMaxEntries opts, mo_JobMaxAttempts opts, mo_JobRecoveryBatchSize opts] cenv \<longrightarrow>
      LoadMaster cenv = Inr (master_config (mm_boot env) opts))"
proof -
  obtain passed left result w1 where p: "flag_Parse (mm_flags env) master_flags args = Inr (passed, left)"
    and i: "InitMaster (mm_boot env) (master_options (mm_flags env) (master_defaultConfigDir env) passed) w = (Value result, w1)"
    and w: "w' = fold (mm_stdout env) (result_lines ''master'' result) w1"
    by (rule master_runInit_Value [OF assms(3)])
  have "mo_ConfigDir (master_options (mm_flags env) (master_defaultConfigDir env) passed) = flag_String passed ''config-dir'' (master_defaultConfigDir env)"
    by (simp add: master_options_def)
  with InitMaster_loads [OF assms(1) i refl] p w prints_only_fold [OF assms(2)] show ?thesis
    by - (rule exI [of _ passed], rule exI [of _ left], rule exI, rule conjI [OF p], rule conjI [OF refl], simp)
qed


section \<open>Examples\<close>

definition master_serve_env_a :: "(history Gateway, (string \<times> string) list) serve_env" where
  "master_serve_env_a = \<lparr>se_files = files_a, se_AppendCerts = (\<lambda>_. True), se_not_found = id, se_select = (\<lambda>_ _ w. (Some (Some ErrServerClosed), w)),
     se_Shutdown = (\<lambda>_ w. (None, w)), se_receive = (\<lambda>w. (None, w))\<rparr>"

definition master_env_a :: "(nat, history, ExecutionRequest list, (string \<times> string) list) master_env" where
  "master_env_a = \<lparr>mm_boot = boot_env_a, mm_config = config_of_a [(''AUTO_GENERATE_CERTS'', ''false''), (''MASTER_PORT'', ''9000'')],
     mm_flags = \<lparr>fl_quote = id, fl_ParseFloat = Inl, fl_ParseInt0 = (\<lambda>_. Inr 7), fl_ParseUint0 = Inl, fl_ParseDuration = Inl\<rparr>, mm_flag_report = (\<lambda>_ w. w),
     mm_sql = \<lparr>sq_Open = (\<lambda>_ w. (None, w)), sq_Exec = (\<lambda>_ w. (None, w)), sq_Close = id, sq_table = (\<lambda>_. empty_db)\<rparr>,
     mm_serve = master_serve_env_a, mm_dispatcher = (\<lambda>_. dispatcher_a (\<lambda>_ _ _ _. Fin 1) (Inl ''refused'')), mm_recovery = (\<lambda>_. recovery_a), mm_net = [],
     mm_now = (\<lambda>_. 5), mm_stdout = (\<lambda>_ w. w), mm_stderr = (\<lambda>_ w. w), mm_log = (\<lambda>_ w. w), mm_windows = False, mm_version = ''dev''\<rparr>"

lemma master_setup_a: "case fst (master_setup master_env_a []) of Value m \<Rightarrow> ma_Port m = ''9000'' | _ \<Rightarrow> False"
  by code_simp

theorem master_config_applies_witness:
  "\<exists>m w'. master_setup master_env_a [] = (Value m, w') \<and> leaseTTL (ma_recovery m) = jobLeaseTTL (ma_gateway m) \<and> 0 < ma_CleanupInterval m"
proof -
  obtain m w' where m: "master_setup master_env_a [] = (Value m, w')"
    using master_setup_a by (cases "master_setup master_env_a []") (auto split: outcome.splits)
  then show ?thesis using master_config_applies [OF m] by metis
qed

lemma master_init_a: "case fst (master_runInit master_env_a [''--port'', ''9999'', ''-job-max-attempts=2'', ''--max-execution-request-bytes=7'', ''--config-dir'', ''/c''] []) of Value u \<Rightarrow> True | _ \<Rightarrow> False"
  "case flag_Parse (mm_flags master_env_a) master_flags [''--port'', ''9999'', ''-job-max-attempts=2'', ''--max-execution-request-bytes=7'', ''--config-dir'', ''/c''] of
     Inr (passed, left) \<Rightarrow> flag_String passed ''config-dir'' ''/etc/wasmcat'' = ''/c'' \<and> flag_String passed ''port'' ''7270'' = ''9999'' \<and>
       flag_Int (mm_flags master_env_a) passed ''job-max-attempts'' 3 = 7 | _ \<Rightarrow> False"
  by code_simp+

theorem init_configures_master_witness:
  "\<exists>w' opts. master_runInit master_env_a [''--port'', ''9999'', ''-job-max-attempts=2'', ''--max-execution-request-bytes=7'', ''--config-dir'', ''/c''] [] = (Value (), w') \<and>
     mo_Port opts = ''9999'' \<and> mo_JobMaxAttempts opts = 7 \<and>
     fi_ReadFile files_a (path_Join ''/c'' ''master.env'') w' = Bytes (env_text (master_values boot_env_a opts))"
proof -
  let ?args = "[''--port'', ''9999'', ''-job-max-attempts=2'', ''--max-execution-request-bytes=7'', ''--config-dir'', ''/c'']"
  obtain w' where r: "master_runInit master_env_a ?args [] = (Value (), w')"
    using master_init_a(1) by (cases "master_runInit master_env_a ?args []") (auto split: outcome.splits)
  have e: "bt_files (mm_boot master_env_a) = files_a" "mm_boot master_env_a = boot_env_a" "master_defaultConfigDir master_env_a = ''/etc/wasmcat''"
    by (simp_all add: master_env_a_def boot_env_a_def crypto_a_def master_defaultConfigDir_def)
  have "writes_files (bt_files (mm_boot master_env_a))" "prints_only (bt_files (mm_boot master_env_a)) (mm_stdout master_env_a)"
    using files_a_write by (simp_all add: prints_only_def master_env_a_def)
  from init_configures_master [OF this r] obtain passed left opts where p: "flag_Parse (mm_flags master_env_a) master_flags ?args = Inr (passed, left)"
    "opts = normalizeMaster (master_options (mm_flags master_env_a) (master_defaultConfigDir master_env_a) passed)"
    "fi_ReadFile (bt_files (mm_boot master_env_a)) (path_Join (flag_String passed ''config-dir'' (master_defaultConfigDir master_env_a)) ''master.env'') w' =
      Bytes (env_text (master_values (mm_boot master_env_a) opts))" by blast
  have f: "flag_String passed ''config-dir'' ''/etc/wasmcat'' = ''/c''" "flag_String passed ''port'' ''7270'' = ''9999''"
    "flag_Int (mm_flags master_env_a) passed ''job-max-attempts'' 3 = 7"
    using master_init_a(2) p(1) by simp_all
  then have "mo_Port opts = ''9999''" "mo_JobMaxAttempts opts = 7"
    using p(2) by (simp_all add: normalizeMaster_def master_options_def text_or_def int_or_def)
  with r p(3) f(1) e show ?thesis by auto
qed

end
