(* ===== verification/Master_System.thy ===== *)
theory Master_System
  imports Master_Main
begin

text \<open>
  The running master: what the server, the reaper and the recovery of \<open>src/cmd/master/main.go\<close> do to the state that
  they share.

  A step is a request that is served to its end, a tick of the reaper, or a run of the recovery; every step has
  its own clock and its own surroundings. Requests that overlap are looked at in \<open>Spec2Isabelle\<close>; for
  the invariants here their order does not matter. Of a recovery run the effect on the job table is exact, while
  the counters and tokens it shares with the gateway are left open.
\<close>

section \<open>Steps\<close>

definition sane_env :: "gateway_env \<Rightarrow> bool" where
  "sane_env env \<longleftrightarrow> (\<forall>i. ge_clock env i \<noteq> 0) \<and> json_nonempty (ge_store env)"

inductive master_step :: "'n Gateway \<Rightarrow> 'n Gateway \<Rightarrow> bool" where
  serves: "sane_env env \<Longrightarrow> Handler env r g = Some (rep, g') \<Longrightarrow> master_step g g'"
| reaps: "gw_Registry g = Some reg \<Longrightarrow> master_step g (g\<lparr>gw_Registry := Some (CleanupAt it now reg)\<rparr>)"
| recovers: "gw_JobStore g = Some db \<Longrightarrow> json_nonempty (r_env r) \<Longrightarrow> RecoverOnce r \<lparr>rs_db = db, rs_metrics = gw_Metrics g, rs_world = gw_net g\<rparr> = (e, s) \<Longrightarrow>
    master_step g (g\<lparr>gw_JobStore := Some (rs_db s), gw_Metrics := m, gw_tokens := tokens, gw_net := rs_world s\<rparr>)"

inductive_cases master_stepE: "master_step g g'"

section \<open>Invariant\<close>

definition idle_tracker :: "ExecutionRequestTracker option \<Rightarrow> bool" where
  "idle_tracker t \<longleftrightarrow> (case t of None \<Rightarrow> True | Some t \<Rightarrow> tr_entries t = [])"

definition master_wf :: "'n Gateway \<Rightarrow> bool" where
  "master_wf g \<longleftrightarrow> (\<exists>reg. gw_Registry g = Some reg \<and> registry_wf reg) \<and> gw_Dispatcher g \<noteq> None \<and>
     (\<exists>db. gw_JobStore g = Some db \<and> store_wf db) \<and> idle_tracker (gw_Requests g)"

definition same_settings :: "'n Gateway \<Rightarrow> 'n Gateway \<Rightarrow> bool" where
  "same_settings g g' \<longleftrightarrow> gw_Dispatcher g' = gw_Dispatcher g \<and> gw_ExecuteClientIDs g' = gw_ExecuteClientIDs g \<and>
     gw_MaxExecuteBodyBytes g' = gw_MaxExecuteBodyBytes g \<and> gw_ModulePolicy g' = gw_ModulePolicy g \<and>
     gw_RequestCacheTTL g' = gw_RequestCacheTTL g \<and> gw_RequestCacheMaxEntries g' = gw_RequestCacheMaxEntries g \<and>
     gw_JobMaxAttempts g' = gw_JobMaxAttempts g \<and> gw_JobLeaseTTL g' = gw_JobLeaseTTL g"

lemma same_settings_refl [simp]: "same_settings g g"
  by (simp add: same_settings_def)

lemma same_settings_trans: "same_settings g g' \<Longrightarrow> same_settings g' g'' \<Longrightarrow> same_settings g g''"
  by (simp add: same_settings_def)

lemma master_wf_store [simp]: "master_wf g \<Longrightarrow> store_wf db \<Longrightarrow> master_wf (g\<lparr>gw_JobStore := Some db\<rparr>)"
  by (simp add: master_wf_def)

lemma master_wf_registry [simp]: "master_wf g \<Longrightarrow> registry_wf reg \<Longrightarrow> master_wf (g\<lparr>gw_Registry := Some reg\<rparr>)"
  by (simp add: master_wf_def)

lemma master_wf_other [simp]:
  "master_wf (with_metrics env inc g) = master_wf g" "master_wf (attachDispatcherMetrics env g) = master_wf g"
  "master_wf (g\<lparr>gw_Metrics := m\<rparr>) = master_wf g"
  "master_wf (g\<lparr>gw_tokens := tokens, gw_Metrics := m, gw_net := net\<rparr>) = master_wf g"
  by (simp_all add: master_wf_def with_metrics_def attachDispatcherMetrics_def)

lemma same_settings_other [simp]:
  "same_settings g (with_metrics env inc g')  = same_settings g g'" "same_settings g (attachDispatcherMetrics env g') = same_settings g g'"
  "same_settings (with_metrics env inc g) g'  = same_settings g g'"
  "same_settings g (g'\<lparr>gw_JobStore := x\<rparr>) = same_settings g g'" "same_settings g (g'\<lparr>gw_Registry := y\<rparr>) = same_settings g g'"
  "same_settings g (g'\<lparr>gw_Requests := z\<rparr>) = same_settings g g'" "same_settings g (g'\<lparr>gw_Metrics := m\<rparr>) = same_settings g g'"
  "same_settings g (g'\<lparr>gw_tokens := tokens, gw_Metrics := m, gw_net := net\<rparr>) = same_settings g g'"
  by (simp_all add: same_settings_def with_metrics_def attachDispatcherMetrics_def)

text \<open>What serving a request keeps: no panic, the invariant, and the settings.\<close>

definition served :: "'n Gateway \<Rightarrow> reply \<times> 'n Gateway \<Rightarrow> bool" where
  "served g out \<longleftrightarrow> fst out \<noteq> Panicked \<and> master_wf (snd out) \<and> same_settings g (snd out)"

lemma served_refused [simp]: "served g (Replied resp, g) = master_wf g"
  by (simp add: served_def)

lemma served_pair: "served g (rep, g') = (rep \<noteq> Panicked \<and> master_wf g' \<and> same_settings g g')"
  by (simp add: served_def)

lemma master_wf_parts:
  assumes "master_wf g"
  obtains reg db where "gw_Registry g = Some reg" "registry_wf reg" "gw_JobStore g = Some db" "store_wf db"
  using assms by (auto simp: master_wf_def)

section \<open>The handlers\<close>

lemma idle_Stats: "idle_tracker t \<Longrightarrow> idle_tracker (snd (Stats it now t))"
  by (auto simp: idle_tracker_def Stats_def removeExpiredCompletedLocked_def delete_where_eq Let_def split: option.splits)

lemma idle_with_requests [simp]: "idle_tracker (gw_Requests (with_requests g)) = idle_tracker (gw_Requests g)"
  by (auto simp: with_requests_def idle_tracker_def NewExecutionRequestTrackerWithLimit_def Let_def split: option.splits)

lemma with_requests_keeps [simp]: "master_wf (with_requests g) = master_wf g" "same_settings g0 (with_requests g) = same_settings g0 g"
  using idle_with_requests [of g]
  by (auto simp: master_wf_def same_settings_def with_requests_def split: option.splits)

lemma with_requests_Registry [simp]: "gw_Registry (with_requests g) = gw_Registry g"
  by (simp add: with_requests_def split: option.split)

lemma handleMetrics_served:
  assumes "master_wf g"
  shows "served g (handleMetrics env r g)"
proof (cases "RequireMethod r MethodGet")
  case None
  let ?g = "with_requests (attachDispatcherMetrics env g)"
  obtain reg where reg: "gw_Registry ?g = Some reg"
    using assms by (elim master_wf_parts) simp
  obtain stats requests where st: "Stats (ge_tracked env) (ge_clock env 2) (gw_Requests ?g) = (stats, requests)" by (rule prod.exhaust)
  have "idle_tracker (gw_Requests ?g)" using assms by (simp add: master_wf_def)
  then have idle: "idle_tracker requests" using idle_Stats st by (metis snd_conv)
  let ?h = "with_metrics env (\<lambda>m. m) (?g\<lparr>gw_Requests := requests\<rparr>)"
  have "master_wf ?g" using assms by simp
  then have wf: "master_wf ?h" using idle by (simp add: master_wf_def)
  have "\<exists>m. gw_Metrics ?h = Some m" by (simp add: with_metrics_def split: option.split)
  then obtain m where m: "gw_Metrics ?h = Some m" by blast
  show ?thesis using None reg st wf m
    by (simp add: handleMetrics_def served_pair MasterSnapshotWithRequestTracker_def Let_def del: RequireMethod_None)
qed (use assms in \<open>simp add: handleMetrics_def\<close>)


lemma control_handlers_served:
  assumes "master_wf g" "sane_env env"
  shows "served g (handleHealth r g)" "served g (handleReady r g)" "served g (handleListWorkers env r g)"
    "served g (handleRegister env r g)" "served g (handleHeartbeat env r g)" "served g (handleDrain env r g)"
    "served g (handleWorkerSubresource env r g)"
proof -
  obtain reg db where p: "gw_Registry g = Some reg" "registry_wf reg" "gw_JobStore g = Some db" "store_wf db"
    by (rule master_wf_parts [OF assms(1)])
  have now: "ge_clock env i \<noteq> 0" for i using assms(2) by (simp add: sane_env_def)
  have drain: "served g (drain_and_reply env k reg g)" for k
  proof -
    obtain e reg' where d: "DrainWorker (ge_clock env 0) k reg = (e, reg')" by (rule prod.exhaust)
    have "registry_wf reg'" using DrainWorker_wf [OF p(2) now, of 0 k] d by simp
    then show ?thesis using assms(1) d by (simp add: drain_and_reply_def served_pair split: option.split)
  qed
  have beat: "served g (case UpdateWorkerStatus (ge_clock env 0) b reg of
      (Some err, reg) \<Rightarrow> (Replied (WriteError 404 ''worker_not_found'' (Some err)), g\<lparr>gw_Registry := Some reg\<rparr>)
    | (None, reg) \<Rightarrow> (Replied (WriteJSON 200 JEmpty), g\<lparr>gw_Registry := Some reg\<rparr>))" for b
  proof -
    obtain e reg' where d: "UpdateWorkerStatus (ge_clock env 0) b reg = (e, reg')" by (rule prod.exhaust)
    have "registry_wf reg'" using UpdateWorkerStatus_wf [OF p(2) now, of 0 b] d by simp
    then show ?thesis using assms(1) d by (simp add: served_pair split: option.split)
  qed
  show "served g (handleHealth r g)" using assms(1) by (simp add: handleHealth_def split: option.split)
  show "served g (handleReady r g)" using assms(1) by (simp add: handleReady_def split: option.split)
  show "served g (handleListWorkers env r g)" using assms(1) p by (simp add: handleListWorkers_def split: option.split)
  show "served g (handleRegister env r g)"
    using assms(1) p RegisterWorker_wf [OF p(2) now] by (simp add: handleRegister_def served_pair split: option.split decoded.split)
  show "served g (handleHeartbeat env r g)"
    using assms(1) p beat by (simp add: handleHeartbeat_def split: option.split decoded.split)
  show "served g (handleDrain env r g)"
    using assms(1) p drain by (simp add: handleDrain_def split: option.split decoded.split)
  have "served g (handleOperatorDrain env k r g)" for k
    using assms(1) p drain by (simp add: handleOperatorDrain_def split: option.split)
  then show "served g (handleWorkerSubresource env r g)"
    using assms(1) by (simp add: handleWorkerSubresource_def Let_def split: prod.split)
qed

section \<open>The job table\<close>

lemma record_completion_wf:
  assumes "store_wf db" "json_nonempty (ge_store env)" "JobCompletionRequest_Validate c = None" "record_completion env c db = (rep, db')"
  shows "rep \<noteq> Panicked \<and> store_wf db'"
proof (cases "jc_Status c = JobCompletionSucceeded")
  case True
  then obtain x where x: "jc_Response c = Some x"
    using assms(3) by (auto simp: JobCompletionRequest_Validate_def split: if_splits option.splits)
  define y where "y = x\<lparr>resp_RequestID := jc_RequestID c,
      resp_ExecutedOnNodeID := (if resp_ExecutedOnNodeID x = '''' then jc_WorkerID c else resp_ExecutedOnNodeID x)\<rparr>"
  obtain e db1 where m: "MarkSucceeded (ge_store env) (ge_clock env 0) (jc_RequestID c) y db = (e, db1)" by (rule prod.exhaust)
  have "store_wf db1" using MarkSucceeded_store_wf [OF assms(1,2), of "ge_clock env 0" "jc_RequestID c" y] m by simp
  then show ?thesis using assms(4) True x m by (auto simp: record_completion_def y_def Let_def split: option.splits)
next
  case False
  obtain e db1 where m: "MarkFailed (ge_clock env 0) (jc_RequestID c) (jc_Error c) db = (e, db1)" by (rule prod.exhaust)
  have "store_wf db1" using Mark_store_wf(3) [OF assms(1), of "ge_clock env 0" "jc_RequestID c" "jc_Error c"] m by simp
  then show ?thesis using assms(1,4) False m
    by (cases "jc_Status c = JobCompletionFailed") (auto simp: record_completion_def Let_def split: option.splits)
qed

lemma handleJobCompletion_served:
  assumes "master_wf g" "sane_env env"
  shows "served g (handleJobCompletion env r g)"
proof -
  obtain reg db where p: "gw_JobStore g = Some db" "store_wf db" by (rule master_wf_parts [OF assms(1)])
  have "served g (case record_completion env c db of (rep, db) \<Rightarrow> (rep, g\<lparr>gw_JobStore := Some db\<rparr>))"
    if "JobCompletionRequest_Validate c = None" for c
    using record_completion_wf [OF p(2) _ that, of env] assms by (auto simp: sane_env_def served_pair split: prod.split)
  then show ?thesis using assms(1) p by (simp add: handleJobCompletion_def split: option.split decoded.split)
qed

lemma new_job_ok: "job_ok (NewJobRecord req f n now)"
  by (simp add: job_ok_def NewJobRecord_def Let_def job_statuses)

lemma stores_wf:
  assumes "store_wf db"
  shows "Create env now (NewJobRecord req f n t) db = (e, db') \<Longrightarrow> store_wf db'"
    "Get env k db = (res, db') \<Longrightarrow> store_wf db'" "MarkDispatching now k w l db = (e, db') \<Longrightarrow> store_wf db'"
    "MarkFailed now k reason db = (e, db') \<Longrightarrow> store_wf db'" "MarkQueued now k reason db = (e, db') \<Longrightarrow> store_wf db'"
    "MarkAmbiguous now k reason db = (e, db') \<Longrightarrow> store_wf db'"
    "json_nonempty env \<Longrightarrow> MarkSucceeded env now k resp db = (e, db') \<Longrightarrow> store_wf db'"
    "ListRecoverable env now b db = (jobs, db') \<Longrightarrow> store_wf db'"
  using Create_store_wf [OF assms new_job_ok, of env now req f n t] Get_store_wf [OF assms, of env k] Mark_store_wf(1) [OF assms, of now k reason]
    Mark_store_wf(2) [OF assms, of now k w l] Mark_store_wf(3) [OF assms, of now k reason] Mark_store_wf(4) [OF assms, of now k reason]
    MarkSucceeded_store_wf [OF assms, of env now k resp] ListRecoverable_store_wf [OF assms, of env now b]
  by auto


section \<open>Executions and jobs\<close>

text \<open>\<open>None\<close> is a request that is never answered.\<close>

definition served_opt :: "'n Gateway \<Rightarrow> (reply \<times> 'n Gateway) option \<Rightarrow> bool" where
  "served_opt g out \<longleftrightarrow> (case out of None \<Rightarrow> True | Some o1 \<Rightarrow> served g o1)"

lemma served_opt_simps [simp]: "served_opt g None" "served_opt g (Some out) = served g out"
  by (simp_all add: served_opt_def)

lemma gateway_dispatch_keeps:
  assumes "master_wf g" "gateway_dispatch env req g = Some (res, g')"
  shows "\<exists>ans. res = Inr ans" "master_wf g'" "same_settings g g'"
  using assms by (auto simp: gateway_dispatch_def master_wf_def split: option.splits prod.splits)

lemma beginDurableJob_wf:
  assumes "store_wf db" "beginDurableJob env n req db = (out, db')"
  shows "store_wf db'"
proof (cases "ge_fingerprint env req")
  case (Inr f)
  let ?job = "NewJobRecord req f n (ge_clock env 1)"
  obtain c db1 where c: "Create (ge_store env) (ge_clock env 2) ?job db = (c, db1)" by (rule prod.exhaust)
  have 1: "store_wf db1" by (rule stores_wf(1) [OF assms(1) c])
  obtain res db2 where g: "Get (ge_store env) (req_RequestID req) db1 = (res, db2)" by (rule prod.exhaust)
  have 2: "store_wf db2" by (rule stores_wf(2) [OF 1 g])
  show ?thesis
  proof (cases c)
    case (Some e)
    then show ?thesis using assms(2) Inr c g 1 2 by (cases e) (auto simp: beginDurableJob_def Let_def split: sum.splits if_splits)
  qed (use assms(2) Inr c 1 in \<open>simp add: beginDurableJob_def Let_def\<close>)
qed (use assms in \<open>simp add: beginDurableJob_def\<close>)

lemma createQueuedJob_wf:
  assumes "store_wf db" "createQueuedJob env n req db = (out, db')"
  shows "store_wf db' \<and> (\<forall>job. out \<noteq> Inl (Starts job))"
proof (cases "ge_fingerprint env req")
  case (Inr f)
  let ?job = "NewJobRecord req f n (ge_clock env 1)"
  obtain c db1 where c: "Create (ge_store env) (ge_clock env 2) ?job db = (c, db1)" by (rule prod.exhaust)
  have 1: "store_wf db1" by (rule stores_wf(1) [OF assms(1) c])
  obtain res db2 where g: "Get (ge_store env) (req_RequestID req) db1 = (res, db2)" by (rule prod.exhaust)
  have 2: "store_wf db2" by (rule stores_wf(2) [OF 1 g])
  show ?thesis
  proof (cases c)
    case (Some e)
    then show ?thesis using assms(2) Inr c g 1 2
      by (cases e) (auto simp: createQueuedJob_def request_id_conflict_def Let_def split: sum.splits if_splits)
  qed (use assms(2) Inr c 1 in \<open>auto simp: createQueuedJob_def Let_def\<close>)
qed (use assms in \<open>auto simp: createQueuedJob_def\<close>)

lemma dispatch_durable_served:
  assumes "master_wf g" "store_wf db" "sane_env env"
  shows "served_opt g (dispatch_durable env req db g)"
proof -
  obtain e db1 where d: "MarkDispatching (ge_clock env 4) (req_RequestID req) '''' (ge_clock env 3 + jobLeaseTTL g) db = (e, db1)" by (rule prod.exhaust)
  have 1: "store_wf db1" by (rule stores_wf(3) [OF assms(2) d])
  show ?thesis
  proof (cases e)
    case None
    let ?g = "attachDispatcherMetrics env (g\<lparr>gw_JobStore := Some db1\<rparr>)"
    have wf: "master_wf ?g" using assms(1) 1 by simp
    show ?thesis
    proof (cases "gateway_dispatch env req ?g")
      case (Some out)
      obtain res g' where out: "out = (res, g')" by (rule prod.exhaust)
      note k = gateway_dispatch_keeps [OF wf Some [unfolded out]]
      obtain ans where ans: "res = Inr ans" using k(1) by blast
      have same: "same_settings g g'" using same_settings_trans [OF _ k(3), of g] by simp
      show ?thesis
      proof (cases ans)
        case (Inl err)
        obtain e2 db2 where m: "MarkFailed (ge_clock env 5) (req_RequestID req) (de_text err) db1 = (e2, db2)" by (rule prod.exhaust)
        have "store_wf db2" by (rule stores_wf(4) [OF 1 m])
        then show ?thesis using d None Some out ans Inl m k(2) same by (simp add: dispatch_durable_def served_pair)
      next
        case (Inr result)
        obtain e2 db2 where m: "MarkSucceeded (ge_store env) (ge_clock env 5) (req_RequestID req) result db1 = (e2, db2)" by (rule prod.exhaust)
        have "store_wf db2" using stores_wf(7) [OF 1 _ m] assms(3) by (simp add: sane_env_def)
        then show ?thesis using d None Some out ans Inr m k(2) same
          by (simp add: dispatch_durable_def served_pair split: option.split)
      qed
    qed (use d None in \<open>simp add: dispatch_durable_def\<close>)
  qed (use assms(1) d 1 in \<open>simp add: dispatch_durable_def served_pair\<close>)
qed

lemma handleDurableExecute_served:
  assumes "master_wf g" "store_wf db" "sane_env env"
  shows "served_opt g (handleDurableExecute env req db g)"
proof -
  obtain out db1 where b: "beginDurableJob env (jobMaxAttempts g) req db = (out, db1)" by (rule prod.exhaust)
  have 1: "store_wf db1" by (rule beginDurableJob_wf [OF assms(2) b])
  show ?thesis using b dispatch_durable_served [OF assms(1) 1 assms(3)] assms(1) 1
    by (cases out) (simp_all add: handleDurableExecute_def served_pair)
qed

lemma api_handlers_served:
  assumes "master_wf g" "sane_env env"
  shows "served_opt g (handleExecute env r g)" "served g (handleCreateJob env r g)" "served g (handleGetJob env r g)"
proof -
  obtain reg db where p: "gw_JobStore g = Some db" "store_wf db" by (rule master_wf_parts [OF assms(1)])
  show "served_opt g (handleExecute env r g)"
    using handleDurableExecute_served [OF assms(1) p(2) assms(2)] p(1) assms(1)
    by (simp add: handleExecute_def split: option.split sum.split)
  have create: "served g (case createQueuedJob env (jobMaxAttempts g) req db of
      (Inr (job, status), db) \<Rightarrow> (Replied (WriteJSON status (JJob (jobResponse env job))), g\<lparr>gw_JobStore := Some db\<rparr>)
    | (Inl (Answers resp inc), db) \<Rightarrow> (Replied resp, with_metrics env inc (g\<lparr>gw_JobStore := Some db\<rparr>))
    | (Inl (Starts _), db) \<Rightarrow> (Panicked, g\<lparr>gw_JobStore := Some db\<rparr>))" for req
  proof -
    obtain out db1 where c: "createQueuedJob env (jobMaxAttempts g) req db = (out, db1)" by (rule prod.exhaust)
    then show ?thesis using createQueuedJob_wf [OF p(2) c] assms(1)
      by (auto simp: served_pair split: sum.split prod.split begin_outcome.split)
  qed
  show "served g (handleCreateJob env r g)"
    using create p(1) assms(1) by (simp add: handleCreateJob_def split: option.split sum.split)
  have get: "served g (case Get (ge_store env) k db of
      (Inl ErrJobNotFound, db) \<Rightarrow> (Replied (WriteError 404 ''job_not_found'' (Some (job_error_text ErrJobNotFound))), g\<lparr>gw_JobStore := Some db\<rparr>)
    | (Inl err, db) \<Rightarrow> (Replied (WriteError 503 ''dispatch_failed'' (Some (job_error_text err))), g\<lparr>gw_JobStore := Some db\<rparr>)
    | (Inr job, db) \<Rightarrow> (Replied (WriteJSON 200 (JJob (jobResponse env job))), g\<lparr>gw_JobStore := Some db\<rparr>))" for k
  proof -
    obtain res db1 where c: "Get (ge_store env) k db = (res, db1)" by (rule prod.exhaust)
    have "store_wf db1" by (rule stores_wf(2) [OF p(2) c])
    then show ?thesis using c assms(1) by (simp add: served_pair split: sum.split job_error.split)
  qed
  show "served g (handleGetJob env r g)"
    using get p(1) assms(1) by (simp add: handleGetJob_def Let_def split: option.split del: RequireMethod_None)
qed

lemma Handler_served:
  assumes "master_wf g" "sane_env env" "Handler env r g = Some (rep, g')"
  shows "rep \<noteq> Panicked" "master_wf g'" "same_settings g g'"
proof -
  let ?g = "with_metrics env (\<lambda>m. m) g"
  have wf: "master_wf ?g" using assms(1) by simp
  note h = control_handlers_served [OF wf assms(2)] api_handlers_served [OF wf assms(2)] handleJobCompletion_served [OF wf assms(2)]
    handleMetrics_served [OF wf]
  have "served_opt ?g (route env r ?g)" using h wf by (simp add: route_def Let_def)
  moreover obtain g1 where "route env r ?g = Some (rep, g1)" "g' = g1\<lparr>gw_Metrics := MiddlewareWithMetrics r rep (gw_Metrics g1)\<rparr>"
    using assms(3) by (auto simp: Handler_def split: option.splits)
  ultimately show "rep \<noteq> Panicked" "master_wf g'" "same_settings g g'" by (simp_all add: served_pair)
qed


section \<open>Recovery runs\<close>

lemma recoverQueuedJob_wf:
  assumes "store_wf (rs_db s)" "json_nonempty (r_env r)" "recoverQueuedJob r job now s = (e, s')"
  shows "store_wf (rs_db s')"
proof -
  obtain e1 db1 where d: "MarkDispatching (r_clock r (rs_world s)) (job_RequestID job) '''' (now + leaseTTL r) (rs_db s) = (e1, db1)"
    by (rule prod.exhaust)
  have 1: "store_wf db1" by (rule stores_wf(3) [OF assms(1) d])
  obtain ans w where w: "r_dispatch r (job_Request job) (rs_world s) = (ans, w)" by (rule prod.exhaust)
  show ?thesis
  proof (cases e1)
    case (Some err)
    then show ?thesis using assms(3) d 1 by (auto simp: recoverQueuedJob_def)
  next
    case None
    show ?thesis
    proof (cases ans)
      case (Inl reason)
      then show ?thesis using assms(3) d None w stores_wf(4,5) [OF 1, of "r_clock r w" "job_RequestID job" reason]
        by (auto simp: recoverQueuedJob_def Let_def split: if_splits prod.splits)
    next
      case (Inr resp)
      then show ?thesis using assms(3) d None w stores_wf(7) [OF 1 assms(2), of "r_clock r w" "job_RequestID job" resp]
        by (auto simp: recoverQueuedJob_def Let_def split: prod.splits)
    qed
  qed
qed

lemma recoverJob_wf:
  assumes "store_wf (rs_db s)" "json_nonempty (r_env r)"
  shows "store_wf (rs_db (snd (recoverJob r job now s)))"
proof -
  obtain e s' where q: "recoverQueuedJob r job now s = (e, s')" by (rule prod.exhaust)
  obtain e2 db2 where a: "MarkAmbiguous (r_clock r (rs_world s)) (job_RequestID job) (''job lease expired at '' @ r_format r (job_LeaseUntil job)) (rs_db s) = (e2, db2)"
    by (rule prod.exhaust)
  show ?thesis using recoverQueuedJob_wf [OF assms q] stores_wf(6) [OF assms(1) a] assms(1) q a by (auto simp: recoverJob_def)
qed

lemma RecoverOnce_wf:
  assumes "store_wf (rs_db s)" "json_nonempty (r_env r)" "RecoverOnce r s = (e, s')"
  shows "store_wf (rs_db s')"
proof -
  obtain l db where l: "ListRecoverable (r_env r) (r_clock r (rs_world s)) (batchSize r) (rs_db s) = (l, db)" by (rule prod.exhaust)
  have 1: "store_wf db" by (rule stores_wf(8) [OF assms(1) l])
  have "store_wf (rs_db (recover_jobs r now jobs s1))" if "store_wf (rs_db s1)" for now jobs and s1 :: "'a recovery_state"
    using that unfolding recover_jobs_def by (induction jobs arbitrary: s1) (simp_all add: recoverJob_wf [OF _ assms(2)])
  then show ?thesis using assms(3) l 1 by (auto simp: RecoverOnce_def Let_def split: sum.splits)
qed

section \<open>The running master\<close>

lemma master_step_keeps:
  assumes "master_step g g'" "master_wf g"
  shows "master_wf g' \<and> same_settings g g'"
  using assms
proof cases
  case (serves env r rep)
  then show ?thesis using Handler_served [OF assms(2)] by blast
next
  case (reaps reg it now)
  then show ?thesis using assms(2) CleanupAt_wf by (auto simp: master_wf_def)
next
  case (recovers db r e s m tokens)
  have "store_wf db" using assms(2) recovers(2) by (simp add: master_wf_def)
  then have "store_wf (rs_db s)" using RecoverOnce_wf [OF _ recovers(3,4)] by simp
  then show ?thesis using assms(2) recovers(1) by (simp add: master_wf_def same_settings_def)
qed

lemma wire_master_wf: "store_wf db \<Longrightarrow> master_wf (ma_gateway (wire_master env cfg now db))"
  by (simp add: master_wf_def wire_master_def wire_gateway_def idle_tracker_def NewRegistry_wf)

lemma NewSQLiteJobStore_table:
  assumes "NewSQLiteJobStore fs env path w = (Value db, w')"
  shows "\<exists>w1. db = sq_table env w1"
proof -
  obtain w1 where e: "(case exec_statements env init_statements w1 of (Failed err, w) \<Rightarrow> (Failed err, sq_Close env w)
      | (Panic err, w) \<Rightarrow> (Panic err, w) | (Value _, w) \<Rightarrow> (Value (sq_table env w), w)) = (Value db, w')"
    using assms by (auto simp: NewSQLiteJobStore_def Let_def act_bind_Value split: if_splits)
  obtain res w2 where "exec_statements env init_statements w1 = (res, w2)" by (rule prod.exhaust)
  with e show ?thesis by (cases res) auto
qed

text \<open>
  (C2) A master that has started stays in order. If the table in the database file is well-formed when the
  master opens it, then through any requests, ticks of the reaper and recovery runs the workers are filed
  under their own ids with a state and a time, job ids stay unique and every job satisfies the invariant of the
  store, the settings stay those of the configuration, and no handler panics: none of the parts that a handler
  dereferences is ever missing. The tracker of the in-memory request cache stays empty all the time, whatever is
  configured for it, since a master started by this program always has a job store.
\<close>

theorem master_invariant:
  assumes "\<And>w. store_wf (sq_table (mm_sql env) w)" "master_setup env w = (Value m, w')" "master_step\<^sup>*\<^sup>* (ma_gateway m) g"
  shows "(\<exists>reg. gw_Registry g = Some reg \<and> registry_wf reg) \<and> (\<exists>db. gw_JobStore g = Some db \<and> store_wf db) \<and>
    idle_tracker (gw_Requests g) \<and> same_settings (ma_gateway m) g \<and>
    (\<forall>genv r rep g'. sane_env genv \<longrightarrow> Handler genv r g = Some (rep, g') \<longrightarrow> rep \<noteq> Panicked)"
proof -
  obtain cfg db w1 where s: "NewSQLiteJobStore (bt_files (mm_boot env)) (mm_sql env) (mc_JobStorePath cfg) w = (Value db, w1)"
    and m: "m = wire_master env cfg (mm_now env w) db"
    by (rule master_setup_Value [OF assms(2)])
  have "master_wf (ma_gateway m)"
    unfolding m by (rule wire_master_wf) (use NewSQLiteJobStore_table [OF s] assms(1) in auto)
  from assms(3) this have "master_wf g \<and> same_settings (ma_gateway m) g"
  proof (induction rule: rtranclp_induct)
    case (step g1 g2)
    then show ?case using master_step_keeps same_settings_trans by blast
  qed simp
  then have wf: "master_wf g" "same_settings (ma_gateway m) g" by simp_all
  then show ?thesis using Handler_served(1) [OF wf(1)] unfolding master_wf_def by blast
qed


abbreviation register_b :: http_request where
  "register_b \<equiv> call_as ''wasmcat-worker-b'' ''POST'' ''/internal/register''"

lemma master_run_a: "case fst (master_setup master_env_a []) of Value m \<Rightarrow>
    (case Handler gateway_env_a register_b (ma_gateway m) of
       Some (rep, g) \<Rightarrow> (case gw_Registry g of Some reg \<Rightarrow> map fst (workers reg) = [''b''] | None \<Rightarrow> False) | None \<Rightarrow> False) | _ \<Rightarrow> False"
  by code_simp

theorem master_invariant_witness:
  "\<exists>m w' g reg. master_setup master_env_a [] = (Value m, w') \<and> master_step\<^sup>*\<^sup>* (ma_gateway m) g \<and> gw_Registry g = Some reg \<and>
     map fst (workers reg) = [''b''] \<and> registry_wf reg \<and> idle_tracker (gw_Requests g)"
proof -
  obtain m w' where m: "master_setup master_env_a [] = (Value m, w')"
    using master_setup_a by (cases "master_setup master_env_a []") (auto split: outcome.splits)
  obtain rep g reg where g: "Handler gateway_env_a register_b (ma_gateway m) = Some (rep, g)" "gw_Registry g = Some reg" "map fst (workers reg) = [''b'']"
    using master_run_a m by (auto split: option.splits prod.splits)
  have "sane_env gateway_env_a" by (simp add: sane_env_def gateway_env_a_def json_nonempty_def plain_env_def)
  then have step: "master_step\<^sup>*\<^sup>* (ma_gateway m) g" using master_step.serves [OF _ g(1)] by blast
  have "store_wf (sq_table (mm_sql master_env_a) w)" for w
    by (simp add: master_env_a_def empty_db_def store_wf_def)
  from master_invariant [OF this m step] g(2) have "registry_wf reg" "idle_tracker (gw_Requests g)" by auto
  with m step g(2,3) show ?thesis by - (intro exI conjI, assumption+)
qed

end
