(* ===== verification/Worker_Main.thy ===== *)
theory Worker_Main
  imports Worker_Server Worker_Telemetry Bootstrap Go_Flag Serving
begin

text \<open>
  \<open>src/cmd/worker/main.go\<close>: the program of a worker.

  \<open>worker_setup\<close> reads the configuration, resolves the location and wires the engine, the server and the telemetry;
  \<open>worker_main\<close> is the program with its exit status, \<open>worker_runInit\<close> the command \<open>init\<close>. The telemetry runs beside the server
  (\<open>Worker_Telemetry\<close>); here it is the record of the arguments it is started with. The network of the
  server, the outputs and the operating system are arguments.
\<close>

section \<open>Wiring\<close>

record ('k, 'c, 'n, 'w) worker_main_env =
  wm_boot :: "('k, 'w) boot_env"
  wm_config :: config_env
  wm_geo :: "'w geo_env"
  wm_flags :: flag_env
  wm_flag_report :: "string \<Rightarrow> 'w \<Rightarrow> 'w"
  wm_serve :: "(('c, 'n) WorkerServer, 'w) serve_env"
  wm_net :: 'n
  wm_stdout :: "string \<Rightarrow> 'w \<Rightarrow> 'w"
  wm_stderr :: "string \<Rightarrow> 'w \<Rightarrow> 'w"
  wm_log :: "string \<Rightarrow> 'w \<Rightarrow> 'w"
  wm_windows :: bool
  wm_version :: string

record telemetry_args =
  ta_MasterURL :: string
  ta_NodeID :: string
  ta_Address :: string
  ta_Latitude :: float64
  ta_Longitude :: float64
  ta_Interval :: duration
  ta_CertDir :: string

record ('c, 'n) Worker =
  wk_server :: "('c, 'n) WorkerServer"
  wk_CertDir :: string
  wk_Port :: string
  wk_telemetry :: telemetry_args

text \<open>The limits of the engine are copied from those of the configuration, field by field.\<close>

definition copy_limits :: "Limits \<Rightarrow> Limits" where
  "copy_limits l =
     \<lparr>ExecutionTimeout = ExecutionTimeout l, ModuleFetchTimeout = ModuleFetchTimeout l, ShutdownTimeout = ShutdownTimeout l,
      MaxModuleBytes = MaxModuleBytes l, MaxPayloadBytes = MaxPayloadBytes l, MaxOutputBytes = MaxOutputBytes l,
      MaxConcurrentExecs = MaxConcurrentExecs l, MaxCachedModules = MaxCachedModules l, MaxCacheBytes = MaxCacheBytes l,
      ModuleCacheTTL = ModuleCacheTTL l\<rparr>"

definition wire_worker :: "'n \<Rightarrow> WorkerConfig \<Rightarrow> ('c, 'n) Worker" where
  "wire_worker net cfg =
     \<lparr>wk_server = \<lparr>sv_Engine = Some (NewWasmEngineWithLimits (copy_limits (wc_Limits cfg))), sv_NodeID = wc_NodeID cfg,
        sv_MasterURL = wc_MasterURL cfg, sv_CompletionTimeout = 0, sv_Metrics = None, sv_world = net\<rparr>,
      wk_CertDir = wc_CertDir cfg, wk_Port = wc_Port cfg,
      wk_telemetry = \<lparr>ta_MasterURL = wc_MasterURL cfg, ta_NodeID = wc_NodeID cfg, ta_Address = wc_AdvertiseAddress cfg,
        ta_Latitude = wc_Latitude cfg, ta_Longitude = wc_Longitude cfg, ta_Interval = wc_HeartbeatInterval cfg, ta_CertDir = wc_CertDir cfg\<rparr>\<rparr>"

definition worker_setup :: "('k, 'c, 'n, 'w) worker_main_env \<Rightarrow> 'w \<Rightarrow> ('c, 'n) Worker go_result \<times> 'w" where
  "worker_setup env w =
     (case LoadWorker (wm_config env) of
        Inl err \<Rightarrow> (Inl (''failed to load worker config: '' @ err), w)
      | Inr cfg \<Rightarrow>
          (case ResolveWorkerLocation (wm_geo env) (cf_quote (wm_config env)) cfg w of
             (Inl err, w) \<Rightarrow> (Inl (''failed to resolve worker location: '' @ err), w)
           | (Inr cfg, w) \<Rightarrow> (Inr (wire_worker (wm_net env) cfg), w)))"

section \<open>The command init\<close>

definition worker_defaultConfigDir :: "('k, 'c, 'n, 'w) worker_main_env \<Rightarrow> string" where
  "worker_defaultConfigDir env = (if wm_windows env then ''C:'' @ [CHR 0x5C] @ ''wasmcat'' else ''/etc/wasmcat'')"

definition worker_flags :: "(string \<times> flag_kind) list" where
  "worker_flags =
     [(''config-dir'', StringFlag), (''cert-dir'', StringFlag), (''worker-id'', StringFlag), (''port'', StringFlag), (''master-url'', StringFlag),
      (''advertise-address'', StringFlag), (''latitude'', FloatFlag), (''longitude'', FloatFlag), (''auto-location'', BoolFlag),
      (''location-provider'', StringFlag), (''heartbeat-interval'', StringFlag), (''execution-timeout'', StringFlag),
      (''module-fetch-timeout'', StringFlag), (''worker-shutdown-timeout'', StringFlag), (''max-module-bytes'', IntFlag),
      (''max-payload-bytes'', IntFlag), (''max-output-bytes'', UintFlag), (''max-concurrent-execs'', IntFlag), (''max-cached-modules'', IntFlag),
      (''max-cache-bytes'', IntFlag), (''module-cache-ttl'', StringFlag), (''force'', BoolFlag)]"

definition max_output_flag :: "flag_env \<Rightarrow> (string \<times> string) list \<Rightarrow> int" where
  "max_output_flag env passed = flag_Uint env passed ''max-output-bytes'' (2 ^ 20)"

definition worker_options :: "flag_env \<Rightarrow> string \<Rightarrow> (string \<times> string) list \<Rightarrow> WorkerOptions" where
  "worker_options env configDir passed =
     \<lparr>wo_ConfigDir = flag_String passed ''config-dir'' configDir, wo_CertDir = flag_String passed ''cert-dir'' '''',
      wo_WorkerID = flag_String passed ''worker-id'' ''worker-vn-01'', wo_Port = flag_String passed ''port'' ''7271'',
      wo_MasterURL = flag_String passed ''master-url'' ''https://localhost:7270'', wo_AdvertiseAddress = flag_String passed ''advertise-address'' '''',
      wo_Latitude = flag_Float64 env passed ''latitude'' (Fin 0), wo_Longitude = flag_Float64 env passed ''longitude'' (Fin 0),
      wo_HasLatitude = flag_passed passed ''latitude'', wo_HasLongitude = flag_passed passed ''longitude'',
      wo_AutoDetectLocation = flag_Bool env passed ''auto-location'' True, wo_HasAutoDetectLocation = flag_passed passed ''auto-location'',
      wo_LocationProviderURL = flag_String passed ''location-provider'' '''', wo_HeartbeatInterval = flag_String passed ''heartbeat-interval'' ''5s'',
      wo_ExecutionTimeout = flag_String passed ''execution-timeout'' ''5s'', wo_ModuleFetchTimeout = flag_String passed ''module-fetch-timeout'' ''10s'',
      wo_ShutdownTimeout = flag_String passed ''worker-shutdown-timeout'' ''10s'',
      wo_MaxModuleBytes = flag_Int env passed ''max-module-bytes'' (10 * 2 ^ 20), wo_MaxPayloadBytes = flag_Int env passed ''max-payload-bytes'' (2 ^ 20),
      wo_MaxOutputBytes = word_of_int (max_output_flag env passed), wo_MaxConcurrentExecs = flag_Int env passed ''max-concurrent-execs'' 4,
      wo_MaxCachedModules = flag_Int env passed ''max-cached-modules'' 128, wo_MaxCacheBytes = flag_Int env passed ''max-cache-bytes'' (256 * 2 ^ 20),
      wo_ModuleCacheTTL = flag_String passed ''module-cache-ttl'' ''30m'', wo_Force = flag_Bool env passed ''force'' False\<rparr>"

definition worker_result_lines :: "Result \<Rightarrow> string list" where
  "worker_result_lines result =
     [''created worker config: '' @ rl_ConfigPath result @ [CHR 0x0A], ''using certificate directory: '' @ rl_CertDir result @ [CHR 0x0A]]
     @ map (\<lambda>warning. ''next: '' @ warning @ [CHR 0x0A]) (rl_Warnings result)"

definition worker_runInit :: "('k, 'c, 'n, 'w) worker_main_env \<Rightarrow> string list \<Rightarrow> 'w \<Rightarrow> unit outcome \<times> 'w" where
  "worker_runInit env args w =
     (case flag_Parse (wm_flags env) worker_flags args of
        Inl err \<Rightarrow> (Failed err, wm_flag_report env err w)
      | Inr (passed, _) \<Rightarrow>
          if flag_passed passed ''latitude'' \<noteq> flag_passed passed ''longitude''
          then (Failed ''both --latitude and --longitude are required when overriding worker location'', w)
          else if max_output_flag (wm_flags env) passed > 2 ^ 32 - 1 then (Failed ''max-output-bytes must fit in uint32'', w)
          else act_bind (InitWorker (wm_boot env) (worker_options (wm_flags env) (worker_defaultConfigDir env) passed)) (\<lambda>result w.
            (Value (), fold (wm_stdout env) (worker_result_lines result) w)) w)"

section \<open>The program\<close>

definition serve_worker :: "('k, 'c, 'n, 'w) worker_main_env \<Rightarrow> 'w \<Rightarrow> int \<times> 'w" where
  "serve_worker env w =
     (case worker_setup env w of
        (Inl err, w) \<Rightarrow> (0, wm_log env err w)
      | (Inr k, w) \<Rightarrow>
          (case WorkerServer_Start (wm_serve env) (wk_CertDir k) (sv_NodeID (wk_server k)) (shutdownTimeout (wk_server k)) (wk_server k) (wk_Port k) w of
             (None, w) \<Rightarrow> (0, w)
           | (Some err, w) \<Rightarrow> (0, wm_log env (''worker server crashed: '' @ err) w)))"

text \<open>The exit status; an uncaught panic would end the program with status 2.\<close>

definition worker_main :: "('k, 'c, 'n, 'w) worker_main_env \<Rightarrow> string list \<Rightarrow> 'w \<Rightarrow> int \<times> 'w" where
  "worker_main env args w =
     (case args of
        [] \<Rightarrow> serve_worker env w
      | first # rest \<Rightarrow>
          if first = ''version'' then (0, wm_stdout env (''wasmcat-worker '' @ wm_version env @ [CHR 0x0A]) w)
          else if first = ''init'' then
            (case worker_runInit env rest w of
               (Value _, w) \<Rightarrow> (0, w)
             | (Failed err, w) \<Rightarrow> (1, wm_stderr env (''init failed: '' @ err @ [CHR 0x0A]) w)
             | (Panic err, w) \<Rightarrow> (2, w))
          else serve_worker env w)"

section \<open>A worker runs under its configuration\<close>

lemma new_engine_limits: "normalizeLimits l = l \<Longrightarrow> we_limits (NewWasmEngineWithLimits l) = l"
  by (simp add: NewWasmEngineWithLimits_def)

lemma copy_limits_id [simp]: "copy_limits l = l"
  by (simp add: copy_limits_def)

text \<open>
  (C22) A worker that starts runs under exactly the limits of its configuration: normalising them changes none, the engine
  starts in a state that satisfies its invariant, an execution has a deadline, and shutting down waits as
  long as configured. Its heartbeats have an interval, and the location it registers comes from
  its settings or from a provider, and is within the ranges of latitude and longitude or not a number.
\<close>

theorem worker_config_applies:
  assumes "worker_setup env w = (Inr k, w')"
  shows "\<exists>cfg e. LoadWorker (wm_config env) = Inr cfg \<and> sv_Engine (wk_server k) = Some e \<and> we_limits e = wc_Limits cfg \<and>
    limits_ok (we_limits e) \<and> engine_wf e \<and> shutdownTimeout (wk_server k) = ShutdownTimeout (wc_Limits cfg) \<and>
    telemetry_interval (ta_Interval (wk_telemetry k)) = wc_HeartbeatInterval cfg \<and>
    in_range 90 (ta_Latitude (wk_telemetry k)) \<and> in_range 180 (ta_Longitude (wk_telemetry k)) \<and>
    ta_NodeID (wk_telemetry k) = sv_NodeID (wk_server k) \<and> ta_MasterURL (wk_telemetry k) = sv_MasterURL (wk_server k)"
proof -
  obtain cfg where l: "LoadWorker (wm_config env) = Inr cfg" using assms by (auto simp: worker_setup_def split: sum.splits)
  obtain cfg' where r: "ResolveWorkerLocation (wm_geo env) (cf_quote (wm_config env)) cfg w = (Inr cfg', w')" and k: "k = wire_worker (wm_net env) cfg'"
    using assms l by (auto simp: worker_setup_def split: sum.splits prod.splits)
  note f = resolved_worker_config [OF l r]
  have "wc_Limits cfg' = wc_Limits cfg" "wc_HeartbeatInterval cfg' = wc_HeartbeatInterval cfg"
    using r by (auto simp: ResolveWorkerLocation_def split: if_splits option.splits prod.splits sum.splits)
  then show ?thesis
    by - (rule exI [of _ cfg], rule exI [of _ "NewWasmEngineWithLimits (wc_Limits cfg)"],
      use f in \<open>simp add: l k wire_worker_def shutdownTimeout_def telemetry_interval_def new_engine_wf new_engine_limits\<close>)
qed


section \<open>What a start of the worker does\<close>

lemma worker_main_serves:
  assumes "take 1 args \<noteq> [''init'']" "take 1 args \<noteq> [''version'']"
  shows "worker_main env args w = serve_worker env w"
  using assms by (cases args) (simp_all add: worker_main_def)

lemma worker_start:
  assumes "notes_servers (wm_serve env) h" "\<And>e w. h (wm_log env e w) = h w" "\<And>w. h (snd (worker_setup env w)) = h w"
    and "serve_worker env w = (status, w')"
  shows "status = 0 \<and> (port_taken (wm_serve env) \<longrightarrow> (\<exists>err w1. w' = wm_log env err w1)) \<and>
    starts_or_logs h (wm_log env) (\<lambda>server. \<exists>cfg cfg' w1. LoadWorker (wm_config env) = Inr cfg \<and>
      ResolveWorkerLocation (wm_geo env) (cf_quote (wm_config env)) cfg w = (Inr cfg', w1) \<and>
      hs_Handler server = wk_server (wire_worker (wm_net env) cfg') \<and> hs_Addr server = CHR '':'' # wc_Port cfg') w w'"
proof -
  obtain start w1 where s: "worker_setup env w = (start, w1)" by (rule prod.exhaust)
  have w1: "h w1 = h w" using assms(3) [of w] s by simp
  show ?thesis
  proof (cases start)
    case (Inr k)
    obtain cfg cfg' where c: "LoadWorker (wm_config env) = Inr cfg"
      "ResolveWorkerLocation (wm_geo env) (cf_quote (wm_config env)) cfg w = (Inr cfg', w1)" "k = wire_worker (wm_net env) cfg'"
      using s Inr by (auto simp: worker_setup_def split: sum.splits prod.splits)
    obtain err w2 where g: "WorkerServer_Start (wm_serve env) (wk_CertDir k) (sv_NodeID (wk_server k)) (shutdownTimeout (wk_server k))
        (wk_server k) (wk_Port k) w1 = (err, w2)"
      by (rule prod.exhaust)
    have run: "status = 0" "w' = (case err of None \<Rightarrow> w2 | Some e \<Rightarrow> wm_log env (''worker server crashed: '' @ e) w2)"
      using assms(4) s Inr g by (auto simp: serve_worker_def split: option.splits)
    have "h w' = h w2" using run(2) assms(2) by (cases err) simp_all
    moreover have "port_taken (wm_serve env) \<longrightarrow> err \<noteq> None" using Start_taken(2) g by (metis fst_conv)
    moreover have "err \<noteq> None \<longrightarrow> (\<exists>e w1. w' = wm_log env e w1)" unfolding run(2) by (cases err) (simp, simp only: option.simps, blast)
    ultimately show ?thesis
      using WorkerServer_Start_listens [OF assms(1) g] run(1) w1 c
      by (auto simp: listens_def starts_or_logs_def wire_worker_def)
  next
    case (Inl e)
    then have "status = 0" "w' = wm_log env e w1" using assms(4) s by (simp_all add: serve_worker_def)
    then show ?thesis using w1 assms(2) by (auto simp: starts_or_logs_def)
  qed
qed

section \<open>What init writes, the worker loads\<close>

lemma worker_runInit_Value:
  assumes "worker_runInit env args w = (Value u, w')"
  obtains passed left result w1 where "flag_Parse (wm_flags env) worker_flags args = Inr (passed, left)"
    "flag_passed passed ''latitude'' = flag_passed passed ''longitude''" "max_output_flag (wm_flags env) passed \<le> 2 ^ 32 - 1"
    "InitWorker (wm_boot env) (worker_options (wm_flags env) (worker_defaultConfigDir env) passed) w = (Value result, w1)"
    "w' = fold (wm_stdout env) (worker_result_lines result) w1"
proof (cases "flag_Parse (wm_flags env) worker_flags args")
  case (Inr p)
  obtain passed left where p: "p = (passed, left)" by (rule prod.exhaust)
  have ok: "flag_passed passed ''latitude'' = flag_passed passed ''longitude''" "max_output_flag (wm_flags env) passed \<le> 2 ^ 32 - 1"
    using assms Inr p by (simp_all add: worker_runInit_def split: if_splits)
  with assms Inr p that show ?thesis by (auto simp: worker_runInit_def act_bind_Value)
qed (use assms in \<open>simp add: worker_runInit_def\<close>)

text \<open>
  (C24) What \<open>wasmcat-worker init\<close> writes, the worker loads: the same as for the master, and the flag for the size of the output, which is
  read with 64 bits, arrives in its 32 bits unchanged.
\<close>

theorem init_configures_worker:
  assumes "writes_files (bt_files (wm_boot env))" "\<And>s w p. fi_ReadFile (bt_files (wm_boot env)) p (wm_stdout env s w) = fi_ReadFile (bt_files (wm_boot env)) p w"
    and "\<forall>s v. fl_ParseUint0 (wm_flags env) s = Inr v \<longrightarrow> 0 \<le> v"
    and "worker_runInit env args w = (Value u, w')"
  shows "\<exists>passed left opts. flag_Parse (wm_flags env) worker_flags args = Inr (passed, left) \<and>
    opts = normalizeWorker (bt_hostname (wm_boot env)) (worker_options (wm_flags env) (worker_defaultConfigDir env) passed) \<and>
    uint (wo_MaxOutputBytes opts) = max_output_flag (wm_flags env) passed \<and>
    fi_ReadFile (bt_files (wm_boot env)) (path_Join (flag_String passed ''config-dir'' (worker_defaultConfigDir env)) ''worker.env'') w' =
      Bytes (env_text (worker_values (wm_boot env) opts)) \<and>
    (\<forall>cenv. reads_back (wm_boot env) (worker_values (wm_boot env) opts) (if wo_HasLatitude opts then [wo_Latitude opts, wo_Longitude opts] else [])
        [wo_MaxModuleBytes opts, wo_MaxPayloadBytes opts, wo_MaxConcurrentExecs opts, wo_MaxCachedModules opts, wo_MaxCacheBytes opts] cenv \<longrightarrow>
      LoadWorker cenv = Inr (worker_config (wm_boot env) opts) \<and> limits_ok (wc_Limits (worker_config (wm_boot env) opts)))"
proof -
  obtain passed left result w1 where p: "flag_Parse (wm_flags env) worker_flags args = Inr (passed, left)"
    and max: "max_output_flag (wm_flags env) passed \<le> 2 ^ 32 - 1"
    and i: "InitWorker (wm_boot env) (worker_options (wm_flags env) (worker_defaultConfigDir env) passed) w = (Value result, w1)"
    and w: "w' = fold (wm_stdout env) (worker_result_lines result) w1"
    by (rule worker_runInit_Value [OF assms(4)])
  let ?given = "worker_options (wm_flags env) (worker_defaultConfigDir env) passed"
  let ?opts = "normalizeWorker (bt_hostname (wm_boot env)) ?given"
  have dir: "wo_ConfigDir ?given = flag_String passed ''config-dir'' (worker_defaultConfigDir env)" by (simp add: worker_options_def)
  have "0 \<le> max_output_flag (wm_flags env) passed"
    using assms(3) by (auto simp: max_output_flag_def flag_Uint_def flag_read_def split: option.split sum.split)
  then have out: "uint (wo_MaxOutputBytes ?opts) = max_output_flag (wm_flags env) passed"
    using max by (simp add: normalizeWorker_def worker_options_def uint_word_of_int)
  have fold: "fi_ReadFile (bt_files (wm_boot env)) q (fold (wm_stdout env) ls v) = fi_ReadFile (bt_files (wm_boot env)) q v" for q ls v
    using assms(2) by (induction ls arbitrary: v) simp_all
  from InitWorker_loads [OF assms(1) i refl] show ?thesis unfolding dir
    by - (rule exI [of _ passed], rule exI [of _ left], rule exI [of _ ?opts],
      intro conjI, rule p, rule refl, rule out, simp add: w fold, simp)
qed

section \<open>Examples\<close>

definition geo_env_a :: "(string \<times> string) list geo_env" where
  "geo_env_a = \<lparr>gl_net = \<lparr>net_do = (\<lambda>call w. (Inl ''down'', w)), net_done = (\<lambda>_. False), net_sleep = (\<lambda>_ w. (None, w)), net_now = (\<lambda>_. 0)\<rparr>,
     gl_NewRequest = (\<lambda>_. None), gl_decode = Inl, gl_ParseFloat = Inl\<rparr>"

definition worker_main_env_a :: "(nat, string, nat, (string \<times> string) list) worker_main_env" where
  "worker_main_env_a = \<lparr>wm_boot = boot_env_a, wm_config = config_of_a [(''WORKER_LATITUDE'', ''0''), (''WORKER_LONGITUDE'', ''0'')], wm_geo = geo_env_a,
     wm_flags = \<lparr>fl_quote = id, fl_ParseFloat = Inl, fl_ParseInt0 = (\<lambda>_. Inr 7), fl_ParseUint0 = (\<lambda>_. Inr 9), fl_ParseDuration = Inl\<rparr>,
     wm_flag_report = (\<lambda>_ w. w), wm_serve = \<lparr>se_files = files_a, se_AppendCerts = (\<lambda>_. True), se_not_found = id,
       se_select = (\<lambda>_ _ w. (Some (Some (ListenError ''in use'')), w)), se_Shutdown = (\<lambda>_ w. (None, w)), se_receive = (\<lambda>w. (None, w))\<rparr>,
     wm_net = 0, wm_stdout = (\<lambda>_ w. w), wm_stderr = (\<lambda>_ w. w), wm_log = (\<lambda>_ w. w), wm_windows = False, wm_version = ''dev''\<rparr>"

lemma worker_setup_a: "case fst (worker_setup worker_main_env_a []) of Inr k \<Rightarrow> wk_Port k = ''7271'' | _ \<Rightarrow> False"
  by code_simp

theorem worker_config_applies_witness:
  "\<exists>k w' e. worker_setup worker_main_env_a [] = (Inr k, w') \<and> sv_Engine (wk_server k) = Some e \<and> limits_ok (we_limits e) \<and>
     in_range 90 (ta_Latitude (wk_telemetry k))"
proof -
  obtain k w' where k: "worker_setup worker_main_env_a [] = (Inr k, w')"
    using worker_setup_a by (cases "worker_setup worker_main_env_a []") (auto split: sum.splits)
  then show ?thesis using worker_config_applies [OF k] by blast
qed

abbreviation init_args_a :: "string list" where
  "init_args_a \<equiv> [''--port'', ''9999'', ''--advertise-address'', ''h'', ''--max-module-bytes=7'', ''--max-payload-bytes=7'', ''-max-output-bytes'', ''9'',
     ''--max-cache-bytes=7'', ''--config-dir=/c'']"

lemma worker_init_a: "case fst (worker_runInit worker_main_env_a init_args_a []) of Value u \<Rightarrow> True | _ \<Rightarrow> False"
  "case flag_Parse (wm_flags worker_main_env_a) worker_flags init_args_a of Inr (passed, left) \<Rightarrow>
     flag_String passed ''config-dir'' ''/etc/wasmcat'' = ''/c'' \<and> max_output_flag (wm_flags worker_main_env_a) passed = 9 | _ \<Rightarrow> False"
  by code_simp+

theorem init_configures_worker_witness:
  "\<exists>w' opts. worker_runInit worker_main_env_a init_args_a [] = (Value (), w') \<and> uint (wo_MaxOutputBytes opts) = 9 \<and>
     fi_ReadFile files_a (path_Join ''/c'' ''worker.env'') w' = Bytes (env_text (worker_values boot_env_a opts))"
proof -
  obtain w' where r: "worker_runInit worker_main_env_a init_args_a [] = (Value (), w')"
    using worker_init_a(1) by (cases "worker_runInit worker_main_env_a init_args_a []") (auto split: outcome.splits)
  have e: "bt_files (wm_boot worker_main_env_a) = files_a" "wm_boot worker_main_env_a = boot_env_a" "worker_defaultConfigDir worker_main_env_a = ''/etc/wasmcat''"
    by (simp_all add: worker_main_env_a_def boot_env_a_def crypto_a_def worker_defaultConfigDir_def)
  have h: "writes_files (bt_files (wm_boot worker_main_env_a))"
    "\<And>s w p. fi_ReadFile (bt_files (wm_boot worker_main_env_a)) p (wm_stdout worker_main_env_a s w) = fi_ReadFile (bt_files (wm_boot worker_main_env_a)) p w"
    "\<forall>s v. fl_ParseUint0 (wm_flags worker_main_env_a) s = Inr v \<longrightarrow> 0 \<le> v"
    using files_a_write by (simp_all add: worker_main_env_a_def)
  from init_configures_worker [OF h r] obtain passed left opts where p: "flag_Parse (wm_flags worker_main_env_a) worker_flags init_args_a = Inr (passed, left)"
    "uint (wo_MaxOutputBytes opts) = max_output_flag (wm_flags worker_main_env_a) passed"
    "fi_ReadFile (bt_files (wm_boot worker_main_env_a)) (path_Join (flag_String passed ''config-dir'' (worker_defaultConfigDir worker_main_env_a)) ''worker.env'') w' =
      Bytes (env_text (worker_values (wm_boot worker_main_env_a) opts))" by blast
  have "flag_String passed ''config-dir'' ''/etc/wasmcat'' = ''/c''" "max_output_flag (wm_flags worker_main_env_a) passed = 9"
    using worker_init_a(2) p(1) by simp_all
  with r p(2,3) e show ?thesis by auto
qed

end
