(* ===== verification/Ctl_Config.thy ===== *)
theory Ctl_Config
  imports Geolocation Go_Files Master_Policy
begin

text \<open>
  \<open>src/internal/ctl/config.go\<close> and \<open>location.go\<close>: the profile of the command line client and where an
  execution is said to come from. The home directory, JSON, the Unicode part of \<open>strings.ToLower\<close> and
  \<open>url.Parse\<close> are arguments; files are those of \<open>Go_Files\<close>.
\<close>

section \<open>config.go\<close>

definition ConfigDirName :: string where "ConfigDirName = ''.wasmcat''"
definition DefaultLocationProviderURL :: string where "DefaultLocationProviderURL = DefaultProviderURLs"

record CtlConfig =
  cc_MasterURL :: string
  cc_CACert :: string
  cc_ClientCert :: string
  cc_ClientKey :: string
  cc_DefaultUserLat :: float64
  cc_DefaultUserLon :: float64
  cc_AutoDetectLocation :: bool
  cc_LocationProviderURL :: string
  cc_Output :: string

record 'w ctl_env =
  ce_files :: "'w files"
  ce_home :: "string go_result"
  ce_marshal :: "CtlConfig \<Rightarrow> string go_result"
  ce_unmarshal :: "string \<Rightarrow> CtlConfig go_result"
  ce_lower :: "string \<Rightarrow> string"
  ce_Parse :: "string \<Rightarrow> URL go_result"
  ce_geo :: "'w geo_env"

definition cleanPath :: "string \<Rightarrow> string" where
  "cleanPath path = (if TrimSpace path = '''' then '''' else Clean (TrimSpace path))"

definition ctl_normalize :: "(string \<Rightarrow> string) \<Rightarrow> CtlConfig \<Rightarrow> CtlConfig" where
  "ctl_normalize lower cfg =
     (let output = ToLower lower (TrimSpace (cc_Output cfg)); provider = TrimSpace (cc_LocationProviderURL cfg) in
      cfg\<lparr>cc_MasterURL := TrimRight (CHR ''/'') (TrimSpace (cc_MasterURL cfg)),
          cc_CACert := cleanPath (cc_CACert cfg), cc_ClientCert := cleanPath (cc_ClientCert cfg),
          cc_ClientKey := cleanPath (cc_ClientKey cfg), cc_Output := (if output = '''' then ''table'' else output),
          cc_LocationProviderURL := (if cc_AutoDetectLocation cfg \<and> provider = '''' then DefaultLocationProviderURL else provider)\<rparr>)"

definition DefaultConfigPath :: "'w ctl_env \<Rightarrow> string go_result" where
  "DefaultConfigPath env =
     (case ce_home env of
        Inl err \<Rightarrow> Inl (''find home directory: '' @ err)
      | Inr homeDir \<Rightarrow> Inr (path_Join homeDir (ConfigDirName @ ''/config.json'')))"

definition config_path :: "'w ctl_env \<Rightarrow> string \<Rightarrow> string go_result" where
  "config_path env path = (if TrimSpace path = '''' then DefaultConfigPath env else Inr path)"

definition LoadConfig :: "'w ctl_env \<Rightarrow> string \<Rightarrow> 'w \<Rightarrow> CtlConfig go_result" where
  "LoadConfig env path0 w =
     (case config_path env path0 of
        Inl err \<Rightarrow> Inl err
      | Inr path \<Rightarrow>
          (case fi_ReadFile (ce_files env) path w of
             NoFile \<Rightarrow> Inl (''config file '' @ path @ '' does not exist; run wasmcatctl config init first'')
           | ReadFails err \<Rightarrow> Inl (''read config file: '' @ err)
           | Bytes data \<Rightarrow>
               (case ce_unmarshal env data of
                  Inl err \<Rightarrow> Inl (''decode config file: '' @ err)
                | Inr cfg \<Rightarrow> Inr (ctl_normalize (ce_lower env) cfg))))"

definition SaveConfig :: "'w ctl_env \<Rightarrow> string \<Rightarrow> CtlConfig \<Rightarrow> 'w \<Rightarrow> go_error \<times> 'w" where
  "SaveConfig env path0 cfg0 w =
     (case config_path env path0 of
        Inl err \<Rightarrow> (Some err, w)
      | Inr path \<Rightarrow>
          (let cfg = ctl_normalize (ce_lower env) cfg0 in
           case fi_MkdirAll (ce_files env) (path_Dir path) w of
             (Some err, w) \<Rightarrow> (Some (''create config directory: '' @ err), w)
           | (None, w) \<Rightarrow>
               (case ce_marshal env cfg of
                  Inl err \<Rightarrow> (Some (''encode config file: '' @ err), w)
                | Inr data \<Rightarrow>
                    (case fi_WriteFile (ce_files env) path (data @ [CHR 0x0A]) w of
                       (Some err, w) \<Rightarrow> (Some (''write config file: '' @ err), w)
                     | (None, w) \<Rightarrow> (None, w)))))"

definition DefaultLocalConfig :: CtlConfig where
  "DefaultLocalConfig =
     \<lparr>cc_MasterURL = ''https://localhost:7270'', cc_CACert = path_Join ''./local/certs'' ''ca.crt'',
      cc_ClientCert = path_Join ''./local/certs'' ''worker-worker-vn-01.crt'',
      cc_ClientKey = path_Join ''./local/certs'' ''worker-worker-vn-01.key'', cc_DefaultUserLat = Fin 0, cc_DefaultUserLon = Fin 0,
      cc_AutoDetectLocation = True, cc_LocationProviderURL = DefaultLocationProviderURL, cc_Output = ''table''\<rparr>"

definition override :: "string \<Rightarrow> string \<Rightarrow> string" where
  "override given old = (if TrimSpace given \<noteq> '''' then given else old)"

definition ApplyOverrides ::
  "(string \<Rightarrow> string) \<Rightarrow> CtlConfig \<Rightarrow> string \<Rightarrow> string \<Rightarrow> string \<Rightarrow> string \<Rightarrow> string \<Rightarrow> float64 \<Rightarrow> float64 \<Rightarrow> bool \<Rightarrow> bool \<Rightarrow> CtlConfig" where
  "ApplyOverrides lower cfg masterURL caCert clientCert clientKey output userLat userLon hasUserLat hasUserLon =
     ctl_normalize lower (cfg\<lparr>
       cc_MasterURL := override masterURL (cc_MasterURL cfg), cc_CACert := override caCert (cc_CACert cfg),
       cc_ClientCert := override clientCert (cc_ClientCert cfg), cc_ClientKey := override clientKey (cc_ClientKey cfg),
       cc_Output := override output (cc_Output cfg),
       cc_DefaultUserLat := (if hasUserLat then userLat else cc_DefaultUserLat cfg),
       cc_DefaultUserLon := (if hasUserLon then userLon else cc_DefaultUserLon cfg)\<rparr>)"

text \<open>The check of a profile that has been normalised; \<open>ValidateForRequest\<close> normalises its receiver first.\<close>

definition profile_error :: "(string \<Rightarrow> URL go_result) \<Rightarrow> CtlConfig \<Rightarrow> go_error" where
  "profile_error parse cfg =
     (if cc_MasterURL cfg = '''' then Some ''master_url is required''
      else if cc_CACert cfg = '''' then Some ''ca_cert is required''
      else if cc_ClientCert cfg = '''' then Some ''client_cert is required''
      else if cc_ClientKey cfg = '''' then Some ''client_key is required''
      else if flt_less (cc_DefaultUserLat cfg) (Fin (-90)) \<or> flt_less (Fin 90) (cc_DefaultUserLat cfg)
      then Some ''default_user_lat must be between -90 and 90''
      else if flt_less (cc_DefaultUserLon cfg) (Fin (-180)) \<or> flt_less (Fin 180) (cc_DefaultUserLon cfg)
      then Some ''default_user_lon must be between -180 and 180''
      else if cc_LocationProviderURL cfg = '''' then None
      else case parse (cc_LocationProviderURL cfg) of
        Inl err \<Rightarrow> Some ''location_provider_url must be an absolute URL''
      | Inr parsed \<Rightarrow>
          if u_Scheme parsed = '''' \<or> u_Host parsed = '''' then Some ''location_provider_url must be an absolute URL''
          else if u_Scheme parsed \<noteq> ''http'' \<and> u_Scheme parsed \<noteq> ''https'' then Some ''location_provider_url must use http or https''
          else None)"

definition ValidateForRequest :: "'w ctl_env \<Rightarrow> CtlConfig \<Rightarrow> go_error \<times> CtlConfig" where
  "ValidateForRequest env cfg0 =
     (let cfg = ctl_normalize (ce_lower env) cfg0 in (profile_error (ce_Parse env) cfg, cfg))"

section \<open>location.go\<close>

record Location =
  lo_Latitude :: float64
  lo_Longitude :: float64
  lo_Source :: string

definition location_not_configured :: string where
  "location_not_configured = ''execution location is not configured; pass --user-lat and --user-lon, set default_user_lat/default_user_lon, or enable auto_detect_location''"

definition ResolveLocation ::
  "'w ctl_env \<Rightarrow> CtlConfig \<Rightarrow> float64 \<Rightarrow> float64 \<Rightarrow> bool \<Rightarrow> bool \<Rightarrow> 'w \<Rightarrow> Location go_result \<times> 'w" where
  "ResolveLocation env cfg0 userLat userLon hasUserLat hasUserLon w =
     (let cfg = ctl_normalize (ce_lower env) cfg0 in
      if hasUserLat \<noteq> hasUserLon then (Inl ''both user-lat and user-lon are required when overriding execution location'', w)
      else if hasUserLat then
        (case Validate userLat userLon ''user'' of
           Some err \<Rightarrow> (Inl err, w)
         | None \<Rightarrow> (Inr \<lparr>lo_Latitude = userLat, lo_Longitude = userLon, lo_Source = ''explicit''\<rparr>, w))
      else if \<not> flt_eq (cc_DefaultUserLat cfg) (Fin 0) \<or> \<not> flt_eq (cc_DefaultUserLon cfg) (Fin 0) then
        (case Validate (cc_DefaultUserLat cfg) (cc_DefaultUserLon cfg) ''default_user'' of
           Some err \<Rightarrow> (Inl err, w)
         | None \<Rightarrow> (Inr \<lparr>lo_Latitude = cc_DefaultUserLat cfg, lo_Longitude = cc_DefaultUserLon cfg, lo_Source = ''config''\<rparr>, w))
      else if \<not> cc_AutoDetectLocation cfg then (Inl location_not_configured, w)
      else case Detect (ce_geo env) (cc_LocationProviderURL cfg) w of
        (Inl err, w) \<Rightarrow> (Inl (''auto-detect execution location: '' @ err), w)
      | (Inr location, w) \<Rightarrow>
          (Inr \<lparr>lo_Latitude = co_Latitude location, lo_Longitude = co_Longitude location, lo_Source = co_Source location\<rparr>, w))"

section \<open>Saving and loading\<close>

lemma SaveConfig_LoadConfig:
  assumes "writes_files (ce_files env)" "SaveConfig env path cfg w = (None, w')"
    and "\<And>data. ce_marshal env (ctl_normalize (ce_lower env) cfg) = Inr data \<Longrightarrow>
      ce_unmarshal env (data @ [CHR 0x0A]) = Inr (ctl_normalize (ce_lower env) cfg)"
  shows "LoadConfig env path w' = Inr (ctl_normalize (ce_lower env) (ctl_normalize (ce_lower env) cfg))"
proof -
  obtain p w1 data where p: "config_path env path = Inr p" "ce_marshal env (ctl_normalize (ce_lower env) cfg) = Inr data"
      "fi_WriteFile (ce_files env) p (data @ [CHR 0x0A]) w1 = (None, w')"
    using assms(2) by (auto simp: SaveConfig_def Let_def split: sum.splits prod.splits option.splits)
  have "fi_ReadFile (ce_files env) p w' = Bytes (data @ [CHR 0x0A])" using assms(1) p(3) unfolding writes_files_def by auto
  then show ?thesis using p(1) assms(3) [OF p(2)] by (simp add: LoadConfig_def)
qed

text \<open>
  Normalising twice is the same as once when the profile has no white space inside its URL and paths and its
  output format is ASCII: cutting the slashes off a URL, or cleaning a path, can bring a space to the end.
\<close>

definition plain :: "string \<Rightarrow> bool" where "plain s \<longleftrightarrow> list_all ascii_visible s"

definition plain_profile :: "CtlConfig \<Rightarrow> bool" where
  "plain_profile cfg \<longleftrightarrow> plain (TrimSpace (cc_MasterURL cfg)) \<and> plain (TrimSpace (cc_CACert cfg)) \<and>
     plain (TrimSpace (cc_ClientCert cfg)) \<and> plain (TrimSpace (cc_ClientKey cfg)) \<and> plain (TrimSpace (cc_Output cfg))"

lemma plain_trim: "plain s \<Longrightarrow> TrimSpace s = s"
  by (simp add: plain_def TrimSpace_visible)

lemma TrimRight_plain: "plain s \<Longrightarrow> plain (TrimRight c s)"
  unfolding plain_def TrimRight_def list_all_iff by (auto dest: set_dropWhileD)


lemma clean_elements_sub: "set (clean_elements rooted kept es) \<subseteq> set kept \<union> set es"
proof (induction rooted kept es rule: clean_elements.induct)
  case (2 rooted kept e es)
  then show ?case by (cases kept) (auto split: if_splits)
qed simp

lemma Join_chars: "set (Join es sep) \<subseteq> (\<Union>e \<in> set es. set e) \<union> set sep"
  by (induction es sep rule: Join.induct) auto

lemma Split_chars: "e \<in> set (Split c s) \<Longrightarrow> set e \<subseteq> set s"
  by (induction s arbitrary: e) (auto split: list.splits if_splits, (metis insert_iff list.set_intros subsetD)+)

lemma plain_Clean: "plain s \<Longrightarrow> plain (Clean s)"
proof -
  assume s: "plain s"
  let ?es = "rev (clean_elements (HasPrefix s ''/'') [] (Split (CHR ''/'') s))"
  have "set (Join ?es ''/'') \<subseteq> set s \<union> {CHR ''/''}"
    using Join_chars [of ?es "''/''"] clean_elements_sub [of _ "[]" "Split (CHR ''/'') s"] Split_chars [of _ "CHR ''/''" s] by fastforce
  moreover have "ascii_visible (CHR ''/'')" "ascii_visible (CHR ''.'')" by code_simp+
  ultimately show ?thesis using s by (auto simp: plain_def list_all_iff Clean_def Let_def)
qed

lemma cleanPath_idem: "plain (TrimSpace p) \<Longrightarrow> cleanPath (cleanPath p) = cleanPath p"
  using plain_trim [OF plain_Clean, of "TrimSpace p"] by (auto simp: cleanPath_def)

lemma lower_byte_visible: "ascii_visible c \<Longrightarrow> ascii_visible (lower_byte c)"
  by (auto simp: ascii_visible_def lower_byte_def of_char_of)

lemma ToLower_plain: "plain s \<Longrightarrow> plain (ToLower u s) \<and> ToLower u (ToLower u s) = ToLower u s"
proof -
  assume "plain s"
  then have a: "is_ascii s" by (auto simp: plain_def is_ascii_def ascii_visible_def list_all_iff)
  then have "plain (map lower_byte s)" using \<open>plain s\<close> by (auto simp: plain_def list_all_iff lower_byte_visible)
  then show ?thesis using a ToLower_ascii_idem [OF a] by (simp add: ToLower_def)
qed

lemma plain_defaults: "plain ''table''" "plain DefaultLocationProviderURL" "is_ascii ''table''" "map lower_byte ''table'' = ''table''"
  by code_simp+

lemma ctl_normalize_idem:
  assumes "plain_profile cfg"
  shows "ctl_normalize lower (ctl_normalize lower cfg) = ctl_normalize lower cfg"
proof -
  note p = assms [unfolded plain_profile_def]
  have url: "TrimRight (CHR ''/'') (TrimSpace (TrimRight (CHR ''/'') (TrimSpace u))) = TrimRight (CHR ''/'') (TrimSpace u)"
    if "plain (TrimSpace u)" for u
    using plain_trim [OF TrimRight_plain [OF that]] by simp
  have out: "ToLower lower (TrimSpace (ToLower lower (TrimSpace x))) = ToLower lower (TrimSpace x)" if "plain (TrimSpace x)" for x
    using ToLower_plain [OF that, of lower] plain_trim by metis
  have table: "ToLower lower (TrimSpace ''table'') = ''table''"
    using plain_defaults by (simp add: plain_trim ToLower_def)
  have prov: "TrimSpace DefaultLocationProviderURL = DefaultLocationProviderURL" by (rule plain_trim [OF plain_defaults(2)])
  show ?thesis using p url out table prov cleanPath_idem unfolding ctl_normalize_def Let_def
    by (cases cfg) auto
qed

text \<open>
  A profile that was saved is loaded again as it was normalised for saving, when it has no white space
  inside its URL and its paths; and normalising it again changes nothing. (Its JSON decodes to it.)
\<close>

theorem ctl_config_roundtrip:
  assumes "writes_files (ce_files env)" "SaveConfig env path cfg w = (None, w')" "plain_profile cfg"
    and "\<And>data. ce_marshal env (ctl_normalize (ce_lower env) cfg) = Inr data \<Longrightarrow>
      ce_unmarshal env (data @ [CHR 0x0A]) = Inr (ctl_normalize (ce_lower env) cfg)"
  shows "LoadConfig env path w' = Inr (ctl_normalize (ce_lower env) cfg) \<and>
    ctl_normalize (ce_lower env) (ctl_normalize (ce_lower env) cfg) = ctl_normalize (ce_lower env) cfg"
  using SaveConfig_LoadConfig [OF assms(1,2,4)] ctl_normalize_idem [OF assms(3)] by simp


text \<open>
  Where an execution is said to come from: coordinates given with the call win over the saved ones, and
  these over detection, which is the only case that uses the network. A location is within the ranges
  (or not a number). Saved coordinates that are both zero count as not saved.
\<close>

theorem resolve_location_precedence:
  assumes "ResolveLocation env cfg userLat userLon hasUserLat hasUserLon w = (Inr l, w')"
  shows "in_range 90 (lo_Latitude l) \<and> in_range 180 (lo_Longitude l) \<and> hasUserLat = hasUserLon \<and>
    (if hasUserLat then l = \<lparr>lo_Latitude = userLat, lo_Longitude = userLon, lo_Source = ''explicit''\<rparr> \<and> w' = w
     else if \<not> (flt_eq (cc_DefaultUserLat cfg) (Fin 0) \<and> flt_eq (cc_DefaultUserLon cfg) (Fin 0))
     then l = \<lparr>lo_Latitude = cc_DefaultUserLat cfg, lo_Longitude = cc_DefaultUserLon cfg, lo_Source = ''config''\<rparr> \<and> w' = w
     else cc_AutoDetectLocation cfg \<and> lo_Source l = ''auto'')"
proof -
  have keep: "cc_DefaultUserLat (ctl_normalize lower cfg) = cc_DefaultUserLat cfg" "cc_DefaultUserLon (ctl_normalize lower cfg) = cc_DefaultUserLon cfg"
    "cc_AutoDetectLocation (ctl_normalize lower cfg) = cc_AutoDetectLocation cfg" for lower
    by (simp_all add: ctl_normalize_def Let_def)
  show ?thesis
  proof (cases hasUserLat)
    case True
    then show ?thesis using assms by (auto simp: ResolveLocation_def Let_def Validate_None split: if_splits option.splits)
  next
    case False
    show ?thesis
    proof (cases "flt_eq (cc_DefaultUserLat cfg) (Fin 0) \<and> flt_eq (cc_DefaultUserLon cfg) (Fin 0)")
      case True
      then show ?thesis using False assms
        by (auto simp: ResolveLocation_def Let_def keep dest!: Detect_valid split: if_splits prod.splits sum.splits)
    next
      case saved: False
      then show ?thesis using False assms
        by (auto simp: ResolveLocation_def Let_def keep Validate_None split: if_splits option.splits)
    qed
  qed
qed

section \<open>A concrete profile\<close>

definition ctl_files_a :: "(string \<times> string) list files" where
  "ctl_files_a = \<lparr>fi_MkdirAll = (\<lambda>_ w. (None, w)), fi_Stat = (\<lambda>p w. case map_of w p of None \<Rightarrow> Missing | Some _ \<Rightarrow> Exists),
     fi_ReadFile = (\<lambda>p w. case map_of w p of None \<Rightarrow> NoFile | Some d \<Rightarrow> Bytes d), fi_WriteFile = (\<lambda>p d w. (None, (p, d) # w))\<rparr>"

definition profile_a :: CtlConfig where
  "profile_a = \<lparr>cc_MasterURL = ''https://m//'', cc_CACert = ''./ca'', cc_ClientCert = ''c//d'', cc_ClientKey = ''k/'', cc_DefaultUserLat = Fin 1,
     cc_DefaultUserLon = Fin 2, cc_AutoDetectLocation = False, cc_LocationProviderURL = '''', cc_Output = ''JSON''\<rparr>"

definition ctl_env_a :: "(string \<times> string) list ctl_env" where
  "ctl_env_a = \<lparr>ce_files = ctl_files_a, ce_home = Inr ''/home'', ce_marshal = (\<lambda>c. Inr ''profile''), ce_unmarshal = (\<lambda>d. Inr (ctl_normalize id profile_a)),
     ce_lower = id, ce_Parse = Inl, ce_geo = \<lparr>gl_net = \<lparr>net_do = (\<lambda>call w. (Inl ''down'', w)), net_done = (\<lambda>_. False),
       net_sleep = (\<lambda>_ w. (None, w)), net_now = (\<lambda>_. 0)\<rparr>, gl_NewRequest = (\<lambda>_. None), gl_decode = Inl, gl_ParseFloat = Inl\<rparr>\<rparr>"

theorem ctl_config_roundtrip_witness:
  "\<exists>w'. SaveConfig ctl_env_a '''' profile_a [] = (None, w') \<and> LoadConfig ctl_env_a '''' w' = Inr (ctl_normalize id profile_a)"
proof -
  have "fst (SaveConfig ctl_env_a '''' profile_a []) = None" by code_simp
  then obtain w' where s: "SaveConfig ctl_env_a '''' profile_a [] = (None, w')" by (metis prod.collapse)
  have "writes_files (ce_files ctl_env_a)" by (simp add: writes_files_def ctl_env_a_def ctl_files_a_def)
  moreover have "plain_profile profile_a" by code_simp
  ultimately show ?thesis using ctl_config_roundtrip [OF _ s] s by (auto simp: ctl_env_a_def)
qed

theorem resolve_location_precedence_witness:
  "\<exists>l. ResolveLocation ctl_env_a profile_a (Fin 3) (Fin 4) False False [] = (Inr l, []) \<and> lo_Source l = ''config''"
proof -
  obtain l w' where r: "ResolveLocation ctl_env_a profile_a (Fin 3) (Fin 4) False False [] = (Inr l, w')"
    by (simp add: ResolveLocation_def Let_def ctl_normalize_def profile_a_def Validate_def)
  from resolve_location_precedence [OF r] r show ?thesis by (simp add: profile_a_def)
qed

end
