(* ===== verification/Ctl_Client.thy ===== *)
theory Ctl_Client
  imports Ctl_Config Security_Mtls Shared_Metrics
begin

text \<open>
  \<open>src/internal/ctl/client.go\<close>: the calls of the command line client to the master. The mTLS files, JSON, and
  \<open>url.PathEscape\<close> are arguments; the network and the retries are those of \<open>Shared_Client\<close>.
\<close>

record ('p, 'w) client_env =
  cl_ctl :: "'w ctl_env"
  cl_load_pair :: "string \<Rightarrow> string \<Rightarrow> 'w \<Rightarrow> 'p go_result"
  cl_pem_ok :: "string \<Rightarrow> bool"
  cl_not_found :: "string \<Rightarrow> string"
  cl_net :: "'w network"
  cl_NewRequest :: "string \<Rightarrow> go_error"
  cl_ReadAll :: "http_reply \<Rightarrow> nat \<Rightarrow> go_error"
  cl_PathEscape :: "string \<Rightarrow> string"
  cl_marshal :: "ExecutionRequest \<Rightarrow> string go_result"
  cl_error :: "string \<Rightarrow> ErrorResponse go_result"
  cl_health :: "string \<Rightarrow> HealthResponse go_result"
  cl_metrics :: "string \<Rightarrow> MetricsResponse go_result"
  cl_workers :: "string \<Rightarrow> WorkerNode list go_result"
  cl_execution :: "string \<Rightarrow> ExecutionResponse go_result"
  cl_job :: "string \<Rightarrow> JobResponse go_result"
  cl_api :: "string \<Rightarrow> APIResponse go_result"

text \<open>A client is its profile; the certificates it connects with are in \<open>ct_TLS\<close>, none for a client given from outside.\<close>

record 'p Client =
  ct_Config :: CtlConfig
  ct_TLS :: "'p tls_config option"

definition NewClient :: "('p, 'w) client_env \<Rightarrow> CtlConfig \<Rightarrow> 'w \<Rightarrow> 'p Client go_result" where
  "NewClient env cfg0 w =
     (case ValidateForRequest (cl_ctl env) cfg0 of
        (Some err, cfg) \<Rightarrow> Inl err
      | (None, cfg) \<Rightarrow>
          (case NewMTLSHTTPClient (ce_files (cl_ctl env)) (cl_load_pair env) (cl_pem_ok env) (cl_not_found env)
                  (cc_ClientCert cfg) (cc_ClientKey cfg) (cc_CACert cfg) w of
             Inl err \<Rightarrow> Inl err
           | Inr tls \<Rightarrow> Inr \<lparr>ct_Config = cfg, ct_TLS = Some tls\<rparr>))"

definition NewClientWithHTTP :: "('p, 'w) client_env \<Rightarrow> CtlConfig \<Rightarrow> bool \<Rightarrow> 'w \<Rightarrow> 'p Client go_result" where
  "NewClientWithHTTP env cfg hasClient w =
     (if \<not> hasClient then NewClient env cfg w
      else Inr \<lparr>ct_Config = ctl_normalize (ce_lower (cl_ctl env)) cfg, ct_TLS = None\<rparr>)"

section \<open>One call\<close>

definition api_call :: "string \<Rightarrow> string \<Rightarrow> string option \<Rightarrow> http_call" where
  "api_call httpMethod url body =
     \<lparr>hc_Method = httpMethod, hc_URL = url,
      hc_Headers = (if body = None then [] else [(''Content-Type'', ''application/json'')]),
      hc_Body = (case body of None \<Rightarrow> NoBody | Some data \<Rightarrow> Replayable data)\<rparr>"

definition decodeAPIError :: "('p, 'w) client_env \<Rightarrow> http_reply \<Rightarrow> string" where
  "decodeAPIError env resp =
     (case cl_ReadAll env resp 4096 of
        Some err \<Rightarrow> ''request failed with '' @ hp_Status resp
      | None \<Rightarrow>
          (let body = take 4096 (hp_Body resp);
               plain_text = (let text = TrimSpace body in
                  if text = '''' then ''request failed with '' @ hp_Status resp
                  else ''request failed with '' @ hp_Status resp @ '': '' @ text)
           in case cl_error env body of
                Inl err \<Rightarrow> plain_text
              | Inr apiErr \<Rightarrow>
                  if er_Error apiErr = '''' then plain_text
                  else if er_Code apiErr \<noteq> '''' then er_Code apiErr @ '': '' @ er_Error apiErr
                  else er_Error apiErr))"

definition doJSON ::
  "('p, 'w) client_env \<Rightarrow> 'p Client \<Rightarrow> (string \<Rightarrow> 'a go_result) \<Rightarrow> string \<Rightarrow> string \<Rightarrow> string go_result option \<Rightarrow> 'w \<Rightarrow> 'a go_result \<times> 'w" where
  "doJSON env c decode httpMethod path body w =
     (case body of
        Some (Inl err) \<Rightarrow> (Inl (''encode request: '' @ err), w)
      | _ \<Rightarrow>
          (let url = cc_MasterURL (ct_Config c) @ path; data = (case body of Some (Inr d) \<Rightarrow> Some d | _ \<Rightarrow> None) in
           case cl_NewRequest env url of
             Some err \<Rightarrow> (Inl (''create request: '' @ err), w)
           | None \<Rightarrow>
               (case DoWithRetry (cl_net env) (api_call httpMethod url data) w of
                  (Inl err, w) \<Rightarrow> (Inl (''send request: '' @ err), w)
                | (Inr resp, w) \<Rightarrow>
                    (if hp_StatusCode resp < 200 \<or> hp_StatusCode resp \<ge> 300 then Inl (decodeAPIError env resp)
                     else case decode (hp_Body resp) of Inl err \<Rightarrow> Inl (''decode response: '' @ err) | Inr v \<Rightarrow> Inr v, w))))"

section \<open>The operations\<close>

definition Client_Health where "Client_Health env c = doJSON env c (cl_health env) ''GET'' ''/wasmcat/health'' None"
definition Client_Ready where "Client_Ready env c = doJSON env c (cl_health env) ''GET'' ''/wasmcat/ready'' None"
definition Client_Metrics where "Client_Metrics env c = doJSON env c (cl_metrics env) ''GET'' ''/wasmcat/metrics'' None"
definition Client_Workers where "Client_Workers env c = doJSON env c (cl_workers env) ''GET'' ''/api/v1/workers'' None"

definition Client_Execute :: "('p, 'w) client_env \<Rightarrow> 'p Client \<Rightarrow> ExecutionRequest \<Rightarrow> 'w \<Rightarrow> ExecutionResponse go_result \<times> 'w" where
  "Client_Execute env c req = doJSON env c (cl_execution env) ''POST'' ''/api/v1/execute'' (Some (cl_marshal env req))"

definition Client_CreateJob :: "('p, 'w) client_env \<Rightarrow> 'p Client \<Rightarrow> ExecutionRequest \<Rightarrow> 'w \<Rightarrow> JobResponse go_result \<times> 'w" where
  "Client_CreateJob env c req = doJSON env c (cl_job env) ''POST'' ''/api/v1/jobs'' (Some (cl_marshal env req))"

definition Client_GetJob :: "('p, 'w) client_env \<Rightarrow> 'p Client \<Rightarrow> string \<Rightarrow> 'w \<Rightarrow> JobResponse go_result \<times> 'w" where
  "Client_GetJob env c requestID0 w =
     (let requestID = TrimSpace requestID0 in
      case ValidateRequestID requestID of
        Some err \<Rightarrow> (Inl err, w)
      | None \<Rightarrow>
          if requestID = '''' then (Inl ''request_id is required'', w)
          else doJSON env c (cl_job env) ''GET'' (''/api/v1/jobs/'' @ requestID) None w)"

definition Client_Drain :: "('p, 'w) client_env \<Rightarrow> 'p Client \<Rightarrow> string \<Rightarrow> 'w \<Rightarrow> APIResponse go_result \<times> 'w" where
  "Client_Drain env c workerID0 w =
     (let workerID = TrimSpace workerID0 in
      if workerID = '''' then (Inl ''worker_id is required'', w)
      else doJSON env c (cl_api env) ''POST'' (''/api/v1/workers/'' @ cl_PathEscape env workerID @ ''/drain'') None w)"

end
