(* ===== verification/Ctl_Output.thy ===== *)
theory Ctl_Output
  imports Ctl_Client
begin

text \<open>
  \<open>src/internal/ctl/output.go\<close>: what the command line client prints. Indented JSON, the text of a number with a given
  precision, the text of a duration and the columns of \<open>text/tabwriter\<close> are arguments, like the writer itself.
\<close>

datatype cli_value =
    CliHealth HealthResponse
  | CliExec ExecutionResponse
  | CliJob JobResponse
  | CliApi APIResponse
  | CliWorkers "WorkerNode list"
  | CliMetrics MetricsResponse
  | CliConfig CtlConfig

record 'w out_env =
  ou_write :: "string \<Rightarrow> 'w \<Rightarrow> go_error \<times> 'w"
  ou_json :: "cli_value \<Rightarrow> string go_result"
  ou_fixed :: "nat \<Rightarrow> float64 \<Rightarrow> string"
  ou_duration :: "duration \<Rightarrow> string"
  ou_tabwriter :: "string \<Rightarrow> string"
  ou_now :: "'w \<Rightarrow> time"

abbreviation (input) newline :: string where "newline \<equiv> [CHR 0x0A]"
abbreviation (input) tab :: string where "tab \<equiv> [CHR 0x09]"

definition encode_json :: "'w out_env \<Rightarrow> cli_value \<Rightarrow> 'w \<Rightarrow> go_error \<times> 'w" where
  "encode_json env v w = (case ou_json env v of Inl err \<Rightarrow> (Some err, w) | Inr text \<Rightarrow> ou_write env text w)"

section \<open>The table of workers\<close>

text \<open>\<open>Duration.Round\<close> of a duration that is not negative: halves are rounded up, and the result saturates.\<close>

definition round_seconds :: "duration \<Rightarrow> duration" where
  "round_seconds d = (let r = d mod Second in if r + r < Second then d - r else min max_duration (d + (Second - r)))"

definition last_seen :: "'w out_env \<Rightarrow> time \<Rightarrow> WorkerNode \<Rightarrow> string" where
  "last_seen env now worker =
     (if IsZero (wn_LastSeen worker) then ''unknown''
      else ou_duration env (round_seconds (max 0 (Sub now (wn_LastSeen worker)))) @ '' ago'')"

definition worker_line :: "'w out_env \<Rightarrow> time \<Rightarrow> WorkerNode \<Rightarrow> string" where
  "worker_line env now worker =
     wn_ID worker @ tab @ wn_IPAddress worker @ tab @ (if wn_State worker = '''' then WorkerStateReady else wn_State worker) @ tab @
     ou_fixed env 1 (wn_CPUFree worker) @ ''%'' @ tab @ ou_fixed env 0 (wn_RAMFreeMB worker) @ '' MB'' @ tab @
     last_seen env now worker @ newline"

definition WriteWorkers :: "'w out_env \<Rightarrow> WorkerNode list \<Rightarrow> 'w \<Rightarrow> go_error \<times> 'w" where
  "WriteWorkers env workers w =
     ou_write env (ou_tabwriter env
       (''ID'' @ tab @ ''ADDRESS'' @ tab @ ''STATE'' @ tab @ ''CPU FREE'' @ tab @ ''RAM FREE'' @ tab @ ''LAST SEEN'' @ newline @
        concat (map (worker_line env (ou_now env w)) workers))) w"

section \<open>WriteValue\<close>

definition exec_text :: "'w out_env \<Rightarrow> ExecutionResponse \<Rightarrow> string" where
  "exec_text env x =
     ''request_id='' @ resp_RequestID x @ newline @ ''node='' @ resp_ExecutedOnNodeID x @ newline @
     ''execution_time_ms='' @ ou_fixed env 3 (resp_ExecutionTimeMs x) @ newline @ ''result='' @ resp_Result x @ newline"

definition job_text :: "JobResponse \<Rightarrow> string" where
  "job_text j =
     ''request_id='' @ jr_RequestID j @ newline @ ''status='' @ jr_Status j @ newline @ ''worker='' @ jr_WorkerID j @ newline @
     ''attempt='' @ itoa (jr_Attempt j) @ ''/'' @ itoa (jr_MaxAttempts j) @ newline @ ''last_error='' @ jr_LastError j @ newline"

definition WriteValue :: "'w out_env \<Rightarrow> string \<Rightarrow> cli_value \<Rightarrow> 'w \<Rightarrow> go_error \<times> 'w" where
  "WriteValue env output v w =
     (if output = ''json'' then encode_json env v w
      else case v of
        CliHealth h \<Rightarrow>
          ou_write env (''status='' @ hr_Status h @ '' role='' @ hr_Role h @ '' node_id='' @ hr_NodeID h @ newline) w
      | CliExec x \<Rightarrow> ou_write env (exec_text env x) w
      | CliJob j \<Rightarrow>
          (case ou_write env (job_text j) w of
             (Some err, w) \<Rightarrow> (Some err, w)
           | (None, w) \<Rightarrow>
               (case jr_Response j of
                  None \<Rightarrow> (None, w)
                | Some x \<Rightarrow> ou_write env (''result='' @ resp_Result x @ newline) w))
      | CliApi a \<Rightarrow> ou_write env (''status='' @ api_Status a @ '' message='' @ api_Message a @ newline) w
      | CliWorkers workers \<Rightarrow> WriteWorkers env workers w
      | CliMetrics _ \<Rightarrow> encode_json env v w
      | CliConfig _ \<Rightarrow> encode_json env v w)"

text \<open>Printing touches nothing but the output.\<close>

lemma WriteValue_keeps:
  assumes "\<And>text w. h (snd (ou_write env text w)) = h w"
  shows "h (snd (WriteValue env output v w)) = h w"
proof -
  have s: "h w' = h w" if "ou_write env t w = (e, w')" for t e w w'
    using assms [of t w] that by simp
  have "h (snd (encode_json env v w)) = h w" using assms by (simp add: encode_json_def split: sum.split)
  then show ?thesis using assms
    by (auto simp: WriteValue_def WriteWorkers_def split: cli_value.split prod.split option.split dest!: s)
qed

end
