(* ===== verification/Api_Calls.thy ===== *)
theory Api_Calls
  imports Ctl_Client
begin

text \<open>
  Which calls the operations of the client can make: one of the API of the master, with the address of
  the profile in front, at most three times. The command line program and the dashboard both rest on this.
\<close>

section \<open>Permitted calls\<close>

text \<open>\<open>ok\<close> is what is known of a request that is sent for execution.\<close>

inductive permitted ::
  "('p, 'w) client_env \<Rightarrow> (ExecutionRequest \<Rightarrow> bool) \<Rightarrow> string \<Rightarrow> http_call \<Rightarrow> bool"
  for env ok url where
  status: "path \<in> {''/wasmcat/health'', ''/wasmcat/ready'', ''/wasmcat/metrics'', ''/api/v1/workers''} \<Longrightarrow>
     permitted env ok url (api_call ''GET'' (url @ path) None)"
| job: "ValidateRequestID i = None \<Longrightarrow> i \<noteq> '''' \<Longrightarrow> permitted env ok url (api_call ''GET'' (url @ ''/api/v1/jobs/'' @ i) None)"
| drain: "i \<noteq> '''' \<Longrightarrow> TrimSpace i = i \<Longrightarrow>
     permitted env ok url (api_call ''POST'' (url @ ''/api/v1/workers/'' @ cl_PathEscape env i @ ''/drain'') None)"
| execution: "ok req \<Longrightarrow> cl_marshal env req = Inr data \<Longrightarrow> path \<in> {''/api/v1/execute'', ''/api/v1/jobs''} \<Longrightarrow>
     permitted env ok url (api_call ''POST'' (url @ path) (Some data))"

text \<open>From \<open>w\<close> to \<open>w'\<close> nothing was sent, or one call for which \<open>Q\<close> holds, and that at most three times.\<close>

definition sends_calls ::
  "('w \<Rightarrow> (http_call \<times> http_reply go_result) list) \<Rightarrow> (http_call \<Rightarrow> bool) \<Rightarrow> 'w \<Rightarrow> 'w \<Rightarrow> bool" where
  "sends_calls h Q w w' \<longleftrightarrow>
     (\<exists>pre. h w' = pre @ h w \<and> length pre \<le> 3 \<and> (pre \<noteq> [] \<longrightarrow> (\<exists>call. Q call \<and> map fst pre = replicate (length pre) call)))"

abbreviation sends_one where "sends_one h env ok url \<equiv> sends_calls h (permitted env ok url)"

lemma sends_nothing: "h w' = h w \<Longrightarrow> sends_calls h Q w w'"
  unfolding sends_calls_def by (rule exI [of _ "[]"]) simp

lemma sends_weaken: "sends_calls h Q w w' \<Longrightarrow> (\<And>call. Q call \<Longrightarrow> Q' call) \<Longrightarrow> sends_calls h Q' w w'"
  unfolding sends_calls_def by blast

lemma sends_one_after: "sends_calls h Q w w' \<Longrightarrow> h w = h w0 \<Longrightarrow> h w'' = h w' \<Longrightarrow> sends_calls h Q w0 w''"
  unfolding sends_calls_def by simp

lemma doJSON_sends:
  assumes "records (cl_net env) h" "quiet (cl_net env) h"
    and "\<And>data. body = Some (Inr data) \<Longrightarrow> Q (api_call m (cc_MasterURL (ct_Config c) @ path) (Some data))"
    and "body = None \<Longrightarrow> Q (api_call m (cc_MasterURL (ct_Config c) @ path) None)"
    and "doJSON env c dec m path body w = (r, w')"
  shows "sends_calls h Q w w'"
proof -
  let ?data = "case body of Some (Inr d) \<Rightarrow> Some d | _ \<Rightarrow> None"
  let ?call = "api_call m (cc_MasterURL (ct_Config c) @ path) ?data"
  have "w' = w \<or> (\<not> (\<exists>e. body = Some (Inl e)) \<and> w' = snd (DoWithRetry (cl_net env) ?call w))"
    using assms(5) by (auto simp: doJSON_def Let_def split: option.splits sum.splits prod.splits)
  then show ?thesis
  proof (elim disjE conjE)
    assume b: "\<not> (\<exists>e. body = Some (Inl e))" and w': "w' = snd (DoWithRetry (cl_net env) ?call w)"
    have replay: "hc_Body ?call = NoBody \<or> (\<exists>d. hc_Body ?call = Replayable d)" by (cases ?data) (simp_all add: api_call_def)
    obtain pre where pre: "h w' = pre @ h w" "\<forall>x \<in> set pre. fst x = ?call"
      using DoWithRetry_history [OF assms(1,2) replay, of w] w' by auto
    have "sends (cl_net env) (length \<circ> h)" using assms(1,2) by (simp add: sends_def records_def quiet_def)
    then have "(length \<circ> h) w' \<le> (length \<circ> h) w + 3"
      using retry_loop_sends [of "cl_net env" "length \<circ> h" ?call DefaultHTTPRetryBackoff 0 3 None w] w'
      by (simp add: DoWithRetry_def DoWithRetryPolicy_def DefaultHTTPRetryPolicy_def DefaultHTTPRetryAttempts_def prod_eq_iff)
    moreover have "Q ?call"
      using assms(3,4) b by (cases body) (auto split: sum.splits)
    moreover have "map fst pre = replicate (length pre) ?call" using pre(2) by (induction pre) auto
    ultimately show ?thesis using pre(1) unfolding sends_calls_def by (intro exI [of _ pre]) auto
  qed (simp add: sends_nothing)
qed

section \<open>The operations of the client\<close>

definition permitted_by :: "('p, 'w) client_env \<Rightarrow> (ExecutionRequest \<Rightarrow> bool) \<Rightarrow> 'p Client \<Rightarrow> string \<Rightarrow> http_call \<Rightarrow> bool" where
  "permitted_by env ok c m call \<longleftrightarrow> permitted env ok (cc_MasterURL (ct_Config c)) call \<and> hc_Method call = m"

lemma api_call_method [simp]: "hc_Method (api_call m u b) = m"
  by (simp add: api_call_def)

lemma client_gets:
  assumes "records (cl_net env) h" "quiet (cl_net env) h"
  shows "sends_calls h (permitted_by env ok c ''GET'') w (snd (Client_Health env c w))"
    "sends_calls h (permitted_by env ok c ''GET'') w (snd (Client_Ready env c w))"
    "sends_calls h (permitted_by env ok c ''GET'') w (snd (Client_Metrics env c w))"
    "sends_calls h (permitted_by env ok c ''GET'') w (snd (Client_Workers env c w))"
  unfolding Client_Health_def Client_Ready_def Client_Metrics_def Client_Workers_def
  by (rule doJSON_sends [OF assms _ _ surjective_pairing]; simp add: permitted_by_def permitted.status)+

lemma client_posts:
  assumes "records (cl_net env) h" "quiet (cl_net env) h" "ok req"
  shows "sends_calls h (permitted_by env ok c ''POST'') w (snd (Client_Execute env c req w))"
    "sends_calls h (permitted_by env ok c ''POST'') w (snd (Client_CreateJob env c req w))"
  unfolding Client_Execute_def Client_CreateJob_def
  by (rule doJSON_sends [OF assms(1,2) _ _ surjective_pairing]; auto simp: permitted_by_def intro: permitted.execution [where ok = ok, OF assms(3)])+

lemma client_job:
  assumes "records (cl_net env) h" "quiet (cl_net env) h"
  shows "sends_calls h (permitted_by env ok c ''GET'') w (snd (Client_GetJob env c i w))"
proof (cases "ValidateRequestID (TrimSpace i) = None \<and> TrimSpace i \<noteq> ''''")
  case True
  have "sends_calls h (permitted_by env ok c ''GET'') w (snd (doJSON env c (cl_job env) ''GET'' (''/api/v1/jobs/'' @ TrimSpace i) None w))"
    by (rule doJSON_sends [OF assms _ _ surjective_pairing])
      (use True permitted.job [of "TrimSpace i"] in \<open>simp_all add: permitted_by_def\<close>)
  then show ?thesis using True by (simp add: Client_GetJob_def Let_def)
next
  case False
  then have "snd (Client_GetJob env c i w) = w" by (auto simp: Client_GetJob_def Let_def split: option.splits)
  then show ?thesis by (simp add: sends_nothing)
qed

lemma client_drain:
  assumes "records (cl_net env) h" "quiet (cl_net env) h"
  shows "sends_calls h (permitted_by env ok c ''POST'') w (snd (Client_Drain env c i w))"
proof (cases "TrimSpace i = ''''")
  case True
  then show ?thesis by (simp add: Client_Drain_def Let_def sends_nothing)
next
  case False
  have "sends_calls h (permitted_by env ok c ''POST'') w
      (snd (doJSON env c (cl_api env) ''POST'' (''/api/v1/workers/'' @ cl_PathEscape env (TrimSpace i) @ ''/drain'') None w))"
    by (rule doJSON_sends [OF assms _ _ surjective_pairing])
      (use False permitted.drain [of "TrimSpace i"] in \<open>simp_all add: permitted_by_def\<close>)
  then show ?thesis using False by (simp add: Client_Drain_def Let_def)
qed

text \<open>The same without the method.\<close>

lemma permitted_by_one: "sends_calls h (permitted_by env ok c m) w w' \<Longrightarrow> sends_one h env ok (cc_MasterURL (ct_Config c)) w w'"
  by (erule sends_weaken) (simp add: permitted_by_def)

text \<open>Through the operations of a client, a client that was made from a profile has a valid profile.\<close>

lemma NewClient_valid: "NewClient env cfg w = Inr c \<Longrightarrow> profile_error (ce_Parse (cl_ctl env)) (ct_Config c) = None"
  by (auto simp: NewClient_def ValidateForRequest_def Let_def split: option.splits sum.splits prod.splits)

end
