(* ===== verification/Ctl_Main.thy ===== *)
theory Ctl_Main
  imports Ctl_Output Go_Flag Api_Calls
begin

text \<open>
  \<open>src/cmd/wasmcatctl/main.go\<close>: the arguments of the command line client and its commands. The time limit of a command
  is a parameter of the environment of its calls, \<open>cm_client\<close>; reading a duration, the version that is linked
  in, and writing to the two outputs are arguments. A set of flags that cannot be parsed reports the error and its usage on the
  standard error by itself: \<open>cm_flag_report\<close>.
\<close>

record ('p, 'w) cli_env =
  cm_client :: "duration \<Rightarrow> ('p, 'w) client_env"
  cm_ctl :: "'w ctl_env"
  cm_out :: "'w out_env"
  cm_stderr :: "string \<Rightarrow> 'w \<Rightarrow> go_error \<times> 'w"
  cm_flags :: flag_env
  cm_flag_report :: "string \<Rightarrow> 'w \<Rightarrow> 'w"
  cm_ParseDuration :: "string \<Rightarrow> duration go_result"
  cm_not_found :: "string \<Rightarrow> string"
  cm_version :: string

section \<open>Global flags\<close>

record globalFlags =
  gf_configPath :: string
  gf_masterURL :: string
  gf_caCert :: string
  gf_clientCert :: string
  gf_clientKey :: string
  gf_output :: string
  gf_timeout :: duration

definition global_names :: "string list" where
  "global_names = [''--config'', ''--master'', ''--ca'', ''--cert'', ''--key'', ''--output'', ''-o'', ''--timeout'']"

text \<open>One case of the \<open>switch\<close>, for a name that is one of the above.\<close>

definition set_global :: "('p, 'w) cli_env \<Rightarrow> string \<Rightarrow> string \<Rightarrow> globalFlags \<Rightarrow> globalFlags go_result" where
  "set_global env name value globals =
     (if name = ''--config'' then Inr (globals\<lparr>gf_configPath := value\<rparr>)
      else if name = ''--master'' then Inr (globals\<lparr>gf_masterURL := value\<rparr>)
      else if name = ''--ca'' then Inr (globals\<lparr>gf_caCert := value\<rparr>)
      else if name = ''--cert'' then Inr (globals\<lparr>gf_clientCert := value\<rparr>)
      else if name = ''--key'' then Inr (globals\<lparr>gf_clientKey := value\<rparr>)
      else if name = ''--output'' \<or> name = ''-o'' then Inr (globals\<lparr>gf_output := value\<rparr>)
      else case cm_ParseDuration env value of
        Inl err \<Rightarrow> Inl (''parse timeout: '' @ err)
      | Inr timeout \<Rightarrow> Inr (globals\<lparr>gf_timeout := timeout\<rparr>))"

fun parse_globals :: "('p, 'w) cli_env \<Rightarrow> globalFlags \<Rightarrow> string list \<Rightarrow> (globalFlags \<times> string list) go_result" where
  "parse_globals env globals [] = Inr (globals, [])"
| "parse_globals env globals (arg # rest) =
     (if arg = ''--'' then Inr (globals, rest)
      else if \<not> HasPrefix arg ''-'' then Inr (globals, arg # rest)
      else case Cut (CHR ''='') arg of
        (name, value, hasInlineValue) \<Rightarrow>
          if name \<notin> set global_names then Inl (''unknown global flag '' @ fl_quote (cm_flags env) name)
          else if hasInlineValue then
            (case set_global env name value globals of Inl err \<Rightarrow> Inl err | Inr globals \<Rightarrow> parse_globals env globals rest)
          else
            (case rest of
               [] \<Rightarrow> Inl (name @ '' requires a value'')
             | v # rest \<Rightarrow>
                 (case set_global env name v globals of Inl err \<Rightarrow> Inl err | Inr globals \<Rightarrow> parse_globals env globals rest)))"

definition zero_globals :: globalFlags where
  "zero_globals = \<lparr>gf_configPath = '''', gf_masterURL = '''', gf_caCert = '''', gf_clientCert = '''', gf_clientKey = '''', gf_output = '''',
     gf_timeout = 30 * Second\<rparr>"

definition parseGlobalFlags :: "('p, 'w) cli_env \<Rightarrow> string list \<Rightarrow> (globalFlags \<times> string list) go_result" where
  "parseGlobalFlags env args =
     (case parse_globals env zero_globals args of
        Inl err \<Rightarrow> Inl err
      | Inr (globals, remaining) \<Rightarrow>
          if gf_timeout globals \<le> 0 then Inl ''timeout must be greater than zero'' else Inr (globals, remaining))"

section \<open>Executions\<close>

definition readPayload :: "('p, 'w) cli_env \<Rightarrow> string \<Rightarrow> string \<Rightarrow> 'w \<Rightarrow> string go_result" where
  "readPayload env payload payloadFile w =
     (if payload \<noteq> '''' \<and> payloadFile \<noteq> '''' then Inl ''use either --payload or --payload-file, not both''
      else if payloadFile = '''' then Inr payload
      else case fi_ReadFile (ce_files (cm_ctl env)) payloadFile w of
        NoFile \<Rightarrow> Inl (''read payload file: '' @ cm_not_found env payloadFile)
      | ReadFails err \<Rightarrow> Inl (''read payload file: '' @ err)
      | Bytes data \<Rightarrow> Inr data)"

definition execution_flags :: "(string \<times> flag_kind) list" where
  "execution_flags =
     [(''request-id'', StringFlag), (''module'', StringFlag), (''url'', StringFlag), (''registry-url'', StringFlag), (''digest'', StringFlag),
      (''abi'', StringFlag), (''payload'', StringFlag), (''payload-file'', StringFlag), (''user-lat'', FloatFlag), (''user-lon'', FloatFlag)]"

definition execution_request :: "(string \<times> string) list \<Rightarrow> string \<Rightarrow> Location \<Rightarrow> ExecutionRequest" where
  "execution_request passed payload location =
     (let text = (\<lambda>name. TrimSpace (flag_String passed name '''')) in
      \<lparr>req_RequestID = text ''request-id'', req_ModuleName = text ''module'', req_Payload = payload, req_ModuleURL = text ''url'',
       req_ModuleRegistryURL = text ''registry-url'', req_ModuleDigest = text ''digest'', req_JITBearerToken = '''', req_ModuleABI = text ''abi'',
       req_UserLat = lo_Latitude location, req_UserLon = lo_Longitude location\<rparr>)"

definition parseExecutionFlags ::
  "('p, 'w) cli_env \<Rightarrow> duration \<Rightarrow> string list \<Rightarrow> CtlConfig \<Rightarrow> 'w \<Rightarrow> ExecutionRequest go_result \<times> 'w" where
  "parseExecutionFlags env timeout args cfg w =
     (case flag_Parse (cm_flags env) execution_flags args of
        Inl err \<Rightarrow> (Inl err, cm_flag_report env err w)
      | Inr (passed, _) \<Rightarrow>
          (case readPayload env (flag_String passed ''payload'' '''') (flag_String passed ''payload-file'' '''') w of
             Inl err \<Rightarrow> (Inl err, w)
           | Inr payloadValue \<Rightarrow>
               (case ResolveLocation (cl_ctl (cm_client env timeout)) cfg
                   (flag_Float64 (cm_flags env) passed ''user-lat'' (Fin 0)) (flag_Float64 (cm_flags env) passed ''user-lon'' (Fin 0))
                   (flag_passed passed ''user-lat'') (flag_passed passed ''user-lon'') w of
                  (Inl err, w) \<Rightarrow> (Inl err, w)
                | (Inr location, w) \<Rightarrow>
                    (let req = execution_request passed payloadValue location in
                     case ExecutionRequest_Validate req of
                       Some err \<Rightarrow> (Inl err, w)
                     | None \<Rightarrow> (Inr req, w)))))"

section \<open>Commands\<close>

text \<open>The end of every command that calls the master: an error, or the value on the standard output.\<close>

definition print_result :: "('p, 'w) cli_env \<Rightarrow> string \<Rightarrow> ('a \<Rightarrow> cli_value) \<Rightarrow> 'a go_result \<times> 'w \<Rightarrow> go_error \<times> 'w" where
  "print_result env output wrap res =
     (case res of
        (Inl err, w) \<Rightarrow> (Some err, w)
      | (Inr v, w) \<Rightarrow> WriteValue (cm_out env) output (wrap v) w)"

definition runJobs ::
  "('p, 'w) cli_env \<Rightarrow> duration \<Rightarrow> 'p Client \<Rightarrow> string \<Rightarrow> string list \<Rightarrow> 'w \<Rightarrow> go_error \<times> 'w" where
  "runJobs env timeout client output args w =
     (case args of
        [] \<Rightarrow> (Some ''jobs subcommand is required'', w)
      | sub # rest \<Rightarrow>
          if sub = ''create'' then
            (case parseExecutionFlags env timeout rest (ct_Config client) w of
               (Inl err, w) \<Rightarrow> (Some err, w)
             | (Inr req, w) \<Rightarrow> print_result env output CliJob (Client_CreateJob (cm_client env timeout) client req w))
          else if sub = ''get'' then
            (case rest of
               [] \<Rightarrow> (Some ''request_id is required'', w)
             | requestID # _ \<Rightarrow> print_result env output CliJob (Client_GetJob (cm_client env timeout) client requestID w))
          else (Some (''unknown jobs subcommand '' @ fl_quote (cm_flags env) sub), w))"

definition run_command ::
  "('p, 'w) cli_env \<Rightarrow> duration \<Rightarrow> 'p Client \<Rightarrow> CtlConfig \<Rightarrow> string \<Rightarrow> string list \<Rightarrow> 'w \<Rightarrow> go_error \<times> 'w" where
  "run_command env timeout client cfg command args w =
     (let calls = cm_client env timeout; output = cc_Output cfg in
      if command = ''health'' then print_result env output CliHealth (Client_Health calls client w)
      else if command = ''ready'' then print_result env output CliHealth (Client_Ready calls client w)
      else if command = ''metrics'' then print_result env output CliMetrics (Client_Metrics calls client w)
      else if command = ''workers'' then print_result env output CliWorkers (Client_Workers calls client w)
      else if command = ''execute'' then
        (case parseExecutionFlags env timeout args cfg w of
           (Inl err, w) \<Rightarrow> (Some err, w)
         | (Inr req, w) \<Rightarrow> print_result env output CliExec (Client_Execute calls client req w))
      else if command = ''jobs'' then runJobs env timeout client output args w
      else if command = ''drain'' then
        (case args of
           [] \<Rightarrow> (Some ''worker_id is required'', w)
         | workerID # _ \<Rightarrow> print_result env output CliApi (Client_Drain calls client workerID w))
      else (Some (''unknown command '' @ fl_quote (cm_flags env) command), w))"


section \<open>Profiles\<close>

definition init_flags :: "(string \<times> flag_kind) list" where
  "init_flags =
     [(''config'', StringFlag), (''master'', StringFlag), (''ca'', StringFlag), (''cert'', StringFlag), (''key'', StringFlag), (''output'', StringFlag),
      (''user-lat'', FloatFlag), (''user-lon'', FloatFlag), (''auto-location'', BoolFlag), (''location-provider'', StringFlag)]"

definition init_profile :: "('p, 'w) cli_env \<Rightarrow> (string \<times> string) list \<Rightarrow> CtlConfig" where
  "init_profile env passed =
     (let text = (\<lambda>name. flag_String passed name ''''); coordinate = (\<lambda>name. flag_Float64 (cm_flags env) passed name (Fin 0));
          cfg = ApplyOverrides (ce_lower (cm_ctl env)) DefaultLocalConfig (text ''master'') (text ''ca'') (text ''cert'') (text ''key'') (text ''output'')
            (coordinate ''user-lat'') (coordinate ''user-lon'') (flag_passed passed ''user-lat'') (flag_passed passed ''user-lon'');
          cfg = cfg\<lparr>cc_AutoDetectLocation := flag_Bool (cm_flags env) passed ''auto-location'' True\<rparr>
      in if TrimSpace (text ''location-provider'') \<noteq> '''' then cfg\<lparr>cc_LocationProviderURL := text ''location-provider''\<rparr> else cfg)"

definition config_init :: "('p, 'w) cli_env \<Rightarrow> string list \<Rightarrow> 'w \<Rightarrow> go_error \<times> 'w" where
  "config_init env args w =
     (case flag_Parse (cm_flags env) init_flags args of
        Inl err \<Rightarrow> (Some err, cm_flag_report env err w)
      | Inr (passed, _) \<Rightarrow>
          if flag_passed passed ''user-lat'' \<noteq> flag_passed passed ''user-lon''
          then (Some ''both --user-lat and --user-lon are required when saving a default execution location'', w)
          else
            (case ValidateForRequest (cm_ctl env) (init_profile env passed) of
               (Some err, _) \<Rightarrow> (Some err, w)
             | (None, cfg) \<Rightarrow>
                 (let configPath = flag_String passed ''config'' '''' in
                  case SaveConfig (cm_ctl env) configPath cfg w of
                    (Some err, w) \<Rightarrow> (Some err, w)
                  | (None, w) \<Rightarrow>
                      (case (if configPath = '''' then DefaultConfigPath (cm_ctl env) else Inr configPath) of
                         Inl err \<Rightarrow> (Some err, w)
                       | Inr path \<Rightarrow> ou_write (cm_out env) (''created config: '' @ path @ newline) w))))"

definition runConfig :: "('p, 'w) cli_env \<Rightarrow> string list \<Rightarrow> 'w \<Rightarrow> go_error \<times> 'w" where
  "runConfig env args w =
     (case args of
        [] \<Rightarrow> (Some ''config subcommand is required'', w)
      | sub # rest \<Rightarrow>
          if sub = ''path'' then
            (case DefaultConfigPath (cm_ctl env) of
               Inl err \<Rightarrow> (Some err, w)
             | Inr path \<Rightarrow> ou_write (cm_out env) (path @ newline) w)
          else if sub = ''init'' then config_init env rest w
          else if sub = ''view'' then
            (case flag_Parse (cm_flags env) [(''config'', StringFlag)] rest of
               Inl err \<Rightarrow> (Some err, cm_flag_report env err w)
             | Inr (passed, _) \<Rightarrow>
                 (case LoadConfig (cm_ctl env) (flag_String passed ''config'' '''') w of
                    Inl err \<Rightarrow> (Some err, w)
                  | Inr cfg \<Rightarrow> WriteValue (cm_out env) ''json'' (CliConfig cfg) w))
          else (Some (''unknown config subcommand '' @ fl_quote (cm_flags env) sub), w))"

section \<open>The program\<close>

definition unlines :: "string list \<Rightarrow> string" where
  "unlines ls = concat (map (\<lambda>l. l @ newline) ls)"

definition usage_text :: "string \<Rightarrow> string" where
  "usage_text configPath = unlines
     [''wasmcatctl controls a wasmCat master over mTLS.'',
      '''',
      ''Usage:'',
      ''  wasmcatctl config init [--master URL] [--ca PATH] [--cert PATH] [--key PATH] [--auto-location=true]'',
      ''  wasmcatctl config view'',
      ''  wasmcatctl [global flags] health'',
      ''  wasmcatctl [global flags] ready'',
      ''  wasmcatctl [global flags] metrics'',
      ''  wasmcatctl [global flags] workers'',
      ''  wasmcatctl [global flags] execute --module NAME (--url URL | --registry-url URL) --payload TEXT [--abi wasi]'',
      ''  wasmcatctl [global flags] jobs create --module NAME (--url URL | --registry-url URL) --payload TEXT [--abi wasi]'',
      ''  wasmcatctl [global flags] jobs get REQUEST_ID'',
      ''  wasmcatctl [global flags] drain WORKER_ID'',
      '''',
      ''Global flags:'',
      ''  --config PATH   config file path, default '' @ configPath,
      ''  --master URL    override master_url'',
      ''  --ca PATH       override ca_cert'',
      ''  --cert PATH     override client_cert'',
      ''  --key PATH      override client_key'',
      ''  -o, --output    table or json'',
      ''  --timeout       request timeout, default 30s'',
      '''',
      ''Execution location:'',
      ''  execute and jobs create use --user-lat/--user-lon when provided, then saved'',
      ''  default coordinates, then auto-detection from the configured location provider.'',
      '''']"

definition printUsage :: "('p, 'w) cli_env \<Rightarrow> (string \<Rightarrow> 'w \<Rightarrow> go_error \<times> 'w) \<Rightarrow> 'w \<Rightarrow> 'w" where
  "printUsage env write w =
     snd (write (usage_text (case DefaultConfigPath (cm_ctl env) of Inl _ \<Rightarrow> ''<home>/.wasmcat/config.json'' | Inr path \<Rightarrow> path)) w)"

text \<open>The part of \<open>run\<close> for the commands that call the master.\<close>

definition run_remote :: "('p, 'w) cli_env \<Rightarrow> string list \<Rightarrow> 'w \<Rightarrow> go_error \<times> 'w" where
  "run_remote env args w =
     (case parseGlobalFlags env args of
        Inl err \<Rightarrow> (Some err, w)
      | Inr (globals, []) \<Rightarrow> (Some ''command is required'', w)
      | Inr (globals, command # rest) \<Rightarrow>
          (case LoadConfig (cm_ctl env) (gf_configPath globals) w of
             Inl err \<Rightarrow> (Some err, w)
           | Inr cfg0 \<Rightarrow>
               (let cfg = ApplyOverrides (ce_lower (cm_ctl env)) cfg0 (gf_masterURL globals) (gf_caCert globals) (gf_clientCert globals)
                      (gf_clientKey globals) (gf_output globals) (Fin 0) (Fin 0) False False in
                case NewClient (cm_client env (gf_timeout globals)) cfg w of
                  Inl err \<Rightarrow> (Some err, w)
                | Inr client \<Rightarrow> run_command env (gf_timeout globals) client cfg command rest w)))"

definition run_cli :: "('p, 'w) cli_env \<Rightarrow> string list \<Rightarrow> 'w \<Rightarrow> go_error \<times> 'w" where
  "run_cli env args w =
     (case args of
        [] \<Rightarrow> (Some ''flag: help requested'', printUsage env (cm_stderr env) w)
      | first # rest \<Rightarrow>
          if first = ''help'' \<or> first = ''--help'' \<or> first = ''-h'' then (None, printUsage env (ou_write (cm_out env)) w)
          else if first = ''version'' then ou_write (cm_out env) (''wasmcatctl '' @ cm_version env @ newline) w
          else if first = ''config'' then runConfig env rest w
          else run_remote env args w)"

definition main_cli :: "('p, 'w) cli_env \<Rightarrow> string list \<Rightarrow> 'w \<Rightarrow> int \<times> 'w" where
  "main_cli env args w =
     (case run_cli env args w of
        (None, w) \<Rightarrow> (0, w)
      | (Some err, w) \<Rightarrow> (1, snd (cm_stderr env (''wasmcatctl: '' @ err @ newline) w)))"

section \<open>The two spellings of a flag\<close>

datatype spelling = Inline string string | Separate string string

fun spell :: "spelling \<Rightarrow> string list" where
  "spell (Inline name value) = [name @ CHR ''='' # value]"
| "spell (Separate name value) = [name, value]"

fun setting :: "spelling \<Rightarrow> string \<times> string" where
  "setting (Inline name value) = (name, value)"
| "setting (Separate name value) = (name, value)"

fun set_globals :: "('p, 'w) cli_env \<Rightarrow> (string \<times> string) list \<Rightarrow> globalFlags \<Rightarrow> globalFlags go_result" where
  "set_globals env [] g = Inr g"
| "set_globals env ((name, value) # settings) g =
     (case set_global env name value g of Inl err \<Rightarrow> Inl err | Inr g \<Rightarrow> set_globals env settings g)"

lemma global_name:
  assumes "name \<in> set global_names"
  shows "CHR ''='' \<notin> set name" "HasPrefix name ''-''" "HasPrefix (name @ s) ''-''" "name @ CHR ''='' # s \<noteq> ''--''" "name \<noteq> ''--''"
  using assms by (auto simp: global_names_def HasPrefix_def)

lemma parse_one_global:
  assumes "fst (setting s) \<in> set global_names"
  shows "parse_globals env g (spell s @ rest) =
    (case set_global env (fst (setting s)) (snd (setting s)) g of Inl err \<Rightarrow> Inl err | Inr g \<Rightarrow> parse_globals env g rest)"
proof (cases s)
  case (Inline name v)
  then show ?thesis using assms global_name [of name] Cut_append [of "CHR ''=''" name v] by simp
next
  case (Separate name v)
  then show ?thesis using assms global_name [of name] Cut_no_sep [of "CHR ''=''" name] by simp
qed

lemma parse_settings:
  assumes "\<forall>s \<in> set ss. fst (setting s) \<in> set global_names"
  shows "parse_globals env g (concat (map spell ss) @ rest) =
    (case set_globals env (map setting ss) g of Inl err \<Rightarrow> Inl err | Inr g \<Rightarrow> parse_globals env g rest)"
  using assms
proof (induction ss arbitrary: g)
  case (Cons s ss)
  obtain name v where s: "setting s = (name, v)" by force
  then show ?case using Cons parse_one_global [of s env g "concat (map spell ss) @ rest"] by (simp split: sum.split)
qed simp

text \<open>
  Global flags mean the same in both spellings, \<open>--name=value\<close> and \<open>--name value\<close>, with values
  that may hold \<open>=\<close> or start with \<open>-\<close>: in any mixture and number they are applied from left to right, and the first
  argument that does not start with \<open>-\<close>, or the one after \<open>--\<close>, begins the command with all its own flags.
\<close>

theorem global_flags_spellings:
  assumes "\<forall>s \<in> set ss. fst (setting s) \<in> set global_names" "\<not> HasPrefix command ''-''"
  shows "parseGlobalFlags env (concat (map spell ss) @ command # args) =
      (case set_globals env (map setting ss) zero_globals of
         Inl err \<Rightarrow> Inl err
       | Inr g \<Rightarrow> if gf_timeout g \<le> 0 then Inl ''timeout must be greater than zero'' else Inr (g, command # args)) \<and>
    parseGlobalFlags env (concat (map spell ss) @ ''--'' # rest) =
      (case set_globals env (map setting ss) zero_globals of
         Inl err \<Rightarrow> Inl err
       | Inr g \<Rightarrow> if gf_timeout g \<le> 0 then Inl ''timeout must be greater than zero'' else Inr (g, rest))"
proof -
  have "command \<noteq> ''--''" using assms(2) by (auto simp: HasPrefix_def)
  then show ?thesis using parse_settings [OF assms(1), of env zero_globals] assms(2)
    by (simp add: parseGlobalFlags_def split: sum.split)
qed


section \<open>What the program sends\<close>

text \<open>
  \<open>h\<close> is the history of the calls to the master: printing, the detection of a location (which asks another server) and writing files
  add nothing to it.
\<close>

definition observes :: "('p, 'w) cli_env \<Rightarrow> ('w \<Rightarrow> (http_call \<times> http_reply go_result) list) \<Rightarrow> bool" where
  "observes env h \<longleftrightarrow>
     (\<forall>t. records (cl_net (cm_client env t)) h \<and> quiet (cl_net (cm_client env t)) h) \<and>
     (\<forall>t w. h (snd (ou_write (cm_out env) t w)) = h w) \<and> (\<forall>t w. h (snd (cm_stderr env t w)) = h w) \<and> (\<forall>t w. h (cm_flag_report env t w) = h w) \<and>
     (\<forall>t url w. h (snd (Detect (ce_geo (cl_ctl (cm_client env t))) url w)) = h w) \<and>
     (\<forall>p w. h (snd (fi_MkdirAll (ce_files (cm_ctl env)) p w)) = h w) \<and>
     (\<forall>p d w. h (snd (fi_WriteFile (ce_files (cm_ctl env)) p d w)) = h w)"

text \<open>A request that the program sends is valid, and its coordinates are within the ranges (or not numbers).\<close>

definition sendable :: "ExecutionRequest \<Rightarrow> bool" where
  "sendable req \<longleftrightarrow> ExecutionRequest_Validate req = None \<and> in_range 90 (req_UserLat req) \<and> in_range 180 (req_UserLon req)"

lemma ResolveLocation_ranges:
  assumes "ResolveLocation env cfg userLat userLon hasUserLat hasUserLon w = (Inr l, w')"
  shows "in_range 90 (lo_Latitude l) \<and> in_range 180 (lo_Longitude l)"
  using assms by (auto simp: ResolveLocation_def Let_def Validate_None dest!: Detect_valid split: if_splits option.splits prod.splits sum.splits)

lemma ResolveLocation_keeps:
  assumes "\<And>url w. h (snd (Detect (ce_geo env) url w)) = h w" "ResolveLocation env cfg a b c d w = (r, w')"
  shows "h w' = h w"
proof -
  have s: "h w' = h w" if "Detect (ce_geo env) url w = (e, w')" for url e w w'
    using assms(1) [of url w] that by simp
  then show ?thesis using assms(2)
    by (auto simp: ResolveLocation_def Let_def split: if_splits option.splits prod.splits sum.splits)
qed

lemma parseExecutionFlags_sendable:
  assumes "parseExecutionFlags env t args cfg w = (Inr req, w')"
  shows "sendable req"
proof -
  obtain passed left where f: "flag_Parse (cm_flags env) execution_flags args = Inr (passed, left)"
    using assms by (cases "flag_Parse (cm_flags env) execution_flags args") (auto simp: parseExecutionFlags_def)
  obtain payload where pay: "readPayload env (flag_String passed ''payload'' '''') (flag_String passed ''payload-file'' '''') w = Inr payload"
    using assms f by (cases "readPayload env (flag_String passed ''payload'' '''') (flag_String passed ''payload-file'' '''') w")
      (simp_all add: parseExecutionFlags_def)
  obtain r w1 where l: "ResolveLocation (cl_ctl (cm_client env t)) cfg
        (flag_Float64 (cm_flags env) passed ''user-lat'' (Fin 0)) (flag_Float64 (cm_flags env) passed ''user-lon'' (Fin 0))
        (flag_passed passed ''user-lat'') (flag_passed passed ''user-lon'') w = (r, w1)" by force
  then obtain loc where loc: "r = Inr loc" using assms f pay by (cases r) (simp_all add: parseExecutionFlags_def)
  then have "req = execution_request passed payload loc \<and> ExecutionRequest_Validate req = None"
    using assms f pay l by (cases "ExecutionRequest_Validate (execution_request passed payload loc)") (simp_all add: parseExecutionFlags_def Let_def)
  moreover have "req_UserLat (execution_request passed payload loc) = lo_Latitude loc" "req_UserLon (execution_request passed payload loc) = lo_Longitude loc"
    by (simp_all add: execution_request_def Let_def)
  ultimately show ?thesis using ResolveLocation_ranges [OF l [unfolded loc]] by (auto simp: sendable_def)
qed

lemma parseExecutionFlags_keeps:
  assumes "observes env h" "parseExecutionFlags env t args cfg w = (r, w')"
  shows "h w' = h w"
proof -
  have "\<And>url w. h (snd (Detect (ce_geo (cl_ctl (cm_client env t))) url w)) = h w" using assms(1) by (simp add: observes_def)
  note res = ResolveLocation_keeps [where h = h, OF this]
  show ?thesis
  proof (cases "flag_Parse (cm_flags env) execution_flags args")
    case (Inl e)
    then show ?thesis using assms by (auto simp: parseExecutionFlags_def observes_def)
  next
    case f: (Inr pl)
    obtain passed left where pl: "pl = (passed, left)" by force
    obtain l w1 where l: "ResolveLocation (cl_ctl (cm_client env t)) cfg
        (flag_Float64 (cm_flags env) passed ''user-lat'' (Fin 0)) (flag_Float64 (cm_flags env) passed ''user-lon'' (Fin 0))
        (flag_passed passed ''user-lat'') (flag_passed passed ''user-lon'') w = (l, w1)" by force
    have "w' = w \<or> w' = w1"
      using assms(2) f pl l
      by (cases "readPayload env (flag_String passed ''payload'' '''') (flag_String passed ''payload-file'' '''') w"; cases l)
        (auto simp: parseExecutionFlags_def Let_def split: option.splits)
    then show ?thesis using res [OF l] by auto
  qed
qed

lemma print_result_keeps:
  assumes "observes env h"
  shows "h (snd (print_result env out wrap res)) = h (snd res)"
  using WriteValue_keeps [of h "cm_out env"] assms by (auto simp: print_result_def observes_def split: prod.split sum.split)

lemma printed_sends:
  assumes "observes env h" "sends_one h calls ok url w (snd res)"
  shows "sends_one h calls ok url w (snd (print_result env out wrap res))"
  using sends_one_after [OF assms(2) refl print_result_keeps [OF assms(1)]] .

lemma execution_sends:
  fixes wrap :: "'a \<Rightarrow> cli_value"
  assumes o: "observes env h" and send: "\<And>req w. sendable req \<Longrightarrow> sends_one h calls sendable url w (snd (send req w))"
  shows "sends_one h calls sendable url w
    (snd (case parseExecutionFlags env t args cfg w of (Inl err, w) \<Rightarrow> (Some err, w) | (Inr req, w) \<Rightarrow> print_result env out wrap (send req w)))"
proof -
  obtain r w1 where p: "parseExecutionFlags env t args cfg w = (r, w1)" by force
  then have h: "h w1 = h w" by (rule parseExecutionFlags_keeps [OF o])
  show ?thesis
  proof (cases r)
    case (Inr req)
    have "sendable req" using p unfolding Inr by (rule parseExecutionFlags_sendable)
    from sends_one_after [OF printed_sends [OF o send [OF this]] h refl] show ?thesis using p Inr by simp
  qed (use p h in \<open>simp add: sends_nothing\<close>)
qed

lemma runJobs_sends:
  assumes o: "observes env h"
  shows "sends_one h (cm_client env t) sendable (cc_MasterURL (ct_Config client)) w (snd (runJobs env t client out args w))"
proof -
  have net: "records (cl_net (cm_client env t)) h" "quiet (cl_net (cm_client env t)) h" using o by (simp_all add: observes_def)
  note create = execution_sends [OF o permitted_by_one [OF client_posts(2) [OF net]], where wrap = CliJob]
  note get = printed_sends [OF o permitted_by_one [OF client_job [OF net]], where wrap = CliJob]
  show ?thesis unfolding runJobs_def
    using create get by (auto simp: sends_nothing split: list.split)
qed

lemma run_command_sends:
  assumes o: "observes env h"
  shows "sends_one h (cm_client env t) sendable (cc_MasterURL (ct_Config client)) w (snd (run_command env t client cfg command args w))"
proof -
  have net: "records (cl_net (cm_client env t)) h" "quiet (cl_net (cm_client env t)) h" using o by (simp_all add: observes_def)
  note execute = execution_sends [OF o permitted_by_one [OF client_posts(1) [OF net]], where wrap = CliExec]
  note gets = client_gets [OF net, THEN permitted_by_one, THEN printed_sends [OF o]]
  note drain = printed_sends [OF o permitted_by_one [OF client_drain [OF net]], where wrap = CliApi]
  show ?thesis unfolding run_command_def Let_def
    using execute gets drain runJobs_sends [OF o] by (auto simp: sends_nothing split: list.split)
qed


lemma prints_keep:
  assumes "observes env h"
  shows "h (snd (ou_write (cm_out env) s w)) = h w" "h (snd (cm_stderr env s w)) = h w" "h (snd (WriteValue (cm_out env) out v w)) = h w"
    "h (cm_flag_report env s w) = h w"
  using assms WriteValue_keeps [of h "cm_out env"] by (simp_all add: observes_def)

lemma usage_keeps:
  assumes "observes env h"
  shows "h (printUsage env (ou_write (cm_out env)) w) = h w" "h (printUsage env (cm_stderr env) w) = h w"
  using prints_keep [OF assms] by (simp_all add: printUsage_def)

lemma SaveConfig_keeps:
  assumes "observes env h"
  shows "h (snd (SaveConfig (cm_ctl env) path cfg w)) = h w"
proof -
  have mk: "h w' = h w" if "fi_MkdirAll (ce_files (cm_ctl env)) p w = (e, w')" for p e w w'
    using assms that unfolding observes_def by (metis snd_conv)
  have wr: "h w' = h w" if "fi_WriteFile (ce_files (cm_ctl env)) p d w = (e, w')" for p d e w w'
    using assms that unfolding observes_def by (metis snd_conv)
  show ?thesis using mk wr by (auto simp: SaveConfig_def Let_def split: sum.split prod.split option.split)
qed

lemma runConfig_keeps:
  assumes o: "observes env h"
  shows "h (snd (runConfig env args w)) = h w"
proof -
  have init: "h (snd (config_init env rest w)) = h w" for rest
  proof (cases "flag_Parse (cm_flags env) init_flags rest")
    case (Inr pl)
    obtain passed left where pl: "pl = (passed, left)" by force
    obtain err cfg where v: "ValidateForRequest (cm_ctl env) (init_profile env passed) = (err, cfg)" by force
    obtain e w1 where s: "SaveConfig (cm_ctl env) (flag_String passed ''config'' '''') cfg w = (e, w1)" by force
    then have "h w1 = h w" using SaveConfig_keeps [OF o] by (metis snd_conv)
    then show ?thesis using Inr pl v s prints_keep [OF o]
      by (cases err; cases e) (auto simp: config_init_def Let_def split: sum.split)
  qed (use prints_keep(4) [OF o] in \<open>simp add: config_init_def\<close>)
  show ?thesis using init prints_keep [OF o] by (auto simp: runConfig_def split: list.split sum.split prod.split)
qed

lemma run_remote_sends:
  assumes o: "observes env h"
  shows "\<exists>t cfg. sends_one h (cm_client env t) sendable (cc_MasterURL cfg) w (snd (run_remote env args w)) \<and>
    (h (snd (run_remote env args w)) \<noteq> h w \<longrightarrow> 0 < t \<and> profile_error (ce_Parse (cl_ctl (cm_client env t))) cfg = None)"
proof (cases "snd (run_remote env args w) = w")
  case True
  then show ?thesis by (auto intro: sends_nothing)
next
  case False
  obtain g command rest where g: "parseGlobalFlags env args = Inr (g, command # rest)"
    using False by (cases "parseGlobalFlags env args") (auto simp: run_remote_def split: list.splits)
  then have "0 < gf_timeout g" by (auto simp: parseGlobalFlags_def split: sum.splits prod.splits if_splits)
  obtain cfg0 where "LoadConfig (cm_ctl env) (gf_configPath g) w = Inr cfg0"
    using False g by (cases "LoadConfig (cm_ctl env) (gf_configPath g) w") (auto simp: run_remote_def)
  then obtain cfg client where c: "NewClient (cm_client env (gf_timeout g)) cfg w = Inr client"
      "run_remote env args w = run_command env (gf_timeout g) client cfg command rest w"
    using False g by (auto simp: run_remote_def Let_def split: sum.splits)
  show ?thesis using run_command_sends [OF o] NewClient_valid [OF c(1)] \<open>0 < gf_timeout g\<close>
    by (intro exI [of _ "gf_timeout g"] exI [of _ "ct_Config client"]) (simp add: c(2))
qed

text \<open>
  (C27) Whatever its arguments, one run of the command line program sends the master nothing, or a single call of its API and that at
  most three times: a status, a job by a valid id, a drain of a named worker, or the execution of a request that
  is valid and has coordinates within range. It does so only with a valid profile and a time limit.
\<close>

theorem cli_sends_one_call:
  assumes "observes env h"
  shows "\<exists>t cfg. sends_one h (cm_client env t) sendable (cc_MasterURL cfg) w (snd (main_cli env args w)) \<and>
    (h (snd (main_cli env args w)) \<noteq> h w \<longrightarrow> 0 < t \<and> profile_error (ce_Parse (cl_ctl (cm_client env t))) cfg = None)"
proof -
  let ?w = "snd (run_cli env args w)"
  have main: "h (snd (main_cli env args w)) = h ?w"
    using prints_keep(2) [OF assms] by (auto simp: main_cli_def split: prod.split option.split)
  have "h ?w = h w \<or> run_cli env args w = run_remote env args w"
    using prints_keep [OF assms] usage_keeps [OF assms] runConfig_keeps [OF assms] by (auto simp: run_cli_def split: list.split)
  then show ?thesis
  proof
    assume "h ?w = h w"
    then show ?thesis using main sends_nothing [of h "snd (main_cli env args w)" w]
      by (intro exI [of _ 0] exI [of _ DefaultLocalConfig]) simp
  next
    assume r: "run_cli env args w = run_remote env args w"
    obtain t cfg where "sends_one h (cm_client env t) sendable (cc_MasterURL cfg) w ?w"
        "h ?w \<noteq> h w \<longrightarrow> 0 < t \<and> profile_error (ce_Parse (cl_ctl (cm_client env t))) cfg = None"
      using run_remote_sends [OF assms, of w args] r by auto
    then show ?thesis using sends_one_after [of h "permitted (cm_client env t) sendable (cc_MasterURL cfg)" w ?w w] main by auto
  qed
qed


section \<open>A run of the program\<close>

definition cli_net_a :: "(http_call \<times> http_reply go_result) list network" where
  "cli_net_a = \<lparr>net_do = (\<lambda>call w. let ans = Inr \<lparr>hp_StatusCode = 200, hp_Status = ''200'', hp_Body = ''ok''\<rparr> in (ans, (call, ans) # w)),
     net_done = (\<lambda>_. False), net_sleep = (\<lambda>_ w. (None, w)), net_now = (\<lambda>_. 0)\<rparr>"

definition cli_ctl_a :: "(http_call \<times> http_reply go_result) list ctl_env" where
  "cli_ctl_a = \<lparr>ce_files = \<lparr>fi_MkdirAll = (\<lambda>_ w. (None, w)), fi_Stat = (\<lambda>_ _. Missing), fi_ReadFile = (\<lambda>_ _. Bytes ''x''), fi_WriteFile = (\<lambda>_ _ w. (None, w))\<rparr>,
     ce_home = Inr ''/home'', ce_marshal = (\<lambda>_. Inl ''''), ce_unmarshal = (\<lambda>_. Inr profile_a), ce_lower = id, ce_Parse = Inl,
     ce_geo = \<lparr>gl_net = \<lparr>net_do = (\<lambda>_ w. (Inl ''down'', w)), net_done = (\<lambda>_. False), net_sleep = (\<lambda>_ w. (None, w)), net_now = (\<lambda>_. 0)\<rparr>,
        gl_NewRequest = (\<lambda>_. None), gl_decode = Inl, gl_ParseFloat = Inl\<rparr>\<rparr>"

definition cli_client_a :: "(string, (http_call \<times> http_reply go_result) list) client_env" where
  "cli_client_a =
     \<lparr>cl_ctl = cli_ctl_a, cl_load_pair = (\<lambda>_ _ _. Inr ''pair''), cl_pem_ok = (\<lambda>_. True), cl_not_found = id, cl_net = cli_net_a, cl_NewRequest = (\<lambda>_. None),
      cl_ReadAll = (\<lambda>_ _. None), cl_PathEscape = id, cl_marshal = (\<lambda>req. Inr (req_ModuleName req)), cl_error = Inl,
      cl_health = (\<lambda>s. Inr \<lparr>hr_Status = s, hr_NodeID = '''', hr_Role = ''master''\<rparr>), cl_metrics = Inl, cl_workers = Inl, cl_execution = Inl,
      cl_job = Inl, cl_api = Inl\<rparr>"

definition cli_env_a :: "(string, (http_call \<times> http_reply go_result) list) cli_env" where
  "cli_env_a =
     \<lparr>cm_client = (\<lambda>_. cli_client_a), cm_ctl = cli_ctl_a,
      cm_out = \<lparr>ou_write = (\<lambda>_ w. (None, w)), ou_json = (\<lambda>_. Inr ''''), ou_fixed = (\<lambda>_ _. ''''), ou_duration = (\<lambda>_. ''''), ou_tabwriter = id, ou_now = (\<lambda>_. 0)\<rparr>,
      cm_stderr = (\<lambda>_ w. (None, w)), cm_flags = \<lparr>fl_quote = id, fl_ParseFloat = Inl, fl_ParseInt0 = Inl, fl_ParseUint0 = Inl, fl_ParseDuration = Inl\<rparr>,
      cm_flag_report = (\<lambda>_ w. w), cm_ParseDuration = (\<lambda>s. if s = ''9s'' then Inr (9 * Second) else Inl s), cm_not_found = id, cm_version = ''dev''\<rparr>"

theorem cli_sends_one_call_witness:
  "\<exists>cfg. sends_one id cli_client_a sendable (cc_MasterURL cfg) [] (snd (main_cli cli_env_a [''--timeout=9s'', ''health''] [])) \<and>
     length (snd (main_cli cli_env_a [''--timeout=9s'', ''health''] [])) = 1 \<and> profile_error Inl cfg = None"
proof -
  have "snd (Detect (ce_geo cli_ctl_a) url w) = w" for url w
    by (auto simp: Detect_def cli_ctl_a_def Let_def split: option.splits prod.splits sum.splits)
  moreover have "fi_MkdirAll (ce_files cli_ctl_a) p w = (None, w)" "fi_WriteFile (ce_files cli_ctl_a) p d w = (None, w)" for p d w
    by (simp_all add: cli_ctl_a_def)
  ultimately have "observes cli_env_a id"
    by (auto simp: observes_def cli_env_a_def cli_client_a_def cli_net_a_def records_def quiet_def Let_def)
  moreover have "length (snd (main_cli cli_env_a [''--timeout=9s'', ''health''] [])) = 1" by code_simp
  moreover have "cm_client cli_env_a t = cli_client_a" "ce_Parse (cl_ctl cli_client_a) = Inl" for t
    by (simp_all add: cli_env_a_def cli_client_a_def cli_ctl_a_def)
  ultimately show ?thesis using cli_sends_one_call [of cli_env_a id "[]" "[''--timeout=9s'', ''health'']"] by fastforce
qed

theorem global_flags_spellings_witness:
  "parseGlobalFlags cli_env_a ([''--master=https://h'', ''-o'', ''json'', ''--timeout'', ''9s''] @ ''jobs'' # [''get'', ''-x'']) =
     Inr (zero_globals\<lparr>gf_masterURL := ''https://h'', gf_output := ''json'', gf_timeout := 9 * Second\<rparr>, [''jobs'', ''get'', ''-x''])"
proof -
  let ?ss = "[Inline ''--master'' ''https://h'', Separate ''-o'' ''json'', Separate ''--timeout'' ''9s'']"
  have "\<forall>s \<in> set ?ss. fst (setting s) \<in> set global_names" "\<not> HasPrefix ''jobs'' ''-''" by (simp_all add: global_names_def HasPrefix_def)
  from global_flags_spellings [OF this, of cli_env_a "[''get'', ''-x'']" "[]"] show ?thesis
    by (simp add: set_global_def cli_env_a_def zero_globals_def)
qed

end
