(* ===== verification/Client_Gateway.thy ===== *)
theory Client_Gateway
  imports Master_Gateway Ctl_Client
begin

text \<open>
  The command line client on a master: the network of the client is the gateway itself, so that what the
  retries of the one do to the jobs of the other can be stated. The encoding of requests and
  replies in HTTP is an argument, and so are the clocks, one for each request.
\<close>

section \<open>The gateway as a network\<close>

definition gateway_at :: "gateway_env \<Rightarrow> (nat \<Rightarrow> nat \<Rightarrow> time) \<Rightarrow> nat \<Rightarrow> gateway_env" where
  "gateway_at base clocks i = base\<lparr>ge_clock := clocks i\<rparr>"

text \<open>
  The state is the number of requests so far and the gateway. A handler that panics closes the connection, and a
  dispatch that does not return ends by the time limit of the client.
\<close>

definition gateway_network ::
  "gateway_env \<Rightarrow> (nat \<Rightarrow> nat \<Rightarrow> time) \<Rightarrow> (http_call \<Rightarrow> http_request) \<Rightarrow> (http_response \<Rightarrow> http_reply) \<Rightarrow> (nat \<times> 'n Gateway) network" where
  "gateway_network base clocks as_request as_reply =
     \<lparr>net_do = (\<lambda>call (i, g).
        case Handler (gateway_at base clocks i) (as_request call) g of
          None \<Rightarrow> (Inl ''context deadline exceeded'', (Suc i, g))
        | Some (Panicked, g) \<Rightarrow> (Inl ''EOF'', (Suc i, g))
        | Some (Replied resp, g) \<Rightarrow> (Inr (as_reply resp), (Suc i, g))),
      net_done = (\<lambda>_. False), net_sleep = (\<lambda>_ s. (None, s)), net_now = (\<lambda>(i, _). clocks i 0)\<rparr>"

lemma gateway_at_simps [simp]:
  "ge_store (gateway_at base clocks i) = ge_store base" "ge_fingerprint (gateway_at base clocks i) = ge_fingerprint base"
  "ge_workers (gateway_at base clocks i) = ge_workers base"
  by (simp_all add: gateway_at_def)

lemma decode_at [simp]: "decodeExecutionRequest (gateway_at base clocks i) r g = decodeExecutionRequest base r g"
  by (simp add: gateway_at_def decodeExecutionRequest_def split: decoded.split option.split sum.split)

section \<open>A job after some failures\<close>

text \<open>The row of a request that was tried \<open>k\<close> times, and a table in which each of the \<open>k\<close> attempts has failed.\<close>

definition tried :: "gateway_env \<Rightarrow> ExecutionRequest \<Rightarrow> string \<Rightarrow> int \<Rightarrow> nat \<Rightarrow> job_row \<Rightarrow> bool" where
  "tried base req fp m k row \<longleftrightarrow>
     jb_fingerprint row = fp \<and> jb_attempt row = int k \<and> jb_max_attempts row = m \<and> jb_response_json row = '''' \<and>
     unmarshal_request (ge_store base) (jb_request_json row) = Inr req"

definition after_failures :: "gateway_env \<Rightarrow> ExecutionRequest \<Rightarrow> string \<Rightarrow> int \<Rightarrow> nat \<Rightarrow> job_db \<Rightarrow> bool" where
  "after_failures base req fp m k db \<longleftrightarrow>
     db_faults db = [] \<and>
     (if k = 0 then find_row db (req_RequestID req) = None
      else \<exists>row. find_row db (req_RequestID req) = Some row \<and> tried base req fp m k row \<and> jb_status row = JobFailed)"

text \<open>What the store does with such a request: its fingerprint, its JSON, and the error of a second insertion.\<close>

definition storable :: "gateway_env \<Rightarrow> ExecutionRequest \<Rightarrow> string \<Rightarrow> bool" where
  "storable base req fp \<longleftrightarrow>
     ge_fingerprint base req = Inr fp \<and>
     (\<exists>json. marshal_request (ge_store base) req = Inr json \<and> unmarshal_request (ge_store base) json = Inr req) \<and>
     isSQLiteConstraintError (ge_store base) (unique_error (ge_store base))"

lemma update_job_row:
  assumes "db_faults db = []" "find_row db key = Some row" "\<And>r. jb_request_id (change r) = jb_request_id r"
  shows "\<exists>db'. update_job key change what db = (None, db') \<and> db_faults db' = [] \<and> find_row db' key = Some (change row)"
proof -
  have nx: "next_outcome db = (Runs, db)" using assms(1) by (simp add: next_outcome_def)
  have "find_row (db\<lparr>db_rows := map (\<lambda>r. if jb_request_id r = key then change r else r) (db_rows db)\<rparr>) key = Some (change row)"
    using find_row_update [of change key key "db_rows db"] assms(2,3) by (simp add: find_row_def)
  then show ?thesis using update_job_eq [OF nx] assms(1,2) by (simp del: next_outcome_rows)
qed

lemma tried_marks:
  assumes "db_faults db = []" "find_row db key = Some row" "tried base req fp m k row"
  shows "\<exists>db'. MarkDispatching now key w l db = (None, db') \<and> db_faults db' = [] \<and>
      (\<exists>row'. find_row db' key = Some row' \<and> tried base req fp m (Suc k) row')"
    and "\<exists>db'. MarkFailed now key reason db = (None, db') \<and> db_faults db' = [] \<and>
      (\<exists>row'. find_row db' key = Some row' \<and> tried base req fp m k row' \<and> jb_status row' = JobFailed)"
proof -
  show "\<exists>db'. MarkDispatching now key w l db = (None, db') \<and> db_faults db' = [] \<and>
      (\<exists>row'. find_row db' key = Some row' \<and> tried base req fp m (Suc k) row')"
    using update_job_row [OF assms(1,2), of "set_dispatching now w l" "''mark job dispatching''"] assms(3)
    by (force simp: MarkDispatching_def set_dispatching_def tried_def)
  show "\<exists>db'. MarkFailed now key reason db = (None, db') \<and> db_faults db' = [] \<and>
      (\<exists>row'. find_row db' key = Some row' \<and> tried base req fp m k row' \<and> jb_status row' = JobFailed)"
    using update_job_row [OF assms(1,2), of "set_failed now reason" "''mark job failed''"] assms(3)
    by (force simp: MarkFailed_def set_failed_def tried_def)
qed

lemma begin_after_failures:
  assumes "after_failures base req fp m k db" "storable base req fp" "int k < m"
  shows "\<exists>job db'. beginDurableJob (gateway_at base clocks i) m req db = (Starts job, db') \<and> db_faults db' = [] \<and>
    (\<exists>row. find_row db' (req_RequestID req) = Some row \<and> tried base req fp m k row)"
proof -
  let ?env = "gateway_at base clocks i"
  define job new where "job = NewJobRecord req fp m (ge_clock ?env 1)" and "new = create_defaults (ge_clock ?env 2) job"
  obtain json where json: "ge_fingerprint base req = Inr fp" "marshal_request (ge_store base) req = Inr json"
      "unmarshal_request (ge_store base) json = Inr req" "isSQLiteConstraintError (ge_store base) (unique_error (ge_store base))"
    using assms(2) by (auto simp: storable_def)
  have f: "db_faults db = []" "next_outcome db = (Runs, db)" using assms(1) by (simp_all add: after_failures_def next_outcome_def)
  have new: "job_Request new = req" "jb_request_id (insert_row new json) = req_RequestID req" "tried base req fp m 0 (insert_row new json)"
    using assms(3) json(3) by (simp_all add: job_def new_def NewJobRecord_def create_defaults_def insert_row_def tried_def Let_def)
  have ins: "insert_job (ge_store base) (insert_row new json) db =
      (if find_row db (req_RequestID req) = None then (None, db\<lparr>db_rows := db_rows db @ [insert_row new json]\<rparr>)
       else (Some (unique_error (ge_store base)), db))"
    unfolding insert_job_def f(2) by (simp add: new(2))
  show ?thesis
  proof (cases k)
    case 0
    then have none: "find_row db (req_RequestID req) = None" using assms(1) by (simp add: after_failures_def)
    let ?db = "db\<lparr>db_rows := db_rows db @ [insert_row new json]\<rparr>"
    have "find_row ?db (req_RequestID req) = Some (insert_row new json)"
      using none new(2) by (simp add: find_row_map_of map_add_def del: next_outcome_rows)
    moreover have "Create (ge_store base) (ge_clock ?env 2) job db = (None, ?db)"
      unfolding Create_def Let_def new_def [symmetric] using ins none json(2) new(1) by simp
    then have "beginDurableJob ?env m req db = (Starts job, ?db)"
      using json(1) by (simp add: beginDurableJob_def Let_def job_def)
    ultimately show ?thesis using new(3) f(1) 0 by (intro exI [of _ job] exI [of _ ?db]) simp
  next
    case (Suc j)
    then obtain row where row: "find_row db (req_RequestID req) = Some row" "tried base req fp m k row" "jb_status row = JobFailed"
      using assms(1) by (auto simp: after_failures_def)
    then obtain old where old: "scanJob (ge_store base) row = Inr old" by (auto simp: scanJob_def tried_def)
    note o = scanJob_fields [OF old]
    have "Create (ge_store base) (ge_clock ?env 2) job db = (Some ErrJobExists, db)"
      unfolding Create_def Let_def new_def [symmetric] using ins row(1) json(2,4) new(1) by simp
    moreover have "Get (ge_store base) (req_RequestID req) db = (Inr old, db)"
      unfolding Get_def f(2) using row(1) old by simp
    moreover have "existing_job_outcome old = Starts old"
      using o row(2,3) assms(3) by (simp add: existing_job_outcome_def tried_def)
    moreover have "job_Fingerprint old = fp" using o(7) row(2) by (simp add: tried_def)
    ultimately have "beginDurableJob ?env m req db = (Starts old, db)" using json(1) by (simp add: beginDurableJob_def Let_def job_def)
    then show ?thesis using row(1,2) f(1) by (intro exI [of _ old] exI [of _ db]) simp
  qed
qed


section \<open>One failing attempt\<close>

text \<open>
  \<open>fails_at_worker\<close>: the dispatcher finds a worker for the request, and every call to a worker is answered with 400, which is
  what a worker answers when the execution fails (\<open>runs\<close> counts the calls).
\<close>

definition fails_at_worker :: "gateway_env \<Rightarrow> 'n Dispatcher \<Rightarrow> Registry \<Rightarrow> ExecutionRequest \<Rightarrow> ('n \<Rightarrow> nat) \<Rightarrow> bool" where
  "fails_at_worker base d reg req runs \<longleftrightarrow>
     \<not> isACRURL (ae_parse (d_acr d)) (if req_ModuleURL req = '''' then req_ModuleRegistryURL req else req_ModuleURL req) \<and>
     GetSchedulableWorkers (ge_workers base) reg \<noteq> [] \<and>
     (\<exists>node. SelectWorker (d_hav d) (d_scheduler d) (req_UserLat req) (req_UserLon req) (GetSchedulableWorkers (ge_workers base) reg) = Inr node) \<and>
     (\<forall>r. \<exists>data. d_marshal d r = Inr data) \<and> d_client_error d = None \<and> (\<forall>u. d_new_request d u = None) \<and>
     (\<forall>call n. \<exists>resp n'. net_do (d_net d) call n = (Inr resp, n') \<and> hp_StatusCode resp = 400 \<and> runs n' = Suc (runs n))"

lemma failing_dispatch:
  assumes "fails_at_worker base d reg req runs"
  shows "\<exists>err s'. Dispatch d (ge_workers base) reg req s = Some (Inl err, s') \<and> runs (ds_net s') = Suc (runs (ds_net s))"
proof -
  let ?ws = "GetSchedulableWorkers (ge_workers base) reg"
  let ?url = "if req_ModuleURL req = '''' then req_ModuleRegistryURL req else req_ModuleURL req"
  define req' where "req' = req\<lparr>req_ModuleURL := ?url, req_ModuleRegistryURL := ?url\<rparr>"
  note f = assms [unfolded fails_at_worker_def]
  have res: "resolve_module d req s = (Inr req', s)" using f by (simp add: resolve_module_def req'_def Let_def)
  obtain node where "SelectWorker (d_hav d) (d_scheduler d) (req_UserLat req) (req_UserLon req) ?ws = Inr node" using f by blast
  then have sel: "SelectWorker (d_hav d) (d_scheduler d) (req_UserLat req') (req_UserLon req') ?ws = Inr node" by (simp add: req'_def)
  obtain data where "d_marshal d req' = Inr data" using f by blast
  moreover obtain resp n where net: "net_do (d_net d) (invoke_call (workerInvokeURL (wn_IPAddress node)) data) (ds_net s) = (Inr resp, n)"
    "hp_StatusCode resp = 400" "runs n = Suc (runs (ds_net s))" using f by blast
  ultimately have fwd: "forwardToWorker d node req' (ds_net s) = (worker_answer d node req' (Inr resp), n)"
    using f by (simp add: forwardToWorker_def Let_def)
  obtain err where err: "worker_answer d node req' (Inr resp) = Inl err" "\<not> isRetryableDispatchError err"
    using net(2) by (simp add: worker_answer_def isRetryableWorkerStatus_def)
  have "dispatch_loop d req' ?ws None s = Some (Inl err, s\<lparr>ds_net := n\<rparr>)"
    using f sel fwd err by (subst dispatch_loop.simps) simp
  then have "Dispatch d (ge_workers base) reg req s = Some (Inl err, s\<lparr>ds_net := n\<rparr>)"
    using f res by (simp add: Dispatch_def Let_def)
  then show ?thesis using net(3) by (intro exI [of _ err] exI [of _ "s\<lparr>ds_net := n\<rparr>"]) simp
qed

text \<open>The fields of a gateway that no request changes, but for the registry.\<close>

definition gw_settings where
  "gw_settings g = (gw_Dispatcher g, gw_Registry g, gw_ExecuteClientIDs g, gw_MaxExecuteBodyBytes g, gw_ModulePolicy g, gw_JobMaxAttempts g)"

lemma decode_settings:
  "gw_settings g = gw_settings g' \<Longrightarrow> decodeExecutionRequest base r g = decodeExecutionRequest base r g'"
  by (simp add: decodeExecutionRequest_def gw_settings_def maxExecuteBodyBytes_def split: decoded.split option.split)

lemma settings_steps [simp]:
  "gw_settings (with_metrics env inc g) = gw_settings g" "gw_settings (attachDispatcherMetrics env g) = gw_settings g"
  "gw_settings (g\<lparr>gw_JobStore := s\<rparr>) = gw_settings g" "gw_settings (g\<lparr>gw_Metrics := m\<rparr>) = gw_settings g"
  "gw_settings (g\<lparr>gw_tokens := t, gw_Metrics := m, gw_net := n\<rparr>) = gw_settings g"
  by (simp_all add: gw_settings_def with_metrics_def attachDispatcherMetrics_def)

lemma gateway_dispatch_fails:
  assumes "gw_settings g = (Some d, Some reg, rest)" "fails_at_worker base d reg req runs"
  shows "\<exists>err g'. gateway_dispatch (gateway_at base clocks i) req g = Some (Inr (Inl err), g') \<and> gw_settings g' = gw_settings g \<and>
    gw_JobStore g' = gw_JobStore g \<and> runs (gw_net g') = Suc (runs (gw_net g))"
proof -
  have g: "gw_Dispatcher g = Some d" "gw_Registry g = Some reg" using assms(1) by (simp_all add: gw_settings_def)
  obtain err s' where s: "Dispatch d (ge_workers base) reg req \<lparr>ds_tokens = gw_tokens g, ds_metrics = gw_Metrics g, ds_net = gw_net g\<rparr> = Some (Inl err, s')"
      "runs (ds_net s') = Suc (runs (gw_net g))"
    using failing_dispatch [OF assms(2), of "\<lparr>ds_tokens = gw_tokens g, ds_metrics = gw_Metrics g, ds_net = gw_net g\<rparr>"] by auto
  let ?g = "g\<lparr>gw_tokens := ds_tokens s', gw_Metrics := ds_metrics s', gw_net := ds_net s'\<rparr>"
  have "gateway_dispatch (gateway_at base clocks i) req g = Some (Inr (Inl err), ?g)"
    using g s(1) by (simp add: gateway_dispatch_def)
  then show ?thesis using s(2) by (intro exI [of _ err] exI [of _ ?g]) simp
qed


text \<open>A request that the gateway decodes and lets through.\<close>

definition accepts :: "gateway_env \<Rightarrow> 'n Gateway \<Rightarrow> http_request \<Rightarrow> ExecutionRequest \<Rightarrow> bool" where
  "accepts base g r req \<longleftrightarrow>
     rq_Path r = ''/api/v1/execute'' \<and> rq_Method r = MethodPost \<and>
     validateExecuteClientIdentity (gw_ExecuteClientIDs g) r = None \<and> decodeExecutionRequest base r g = Inr req"

lemma accepts_settings: "gw_settings g' = gw_settings g \<Longrightarrow> accepts base g r req \<Longrightarrow> accepts base g' r req"
  using decode_settings [of g' g base r] by (simp add: accepts_def gw_settings_def)

lemma failing_attempt:
  assumes "accepts base g r req" "gw_settings g = (Some d, Some reg, rest)" "fails_at_worker base d reg req runs" "storable base req fp"
    and "gw_JobStore g = Some db" "after_failures base req fp (jobMaxAttempts g) k db" "int k < jobMaxAttempts g"
  shows "\<exists>resp g' db'. Handler (gateway_at base clocks i) r g = Some (Replied resp, g') \<and> rs_Status resp = 503 \<and>
    gw_settings g' = gw_settings g \<and> gw_JobStore g' = Some db' \<and> after_failures base req fp (jobMaxAttempts g) (Suc k) db' \<and>
    runs (gw_net g') = Suc (runs (gw_net g))"
proof -
  let ?env = "gateway_at base clocks i" and ?m = "jobMaxAttempts g"
  let ?g1 = "with_metrics ?env (\<lambda>m. m) g"
  have m: "jobMaxAttempts ?g1 = ?m" by (simp add: jobMaxAttempts_def with_metrics_def)
  obtain job db1 row1 where b: "beginDurableJob ?env ?m req db = (Starts job, db1)" "db_faults db1 = []"
      "find_row db1 (req_RequestID req) = Some row1" "tried base req fp ?m k row1"
    using begin_after_failures [OF assms(6,4,7)] by blast
  obtain db2 row2 where d: "MarkDispatching (ge_clock ?env 4) (req_RequestID req) '''' (ge_clock ?env 3 + jobLeaseTTL ?g1) db1 = (None, db2)"
      "db_faults db2 = []" "find_row db2 (req_RequestID req) = Some row2" "tried base req fp ?m (Suc k) row2"
    using tried_marks(1) [OF b(2-4)] by blast
  let ?g2 = "attachDispatcherMetrics ?env (?g1\<lparr>gw_JobStore := Some db2\<rparr>)"
  have "gw_settings ?g2 = (Some d, Some reg, rest)" using assms(2) by simp
  then obtain err g3 where g3: "gateway_dispatch ?env req ?g2 = Some (Inr (Inl err), g3)" "gw_settings g3 = gw_settings ?g2"
      "gw_JobStore g3 = gw_JobStore ?g2" "runs (gw_net g3) = Suc (runs (gw_net ?g2))"
    using gateway_dispatch_fails [OF _ assms(3)] by blast
  obtain db4 row4 where f: "MarkFailed (ge_clock ?env 5) (req_RequestID req) (de_text err) db2 = (None, db4)" "db_faults db4 = []"
      "find_row db4 (req_RequestID req) = Some row4" "tried base req fp ?m (Suc k) row4" "jb_status row4 = JobFailed"
    using tried_marks(2) [OF d(2-4)] by blast
  let ?g5 = "with_metrics ?env IncDispatchFailure (g3\<lparr>gw_JobStore := Some db4\<rparr>)"
  let ?resp = "WriteError 503 ''dispatch_failed'' (Some (de_text err))"
  have "dispatch_durable ?env req db1 ?g1 = Some (Replied ?resp, ?g5)"
    using d(1) g3(1) f(1) by (simp add: dispatch_durable_def)
  then have "handleDurableExecute ?env req db ?g1 = Some (Replied ?resp, ?g5)"
    using b(1) m by (simp add: handleDurableExecute_def)
  moreover have a: "accepts base ?g1 r req" using accepts_settings [of ?g1 g] assms(1) by simp
  then have "RequireMethod r MethodPost = None" by (simp add: accepts_def)
  ultimately have "handleExecute ?env r ?g1 = Some (Replied ?resp, ?g5)"
    using a assms(5) by (simp add: handleExecute_def accepts_def del: RequireMethod_None)
  then have "route ?env r ?g1 = Some (Replied ?resp, ?g5)"
    using a by (simp add: route_def accepts_def)
  then have "Handler ?env r g = Some (Replied ?resp, ?g5\<lparr>gw_Metrics := MiddlewareWithMetrics r (Replied ?resp) (gw_Metrics ?g5)\<rparr>)"
    by (simp add: Handler_def)
  moreover have "after_failures base req fp ?m (Suc k) db4" using f(2-5) by (simp add: after_failures_def)
  ultimately show ?thesis using g3(2-4)
    by (intro exI [of _ ?resp] exI [of _ "?g5\<lparr>gw_Metrics := MiddlewareWithMetrics r (Replied ?resp) (gw_Metrics ?g5)\<rparr>"] exI [of _ db4])
      simp
qed

lemma failing_exchange:
  assumes "accepts base g (as_request call) req" "gw_settings g = (Some d, Some reg, rest)" "fails_at_worker base d reg req runs" "storable base req fp"
    and "gw_JobStore g = Some db" "after_failures base req fp (jobMaxAttempts g) k db" "int k < jobMaxAttempts g"
    and "\<And>resp. hp_StatusCode (as_reply resp) = rs_Status resp"
  shows "\<exists>resp g' db'. net_do (gateway_network base clocks as_request as_reply) call (i, g) = (Inr resp, (Suc i, g')) \<and> hp_StatusCode resp = 503 \<and>
    gw_settings g' = gw_settings g \<and> gw_JobStore g' = Some db' \<and> after_failures base req fp (jobMaxAttempts g) (Suc k) db' \<and>
    runs (gw_net g') = Suc (runs (gw_net g))"
proof -
  obtain resp g' db' where h: "Handler (gateway_at base clocks i) (as_request call) g = Some (Replied resp, g')" "rs_Status resp = 503"
    "gw_settings g' = gw_settings g" "gw_JobStore g' = Some db'" "after_failures base req fp (jobMaxAttempts g) (Suc k) db'"
    "runs (gw_net g') = Suc (runs (gw_net g))"
    using failing_attempt [OF assms(1-7)] by blast
  then show ?thesis using assms(8)
    by (intro exI [of _ "as_reply resp"] exI [of _ g'] exI [of _ db']) (simp add: gateway_network_def)
qed


section \<open>A failing execution\<close>

lemma retry_thrice:
  assumes "net_do net call w = (Inr a1, w1)" "retryableStatus (hp_StatusCode a1)" "net_sleep net DefaultHTTPRetryBackoff w1 = (None, w2)"
    and "net_do net call w2 = (Inr a2, w3)" "retryableStatus (hp_StatusCode a2)" "net_sleep net (DefaultHTTPRetryBackoff * 2) w3 = (None, w4)"
    and "net_do net call w4 = (Inr a3, w5)" "hc_Body call = Replayable b"
  shows "DoWithRetry net call w = (Inr a3, w5)"
proof -
  have "requestForRetryAttempt (Some call) i = Inr call" for i using assms(8) by (simp add: requestForRetryAttempt_def)
  moreover have "sleepBeforeRetry net DefaultHTTPRetryBackoff 0 w1 = (None, w2)" "sleepBeforeRetry net DefaultHTTPRetryBackoff 1 w3 = (None, w4)"
    using assms(3,6) by (simp_all add: sleepBeforeRetry_def mul64_def DefaultHTTPRetryBackoff_def)
  ultimately show ?thesis using assms(1,2,4,5,7)
    by (simp add: DoWithRetry_def DoWithRetryPolicy_def DefaultHTTPRetryPolicy_def DefaultHTTPRetryAttempts_def eval_nat_numeral Let_def)
qed

text \<open>
  (C17) One execution on the command line of a module that fails runs the module three times. The worker
  answers the failed execution with 400, which the dispatcher takes as final; the gateway turns it into 503 and marks the job as failed; 503 is an answer
  that the client repeats, and a failed job with attempts left is started again, although the request has
  an id. After the third attempt the client gives up with an error.
\<close>

theorem failing_execution_runs_three_times:
  assumes "accepts base g (as_request call) req" "gw_settings g = (Some d, Some reg, rest)" "fails_at_worker base d reg req runs" "storable base req fp"
    and "gw_JobStore g = Some db" "db_faults db = []" "find_row db (req_RequestID req) = None" "jobMaxAttempts g \<ge> 3"
    and "\<And>resp. hp_StatusCode (as_reply resp) = rs_Status resp"
    and "cl_net env = gateway_network base clocks as_request as_reply" "cl_marshal env req0 = Inr data"
    and "call = api_call ''POST'' (cc_MasterURL (ct_Config c) @ ''/api/v1/execute'') (Some data)"
    and "cl_NewRequest env (cc_MasterURL (ct_Config c) @ ''/api/v1/execute'') = None"
  shows "\<exists>err g' db' row. Client_Execute env c req0 (i, g) = (Inl err, (i + 3, g')) \<and> runs (gw_net g') = runs (gw_net g) + 3 \<and>
    gw_JobStore g' = Some db' \<and> find_row db' (req_RequestID req) = Some row \<and> jb_status row = JobFailed \<and> jb_attempt row = 3"
proof -
  let ?net = "gateway_network base clocks as_request as_reply"
  have m: "jobMaxAttempts g' = jobMaxAttempts g" if "gw_settings g' = gw_settings g" for g'
    using that by (simp add: gw_settings_def jobMaxAttempts_def)
  have next_try: "\<exists>resp g'' db''. net_do ?net call (j, g') = (Inr resp, (Suc j, g'')) \<and> hp_StatusCode resp = 503 \<and>
      gw_settings g'' = gw_settings g \<and> gw_JobStore g'' = Some db'' \<and> after_failures base req fp (jobMaxAttempts g) (Suc k) db'' \<and>
      runs (gw_net g'') = Suc (runs (gw_net g'))"
    if s: "gw_settings g' = gw_settings g" and "gw_JobStore g' = Some db'" "after_failures base req fp (jobMaxAttempts g) k db'" "k < 3" for j k g' db'
  proof -
    have "int k < jobMaxAttempts g'" "gw_settings g' = (Some d, Some reg, rest)" "after_failures base req fp (jobMaxAttempts g') k db'"
      using that(3,4) assms(2,8) s m [OF s] by simp_all
    from failing_exchange [where as_request = as_request and call = call and runs = runs and as_reply = as_reply and clocks = clocks and i = j,
        OF accepts_settings [OF s assms(1)] this(2) assms(3,4) that(2) this(3,1) assms(9)] show ?thesis
      using s m [OF s] by simp
  qed
  have "after_failures base req fp (jobMaxAttempts g) 0 db" using assms(6,7) by (simp add: after_failures_def)
  then obtain a1 g1 db1 where 1: "net_do ?net call (i, g) = (Inr a1, (Suc i, g1))" "hp_StatusCode a1 = 503" "gw_settings g1 = gw_settings g"
      "gw_JobStore g1 = Some db1" "after_failures base req fp (jobMaxAttempts g) (Suc 0) db1" "runs (gw_net g1) = Suc (runs (gw_net g))"
    using next_try [of g db 0 i] assms(5) by auto
  obtain a2 g2 db2 where 2: "net_do ?net call (Suc i, g1) = (Inr a2, (Suc (Suc i), g2))" "hp_StatusCode a2 = 503" "gw_settings g2 = gw_settings g"
      "gw_JobStore g2 = Some db2" "after_failures base req fp (jobMaxAttempts g) (Suc (Suc 0)) db2" "runs (gw_net g2) = Suc (runs (gw_net g1))"
    using next_try [OF 1(3-5), of "Suc i"] by auto
  obtain a3 g3 db3 where 3: "net_do ?net call (Suc (Suc i), g2) = (Inr a3, (Suc (Suc (Suc i)), g3))" "hp_StatusCode a3 = 503"
      "gw_JobStore g3 = Some db3" "after_failures base req fp (jobMaxAttempts g) (Suc (Suc (Suc 0))) db3" "runs (gw_net g3) = Suc (runs (gw_net g2))"
    using next_try [OF 2(3-5), of "Suc (Suc i)"] by auto
  have quiet: "net_sleep ?net t s = (None, s)" for t s by (simp add: gateway_network_def)
  have "retryableStatus (hp_StatusCode a1)" "retryableStatus (hp_StatusCode a2)" using 1(2) 2(2) by (simp_all add: retryableStatus_def)
  moreover have "hc_Body call = Replayable data" by (simp add: assms(12) api_call_def)
  ultimately have "DoWithRetry ?net call (i, g) = (Inr a3, (Suc (Suc (Suc i)), g3))"
    using retry_thrice [OF 1(1) _ quiet 2(1) _ quiet 3(1)] by blast
  then have "Client_Execute env c req0 (i, g) = (Inl (decodeAPIError env a3), (i + 3, g3))"
    using assms(10,11,13) 3(2) by (simp add: Client_Execute_def doJSON_def assms(12) [symmetric] Let_def)
  moreover obtain row where "find_row db3 (req_RequestID req) = Some row" "jb_status row = JobFailed" "jb_attempt row = 3"
    using 3(4) by (auto simp: after_failures_def tried_def)
  moreover have "runs (gw_net g3) = runs (gw_net g) + 3" using 1(6) 2(6) 3(5) by simp
  ultimately show ?thesis using 3(3)
    by - (rule exI [of _ "decodeAPIError env a3"], rule exI [of _ g3], rule exI [of _ db3], rule exI [of _ row], simp)
qed


section \<open>A cluster of one worker on which the module fails\<close>

definition module_request :: ExecutionRequest where
  "module_request = request_a\<lparr>req_ModuleURL := ''https://h/m''\<rparr>"

definition failing_env :: gateway_env where
  "failing_env = gateway_env_a\<lparr>ge_decode_execution := (\<lambda>_ _. Decoded module_request), ge_parse := ae_parse (no_acr :: unit acr_env),
     ge_store := plain_env\<lparr>unmarshal_request := (\<lambda>_. Inr module_request)\<rparr>\<rparr>"

definition failing_dispatcher :: "history Dispatcher" where
  "failing_dispatcher = dispatcher_a (\<lambda>_ _ _ _. Fin 1) (Inr \<lparr>hp_StatusCode = 400, hp_Status = ''400 Bad Request'', hp_Body = ''''\<rparr>)"

definition failing_gateway :: "history Gateway" where
  "failing_gateway = \<lparr>gw_Registry = Some registry_a, gw_Dispatcher = Some failing_dispatcher, gw_Metrics = None, gw_Requests = None, gw_JobStore = Some empty_db,
     gw_ExecuteClientIDs = [], gw_MaxExecuteBodyBytes = 0, gw_ModulePolicy = \<lparr>AllowedHosts = [], RequireDigest = False\<rparr>,
     gw_RequestCacheTTL = 0, gw_RequestCacheMaxEntries = 0, gw_JobMaxAttempts = 0, gw_JobLeaseTTL = 0, gw_tokens = [], gw_net = []\<rparr>"

definition as_request_a :: "http_call \<Rightarrow> http_request" where
  "as_request_a call = \<lparr>rq_Method = hc_Method call, rq_Path = ''/api/v1/execute'', rq_TLS = None, rq_Body = ''''\<rparr>"

definition as_reply_a :: "http_response \<Rightarrow> http_reply" where
  "as_reply_a resp = \<lparr>hp_StatusCode = rs_Status resp, hp_Status = '''', hp_Body = ''''\<rparr>"

definition failing_client_env :: "(string, nat \<times> history Gateway) client_env" where
  "failing_client_env =
     \<lparr>cl_ctl = \<lparr>ce_files = \<lparr>fi_MkdirAll = (\<lambda>_ w. (None, w)), fi_Stat = (\<lambda>_ _. Missing), fi_ReadFile = (\<lambda>_ _. NoFile), fi_WriteFile = (\<lambda>_ _ w. (None, w))\<rparr>,
        ce_home = Inr ''/home'', ce_marshal = (\<lambda>_. Inl ''''), ce_unmarshal = Inl, ce_lower = id, ce_Parse = Inl,
        ce_geo = \<lparr>gl_net = gateway_network failing_env (\<lambda>_ _. 7) as_request_a as_reply_a, gl_NewRequest = (\<lambda>_. None), gl_decode = Inl, gl_ParseFloat = Inl\<rparr>\<rparr>,
      cl_load_pair = (\<lambda>_ _ _. Inl ''''), cl_pem_ok = (\<lambda>_. False), cl_not_found = id,
      cl_net = gateway_network failing_env (\<lambda>_ _. 7) as_request_a as_reply_a, cl_NewRequest = (\<lambda>_. None),
      cl_ReadAll = (\<lambda>_ _. None), cl_PathEscape = id, cl_marshal = (\<lambda>req. Inr (req_ModuleName req)), cl_error = Inl, cl_health = Inl, cl_metrics = Inl,
      cl_workers = Inl, cl_execution = Inl, cl_job = Inl, cl_api = Inl\<rparr>"

theorem failing_execution_runs_three_times_witness:
  "\<exists>err g'. Client_Execute failing_client_env \<lparr>ct_Config = profile_a, ct_TLS = None\<rparr> module_request (0, failing_gateway) = (Inl err, (3, g')) \<and>
     length (gw_net g') = 3"
proof -
  let ?c = "\<lparr>ct_Config = profile_a, ct_TLS = None\<rparr> :: string Client"
  let ?call = "api_call ''POST'' (cc_MasterURL (ct_Config ?c) @ ''/api/v1/execute'') (Some ''m'')"
  have valid: "ExecutionRequest_Validate module_request = None" "EnsureRequestID (Inl '''') ''a'' = Inr ''a''" "policy_url module_request \<noteq> ''''" by code_simp+
  have "fails_at_worker failing_env failing_dispatcher registry_a module_request length"
  proof -
    have "SelectWorker (\<lambda>_ _ _ _. Fin 1) \<lparr>MinCPUFree = Fin 0, MinRAMFreeMB = Fin 0\<rparr> (Fin 0) (Fin 0) [node_a\<lparr>wn_LastSeen := 5, wn_State := ''ready''\<rparr>] =
        Inr (node_a\<lparr>wn_LastSeen := 5, wn_State := ''ready''\<rparr>)"
      by code_simp
    then show ?thesis using no_acr_url
      by (simp add: fails_at_worker_def failing_env_def gateway_env_a_def failing_dispatcher_def dispatcher_a_def answering_def schedulable_a
          module_request_def request_a_def)
  qed
  moreover have "accepts failing_env failing_gateway (as_request_a ?call) module_request"
    using valid
    by (simp add: accepts_def failing_env_def failing_gateway_def as_request_a_def api_call_def MethodPost_def validateExecuteClientIdentity_def
        decodeExecutionRequest_def gateway_env_a_def ModulePolicy_Validate_def no_acr_def)
      (simp add: module_request_def request_a_def)
  moreover have "gw_settings failing_gateway = (Some failing_dispatcher, Some registry_a, ([], 0, \<lparr>AllowedHosts = [], RequireDigest = False\<rparr>, 0))"
    by (simp add: gw_settings_def failing_gateway_def)
  moreover have "storable failing_env module_request ''m''"
  proof -
    have "isSQLiteConstraintError plain_env ''constraint failed''" by code_simp
    then show ?thesis
      by (simp add: storable_def failing_env_def gateway_env_a_def plain_env_def module_request_def request_a_def isSQLiteConstraintError_def)
  qed
  moreover have "gw_JobStore failing_gateway = Some empty_db" "db_faults empty_db = []" "find_row empty_db (req_RequestID module_request) = None"
    "jobMaxAttempts failing_gateway \<ge> 3"
    by (simp_all add: failing_gateway_def empty_db_def find_row_def jobMaxAttempts_def DefaultJobMaxAttempts_def)
  moreover have "hp_StatusCode (as_reply_a resp) = rs_Status resp" for resp by (simp add: as_reply_a_def)
  moreover have "cl_net failing_client_env = gateway_network failing_env (\<lambda>_ _. 7) as_request_a as_reply_a"
    "cl_marshal failing_client_env module_request = Inr ''m''"
    "cl_NewRequest failing_client_env (cc_MasterURL (ct_Config ?c) @ ''/api/v1/execute'') = None"
    by (simp_all add: failing_client_env_def module_request_def request_a_def)
  moreover note failing_execution_runs_three_times [where as_request = as_request_a and as_reply = as_reply_a and call = ?call and i = 0 and
      runs = length and g = failing_gateway and base = failing_env and req = module_request and env = failing_client_env and c = ?c and
      fp = "''m''" and db = empty_db and ?req0.0 = module_request and clocks = "\<lambda>_ _. 7" and data = "''m''"]
  ultimately obtain err g' where "Client_Execute failing_client_env ?c module_request (0, failing_gateway) = (Inl err, (3, g'))"
    "length (gw_net g') = length (gw_net failing_gateway) + 3" by fastforce
  then show ?thesis by (intro exI [of _ err] exI [of _ g']) (simp add: failing_gateway_def)
qed

end
