(* ===== verification/Worker_Gateway.thy ===== *)
theory Worker_Gateway
  imports Client_Gateway Worker_Server Worker_Telemetry
begin

text \<open>
  A worker on a master: the network of its telemetry (\<open>src/internal/worker/telemetry.go\<close>) and of its completion callback
  (\<open>src/internal/worker/server.go\<close>) is the gateway, as in \<open>Client_Gateway\<close>. What a worker that goes on reporting
  does to its own entry in the registry, and what its reports do to the jobs.
\<close>

section \<open>The messages of a worker on the gateway\<close>

lemma DoWithRetry_ok:
  assumes "net_do net call w = (Inr a, w')" "\<not> retryableStatus (hp_StatusCode a)"
  shows "DoWithRetry net call w = (Inr a, w')"
  using assms
  by (simp add: DoWithRetry_def DoWithRetryPolicy_def DefaultHTTPRetryPolicy_def DefaultHTTPRetryAttempts_def
      requestForRetryAttempt_def eval_nat_numeral Let_def)

text \<open>
  \<open>delivers as_request node url path data r\<close>: the message \<open>data\<close> for \<open>url\<close> arrives as a POST on \<open>path\<close>, on a
  connection that may speak for the worker \<open>node\<close>.
\<close>

definition delivers :: "(http_call \<Rightarrow> http_request) \<Rightarrow> string \<Rightarrow> string \<Rightarrow> string \<Rightarrow> string \<Rightarrow> http_request \<Rightarrow> bool" where
  "delivers as_request node url path data r \<longleftrightarrow>
     r = as_request (post_call url data) \<and> rq_Method r = MethodPost \<and> rq_Path r = path \<and> validateWorkerPeerIdentity r node = None"

text \<open>What registration and heartbeat of a worker become on the way to the gateway.\<close>

definition reaches :: "gateway_env \<Rightarrow> (http_call \<Rightarrow> http_request) \<Rightarrow> 'w telemetry_env \<Rightarrow> string \<Rightarrow> WorkerNode \<Rightarrow> NodeMetrics \<Rightarrow> bool" where
  "reaches base as_request env masterURL node m \<longleftrightarrow>
     (\<forall>u. te_NewRequest env u = None) \<and> (\<forall>w. te_snapshot env w = (Inr m, w)) \<and>
     (\<exists>data r. te_marshal_node env node = Inr data \<and>
        delivers as_request (wn_ID node) (masterURL @ ''/internal/register'') ''/internal/register'' data r \<and>
        ge_decode_node base internalControlMaxBodyBytes (rq_Body r) = Decoded node) \<and>
     (\<exists>data r. te_marshal_beat env \<lparr>hb_NodeID = wn_ID node, hb_CPUFree = nm_CPUFree m, hb_RAMFreeMB = nm_RAMFreeMB m\<rparr> = Inr data \<and>
        delivers as_request (wn_ID node) (masterURL @ ''/internal/heartbeat'') ''/internal/heartbeat'' data r \<and>
        ge_decode_beat base internalControlMaxBodyBytes (rq_Body r) =
          Decoded \<lparr>hb_NodeID = wn_ID node, hb_CPUFree = nm_CPUFree m, hb_RAMFreeMB = nm_RAMFreeMB m\<rparr>)"

lemma gateway_decode_at [simp]:
  "ge_decode_node (gateway_at base clocks i) = ge_decode_node base" "ge_decode_beat (gateway_at base clocks i) = ge_decode_beat base"
  "ge_clock (gateway_at base clocks i) = clocks i"
  by (simp_all add: gateway_at_def)

lemma register_call:
  assumes "delivers as_request (wn_ID node) url ''/internal/register'' data r" "gw_Registry g = Some reg"
    and "ge_decode_node base internalControlMaxBodyBytes (rq_Body r) = Decoded node"
  shows "\<exists>resp g'. net_do (gateway_network base clocks as_request as_reply) (post_call url data) (i, g) = (Inr (as_reply resp), (Suc i, g')) \<and>
    rs_Status resp = 200 \<and> gw_Registry g' = Some (RegisterWorker (clocks i 0) node reg)"
  using assms
  by (intro exI [of _ "WriteJSON 200 (JApi \<lparr>api_Status = ''success'', api_Message = ''Worker registered successfully''\<rparr>)"])
    (auto simp: gateway_network_def Handler_def route_def handleRegister_def RequireMethod_def delivers_def Let_def)

lemma heartbeat_call:
  assumes "delivers as_request (hb_NodeID beat) url ''/internal/heartbeat'' data r" "gw_Registry g = Some reg"
    and "ge_decode_beat base internalControlMaxBodyBytes (rq_Body r) = Decoded beat"
    and "UpdateWorkerStatus (clocks i 0) beat reg = (None, reg')"
  shows "\<exists>resp g'. net_do (gateway_network base clocks as_request as_reply) (post_call url data) (i, g) = (Inr (as_reply resp), (Suc i, g')) \<and>
    rs_Status resp = 200 \<and> gw_Registry g' = Some reg'"
  using assms
  by (intro exI [of _ "WriteJSON 200 JEmpty"])
    (auto simp: gateway_network_def Handler_def route_def handleHeartbeat_def RequireMethod_def delivers_def Let_def)

section \<open>A round of telemetry\<close>

text \<open>The entry of a worker after a round: what it said of itself, ready, with the measured capacity, seen at the second call.\<close>

definition reported :: "WorkerNode \<Rightarrow> NodeMetrics \<Rightarrow> time \<Rightarrow> WorkerNode" where
  "reported node m now = node\<lparr>wn_CPUFree := nm_CPUFree m, wn_RAMFreeMB := nm_RAMFreeMB m, wn_LastSeen := now, wn_State := WorkerStateReady\<rparr>"

lemma register_then_heartbeat:
  assumes "wn_State node = ''''" "registry_wf reg" "t1 \<noteq> 0" "t2 \<noteq> 0"
    and "beat = \<lparr>hb_NodeID = wn_ID node, hb_CPUFree = nm_CPUFree m, hb_RAMFreeMB = nm_RAMFreeMB m\<rparr>"
  shows "\<exists>reg'. UpdateWorkerStatus t2 beat (RegisterWorker t1 node reg) = (None, reg') \<and>
    map_of (workers reg') (wn_ID node) = Some (reported node m t2) \<and>
    registry_wf reg' \<and> workerStaleTimeout reg' = workerStaleTimeout reg"
proof -
  have wf: "registry_wf (snd (UpdateWorkerStatus t2 beat (RegisterWorker t1 node reg)))"
    by (intro UpdateWorkerStatus_wf RegisterWorker_wf assms(2-4))
  define w1 where "w1 = (if IsZero (wn_LastSeen node) then node\<lparr>wn_LastSeen := t1\<rparr> else node)\<lparr>wn_State := WorkerStateReady\<rparr>"
  have r: "RegisterWorker t1 node reg = reg\<lparr>workers := go_put (wn_ID node) w1 (workers reg)\<rparr>"
    using assms(1) by (simp add: RegisterWorker_def w1_def)
  have "w1\<lparr>wn_CPUFree := nm_CPUFree m, wn_RAMFreeMB := nm_RAMFreeMB m, wn_LastSeen := t2\<rparr> = reported node m t2"
    "wn_State (reported node m t2) \<noteq> ''''"
    by (simp_all add: w1_def reported_def WorkerStateReady_def)
  then show ?thesis using wf unfolding r assms(5) by (simp add: UpdateWorkerStatus_def Let_def)
qed

lemma telemetry_round_reports:
  assumes "reaches base as_request env masterURL node m" "te_net env = gateway_network base clocks as_request as_reply"
    and "\<And>resp. hp_StatusCode (as_reply resp) = rs_Status resp" "gw_Registry g = Some reg" "wn_State node = ''''"
    and "registry_wf reg" "\<And>i. clocks i 0 \<noteq> 0"
  shows "\<exists>g' reg'. telemetry_round env masterURL node (i, g) = (i + 2, g') \<and> gw_Registry g' = Some reg' \<and>
    map_of (workers reg') (wn_ID node) = Some (reported node m (clocks (Suc i) 0)) \<and> registry_wf reg' \<and>
    workerStaleTimeout reg' = workerStaleTimeout reg"
proof -
  let ?beat = "\<lparr>hb_NodeID = wn_ID node, hb_CPUFree = nm_CPUFree m, hb_RAMFreeMB = nm_RAMFreeMB m\<rparr>" and ?net = "gateway_network base clocks as_request as_reply"
  obtain d1 r1 where m1: "te_marshal_node env node = Inr d1" "delivers as_request (wn_ID node) (masterURL @ ''/internal/register'') ''/internal/register'' d1 r1"
      "ge_decode_node base internalControlMaxBodyBytes (rq_Body r1) = Decoded node"
    using assms(1) by (auto simp: reaches_def)
  obtain d2 r2 where m2: "te_marshal_beat env ?beat = Inr d2" "delivers as_request (wn_ID node) (masterURL @ ''/internal/heartbeat'') ''/internal/heartbeat'' d2 r2"
      "ge_decode_beat base internalControlMaxBodyBytes (rq_Body r2) = Decoded ?beat"
    using assms(1) by (auto simp: reaches_def)
  have env: "te_NewRequest env u = None" "te_snapshot env w = (Inr m, w)" for u w using assms(1) unfolding reaches_def by blast+
  obtain a1 g1 where 1: "net_do ?net (post_call (masterURL @ ''/internal/register'') d1) (i, g) = (Inr (as_reply a1), (Suc i, g1))"
      "rs_Status a1 = 200" "gw_Registry g1 = Some (RegisterWorker (clocks i 0) node reg)"
    using register_call [OF m1(2) assms(4) m1(3)] by blast
  obtain reg' where reg': "UpdateWorkerStatus (clocks (Suc i) 0) ?beat (RegisterWorker (clocks i 0) node reg) = (None, reg')"
      "map_of (workers reg') (wn_ID node) = Some (reported node m (clocks (Suc i) 0))"
      "registry_wf reg'" "workerStaleTimeout reg' = workerStaleTimeout reg"
    using register_then_heartbeat [OF assms(5,6,7,7) refl] by blast
  have m2': "delivers as_request (hb_NodeID ?beat) (masterURL @ ''/internal/heartbeat'') ''/internal/heartbeat'' d2 r2" using m2(2) by simp
  obtain a2 g2 where 2: "net_do ?net (post_call (masterURL @ ''/internal/heartbeat'') d2) (Suc i, g1) = (Inr (as_reply a2), (Suc (Suc i), g2))"
      "rs_Status a2 = 200" "gw_Registry g2 = Some reg'"
    using heartbeat_call [where as_reply = as_reply and clocks = clocks and i = "Suc i", OF m2' 1(3) m2(3) reg'(1)] by blast
  have ok: "\<not> retryableStatus (hp_StatusCode (as_reply a1))" "\<not> retryableStatus (hp_StatusCode (as_reply a2))"
    using 1(2) 2(2) assms(3) by (simp_all add: retryableStatus_def)
  have "telemetry_round env masterURL node (i, g) = (i + 2, g2)"
    using DoWithRetry_ok [OF 1(1) ok(1)] DoWithRetry_ok [OF 2(1) ok(2)] m1(1) m2(1) env assms(2)
    by (simp add: telemetry_round_def registerWorker_def sendHeartbeat_def post_message_def)
  then show ?thesis using 2(3) reg'(2-4) by blast
qed


section \<open>A drain and the next tick\<close>

lemma drain_unschedulable:
  assumes "drain_and_reply env k reg g = (Replied resp, g')" "rs_Status resp = 200" "registry_wf reg" "ge_clock env 0 \<noteq> 0"
  shows "\<exists>reg'. gw_Registry g' = Some reg' \<and> registry_wf reg' \<and> not_ready k reg' \<and> workerStaleTimeout reg' = workerStaleTimeout reg"
proof -
  obtain e reg' where d: "DrainWorker (ge_clock env 0) k reg = (e, reg')" by force
  have "e = None" using assms(1,2) d by (auto simp: drain_and_reply_def split: option.splits)
  then have "gw_Registry g' = Some reg'" using assms(1) d by (auto simp: drain_and_reply_def)
  moreover have "registry_wf reg'" using DrainWorker_wf [OF assms(3,4), of k] d by simp
  moreover have "not_ready k reg'" using d \<open>e = None\<close> by (auto simp: DrainWorker_def not_ready_def split: option.splits)
  moreover have "workerStaleTimeout reg' = workerStaleTimeout reg" using d by (auto simp: DrainWorker_def split: option.splits)
  ultimately show ?thesis by blast
qed

lemma schedulable_after_cleanup:
  assumes "registry_wf reg" "map_of (workers reg) k = Some w" "wn_State w = WorkerStateReady" "Sub now (wn_LastSeen w) \<le> workerStaleTimeout reg"
  shows "w \<in> set (GetSchedulableWorkers it (CleanupAt it' now reg))"
proof -
  have "map_of (workers (CleanupAt it' now reg)) k = Some w" using assms by (simp add: CleanupAt_lookup)
  then have "(k, w) \<in> set (workers (CleanupAt it' now reg))" by (rule map_of_SomeD)
  then show ?thesis using assms(3) by (force simp: GetSchedulableWorkers_def)
qed

text \<open>
  (C36) A drain lasts until the next tick of the worker's telemetry. When an operator drains a worker, it leaves the
  schedulable workers; but a worker that goes on running registers again at its next tick, without a state, and that
  makes it schedulable again, with the capacity it then reports; and no reaper run within the stale
  timeout of that tick removes it. (The worker's messages arrive and its certificate fits its id.)
\<close>

theorem drain_lasts_until_next_tick:
  assumes "reaches base as_request env masterURL node m" "te_net env = gateway_network base clocks as_request as_reply"
    and "\<And>resp. hp_StatusCode (as_reply resp) = rs_Status resp" "\<And>i. clocks i 0 \<noteq> 0"
    and "node = registration_node nodeID workerAddress latitude longitude" "gw_Registry g = Some reg" "registry_wf reg"
    and "handleOperatorDrain (gateway_at base clocks i) nodeID r g = (Replied resp, g1)" "rs_Status resp = 200"
  shows "\<exists>reg1 g2 reg2. gw_Registry g1 = Some reg1 \<and> (\<forall>it. \<forall>w \<in> set (GetSchedulableWorkers it reg1). wn_ID w \<noteq> nodeID) \<and>
    telemetry_loop env masterURL node [Tick] (Suc i, g1) = (i + 3, g2) \<and> gw_Registry g2 = Some reg2 \<and>
    (\<forall>it it' now. Sub now (clocks (i + 2) 0) \<le> workerStaleTimeout reg \<longrightarrow>
       reported node m (clocks (i + 2) 0) \<in> set (GetSchedulableWorkers it (CleanupAt it' now reg2)))"
proof -
  have "drain_and_reply (gateway_at base clocks i) nodeID reg g = (Replied resp, g1)"
    using assms(6,8,9) by (auto simp: handleOperatorDrain_def RequireMethod_def split: if_splits option.splits)
  then obtain reg1 where 1: "gw_Registry g1 = Some reg1" "registry_wf reg1" "not_ready nodeID reg1"
      "workerStaleTimeout reg1 = workerStaleTimeout reg"
    using drain_unschedulable [OF _ assms(9,7)] assms(4) by fastforce
  have node: "wn_State node = ''''" "wn_ID node = nodeID" using assms(5) by (simp_all add: registration_node_def zero_WorkerNode_def)
  obtain g2 reg2 where 2: "telemetry_round env masterURL node (Suc i, g1) = (Suc i + 2, g2)" "gw_Registry g2 = Some reg2"
      "map_of (workers reg2) nodeID = Some (reported node m (clocks (Suc (Suc i)) 0))" "registry_wf reg2"
      "workerStaleTimeout reg2 = workerStaleTimeout reg1"
    using telemetry_round_reports [OF assms(1-3) 1(1) node(1) 1(2) assms(4), of "Suc i"] node(2) by blast
  have "reported node m (clocks (i + 2) 0) \<in> set (GetSchedulableWorkers it (CleanupAt it' now reg2))"
    if "Sub now (clocks (i + 2) 0) \<le> workerStaleTimeout reg" for it it' now
    using schedulable_after_cleanup [OF 2(4,3), of now it it'] that 1(4) 2(5) by (simp add: reported_def)
  moreover have "\<forall>it. \<forall>w \<in> set (GetSchedulableWorkers it reg1). wn_ID w \<noteq> nodeID"
    using not_ready_unschedulable [OF 1(2,3)] by blast
  moreover have "telemetry_loop env masterURL node [Tick] (Suc i, g1) = (i + 3, g2)" using 2(1) by simp
  ultimately show ?thesis using 1(1) 2(2) by blast
qed


section \<open>The completion callback\<close>

text \<open>What the row of a job says about the outcome of an execution.\<close>

definition settled_as :: "store_env \<Rightarrow> engine_error + string \<Rightarrow> http_response \<Rightarrow> job_row \<Rightarrow> bool" where
  "settled_as env res resp row \<longleftrightarrow>
     (case res of
        Inl err \<Rightarrow> jb_status row = JobFailed \<and> jb_last_error row = engine_error_text err
      | Inr result \<Rightarrow> jb_status row = JobSucceeded \<and>
          (\<exists>x. rs_Value resp = JExec x \<and> resp_Result x = result \<and> marshal_response env x = Inr (jb_response_json row)))"

lemma finish_invoke_outcome:
  assumes "finish_invoke env req res s = (rep, s')"
  obtains (failed) err s1 where "res = Inl err"
      "rep = Replied (WriteError 400 (workerExecutionErrorCode err) (Some (engine_error_text err)))"
      "s' = reportJobCompletion env (failed_completion (req_RequestID req) (sv_NodeID s) (engine_error_text err)) s1"
      "sv_MasterURL s1 = sv_MasterURL s" "sv_world s1 = sv_world s"
  | (answered) x s1 where "res = Inr (resp_Result x)" "rep = Replied (WriteJSON 200 (JExec x))"
      "resp_RequestID x = req_RequestID req" "resp_ExecutedOnNodeID x = sv_NodeID s"
      "s' = reportJobCompletion env (succeeded_completion (req_RequestID req) (sv_NodeID s) x) s1"
      "sv_MasterURL s1 = sv_MasterURL s" "sv_world s1 = sv_world s"
proof (cases res)
  case (Inl err)
  show ?thesis
    by (rule failed [of err "observeWorkerExecutionError env (workerExecutionErrorCode err) (server_metrics env IncWorkerExecutionFailure s)"])
      (use assms Inl in \<open>simp_all add: finish_invoke_def Let_def\<close>)
next
  case (Inr result)
  let ?x = "\<lparr>resp_RequestID = req_RequestID req, resp_Result = result,
     resp_ExecutionTimeMs = duration_ms (wv_clock env 0) (wv_clock env 1), resp_ExecutedOnNodeID = sv_NodeID s, resp_Error = ''''\<rparr>"
  show ?thesis
    by (rule answered [of ?x "server_metrics env IncWorkerExecutionSuccess s"]) (use assms Inr in \<open>simp_all add: finish_invoke_def Let_def\<close>)
qed

text \<open>One completion on the gateway: the job takes the outcome.\<close>

lemma completion_recorded:
  assumes "db_faults db = []" "find_row db (jc_RequestID c) = Some row"
    and "jc_Status c = JobCompletionFailed \<and> change = set_failed (ge_clock env 0) (jc_Error c) \<or>
      jc_Status c = JobCompletionSucceeded \<and> (\<exists>x json. jc_Response c = Some x \<and> resp_RequestID x = jc_RequestID c \<and>
        resp_ExecutedOnNodeID x = jc_WorkerID c \<and> marshal_response (ge_store env) x = Inr json \<and> change = set_succeeded (ge_clock env 0) json)"
  shows "\<exists>db'. record_completion env c db =
      (Replied (WriteJSON 200 (JApi \<lparr>api_Status = ''success'', api_Message = ''Job completion recorded''\<rparr>)), db') \<and>
    find_row db' (jc_RequestID c) = Some (change row)"
  using assms(3)
proof
  assume f: "jc_Status c = JobCompletionFailed \<and> change = set_failed (ge_clock env 0) (jc_Error c)"
  have "\<exists>db'. MarkFailed (ge_clock env 0) (jc_RequestID c) (jc_Error c) db = (None, db') \<and> find_row db' (jc_RequestID c) = Some (change row)"
    using update_job_row [OF assms(1,2), of change "''mark job failed''"] f by (auto simp: MarkFailed_def)
  then show ?thesis using f by (auto simp: record_completion_def JobCompletionFailed_def JobCompletionSucceeded_def)
next
  assume "jc_Status c = JobCompletionSucceeded \<and> (\<exists>x json. jc_Response c = Some x \<and> resp_RequestID x = jc_RequestID c \<and>
        resp_ExecutedOnNodeID x = jc_WorkerID c \<and> marshal_response (ge_store env) x = Inr json \<and> change = set_succeeded (ge_clock env 0) json)"
  then obtain x json where s: "jc_Status c = JobCompletionSucceeded" "jc_Response c = Some x" "resp_RequestID x = jc_RequestID c"
      "resp_ExecutedOnNodeID x = jc_WorkerID c" "marshal_response (ge_store env) x = Inr json" "change = set_succeeded (ge_clock env 0) json" by blast
  have x: "x\<lparr>resp_RequestID := jc_RequestID c, resp_ExecutedOnNodeID := (if resp_ExecutedOnNodeID x = '''' then jc_WorkerID c else resp_ExecutedOnNodeID x)\<rparr> = x"
    using s(3,4) by (simp flip: s(3,4))
  have "\<exists>db'. MarkSucceeded (ge_store env) (ge_clock env 0) (jc_RequestID c) x db = (None, db') \<and> find_row db' (jc_RequestID c) = Some (change row)"
    using update_job_row [OF assms(1,2), of change "''mark job succeeded''"] s(5,6) by (auto simp: MarkSucceeded_def)
  then show ?thesis using s(1,2) x by (auto simp: record_completion_def Let_def)
qed

text \<open>The completion that belongs to a reply of \<open>/invoke\<close> after an execution with result \<open>res\<close>.\<close>

definition completion_of :: "string \<Rightarrow> string \<Rightarrow> engine_error + string \<Rightarrow> http_response \<Rightarrow> JobCompletionRequest" where
  "completion_of requestID node res resp =
     (case (res, rs_Value resp) of
        (Inr _, JExec x) \<Rightarrow> succeeded_completion requestID node x
      | (Inr _, _) \<Rightarrow> failed_completion requestID node ''''
      | (Inl err, _) \<Rightarrow> failed_completion requestID node (engine_error_text err))"

lemma report_reaches:
  assumes "en_net (wv_engine env) = gateway_network base clocks as_request as_reply" "sv_world s = (i, g)"
    and "TrimRight (CHR ''/'') (TrimSpace (sv_MasterURL s)) = url" "url \<noteq> ''''" "\<And>u. wv_NewRequest env u = None" "wv_client env = None"
    and "\<And>resp. hp_StatusCode (as_reply resp) = rs_Status resp"
    and "wv_marshal env c = Inr payload" "r = as_request (completion_call url payload)"
    and "rq_Method r = MethodPost" "rq_Path r = ''/internal/jobs/complete''" "validateWorkerPeerIdentity r (jc_WorkerID c) = None"
    and "ge_decode_completion base internalControlMaxBodyBytes (rq_Body r) = Decoded c" "JobCompletionRequest_Validate c = None"
    and "gw_JobStore g = Some db"
    and "record_completion (gateway_at base clocks i) c db =
      (Replied (WriteJSON 200 (JApi \<lparr>api_Status = ''success'', api_Message = ''Job completion recorded''\<rparr>)), db')"
  shows "\<exists>g'. sv_world (reportJobCompletion env c s) = (Suc i, g') \<and> gw_JobStore g' = Some db'"
proof -
  let ?net = "gateway_network base clocks as_request as_reply" and ?call = "completion_call url payload"
  let ?resp = "WriteJSON 200 (JApi \<lparr>api_Status = ''success'', api_Message = ''Job completion recorded''\<rparr>)"
  have dec: "ge_decode_completion (gateway_at base clocks i) = ge_decode_completion base" by (simp add: gateway_at_def)
  have "\<exists>g'. Handler (gateway_at base clocks i) r g = Some (Replied ?resp, g') \<and> gw_JobStore g' = Some db'"
    using assms(10-16) by (simp add: Handler_def route_def handleJobCompletion_def RequireMethod_def dec)
  then obtain g' where h: "Handler (gateway_at base clocks i) r g = Some (Replied ?resp, g')" "gw_JobStore g' = Some db'" by blast
  then have "net_do ?net ?call (i, g) = (Inr (as_reply ?resp), (Suc i, g'))" using assms(9) by (simp add: gateway_network_def)
  moreover have "\<not> retryableStatus (hp_StatusCode (as_reply ?resp))" using assms(7) by (simp add: retryableStatus_def)
  ultimately have "DoWithRetry ?net ?call (i, g) = (Inr (as_reply ?resp), (Suc i, g'))" by (rule DoWithRetry_ok)
  then show ?thesis using assms(1-6,8) h(2) by (simp add: reportJobCompletion_def)
qed

text \<open>
  (C14) The outcome of an execution reaches the job. After every execution the worker's callback turns the job with the id of
  the request, in whatever state it is by then (its dispatch may have been lost, its lease expired, it may be ambiguous or even failed),
  into a succeeded job with the very response that the worker returned, or into a failed job with the worker's error.
  (The job exists, statements run, the certificate fits the worker's id, and the master accepts the encoded completion:
  one that is too long is the subject of \<open>large_result_not_recorded\<close>.)
\<close>

theorem completion_settles_job:
  assumes "finish_invoke env req res s = (Replied resp, s')" "sv_world s = (i, g)"
    and "gw_JobStore g = Some db" "db_faults db = []" "find_row db (req_RequestID req) = Some row"
    and "en_net (wv_engine env) = gateway_network base clocks as_request as_reply" "\<And>resp. hp_StatusCode (as_reply resp) = rs_Status resp"
    and "TrimRight (CHR ''/'') (TrimSpace (sv_MasterURL s)) = url" "url \<noteq> ''''" "\<And>u. wv_NewRequest env u = None" "wv_client env = None"
    and "c = completion_of (req_RequestID req) (sv_NodeID s) res resp" "wv_marshal env c = Inr payload" "r = as_request (completion_call url payload)"
    and "rq_Method r = MethodPost" "rq_Path r = ''/internal/jobs/complete''" "validateWorkerPeerIdentity r (sv_NodeID s) = None"
    and "ge_decode_completion base internalControlMaxBodyBytes (rq_Body r) = Decoded c" "JobCompletionRequest_Validate c = None"
    and "\<And>x. is_ok (marshal_response (ge_store base) x)"
  shows "\<exists>g' db' row'. sv_world s' = (Suc i, g') \<and> gw_JobStore g' = Some db' \<and> find_row db' (req_RequestID req) = Some row' \<and>
    settled_as (ge_store base) res resp row'"
proof -
  have env: "ge_store (gateway_at base clocks i) = ge_store base" by simp
  show ?thesis
    using assms(1)
  proof (cases rule: finish_invoke_outcome)
    case (failed err s1)
    have c: "c = failed_completion (req_RequestID req) (sv_NodeID s) (engine_error_text err)"
      using assms(12) failed(1) by (simp add: completion_of_def)
    then have row: "find_row db (jc_RequestID c) = Some row" "jc_Status c = JobCompletionFailed" "jc_WorkerID c = sv_NodeID s"
      using assms(5) by (simp_all add: failed_completion_def)
    obtain db' where db': "record_completion (gateway_at base clocks i) c db =
        (Replied (WriteJSON 200 (JApi \<lparr>api_Status = ''success'', api_Message = ''Job completion recorded''\<rparr>)), db')"
        "find_row db' (jc_RequestID c) = Some (set_failed (clocks i 0) (jc_Error c) row)"
      using completion_recorded [OF assms(4) row(1), of "set_failed (clocks i 0) (jc_Error c)" "gateway_at base clocks i"] row(2) by auto
    have w: "sv_world s1 = (i, g)" "TrimRight (CHR ''/'') (TrimSpace (sv_MasterURL s1)) = url" using failed(4,5) assms(2,8) by simp_all
    obtain g' where "sv_world s' = (Suc i, g')" "gw_JobStore g' = Some db'"
      using report_reaches [OF assms(6) w assms(9-11,7,13-16) _ assms(18,19,3) db'(1)] assms(17) row(3) failed(3) c by auto
    moreover have "settled_as (ge_store base) res resp (set_failed (clocks i 0) (jc_Error c) row)"
      using failed(1) c by (simp add: settled_as_def set_failed_def failed_completion_def)
    ultimately show ?thesis using db'(2) c by (auto simp: failed_completion_def)
  next
    case (answered x s1)
    have c: "c = succeeded_completion (req_RequestID req) (sv_NodeID s) x"
      using assms(12) answered(1,2) by (simp add: completion_of_def)
    obtain json where json: "marshal_response (ge_store base) x = Inr json" using assms(20) by (auto simp: is_ok_iff)
    have row: "find_row db (jc_RequestID c) = Some row" "jc_WorkerID c = sv_NodeID s"
      and st: "jc_Status c = JobCompletionSucceeded \<and> (\<exists>x json. jc_Response c = Some x \<and> resp_RequestID x = jc_RequestID c \<and>
        resp_ExecutedOnNodeID x = jc_WorkerID c \<and> marshal_response (ge_store (gateway_at base clocks i)) x = Inr json \<and>
        set_succeeded (clocks i 0) json' = set_succeeded (ge_clock (gateway_at base clocks i) 0) json)" if "json' = json" for json'
      using c assms(5) answered(3,4) json that by (simp_all add: succeeded_completion_def)
    obtain db' where db': "record_completion (gateway_at base clocks i) c db =
        (Replied (WriteJSON 200 (JApi \<lparr>api_Status = ''success'', api_Message = ''Job completion recorded''\<rparr>)), db')"
        "find_row db' (jc_RequestID c) = Some (set_succeeded (clocks i 0) json row)"
      using completion_recorded [OF assms(4) row(1) disjI2 [OF st]] by blast
    have w: "sv_world s1 = (i, g)" "TrimRight (CHR ''/'') (TrimSpace (sv_MasterURL s1)) = url" using answered(6,7) assms(2,8) by simp_all
    obtain g' where "sv_world s' = (Suc i, g')" "gw_JobStore g' = Some db'"
      using report_reaches [OF assms(6) w assms(9-11,7,13-16) _ assms(18,19,3) db'(1)] assms(17) row(2) answered(5) c by auto
    moreover have "settled_as (ge_store base) res resp (set_succeeded (clocks i 0) json row)"
      using answered(1,2) json by (simp add: settled_as_def set_succeeded_def)
    ultimately show ?thesis using db'(2) c by (auto simp: succeeded_completion_def)
  qed
qed

section \<open>Examples\<close>

definition live_node :: WorkerNode where
  "live_node = registration_node ''a'' ''h:1'' (Fin 0) (Fin 0)"

definition live_base :: gateway_env where
  "live_base = gateway_env_a\<lparr>ge_decode_node := (\<lambda>_ _. Decoded live_node),
     ge_decode_beat := (\<lambda>_ _. Decoded \<lparr>hb_NodeID = ''a'', hb_CPUFree = Fin 50, hb_RAMFreeMB = Fin 64\<rparr>)\<rparr>"

definition live_request :: "http_call \<Rightarrow> http_request" where
  "live_request call = call_as ''wasmcat-worker-a'' ''POST'' (drop 9 (hc_URL call))"

definition live_clocks :: "nat \<Rightarrow> nat \<Rightarrow> time" where "live_clocks i _ = int i + 8"

definition live_telemetry :: "(nat \<times> unit Gateway) telemetry_env" where
  "live_telemetry = \<lparr>te_net = gateway_network live_base live_clocks live_request as_reply_a, te_marshal_node = (\<lambda>_. Inr ''''),
     te_marshal_beat = (\<lambda>_. Inr ''''), te_marshal_drain = (\<lambda>_. Inr ''''), te_NewRequest = (\<lambda>_. None), te_client = None,
     te_snapshot = (\<lambda>w. (Inr \<lparr>nm_CPUFree = Fin 50, nm_RAMFreeMB = Fin 64\<rparr>, w))\<rparr>"

theorem drain_lasts_until_next_tick_witness:
  "\<exists>g1 reg1 g2 reg2. handleOperatorDrain (gateway_at live_base live_clocks 0) ''a'' (call_as ''op'' ''POST'' '''') (gateway_a [] None) =
       (Replied (WriteJSON 200 (JApi \<lparr>api_Status = ''success'', api_Message = ''Worker marked as draining''\<rparr>)), g1) \<and>
     gw_Registry g1 = Some reg1 \<and> (\<forall>w \<in> set (GetSchedulableWorkers id reg1). wn_ID w \<noteq> ''a'') \<and>
     telemetry_loop live_telemetry ''https://m'' live_node [Tick] (1, g1) = (3, g2) \<and>
     gw_Registry g2 = Some reg2 \<and> (\<exists>w \<in> set (GetSchedulableWorkers id (CleanupAt id 10 reg2)). wn_ID w = ''a'')"
proof -
  let ?m = "\<lparr>nm_CPUFree = Fin 50, nm_RAMFreeMB = Fin 64\<rparr>" and ?r = "call_as ''op'' ''POST'' ''''" and ?g = "gateway_a [] None"
  let ?resp = "WriteJSON 200 (JApi \<lparr>api_Status = ''success'', api_Message = ''Worker marked as draining''\<rparr>)"
  have id: "wn_ID live_node = ''a''" by (simp add: live_node_def registration_node_def zero_WorkerNode_def)
  have del: "delivers live_request ''a'' (''https://m'' @ path) path '''' (live_request (post_call (''https://m'' @ path) ''''))" for path
    by (simp add: delivers_def live_request_def post_call_def call_as_def MethodPost_def validateWorkerPeerIdentity_def
        TrimSpace_examples workerCertificateName_def)
  have "reaches live_base live_request live_telemetry ''https://m'' live_node ?m"
    unfolding reaches_def id
    using del [of "''/internal/register''"] del [of "''/internal/heartbeat''"]
    by (intro conjI exI [of _ "''''"] exI [of _ "live_request (post_call (''https://m/internal/register'') '''')"]
        exI [of _ "live_request (post_call (''https://m/internal/heartbeat'') '''')"] allI)
      (simp_all add: live_telemetry_def live_base_def)
  moreover have "te_net live_telemetry = gateway_network live_base live_clocks live_request as_reply_a"
    by (simp add: live_telemetry_def)
  moreover have "hp_StatusCode (as_reply_a resp) = rs_Status resp" for resp by (simp add: as_reply_a_def)
  moreover have "live_clocks i 0 \<noteq> 0" for i by (simp add: live_clocks_def)
  moreover have "gw_Registry ?g = Some registry_a" "registry_wf registry_a"
    using registry_reach_wf [OF registry_a_reach] by (simp_all add: gateway_a_def)
  moreover obtain g1 where d: "handleOperatorDrain (gateway_at live_base live_clocks 0) ''a'' ?r ?g = (Replied ?resp, g1)"
    by (simp add: handleOperatorDrain_def RequireMethod_def call_as_def MethodPost_def validateExecuteClientIdentity_def gateway_a_def
        drain_and_reply_def DrainWorker_def registry_a_def RegisterWorker_def node_a_def zero_WorkerNode_def
        NewRegistry_def NewRegistryWithStaleTimeout_def Let_def)
  moreover have "rs_Status ?resp = 200" by simp
  ultimately obtain reg1 g2 reg2 where 1: "gw_Registry g1 = Some reg1" "\<forall>it. \<forall>w \<in> set (GetSchedulableWorkers it reg1). wn_ID w \<noteq> ''a''"
      "telemetry_loop live_telemetry ''https://m'' live_node [Tick] (1, g1) = (3, g2)" "gw_Registry g2 = Some reg2"
      "\<forall>it it' now. Sub now (live_clocks (0 + 2) 0) \<le> workerStaleTimeout registry_a \<longrightarrow>
         reported live_node ?m (live_clocks (0 + 2) 0) \<in> set (GetSchedulableWorkers it (CleanupAt it' now reg2))"
    using drain_lasts_until_next_tick [of live_base live_request live_telemetry "''https://m''" live_node ?m live_clocks as_reply_a
        "''a''" "''h:1''" "Fin 0" "Fin 0" ?g registry_a 0 ?r ?resp g1] live_node_def by auto
  have "Sub 10 (live_clocks (0 + 2) 0) \<le> workerStaleTimeout registry_a"
    by (simp add: live_clocks_def Sub_def min_duration_def max_duration_def registry_a_def RegisterWorker_def NewRegistry_def
        NewRegistryWithStaleTimeout_def DefaultWorkerStaleTimeout_def Let_def)
  then have "reported live_node ?m (live_clocks (0 + 2) 0) \<in> set (GetSchedulableWorkers id (CleanupAt id 10 reg2))" using 1(5) by blast
  moreover have "wn_ID (reported live_node ?m (live_clocks (0 + 2) 0)) = ''a''" using id by (simp add: reported_def)
  ultimately show ?thesis using d 1(1-4) by blast
qed


definition executed_a :: ExecutionResponse where
  "executed_a = \<lparr>resp_RequestID = ''a'', resp_Result = ''hi'', resp_ExecutionTimeMs = duration_ms 0 1, resp_ExecutedOnNodeID = ''w'', resp_Error = ''''\<rparr>"

definition reporting_base :: gateway_env where
  "reporting_base = gateway_env_a\<lparr>ge_decode_completion := (\<lambda>_ _. Decoded (succeeded_completion ''a'' ''w'' executed_a))\<rparr>"

definition reporting_request :: "http_call \<Rightarrow> http_request" where
  "reporting_request call = call_as ''wasmcat-worker-w'' ''POST'' (drop 9 (hc_URL call))"

definition reporting_env :: "(string, string, nat \<times> unit Gateway) worker_env" where
  "reporting_env = \<lparr>wv_engine = \<lparr>en_wazero = \<lparr>wz_CompileModule = (\<lambda>b w. (Inr b, w)), wz_ExportedFunctions = (\<lambda>_. [''_start'']),
        wz_InstantiateModule = (\<lambda>c w. (Inr [], w)), wz_exports = (\<lambda>_ _. True), wz_Call = (\<lambda>f args inst. (Inr [], inst)),
        wz_Memory = (\<lambda>_. True), wz_Write = (\<lambda>p s inst. Some s), wz_Read = (\<lambda>p l inst. None),
        wz_command = (\<lambda>c p w. (([Stdout p], Exited 0), w))\<rparr>,
      en_net = gateway_network reporting_base live_clocks reporting_request as_reply_a,
      en_NewRequest = (\<lambda>_. None), en_ReadAll = (\<lambda>_ _. None), en_sha256 = id, en_lower = id, en_quote = id, en_hex_error = id,
      en_ctx_error = ''context deadline exceeded''\<rparr>,
     wv_schedule = schedule_a, wv_decode = (\<lambda>_ _. BadJSON), wv_marshal = (\<lambda>_. Inr ''''), wv_NewRequest = (\<lambda>_. None), wv_client = None,
     wv_random = Inl '''', wv_clock = int, wv_counts = id\<rparr>"

definition reporting_server :: "(string, nat \<times> unit Gateway) WorkerServer" where
  "reporting_server = \<lparr>sv_Engine = None, sv_NodeID = ''w'', sv_MasterURL = ''https://m/'', sv_CompletionTimeout = 0, sv_Metrics = None,
     sv_world = (0, gateway_a [] (Some db_a))\<rparr>"

theorem completion_settles_job_witness:
  "\<exists>resp s' g' db' row. finish_invoke reporting_env request_a (Inr ''hi'') reporting_server = (Replied resp, s') \<and>
     sv_world s' = (1, g') \<and> gw_JobStore g' = Some db' \<and> find_row db' ''a'' = Some row \<and> jb_status row = JobSucceeded"
proof -
  let ?resp = "WriteJSON 200 (JExec executed_a)" and ?c = "succeeded_completion ''a'' ''w'' executed_a"
  let ?r = "reporting_request (completion_call ''https://m'' '''')"
  have id: "req_RequestID request_a = ''a''" by (simp add: request_a_def)
  obtain s' where f: "finish_invoke reporting_env request_a (Inr ''hi'') reporting_server = (Replied ?resp, s')"
    by (simp add: finish_invoke_def Let_def executed_a_def id reporting_env_def reporting_server_def)
  have url: "TrimRight (CHR ''/'') (TrimSpace (sv_MasterURL reporting_server)) = ''https://m''"
    unfolding reporting_server_def by code_simp
  have c: "?c = completion_of (req_RequestID request_a) (sv_NodeID reporting_server) (Inr ''hi'') ?resp"
    by (simp add: completion_of_def id reporting_server_def)
  have "ValidateRequestID ''a'' = None" by code_simp
  then have v: "JobCompletionRequest_Validate ?c = None"
    by (simp add: JobCompletionRequest_Validate_def succeeded_completion_def TrimSpace_examples)
  have r: "rq_Method ?r = MethodPost" "rq_Path ?r = ''/internal/jobs/complete''" "validateWorkerPeerIdentity ?r (sv_NodeID reporting_server) = None"
    by (simp_all add: reporting_request_def completion_call_def call_as_def MethodPost_def validateWorkerPeerIdentity_def reporting_server_def
        TrimSpace_examples workerCertificateName_def)
  obtain row where row: "find_row db_a (req_RequestID request_a) = Some row" by (simp add: db_a_eq find_row_def id)
  have s: "sv_world reporting_server = (0, gateway_a [] (Some db_a))" "gw_JobStore (gateway_a [] (Some db_a)) = Some db_a" "db_faults db_a = []"
    by (simp_all add: reporting_server_def gateway_a_def db_a_eq)
  have e: "en_net (wv_engine reporting_env) = gateway_network reporting_base live_clocks reporting_request as_reply_a" "''https://m'' \<noteq> ''''"
      "wv_NewRequest reporting_env u = None" "wv_client reporting_env = None" "wv_marshal reporting_env ?c = Inr ''''" for u
    by (simp_all add: reporting_env_def)
  have b: "hp_StatusCode (as_reply_a resp) = rs_Status resp" "is_ok (marshal_response (ge_store reporting_base) x)"
      "ge_decode_completion reporting_base internalControlMaxBodyBytes (rq_Body ?r) = Decoded ?c" for resp x
    by (simp_all add: as_reply_a_def reporting_base_def gateway_env_a_def plain_env_def)
  obtain g' db' row' where "sv_world s' = (Suc 0, g')" "gw_JobStore g' = Some db'" "find_row db' (req_RequestID request_a) = Some row'"
      "settled_as (ge_store reporting_base) (Inr ''hi'') ?resp row'"
    using completion_settles_job [OF f s row e(1) b(1) url e(2-4) c e(5) refl r b(3) v b(2)] by blast
  then show ?thesis using f id by (auto simp: settled_as_def)
qed

end
