(* ===== verification/Ui_Server.thy ===== *)
theory Ui_Server
  imports Api_Calls Shared_Http Master_Jobs
begin

text \<open>
  \<open>src/internal/ui/server.go\<close>: the dashboard. It serves pages and forwards what they ask to the master, as the
  client of the profile. Reading JSON bodies, the embedded pages and \<open>http.FileServer\<close> are arguments; the time
  limit of a request is a parameter of the environment of its calls.
\<close>

record ui_config =
  uc_Path :: string
  uc_Exists :: bool
  uc_Config :: CtlConfig
  uc_Error :: string

datatype ui_value =
    UiConfig ui_config
  | UiError string
  | UiHealth HealthResponse
  | UiMetrics MetricsResponse
  | UiWorkers "WorkerNode list"
  | UiExec ExecutionResponse
  | UiJob JobResponse
  | UiApi APIResponse
  | UiPage string

record ui_reply =
  ur_Status :: int
  ur_ContentType :: string
  ur_Allow :: "string option"
  ur_Value :: ui_value

record ('p, 'w) ui_env =
  us_client :: "duration \<Rightarrow> ('p, 'w) client_env"
  us_ctl :: "'w ctl_env"
  us_decode_config :: "string \<Rightarrow> CtlConfig go_result"
  us_decode_request :: "string \<Rightarrow> ExecutionRequest go_result"
  us_sub :: go_error
  us_index :: "string go_result"
  us_files :: "http_request \<Rightarrow> ui_reply"

record ('p, 'w) UiServer =
  ui_ConfigPath :: string
  ui_Timeout :: duration
  ui_ClientFactory :: "('w \<Rightarrow> 'p Client go_result) option"

definition DefaultAPITimeout :: duration where "DefaultAPITimeout = 30 * Second"
definition DefaultListenAddress :: string where "DefaultListenAddress = '':7280''"

section \<open>Replies\<close>

definition ui_writeJSON :: "int \<Rightarrow> ui_value \<Rightarrow> ui_reply" where
  "ui_writeJSON status v = \<lparr>ur_Status = status, ur_ContentType = ''application/json'', ur_Allow = None, ur_Value = v\<rparr>"

definition ui_writeError :: "int \<Rightarrow> string \<Rightarrow> ui_reply" where
  "ui_writeError status err = ui_writeJSON status (UiError err)"

definition methodNotAllowed :: "string \<Rightarrow> ui_reply" where
  "methodNotAllowed allow = (ui_writeError 405 ''method not allowed'')\<lparr>ur_Allow := Some allow\<rparr>"

definition requireMethod :: "http_request \<Rightarrow> string \<Rightarrow> ui_reply option" where
  "requireMethod r m = (if rq_Method r = m then None else Some (methodNotAllowed m))"

section \<open>Forwarding\<close>

definition ui_timeout :: "('p, 'w) UiServer \<Rightarrow> duration" where
  "ui_timeout s = (if ui_Timeout s \<le> 0 then DefaultAPITimeout else ui_Timeout s)"

definition ui_client :: "('p, 'w) ui_env \<Rightarrow> ('p, 'w) UiServer \<Rightarrow> 'w \<Rightarrow> 'p Client go_result" where
  "ui_client env s w =
     (case ui_ClientFactory s of
        Some factory \<Rightarrow> factory w
      | None \<Rightarrow>
          (case LoadConfig (us_ctl env) (ui_ConfigPath s) w of
             Inl err \<Rightarrow> Inl err
           | Inr cfg \<Rightarrow> NewClient (us_client env (ui_timeout s)) cfg w))"

definition forward ::
  "('p, 'w) ui_env \<Rightarrow> ('p, 'w) UiServer \<Rightarrow> ('a \<Rightarrow> ui_value) \<Rightarrow> (('p, 'w) client_env \<Rightarrow> 'p Client \<Rightarrow> 'w \<Rightarrow> 'a go_result \<times> 'w) \<Rightarrow>
   'w \<Rightarrow> ui_reply \<times> 'w" where
  "forward env s wrap call w =
     (case ui_client env s w of
        Inl err \<Rightarrow> (ui_writeError 503 err, w)
      | Inr client \<Rightarrow>
          (case call (us_client env (ui_timeout s)) client w of
             (Inl err, w) \<Rightarrow> (ui_writeError 502 err, w)
           | (Inr response, w) \<Rightarrow> (ui_writeJSON 200 (wrap response), w)))"

section \<open>The profile\<close>

definition empty_config :: CtlConfig where
  "empty_config = \<lparr>cc_MasterURL = '''', cc_CACert = '''', cc_ClientCert = '''', cc_ClientKey = '''', cc_DefaultUserLat = Fin 0,
     cc_DefaultUserLon = Fin 0, cc_AutoDetectLocation = False, cc_LocationProviderURL = '''', cc_Output = ''''\<rparr>"

definition loadConfigState :: "('p, 'w) ui_env \<Rightarrow> ('p, 'w) UiServer \<Rightarrow> 'w \<Rightarrow> string \<times> CtlConfig \<times> bool \<times> go_error" where
  "loadConfigState env s w =
     (case (if TrimSpace (ui_ConfigPath s) = '''' then DefaultConfigPath (us_ctl env) else Inr (ui_ConfigPath s)) of
        Inl err \<Rightarrow> ('''', empty_config, False, Some err)
      | Inr path \<Rightarrow>
          (case LoadConfig (us_ctl env) path w of
             Inr cfg \<Rightarrow> (path, cfg, True, None)
           | Inl err \<Rightarrow>
               if Contains err ''does not exist'' then (path, DefaultLocalConfig, False, Some err)
               else (path, empty_config, False, Some err)))"

definition config_reply :: "string \<times> CtlConfig \<times> bool \<times> go_error \<Rightarrow> ui_reply" where
  "config_reply state =
     (case state of (path, cfg, exists, err) \<Rightarrow>
        ui_writeJSON 200 (UiConfig \<lparr>uc_Path = path, uc_Exists = exists, uc_Config = cfg,
          uc_Error = (case err of None \<Rightarrow> '''' | Some e \<Rightarrow> e)\<rparr>))"

definition handleConfig :: "('p, 'w) ui_env \<Rightarrow> ('p, 'w) UiServer \<Rightarrow> http_request \<Rightarrow> 'w \<Rightarrow> ui_reply \<times> 'w" where
  "handleConfig env s r w =
     (if rq_Method r = ''GET'' then (config_reply (loadConfigState env s w), w)
      else if rq_Method r = ''PUT'' then
        (case us_decode_config env (rq_Body r) of
           Inl err \<Rightarrow> (ui_writeError 400 (''decode config: '' @ err), w)
         | Inr cfg0 \<Rightarrow>
             (case ValidateForRequest (us_ctl env) cfg0 of
                (Some err, _) \<Rightarrow> (ui_writeError 400 err, w)
              | (None, cfg) \<Rightarrow>
                  (case SaveConfig (us_ctl env) (ui_ConfigPath s) cfg w of
                     (Some err, w) \<Rightarrow> (ui_writeError 503 err, w)
                   | (None, w) \<Rightarrow> (config_reply (loadConfigState env s w), w))))
      else (methodNotAllowed ''GET, PUT'', w))"

section \<open>Handlers\<close>

definition forwardHealth where
  "forwardHealth env s r w = (case requireMethod r ''GET'' of Some reply \<Rightarrow> (reply, w) | None \<Rightarrow> forward env s UiHealth Client_Health w)"

definition forwardReady where
  "forwardReady env s r w = (case requireMethod r ''GET'' of Some reply \<Rightarrow> (reply, w) | None \<Rightarrow> forward env s UiHealth Client_Ready w)"

definition forwardMetrics where
  "forwardMetrics env s r w = (case requireMethod r ''GET'' of Some reply \<Rightarrow> (reply, w) | None \<Rightarrow> forward env s UiMetrics Client_Metrics w)"

definition ui_handleWorkers where
  "ui_handleWorkers env s r w = (case requireMethod r ''GET'' of Some reply \<Rightarrow> (reply, w) | None \<Rightarrow> forward env s UiWorkers Client_Workers w)"

definition handleWorkerAction :: "('p, 'w) ui_env \<Rightarrow> ('p, 'w) UiServer \<Rightarrow> http_request \<Rightarrow> 'w \<Rightarrow> ui_reply \<times> 'w" where
  "handleWorkerAction env s r w =
     (case requireMethod r ''POST'' of
        Some reply \<Rightarrow> (reply, w)
      | None \<Rightarrow>
          (case Cut (CHR ''/'') (TrimPrefix (rq_Path r) ''/ui/api/workers/'') of
             (workerID, action, ok) \<Rightarrow>
               if \<not> ok \<or> action \<noteq> ''drain'' \<or> TrimSpace workerID = '''' then (ui_writeError 404 ''unknown worker action'', w)
               else forward env s UiApi (\<lambda>calls client. Client_Drain calls client workerID) w))"

definition forward_execution ::
  "('p, 'w) ui_env \<Rightarrow> ('p, 'w) UiServer \<Rightarrow> string \<Rightarrow> ('a \<Rightarrow> ui_value) \<Rightarrow>
   (('p, 'w) client_env \<Rightarrow> 'p Client \<Rightarrow> ExecutionRequest \<Rightarrow> 'w \<Rightarrow> 'a go_result \<times> 'w) \<Rightarrow> http_request \<Rightarrow> 'w \<Rightarrow> ui_reply \<times> 'w" where
  "forward_execution env s what wrap call r w =
     (case requireMethod r ''POST'' of
        Some reply \<Rightarrow> (reply, w)
      | None \<Rightarrow>
          (case us_decode_request env (rq_Body r) of
             Inl err \<Rightarrow> (ui_writeError 400 (''decode '' @ what @ '' request: '' @ err), w)
           | Inr req \<Rightarrow>
               (case ExecutionRequest_Validate req of
                  Some err \<Rightarrow> (ui_writeError 400 err, w)
                | None \<Rightarrow> forward env s wrap (\<lambda>calls client. call calls client req) w)))"

definition ui_handleExecute where "ui_handleExecute env s = forward_execution env s ''execution'' UiExec Client_Execute"
definition handleJobs where "handleJobs env s = forward_execution env s ''job'' UiJob Client_CreateJob"

definition handleJob :: "('p, 'w) ui_env \<Rightarrow> ('p, 'w) UiServer \<Rightarrow> http_request \<Rightarrow> 'w \<Rightarrow> ui_reply \<times> 'w" where
  "handleJob env s r w =
     (case requireMethod r ''GET'' of
        Some reply \<Rightarrow> (reply, w)
      | None \<Rightarrow>
          (let requestID = TrimPrefix (rq_Path r) ''/ui/api/jobs/'' in
           if TrimSpace requestID = '''' \<or> CHR ''/'' \<in> set requestID then (ui_writeError 400 ''request_id is required'', w)
           else forward env s UiJob (\<lambda>calls client. Client_GetJob calls client requestID) w))"

definition staticHandler :: "('p, 'w) ui_env \<Rightarrow> http_request \<Rightarrow> ui_reply" where
  "staticHandler env r =
     (case us_sub env of
        Some err \<Rightarrow> ui_writeError 500 err
      | None \<Rightarrow>
          if rq_Path r = ''/'' then
            (case us_index env of
               Inl err \<Rightarrow> ui_writeError 500 err
             | Inr data \<Rightarrow> \<lparr>ur_Status = 200, ur_ContentType = ''text/html; charset=utf-8'', ur_Allow = None, ur_Value = UiPage data\<rparr>)
          else us_files env r)"

text \<open>The patterns of the \<open>ServeMux\<close>: a path that ends in a slash stands for everything below it, and the longest pattern wins.\<close>

definition ui_Handler :: "('p, 'w) ui_env \<Rightarrow> ('p, 'w) UiServer \<Rightarrow> http_request \<Rightarrow> 'w \<Rightarrow> ui_reply \<times> 'w" where
  "ui_Handler env s r w =
     (let p = rq_Path r in
      if p = ''/ui/api/config'' then handleConfig env s r w
      else if p = ''/ui/api/health'' then forwardHealth env s r w
      else if p = ''/ui/api/ready'' then forwardReady env s r w
      else if p = ''/ui/api/metrics'' then forwardMetrics env s r w
      else if p = ''/ui/api/workers'' then ui_handleWorkers env s r w
      else if HasPrefix p ''/ui/api/workers/'' then handleWorkerAction env s r w
      else if p = ''/ui/api/execute'' then ui_handleExecute env s r w
      else if p = ''/ui/api/jobs'' then handleJobs env s r w
      else if HasPrefix p ''/ui/api/jobs/'' then handleJob env s r w
      else (staticHandler env r, w))"


section \<open>What the dashboard sends\<close>

text \<open>\<open>h\<close> is the history of the calls to the master; saving a profile adds nothing to it.\<close>

definition ui_observes :: "('p, 'w) ui_env \<Rightarrow> ('w \<Rightarrow> (http_call \<times> http_reply go_result) list) \<Rightarrow> bool" where
  "ui_observes env h \<longleftrightarrow>
     (\<forall>t. records (cl_net (us_client env t)) h \<and> quiet (cl_net (us_client env t)) h) \<and>
     (\<forall>p w. h (snd (fi_MkdirAll (ce_files (us_ctl env)) p w)) = h w) \<and>
     (\<forall>p d w. h (snd (fi_WriteFile (ce_files (us_ctl env)) p d w)) = h w)"

abbreviation valid_request :: "ExecutionRequest \<Rightarrow> bool" where
  "valid_request req \<equiv> ExecutionRequest_Validate req = None"

text \<open>What a handler sends, when it uses the method \<open>m\<close>.\<close>

definition ui_sends ::
  "('p, 'w) ui_env \<Rightarrow> ('p, 'w) UiServer \<Rightarrow> ('w \<Rightarrow> (http_call \<times> http_reply go_result) list) \<Rightarrow> string \<Rightarrow> 'w \<Rightarrow> 'w \<Rightarrow> bool" where
  "ui_sends env s h m w w' \<longleftrightarrow>
     h w' = h w \<or>
     (\<exists>client. ui_client env s w = Inr client \<and>
        sends_calls h (permitted_by (us_client env (ui_timeout s)) valid_request client m) w w')"

lemma forward_sends:
  assumes "\<And>client. sends_calls h (permitted_by (us_client env (ui_timeout s)) valid_request client m) w (snd (call (us_client env (ui_timeout s)) client w))"
  shows "ui_sends env s h m w (snd (forward env s wrap call w))"
  using assms unfolding ui_sends_def by (auto simp: forward_def split: sum.split prod.split) (metis snd_conv)+

lemma unsent: "ui_sends env s h m w w"
  by (simp add: ui_sends_def)

lemma requireMethod_Some: "rq_Method r = m \<Longrightarrow> requireMethod r m = None"
  by (simp add: requireMethod_def)

lemma requireMethod_other: "requireMethod r m = None \<longleftrightarrow> rq_Method r = m"
  by (simp add: requireMethod_def)

lemma handleConfig_keeps:
  assumes "ui_observes env h"
  shows "h (snd (handleConfig env s r w)) = h w"
proof -
  have mk: "h w' = h w" if "fi_MkdirAll (ce_files (us_ctl env)) p w = (e, w')" for p e w w'
    using assms that unfolding ui_observes_def by (metis snd_conv)
  have wr: "h w' = h w" if "fi_WriteFile (ce_files (us_ctl env)) p d w = (e, w')" for p d e w w'
    using assms that unfolding ui_observes_def by (metis snd_conv)
  have save: "h w' = h w" if "SaveConfig (us_ctl env) path cfg w = (e, w')" for path cfg e w'
    using that mk wr by (auto simp: SaveConfig_def Let_def split: sum.splits prod.splits option.splits)
  show ?thesis using save by (auto simp: handleConfig_def split: sum.split prod.split option.split)
qed

lemma get_handlers_send:
  assumes "ui_observes env h"
  shows "ui_sends env s h (rq_Method r) w (snd (forwardHealth env s r w))" "ui_sends env s h (rq_Method r) w (snd (forwardReady env s r w))"
    "ui_sends env s h (rq_Method r) w (snd (forwardMetrics env s r w))" "ui_sends env s h (rq_Method r) w (snd (ui_handleWorkers env s r w))"
    "ui_sends env s h (rq_Method r) w (snd (handleJob env s r w))"
proof -
  have net: "records (cl_net (us_client env (ui_timeout s))) h" "quiet (cl_net (us_client env (ui_timeout s))) h"
    using assms by (simp_all add: ui_observes_def)
  note gets = client_gets [OF net] client_job [OF net]
  show "ui_sends env s h (rq_Method r) w (snd (forwardHealth env s r w))" "ui_sends env s h (rq_Method r) w (snd (forwardReady env s r w))"
    "ui_sends env s h (rq_Method r) w (snd (forwardMetrics env s r w))" "ui_sends env s h (rq_Method r) w (snd (ui_handleWorkers env s r w))"
    "ui_sends env s h (rq_Method r) w (snd (handleJob env s r w))"
    using gets
    by (auto simp: forwardHealth_def forwardReady_def forwardMetrics_def ui_handleWorkers_def handleJob_def Let_def requireMethod_other unsent
        intro!: forward_sends split: option.split)
qed

lemma post_handlers_send:
  assumes "ui_observes env h"
  shows "ui_sends env s h (rq_Method r) w (snd (handleWorkerAction env s r w))" "ui_sends env s h (rq_Method r) w (snd (ui_handleExecute env s r w))"
    "ui_sends env s h (rq_Method r) w (snd (handleJobs env s r w))"
proof -
  have net: "records (cl_net (us_client env (ui_timeout s))) h" "quiet (cl_net (us_client env (ui_timeout s))) h"
    using assms by (simp_all add: ui_observes_def)
  show "ui_sends env s h (rq_Method r) w (snd (handleWorkerAction env s r w))"
    using client_drain [OF net]
    by (auto simp: handleWorkerAction_def requireMethod_other unsent intro!: forward_sends split: option.split prod.split)
  show "ui_sends env s h (rq_Method r) w (snd (ui_handleExecute env s r w))" "ui_sends env s h (rq_Method r) w (snd (handleJobs env s r w))"
    using client_posts [OF net]
    by (auto simp: ui_handleExecute_def handleJobs_def forward_execution_def requireMethod_other unsent intro!: forward_sends
        split: option.split sum.split)
qed

text \<open>
  (C28) The dashboard is a client of the master API and no more: whatever it is asked, it sends the master nothing or a single
  permitted call, at most three times, with the method of the request that it serves, so that a GET never
  executes, creates or drains; a request that it forwards for execution is valid, and it sends only with a valid profile.
\<close>

theorem dashboard_sends_one_call:
  assumes "ui_observes env h" "ui_ClientFactory s = None"
  shows "h (snd (ui_Handler env s r w)) = h w \<or>
    (\<exists>client. profile_error (ce_Parse (cl_ctl (us_client env (ui_timeout s)))) (ct_Config client) = None \<and>
       sends_calls h (permitted_by (us_client env (ui_timeout s)) valid_request client (rq_Method r)) w (snd (ui_Handler env s r w)))"
proof -
  have "ui_sends env s h (rq_Method r) w (snd (handleConfig env s r w))" using handleConfig_keeps [OF assms(1)] by (simp add: ui_sends_def)
  then have "ui_sends env s h (rq_Method r) w (snd (ui_Handler env s r w))"
    unfolding ui_Handler_def Let_def
    using get_handlers_send [OF assms(1), of s r w] post_handlers_send [OF assms(1), of s r w] unsent [of env s h "rq_Method r" w] by simp
  moreover have "profile_error (ce_Parse (cl_ctl (us_client env (ui_timeout s)))) (ct_Config client) = None" if "ui_client env s w = Inr client" for client
    using that assms(2) NewClient_valid by (auto simp: ui_client_def split: sum.splits)
  ultimately show ?thesis unfolding ui_sends_def by blast
qed

section \<open>Saving a profile on the dashboard\<close>

lemma loadConfigState_saved:
  assumes "LoadConfig (us_ctl env) (ui_ConfigPath s) w = Inr cfg"
  shows "\<exists>path. loadConfigState env s w = (path, cfg, True, None)"
  using assms by (auto simp: loadConfigState_def LoadConfig_def config_path_def split: sum.splits if_splits contents.splits)

text \<open>
  A profile that the dashboard has accepted is the profile that it shows from then on, normalised, and the one it works
  with: the reply to the PUT and that to the next GET are the same and report no error. (The profile has no white space
  inside its URL and its paths, and its JSON decodes to it.)
\<close>

theorem dashboard_profile_roundtrip:
  assumes "writes_files (ce_files (us_ctl env))" "rq_Method put = ''PUT''" "us_decode_config env (rq_Body put) = Inr cfg" "plain_profile cfg"
    and "handleConfig env s put w = (reply, w')" "ur_Status reply = 200"
    and "\<And>data. ce_marshal (us_ctl env) (ctl_normalize (ce_lower (us_ctl env)) cfg) = Inr data \<Longrightarrow>
      ce_unmarshal (us_ctl env) (data @ [CHR 0x0A]) = Inr (ctl_normalize (ce_lower (us_ctl env)) cfg)"
    and "rq_Method get = ''GET''"
  shows "\<exists>shown. reply = ui_writeJSON 200 (UiConfig shown) \<and> uc_Exists shown \<and> uc_Error shown = '''' \<and>
    uc_Config shown = ctl_normalize (ce_lower (us_ctl env)) cfg \<and> handleConfig env s get w' = (reply, w') \<and>
    LoadConfig (us_ctl env) (ui_ConfigPath s) w' = Inr (uc_Config shown)"
proof -
  let ?norm = "ctl_normalize (ce_lower (us_ctl env))"
  have idem: "?norm (?norm cfg) = ?norm cfg" by (rule ctl_normalize_idem [OF assms(4)])
  have valid: "ValidateForRequest (us_ctl env) cfg = (None, ?norm cfg)"
    using assms(2,3,5,6) by (cases "fst (ValidateForRequest (us_ctl env) cfg)")
      (auto simp: handleConfig_def ValidateForRequest_def Let_def ui_writeError_def ui_writeJSON_def split: option.splits)
  obtain e w1 where s: "SaveConfig (us_ctl env) (ui_ConfigPath s) (?norm cfg) w = (e, w1)" by force
  then have e: "e = None" using assms(2,3,5,6) valid
    by (auto simp: handleConfig_def ui_writeError_def ui_writeJSON_def split: option.splits)
  have r: "reply = config_reply (loadConfigState env s w')" "w1 = w'"
    using assms(2,3,5) valid s e by (auto simp: handleConfig_def)
  have "LoadConfig (us_ctl env) (ui_ConfigPath s) w' = Inr (?norm cfg)"
    using SaveConfig_LoadConfig [OF assms(1) s [unfolded e]] assms(7) idem r(2) by simp
  moreover from loadConfigState_saved [OF this] obtain path where "loadConfigState env s w' = (path, ?norm cfg, True, None)" by blast
  ultimately show ?thesis using r assms(8)
    by (intro exI [of _ "\<lparr>uc_Path = path, uc_Exists = True, uc_Config = ?norm cfg, uc_Error = ''''\<rparr>"]) (simp add: config_reply_def handleConfig_def)
qed


section \<open>A dashboard\<close>

definition ui_ctl_a :: "((string \<times> string) list \<times> (http_call \<times> http_reply go_result) list) ctl_env" where
  "ui_ctl_a = \<lparr>ce_files = \<lparr>fi_MkdirAll = (\<lambda>_ w. (None, w)), fi_Stat = (\<lambda>_ _. Missing),
        fi_ReadFile = (\<lambda>p w. case map_of (fst w) p of None \<Rightarrow> if p = ''ca'' then Bytes ''pem'' else NoFile | Some d \<Rightarrow> Bytes d),
        fi_WriteFile = (\<lambda>p d w. (None, ((p, d) # fst w, snd w)))\<rparr>,
     ce_home = Inr ''/home'', ce_marshal = (\<lambda>c. Inr ''profile''), ce_unmarshal = (\<lambda>d. Inr (ctl_normalize id profile_a)), ce_lower = id, ce_Parse = Inl,
     ce_geo = \<lparr>gl_net = \<lparr>net_do = (\<lambda>_ w. (Inl ''down'', w)), net_done = (\<lambda>_. False), net_sleep = (\<lambda>_ w. (None, w)), net_now = (\<lambda>_. 0)\<rparr>,
        gl_NewRequest = (\<lambda>_. None), gl_decode = Inl, gl_ParseFloat = Inl\<rparr>\<rparr>"

definition ui_env_a :: "(string, (string \<times> string) list \<times> (http_call \<times> http_reply go_result) list) ui_env" where
  "ui_env_a =
     \<lparr>us_client = (\<lambda>_. \<lparr>cl_ctl = ui_ctl_a, cl_load_pair = (\<lambda>_ _ _. Inr ''pair''), cl_pem_ok = (\<lambda>_. True), cl_not_found = id,
        cl_net = \<lparr>net_do = (\<lambda>call w. let ans = Inr \<lparr>hp_StatusCode = 200, hp_Status = ''200'', hp_Body = ''ok''\<rparr> in (ans, (fst w, (call, ans) # snd w))),
          net_done = (\<lambda>_. False), net_sleep = (\<lambda>_ w. (None, w)), net_now = (\<lambda>_. 0)\<rparr>,
        cl_NewRequest = (\<lambda>_. None), cl_ReadAll = (\<lambda>_ _. None), cl_PathEscape = id, cl_marshal = (\<lambda>req. Inr (req_ModuleName req)), cl_error = Inl,
        cl_health = Inl, cl_metrics = Inl, cl_workers = Inl, cl_execution = Inl,
        cl_job = Inl, cl_api = (\<lambda>s. Inr \<lparr>api_Status = s, api_Message = ''''\<rparr>)\<rparr>),
      us_ctl = ui_ctl_a, us_decode_config = (\<lambda>_. Inr profile_a), us_decode_request = Inl, us_sub = None, us_index = Inr ''page'',
      us_files = (\<lambda>_. ui_writeError 404 '''')\<rparr>"

definition ui_server_a :: "(string, (string \<times> string) list \<times> (http_call \<times> http_reply go_result) list) UiServer" where
  "ui_server_a = \<lparr>ui_ConfigPath = ''c'', ui_Timeout = 0, ui_ClientFactory = None\<rparr>"

definition ui_request :: "string \<Rightarrow> string \<Rightarrow> http_request" where
  "ui_request m path = \<lparr>rq_Method = m, rq_Path = path, rq_TLS = None, rq_Body = ''''\<rparr>"

theorem dashboard_sends_one_call_witness:
  "\<exists>client. length (snd (snd (ui_Handler ui_env_a ui_server_a (ui_request ''POST'' ''/ui/api/workers/w/drain'') ([(''c'', ''profile'')], [])))) = 1 \<and>
     sends_calls snd (permitted_by (us_client ui_env_a DefaultAPITimeout) valid_request client ''POST'') ([(''c'', ''profile'')], [])
       (snd (ui_Handler ui_env_a ui_server_a (ui_request ''POST'' ''/ui/api/workers/w/drain'') ([(''c'', ''profile'')], [])))"
proof -
  let ?r = "ui_request ''POST'' ''/ui/api/workers/w/drain''" and ?w = "([(''c'', ''profile'')], []) :: (string \<times> string) list \<times> (http_call \<times> http_reply go_result) list"
  have "ui_observes ui_env_a snd"
    by (simp add: ui_observes_def ui_env_a_def ui_ctl_a_def records_def quiet_def Let_def)
  moreover have "ui_ClientFactory ui_server_a = None" "ui_timeout ui_server_a = DefaultAPITimeout" "rq_Method ?r = ''POST''"
    by (simp_all add: ui_server_a_def ui_timeout_def ui_request_def)
  moreover have "length (snd (snd (ui_Handler ui_env_a ui_server_a ?r ?w))) = 1" by code_simp
  ultimately show ?thesis using dashboard_sends_one_call [of ui_env_a snd ui_server_a ?r ?w] by auto
qed

theorem dashboard_profile_roundtrip_witness:
  "\<exists>reply w'. handleConfig ui_env_a ui_server_a (ui_request ''PUT'' ''/ui/api/config'') ([], []) = (reply, w') \<and>
     handleConfig ui_env_a ui_server_a (ui_request ''GET'' ''/ui/api/config'') w' = (reply, w') \<and>
     LoadConfig ui_ctl_a ''c'' w' = Inr (ctl_normalize id profile_a)"
proof -
  let ?put = "ui_request ''PUT'' ''/ui/api/config''" and ?w = "([], []) :: (string \<times> string) list \<times> (http_call \<times> http_reply go_result) list"
  obtain reply w' where r: "handleConfig ui_env_a ui_server_a ?put ?w = (reply, w')" by (rule prod.exhaust)
  have "ur_Status (fst (handleConfig ui_env_a ui_server_a ?put ?w)) = 200" by code_simp
  then have "ur_Status reply = 200" using r by simp
  moreover have "writes_files (ce_files (us_ctl ui_env_a))" by (auto simp: writes_files_def ui_env_a_def ui_ctl_a_def)
  moreover have "plain_profile profile_a" by code_simp
  moreover have "us_ctl ui_env_a = ui_ctl_a" "us_decode_config ui_env_a (rq_Body ?put) = Inr profile_a" "ui_ConfigPath ui_server_a = ''c''" "ce_lower ui_ctl_a = id"
    "\<And>d. ce_unmarshal ui_ctl_a d = Inr (ctl_normalize id profile_a)"
    "rq_Method ?put = ''PUT''" "rq_Method (ui_request ''GET'' ''/ui/api/config'') = ''GET''"
    by (simp_all add: ui_env_a_def ui_server_a_def ui_ctl_a_def ui_request_def)
  ultimately show ?thesis using r dashboard_profile_roundtrip [of ui_env_a ?put profile_a ui_server_a ?w reply w' "ui_request ''GET'' ''/ui/api/config''"]
    by auto
qed

end
