(* ===== verification/Ui_Main.thy ===== *)
theory Ui_Main
  imports Ui_Server Go_Flag Serving
begin

text \<open>
  \<open>src/cmd/wasmcat-ui/main.go\<close>: the program of the dashboard. Its flags are those of \<open>flag.CommandLine\<close>, which ends
  the program when they cannot be parsed: with status 0 after a call for help, and with status 2 otherwise.
\<close>

record ('p, 'w) ui_main_env =
  um_flags :: flag_env
  um_flag_report :: "string \<Rightarrow> 'w \<Rightarrow> 'w"
  um_serve :: "(('p, 'w) UiServer, 'w) serve_env"
  um_stdout :: "string \<Rightarrow> 'w \<Rightarrow> 'w"
  um_version :: string

definition ui_flags :: "(string \<times> flag_kind) list" where
  "ui_flags = [(''listen'', StringFlag), (''config'', StringFlag), (''timeout'', DurationFlag), (''version'', BoolFlag)]"

text \<open>The \<open>select\<close> of \<open>main\<close>, with the exit status that follows.\<close>

definition run_ui :: "('h, 'w) serve_env \<Rightarrow> 'h http_server \<Rightarrow> 'w \<Rightarrow> int \<times> 'w" where
  "run_ui env server w =
     (case se_select env server None w of
        (Some res, w) \<Rightarrow> (if listen_failure res = None then 0 else 1, w)
      | (None, w) \<Rightarrow> (case se_Shutdown env (5 * Second) w of (err, w) \<Rightarrow> (if err = None then 0 else 1, w)))"

definition ui_main :: "('p, 'w) ui_main_env \<Rightarrow> string list \<Rightarrow> 'w \<Rightarrow> int \<times> 'w" where
  "ui_main env args w =
     (case flag_Parse (um_flags env) ui_flags args of
        Inl err \<Rightarrow> (if err = ''flag: help requested'' then 0 else 2, um_flag_report env err w)
      | Inr (passed, _) \<Rightarrow>
          if flag_Bool (um_flags env) passed ''version'' False then (0, um_stdout env (''wasmcat-ui '' @ um_version env @ [CHR 0x0A]) w)
          else
            (let server = \<lparr>ui_ConfigPath = flag_String passed ''config'' '''', ui_Timeout = flag_Duration (um_flags env) passed ''timeout'' DefaultAPITimeout,
                 ui_ClientFactory = None\<rparr> in
             run_ui (um_serve env) (NewHTTPServer (flag_String passed ''listen'' DefaultListenAddress) server None) w))"

end
