(* ===== verification/Spec2Isabelle.thy ===== *)
theory Spec2Isabelle
  imports
    Shared_Models Shared_Metrics Shared_Http Shared_Client
    Master_Registry Master_Scheduler Master_Tracker Master_Policy Master_Jobs Master_Job_Spec Master_Acr
    Master_Dispatcher Master_Recovery Master_Recovery_Loop Master_Gateway Cluster
    Worker_Limits Worker_Cache Worker_Runtime Worker_Engine Worker_Server Worker_Telemetry
    Config Security_Mtls Bootstrap Serving Master_Main Master_System Worker_Main
    Ctl_Config Ctl_Client Ctl_Output Ctl_Main Client_Gateway Worker_Gateway Ui_Server Ui_Main
begin

text \<open>
  \<^bold>\<open>A verification of wasmCat.\<close>

  wasmCat runs WebAssembly modules on worker nodes on behalf of clients. A \<^emph>\<open>master\<close> (\<open>src/cmd/master\<close>, \<open>src/internal/master\<close>) keeps a
  registry of workers, chooses the nearest worker with enough capacity for each request, forwards the request over mutual TLS
  and records durable jobs in a SQLite table. A \<^emph>\<open>worker\<close> (\<open>src/cmd/worker\<close>, \<open>src/internal/worker\<close>) downloads a module, checks its
  digest, caches the compiled module, runs it with one of two calling conventions and reports the outcome. Operators use
  a \<^emph>\<open>command line client\<close> (\<open>src/cmd/wasmcatctl\<close>, \<open>src/internal/ctl\<close>) or a \<^emph>\<open>dashboard\<close> (\<open>src/cmd/wasmcat-ui\<close>, \<open>src/internal/ui\<close>); both call the
  API of the master. Names of definitions are those of the code, with a prefix where two packages use the same name.

  \<^bold>\<open>Foundations.\<close>
  \<^item> \<open>Wasmcat_Prelude\<close>: results and errors of Go (\<open>go_result\<close>, \<open>go_error\<close>), 64-bit arithmetic, times and durations, floats with NaN, and the
    functions of \<open>strings\<close>; \<open>Go_Maps\<close>: maps as association lists, iterated in an order that is an argument (\<open>visit\<close>);
    \<open>Go_Strconv\<close>: reading and printing numbers; \<open>Go_Files\<close>: files and paths; \<open>Go_Flag\<close>: the package \<open>flag\<close>.
  \<^item> \<open>Simulation\<close> and \<open>Single_Flight\<close>: locales for a refinement of an abstract map and for keys that one caller holds at a time;
    they are interpreted on the job store, the tracker and the compile table, like the locales for evictions (\<open>Go_Maps\<close>),
    row updates (\<open>Master_Jobs\<close>) and the choice of a worker (\<open>Master_Scheduler\<close>) on the functions that provide them.

  \<^bold>\<open>What both sides share\<close> (\<open>src/internal/shared\<close>, \<open>security\<close>, \<open>config\<close>, \<open>geolocation\<close>, \<open>bootstrap\<close>, \<open>logging\<close>).
  \<^item> \<open>Shared_Models\<close> (messages and their validation), \<open>Shared_Metrics\<close> (64-bit counters), \<open>Shared_Http\<close> (replies, the counting middleware),
    \<open>Shared_Client\<close> (outgoing calls and their retries), \<open>Serving\<close> (the settings of servers and clients and the two functions \<open>Start\<close>).
  \<^item> \<open>Config\<close>, \<open>Geolocation\<close>, \<open>Security_Mtls\<close>, \<open>Bootstrap\<close>: loading the environment, finding a location, generating certificates, writing the environment files.

  \<^bold>\<open>The master.\<close>
  \<^item> \<open>Master_Registry\<close>, \<open>Master_Scheduler\<close>, \<open>Master_Tracker\<close>, \<open>Master_Policy\<close>: the workers, the choice among them, the in-memory request tracker, the module policy.
  \<^item> \<open>Master_Jobs\<close>: the job table, one function per statement. The state is the rows and a list of outcomes for the statements to come,
    so that every statement may fail. \<open>Master_Job_Spec\<close> has the abstract contract, a map from request ids to jobs, and the refinement.
  \<^item> \<open>Master_Acr\<close>, \<open>Master_Dispatcher\<close>: registry references and pull tokens, and the dispatch with its failover. The loop is a
    \<open>partial_function (option)\<close>: a dispatch that does not end is \<open>None\<close>.
  \<^item> \<open>Master_Gateway\<close>: all handlers; \<open>Master_Recovery\<close>: a run of the recovery, \<open>Master_Recovery_Loop\<close>: the loop over the runs; \<open>Master_Main\<close>: the program, its command \<open>init\<close> and the wiring;
    \<open>Master_System\<close>: the running master as a step relation over requests, reaper ticks and recovery runs.

  \<^bold>\<open>The worker.\<close>
  \<^item> \<open>Worker_Limits\<close>, \<open>Worker_Cache\<close> (module cache, compile table, execution slots), \<open>Worker_Runtime\<close> (the capped output buffer, linear memory, both calling
    conventions), \<open>Worker_Engine\<close> (download, digest, execution), \<open>Worker_Server\<close>, \<open>Worker_Telemetry\<close>, \<open>Worker_Main\<close>.

  \<^bold>\<open>The clients.\<close>
  \<^item> \<open>Ctl_Config\<close>, \<open>Ctl_Client\<close>, \<open>Ctl_Output\<close>, \<open>Ctl_Main\<close>: profiles, calls, output and arguments of the command line; \<open>Ui_Server\<close>, \<open>Ui_Main\<close>: the dashboard. \<open>Api_Calls\<close> says which
    calls either can send.

  \<^bold>\<open>The parts joined.\<close> One part becomes the network of another.
  \<^item> \<open>Client_Gateway\<close>: the gateway is the network of the client. \<open>Worker_Gateway\<close>: the gateway is the network of a worker's telemetry and of its completion
    callback. \<open>Cluster\<close>: a family of workers, beside the outside, is the network of the dispatcher; a call changes the one worker it reaches.

  \<^bold>\<open>How the code is modelled.\<close> Structures are records, operations are functions that return the new state, errors are values, a panic is a
  value of its own (\<open>Panicked\<close>, \<open>Panic\<close>). What the code calls in other packages is an argument: the network (\<open>network\<close>, a state \<open>'n\<close> with
  its operations), files, the SQLite driver, wazero, cryptography, SHA-256, JSON, \<open>url.Parse\<close>, \<open>time.ParseDuration\<close>, formatting of floats,
  clocks and random numbers. Where a property needs a law of one of them, the law is a named hypothesis: \<open>records\<close> (the network
  notes every call), \<open>quiet\<close> (nothing else does), \<open>json_nonempty\<close>, \<open>writes_files\<close>, \<open>wired\<close> and \<open>reaches\<close> (encodings carry messages), \<open>signs\<close>, \<open>notes_servers\<close>, \<open>reads_back\<close>. Each property with
  hypotheses is followed, further down in its theory, by a witness that applies it to a concrete environment.

  Goroutines are interleavings of critical sections. The tracker, the registry, the cache and the job table are proved correct for every
  sequence of their operations (\<open>tracker_apply\<close>, \<open>registry_apply\<close>, \<open>engine_apply\<close>, \<open>store_apply\<close>), since each of them runs under a lock or is one statement. What happens to
  the engine beside an execution is a \<open>schedule\<close>: a list of operations of other goroutines between any two sections. In \<open>Master_System\<close> a
  request is one step; the section on recovery below shows what can happen when a recovery run falls between two statements of a request.

  \<^bold>\<open>Bounds and termination.\<close> Durations are 64-bit and wrap where the code adds or multiplies them (\<open>add64\<close>, \<open>mul64\<close>); counters are \<open>64 word\<close>, output limits \<open>32 word\<close>. Loops over data
  are structural or have a measure; the loops that may not end on their own (the dispatch, waiting for another goroutine's compilation)
  are partial, and that they end is proved from what ends them: distances that compare (\<open>dispatch_failover\<close>) and an execution deadline (\<open>engine_execute_returns\<close>); \<open>dispatch_never_returns\<close>
  shows that the first of these is needed. The recovery loop leaves no job queued after \<open>pending\<close> runs, a number computed from the table, and no job unfinished after as many runs that find the leases ended. No result depends on a bound chosen for the proof.

  \<^bold>\<open>What the lemmas show.\<close>
  \<^item> Safety of executions: \<open>durable_execute_guard\<close>, \<open>dispatch_failover\<close>, \<open>engine_digest_integrity\<close>, \<open>engine_output_bounded\<close>, \<open>dispatched_result_is_genuine\<close> (end to end), \<open>tracker_single_flight\<close>, \<open>tracker_replay_sound\<close>, \<open>compile_single_flight\<close>.
  \<^item> State: \<open>master_invariant\<close>, \<open>tracker_invariant\<close>, \<open>engine_cache_invariant\<close>, \<open>job_store_refines_map\<close>, \<open>recovery_moves_jobs\<close>, \<open>recovery_settles_jobs\<close>, \<open>recovery_leaves_no_job_queued\<close>, \<open>completion_settles_job\<close>.
  \<^item> Access: \<open>client_api_gate\<close>, \<open>internal_api_gate\<close>, \<open>servers_demand_client_certificates\<close>, \<open>generated_certificate_identity\<close>, \<open>acr_token_scoped\<close>.
  \<^item> Configuration: \<open>master_config_applies\<close>, \<open>worker_config_applies\<close>, \<open>init_configures_master\<close>, \<open>init_configures_worker\<close>.
  \<^item> Clients: \<open>cli_sends_one_call\<close>, \<open>dashboard_sends_one_call\<close>, \<open>failing_execution_runs_three_times\<close>.
  \<^item> Behaviour that its authors may not expect: \<open>worker_answers_are_final\<close>, \<open>durable_dispatch_race\<close>, \<open>large_result_not_recorded\<close>, \<open>completion_overwrites_any_job\<close>,
    \<open>drain_lasts_until_next_tick\<close>, \<open>failed_starts_exit_with_success\<close>, \<open>dispatch_never_returns\<close>, \<open>unreadable_job_blocks_recovery\<close>.

  This theory imports all others and has the properties that span components: what a worker's answers mean to the dispatcher, completions that
  are too long, recovery beside a durable execution, the identities of generated certificates, and how the programs end.

  \<^bold>\<open>Not modelled.\<close> Log output, apart from the errors with which master and worker end (\<open>mm_log\<close>, \<open>wm_log\<close>); the bytes on the wire (TLS, HTTP and JSON are the libraries'); the redirects of \<open>ServeMux\<close> for paths that are not
  clean (the routes are given for clean paths); the contents of the dashboard's pages; signals, beyond a context that is done. In \<open>Master_System\<close> the
  tickers of the recovery and the reaper are steps that may come at any time.
\<close>

section \<open>A worker's answers and the dispatcher\<close>

text \<open>
  (C16) A running worker answers every execution request, and the dispatcher takes each of its answers
  as final: no error that the worker reports makes the master try another worker. In particular
  a worker whose execution slots are all taken refuses a request for good.
\<close>

theorem worker_answers_are_final:
  fixes d :: "'n Dispatcher"
  assumes "sv_Engine s = Some e" "engine_wf e" "\<forall>i \<ge> n. sc_done (wv_schedule env) i" "neutral_schedule (wv_schedule env)"
  shows "\<exists>resp s'. handleInvoke env r s = Some (Replied resp, s') \<and> rs_Status resp \<in> {200, 400, 405} \<and>
    (\<forall>node req ans err. hp_StatusCode ans = rs_Status resp \<longrightarrow> worker_answer d node req (Inr ans) = Inl err \<longrightarrow>
       \<not> isRetryableDispatchError err)"
proof -
  obtain resp s' where i: "handleInvoke env r s = Some (Replied resp, s')" "rs_Status resp \<in> {200, 400, 405}"
    using invoke_returns [OF assms] by blast
  have "\<not> isRetryableWorkerStatus (rs_Status resp)" using i(2) by (auto simp: isRetryableWorkerStatus_def)
  then have "\<not> isRetryableDispatchError err"
    if "hp_StatusCode ans = rs_Status resp" "worker_answer d node req (Inr ans) = Inl err"
    for node req ans err
    using that worker_answer_retryable [of d node req "Inr ans" err] by (auto simp: retryable_answer_def)
  then show ?thesis using i by (intro exI [of _ resp] exI [of _ s']) simp
qed

section \<open>Completions that are too long to report\<close>

text \<open>
  (C20) A result of more than 4 KiB cannot be reported to the master through the completion
  callback: the worker sends the completion, but whatever the state of the gateway, the request
  is answered with 413 and no job changes. (A worker may return up to \<open>MaxOutputBytes\<close>, 1 MiB by default.)
  The hypotheses on the encodings: the JSON of a completion is at least as long as the result in it,
  and reading a body that is longer than its limit fails.
\<close>

theorem large_result_not_recorded:
  fixes g :: "'n Gateway"
  assumes "records (en_net (wv_engine env)) h" "quiet (en_net (wv_engine env)) h"
    and "TrimRight (CHR ''/'') (TrimSpace (sv_MasterURL s)) \<noteq> ''''" "\<And>c. \<exists>payload. wv_marshal env c = Inr payload"
    and "\<And>u. wv_NewRequest env u = None" "wv_client env = None"
    and invoke: "handleInvoke env r s = Some (Replied resp, s')" "rs_Value resp = JExec x" "length (resp_Result x) > 4096"
    and json: "\<And>c y payload. jc_Response c = Some y \<Longrightarrow> wv_marshal env c = Inr payload \<Longrightarrow> length (resp_Result y) \<le> length payload"
    and limit: "\<And>c payload. wv_marshal env c = Inr payload \<Longrightarrow> int (length payload) > internalControlMaxBodyBytes \<Longrightarrow>
      ge_decode_completion master internalControlMaxBodyBytes payload = BodyTooLarge"
  shows "\<exists>url payload rest. map fst (h (sv_world s')) = completion_call url payload # rest \<and>
    (\<forall>call db. rq_Method call = MethodPost \<longrightarrow> rq_Body call = payload \<longrightarrow> gw_JobStore g = Some db \<longrightarrow>
       handleJobCompletion master call g = (Replied (WriteError 413 ''request_body_too_large'' None), g))"
proof -
  have "\<not> rejected resp" using invoke(2) by (auto simp: rejected_def)
  then obtain c payload rest where c: "tells (sv_NodeID s) resp c" "wv_marshal env c = Inr payload"
      "map fst (h (sv_world s')) = completion_call (TrimRight (CHR ''/'') (TrimSpace (sv_MasterURL s))) payload # rest"
    using invoke_reports [OF assms(1-6) invoke(1)] by auto
  have "jc_Response c = Some x" using c(1) invoke(2) by (auto simp: tells_def succeeded_completion_def)
  then have "int (length payload) > internalControlMaxBodyBytes"
    using json [OF _ c(2)] invoke(3) by (fastforce simp: internalControlMaxBodyBytes_def)
  then have "ge_decode_completion master internalControlMaxBodyBytes payload = BodyTooLarge" by (rule limit [OF c(2)])
  then have "handleJobCompletion master call g = (Replied (WriteError 413 ''request_body_too_large'' None), g)"
    if "rq_Method call = MethodPost" "rq_Body call = payload" "gw_JobStore g = Some db" for call db
    using that by (simp add: handleJobCompletion_def RequireMethod_def)
  with c(3) show ?thesis by (intro exI conjI allI impI) auto
qed

section \<open>Recovery beside a durable execution\<close>

text \<open>The state the request handler and the recovery share is the job table.\<close>

lemma Create_fresh:
  assumes "db_faults db = []" "find_row db (job_RequestID job) = None" "marshal_request env (job_Request job) = Inr json"
  shows "Create env now job db = (None, db\<lparr>db_rows := db_rows db @ [insert_row (create_defaults now job) json]\<rparr>)"
  using assms by (simp add: Create_def Let_def insert_job_def insert_row_id next_outcome_def del: next_outcome_rows)


definition has_job :: "string \<Rightarrow> job_db \<Rightarrow> bool" where
  "has_job k db \<longleftrightarrow> db_faults db = [] \<and> find_row db k \<noteq> None"

lemma Mark_has_job:
  assumes "has_job k db"
  shows "\<exists>db'. MarkDispatching now k w l db = (None, db') \<and> has_job k db'"
    "\<exists>db'. MarkFailed now k reason db = (None, db') \<and> has_job k db'"
    "\<exists>db'. MarkQueued now k reason db = (None, db') \<and> has_job k db'"
    "\<exists>e db'. MarkSucceeded env now k resp db = (e, db') \<and> has_job k db'"
proof -
  have upd: "\<exists>db'. update_job k change what db = (None, db') \<and> has_job k db'" if "\<And>r. jb_request_id (change r) = jb_request_id r" for change what
    using update_job_runs [of db k change what] assms that by (auto simp: has_job_def)
  show "\<exists>db'. MarkDispatching now k w l db = (None, db') \<and> has_job k db'"
    "\<exists>db'. MarkFailed now k reason db = (None, db') \<and> has_job k db'"
    "\<exists>db'. MarkQueued now k reason db = (None, db') \<and> has_job k db'"
    unfolding MarkDispatching_def MarkFailed_def MarkQueued_def by (rule upd, simp)+
  show "\<exists>e db'. MarkSucceeded env now k resp db = (e, db') \<and> has_job k db'"
  proof (cases "marshal_response env resp")
    case (Inr json)
    then show ?thesis using upd [of "set_succeeded now json" "''mark job succeeded''"] by (auto simp: MarkSucceeded_def)
  qed (use assms in \<open>auto simp: MarkSucceeded_def\<close>)
qed

lemma recoverQueuedJob_dispatches:
  assumes "has_job (job_RequestID job) (rs_db s)" "\<And>req w. h (snd (r_dispatch r req w)) = req # h w"
  shows "h (rs_world (snd (recoverQueuedJob r job now s))) = job_Request job # h (rs_world s) \<and>
    has_job (job_RequestID job) (rs_db (snd (recoverQueuedJob r job now s)))"
proof -
  obtain db1 where 1: "MarkDispatching (r_clock r (rs_world s)) (job_RequestID job) '''' (now + leaseTTL r) (rs_db s) = (None, db1)"
      "has_job (job_RequestID job) db1"
    using Mark_has_job(1) [OF assms(1)] by blast
  obtain ans w where d: "r_dispatch r (job_Request job) (rs_world s) = (ans, w)" by force
  have w: "h w = job_Request job # h (rs_world s)" using assms(2) [of "job_Request job" "rs_world s"] d by simp
  show ?thesis
  proof (cases ans)
    case (Inr resp)
    obtain e db2 where "MarkSucceeded (r_env r) (r_clock r w) (job_RequestID job) resp db1 = (e, db2)" "has_job (job_RequestID job) db2"
      using Mark_has_job(4) [OF 1(2)] by blast
    then show ?thesis using 1(1) d Inr w by (simp add: recoverQueuedJob_def)
  next
    case (Inl reason)
    obtain db2 db3 where "MarkFailed (r_clock r w) (job_RequestID job) reason db1 = (None, db2)" "has_job (job_RequestID job) db2"
        "MarkQueued (r_clock r w) (job_RequestID job) reason db1 = (None, db3)" "has_job (job_RequestID job) db3"
      using Mark_has_job(2,3) [OF 1(2)] by metis
    then show ?thesis using 1(1) d Inl w by (simp add: recoverQueuedJob_def)
  qed
qed

lemma recover_fresh:
  fixes w :: 'w
  assumes db: "db_faults db = []" "find_row db (job_RequestID job) = None"
    and old: "\<forall>row \<in> set (db_rows db). \<not> recoverable_row (r_clock r w) row"
    and job: "unmarshal_request (r_env r) json = Inr (job_Request job)" "job_Status job = JobQueued"
    and disp: "\<And>req w. h (snd (r_dispatch r req w)) = req # h w"
    and s: "s = \<lparr>rs_db = db\<lparr>db_rows := db_rows db @ [insert_row job json]\<rparr>, rs_metrics = m, rs_world = w\<rparr>"
  shows "h (rs_world (snd (RecoverOnce r s))) = job_Request job # h w \<and> has_job (job_RequestID job) (rs_db (snd (RecoverOnce r s)))"
proof -
  let ?row = "insert_row job json"
  let ?now = "r_clock r w"
  have "filter (recoverable_row ?now) (db_rows (rs_db s)) = [?row]"
    using old job(2) s by (auto simp: filter_empty_conv recoverable_row_def insert_row_def)
  moreover have "order_by_updated ord [?row] = [?row]" for ord
    by (metis order_by_updated_mset mset_single_iff_right)
  moreover have "0 < batchSize r" by (simp add: batchSize_def DefaultJobRecoveryBatchSize_def)
  ultimately have l: "ListRecoverable (r_env r) ?now (batchSize r) (rs_db s) = (Inr [stored_job job], rs_db s)"
    using db(1) s scan_inserted [OF job(1)] by (simp add: ListRecoverable_def Let_def next_outcome_def del: next_outcome_rows)
  have "find_row (rs_db s) = (find_row db)(job_RequestID job \<mapsto> ?row)"
    using find_row_snoc [of "rs_db s" db ?row] s db(2) by (simp add: insert_row_id)
  then have "has_job (job_RequestID (stored_job job)) (rs_db s)" using s db(1) by (simp add: has_job_def stored_job_def)
  from recoverQueuedJob_dispatches [where h = h, OF this disp]
  show ?thesis using l job(2) s by (simp add: RecoverOnce_def recover_jobs_def recoverJob_def stored_job_def)
qed

text \<open>
  (C19) A durable execution and the recovery loop can dispatch the same request twice. The handler first
  inserts the job as queued and marks it dispatching in a second statement; a recovery run
  between the two finds the queued job and dispatches it, and the handler's own update then
  still succeeds, so that it goes on to dispatch the request again. (No statement fails, and no other
  job is waiting for recovery.)
\<close>

theorem durable_dispatch_race:
  fixes w :: 'w
  assumes "db_faults db = []" "find_row db (req_RequestID req) = None"
    and "\<forall>row \<in> set (db_rows db). \<not> recoverable_row (r_clock r w) row"
    and "ge_fingerprint env req = Inr fp" "r_env r = ge_store env"
    and "marshal_request (ge_store env) req = Inr json" "unmarshal_request (ge_store env) json = Inr req"
    and "\<And>req w. h (snd (r_dispatch r req w)) = req # h w"
  shows "\<exists>job db1 s db2. beginDurableJob env n req db = (Starts job, db1) \<and>
    s = snd (RecoverOnce r \<lparr>rs_db = db1, rs_metrics = m, rs_world = w\<rparr>) \<and> h (rs_world s) = req # h w \<and>
    MarkDispatching (ge_clock env 4) (req_RequestID req) '''' lease (rs_db s) = (None, db2)"
proof -
  let ?job = "NewJobRecord req fp n (ge_clock env 1)"
  let ?new = "create_defaults (ge_clock env 2) ?job"
  define db1 where "db1 = db\<lparr>db_rows := db_rows db @ [insert_row ?new json]\<rparr>"
  have job: "job_RequestID ?new = req_RequestID req" "job_Request ?new = req" "job_Status ?new = JobQueued"
    by (simp_all add: NewJobRecord_def create_defaults_def Let_def job_statuses)
  have "Create (ge_store env) (ge_clock env 2) ?job db = (None, db1)"
    using Create_fresh [of db ?job "ge_store env" json] assms(1,2,6) by (simp add: NewJobRecord_def db1_def)
  then have b: "beginDurableJob env n req db = (Starts ?job, db1)" using assms(4) by (simp add: beginDurableJob_def Let_def)
  let ?s = "snd (RecoverOnce r \<lparr>rs_db = db1, rs_metrics = m, rs_world = w\<rparr>)"
  have s: "h (rs_world ?s) = req # h w" "has_job (req_RequestID req) (rs_db ?s)"
    using recover_fresh [of db ?new r w json h "\<lparr>rs_db = db1, rs_metrics = m, rs_world = w\<rparr>" m] assms(1-3,5,7,8) job
    by (simp_all add: db1_def)
  obtain db2 where "MarkDispatching (ge_clock env 4) (req_RequestID req) '''' lease (rs_db ?s) = (None, db2)"
    using Mark_has_job(1) [OF s(2)] by blast
  with b s(1) show ?thesis
    by - (rule exI [of _ ?job], rule exI [of _ db1], rule exI [of _ ?s], rule exI [of _ db2], simp)
qed


section \<open>The identities of generated certificates\<close>

definition peer_certificate :: "cert_template \<Rightarrow> cert" where
  "peer_certificate t = \<lparr>CommonName = ct_CommonName t, DNSNames = ct_DNSNames t\<rparr>"

lemma peer_identity:
  assumes "rq_TLS r = Some (peer_certificate t # rest)" "ct_DNSNames t = [''localhost'']" "TrimSpace claimed \<noteq> ''''"
  shows "validateWorkerPeerIdentity r claimed = None \<longleftrightarrow> ct_CommonName t = ''wasmcat-worker-'' @ TrimSpace claimed \<or> TrimSpace claimed = ''localhost''"
  using assms by (auto simp: validateWorkerPeerIdentity_def workerCertificateName_def peer_certificate_def Let_def)

text \<open>
  (C34) Of the certificates that the master generates for development, the worker's is accepted
  by the internal API for the id it was generated for, and the master's for no worker, but for one exception: both carry
  the DNS name \<open>localhost\<close>, by which either of them may claim to be a worker of the id \<open>localhost\<close>.
\<close>

theorem generated_certificate_identity:
  assumes "signs env h" "GenerateCAAndCerts env certDir workerID w = (Value u, w')"
  shows "\<exists>worker master ca. h w' = worker # master # ca # h w \<and>
    (\<forall>r rest claimed. rq_TLS r = Some (peer_certificate worker # rest) \<longrightarrow> TrimSpace claimed \<noteq> '''' \<longrightarrow>
       (validateWorkerPeerIdentity r claimed = None \<longleftrightarrow> TrimSpace claimed = workerID \<or> TrimSpace claimed = ''localhost'')) \<and>
    (\<forall>r rest claimed. rq_TLS r = Some (peer_certificate master # rest) \<longrightarrow> TrimSpace claimed \<noteq> '''' \<longrightarrow>
       (validateWorkerPeerIdentity r claimed = None \<longleftrightarrow> TrimSpace claimed = ''localhost''))"
proof -
  obtain worker master ca where h: "h w' = worker # master # ca # h w" "ct_CommonName worker = worker_certificate_name workerID"
      "ct_DNSNames worker = [''localhost'']" "ct_CommonName master = ''wasmcat-master''" "ct_DNSNames master = [''localhost'']"
    using GenerateCAAndCerts_signs [OF assms] by blast
  then show ?thesis using peer_identity
    by - (rule exI [of _ worker], rule exI [of _ master], rule exI [of _ ca], auto simp: worker_certificate_name_def)
qed

section \<open>How the programs end\<close>


section \<open>Examples\<close>

theorem worker_answers_are_final_witness:
  "\<exists>resp s'. handleInvoke worker_env_a invoke_a server_a = Some (Replied resp, s') \<and> rs_Status resp \<in> {200, 400, 405}"
proof -
  have "\<forall>i \<ge> 9. sc_done (wv_schedule worker_env_a) i" "neutral_schedule (wv_schedule worker_env_a)"
    by (simp_all add: worker_env_a_def schedule_a_def neutral_schedule_def)
  moreover have "sv_Engine server_a = Some engine_a" "engine_wf engine_a"
    by (simp_all add: server_a_def engine_a_def new_engine_wf)
  ultimately show ?thesis using worker_answers_are_final [of server_a engine_a 9 worker_env_a invoke_a undefined] by blast
qed

text \<open>A worker whose module prints \<open>out\<close>, and a completion encoded as its result.\<close>

definition long_env :: "string \<Rightarrow> (string, string, (http_call \<times> http_reply go_result) list) worker_env" where
  "long_env out = worker_env_a\<lparr>wv_engine := (wv_engine worker_env_a)\<lparr>en_wazero := (en_wazero (wv_engine worker_env_a))
      \<lparr>wz_command := (\<lambda>c p w. (([Stdout out], Exited 0), w))\<rparr>\<rparr>,
     wv_marshal := (\<lambda>c. Inr (case jc_Response c of None \<Rightarrow> '''' | Some x \<Rightarrow> resp_Result x))\<rparr>"

definition long_engine :: "string WasmEngine" where
  "long_engine = NewWasmEngineWithLimits (DefaultLimits\<lparr>MaxModuleBytes := 8\<rparr>)"

lemma long_fetch: "case FetchAndCacheWithDigest (wv_engine (long_env out)) schedule_a ''m'' ''u'' [] [] (others schedule_a 0 (long_engine\<lparr>we_sem := 1\<rparr>)) [] of
   Some (None, i, e, w) \<Rightarrow> (case cachedCompiledModule (ModuleCacheKey_String (cache_key ''m'' ''u'' [])) (sc_clock schedule_a i) (others schedule_a i e) of
       (Some c, e) \<Rightarrow> resolveModuleABI (en_wazero (wv_engine (long_env out))) [] c ''m'' = Inr ModuleABIWASI \<and> MaxOutputBytes (we_limits e) = 2 ^ 20
     | _ \<Rightarrow> False) | _ \<Rightarrow> False"
  by code_simp

lemma long_run:
  assumes "length out \<le> 2 ^ 20" "MaxOutputBytes l = 2 ^ 20" "resolveModuleABI (en_wazero (wv_engine (long_env out))) [] c ''m'' = Inr ModuleABIWASI"
  shows "run_module (wv_engine (long_env out)) l [] c ''m'' p w = (Inr out, w)"
  using assms by (simp add: run_module_def runWASIModule_def long_env_def new_cappedBuffer_def cappedBuffer_Write_def)

lemma long_execute:
  assumes "length out \<le> 2 ^ 20"
  shows "\<exists>e' w'. ExecuteWithDigestAndABI (wv_engine (long_env out)) schedule_a ''m'' ''u'' [] ''hi'' [] [] long_engine [] = Some (Inr out, e', w')"
proof -
  have "int (length ''hi'') \<le> MaxPayloadBytes (we_limits long_engine)" "acquire_slot long_engine = Some (long_engine\<lparr>we_sem := 1\<rparr>)" "\<not> sc_refuse schedule_a"
    by code_simp+
  then show ?thesis using long_fetch [of out] long_run [OF assms]
    by (auto simp: ExecuteWithDigestAndABI_def execute_in_slot_def split: option.splits prod.splits)
qed

lemma long_invoke:
  assumes "length out \<le> 2 ^ 20"
  shows "\<exists>resp s' x. handleInvoke (long_env out) invoke_a (server_a\<lparr>sv_Engine := Some long_engine\<rparr>) = Some (Replied resp, s') \<and>
    rs_Value resp = JExec x \<and> resp_Result x = out"
proof -
  let ?s = "server_a\<lparr>sv_Engine := Some long_engine\<rparr>"
  have d: "map_sum id (\<lambda>req. (req_ModuleName req, req_ModuleURL req, req_ModuleDigest req, req_Payload req, req_JITBearerToken req, req_ModuleABI req))
      (decode_invoke worker_env_a (add64 (MaxPayloadBytes (we_limits long_engine)) 4096) ''hi'') = Inr (''m'', ''u'', [], ''hi'', [], [])"
    by code_simp
  have "wv_decode (long_env out) = wv_decode worker_env_a" "wv_random (long_env out) = wv_random worker_env_a"
    by (simp_all add: long_env_def worker_env_a_def)
  then have "decode_invoke (long_env out) l b = decode_invoke worker_env_a l b" for l b
    unfolding decode_invoke_def by (simp only:)
  then obtain req where req: "decode_invoke (long_env out) (add64 (MaxPayloadBytes (we_limits long_engine)) 4096) ''hi'' = Inr req"
      "req_ModuleName req = ''m''" "req_ModuleURL req = ''u''" "req_ModuleDigest req = []" "req_Payload req = ''hi''"
      "req_JITBearerToken req = []" "req_ModuleABI req = []"
    using d by (cases "decode_invoke worker_env_a (add64 (MaxPayloadBytes (we_limits long_engine)) 4096) ''hi''") auto
  obtain e' w' where "ExecuteWithDigestAndABI (wv_engine (long_env out)) schedule_a ''m'' ''u'' [] ''hi'' [] [] long_engine [] = Some (Inr out, e', w')"
    using long_execute [OF assms] by blast
  moreover have "wv_schedule (long_env out) = schedule_a" by (simp add: long_env_def worker_env_a_def)
  moreover have "rq_Body invoke_a = ''hi''" "RequireMethod invoke_a MethodPost = None" "sv_world server_a = []"
    by (simp_all add: invoke_a_def RequireMethod_def MethodPost_def server_a_def)
  ultimately show ?thesis using req
    by (simp add: handleInvoke_def RequireMethod_def invoke_engine_def finish_invoke_def Let_def)
qed

theorem large_result_not_recorded_witness:
  "\<exists>resp s' x url payload rest. handleInvoke (long_env (replicate 5000 (CHR ''x''))) invoke_a (server_a\<lparr>sv_Engine := Some long_engine\<rparr>) =
       Some (Replied resp, s') \<and> rs_Value resp = JExec x \<and>
     map fst (sv_world s') = completion_call url payload # rest \<and>
     handleJobCompletion (gateway_env_a\<lparr>ge_decode_completion := (\<lambda>limit body. if int (length body) > limit then BodyTooLarge else BadJSON)\<rparr>)
       (call_as ''wasmcat-worker-w'' ''POST'' ''/internal/jobs/complete''\<lparr>rq_Body := payload\<rparr>) (gateway_a [] (Some db_a)) =
       (Replied (WriteError 413 ''request_body_too_large'' None), gateway_a [] (Some db_a))"
proof -
  let ?out = "replicate 5000 (CHR ''x'')" and ?s = "server_a\<lparr>sv_Engine := Some long_engine\<rparr>"
  let ?master = "gateway_env_a\<lparr>ge_decode_completion := (\<lambda>limit body. if int (length body) > limit then BodyTooLarge else BadJSON)\<rparr>"
  have "length ?out \<le> 2 ^ 20" by simp
  from long_invoke [OF this] obtain resp s' x where i: "handleInvoke (long_env ?out) invoke_a ?s = Some (Replied resp, s')"
      "rs_Value resp = JExec x" "resp_Result x = ?out" by blast
  have net: "records (en_net (wv_engine (long_env ?out))) id" "quiet (en_net (wv_engine (long_env ?out))) id"
    "\<And>c. \<exists>p. wv_marshal (long_env ?out) c = Inr p" "\<And>u. wv_NewRequest (long_env ?out) u = None" "wv_client (long_env ?out) = None"
    by (simp_all add: long_env_def worker_env_a_def records_def quiet_def)
  have url: "TrimRight (CHR ''/'') (TrimSpace (sv_MasterURL ?s)) \<noteq> []" by code_simp
  have long: "4096 < length (resp_Result x)" by (simp add: i(3))
  have json: "length (resp_Result y) \<le> length payload" if "jc_Response c = Some y" "wv_marshal (long_env ?out) c = Inr payload" for c y payload
    using that by (auto simp: long_env_def)
  have limit: "ge_decode_completion ?master internalControlMaxBodyBytes payload = BodyTooLarge"
    if "wv_marshal (long_env ?out) c = Inr payload" "internalControlMaxBodyBytes < int (length payload)" for c payload
    using that(2) by simp
  have "\<exists>url payload rest. map fst (id (sv_world s')) = completion_call url payload # rest \<and>
    (\<forall>call db. rq_Method call = MethodPost \<longrightarrow> rq_Body call = payload \<longrightarrow> gw_JobStore (gateway_a [] (Some db_a)) = Some db \<longrightarrow>
       handleJobCompletion ?master call (gateway_a [] (Some db_a)) = (Replied (WriteError 413 ''request_body_too_large'' None), gateway_a [] (Some db_a)))"
    by (rule large_result_not_recorded [OF net(1,2) url net(3-5) i(1,2) long]) (rule json limit; assumption)+
  then obtain url payload rest where r: "map fst (id (sv_world s')) = completion_call url payload # rest"
    "\<forall>call db. rq_Method call = MethodPost \<longrightarrow> rq_Body call = payload \<longrightarrow> gw_JobStore (gateway_a [] (Some db_a)) = Some db \<longrightarrow>
       handleJobCompletion ?master call (gateway_a [] (Some db_a)) = (Replied (WriteError 413 ''request_body_too_large'' None), gateway_a [] (Some db_a))"
    by (elim exE conjE) (rule that)
  have "handleJobCompletion ?master (call_as ''wasmcat-worker-w'' ''POST'' ''/internal/jobs/complete''\<lparr>rq_Body := payload\<rparr>) (gateway_a [] (Some db_a)) =
       (Replied (WriteError 413 ''request_body_too_large'' None), gateway_a [] (Some db_a))"
    by (rule r(2) [rule_format]) (simp_all add: call_as_def MethodPost_def gateway_a_def)
  with i(1,2) r(1) show ?thesis
    by - (rule exI [of _ resp], rule exI [of _ s'], rule exI [of _ x], rule exI [of _ url], rule exI [of _ payload], rule exI [of _ rest], simp)
qed

theorem durable_dispatch_race_witness:
  "\<exists>job db1 s db2. beginDurableJob gateway_env_a 3 request_a empty_db = (Starts job, db1) \<and>
     s = snd (RecoverOnce recovery_a \<lparr>rs_db = db1, rs_metrics = None, rs_world = []\<rparr>) \<and> rs_world s = [request_a] \<and>
     MarkDispatching (ge_clock gateway_env_a 4) ''a'' '''' 9 (rs_db s) = (None, db2)"
proof -
  have e: "ge_store gateway_env_a = plain_env" "r_env recovery_a = plain_env" by (simp_all add: gateway_env_a_def recovery_a_def)
  have db: "db_faults empty_db = []" "find_row empty_db (req_RequestID request_a) = None"
    "\<forall>row \<in> set (db_rows empty_db). \<not> recoverable_row (r_clock recovery_a []) row"
    by (simp_all add: empty_db_def find_row_def)
  have "ge_fingerprint gateway_env_a request_a = Inr ''m''" "r_env recovery_a = ge_store gateway_env_a"
    "marshal_request (ge_store gateway_env_a) request_a = Inr ''a''" "unmarshal_request (ge_store gateway_env_a) ''a'' = Inr request_a"
    "\<And>req w. id (snd (r_dispatch recovery_a req w)) = req # id w"
    unfolding e by (simp_all add: gateway_env_a_def recovery_a_def plain_env_def request_a_def)
  from durable_dispatch_race [where h = id and w = "[]" and n = 3 and m = None and lease = 9, OF db this] show ?thesis
    by (simp add: request_a_def)
qed

text \<open>Keys are numbers, and the state is the list of the templates that were signed.\<close>

definition crypto_a :: "(nat, cert_template list) crypto" where
  "crypto_a = \<lparr>cr_files = \<lparr>fi_MkdirAll = (\<lambda>_ w. (None, w)), fi_Stat = (\<lambda>_ _. Missing), fi_ReadFile = (\<lambda>_ _. NoFile), fi_WriteFile = (\<lambda>_ _ w. (None, w))\<rparr>,
     cr_now = (\<lambda>_. 0), cr_GenerateKey = (\<lambda>w. (Inr 1, w)), cr_RandInt = (\<lambda>w. (Inr 7, w)),
     cr_CreateCertificate = (\<lambda>t p k s w. (Inr (ct_CommonName t), t # w)), cr_ParseCertificate = (\<lambda>d. Inr (ca_template 7 0 0)), cr_MarshalKey = (\<lambda>_. ''key''),
     cr_Create = (\<lambda>_ w. (None, w)), cr_Encode = (\<lambda>_ _ _ w. (None, w))\<rparr>"

theorem generated_certificate_identity_witness:
  "\<exists>w' worker master ca. GenerateCAAndCerts crypto_a ''certs'' ''w'' [] = (Value (), w') \<and> w' = [worker, master, ca] \<and>
     validateWorkerPeerIdentity (invoke_a\<lparr>rq_TLS := Some [peer_certificate master]\<rparr>) ''localhost'' = None \<and>
     validateWorkerPeerIdentity (invoke_a\<lparr>rq_TLS := Some [peer_certificate master]\<rparr>) ''w'' \<noteq> None"
proof -
  have "signs crypto_a id" by (simp add: signs_def crypto_a_def)
  moreover obtain w' where r: "GenerateCAAndCerts crypto_a ''certs'' ''w'' [] = (Value (), w')"
  proof -
    have "case GenerateCAAndCerts crypto_a ''certs'' ''w'' [] of (Value (), w') \<Rightarrow> True | _ \<Rightarrow> False" by code_simp
    then show ?thesis using that by (auto split: prod.splits outcome.splits)
  qed
  ultimately obtain worker master ca where g: "id w' = worker # master # ca # id []"
    "\<forall>r rest claimed. rq_TLS r = Some (peer_certificate master # rest) \<longrightarrow> TrimSpace claimed \<noteq> '''' \<longrightarrow>
       (validateWorkerPeerIdentity r claimed = None \<longleftrightarrow> TrimSpace claimed = ''localhost'')"
    using generated_certificate_identity [of crypto_a id "''certs''" "''w''" "[]"] by blast
  have t: "TrimSpace ''localhost'' = ''localhost''" "TrimSpace ''w'' = ''w''" by code_simp+
  show ?thesis
    by (rule exI [of _ w'], rule exI [of _ worker], rule exI [of _ master], rule exI [of _ ca]) (use r g t in simp)
qed











end
